(* ===== verification/Prelude.thy ===== *)
theory Prelude
  imports Main "HOL-Library.Word" "HOL-Library.Char_ord" "HOL-Library.List_Lexorder"
begin

text \<open>
  Shared vocabulary of the development: the result type of fallible Rust code, the ordered
  collections of the Rust standard library (\<open>BTreeMap\<close> and \<open>BTreeSet\<close>, as association
  lists and lists in key order), checked and saturating machine arithmetic, and the list
  lemmas that the component theories share.

  A \<open>BTreeMap\<close> is the list of its entries in iteration order.  Lookup and insertion are
  total on any list; the order invariant \<open>bm_wf\<close> is what makes iteration order and equality
  canonical.  The interface \<open>ordered_map\<close> states the contract the clients use, and \<open>bm\<close> is
  its interpretation on the list representation.
\<close>

section \<open>Automation of the development\<close>

named_theorems journal_simps \<open>lookup and extension of acknowledged scheduler records\<close>
named_theorems sched_defs \<open>definitions of the scheduler's atomic steps\<close>

section \<open>Machine integers\<close>

type_synonym u8 = "8 word"
type_synonym u32 = "32 word"
type_synonym u64 = "64 word"

text \<open>\<open>usize\<close> on the supported 64-bit targets; lengths are natural numbers below this bound.\<close>

definition usize_max :: nat where
  "usize_max = 2 ^ 64 - 1"

definition usize_saturating_add :: "nat \<Rightarrow> nat \<Rightarrow> nat" where
  "usize_saturating_add a b = min (a + b) usize_max"

definition checked_add :: "'a::len word \<Rightarrow> 'a word \<Rightarrow> 'a word option" where
  "checked_add a b = (if unat a + unat b < 2 ^ LENGTH('a) then Some (a + b) else None)"

definition checked_mul :: "'a::len word \<Rightarrow> 'a word \<Rightarrow> 'a word option" where
  "checked_mul a b = (if unat a * unat b < 2 ^ LENGTH('a) then Some (a * b) else None)"

lemma checked_add_Some_unat:
  "checked_add a b = Some c \<Longrightarrow> unat c = unat a + unat b"
  by (auto simp: checked_add_def unat_word_ariths split: if_splits)

lemma checked_mul_Some_unat:
  "checked_mul a b = Some c \<Longrightarrow> unat c = unat a * unat b"
  by (auto simp: checked_mul_def unat_word_ariths split: if_splits)

lemma saturating_add_le: "usize_saturating_add a b \<le> usize_max"
  by (simp add: usize_saturating_add_def)

lemma saturating_add_le_boundD:
  assumes "usize_saturating_add a b \<le> n" and "n < usize_max"
  shows "a + b \<le> n"
  using assms by (auto simp: usize_saturating_add_def min_def split: if_splits)

section \<open>Ordered maps and sets\<close>

text \<open>The laws of an ordered map that clients of \<open>std::collections::BTreeMap\<close> rely on.\<close>

locale ordered_map =
  fixes empty :: "'m"
    and insert :: "'k::linorder \<Rightarrow> 'v \<Rightarrow> 'm \<Rightarrow> 'm"
    and get :: "'m \<Rightarrow> 'k \<Rightarrow> 'v option"
    and entries :: "'m \<Rightarrow> ('k \<times> 'v) list"
    and wf :: "'m \<Rightarrow> bool"
  assumes get_empty: "get empty k = None"
    and get_insert: "get (insert k v m) k' = (if k' = k then Some v else get m k')"
    and wf_empty: "wf empty"
    and wf_insert: "wf m \<Longrightarrow> wf (insert k v m)"
    and wf_sorted: "wf m \<Longrightarrow> sorted_wrt (<) (map fst (entries m))"
    and get_entries: "wf m \<Longrightarrow> get m k = Some v \<longleftrightarrow> (k, v) \<in> set (entries m)"
begin

lemma get_fold_insert:
  "get (fold (\<lambda>(k, v). insert k v) kvs m) k =
     (case map_of (rev kvs) k of Some v \<Rightarrow> Some v | None \<Rightarrow> get m k)"
  by (induction kvs arbitrary: m) (auto simp: get_insert map_add_def split: option.splits)

lemma wf_fold_insert: "wf m \<Longrightarrow> wf (fold (\<lambda>(k, v). insert k v) kvs m)"
  by (induction kvs arbitrary: m) (auto simp: wf_insert)

lemma entries_ext:
  assumes "wf m" and "wf m'" and "\<And>k. get m k = get m' k"
  shows "entries m = entries m'"
proof -
  have dist: "\<And>m. wf m \<Longrightarrow> distinct (entries m)"
    using wf_sorted by (metis distinct_map strict_sorted_iff)
  have srt: "\<And>m. wf m \<Longrightarrow> sorted (map fst (entries m))"
    using wf_sorted by (metis strict_sorted_iff)
  have inj: "inj_on fst (set (entries m))"
    using wf_sorted[OF assms(1)] by (metis distinct_map strict_sorted_iff)
  have "set (entries m) = set (entries m')"
    using get_entries[OF assms(1)] get_entries[OF assms(2)] assms(3) by auto
  then show ?thesis
    using map_sorted_distinct_set_unique[OF _ srt[OF assms(1)] _ srt[OF assms(2)]]
      inj dist[OF assms(1)] dist[OF assms(2)]
    by (metis assms(1,2) distinct_map strict_sorted_iff sup.idem wf_sorted)
qed

end

type_synonym ('k, 'v) btree_map = "('k \<times> 'v) list"
type_synonym 'a btree_set = "'a list"

fun bm_insert :: "'k::linorder \<Rightarrow> 'v \<Rightarrow> ('k, 'v) btree_map \<Rightarrow> ('k, 'v) btree_map" where
  "bm_insert k v [] = [(k, v)]"
| "bm_insert k v ((k', v') # m) =
     (if k < k' then (k, v) # (k', v') # m
      else if k = k' then (k, v) # m
      else (k', v') # bm_insert k v m)"

definition bm_get :: "('k, 'v) btree_map \<Rightarrow> 'k \<Rightarrow> 'v option" where
  "bm_get m k = map_of m k"

definition bm_contains_key :: "('k, 'v) btree_map \<Rightarrow> 'k \<Rightarrow> bool" where
  "bm_contains_key m k = (bm_get m k \<noteq> None)"

definition bm_keys :: "('k, 'v) btree_map \<Rightarrow> 'k list" where
  "bm_keys m = map fst m"

definition bm_values :: "('k, 'v) btree_map \<Rightarrow> 'v list" where
  "bm_values m = map snd m"

definition bm_wf :: "('k::linorder, 'v) btree_map \<Rightarrow> bool" where
  "bm_wf m = sorted_wrt (<) (map fst m)"

text \<open>\<open>collect::<BTreeMap<_, _>>()\<close>: insertion of the pairs from first to last.\<close>

definition bm_of_list :: "('k::linorder \<times> 'v) list \<Rightarrow> ('k, 'v) btree_map" where
  "bm_of_list kvs = fold (\<lambda>(k, v). bm_insert k v) kvs []"

fun bs_insert :: "'a::linorder \<Rightarrow> 'a btree_set \<Rightarrow> 'a btree_set" where
  "bs_insert x [] = [x]"
| "bs_insert x (y # ys) = (if x < y then x # y # ys else if x = y then y # ys else y # bs_insert x ys)"

definition bs_contains :: "'a btree_set \<Rightarrow> 'a \<Rightarrow> bool" where
  "bs_contains s x = (x \<in> set s)"

definition bs_remove :: "'a \<Rightarrow> 'a btree_set \<Rightarrow> 'a btree_set" where
  "bs_remove x s = filter (\<lambda>y. y \<noteq> x) s"

definition bs_is_subset :: "'a btree_set \<Rightarrow> 'a btree_set \<Rightarrow> bool" where
  "bs_is_subset s t = list_all (\<lambda>x. x \<in> set t) s"

definition bs_wf :: "'a::linorder btree_set \<Rightarrow> bool" where
  "bs_wf s = sorted_wrt (<) s"

definition bs_of_list :: "'a::linorder list \<Rightarrow> 'a btree_set" where
  "bs_of_list xs = fold bs_insert xs []"

lemma bm_get_Nil [simp]: "bm_get [] k = None"
  by (simp add: bm_get_def)

lemma bm_get_insert [simp]:
  "bm_get (bm_insert k v m) k' = (if k' = k then Some v else bm_get m k')"
  by (induction m) (auto simp: bm_get_def)

lemma bm_get_Some_in_set: "bm_get m k = Some v \<Longrightarrow> (k, v) \<in> set m"
  by (simp add: bm_get_def map_of_SomeD)

lemma bm_get_None_iff: "bm_get m k = None \<longleftrightarrow> k \<notin> fst ` set m"
  by (simp add: bm_get_def map_of_eq_None_iff)

lemma bm_contains_key_iff: "bm_contains_key m k \<longleftrightarrow> k \<in> set (bm_keys m)"
  by (simp add: bm_contains_key_def bm_get_None_iff bm_keys_def)

lemma bm_contains_key_insert [simp]:
  "bm_contains_key (bm_insert k v m) k' \<longleftrightarrow> k' = k \<or> bm_contains_key m k'"
  by (simp add: bm_contains_key_def)

lemma bm_contains_key_Nil [simp]: "\<not> bm_contains_key [] k"
  by (simp add: bm_contains_key_def)

lemma set_bm_keys_insert [simp]: "set (bm_keys (bm_insert k v m)) = insert k (set (bm_keys m))"
  by (auto simp flip: bm_contains_key_iff)

lemma set_bm_insert_subset: "set (bm_insert k v m) \<subseteq> insert (k, v) (set m)"
  by (induction m) (auto split: if_splits)

lemma in_set_bm_insertD: "x \<in> set (bm_insert k v m) \<Longrightarrow> x = (k, v) \<or> x \<in> set m"
  using set_bm_insert_subset by fastforce

lemma fst_set_bm_insert: "fst ` set (bm_insert k v m) = insert k (fst ` set m)"
  using set_bm_keys_insert[of k v m] by (simp add: bm_keys_def)

lemma bm_wf_Nil [simp]: "bm_wf []"
  by (simp add: bm_wf_def)

lemma bm_wf_Cons: "bm_wf ((k, v) # m) \<longleftrightarrow> (\<forall>k' \<in> fst ` set m. k < k') \<and> bm_wf m"
  by (simp add: bm_wf_def)

lemma bm_wf_insert [simp]: "bm_wf m \<Longrightarrow> bm_wf (bm_insert k v m)"
proof (induction m)
  case Nil
  then show ?case by (simp add: bm_wf_def)
next
  case (Cons kv m)
  obtain k' v' where "kv = (k', v')" by force
  with Cons have "bm_wf (bm_insert k v m)" and "\<forall>k'' \<in> fst ` set m. k' < k''" and "bm_wf m"
    by (simp_all add: bm_wf_Cons)
  with \<open>kv = (k', v')\<close> show ?case
    by (cases k k' rule: linorder_cases) (auto simp: bm_wf_Cons fst_set_bm_insert)
qed

lemma bm_wf_distinct: "bm_wf m \<Longrightarrow> distinct (bm_keys m)"
  by (simp add: bm_wf_def bm_keys_def strict_sorted_iff)

lemma bm_get_iff_in_set: "bm_wf m \<Longrightarrow> bm_get m k = Some v \<longleftrightarrow> (k, v) \<in> set m"
  unfolding bm_get_def by (rule map_of_eq_Some_iff) (use bm_wf_distinct in \<open>simp add: bm_keys_def\<close>)

text \<open>The list representation meets the contract of an ordered map.\<close>

interpretation bm: ordered_map "[]" bm_insert bm_get "\<lambda>m. m" bm_wf
  by unfold_locales (simp_all add: bm_get_iff_in_set, simp add: bm_wf_def)

lemma bm_get_of_list: "bm_get (bm_of_list kvs) k = map_of (rev kvs) k"
  by (simp add: bm_of_list_def bm.get_fold_insert split: option.splits)

lemma bm_wf_of_list: "bm_wf (bm_of_list kvs)"
  by (simp add: bm_of_list_def bm.wf_fold_insert)

lemma bm_keys_of_list: "set (bm_keys (bm_of_list kvs)) = fst ` set kvs"
proof -
  have "k \<in> set (bm_keys (bm_of_list kvs)) \<longleftrightarrow> k \<in> fst ` set kvs" for k
    by (metis bm_contains_key_def bm_contains_key_iff bm_get_of_list map_of_eq_None_iff set_rev)
  then show ?thesis by blast
qed

lemma set_bs_insert [simp]: "set (bs_insert x s) = insert x (set s)"
  by (induction s) auto

lemma bs_wf_insert [simp]: "bs_wf s \<Longrightarrow> bs_wf (bs_insert x s)"
  by (induction s) (auto simp: bs_wf_def)

lemma set_bs_remove [simp]: "set (bs_remove x s) = set s - {x}"
  by (auto simp: bs_remove_def)

lemma distinct_bs_remove [simp]: "distinct s \<Longrightarrow> distinct (bs_remove x s)"
  by (simp add: bs_remove_def)

lemma length_bs_remove_less: "x \<in> set s \<Longrightarrow> length (bs_remove x s) < length s"
  by (simp add: bs_remove_def length_filter_less)

lemma length_bs_remove_le: "length (bs_remove x s) \<le> length s"
  by (simp add: bs_remove_def)

lemma set_bs_of_list_aux: "set (fold bs_insert xs s) = set xs \<union> set s"
  by (induction xs arbitrary: s) auto

lemma set_bs_of_list [simp]: "set (bs_of_list xs) = set xs"
  by (simp add: bs_of_list_def set_bs_of_list_aux)

lemma bs_wf_of_list: "bs_wf (bs_of_list xs)"
proof -
  have "bs_wf s \<Longrightarrow> bs_wf (fold bs_insert xs s)" for s
    by (induction xs arbitrary: s) auto
  then show ?thesis by (simp add: bs_of_list_def bs_wf_def)
qed

lemma bs_is_subset_iff: "bs_is_subset s t \<longleftrightarrow> set s \<subseteq> set t"
  by (auto simp: bs_is_subset_def list_all_iff)

section \<open>Fallible results\<close>

text \<open>The operator \<open>?\<close>, with the conversion of the error.\<close>

definition and_then :: "'e + 'a \<Rightarrow> ('a \<Rightarrow> 'e + 'b) \<Rightarrow> 'e + 'b" where
  "and_then r f = (case r of Inl e \<Rightarrow> Inl e | Inr x \<Rightarrow> f x)"

definition map_err :: "('e \<Rightarrow> 'f) \<Rightarrow> 'e + 'a \<Rightarrow> 'f + 'a" where
  "map_err f r = (case r of Inl e \<Rightarrow> Inl (f e) | Inr x \<Rightarrow> Inr x)"

lemma and_then_eq_Inr: "and_then r f = Inr y \<longleftrightarrow> (\<exists>x. r = Inr x \<and> f x = Inr y)"
  by (cases r) (auto simp: and_then_def)

lemma map_err_eq_Inr: "map_err f r = Inr y \<longleftrightarrow> r = Inr y"
  by (cases r) (auto simp: map_err_def)

lemma map_err_eq_Inl: "map_err f r = Inl e \<longleftrightarrow> (\<exists>x. r = Inl x \<and> e = f x)"
  by (cases r) (auto simp: map_err_def)

lemmas result_simps = and_then_eq_Inr map_err_eq_Inr map_err_eq_Inl

text \<open>\<open>collect::<Result<Vec<_>, _>>()\<close>: the first error, or all values.\<close>

fun collect_results :: "('e + 'a) list \<Rightarrow> 'e + 'a list" where
  "collect_results [] = Inr []"
| "collect_results (Inl e # rs) = Inl e"
| "collect_results (Inr x # rs) = and_then (collect_results rs) (\<lambda>xs. Inr (x # xs))"

section \<open>Traversals that may fail\<close>

text \<open>Indexing \<open>m[k]\<close> for every key of a list: \<open>None\<close> is the panic of a missing key.\<close>

fun index_all :: "('a \<Rightarrow> 'b option) \<Rightarrow> 'a list \<Rightarrow> 'b list option" where
  "index_all f [] = Some []"
| "index_all f (x # xs) =
     (case f x of None \<Rightarrow> None
      | Some y \<Rightarrow> (case index_all f xs of None \<Rightarrow> None | Some ys \<Rightarrow> Some (y # ys)))"

lemma index_all_Some_iff:
  "index_all f xs = Some ys \<longleftrightarrow> list_all2 (\<lambda>x y. f x = Some y) xs ys"
  by (induction xs arbitrary: ys) (auto simp: list_all2_Cons1 split: option.splits; metis option.inject)+

lemma index_all_map: "(\<And>x. x \<in> set xs \<Longrightarrow> f x = Some (g x)) \<Longrightarrow> index_all f xs = Some (map g xs)"
  by (induction xs) auto

lemma index_all_None_iff: "index_all f xs = None \<longleftrightarrow> (\<exists>x \<in> set xs. f x = None)"
  by (induction xs) (auto split: option.splits)

text \<open>Violation lists are built by appending one guarded entry after another.\<close>

definition report :: "bool \<Rightarrow> 'v \<Rightarrow> 'v list" where
  "report c v = (if c then [v] else [])"

lemma report_Nil_iff [simp]: "report c v = [] \<longleftrightarrow> \<not> c"
  by (simp add: report_def)

lemma set_report [simp]: "set (report c v) = (if c then {v} else {})"
  by (simp add: report_def)

definition enumerate0 :: "'a list \<Rightarrow> (nat \<times> 'a) list" where
  "enumerate0 xs = zip [0..<length xs] xs"

lemma snd_set_enumerate0: "snd ` set (enumerate0 xs) = set xs"
proof -
  have "map snd (enumerate0 xs) = xs"
    by (simp add: enumerate0_def)
  then show ?thesis
    by (metis set_map)
qed

lemma concat_map_Nil_iff: "concat (map f xs) = [] \<longleftrightarrow> (\<forall>x \<in> set xs. f x = [])"
  by auto

text \<open>A filter with at most one result has one candidate.\<close>

lemma filter_single:
  assumes "length (filter P xs) \<le> 1" "x \<in> set xs" "y \<in> set xs" "P x" "P y"
  shows "y = x"
proof -
  have "x \<in> set (filter P xs)" "y \<in> set (filter P xs)"
    using assms(2-5) by simp_all
  with assms(1) show ?thesis
    by (cases "filter P xs") auto
qed

end
