(* ===== verification/Rust_Text.thy ===== *)
theory Rust_Text
  imports Prelude
begin

text \<open>
  Rust strings as their UTF-8 bytes: a \<open>string\<close> is a list of 8-bit \<open>char\<close>s, so \<open>len()\<close> is
  \<open>length\<close> and the derived order is the byte order of \<open>str\<close>.  The theory models the parts of
  \<open>str\<close> that the program uses (\<open>trim\<close>, \<open>chars().count()\<close>) on the encoded bytes, the check
  \<open>valid_sha256\<close> and the hexadecimal encoder \<open>encode_digest\<close> of
  \<open>crates/orchestrator/src/actor_graph.rs\<close>, and shows that the encoder and the check agree.
\<close>

section \<open>White space and trimming\<close>

definition byte :: "char \<Rightarrow> nat" where
  "byte c = of_char c"

text \<open>\<open>as_bytes()\<close>\<close>

definition str_bytes :: "string \<Rightarrow> u8 list" where
  "str_bytes s = map of_char s"

text \<open>The one-byte characters with the Unicode property \<open>White_Space\<close>: U+0009 to U+000D and U+0020.\<close>

definition ascii_space :: "char \<Rightarrow> bool" where
  "ascii_space c = (byte c = 32 \<or> (9 \<le> byte c \<and> byte c \<le> 13))"

text \<open>U+0085 and U+00A0.\<close>

definition space2 :: "char \<Rightarrow> char \<Rightarrow> bool" where
  "space2 a b = (byte a = 194 \<and> (byte b = 133 \<or> byte b = 160))"

text \<open>U+1680, U+2000 to U+200A, U+2028, U+2029, U+202F, U+205F and U+3000.\<close>

definition space3 :: "char \<Rightarrow> char \<Rightarrow> char \<Rightarrow> bool" where
  "space3 a b c =
     ((byte a = 225 \<and> byte b = 154 \<and> byte c = 128)
      \<or> (byte a = 226 \<and> byte b = 128
         \<and> ((128 \<le> byte c \<and> byte c \<le> 138) \<or> byte c = 168 \<or> byte c = 169 \<or> byte c = 175))
      \<or> (byte a = 226 \<and> byte b = 129 \<and> byte c = 159)
      \<or> (byte a = 227 \<and> byte b = 128 \<and> byte c = 128))"

fun trim_start :: "string \<Rightarrow> string" where
  "trim_start (a # b # c # s) =
     (if ascii_space a then trim_start (b # c # s)
      else if space2 a b then trim_start (c # s)
      else if space3 a b c then trim_start s
      else a # b # c # s)"
| "trim_start [a, b] = (if ascii_space a then trim_start [b] else if space2 a b then [] else [a, b])"
| "trim_start [a] = (if ascii_space a then [] else [a])"
| "trim_start [] = []"

text \<open>Removal from the end, on the reversed bytes.\<close>

fun trim_end_rev :: "string \<Rightarrow> string" where
  "trim_end_rev (c # b # a # s) =
     (if ascii_space c then trim_end_rev (b # a # s)
      else if space2 b c then trim_end_rev (a # s)
      else if space3 a b c then trim_end_rev s
      else c # b # a # s)"
| "trim_end_rev [c, b] = (if ascii_space c then trim_end_rev [b] else if space2 b c then [] else [c, b])"
| "trim_end_rev [c] = (if ascii_space c then [] else [c])"
| "trim_end_rev [] = []"

definition trim :: "string \<Rightarrow> string" where
  "trim s = rev (trim_end_rev (rev (trim_start s)))"

text \<open>\<open>value.trim().is_empty()\<close>\<close>

definition is_blank :: "string \<Rightarrow> bool" where
  "is_blank s = (trim s = [])"

text \<open>\<open>chars().count()\<close> counts the bytes that do not continue a UTF-8 sequence.\<close>

definition chars_count :: "string \<Rightarrow> nat" where
  "chars_count s = length (filter (\<lambda>c. \<not> (128 \<le> byte c \<and> byte c < 192)) s)"

lemma chars_count_le: "chars_count s \<le> length s"
  by (simp add: chars_count_def)

lemma trim_Nil [simp]: "trim [] = []"
  by (simp add: trim_def)

lemma is_blank_Nil [simp]: "is_blank []"
  by (simp add: is_blank_def)

lemma not_blank_not_empty: "\<not> is_blank s \<Longrightarrow> s \<noteq> []"
  by auto

section \<open>Digests\<close>

definition HEX :: string where
  "HEX = ''0123456789abcdef''"

definition is_ascii_digit :: "char \<Rightarrow> bool" where
  "is_ascii_digit c = (48 \<le> byte c \<and> byte c \<le> 57)"

definition valid_sha256 :: "string \<Rightarrow> bool" where
  "valid_sha256 value =
     (length value = 64
      \<and> list_all (\<lambda>b. is_ascii_digit b \<or> (97 \<le> byte b \<and> byte b \<le> 102)) value)"

definition hex_of_byte :: "u8 \<Rightarrow> string" where
  "hex_of_byte b = [HEX ! unat (drop_bit 4 b), HEX ! unat (take_bit 4 b)]"

definition encode_digest :: "u8 list \<Rightarrow> string" where
  "encode_digest digest = concat (map hex_of_byte digest)"

text \<open>
  \<open>canonical_json_digest\<close>: the serializer (\<open>serde_json\<close>) and the hash function (\<open>sha2\<close>) are
  third-party code.  The serializer's result (an error message or the bytes) and the hash
  function are parameters.
\<close>

definition canonical_json_digest ::
  "(u8 list \<Rightarrow> u8 list) \<Rightarrow> string + u8 list \<Rightarrow> string + string" where
  "canonical_json_digest sha256 serialized =
     (case serialized of Inl e \<Rightarrow> Inl e | Inr bytes \<Rightarrow> Inr (encode_digest (sha256 bytes)))"

lemma length_encode_digest [simp]: "length (encode_digest ds) = 2 * length ds"
  by (induction ds) (auto simp: encode_digest_def hex_of_byte_def)

lemma HEX_nibble:
  assumes "n < 16"
  shows "is_ascii_digit (HEX ! n) \<or> (97 \<le> byte (HEX ! n) \<and> byte (HEX ! n) \<le> 102)"
proof -
  have "\<forall>n \<in> {0..<16}. is_ascii_digit (HEX ! n) \<or> (97 \<le> byte (HEX ! n) \<and> byte (HEX ! n) \<le> 102)"
    by (simp add: HEX_def is_ascii_digit_def byte_def atLeastLessThan_nat_numeral)
  with assms show ?thesis
    by simp
qed

lemma unat_high_nibble: "unat (drop_bit 4 (b :: u8)) = unat b div 16"
  by (simp add: drop_bit_eq_div unat_div_distrib)

lemma unat_low_nibble: "unat (take_bit 4 (b :: u8)) = unat b mod 16"
  by (simp add: take_bit_eq_mod unat_mod_distrib)

lemma high_nibble_bound: "unat (drop_bit 4 (b :: u8)) < 16"
proof -
  have "unat b < 256"
    using unsigned_less[of b] by simp
  then show ?thesis
    by (simp add: unat_high_nibble)
qed

lemma low_nibble_bound: "unat (take_bit 4 (b :: u8)) < 16"
  by (simp add: unat_low_nibble)

lemma hex_of_byte_valid:
  "list_all (\<lambda>c. is_ascii_digit c \<or> (97 \<le> byte c \<and> byte c \<le> 102)) (hex_of_byte b)"
  using HEX_nibble[OF high_nibble_bound] HEX_nibble[OF low_nibble_bound]
  by (simp add: hex_of_byte_def)

lemma encode_digest_hex:
  "list_all (\<lambda>c. is_ascii_digit c \<or> (97 \<le> byte c \<and> byte c \<le> 102)) (encode_digest ds)"
proof (induction ds)
  case Nil
  show ?case by (simp add: encode_digest_def)
next
  case (Cons d ds)
  then show ?case
    using hex_of_byte_valid[of d] by (simp add: encode_digest_def)
qed

lemma HEX_inj: "i < 16 \<Longrightarrow> j < 16 \<Longrightarrow> HEX ! i = HEX ! j \<Longrightarrow> i = j"
proof -
  assume "i < 16" "j < 16" "HEX ! i = HEX ! j"
  moreover have "distinct HEX" and "length HEX = 16"
    by (simp_all add: HEX_def)
  ultimately show "i = j"
    by (simp add: nth_eq_iff_index_eq)
qed

lemma hex_of_byte_inj: "hex_of_byte a = hex_of_byte b \<Longrightarrow> a = b"
proof -
  assume "hex_of_byte a = hex_of_byte b"
  then have "unat (drop_bit 4 a) = unat (drop_bit 4 b)" and "unat (take_bit 4 a) = unat (take_bit 4 b)"
    using HEX_inj high_nibble_bound low_nibble_bound by (auto simp: hex_of_byte_def)
  then have "unat a div 16 = unat b div 16" and "unat a mod 16 = unat b mod 16"
    by (simp_all add: unat_high_nibble unat_low_nibble)
  then have "unat a = unat b"
    by (metis div_mult_mod_eq)
  then show "a = b"
    by (rule unsigned_word_eqI)
qed

lemma encode_digest_inj: "encode_digest xs = encode_digest ys \<Longrightarrow> xs = ys"
proof (induction xs arbitrary: ys)
  case Nil
  then show ?case
    by (cases ys) (simp_all add: encode_digest_def hex_of_byte_def)
next
  case (Cons x xs)
  then obtain y ys' where ys: "ys = y # ys'"
    by (cases ys) (simp_all add: encode_digest_def hex_of_byte_def)
  with Cons.prems have "hex_of_byte x = hex_of_byte y" and "encode_digest xs = encode_digest ys'"
    by (simp_all add: encode_digest_def hex_of_byte_def)
  with Cons.IH ys show ?case
    using hex_of_byte_inj by blast
qed

lemma encode_digest_valid: "length ds = 32 \<Longrightarrow> valid_sha256 (encode_digest ds)"
  by (simp add: valid_sha256_def encode_digest_hex)

end
