(* ===== verification/Actor_Model.thy ===== *)
theory Actor_Model
  imports Rust_Text
begin

text \<open>
  The data model of the actor-graph kernel, \<open>crates/orchestrator/src/actor_graph.rs\<close>: identifiers,
  the planner's proposal (\<open>ActorGraph\<close>), the trusted envelope (\<open>ActorGraphPolicy\<close>), the violations
  of validation, worker results and hand-offs, and the records of the scheduler journal.

  UUIDs are natural numbers (only equality and order are used), wrapped per identifier type as in
  the source.  Opaque identifiers and free text are strings.  Sizes of collections (\<open>usize\<close>) are
  natural numbers, every other integer keeps its width.
\<close>

section \<open>Limits\<close>

definition ACTOR_GRAPH_SCHEMA_VERSION :: u32 where
  "ACTOR_GRAPH_SCHEMA_VERSION = 2"

definition HARD_MAX_WORK_ORDERS :: nat where
  "HARD_MAX_WORK_ORDERS = 1024"

definition HARD_MAX_POLICY_LEASES :: nat where
  "HARD_MAX_POLICY_LEASES = 2048"

definition HARD_MAX_MODEL_PROFILES :: nat where
  "HARD_MAX_MODEL_PROFILES = 1024"

definition HARD_MAX_CAPABILITIES :: nat where
  "HARD_MAX_CAPABILITIES = 4096"

definition HARD_MAX_TOTAL_CAPABILITY_REFERENCES :: nat where
  "HARD_MAX_TOTAL_CAPABILITY_REFERENCES = 32768"

definition HARD_MAX_DEPENDENCIES :: nat where
  "HARD_MAX_DEPENDENCIES = 256"

definition HARD_MAX_REVIEWS :: nat where
  "HARD_MAX_REVIEWS = 256"

definition HARD_MAX_GRAPH_TEXT_BYTES :: nat where
  "HARD_MAX_GRAPH_TEXT_BYTES = 16 * 1024 * 1024"

definition MAX_OBJECTIVE_BYTES :: nat where
  "MAX_OBJECTIVE_BYTES = 256 * 1024"

definition MAX_ACCEPTANCE_CRITERIA :: nat where
  "MAX_ACCEPTANCE_CRITERIA = 256"

definition MAX_ACCEPTANCE_CRITERION_BYTES :: nat where
  "MAX_ACCEPTANCE_CRITERION_BYTES = 32 * 1024"

definition MAX_ASSIGNMENT_ID_BYTES :: nat where
  "MAX_ASSIGNMENT_ID_BYTES = 512"

definition MAX_HANDOFF_SUMMARY_BYTES :: nat where
  "MAX_HANDOFF_SUMMARY_BYTES = 256 * 1024"

definition MAX_FAILURE_MESSAGE_BYTES :: nat where
  "MAX_FAILURE_MESSAGE_BYTES = 256 * 1024"

definition MAX_HANDOFF_REFERENCES :: nat where
  "MAX_HANDOFF_REFERENCES = 512"

definition MAX_EVIDENCE_ID_BYTES :: nat where
  "MAX_EVIDENCE_ID_BYTES = 512"

lemmas limit_defs =
  HARD_MAX_WORK_ORDERS_def HARD_MAX_POLICY_LEASES_def HARD_MAX_MODEL_PROFILES_def
  HARD_MAX_CAPABILITIES_def HARD_MAX_TOTAL_CAPABILITY_REFERENCES_def HARD_MAX_DEPENDENCIES_def
  HARD_MAX_REVIEWS_def HARD_MAX_GRAPH_TEXT_BYTES_def MAX_OBJECTIVE_BYTES_def
  MAX_ACCEPTANCE_CRITERIA_def MAX_ACCEPTANCE_CRITERION_BYTES_def MAX_ASSIGNMENT_ID_BYTES_def
  MAX_HANDOFF_SUMMARY_BYTES_def MAX_FAILURE_MESSAGE_BYTES_def MAX_HANDOFF_REFERENCES_def
  MAX_EVIDENCE_ID_BYTES_def

section \<open>Identifiers\<close>

type_synonym uuid = nat

datatype WorkOrderId = WorkOrderId uuid
datatype ActorId = ActorId uuid
datatype ExecutionId = ExecutionId uuid
datatype AttemptId = AttemptId uuid
datatype HandoffId = HandoffId uuid
datatype SchedulerEventId = SchedulerEventId uuid

text \<open>The derived orders of the two identifier types that are keys of ordered maps.\<close>

instantiation WorkOrderId :: linorder
begin

fun less_eq_WorkOrderId :: "WorkOrderId \<Rightarrow> WorkOrderId \<Rightarrow> bool" where
  "less_eq_WorkOrderId (WorkOrderId a) (WorkOrderId b) = (a \<le> b)"

fun less_WorkOrderId :: "WorkOrderId \<Rightarrow> WorkOrderId \<Rightarrow> bool" where
  "less_WorkOrderId (WorkOrderId a) (WorkOrderId b) = (a < b)"

instance
proof
  fix x y z :: WorkOrderId
  show "(x < y) = (x \<le> y \<and> \<not> y \<le> x)" by (cases x; cases y) auto
  show "x \<le> x" by (cases x) simp
  show "x \<le> y \<Longrightarrow> y \<le> z \<Longrightarrow> x \<le> z" by (cases x; cases y; cases z) simp
  show "x \<le> y \<Longrightarrow> y \<le> x \<Longrightarrow> x = y" by (cases x; cases y) simp
  show "x \<le> y \<or> y \<le> x" by (cases x; cases y) auto
qed

end

instantiation SchedulerEventId :: linorder
begin

fun less_eq_SchedulerEventId :: "SchedulerEventId \<Rightarrow> SchedulerEventId \<Rightarrow> bool" where
  "less_eq_SchedulerEventId (SchedulerEventId a) (SchedulerEventId b) = (a \<le> b)"

fun less_SchedulerEventId :: "SchedulerEventId \<Rightarrow> SchedulerEventId \<Rightarrow> bool" where
  "less_SchedulerEventId (SchedulerEventId a) (SchedulerEventId b) = (a < b)"

instance
proof
  fix x y z :: SchedulerEventId
  show "(x < y) = (x \<le> y \<and> \<not> y \<le> x)" by (cases x; cases y) auto
  show "x \<le> x" by (cases x) simp
  show "x \<le> y \<Longrightarrow> y \<le> z \<Longrightarrow> x \<le> z" by (cases x; cases y; cases z) simp
  show "x \<le> y \<Longrightarrow> y \<le> x \<Longrightarrow> x = y" by (cases x; cases y) simp
  show "x \<le> y \<or> y \<le> x" by (cases x; cases y) auto
qed

end

text \<open>The opaque identifiers: non-empty strings of at most 512 bytes, checked by \<open>new\<close>.\<close>

type_synonym CapabilityId = string
type_synonym RoleId = string
type_synonym CandidateGroupId = string
type_synonym WorkspaceLeaseId = string
type_synonym ModelProfileId = string

section \<open>Proposal and policy\<close>

record ModelLineage =
  ml_backend_id :: string
  ml_model_id :: string
  ml_deployment_id :: string
  ml_independence_domain_id :: string

record AgentAssignment =
  aa_role_id :: RoleId
  aa_model_profile_id :: ModelProfileId
  aa_lineage :: ModelLineage

record PermissionGrant =
  pg_capabilities :: "CapabilityId btree_set"

definition is_subset_of :: "PermissionGrant \<Rightarrow> PermissionGrant \<Rightarrow> bool" where
  "is_subset_of self parent = bs_is_subset (pg_capabilities self) (pg_capabilities parent)"

datatype WorkspaceAccess = ReadOnly | Write

fun permits :: "WorkspaceAccess \<Rightarrow> WorkspaceAccess \<Rightarrow> bool" where
  "permits self child = (self = Write \<or> child = ReadOnly)"

datatype WorkspaceSourceBinding =
    BrokeredRepositorySnapshotV1 (snapshot_sha256: string)
  | GitCleanCommittedHeadV1 (git_baseline_sha256: string)

fun digest_sha256 :: "WorkspaceSourceBinding \<Rightarrow> string" where
  "digest_sha256 (BrokeredRepositorySnapshotV1 d) = d"
| "digest_sha256 (GitCleanCommittedHeadV1 d) = d"

fun supports_write :: "WorkspaceSourceBinding \<Rightarrow> bool" where
  "supports_write (BrokeredRepositorySnapshotV1 _) = False"
| "supports_write (GitCleanCommittedHeadV1 _) = True"

record WorkspaceGrant =
  wg_lease_id :: WorkspaceLeaseId
  wg_source :: WorkspaceSourceBinding
  wg_access :: WorkspaceAccess

record WorkspaceLeasePolicy =
  lp_source :: WorkspaceSourceBinding
  lp_access :: WorkspaceAccess

record AgentBudget =
  ab_max_output_tokens :: u64
  ab_max_tool_calls :: u64
  ab_max_wall_time_ms :: u64
  ab_max_cleanup_time_ms :: u64
  ab_max_attempts :: u32

record ActorGraphLimits =
  gl_max_work_orders :: u32
  gl_max_parallel :: u32
  gl_max_total_attempts :: u64
  gl_max_total_output_tokens :: u64
  gl_max_total_tool_calls :: u64
  gl_max_total_wall_time_ms :: u64

record ActorGraphPolicy =
  gp_policy_version :: string
  gp_plan_input_snapshot_sha256 :: string
  gp_root_permissions :: PermissionGrant
  gp_limits :: ActorGraphLimits
  gp_require_reported_token_usage :: bool
  gp_workspace_leases :: "(WorkspaceLeaseId, WorkspaceLeasePolicy) btree_map"
  gp_model_profiles :: "(ModelProfileId, ModelLineage) btree_map"

record WorkOrder =
  wo_id :: WorkOrderId
  wo_objective :: string
  wo_acceptance_criteria :: "string list"
  wo_dependencies :: "WorkOrderId btree_set"
  wo_candidate_group :: "CandidateGroupId option"
  wo_priority :: "32 word"
  wo_context_manifest_sha256 :: string
  wo_assignment :: AgentAssignment
  wo_permissions :: PermissionGrant
  wo_workspace :: WorkspaceGrant
  wo_budget :: AgentBudget
  wo_reviews :: "WorkOrderId btree_set"

record ActorGraph =
  ag_schema_version :: u32
  ag_plan_input_snapshot_sha256 :: string
  ag_work_orders :: "WorkOrder list"

text \<open>
  The collections of a deserialized work order are ordered sets: an invariant of the Rust types,
  which the theorems that need it state as a hypothesis.
\<close>

definition work_order_wf :: "WorkOrder \<Rightarrow> bool" where
  "work_order_wf order = (bs_wf (wo_dependencies order) \<and> bs_wf (wo_reviews order))"

section \<open>Violations\<close>

datatype (plugins only: code size) ActorGraphViolation =
    UnsupportedSchemaVersion u32
  | EmptyPolicyVersion
  | PolicyVersionTooLarge nat nat
  | PolicyWorkspaceLeaseLimitExceeded nat nat
  | PolicyModelProfileLimitExceeded nat nat
  | RootCapabilityLimitExceeded nat nat
  | TotalCapabilityReferenceLimitExceeded nat nat
  | InvalidWorkspaceLeasePolicy WorkspaceLeaseId
  | InvalidModelProfilePolicy ModelProfileId
  | InvalidPolicySnapshotDigest
  | InvalidSnapshotDigest
  | RootSnapshotMismatch
  | EmptyGraph
  | WorkOrderLimitExceeded u32 nat
  | HardWorkOrderLimitExceeded nat nat
  | GraphTextLimitExceeded nat nat
  | InvalidParallelLimit
  | EmptyObjective WorkOrderId
  | ObjectiveTooLarge WorkOrderId nat nat
  | EmptyAcceptanceCriteria WorkOrderId
  | AcceptanceCriteriaLimitExceeded WorkOrderId nat nat
  | AcceptanceCriterionTooLarge WorkOrderId nat nat nat
  | InvalidAssignment WorkOrderId string
  | UnknownModelProfile WorkOrderId ModelProfileId
  | ModelLineageMismatch WorkOrderId ModelProfileId
  | InvalidContextManifestDigest WorkOrderId
  | InvalidBudget WorkOrderId
  | DependencyLimitExceeded WorkOrderId nat nat
  | ReviewLimitExceeded WorkOrderId nat nat
  | CapabilityLimitExceeded WorkOrderId nat nat
  | DuplicateWorkOrder WorkOrderId
  | UnknownDependency WorkOrderId WorkOrderId
  | SelfDependency WorkOrderId
  | DependencyCycle "WorkOrderId list"
  | AuthorityExpansion WorkOrderId
  | UnknownWorkspaceLease WorkOrderId WorkspaceLeaseId
  | WorkspaceLeaseMismatch WorkOrderId WorkspaceLeaseId
  | InvalidWorkspaceSourceDigest WorkOrderId
  | SharedWriterLease WorkspaceLeaseId
  | WorkspaceExecutionProfileUnsupported WorkOrderId WorkspaceSourceBinding WorkspaceAccess u32
  | CandidateSnapshotMismatch CandidateGroupId
  | CandidateGroupTooSmall CandidateGroupId nat
  | CandidateDependency CandidateGroupId WorkOrderId WorkOrderId
  | CandidateContractMismatch CandidateGroupId
  | CandidateSharedWorkspaceLease CandidateGroupId WorkspaceLeaseId
  | UnknownReviewTarget WorkOrderId WorkOrderId
  | ReviewMissingDependency WorkOrderId WorkOrderId
  | ReviewerHasWriteWorkspace WorkOrderId
  | ReviewerLineageConflict WorkOrderId WorkOrderId
  | UngatedReviewDependency WorkOrderId WorkOrderId
  | UngatedReviewedTargetDependency WorkOrderId WorkOrderId
  | BudgetOverflow
  | AttemptBudgetExceeded u64 u64
  | OutputTokenBudgetExceeded u64 u64
  | MissingOutputTokenUsage
  | ToolCallBudgetExceeded u64 u64
  | WallTimeBudgetExceeded u64 u64

datatype ActorGraphValidationError =
    Identifier string string
  | Violations "ActorGraphViolation list"
  | Encoding string

definition opaque_id_new :: "string \<Rightarrow> string \<Rightarrow> ActorGraphValidationError + string" where
  "opaque_id_new field value =
     (if value = [] \<or> length value > 512
      then Inl (Identifier field ''must contain between 1 and 512 bytes'')
      else Inr value)"

record ValidatedActorGraph =
  vg_graph :: ActorGraph
  vg_policy :: ActorGraphPolicy
  vg_digest_sha256 :: string

end
