(* ===== verification/Dependency_Graph.thy ===== *)
theory Dependency_Graph
  imports Actor_Model
begin

text \<open>
  The dependency analysis of \<open>crates/orchestrator/src/actor_graph.rs\<close>: the work-list search
  \<open>dependency_reachable\<close> and the depth-first search \<open>dependency_cycle\<close>.  The first is shown to
  decide reachability along dependency edges.  The second is shown to return always, to report
  only real cycles, and to report none exactly when the dependency relation is acyclic.

  The recursion of \<open>visit\<close> is bounded by a fuel argument.  \<open>None\<close> stands for running out of fuel and
  for the panic of \<open>orders[&id]\<close>; the fuel given by \<open>dependency_cycle\<close>, one more than the number
  of work orders, is shown to be enough.
\<close>

type_synonym order_map = "(WorkOrderId, WorkOrder) btree_map"

section \<open>The two searches\<close>

text \<open>The head of \<open>pending\<close> is the top of the vector, the entry that \<open>pop\<close> returns.\<close>

function reach_loop ::
  "WorkOrderId \<Rightarrow> order_map \<Rightarrow> WorkOrderId list \<Rightarrow> WorkOrderId btree_set \<Rightarrow> bool" where
  "reach_loop target orders [] visited = False"
| "reach_loop target orders (current # rest) visited =
     (if bs_contains visited current then reach_loop target orders rest visited
      else case bm_get orders current of
        None \<Rightarrow> reach_loop target orders rest (bs_insert current visited)
      | Some order \<Rightarrow>
          (if target \<in> set (wo_dependencies order) then True
           else reach_loop target orders
             (rev (filter (bm_contains_key orders) (wo_dependencies order)) @ rest)
             (bs_insert current visited)))"
  by pat_completeness auto
termination
proof (relation "measures [\<lambda>(t, orders, p, v). card (set (bm_keys orders) - set v), \<lambda>(t, orders, p, v). length p]")
  fix target :: WorkOrderId and orders :: order_map and current rest visited order
  assume nv: "\<not> bs_contains visited current" and "bm_get orders current = Some (order :: WorkOrder)"
  then have "current \<in> set (bm_keys orders) - set visited"
    by (auto simp: bs_contains_def bm_contains_key_def simp flip: bm_contains_key_iff)
  then have "card (set (bm_keys orders) - set (bs_insert current visited)) < card (set (bm_keys orders) - set visited)"
    by (intro psubset_card_mono) auto
  then show "((target, orders, rev (filter (bm_contains_key orders) (wo_dependencies order)) @ rest,
      bs_insert current visited), target, orders, current # rest, visited)
    \<in> measures [\<lambda>(t, orders, p, v). card (set (bm_keys orders) - set v), \<lambda>(t, orders, p, v). length p]"
    by simp
next
  fix target :: WorkOrderId and orders :: order_map and current rest visited
  have "card (set (bm_keys orders) - set (bs_insert current visited)) \<le> card (set (bm_keys orders) - set visited)"
    by (intro card_mono) auto
  then show "((target, orders, rest, bs_insert current visited), target, orders, current # rest, visited)
    \<in> measures [\<lambda>(t, orders, p, v). card (set (bm_keys orders) - set v), \<lambda>(t, orders, p, v). length p]"
    by auto
qed auto

definition dependency_reachable :: "WorkOrderId \<Rightarrow> WorkOrderId \<Rightarrow> order_map \<Rightarrow> bool" where
  "dependency_reachable from target orders = reach_loop target orders [from] []"

datatype DependencyVisit = Visiting | Visited

type_synonym visit_states = "(WorkOrderId, DependencyVisit) btree_map"

text \<open>How the loop over the dependencies of one node ends: an early \<open>return\<close>, or falling through.\<close>

datatype visit_exit =
    VisitReturn "WorkOrderId list option" visit_states "WorkOrderId list"
  | VisitDone visit_states "WorkOrderId list"

definition position :: "'a \<Rightarrow> 'a list \<Rightarrow> nat option" where
  "position x xs = (if x \<in> set xs then Some (length (takeWhile (\<lambda>y. y \<noteq> x) xs)) else None)"

fun visit ::
  "nat \<Rightarrow> WorkOrderId \<Rightarrow> order_map \<Rightarrow> visit_states \<Rightarrow> WorkOrderId list
     \<Rightarrow> (WorkOrderId list option \<times> visit_states \<times> WorkOrderId list) option"
and visit_dependencies ::
  "nat \<Rightarrow> WorkOrderId list \<Rightarrow> order_map \<Rightarrow> visit_states \<Rightarrow> WorkOrderId list \<Rightarrow> visit_exit option"
where
  "visit 0 node orders states stack = None"
| "visit (Suc n) node orders states stack =
     (case bm_get orders node of None \<Rightarrow> None
      | Some order \<Rightarrow>
          (case visit_dependencies n (wo_dependencies order) orders
                  (bm_insert node Visiting states) (stack @ [node]) of
             None \<Rightarrow> None
           | Some (VisitReturn cycle states' stack') \<Rightarrow> Some (cycle, states', stack')
           | Some (VisitDone states' stack') \<Rightarrow>
               Some (None, bm_insert node Visited states', butlast stack')))"
| "visit_dependencies n [] orders states stack = Some (VisitDone states stack)"
| "visit_dependencies n (dependency # ds) orders states stack =
     (if \<not> bm_contains_key orders dependency then visit_dependencies n ds orders states stack
      else case bm_get states dependency of
        Some Visiting \<Rightarrow>
          (case position dependency stack of
             None \<Rightarrow> Some (VisitReturn None states stack)
           | Some start \<Rightarrow> Some (VisitReturn (Some (drop start stack)) states stack))
      | Some Visited \<Rightarrow> visit_dependencies n ds orders states stack
      | None \<Rightarrow>
          (case visit n dependency orders states stack of
             None \<Rightarrow> None
           | Some (Some cycle, states', stack') \<Rightarrow> Some (VisitReturn (Some cycle) states' stack')
           | Some (None, states', stack') \<Rightarrow> visit_dependencies n ds orders states' stack'))"

fun cycle_scan ::
  "nat \<Rightarrow> WorkOrderId list \<Rightarrow> order_map \<Rightarrow> visit_states \<Rightarrow> WorkOrderId list
     \<Rightarrow> WorkOrderId list option option" where
  "cycle_scan n [] orders states stack = Some None"
| "cycle_scan n (node # ids) orders states stack =
     (if bm_contains_key states node then cycle_scan n ids orders states stack
      else case visit n node orders states stack of
        None \<Rightarrow> None
      | Some (Some cycle, states', stack') \<Rightarrow> Some (Some cycle)
      | Some (None, states', stack') \<Rightarrow> cycle_scan n ids orders states' stack')"

definition dependency_cycle :: "order_map \<Rightarrow> WorkOrderId list option option" where
  "dependency_cycle orders = cycle_scan (Suc (length orders)) (bm_keys orders) orders [] []"

section \<open>The dependency relation\<close>

definition dep_edge :: "order_map \<Rightarrow> (WorkOrderId \<times> WorkOrderId) set" where
  "dep_edge orders = {(a, b). \<exists>order. bm_get orders a = Some order \<and> b \<in> set (wo_dependencies order)}"

text \<open>Edges between work orders of the graph.\<close>

definition known_edge :: "order_map \<Rightarrow> (WorkOrderId \<times> WorkOrderId) set" where
  "known_edge orders = {(a, b) \<in> dep_edge orders. bm_contains_key orders b}"

definition is_dependency_cycle :: "order_map \<Rightarrow> WorkOrderId list \<Rightarrow> bool" where
  "is_dependency_cycle orders c =
     (c \<noteq> [] \<and> successively (\<lambda>a b. (a, b) \<in> dep_edge orders) c \<and> (last c, hd c) \<in> dep_edge orders)"

lemma dep_edge_source_known: "(a, b) \<in> dep_edge orders \<Longrightarrow> bm_contains_key orders a"
  by (auto simp: dep_edge_def bm_contains_key_def)

lemma trancl_dep_edge_source_known: "(a, b) \<in> (dep_edge orders)\<^sup>+ \<Longrightarrow> bm_contains_key orders a"
  by (meson dep_edge_source_known tranclD)

lemma successively_trancl:
  "successively (\<lambda>a b. (a, b) \<in> r) (x # xs) \<Longrightarrow> y \<in> set (x # xs) \<Longrightarrow> (x, y) \<in> r\<^sup>*"
proof (induction xs arbitrary: x)
  case (Cons z zs)
  then show ?case
    by (cases "y = x") (auto intro: converse_rtrancl_into_rtrancl)
qed simp

lemma dependency_cycle_not_acyclic:
  assumes "is_dependency_cycle orders c"
  shows "\<not> acyclic (dep_edge orders)"
proof -
  obtain x xs where c: "c = x # xs"
    using assms by (cases c) (auto simp: is_dependency_cycle_def)
  with assms have "(x, last c) \<in> (dep_edge orders)\<^sup>*" and "(last c, x) \<in> dep_edge orders"
    using successively_trancl[of "dep_edge orders" x xs "last c"]
    by (auto simp: is_dependency_cycle_def)
  then have "(x, x) \<in> (dep_edge orders)\<^sup>+"
    by (rule rtrancl_into_trancl1)
  then show ?thesis
    by (auto simp: acyclic_def)
qed

section \<open>Reachability\<close>

lemma reach_loop_sound:
  "reach_loop target orders pending visited \<Longrightarrow> \<exists>p \<in> set pending. (p, target) \<in> (dep_edge orders)\<^sup>+"
proof (induction target orders pending visited rule: reach_loop.induct)
  case (2 target orders current rest visited)
  show ?case
  proof (cases "bs_contains visited current")
    case True
    with 2 show ?thesis by auto
  next
    case False
    show ?thesis
    proof (cases "bm_get orders current")
      case None
      with 2 False show ?thesis by auto
    next
      case (Some order)
      show ?thesis
      proof (cases "target \<in> set (wo_dependencies order)")
        case True
        with Some show ?thesis by (auto simp: dep_edge_def)
      next
        case nt: False
        from 2(4) False Some nt have "reach_loop target orders
            (rev (filter (bm_contains_key orders) (wo_dependencies order)) @ rest) (bs_insert current visited)"
          by simp
        from 2(3)[OF False Some nt this] consider
            p where "p \<in> set rest" "(p, target) \<in> (dep_edge orders)\<^sup>+"
          | p where "(current, p) \<in> dep_edge orders" "(p, target) \<in> (dep_edge orders)\<^sup>+"
          using Some by (auto simp: dep_edge_def)
        then show ?thesis
          by cases (auto intro: trancl_into_trancl2)
      qed
    qed
  qed
qed simp

text \<open>Every visited node is processed: its known successors are queued and none is the target.\<close>

definition reach_inv :: "WorkOrderId \<Rightarrow> order_map \<Rightarrow> WorkOrderId list \<Rightarrow> WorkOrderId btree_set \<Rightarrow> bool" where
  "reach_inv target orders pending visited =
     (\<forall>v b. v \<in> set visited \<longrightarrow> (v, b) \<in> dep_edge orders \<longrightarrow>
        b \<noteq> target \<and> (bm_contains_key orders b \<longrightarrow> b \<in> set visited \<union> set pending))"

lemma reach_loop_complete:
  "\<not> reach_loop target orders pending visited \<Longrightarrow> reach_inv target orders pending visited
   \<Longrightarrow> x \<in> set visited \<union> set pending \<Longrightarrow> (x, target) \<notin> (dep_edge orders)\<^sup>+"
proof (induction target orders pending visited arbitrary: x rule: reach_loop.induct)
  case (1 target orders visited)
  have "(x, target) \<in> (dep_edge orders)\<^sup>+ \<Longrightarrow> x \<in> set visited \<Longrightarrow> False"
  proof (induction x rule: converse_trancl_induct)
    case (base y)
    with 1(2) show ?case by (auto simp: reach_inv_def)
  next
    case (step y z)
    then have "bm_contains_key orders z"
      by (auto dest: trancl_dep_edge_source_known)
    with step 1(2) show ?case by (auto simp: reach_inv_def)
  qed
  with 1(3) show ?case by auto
next
  case (2 target orders current rest visited)
  show ?case
  proof (cases "bs_contains visited current")
    case True
    with 2(4-6) show ?thesis
      by (intro 2(1)) (auto simp: reach_inv_def bs_contains_def)
  next
    case False
    show ?thesis
    proof (cases "bm_get orders current")
      case None
      with 2(4-6) False show ?thesis
        by (intro 2(2)) (auto simp: reach_inv_def dep_edge_def)
    next
      case (Some order)
      with False 2(4) have nt: "target \<notin> set (wo_dependencies order)" by auto
      have "reach_inv target orders
          (rev (filter (bm_contains_key orders) (wo_dependencies order)) @ rest) (bs_insert current visited)"
        using 2(5) Some nt by (fastforce simp: reach_inv_def dep_edge_def)
      with 2(4,6) False Some nt show ?thesis
        by (intro 2(3)[OF False Some nt]) auto
    qed
  qed
qed

lemma dependency_reachable_iff:
  "dependency_reachable from target orders \<longleftrightarrow> (from, target) \<in> (dep_edge orders)\<^sup>+"
  using reach_loop_sound[of target orders "[from]" "[]"]
    reach_loop_complete[of target orders "[from]" "[]" "from"]
  by (auto simp: dependency_reachable_def reach_inv_def simp del: reach_loop.simps)

section \<open>Cycle detection\<close>

text \<open>
  The state of the search: the stack holds exactly the nodes being visited, in a path of known
  edges; the finished nodes are closed under known edges and lie on no cycle.
\<close>

definition black :: "visit_states \<Rightarrow> WorkOrderId set" where
  "black states = {v. bm_get states v = Some Visited}"

definition white :: "order_map \<Rightarrow> visit_states \<Rightarrow> WorkOrderId set" where
  "white orders states = {v. bm_contains_key orders v \<and> bm_get states v = None}"

definition visit_inv :: "order_map \<Rightarrow> visit_states \<Rightarrow> WorkOrderId list \<Rightarrow> bool" where
  "visit_inv orders states stack =
     ({v. bm_get states v = Some Visiting} = set stack
      \<and> distinct stack
      \<and> successively (\<lambda>a b. (a, b) \<in> known_edge orders) stack
      \<and> (\<forall>a b. (a, b) \<in> known_edge orders \<longrightarrow> a \<in> black states \<longrightarrow> b \<in> black states)
      \<and> (\<forall>v \<in> black states. (v, v) \<notin> (known_edge orders)\<^sup>+))"

lemma finite_white: "finite (white orders states)"
  by (rule finite_subset[of _ "set (bm_keys orders)"]) (auto simp: white_def bm_contains_key_iff)

lemma white_mark: "white orders (bm_insert v s states) = white orders states - {v}"
  by (auto simp: white_def)

lemma black_closed_trancl:
  assumes "visit_inv orders states stack" and "a \<in> black states" and "(a, b) \<in> (known_edge orders)\<^sup>+"
  shows "b \<in> black states"
  using assms(3,2,1) by (induction rule: trancl_induct) (auto simp: visit_inv_def)

lemma visit_inv_gray: "visit_inv orders states stack \<Longrightarrow> bm_get states v = Some Visiting \<longleftrightarrow> v \<in> set stack"
  unfolding visit_inv_def by blast

lemma visit_inv_push:
  assumes "visit_inv orders states stack" and "bm_get states v = None"
    and "stack = [] \<or> (last stack, v) \<in> known_edge orders"
  shows "visit_inv orders (bm_insert v Visiting states) (stack @ [v])"
proof -
  have "black (bm_insert v Visiting states) = black states"
    using assms(2) by (auto simp: black_def)
  moreover have "{u. bm_get (bm_insert v Visiting states) u = Some Visiting} = insert v (set stack)"
    using assms(1) by (auto simp: visit_inv_def)
  moreover have "v \<notin> set stack"
    using visit_inv_gray[OF assms(1), of v] assms(2) by simp
  ultimately show ?thesis
    using assms(1,3) by (auto simp: visit_inv_def successively_append_iff)
qed

lemma visit_inv_finish:
  assumes "visit_inv orders states (stack @ [v])"
    and succ: "\<And>b. (v, b) \<in> known_edge orders \<Longrightarrow> b \<in> black states"
  shows "visit_inv orders (bm_insert v Visited states) stack"
proof -
  have v: "v \<notin> set stack" "v \<notin> black states"
    using assms(1) visit_inv_gray[OF assms(1), of v] by (auto simp: visit_inv_def black_def)
  have blk: "black (bm_insert v Visited states) = insert v (black states)"
    by (auto simp: black_def)
  have "(v, v) \<notin> (known_edge orders)\<^sup>+"
  proof
    assume "(v, v) \<in> (known_edge orders)\<^sup>+"
    then obtain b where b: "(v, b) \<in> known_edge orders" "b = v \<or> (b, v) \<in> (known_edge orders)\<^sup>+"
      by (metis converse_tranclE)
    with succ v black_closed_trancl[OF assms(1)] show False by blast
  qed
  moreover have "{u. bm_get (bm_insert v Visited states) u = Some Visiting} = set stack"
    using assms(1) v by (auto simp: visit_inv_def)
  ultimately show ?thesis
    using assms v by (auto simp: visit_inv_def blk successively_append_iff)
qed

lemma position_cycle:
  assumes "visit_inv orders states stack" and "stack \<noteq> []"
    and "(last stack, d) \<in> known_edge orders" and "position d stack = Some start"
  shows "is_dependency_cycle orders (drop start stack)"
proof -
  from assms(4) have d: "d \<in> set stack" and start: "start = length (takeWhile (\<lambda>y. y \<noteq> d) stack)"
    by (auto simp: position_def split: if_splits)
  have dw: "drop start stack = dropWhile (\<lambda>y. y \<noteq> d) stack"
    unfolding start by (rule dropWhile_eq_drop[symmetric])
  from d have ne: "dropWhile (\<lambda>y. y \<noteq> d) stack \<noteq> []"
    by (simp add: dropWhile_eq_Nil_conv)
  then have "hd (drop start stack) = d"
    using hd_dropWhile[of "\<lambda>y. y \<noteq> d" stack] dw by auto
  moreover have "last (drop start stack) = last stack"
    using ne dw by (metis last_drop drop_eq_Nil2 not_le)
  moreover have "successively (\<lambda>a b. (a, b) \<in> known_edge orders) (take start stack @ drop start stack)"
    using assms(1) by (simp add: visit_inv_def)
  then have "successively (\<lambda>a b. (a, b) \<in> known_edge orders) (drop start stack)"
    unfolding successively_append_iff by blast
  then have "successively (\<lambda>a b. (a, b) \<in> dep_edge orders) (drop start stack)"
    by (rule successively_mono) (auto simp: known_edge_def)
  ultimately show ?thesis
    using assms(3) ne dw by (auto simp: is_dependency_cycle_def known_edge_def)
qed

text \<open>What one call of \<open>visit\<close> and one run of its loop achieve when the fuel exceeds the unvisited nodes.\<close>

definition visit_post ::
  "order_map \<Rightarrow> visit_states \<Rightarrow> WorkOrderId list \<Rightarrow> WorkOrderId set \<Rightarrow> visit_states \<Rightarrow> WorkOrderId list \<Rightarrow> bool" where
  "visit_post orders states stack targets states' stack' =
     (stack' = stack \<and> visit_inv orders states' stack \<and> black states \<subseteq> black states'
      \<and> white orders states' \<subseteq> white orders states \<and> targets \<subseteq> black states')"

lemma visit_post_trans:
  "visit_post orders st0 sk0 A st1 sk1 \<Longrightarrow> visit_post orders st1 sk1 B st2 sk2
   \<Longrightarrow> visit_post orders st0 sk0 (A \<union> B) st2 sk2"
  unfolding visit_post_def by blast

lemma visit_correct:
  "\<lbrakk>card (white orders states) < n; bm_contains_key orders node; bm_get states node = None;
    visit_inv orders states stack; stack = [] \<or> (last stack, node) \<in> known_edge orders\<rbrakk>
   \<Longrightarrow> (\<exists>c st sk. visit n node orders states stack = Some (Some c, st, sk) \<and> is_dependency_cycle orders c)
     \<or> (\<exists>st sk. visit n node orders states stack = Some (None, st, sk)
          \<and> visit_post orders states stack {node} st sk)"
  and visit_dependencies_correct:
  "\<lbrakk>card (white orders states) < n; visit_inv orders states stack; stack \<noteq> [];
    \<forall>d \<in> set ds. (last stack, d) \<in> dep_edge orders\<rbrakk>
   \<Longrightarrow> (\<exists>c st sk. visit_dependencies n ds orders states stack = Some (VisitReturn (Some c) st sk)
          \<and> is_dependency_cycle orders c)
     \<or> (\<exists>st sk. visit_dependencies n ds orders states stack = Some (VisitDone st sk)
          \<and> visit_post orders states stack {d \<in> set ds. bm_contains_key orders d} st sk)"
proof (induction n node orders states stack and n ds orders states stack rule: visit_visit_dependencies.induct)
  case (1 node orders states stack)
  then show ?case by simp
next
  case (2 n node orders states stack)
  then obtain order where order: "bm_get orders node = Some order"
    by (auto simp: bm_contains_key_def)
  let ?st = "bm_insert node Visiting states"
  have white_lt: "card (white orders ?st) < n"
  proof -
    have "node \<in> white orders states"
      using 2(3,4) by (simp add: white_def)
    then have "card (white orders ?st) < card (white orders states)"
      unfolding white_mark by (rule card_Diff1_less[OF finite_white])
    with 2(2) show ?thesis by linarith
  qed
  have inv: "visit_inv orders ?st (stack @ [node])"
    using visit_inv_push 2(4-6) by blast
  have edges: "\<forall>d \<in> set (wo_dependencies order). (last (stack @ [node]), d) \<in> dep_edge orders"
    using order by (auto simp: dep_edge_def)
  from 2(1)[OF order white_lt inv _ edges] consider
      c st sk where "visit_dependencies n (wo_dependencies order) orders ?st (stack @ [node])
          = Some (VisitReturn (Some c) st sk)" "is_dependency_cycle orders c"
    | st sk where "visit_dependencies n (wo_dependencies order) orders ?st (stack @ [node])
          = Some (VisitDone st sk)"
        "visit_post orders ?st (stack @ [node]) {d \<in> set (wo_dependencies order). bm_contains_key orders d} st sk"
    by blast
  then show ?case
  proof cases
    case 1
    with order show ?thesis by auto
  next
    case 2
    then have post: "visit_inv orders st (stack @ [node])" "sk = stack @ [node]"
        "black ?st \<subseteq> black st" "white orders st \<subseteq> white orders ?st"
      and succ: "\<And>b. (node, b) \<in> known_edge orders \<Longrightarrow> b \<in> black st"
      using order by (auto simp: visit_post_def known_edge_def dep_edge_def)
    have "visit_inv orders (bm_insert node Visited st) stack"
      using visit_inv_finish[OF post(1) succ] by blast
    moreover have "black states \<subseteq> black (bm_insert node Visited st)" "node \<in> black (bm_insert node Visited st)"
      "white orders (bm_insert node Visited st) \<subseteq> white orders states"
      using post(3,4) by (auto simp: black_def white_mark)
    ultimately have "visit_post orders states stack {node} (bm_insert node Visited st) (butlast sk)"
      by (simp add: visit_post_def post(2))
    with 2 order show ?thesis by auto
  qed
next
  case (3 n orders states stack)
  then show ?case by (simp add: visit_post_def)
next
  case (4 n d ds orders states stack)
  show ?case
  proof (cases "bm_contains_key orders d")
    case False
    then have "{e \<in> set (d # ds). bm_contains_key orders e} = {e \<in> set ds. bm_contains_key orders e}"
      by auto
    with False 4(1)[OF False] 4(5-8) show ?thesis by simp
  next
    case True
    then have edge: "(last stack, d) \<in> known_edge orders"
      using 4(8) by (simp add: known_edge_def)
    consider (gray) "bm_get states d = Some Visiting" | (finished) "bm_get states d = Some Visited"
      | (fresh) "bm_get states d = None"
      by (metis DependencyVisit.exhaust option.exhaust)
    then show ?thesis
    proof cases
      case gray
      then have "d \<in> set stack"
        using 4(6) by (auto simp: visit_inv_def)
      then obtain start where "position d stack = Some start"
        by (auto simp: position_def)
      with gray True position_cycle[OF 4(6,7) edge] show ?thesis by auto
    next
      case finished
      then have "d \<in> black states" by (simp add: black_def)
      with finished True 4(4)[of Visited] 4(5-8) show ?thesis
        by (auto simp: visit_post_def)
    next
      case fresh
      from 4(2)[OF _ fresh 4(5) True fresh 4(6)] True edge consider
          c st sk where "visit n d orders states stack = Some (Some c, st, sk)" "is_dependency_cycle orders c"
        | st sk where "visit n d orders states stack = Some (None, st, sk)"
            "visit_post orders states stack {d} st sk"
        by auto
      then show ?thesis
      proof cases
        case 1
        with fresh True show ?thesis by auto
      next
        case 2
        then have post: "visit_inv orders st stack" "sk = stack" "black states \<subseteq> black st"
            "white orders st \<subseteq> white orders states" "d \<in> black st"
          by (auto simp: visit_post_def)
        have lt: "card (white orders st) < n"
          using 4(5) card_mono[OF finite_white post(4)] by linarith
        have "(\<exists>c st' sk'. visit_dependencies n ds orders st sk = Some (VisitReturn (Some c) st' sk')
                \<and> is_dependency_cycle orders c)
            \<or> (\<exists>st' sk'. visit_dependencies n ds orders st sk = Some (VisitDone st' sk')
                \<and> visit_post orders st sk {d \<in> set ds. bm_contains_key orders d} st' sk')"
          using 4(3)[of "(None, st, sk)" None "(st, sk)" st sk] True fresh 2(1) lt post 4(7,8) by auto
        moreover have "{e \<in> set (d # ds). bm_contains_key orders e}
            = {d} \<union> {e \<in> set ds. bm_contains_key orders e}"
          using True by auto
        ultimately show ?thesis
          using 2 True fresh visit_post_trans[OF 2(2)] by auto
      qed
    qed
  qed
qed

lemma cycle_scan_correct:
  assumes "visit_inv orders states []" and "length orders < n"
    and "set ids \<subseteq> set (bm_keys orders)"
    and "\<And>v. bm_contains_key orders v \<Longrightarrow> v \<in> set ids \<or> v \<in> black states"
  shows "(\<exists>c. cycle_scan n ids orders states [] = Some (Some c) \<and> is_dependency_cycle orders c)
    \<or> (cycle_scan n ids orders states [] = Some None \<and> acyclic (known_edge orders))"
  using assms
proof (induction ids arbitrary: states)
  case Nil
  have "(v, v) \<notin> (known_edge orders)\<^sup>+" for v
  proof
    assume cyc: "(v, v) \<in> (known_edge orders)\<^sup>+"
    then have "bm_contains_key orders v"
      using tranclD[OF cyc] by (auto simp: known_edge_def dest: dep_edge_source_known)
    with Nil.prems cyc show False
      by (auto simp: visit_inv_def)
  qed
  then show ?case by (simp add: acyclic_def)
next
  case (Cons node ids)
  have no_gray: "bm_get states v \<noteq> Some Visiting" for v
    using visit_inv_gray[OF Cons.prems(1), of v] by simp
  show ?case
  proof (cases "bm_contains_key states node")
    case True
    then have "node \<in> black states"
      using no_gray by (auto simp: black_def bm_contains_key_def) (metis DependencyVisit.exhaust)
    with True Cons show ?thesis by auto
  next
    case False
    have "card (white orders states) \<le> card (set (bm_keys orders))"
      by (intro card_mono) (auto simp: white_def bm_contains_key_iff)
    also have "\<dots> \<le> length orders"
      using card_length[of "bm_keys orders"] by (simp add: bm_keys_def)
    finally have "card (white orders states) < n"
      using Cons.prems(2) by linarith
    moreover have "bm_contains_key orders node"
      using Cons.prems(3) by (simp add: bm_contains_key_iff)
    ultimately consider
        c st sk where "visit n node orders states [] = Some (Some c, st, sk)" "is_dependency_cycle orders c"
      | st where "visit n node orders states [] = Some (None, st, [])"
          "visit_post orders states [] {node} st []"
      using visit_correct[of orders states n node "[]"] Cons.prems(1) False
      by (auto simp: bm_contains_key_def visit_post_def)
    then show ?thesis
    proof cases
      case 1
      with False show ?thesis by auto
    next
      case 2
      then have "visit_inv orders st []" and "black states \<subseteq> black st" and "node \<in> black st"
        by (auto simp: visit_post_def)
      then have "(\<exists>c. cycle_scan n ids orders st [] = Some (Some c) \<and> is_dependency_cycle orders c)
          \<or> (cycle_scan n ids orders st [] = Some None \<and> acyclic (known_edge orders))"
        using Cons.prems by (intro Cons.IH) auto
      with 2 False show ?thesis by auto
    qed
  qed
qed

lemma acyclic_known_edge_iff: "acyclic (known_edge orders) \<longleftrightarrow> acyclic (dep_edge orders)"
proof
  assume known: "acyclic (known_edge orders)"
  have "(a, b) \<in> (known_edge orders)\<^sup>+"
    if "(a, b) \<in> (dep_edge orders)\<^sup>+" and "bm_contains_key orders b" for a b
    using that
  proof (induction rule: converse_trancl_induct)
    case (base y)
    then show ?case by (auto simp: known_edge_def)
  next
    case (step y z)
    then have "(y, z) \<in> known_edge orders"
      by (auto simp: known_edge_def dest: trancl_dep_edge_source_known)
    with step show ?case by (meson trancl_into_trancl2)
  qed
  with known show "acyclic (dep_edge orders)"
    by (auto simp: acyclic_def dest: trancl_dep_edge_source_known)
next
  assume "acyclic (dep_edge orders)"
  then show "acyclic (known_edge orders)"
    by (rule acyclic_subset) (auto simp: known_edge_def)
qed

lemma dependency_cycle_cases:
  "(\<exists>c. dependency_cycle orders = Some (Some c) \<and> is_dependency_cycle orders c)
    \<or> (dependency_cycle orders = Some None \<and> acyclic (dep_edge orders))"
proof -
  have "visit_inv orders [] []"
    by (simp add: visit_inv_def black_def)
  then show ?thesis
    using cycle_scan_correct[of orders "[]" "Suc (length orders)" "bm_keys orders"]
    unfolding dependency_cycle_def acyclic_known_edge_iff
    by (simp add: bm_contains_key_iff)
qed

lemma dependency_cycle_None_iff:
  "dependency_cycle orders = Some None \<longleftrightarrow> acyclic (dep_edge orders)"
  using dependency_cycle_cases[of orders] dependency_cycle_not_acyclic by auto

lemma dependency_cycle_SomeD:
  "dependency_cycle orders = Some (Some c) \<Longrightarrow> is_dependency_cycle orders c"
  using dependency_cycle_cases[of orders] by auto

end
