(* ===== verification/Actor_Validation.thy ===== *)
theory Actor_Validation
  imports Dependency_Graph
begin

text \<open>
  Validation of a proposed actor graph against the trusted policy:
  \<open>structural_limit_violations\<close>, \<open>graph_violations\<close> and \<open>ActorGraph::validate_against\<close> of
  \<open>crates/orchestrator/src/actor_graph.rs\<close>.  The source collects every violation in one pass with
  mutable accumulators; the model keeps its order of checks, its accumulators (the record
  \<open>order_scan\<close>) and its checked 64-bit arithmetic.

  The declarative specification of a valid graph, \<open>valid_actor_graph\<close>, speaks of sums of natural
  numbers, of acyclicity and of reachability.  The theory \<open>Validation_Correct\<close> proves that the
  checker reports nothing exactly for the graphs that satisfy it.
\<close>

section \<open>Structural preflight\<close>

definition order_structural_violations :: "WorkOrder \<Rightarrow> ActorGraphViolation list" where
  "order_structural_violations order =
     report (length (wo_acceptance_criteria order) > MAX_ACCEPTANCE_CRITERIA)
       (AcceptanceCriteriaLimitExceeded (wo_id order) MAX_ACCEPTANCE_CRITERIA
          (length (wo_acceptance_criteria order)))
     @ report (length (wo_dependencies order) > HARD_MAX_DEPENDENCIES)
       (DependencyLimitExceeded (wo_id order) HARD_MAX_DEPENDENCIES (length (wo_dependencies order)))
     @ report (length (wo_reviews order) > HARD_MAX_REVIEWS)
       (ReviewLimitExceeded (wo_id order) HARD_MAX_REVIEWS (length (wo_reviews order)))
     @ report (length (pg_capabilities (wo_permissions order)) > HARD_MAX_CAPABILITIES)
       (CapabilityLimitExceeded (wo_id order) HARD_MAX_CAPABILITIES
          (length (pg_capabilities (wo_permissions order))))"

definition total_capability_references :: "ActorGraph \<Rightarrow> ActorGraphPolicy \<Rightarrow> nat" where
  "total_capability_references graph policy =
     foldl (\<lambda>acc order. usize_saturating_add acc (length (pg_capabilities (wo_permissions order))))
       (length (pg_capabilities (gp_root_permissions policy))) (ag_work_orders graph)"

definition structural_limit_violations ::
  "ActorGraph \<Rightarrow> ActorGraphPolicy \<Rightarrow> ActorGraphViolation list" where
  "structural_limit_violations graph policy =
     report (length (ag_work_orders graph) > HARD_MAX_WORK_ORDERS)
       (HardWorkOrderLimitExceeded HARD_MAX_WORK_ORDERS (length (ag_work_orders graph)))
     @ report (length (gp_workspace_leases policy) > HARD_MAX_POLICY_LEASES)
       (PolicyWorkspaceLeaseLimitExceeded HARD_MAX_POLICY_LEASES (length (gp_workspace_leases policy)))
     @ report (length (gp_model_profiles policy) > HARD_MAX_MODEL_PROFILES)
       (PolicyModelProfileLimitExceeded HARD_MAX_MODEL_PROFILES (length (gp_model_profiles policy)))
     @ report (length (pg_capabilities (gp_root_permissions policy)) > HARD_MAX_CAPABILITIES)
       (RootCapabilityLimitExceeded HARD_MAX_CAPABILITIES
          (length (pg_capabilities (gp_root_permissions policy))))
     @ (if length (ag_work_orders graph) \<le> HARD_MAX_WORK_ORDERS then
          concat (map order_structural_violations (ag_work_orders graph))
          @ report (total_capability_references graph policy > HARD_MAX_TOTAL_CAPABILITY_REFERENCES)
              (TotalCapabilityReferenceLimitExceeded HARD_MAX_TOTAL_CAPABILITY_REFERENCES
                 (total_capability_references graph policy))
        else [])"

section \<open>Checks of the policy and of the graph header\<close>

definition valid_lineage :: "ModelLineage \<Rightarrow> bool" where
  "valid_lineage lineage =
     list_all (\<lambda>value. \<not> is_blank value \<and> length value \<le> MAX_ASSIGNMENT_ID_BYTES)
       [ml_backend_id lineage, ml_model_id lineage, ml_deployment_id lineage,
        ml_independence_domain_id lineage]"

definition policy_violations :: "ActorGraph \<Rightarrow> ActorGraphPolicy \<Rightarrow> ActorGraphViolation list" where
  "policy_violations graph policy =
     report (ag_schema_version graph \<noteq> ACTOR_GRAPH_SCHEMA_VERSION)
       (UnsupportedSchemaVersion (ag_schema_version graph))
     @ report (is_blank (gp_policy_version policy)) EmptyPolicyVersion
     @ report (length (gp_policy_version policy) > MAX_ASSIGNMENT_ID_BYTES)
       (PolicyVersionTooLarge MAX_ASSIGNMENT_ID_BYTES (length (gp_policy_version policy)))
     @ report (length (gp_workspace_leases policy) > HARD_MAX_POLICY_LEASES)
       (PolicyWorkspaceLeaseLimitExceeded HARD_MAX_POLICY_LEASES (length (gp_workspace_leases policy)))
     @ report (length (gp_model_profiles policy) > HARD_MAX_MODEL_PROFILES)
       (PolicyModelProfileLimitExceeded HARD_MAX_MODEL_PROFILES (length (gp_model_profiles policy)))
     @ report (length (pg_capabilities (gp_root_permissions policy)) > HARD_MAX_CAPABILITIES)
       (RootCapabilityLimitExceeded HARD_MAX_CAPABILITIES
          (length (pg_capabilities (gp_root_permissions policy))))
     @ concat (map (\<lambda>(lease_id, lease).
         report (\<not> valid_sha256 (digest_sha256 (lp_source lease))
                 \<or> (lp_access lease = Write \<and> \<not> supports_write (lp_source lease)))
           (InvalidWorkspaceLeasePolicy lease_id)) (gp_workspace_leases policy))
     @ concat (map (\<lambda>(model_profile_id, lineage).
         report (\<not> valid_lineage lineage) (InvalidModelProfilePolicy model_profile_id))
         (gp_model_profiles policy))
     @ report (\<not> valid_sha256 (gp_plan_input_snapshot_sha256 policy)) InvalidPolicySnapshotDigest
     @ report (\<not> valid_sha256 (ag_plan_input_snapshot_sha256 graph)) InvalidSnapshotDigest
     @ report (ag_plan_input_snapshot_sha256 graph \<noteq> gp_plan_input_snapshot_sha256 policy)
       RootSnapshotMismatch
     @ report (ag_work_orders graph = []) EmptyGraph
     @ report (length (ag_work_orders graph) > unat (gl_max_work_orders (gp_limits policy)))
       (WorkOrderLimitExceeded (gl_max_work_orders (gp_limits policy)) (length (ag_work_orders graph)))
     @ report (length (ag_work_orders graph) > HARD_MAX_WORK_ORDERS)
       (HardWorkOrderLimitExceeded HARD_MAX_WORK_ORDERS (length (ag_work_orders graph)))
     @ report (gl_max_parallel (gp_limits policy) = 0) InvalidParallelLimit"

section \<open>The pass over the work orders\<close>

definition assignment_fields :: "ModelLineage \<Rightarrow> (string \<times> string) list" where
  "assignment_fields lineage =
     [(''backend_id'', ml_backend_id lineage), (''model_id'', ml_model_id lineage),
      (''deployment_id'', ml_deployment_id lineage),
      (''independence_domain_id'', ml_independence_domain_id lineage)]"

definition model_profile_violations :: "ActorGraphPolicy \<Rightarrow> WorkOrder \<Rightarrow> ActorGraphViolation list" where
  "model_profile_violations policy order =
     (let assignment = wo_assignment order in
      case bm_get (gp_model_profiles policy) (aa_model_profile_id assignment) of
        None \<Rightarrow> [UnknownModelProfile (wo_id order) (aa_model_profile_id assignment)]
      | Some lineage \<Rightarrow>
          report (lineage \<noteq> aa_lineage assignment)
            (ModelLineageMismatch (wo_id order) (aa_model_profile_id assignment)))"

definition workspace_lease_violations :: "ActorGraphPolicy \<Rightarrow> WorkOrder \<Rightarrow> ActorGraphViolation list" where
  "workspace_lease_violations policy order =
     (let workspace = wo_workspace order in
      case bm_get (gp_workspace_leases policy) (wg_lease_id workspace) of
        None \<Rightarrow> [UnknownWorkspaceLease (wo_id order) (wg_lease_id workspace)]
      | Some lease \<Rightarrow>
          report (lp_source lease \<noteq> wg_source workspace
                  \<or> \<not> permits (lp_access lease) (wg_access workspace))
            (WorkspaceLeaseMismatch (wo_id order) (wg_lease_id workspace)))"

text \<open>The violations of one work order, after the check for a repeated identifier.\<close>

definition order_violations :: "ActorGraphPolicy \<Rightarrow> WorkOrder \<Rightarrow> ActorGraphViolation list" where
  "order_violations policy order =
     (let workspace = wo_workspace order; budget = wo_budget order;
          source_is_valid = valid_sha256 (digest_sha256 (wg_source workspace)) in
     report (is_blank (wo_objective order)) (EmptyObjective (wo_id order))
     @ report (length (wo_objective order) > MAX_OBJECTIVE_BYTES)
       (ObjectiveTooLarge (wo_id order) MAX_OBJECTIVE_BYTES (length (wo_objective order)))
     @ report (wo_acceptance_criteria order = [] \<or> list_ex is_blank (wo_acceptance_criteria order))
       (EmptyAcceptanceCriteria (wo_id order))
     @ report (length (wo_acceptance_criteria order) > MAX_ACCEPTANCE_CRITERIA)
       (AcceptanceCriteriaLimitExceeded (wo_id order) MAX_ACCEPTANCE_CRITERIA
          (length (wo_acceptance_criteria order)))
     @ concat (map (\<lambda>(index, criterion).
         report (length criterion > MAX_ACCEPTANCE_CRITERION_BYTES)
           (AcceptanceCriterionTooLarge (wo_id order) index MAX_ACCEPTANCE_CRITERION_BYTES
              (length criterion))) (enumerate0 (wo_acceptance_criteria order)))
     @ concat (map (\<lambda>(field, value).
         report (is_blank value \<or> length value > MAX_ASSIGNMENT_ID_BYTES)
           (InvalidAssignment (wo_id order) field)) (assignment_fields (aa_lineage (wo_assignment order))))
     @ model_profile_violations policy order
     @ report (\<not> valid_sha256 (wo_context_manifest_sha256 order))
       (InvalidContextManifestDigest (wo_id order))
     @ report (ab_max_attempts budget = 0 \<or> ab_max_wall_time_ms budget = 0
               \<or> ab_max_cleanup_time_ms budget = 0) (InvalidBudget (wo_id order))
     @ report (length (wo_dependencies order) > HARD_MAX_DEPENDENCIES)
       (DependencyLimitExceeded (wo_id order) HARD_MAX_DEPENDENCIES (length (wo_dependencies order)))
     @ report (length (wo_reviews order) > HARD_MAX_REVIEWS)
       (ReviewLimitExceeded (wo_id order) HARD_MAX_REVIEWS (length (wo_reviews order)))
     @ report (length (pg_capabilities (wo_permissions order)) > HARD_MAX_CAPABILITIES)
       (CapabilityLimitExceeded (wo_id order) HARD_MAX_CAPABILITIES
          (length (pg_capabilities (wo_permissions order))))
     @ report (\<not> is_subset_of (wo_permissions order) (gp_root_permissions policy))
       (AuthorityExpansion (wo_id order))
     @ report (\<not> source_is_valid) (InvalidWorkspaceSourceDigest (wo_id order))
     @ workspace_lease_violations policy order
     @ report (source_is_valid \<and> wg_access workspace = Write
               \<and> (\<not> supports_write (wg_source workspace) \<or> ab_max_attempts budget \<noteq> 1))
       (WorkspaceExecutionProfileUnsupported (wo_id order) (wg_source workspace) (wg_access workspace)
          (ab_max_attempts budget))
     @ report (wo_reviews order \<noteq> [] \<and> wg_access workspace = Write)
       (ReviewerHasWriteWorkspace (wo_id order)))"

text \<open>
  Checked sums and products that fall back to \<open>u64::MAX\<close> and raise the overflow flag.
\<close>

definition sum_or_max :: "u64 \<Rightarrow> u64 \<Rightarrow> u64 \<times> bool" where
  "sum_or_max a b = (case checked_add a b of Some c \<Rightarrow> (c, False) | None \<Rightarrow> (- 1, True))"

definition mul_or_max :: "u64 \<Rightarrow> u64 \<Rightarrow> u64 \<times> bool" where
  "mul_or_max a b = (case checked_mul a b of Some c \<Rightarrow> (c, False) | None \<Rightarrow> (- 1, True))"

text \<open>\<open>total.checked_add(each.checked_mul(attempts))\<close>, with the flag of either step.\<close>

definition add_product_or_max :: "u64 \<Rightarrow> u64 \<Rightarrow> u64 \<Rightarrow> u64 \<times> bool" where
  "add_product_or_max acc each attempts =
     (let (product, o1) = mul_or_max each attempts; (result, o2) = sum_or_max acc product
      in (result, o1 \<or> o2))"

record order_scan =
  os_orders :: order_map
  os_lease_uses :: "(WorkspaceLeaseId, nat \<times> bool) btree_map"
  os_total_attempts :: u64
  os_total_output_tokens :: u64
  os_total_tool_calls :: u64
  os_total_wall_time_ms :: u64
  os_total_graph_text_bytes :: nat
  os_overflow :: bool
  os_violations :: "ActorGraphViolation list"

definition order_scan_init :: order_scan where
  "order_scan_init =
     \<lparr>os_orders = [], os_lease_uses = [], os_total_attempts = 0, os_total_output_tokens = 0,
      os_total_tool_calls = 0, os_total_wall_time_ms = 0, os_total_graph_text_bytes = 0,
      os_overflow = False, os_violations = []\<rparr>"

definition text_bytes :: "nat \<Rightarrow> WorkOrder \<Rightarrow> nat" where
  "text_bytes acc order =
     foldl (\<lambda>t criterion. usize_saturating_add t (length criterion))
       (usize_saturating_add acc (length (wo_objective order))) (wo_acceptance_criteria order)"

definition use_lease ::
  "WorkspaceGrant \<Rightarrow> (WorkspaceLeaseId, nat \<times> bool) btree_map \<Rightarrow> (WorkspaceLeaseId, nat \<times> bool) btree_map" where
  "use_lease workspace lease_uses =
     (let (uses, writer) = (case bm_get lease_uses (wg_lease_id workspace) of None \<Rightarrow> (0, False) | Some u \<Rightarrow> u)
      in bm_insert (wg_lease_id workspace) (uses + 1, writer \<or> wg_access workspace = Write) lease_uses)"

definition scan_order :: "ActorGraphPolicy \<Rightarrow> order_scan \<Rightarrow> WorkOrder \<Rightarrow> order_scan" where
  "scan_order policy s order =
     (let budget = wo_budget order;
          attempts = ucast (ab_max_attempts budget) :: u64;
          (total_attempts, o1) = sum_or_max (os_total_attempts s) attempts;
          (total_output_tokens, o2) =
            add_product_or_max (os_total_output_tokens s) (ab_max_output_tokens budget) attempts;
          (total_tool_calls, o3) =
            add_product_or_max (os_total_tool_calls s) (ab_max_tool_calls budget) attempts;
          (wall, o4) = sum_or_max (ab_max_wall_time_ms budget) (ab_max_cleanup_time_ms budget);
          (total_wall_time_ms, o5) = add_product_or_max (os_total_wall_time_ms s) wall attempts
      in \<lparr>os_orders = bm_insert (wo_id order) order (os_orders s),
          os_lease_uses = use_lease (wo_workspace order) (os_lease_uses s),
          os_total_attempts = total_attempts,
          os_total_output_tokens = total_output_tokens,
          os_total_tool_calls = total_tool_calls,
          os_total_wall_time_ms = total_wall_time_ms,
          os_total_graph_text_bytes = text_bytes (os_total_graph_text_bytes s) order,
          os_overflow = (os_overflow s \<or> o1 \<or> o2 \<or> o3 \<or> o4 \<or> o5),
          os_violations = os_violations s
            @ report (bm_contains_key (os_orders s) (wo_id order)) (DuplicateWorkOrder (wo_id order))
            @ order_violations policy order\<rparr>)"

definition scan_orders :: "ActorGraphPolicy \<Rightarrow> WorkOrder list \<Rightarrow> order_scan" where
  "scan_orders policy orders = foldl (scan_order policy) order_scan_init orders"

section \<open>Edges, candidate groups and budgets\<close>

definition dependency_violations ::
  "order_map \<Rightarrow> WorkOrderId btree_set \<Rightarrow> WorkOrder \<Rightarrow> WorkOrderId \<Rightarrow> ActorGraphViolation list" where
  "dependency_violations orders reviewed_targets order dependency =
     (if dependency = wo_id order then [SelfDependency (wo_id order)]
      else (case bm_get orders dependency of
              None \<Rightarrow> [UnknownDependency (wo_id order) dependency]
            | Some review_order \<Rightarrow>
                report (wo_reviews review_order \<noteq> []) (UngatedReviewDependency (wo_id order) dependency))
           @ report (bs_contains reviewed_targets dependency \<and> \<not> bs_contains (wo_reviews order) dependency)
               (UngatedReviewedTargetDependency (wo_id order) dependency))"

definition review_violations :: "order_map \<Rightarrow> WorkOrder \<Rightarrow> WorkOrderId \<Rightarrow> ActorGraphViolation list" where
  "review_violations orders order target =
     (case bm_get orders target of
        None \<Rightarrow> [UnknownReviewTarget (wo_id order) target]
      | Some producer \<Rightarrow>
          report (\<not> bs_contains (wo_dependencies order) target)
            (ReviewMissingDependency (wo_id order) target)
          @ report (ml_independence_domain_id (aa_lineage (wo_assignment order))
                    = ml_independence_domain_id (aa_lineage (wo_assignment producer)))
            (ReviewerLineageConflict (wo_id order) target))"

definition reviewed_targets :: "WorkOrder list \<Rightarrow> WorkOrderId btree_set" where
  "reviewed_targets orders = bs_of_list (concat (map wo_reviews orders))"

definition edge_violations ::
  "order_map \<Rightarrow> WorkOrderId btree_set \<Rightarrow> WorkOrder \<Rightarrow> ActorGraphViolation list" where
  "edge_violations orders reviewed order =
     concat (map (dependency_violations orders reviewed order) (wo_dependencies order))
     @ concat (map (review_violations orders order) (wo_reviews order))"

type_synonym candidate_map = "(CandidateGroupId, WorkOrder list) btree_map"

definition add_candidate :: "candidate_map \<Rightarrow> WorkOrder \<Rightarrow> candidate_map" where
  "add_candidate groups order =
     (case wo_candidate_group order of None \<Rightarrow> groups
      | Some grp \<Rightarrow>
          bm_insert grp ((case bm_get groups grp of None \<Rightarrow> [] | Some cs \<Rightarrow> cs) @ [order]) groups)"

definition candidate_groups :: "WorkOrder list \<Rightarrow> candidate_map" where
  "candidate_groups orders = foldl add_candidate [] orders"

definition same_contract :: "WorkOrder \<Rightarrow> WorkOrder \<Rightarrow> bool" where
  "same_contract candidate first \<longleftrightarrow>
     wo_objective candidate = wo_objective first
     \<and> wo_acceptance_criteria candidate = wo_acceptance_criteria first
     \<and> wo_budget candidate = wo_budget first
     \<and> wo_context_manifest_sha256 candidate = wo_context_manifest_sha256 first
     \<and> wo_permissions candidate = wo_permissions first
     \<and> wg_access (wo_workspace candidate) = wg_access (wo_workspace first)
     \<and> wo_dependencies candidate = wo_dependencies first
     \<and> wo_reviews candidate = wo_reviews first"

text \<open>The loop over the members of one group; \<open>leases\<close> holds the leases met so far.\<close>

fun candidate_violations ::
  "order_map \<Rightarrow> CandidateGroupId \<Rightarrow> WorkOrder \<Rightarrow> WorkOrderId btree_set \<Rightarrow> WorkspaceLeaseId btree_set
     \<Rightarrow> WorkOrder list \<Rightarrow> ActorGraphViolation list" where
  "candidate_violations orders grp first peer_ids leases [] = []"
| "candidate_violations orders grp first peer_ids leases (candidate # candidates) =
     concat (map (\<lambda>peer_id.
        report (dependency_reachable (wo_id candidate) peer_id orders)
          (CandidateDependency grp (wo_id candidate) peer_id))
        (filter (\<lambda>peer_id. peer_id \<noteq> wo_id candidate) peer_ids))
     @ report (wg_source (wo_workspace candidate) \<noteq> wg_source (wo_workspace first))
       (CandidateSnapshotMismatch grp)
     @ report (\<not> same_contract candidate first) (CandidateContractMismatch grp)
     @ report (bs_contains leases (wg_lease_id (wo_workspace candidate)))
       (CandidateSharedWorkspaceLease grp (wg_lease_id (wo_workspace candidate)))
     @ candidate_violations orders grp first peer_ids
         (bs_insert (wg_lease_id (wo_workspace candidate)) leases) candidates"

definition group_violations ::
  "order_map \<Rightarrow> CandidateGroupId \<times> WorkOrder list \<Rightarrow> ActorGraphViolation list" where
  "group_violations orders entry =
     (case entry of (grp, candidates) \<Rightarrow>
        (case candidates of [] \<Rightarrow> []
         | first # _ \<Rightarrow>
             report (length candidates < 2) (CandidateGroupTooSmall grp (length candidates))
             @ candidate_violations orders grp first (bs_of_list (map wo_id candidates)) [] candidates))"

definition lease_use_violations :: "(WorkspaceLeaseId, nat \<times> bool) btree_map \<Rightarrow> ActorGraphViolation list" where
  "lease_use_violations lease_uses =
     concat (map (\<lambda>(lease_id, (uses, has_writer)).
       report (uses > 1 \<and> has_writer) (SharedWriterLease lease_id)) lease_uses)"

text \<open>
  The search returns always (\<open>Dependency_Graph.dependency_cycle_cases\<close>), so the last case of
  \<open>cycle_violations\<close> covers only the answer that there is no cycle.
\<close>

definition cycle_violations :: "order_map \<Rightarrow> ActorGraphViolation list" where
  "cycle_violations orders =
     (case dependency_cycle orders of Some (Some cycle) \<Rightarrow> [DependencyCycle cycle] | _ \<Rightarrow> [])"

definition budget_violations :: "ActorGraphLimits \<Rightarrow> order_scan \<Rightarrow> ActorGraphViolation list" where
  "budget_violations limits s =
     report (os_overflow s) BudgetOverflow
     @ report (os_total_attempts s > gl_max_total_attempts limits)
       (AttemptBudgetExceeded (gl_max_total_attempts limits) (os_total_attempts s))
     @ report (os_total_output_tokens s > gl_max_total_output_tokens limits)
       (OutputTokenBudgetExceeded (gl_max_total_output_tokens limits) (os_total_output_tokens s))
     @ report (os_total_tool_calls s > gl_max_total_tool_calls limits)
       (ToolCallBudgetExceeded (gl_max_total_tool_calls limits) (os_total_tool_calls s))
     @ report (os_total_wall_time_ms s > gl_max_total_wall_time_ms limits)
       (WallTimeBudgetExceeded (gl_max_total_wall_time_ms limits) (os_total_wall_time_ms s))"

definition graph_violations :: "ActorGraph \<Rightarrow> ActorGraphPolicy \<Rightarrow> ActorGraphViolation list" where
  "graph_violations graph policy =
     (let s = scan_orders policy (ag_work_orders graph);
          reviewed = reviewed_targets (ag_work_orders graph) in
      policy_violations graph policy
      @ os_violations s
      @ lease_use_violations (os_lease_uses s)
      @ report (os_total_graph_text_bytes s > HARD_MAX_GRAPH_TEXT_BYTES)
          (GraphTextLimitExceeded HARD_MAX_GRAPH_TEXT_BYTES (os_total_graph_text_bytes s))
      @ concat (map (edge_violations (os_orders s) reviewed) (ag_work_orders graph))
      @ concat (map (group_violations (os_orders s)) (candidate_groups (ag_work_orders graph)))
      @ cycle_violations (os_orders s)
      @ budget_violations (gp_limits policy) s)"

definition validate_against ::
  "(u8 list \<Rightarrow> u8 list) \<Rightarrow> (ActorGraph \<Rightarrow> ActorGraphPolicy \<Rightarrow> string + u8 list) \<Rightarrow> ActorGraph
     \<Rightarrow> ActorGraphPolicy \<Rightarrow> ActorGraphValidationError + ValidatedActorGraph" where
  "validate_against sha256 hash_material_json self policy =
     (let structural = structural_limit_violations self policy in
      if structural \<noteq> [] then Inl (Violations structural)
      else let graph = self\<lparr>ag_work_orders := sort_key wo_id (ag_work_orders self)\<rparr>;
               violations = graph_violations graph policy in
        if violations \<noteq> [] then Inl (Violations violations)
        else case canonical_json_digest sha256 (hash_material_json graph policy) of
          Inl e \<Rightarrow> Inl (Encoding e)
        | Inr digest \<Rightarrow> Inr \<lparr>vg_graph = graph, vg_policy = policy, vg_digest_sha256 = digest\<rparr>)"

end
