(* ===== verification/Scheduler_Journal.thy ===== *)
theory Scheduler_Journal
  imports Actor_Validation
begin

text \<open>
  Worker results, hand-offs and the scheduler journal of \<open>crates/orchestrator/src/actor_graph.rs\<close>:
  the data types of a dispatch and of its outcome, the mechanical checks of what a worker returns,
  the attestation of a dispatch, and the retention of records.

  The journal is an interface of the source (\<open>SchedulerJournal\<close>).  Its implementation is a parameter:
  \<open>se_ack\<close> decides, from the records acknowledged so far and the new record, whether \<open>retain\<close>
  acknowledges it or fails.  The model keeps the acknowledged records.  \<open>Uuid::now_v7\<close> is
  a parameter too: \<open>se_uuid n\<close> is the \<open>n\<close>-th identifier drawn by the scheduler.
\<close>

section \<open>Worker results\<close>

record Usage =
  us_output_tokens :: "u64 option"
  us_tool_calls :: u64

datatype HandoffOutcome = HandoffCompleted | HandoffPartial | HandoffBlocked

record AgentCompletion =
  ac_outcome :: HandoffOutcome
  ac_summary :: string
  ac_execution_receipt_id :: string
  ac_artifact_sha256 :: "string list"
  ac_evidence_ids :: "string list"
  ac_usage :: Usage

datatype AgentFailureKind = RetryableNoEffect | PermanentBackend | PermissionDenied | AgentCancelled

record AgentFailure =
  af_kind :: AgentFailureKind
  af_message :: string
  af_usage :: Usage
  af_execution_receipt_id :: string
  af_effect_receipt_id :: "string option"

definition is_retryable :: "AgentFailure \<Rightarrow> bool" where
  "is_retryable failure =
     (af_kind failure = RetryableNoEffect
      \<and> (case af_effect_receipt_id failure of None \<Rightarrow> False
         | Some receipt \<Rightarrow> receipt \<noteq> [] \<and> length receipt \<le> MAX_EVIDENCE_ID_BYTES))"

record CleanupReceipt =
  cr_cleanup_receipt_id :: string

record Handoff =
  ho_id :: HandoffId
  ho_retained_event_id :: SchedulerEventId
  ho_work_order_id :: WorkOrderId
  ho_actor_id :: ActorId
  ho_execution_id :: ExecutionId
  ho_attempt_id :: AttemptId
  ho_outcome :: HandoffOutcome
  ho_summary :: string
  ho_execution_receipt_id :: string
  ho_artifact_sha256 :: "string list"
  ho_evidence_ids :: "string list"
  ho_usage :: Usage

datatype HandoffViolation =
    EmptySummary
  | InvalidExecutionReceipt
  | SummaryTooLarge nat nat
  | ArtifactReferenceLimitExceeded nat nat
  | InvalidArtifactDigest nat
  | DuplicateArtifactDigest
  | MissingCompletionEvidence
  | EvidenceReferenceLimitExceeded nat nat
  | InvalidEvidenceId nat
  | DuplicateEvidenceId

datatype AgentFailureViolation =
    EmptyMessage
  | MessageTooLarge nat nat
  | FailureInvalidExecutionReceipt
  | InvalidEffectReceipt
  | MissingNoEffectReceipt

record AttemptObservation =
  ao_execution_receipt_id :: "string option"
  ao_effect_receipt_id :: "string option"
  ao_usage :: Usage
  ao_payload_sha256 :: string

datatype WorkOrderFailure =
    Worker AgentFailure
  | InvalidWorkerFailure "AgentFailureViolation list" "ActorGraphViolation option" AttemptObservation
  | DeadlineExceeded u64 string
  | CleanupUnproven u64 u64
  | UsageViolation ActorGraphViolation
  | InvalidHandoff "HandoffViolation list" "ActorGraphViolation option" AttemptObservation
  | IncompleteHandoff HandoffOutcome
  | DependencyFailed "WorkOrderId list"

datatype ActorGraphOutcome = GraphCompleted | GraphFailed

record DispatchAttestation =
  da_graph_sha256 :: string
  da_work_order_sha256 :: string
  da_permissions_sha256 :: string
  da_assignment :: AgentAssignment
  da_context_manifest_sha256 :: string
  da_workspace :: WorkspaceGrant
  da_budget :: AgentBudget

record AgentDispatch =
  ad_actor_id :: ActorId
  ad_execution_id :: ExecutionId
  ad_attempt_id :: AttemptId
  ad_parent_attempt_id :: "AttemptId option"
  ad_graph_accepted_event_id :: SchedulerEventId
  ad_graph_sha256 :: string
  ad_attestation :: DispatchAttestation
  ad_work_order :: WorkOrder
  ad_dependency_handoffs :: "(WorkOrderId, Handoff) btree_map"
  ad_dependency_handoff_event_ids :: "(WorkOrderId, SchedulerEventId) btree_map"

section \<open>Scheduler records\<close>

text \<open>The fields of an \<open>AttemptDispatched\<close> event.\<close>

record dispatched_event =
  de_work_order_id :: WorkOrderId
  de_actor_id :: ActorId
  de_execution_id :: ExecutionId
  de_attempt_id :: AttemptId
  de_parent_attempt_id :: "AttemptId option"
  de_graph_accepted_event_id :: SchedulerEventId
  de_attestation :: DispatchAttestation
  de_dependency_handoff_event_ids :: "(WorkOrderId, SchedulerEventId) btree_map"

datatype SchedulerEvent =
    GraphAccepted string string string
  | AttemptDispatched dispatched_event
  | AttemptFailed WorkOrderId ExecutionId AttemptId WorkOrderFailure bool
  | HandoffRetained Handoff
  | WorkOrderBlocked WorkOrderId "WorkOrderId list" "(WorkOrderId, SchedulerEventId) btree_map"
  | GraphFinished ActorGraphOutcome "(WorkOrderId, SchedulerEventId) btree_map"
  | GraphSuspended "WorkOrderId list" "WorkOrderId list" "(WorkOrderId, SchedulerEventId) btree_map"

record SchedulerRecord =
  sr_id :: SchedulerEventId
  sr_causal_parent :: "SchedulerEventId option"
  sr_event :: SchedulerEvent

record SchedulerJournalError =
  je_message :: string

section \<open>Checks of worker results\<close>

definition bounded_receipt :: "string \<Rightarrow> string option" where
  "bounded_receipt receipt =
     (if receipt \<noteq> [] \<and> length receipt \<le> MAX_EVIDENCE_ID_BYTES then Some receipt else None)"

definition usage_violation :: "Usage \<Rightarrow> AgentBudget \<Rightarrow> bool \<Rightarrow> ActorGraphViolation option" where
  "usage_violation usage budget require_reported_token_usage =
     (if require_reported_token_usage \<and> us_output_tokens usage = None then Some MissingOutputTokenUsage
      else case us_output_tokens usage of
        Some actual \<Rightarrow>
          (if actual > ab_max_output_tokens budget
           then Some (OutputTokenBudgetExceeded (ab_max_output_tokens budget) actual)
           else if us_tool_calls usage > ab_max_tool_calls budget
           then Some (ToolCallBudgetExceeded (ab_max_tool_calls budget) (us_tool_calls usage))
           else None)
      | None \<Rightarrow>
          (if us_tool_calls usage > ab_max_tool_calls budget
           then Some (ToolCallBudgetExceeded (ab_max_tool_calls budget) (us_tool_calls usage))
           else None))"

text \<open>A loop over references that reports bad entries by index and every repetition.\<close>

fun reference_violations ::
  "(string \<Rightarrow> bool) \<Rightarrow> (nat \<Rightarrow> 'v) \<Rightarrow> 'v \<Rightarrow> nat \<Rightarrow> string btree_set \<Rightarrow> string list \<Rightarrow> 'v list" where
  "reference_violations valid invalid duplicate index seen [] = []"
| "reference_violations valid invalid duplicate index seen (x # xs) =
     report (\<not> valid x) (invalid index)
     @ report (bs_contains seen x) duplicate
     @ reference_violations valid invalid duplicate (Suc index) (bs_insert x seen) xs"

definition handoff_violations :: "AgentCompletion \<Rightarrow> HandoffViolation list" where
  "handoff_violations completion =
     report (is_blank (ac_summary completion)) EmptySummary
     @ report (ac_execution_receipt_id completion = []
               \<or> length (ac_execution_receipt_id completion) > MAX_EVIDENCE_ID_BYTES)
         InvalidExecutionReceipt
     @ report (length (ac_summary completion) > MAX_HANDOFF_SUMMARY_BYTES)
         (SummaryTooLarge MAX_HANDOFF_SUMMARY_BYTES (length (ac_summary completion)))
     @ report (length (ac_artifact_sha256 completion) > MAX_HANDOFF_REFERENCES)
         (ArtifactReferenceLimitExceeded MAX_HANDOFF_REFERENCES (length (ac_artifact_sha256 completion)))
     @ reference_violations valid_sha256 InvalidArtifactDigest DuplicateArtifactDigest 0 []
         (ac_artifact_sha256 completion)
     @ report (ac_outcome completion = HandoffCompleted \<and> ac_evidence_ids completion = [])
         MissingCompletionEvidence
     @ report (length (ac_evidence_ids completion) > MAX_HANDOFF_REFERENCES)
         (EvidenceReferenceLimitExceeded MAX_HANDOFF_REFERENCES (length (ac_evidence_ids completion)))
     @ reference_violations (\<lambda>e. e \<noteq> [] \<and> length e \<le> MAX_EVIDENCE_ID_BYTES)
         InvalidEvidenceId DuplicateEvidenceId 0 [] (ac_evidence_ids completion)"

definition worker_failure_violations :: "AgentFailure \<Rightarrow> AgentFailureViolation list" where
  "worker_failure_violations failure =
     report (is_blank (af_message failure)) EmptyMessage
     @ report (length (af_message failure) > MAX_FAILURE_MESSAGE_BYTES)
         (MessageTooLarge MAX_FAILURE_MESSAGE_BYTES (length (af_message failure)))
     @ report (af_execution_receipt_id failure = []
               \<or> length (af_execution_receipt_id failure) > MAX_EVIDENCE_ID_BYTES)
         FailureInvalidExecutionReceipt
     @ report (case af_effect_receipt_id failure of None \<Rightarrow> False
               | Some receipt \<Rightarrow> receipt = [] \<or> length receipt > MAX_EVIDENCE_ID_BYTES)
         InvalidEffectReceipt
     @ report (af_kind failure = RetryableNoEffect \<and> \<not> is_retryable failure) MissingNoEffectReceipt"

section \<open>Environment, attestation and retention\<close>

text \<open>The third-party serializer and hash function, one serializer per serialized type.\<close>

record codec =
  cd_sha256 :: "u8 list \<Rightarrow> u8 list"
  cd_work_order :: "WorkOrder \<Rightarrow> string + u8 list"
  cd_permissions :: "PermissionGrant \<Rightarrow> string + u8 list"
  cd_completion :: "AgentCompletion \<Rightarrow> string + u8 list"
  cd_failure :: "AgentFailure \<Rightarrow> string + u8 list"

record sched_env =
  se_codec :: codec
  se_uuid :: "nat \<Rightarrow> uuid"
  se_ack :: "SchedulerRecord list \<Rightarrow> SchedulerRecord \<Rightarrow> SchedulerJournalError option"

definition journal_digest ::
  "codec \<Rightarrow> string \<Rightarrow> string + u8 list \<Rightarrow> SchedulerJournalError + string" where
  "journal_digest cd what serialized =
     (case canonical_json_digest (cd_sha256 cd) serialized of
        Inl e \<Rightarrow> Inl \<lparr>je_message = what @ '' failed: '' @ e\<rparr>
      | Inr d \<Rightarrow> Inr d)"

definition dispatch_attestation ::
  "codec \<Rightarrow> string \<Rightarrow> WorkOrder \<Rightarrow> SchedulerJournalError + DispatchAttestation" where
  "dispatch_attestation cd graph_sha256 order =
     (case journal_digest cd ''work order attestation'' (cd_work_order cd order) of
        Inl e \<Rightarrow> Inl e
      | Inr work_order_sha256 \<Rightarrow>
          (case journal_digest cd ''permission attestation'' (cd_permissions cd (wo_permissions order)) of
             Inl e \<Rightarrow> Inl e
           | Inr permissions_sha256 \<Rightarrow>
               Inr \<lparr>da_graph_sha256 = graph_sha256, da_work_order_sha256 = work_order_sha256,
                    da_permissions_sha256 = permissions_sha256, da_assignment = wo_assignment order,
                    da_context_manifest_sha256 = wo_context_manifest_sha256 order,
                    da_workspace = wo_workspace order, da_budget = wo_budget order\<rparr>))"

definition completion_observation ::
  "codec \<Rightarrow> AgentCompletion \<Rightarrow> SchedulerJournalError + AttemptObservation" where
  "completion_observation cd completion =
     (case journal_digest cd ''completion observation'' (cd_completion cd completion) of
        Inl e \<Rightarrow> Inl e
      | Inr d \<Rightarrow>
          Inr \<lparr>ao_execution_receipt_id = bounded_receipt (ac_execution_receipt_id completion),
               ao_effect_receipt_id = None, ao_usage = ac_usage completion, ao_payload_sha256 = d\<rparr>)"

definition failure_observation ::
  "codec \<Rightarrow> AgentFailure \<Rightarrow> SchedulerJournalError + AttemptObservation" where
  "failure_observation cd failure =
     (case journal_digest cd ''failure observation'' (cd_failure cd failure) of
        Inl e \<Rightarrow> Inl e
      | Inr d \<Rightarrow>
          Inr \<lparr>ao_execution_receipt_id = bounded_receipt (af_execution_receipt_id failure),
               ao_effect_receipt_id = Option.bind (af_effect_receipt_id failure) bounded_receipt,
               ao_usage = af_usage failure, ao_payload_sha256 = d\<rparr>)"

text \<open>The acknowledged records and the number of identifiers drawn so far.\<close>

record jstate =
  js_records :: "SchedulerRecord list"
  js_next :: nat

definition fresh_uuid :: "sched_env \<Rightarrow> jstate \<Rightarrow> uuid \<times> jstate" where
  "fresh_uuid env js = (se_uuid env (js_next js), js\<lparr>js_next := Suc (js_next js)\<rparr>)"

definition retain_with_id ::
  "sched_env \<Rightarrow> SchedulerEventId \<Rightarrow> SchedulerEventId option \<Rightarrow> SchedulerEvent \<Rightarrow> jstate
     \<Rightarrow> (SchedulerJournalError + unit) \<times> jstate" where
  "retain_with_id env event_id causal_parent event js =
     (let entry = \<lparr>sr_id = event_id, sr_causal_parent = causal_parent, sr_event = event\<rparr> in
      case se_ack env (js_records js) entry of
        Some e \<Rightarrow> (Inl e, js)
      | None \<Rightarrow> (Inr (), js\<lparr>js_records := js_records js @ [entry]\<rparr>))"

definition retain ::
  "sched_env \<Rightarrow> SchedulerEventId option \<Rightarrow> SchedulerEvent \<Rightarrow> jstate
     \<Rightarrow> (SchedulerJournalError + SchedulerEventId) \<times> jstate" where
  "retain env causal_parent event js =
     (case fresh_uuid env js of (u, js1) \<Rightarrow>
        (case retain_with_id env (SchedulerEventId u) causal_parent event js1 of
           (Inl e, js2) \<Rightarrow> (Inl e, js2)
         | (Inr _, js2) \<Rightarrow> (Inr (SchedulerEventId u), js2)))"

text \<open>\<open>InMemorySchedulerJournal\<close>: acknowledges every record unless its lock was poisoned.\<close>

definition in_memory_ack :: "bool \<Rightarrow> SchedulerRecord list \<Rightarrow> SchedulerRecord \<Rightarrow> SchedulerJournalError option" where
  "in_memory_ack poisoned records entry =
     (if poisoned then Some \<lparr>je_message = ''scheduler journal lock was poisoned''\<rparr> else None)"

section \<open>Facts about the checks\<close>

lemma reference_violations_Nil_iff:
  "reference_violations valid invalid duplicate index seen xs = [] \<longleftrightarrow>
     distinct xs \<and> (\<forall>x \<in> set xs. valid x \<and> x \<notin> set seen)"
  by (induction xs arbitrary: index seen) (auto simp: bs_contains_def)

lemma handoff_violations_Nil_iff:
  "handoff_violations c = [] \<longleftrightarrow>
     \<not> is_blank (ac_summary c) \<and> length (ac_summary c) \<le> MAX_HANDOFF_SUMMARY_BYTES
     \<and> bounded_receipt (ac_execution_receipt_id c) \<noteq> None
     \<and> length (ac_artifact_sha256 c) \<le> MAX_HANDOFF_REFERENCES
     \<and> distinct (ac_artifact_sha256 c) \<and> (\<forall>d \<in> set (ac_artifact_sha256 c). valid_sha256 d)
     \<and> (ac_outcome c = HandoffCompleted \<longrightarrow> ac_evidence_ids c \<noteq> [])
     \<and> length (ac_evidence_ids c) \<le> MAX_HANDOFF_REFERENCES
     \<and> distinct (ac_evidence_ids c) \<and> (\<forall>e \<in> set (ac_evidence_ids c). bounded_receipt e \<noteq> None)"
  by (auto simp: handoff_violations_def reference_violations_Nil_iff bounded_receipt_def not_less)

text \<open>A usage without violation is within the budget, and reported where that is required.\<close>

lemma usage_violation_None_iff:
  "usage_violation u b required = None \<longleftrightarrow>
     (required \<longrightarrow> us_output_tokens u \<noteq> None)
     \<and> (\<forall>actual. us_output_tokens u = Some actual \<longrightarrow> actual \<le> ab_max_output_tokens b)
     \<and> us_tool_calls u \<le> ab_max_tool_calls b"
  by (auto simp: usage_violation_def not_less split: option.splits if_splits)

text \<open>A well-formed failure of the retryable kind carries a bounded no-effect receipt.\<close>

lemma worker_failure_retryable:
  "worker_failure_violations f = [] \<Longrightarrow> is_retryable f \<longleftrightarrow> af_kind f = RetryableNoEffect"
  by (auto simp: worker_failure_violations_def is_retryable_def)

lemma dispatch_attestation_sel:
  assumes "dispatch_attestation cd sha order = Inr a"
  shows "da_graph_sha256 a = sha" "da_workspace a = wo_workspace order" "da_budget a = wo_budget order"
    "da_assignment a = wo_assignment order"
  using assms by (auto simp: dispatch_attestation_def split: sum.splits)

end
