(* ===== verification/Work_Order_Task.thy ===== *)
theory Work_Order_Task
  imports Scheduler_Journal
begin

text \<open>
  \<open>run_work_order\<close> of \<open>crates/orchestrator/src/actor_graph.rs\<close>: the future that drives one work order
  through its attempts.  The future is a state machine whose states are its await points.  Between
  two awaits it runs without interruption (all futures of one executor are polled by one task),
  so \<open>step_task\<close> is one atomic step: it consumes what the awaited operation returned, retains its
  records, and ends at the next await or with the result of the future.

  The worker (\<open>AgentWorker\<close>) and the clock are the environment: \<open>task_input\<close> lists what they can
  deliver at each await, and the executor's step relation allows every choice.
\<close>

section \<open>The future and its await points\<close>

text \<open>The arguments of \<open>run_work_order\<close>.\<close>

record run_ctx =
  rc_root_event :: SchedulerEventId
  rc_graph_sha256 :: string
  rc_require_reported_token_usage :: bool
  rc_work_order :: WorkOrder
  rc_dependency_handoffs :: "(WorkOrderId, Handoff) btree_map"

text \<open>The local variables of the current attempt.\<close>

record attempt_state =
  at_actor_id :: ActorId
  at_execution_id :: ExecutionId
  at_attestation :: DispatchAttestation
  at_attempt_number :: nat
  at_attempt_id :: AttemptId
  at_parent_attempt_id :: "AttemptId option"
  at_dispatched :: SchedulerEventId

datatype task =
    TaskNew (task_ctx: run_ctx)
  | AwaitWorker (task_ctx: run_ctx) attempt_state
  | AwaitCleanup (task_ctx: run_ctx) attempt_state

datatype task_input =
    FirstPoll
  | WorkerReturned "AgentFailure + AgentCompletion"
  | WorkerTimedOut
  | CleanupReturned "CleanupReceipt option"
  | CleanupTimedOut

datatype WorkOrderTerminal =
    TerminalHandoff Handoff
  | TerminalFailed WorkOrderId WorkOrderFailure SchedulerEventId

text \<open>\<open>TaskPanic\<close> is the \<open>unreachable!\<close> after the loop over the attempts.\<close>

datatype task_result =
    TaskPending task
  | TaskReady WorkOrderTerminal
  | TaskJournalError SchedulerJournalError
  | TaskPanic

definition dependency_handoff_event_ids :: "run_ctx \<Rightarrow> (WorkOrderId, SchedulerEventId) btree_map" where
  "dependency_handoff_event_ids ctx =
     bm_of_list (map (\<lambda>(work_order_id, handoff). (work_order_id, ho_retained_event_id handoff))
       (rc_dependency_handoffs ctx))"

text \<open>\<open>values().next().copied().unwrap_or(root)\<close>\<close>

definition first_or :: "'v \<Rightarrow> ('k, 'v) btree_map \<Rightarrow> 'v" where
  "first_or dflt m = (case bm_values m of [] \<Rightarrow> dflt | v # _ \<Rightarrow> v)"

text \<open>The immutable inputs handed to the worker for one attempt.\<close>

definition task_dispatch :: "run_ctx \<Rightarrow> attempt_state \<Rightarrow> AgentDispatch" where
  "task_dispatch ctx at =
     \<lparr>ad_actor_id = at_actor_id at, ad_execution_id = at_execution_id at, ad_attempt_id = at_attempt_id at,
      ad_parent_attempt_id = at_parent_attempt_id at, ad_graph_accepted_event_id = rc_root_event ctx,
      ad_graph_sha256 = rc_graph_sha256 ctx, ad_attestation = at_attestation at,
      ad_work_order = rc_work_order ctx, ad_dependency_handoffs = rc_dependency_handoffs ctx,
      ad_dependency_handoff_event_ids = dependency_handoff_event_ids ctx\<rparr>"

section \<open>Steps\<close>

text \<open>One turn of the loop over the attempts, up to the await of the worker.\<close>

definition dispatch_attempt ::
  "sched_env \<Rightarrow> run_ctx \<Rightarrow> ActorId \<Rightarrow> ExecutionId \<Rightarrow> DispatchAttestation \<Rightarrow> nat \<Rightarrow> AttemptId option
     \<Rightarrow> SchedulerEventId \<Rightarrow> jstate \<Rightarrow> task_result \<times> jstate" where
  "dispatch_attempt env ctx actor_id execution_id attestation attempt_number parent_attempt_id causal_parent js =
     (if attempt_number \<ge> unat (ab_max_attempts (wo_budget (rc_work_order ctx))) then (TaskPanic, js)
      else case fresh_uuid env js of (u, js1) \<Rightarrow>
        (let attempt_id = AttemptId u in
         case retain env (Some causal_parent)
                (AttemptDispatched
                   \<lparr>de_work_order_id = wo_id (rc_work_order ctx), de_actor_id = actor_id,
                    de_execution_id = execution_id, de_attempt_id = attempt_id,
                    de_parent_attempt_id = parent_attempt_id,
                    de_graph_accepted_event_id = rc_root_event ctx, de_attestation = attestation,
                    de_dependency_handoff_event_ids = dependency_handoff_event_ids ctx\<rparr>) js1 of
           (Inl e, js2) \<Rightarrow> (TaskJournalError e, js2)
         | (Inr dispatched, js2) \<Rightarrow>
             (TaskPending (AwaitWorker ctx
                \<lparr>at_actor_id = actor_id, at_execution_id = execution_id, at_attestation = attestation,
                 at_attempt_number = attempt_number, at_attempt_id = attempt_id,
                 at_parent_attempt_id = parent_attempt_id, at_dispatched = dispatched\<rparr>), js2)))"

definition start_task :: "sched_env \<Rightarrow> run_ctx \<Rightarrow> jstate \<Rightarrow> task_result \<times> jstate" where
  "start_task env ctx js =
     (case fresh_uuid env js of (actor, js1) \<Rightarrow>
      (case fresh_uuid env js1 of (execution, js2) \<Rightarrow>
       (case dispatch_attestation (se_codec env) (rc_graph_sha256 ctx) (rc_work_order ctx) of
          Inl e \<Rightarrow> (TaskJournalError e, js2)
        | Inr attestation \<Rightarrow>
            dispatch_attempt env ctx (ActorId actor) (ExecutionId execution) attestation 0 None
              (first_or (rc_root_event ctx) (dependency_handoff_event_ids ctx)) js2)))"

text \<open>Retain the failure of the attempt.\<close>

definition retain_failure ::
  "sched_env \<Rightarrow> run_ctx \<Rightarrow> attempt_state \<Rightarrow> WorkOrderFailure \<Rightarrow> bool \<Rightarrow> jstate
     \<Rightarrow> (SchedulerJournalError + SchedulerEventId) \<times> jstate" where
  "retain_failure env ctx at failure will_retry js =
     retain env (Some (at_dispatched at))
       (AttemptFailed (wo_id (rc_work_order ctx)) (at_execution_id at) (at_attempt_id at) failure will_retry) js"

text \<open>A failure that ends the work order.\<close>

definition fail_terminal ::
  "sched_env \<Rightarrow> run_ctx \<Rightarrow> attempt_state \<Rightarrow> WorkOrderFailure \<Rightarrow> jstate \<Rightarrow> task_result \<times> jstate" where
  "fail_terminal env ctx at failure js =
     (case retain_failure env ctx at failure False js of
        (Inl e, js1) \<Rightarrow> (TaskJournalError e, js1)
      | (Inr terminal_event_id, js1) \<Rightarrow>
          (TaskReady (TerminalFailed (wo_id (rc_work_order ctx)) failure terminal_event_id), js1))"

definition completion_handoff ::
  "run_ctx \<Rightarrow> attempt_state \<Rightarrow> AgentCompletion \<Rightarrow> SchedulerEventId \<Rightarrow> HandoffId \<Rightarrow> Handoff" where
  "completion_handoff ctx at completion retained_event_id handoff_id =
     \<lparr>ho_id = handoff_id, ho_retained_event_id = retained_event_id,
      ho_work_order_id = wo_id (rc_work_order ctx), ho_actor_id = at_actor_id at,
      ho_execution_id = at_execution_id at, ho_attempt_id = at_attempt_id at,
      ho_outcome = ac_outcome completion, ho_summary = ac_summary completion,
      ho_execution_receipt_id = ac_execution_receipt_id completion,
      ho_artifact_sha256 = ac_artifact_sha256 completion, ho_evidence_ids = ac_evidence_ids completion,
      ho_usage = ac_usage completion\<rparr>"

definition worker_completed ::
  "sched_env \<Rightarrow> run_ctx \<Rightarrow> attempt_state \<Rightarrow> AgentCompletion \<Rightarrow> jstate \<Rightarrow> task_result \<times> jstate" where
  "worker_completed env ctx at completion js =
     (let violations = handoff_violations completion;
          usage = usage_violation (ac_usage completion) (wo_budget (rc_work_order ctx))
                    (rc_require_reported_token_usage ctx) in
      if violations \<noteq> [] then
        (case completion_observation (se_codec env) completion of
           Inl e \<Rightarrow> (TaskJournalError e, js)
         | Inr observation \<Rightarrow> fail_terminal env ctx at (InvalidHandoff violations usage observation) js)
      else case usage of
        Some violation \<Rightarrow> fail_terminal env ctx at (UsageViolation violation) js
      | None \<Rightarrow>
          (case fresh_uuid env js of (retained, js1) \<Rightarrow>
           (case fresh_uuid env js1 of (handoff_id, js2) \<Rightarrow>
            (let handoff = completion_handoff ctx at completion (SchedulerEventId retained) (HandoffId handoff_id) in
             case retain_with_id env (SchedulerEventId retained) (Some (at_dispatched at))
                    (HandoffRetained handoff) js2 of
               (Inl e, js3) \<Rightarrow> (TaskJournalError e, js3)
             | (Inr _, js3) \<Rightarrow> (TaskReady (TerminalHandoff handoff), js3)))))"

definition worker_failed ::
  "sched_env \<Rightarrow> run_ctx \<Rightarrow> attempt_state \<Rightarrow> AgentFailure \<Rightarrow> jstate \<Rightarrow> task_result \<times> jstate" where
  "worker_failed env ctx at worker_failure js =
     (let violations = worker_failure_violations worker_failure;
          budget = wo_budget (rc_work_order ctx);
          usage = usage_violation (af_usage worker_failure) budget False in
      if violations \<noteq> [] then
        (case failure_observation (se_codec env) worker_failure of
           Inl e \<Rightarrow> (TaskJournalError e, js)
         | Inr observation \<Rightarrow> fail_terminal env ctx at (InvalidWorkerFailure violations usage observation) js)
      else
        (let retryable = (usage = None \<and> is_retryable worker_failure
               \<and> at_attempt_number at + 1 < unat (ab_max_attempts budget));
             failure = (case usage of Some violation \<Rightarrow> UsageViolation violation | None \<Rightarrow> Worker worker_failure) in
         case retain_failure env ctx at failure retryable js of
           (Inl e, js1) \<Rightarrow> (TaskJournalError e, js1)
         | (Inr failed, js1) \<Rightarrow>
             (if \<not> retryable
              then (TaskReady (TerminalFailed (wo_id (rc_work_order ctx)) failure failed), js1)
              else dispatch_attempt env ctx (at_actor_id at) (at_execution_id at) (at_attestation at)
                     (Suc (at_attempt_number at)) (Some (at_attempt_id at)) failed js1)))"

definition cleanup_failure :: "AgentBudget \<Rightarrow> CleanupReceipt option \<Rightarrow> WorkOrderFailure" where
  "cleanup_failure budget cleanup =
     (case cleanup of
        Some receipt \<Rightarrow>
          (if bounded_receipt (cr_cleanup_receipt_id receipt) \<noteq> None
           then DeadlineExceeded (ab_max_wall_time_ms budget) (cr_cleanup_receipt_id receipt)
           else CleanupUnproven (ab_max_wall_time_ms budget) (ab_max_cleanup_time_ms budget))
      | None \<Rightarrow> CleanupUnproven (ab_max_wall_time_ms budget) (ab_max_cleanup_time_ms budget))"

text \<open>What the environment can deliver at an await point.\<close>

fun task_accepts :: "task \<Rightarrow> task_input \<Rightarrow> bool" where
  "task_accepts (TaskNew _) i = (i = FirstPoll)"
| "task_accepts (AwaitWorker _ _) i = (i = WorkerTimedOut \<or> (\<exists>r. i = WorkerReturned r))"
| "task_accepts (AwaitCleanup _ _) i = (i = CleanupTimedOut \<or> (\<exists>r. i = CleanupReturned r))"

fun step_task :: "sched_env \<Rightarrow> task \<Rightarrow> task_input \<Rightarrow> jstate \<Rightarrow> task_result \<times> jstate" where
  "step_task env (TaskNew ctx) FirstPoll js = start_task env ctx js"
| "step_task env (AwaitWorker ctx at) (WorkerReturned (Inr completion)) js =
     worker_completed env ctx at completion js"
| "step_task env (AwaitWorker ctx at) (WorkerReturned (Inl failure)) js = worker_failed env ctx at failure js"
| "step_task env (AwaitWorker ctx at) WorkerTimedOut js = (TaskPending (AwaitCleanup ctx at), js)"
| "step_task env (AwaitCleanup ctx at) (CleanupReturned cleanup) js =
     fail_terminal env ctx at (cleanup_failure (wo_budget (rc_work_order ctx)) cleanup) js"
| "step_task env (AwaitCleanup ctx at) CleanupTimedOut js =
     fail_terminal env ctx at (cleanup_failure (wo_budget (rc_work_order ctx)) None) js"
| "step_task env t _ js = (TaskPending t, js)"

abbreviation task_order :: "task \<Rightarrow> WorkOrder" where
  "task_order t \<equiv> rc_work_order (task_ctx t)"

end
