(* ===== verification/Actor_Executor.thy ===== *)
theory Actor_Executor
  imports Work_Order_Task "HOL-Library.Product_Lexorder"
begin

text \<open>
  \<open>ActorGraphExecutor::execute\<close> of \<open>crates/orchestrator/src/actor_graph.rs\<close>.  The loop runs without
  interruption between two awaits of \<open>active.next()\<close>; \<open>run_loop\<close> is that run.  At the await the
  environment polls one of the active futures with one of the results its await point accepts:
  \<open>exec_poll\<close>.  The step relation \<open>exec_step\<close> allows every future and every result, so it covers every
  interleaving of \<open>FuturesUnordered\<close> and every worker.
\<close>

section \<open>State\<close>

datatype ActorGraphExecutionError =
    ExecJournal SchedulerJournalError
  | ExecCleanupUnproven "WorkOrderId list" SchedulerEventId
  | SchedulerInvariant "WorkOrderId list"

record ActorGraphRun =
  ar_graph_sha256 :: string
  ar_accepted_event_id :: SchedulerEventId
  ar_finished_event_id :: SchedulerEventId
  ar_terminal_event_ids :: "(WorkOrderId, SchedulerEventId) btree_map"
  ar_outcome :: ActorGraphOutcome
  ar_handoffs :: "(WorkOrderId, Handoff) btree_map"
  ar_failures :: "(WorkOrderId, WorkOrderFailure) btree_map"
  ar_maximum_in_flight :: u32

text \<open>The local variables of \<open>execute\<close>, and the journal.\<close>

record sched =
  sc_root :: SchedulerEventId
  sc_js :: jstate
  sc_pending :: "WorkOrderId btree_set"
  sc_handoffs :: "(WorkOrderId, Handoff) btree_map"
  sc_failures :: "(WorkOrderId, WorkOrderFailure) btree_map"
  sc_terminal_event_ids :: "(WorkOrderId, SchedulerEventId) btree_map"
  sc_cleanup_unproven :: "WorkOrderId btree_set"
  sc_active :: "task list"
  sc_maximum_in_flight :: u32

text \<open>\<open>Panicked\<close>: an index out of a map, or the \<open>unreachable!\<close> of a future.\<close>

datatype exec_config =
    Awaiting sched
  | Returned jstate "ActorGraphExecutionError + ActorGraphRun"
  | Panicked

section \<open>Terminal results\<close>

fun is_cleanup_unproven :: "WorkOrderFailure \<Rightarrow> bool" where
  "is_cleanup_unproven (CleanupUnproven _ _) = True"
| "is_cleanup_unproven _ = False"

fun apply_terminal :: "WorkOrderTerminal \<Rightarrow> sched \<Rightarrow> sched" where
  "apply_terminal (TerminalHandoff handoff) s =
     s\<lparr>sc_terminal_event_ids :=
         bm_insert (ho_work_order_id handoff) (ho_retained_event_id handoff) (sc_terminal_event_ids s),
       sc_failures :=
         (if ho_outcome handoff \<noteq> HandoffCompleted
          then bm_insert (ho_work_order_id handoff) (IncompleteHandoff (ho_outcome handoff)) (sc_failures s)
          else sc_failures s),
       sc_handoffs := bm_insert (ho_work_order_id handoff) handoff (sc_handoffs s)\<rparr>"
| "apply_terminal (TerminalFailed work_order_id failure terminal_event_id) s =
     s\<lparr>sc_cleanup_unproven :=
         (if is_cleanup_unproven failure then bs_insert work_order_id (sc_cleanup_unproven s)
          else sc_cleanup_unproven s),
       sc_failures := bm_insert work_order_id failure (sc_failures s),
       sc_terminal_event_ids := bm_insert work_order_id terminal_event_id (sc_terminal_event_ids s)\<rparr>"

section \<open>Between two awaits\<close>

datatype loop_next =
    LoopAwait sched
  | LoopContinue sched
  | LoopBreak sched
  | LoopReturn jstate ActorGraphExecutionError
  | LoopPanic

fun find_map :: "('a \<Rightarrow> 'b option) \<Rightarrow> 'a list \<Rightarrow> 'b option" where
  "find_map f [] = None"
| "find_map f (x # xs) = (case f x of Some y \<Rightarrow> Some y | None \<Rightarrow> find_map f xs)"

text \<open>No future is active and a cleanup is unproven.\<close>

definition suspend :: "sched_env \<Rightarrow> sched \<Rightarrow> loop_next" where
  "suspend env s =
     (let work_order_ids = sc_cleanup_unproven s;
          causal_parent = (case find_map (bm_get (sc_terminal_event_ids s)) work_order_ids of
                             Some event_id \<Rightarrow> event_id | None \<Rightarrow> sc_root s) in
      case retain env (Some causal_parent)
             (GraphSuspended work_order_ids (sc_pending s) (sc_terminal_event_ids s)) (sc_js s) of
        (Inl e, js) \<Rightarrow> LoopReturn js (ExecJournal e)
      | (Inr suspended_event_id, js) \<Rightarrow> LoopReturn js (ExecCleanupUnproven work_order_ids suspended_event_id))"

text \<open>The pending orders with a failed dependency.\<close>

definition failed_dependencies :: "sched \<Rightarrow> WorkOrder \<Rightarrow> WorkOrderId list" where
  "failed_dependencies s order = filter (bm_contains_key (sc_failures s)) (wo_dependencies order)"

definition blocked_orders :: "order_map \<Rightarrow> sched \<Rightarrow> (WorkOrderId \<times> WorkOrderId list) list option" where
  "blocked_orders orders s =
     (case index_all (bm_get orders) (sc_pending s) of
        None \<Rightarrow> None
      | Some os \<Rightarrow>
          Some (filter (\<lambda>(_, failed). failed \<noteq> [])
            (zip (sc_pending s) (map (failed_dependencies s) os))))"

definition block_order ::
  "sched_env \<Rightarrow> WorkOrderId \<Rightarrow> WorkOrderId list \<Rightarrow> sched \<Rightarrow> (SchedulerJournalError \<times> jstate) + sched" where
  "block_order env work_order_id dependency_ids s =
     (let dependency_terminal_event_ids =
            bm_of_list (List.map_filter
              (\<lambda>d. map_option (Pair d) (bm_get (sc_terminal_event_ids s) d)) dependency_ids) in
      case retain env (Some (first_or (sc_root s) dependency_terminal_event_ids))
             (WorkOrderBlocked work_order_id dependency_ids dependency_terminal_event_ids) (sc_js s) of
        (Inl e, js) \<Rightarrow> Inl (e, js)
      | (Inr blocked_event_id, js) \<Rightarrow>
          Inr (s\<lparr>sc_js := js, sc_pending := bs_remove work_order_id (sc_pending s),
                 sc_failures := bm_insert work_order_id (DependencyFailed dependency_ids) (sc_failures s),
                 sc_terminal_event_ids :=
                   bm_insert work_order_id blocked_event_id (sc_terminal_event_ids s)\<rparr>))"

fun block_orders ::
  "sched_env \<Rightarrow> (WorkOrderId \<times> WorkOrderId list) list \<Rightarrow> sched \<Rightarrow> (SchedulerJournalError \<times> jstate) + sched" where
  "block_orders env [] s = Inr s"
| "block_orders env ((work_order_id, dependency_ids) # blocked) s =
     (case block_order env work_order_id dependency_ids s of
        Inl e \<Rightarrow> Inl e
      | Inr s' \<Rightarrow> block_orders env blocked s')"

text \<open>The pending orders whose dependencies all have a hand-off, by priority and identifier.\<close>

definition ready_orders :: "order_map \<Rightarrow> sched \<Rightarrow> WorkOrder list option" where
  "ready_orders orders s =
     (case index_all (bm_get orders) (sc_pending s) of
        None \<Rightarrow> None
      | Some os \<Rightarrow>
          Some (sort_key (\<lambda>order. (- sint (wo_priority order), wo_id order))
            (filter (\<lambda>order. list_all (bm_contains_key (sc_handoffs s)) (wo_dependencies order)) os)))"

definition launch_order :: "ValidatedActorGraph \<Rightarrow> WorkOrder \<Rightarrow> sched \<Rightarrow> sched option" where
  "launch_order vg order s =
     (case index_all (bm_get (sc_handoffs s)) (wo_dependencies order) of
        None \<Rightarrow> None
      | Some hs \<Rightarrow>
          Some (s\<lparr>sc_pending := bs_remove (wo_id order) (sc_pending s),
                  sc_active := sc_active s @
                    [TaskNew \<lparr>rc_root_event = sc_root s, rc_graph_sha256 = vg_digest_sha256 vg,
                              rc_require_reported_token_usage =
                                gp_require_reported_token_usage (vg_policy vg),
                              rc_work_order = order,
                              rc_dependency_handoffs = bm_of_list (zip (wo_dependencies order) hs)\<rparr>]\<rparr>))"

fun launch_orders :: "ValidatedActorGraph \<Rightarrow> WorkOrder list \<Rightarrow> sched \<Rightarrow> sched option" where
  "launch_orders vg [] s = Some s"
| "launch_orders vg (order # ready) s =
     (case launch_order vg order s of None \<Rightarrow> None | Some s' \<Rightarrow> launch_orders vg ready s')"

text \<open>\<open>u32::try_from(n).unwrap_or(u32::MAX)\<close>\<close>

definition u32_or_max :: "nat \<Rightarrow> u32" where
  "u32_or_max n = (if n < 2 ^ 32 then of_nat n else - 1)"

definition free_slots :: "ValidatedActorGraph \<Rightarrow> sched \<Rightarrow> nat" where
  "free_slots vg s = unat (gl_max_parallel (gp_limits (vg_policy vg))) - length (sc_active s)"

text \<open>Fill the free slots; the flag says whether an order was launched.\<close>

definition fill_slots :: "ValidatedActorGraph \<Rightarrow> order_map \<Rightarrow> sched \<Rightarrow> (bool \<times> sched) option" where
  "fill_slots vg orders s =
     (if free_slots vg s > 0 then
        (case ready_orders orders s of
           None \<Rightarrow> None
         | Some ready \<Rightarrow>
             (case launch_orders vg (take (free_slots vg s) ready) s of
                None \<Rightarrow> None
              | Some s' \<Rightarrow>
                  Some (ready \<noteq> [], s'\<lparr>sc_maximum_in_flight :=
                    max (sc_maximum_in_flight s') (u32_or_max (length (sc_active s')))\<rparr>)))
      else Some (False, s))"

text \<open>One turn of the loop, up to its await.  \<open>active.next()\<close> is awaited only when a future is active,
  so the two branches for a missing terminal are dead.\<close>

definition loop_body :: "sched_env \<Rightarrow> ValidatedActorGraph \<Rightarrow> order_map \<Rightarrow> sched \<Rightarrow> loop_next" where
  "loop_body env vg orders s =
     (if sc_cleanup_unproven s \<noteq> [] then (if sc_active s = [] then suspend env s else LoopAwait s)
      else case blocked_orders orders s of
        None \<Rightarrow> LoopPanic
      | Some blocked \<Rightarrow>
          (case block_orders env blocked s of
             Inl (e, js) \<Rightarrow> LoopReturn js (ExecJournal e)
           | Inr s1 \<Rightarrow>
               (case fill_slots vg orders s1 of
                  None \<Rightarrow> LoopPanic
                | Some (launched, s2) \<Rightarrow>
                    (if sc_active s2 = [] then
                       (if sc_pending s2 = [] then LoopBreak s2
                        else if blocked \<noteq> [] \<or> launched then LoopContinue s2
                        else LoopReturn (sc_js s2) (SchedulerInvariant (sc_pending s2)))
                     else LoopAwait s2))))"

definition executor_orders :: "ValidatedActorGraph \<Rightarrow> order_map" where
  "executor_orders vg =
     bm_of_list (map (\<lambda>order. (wo_id order, order)) (ag_work_orders (vg_graph vg)))"

text \<open>After the loop: the outcome and the last record.\<close>

definition finish_graph :: "sched_env \<Rightarrow> ValidatedActorGraph \<Rightarrow> sched \<Rightarrow> exec_config" where
  "finish_graph env vg s =
     (let outcome = (if sc_failures s = [] \<and> length (sc_handoffs s) = length (executor_orders vg)
                     then GraphCompleted else GraphFailed) in
      case retain env (Some (first_or (sc_root s) (sc_terminal_event_ids s)))
             (GraphFinished outcome (sc_terminal_event_ids s)) (sc_js s) of
        (Inl e, js) \<Rightarrow> Returned js (Inl (ExecJournal e))
      | (Inr finished_event_id, js) \<Rightarrow>
          Returned js (Inr \<lparr>ar_graph_sha256 = vg_digest_sha256 vg, ar_accepted_event_id = sc_root s,
            ar_finished_event_id = finished_event_id, ar_terminal_event_ids = sc_terminal_event_ids s,
            ar_outcome = outcome, ar_handoffs = sc_handoffs s, ar_failures = sc_failures s,
            ar_maximum_in_flight = sc_maximum_in_flight s\<rparr>))"

subsection \<open>The loop terminates\<close>

lemma block_order_sel:
  assumes "block_order env w ds s = Inr s'"
  shows "sc_pending s' = bs_remove w (sc_pending s)" "sc_active s' = sc_active s"
    "sc_handoffs s' = sc_handoffs s" "sc_root s' = sc_root s"
    "sc_cleanup_unproven s' = sc_cleanup_unproven s"
    "sc_maximum_in_flight s' = sc_maximum_in_flight s"
    "sc_failures s' = bm_insert w (DependencyFailed ds) (sc_failures s)"
  using assms by (auto simp: block_order_def Let_def split: prod.splits sum.splits)

lemma block_orders_pending:
  "block_orders env bs s = Inr s' \<Longrightarrow> sc_pending s' = filter (\<lambda>w. w \<notin> fst ` set bs) (sc_pending s)"
proof (induction env bs s rule: block_orders.induct)
  case (2 env w ds bs s)
  then show ?case
    by (auto simp: block_order_sel bs_remove_def split: sum.splits intro!: filter_cong)
qed simp

lemma block_orders_active: "block_orders env bs s = Inr s' \<Longrightarrow> sc_active s' = sc_active s"
  by (induction env bs s rule: block_orders.induct) (auto simp: block_order_sel split: sum.splits)

lemma launch_order_sel:
  assumes "launch_order vg x s = Some s'"
  shows "sc_pending s' = bs_remove (wo_id x) (sc_pending s)" "sc_handoffs s' = sc_handoffs s"
    "sc_failures s' = sc_failures s" "sc_terminal_event_ids s' = sc_terminal_event_ids s"
    "sc_cleanup_unproven s' = sc_cleanup_unproven s" "sc_js s' = sc_js s" "sc_root s' = sc_root s"
    "length (sc_active s') = Suc (length (sc_active s))"
    "sc_maximum_in_flight s' = sc_maximum_in_flight s"
  using assms by (auto simp: launch_order_def split: option.splits)

lemma launch_orders_sel:
  assumes "launch_orders vg xs s = Some s'"
  shows "sc_pending s' = filter (\<lambda>w. w \<notin> wo_id ` set xs) (sc_pending s)"
    "sc_handoffs s' = sc_handoffs s" "sc_failures s' = sc_failures s"
    "sc_terminal_event_ids s' = sc_terminal_event_ids s" "sc_js s' = sc_js s" "sc_root s' = sc_root s"
    "sc_cleanup_unproven s' = sc_cleanup_unproven s"
    "length (sc_active s') = length xs + length (sc_active s)"
    "sc_maximum_in_flight s' = sc_maximum_in_flight s"
  using assms
  by (induction vg xs s rule: launch_orders.induct)
    (auto simp: launch_order_sel bs_remove_def split: option.splits intro!: filter_cong)

lemma fill_slots_launched:
  assumes "fill_slots vg orders s = Some (launched, s')"
  shows "launched \<Longrightarrow> sc_active s' \<noteq> []" "\<not> launched \<Longrightarrow> sc_pending s' = sc_pending s"
    "\<not> launched \<Longrightarrow> sc_active s' = sc_active s"
proof -
  show "sc_active s' \<noteq> []" if l: launched
  proof -
    obtain ready s1 where "0 < free_slots vg s" "ready \<noteq> []"
      and "launch_orders vg (take (free_slots vg s) ready) s = Some s1" "sc_active s' = sc_active s1"
      using assms l by (auto simp: fill_slots_def split: if_splits option.splits)
    then show ?thesis
      using launch_orders_sel(8)[of vg "take (free_slots vg s) ready" s s1] by (auto simp: min_def split: if_splits)
  qed
  show "sc_pending s' = sc_pending s" "sc_active s' = sc_active s" if "\<not> launched"
    using assms that by (auto simp: fill_slots_def split: if_splits option.splits)
qed

text \<open>The loop continues without an await only after it blocked an order.\<close>

lemma loop_body_continue:
  assumes "loop_body env vg orders s = LoopContinue s'"
  shows "length (sc_pending s') < length (sc_pending s)"
proof -
  obtain blocked s1 launched where b: "blocked_orders orders s = Some blocked"
    and s1: "block_orders env blocked s = Inr s1" and s2: "fill_slots vg orders s1 = Some (launched, s')"
    and idle: "sc_active s' = []" "blocked \<noteq> [] \<or> launched"
    using assms
    by (auto simp: loop_body_def suspend_def Let_def split: if_splits option.splits sum.splits prod.splits)
  have "\<not> launched" "sc_pending s' = sc_pending s1"
    using fill_slots_launched[OF s2] idle(1) by blast+
  with idle(2) obtain w ds where w: "(w, ds) \<in> set blocked"
    by (metis list.set_intros(1) neq_Nil_conv surj_pair)
  then have "w \<in> set (sc_pending s)"
    using b by (auto simp: blocked_orders_def split: option.splits dest: set_zip_leftD)
  with w have "length (sc_pending s1) < length (sc_pending s)"
    unfolding block_orders_pending[OF s1] by (force intro: length_filter_less)
  with \<open>sc_pending s' = sc_pending s1\<close> show ?thesis by simp
qed

function run_loop :: "sched_env \<Rightarrow> ValidatedActorGraph \<Rightarrow> sched \<Rightarrow> exec_config" where
  "run_loop env vg s =
     (case loop_body env vg (executor_orders vg) s of
        LoopAwait s' \<Rightarrow> Awaiting s'
      | LoopContinue s' \<Rightarrow> run_loop env vg s'
      | LoopBreak s' \<Rightarrow> finish_graph env vg s'
      | LoopReturn js e \<Rightarrow> Returned js (Inl e)
      | LoopPanic \<Rightarrow> Panicked)"
  by pat_completeness auto
termination
  by (relation "measure (\<lambda>(env, vg, s). length (sc_pending s))") (auto intro: loop_body_continue)

declare run_loop.simps [simp del]

section \<open>The executor\<close>

definition exec_start :: "sched_env \<Rightarrow> ValidatedActorGraph \<Rightarrow> exec_config" where
  "exec_start env vg =
     (case retain env None
             (GraphAccepted (vg_digest_sha256 vg) (gp_policy_version (vg_policy vg))
                (gp_plan_input_snapshot_sha256 (vg_policy vg))) \<lparr>js_records = [], js_next = 0\<rparr> of
        (Inl e, js) \<Rightarrow> Returned js (Inl (ExecJournal e))
      | (Inr root, js) \<Rightarrow>
          run_loop env vg
            \<lparr>sc_root = root, sc_js = js, sc_pending = bs_of_list (bm_keys (executor_orders vg)),
             sc_handoffs = [], sc_failures = [], sc_terminal_event_ids = [], sc_cleanup_unproven = [],
             sc_active = [], sc_maximum_in_flight = 0\<rparr>)"

text \<open>Poll the future at position \<open>i\<close>.\<close>

definition exec_poll ::
  "sched_env \<Rightarrow> ValidatedActorGraph \<Rightarrow> sched \<Rightarrow> nat \<Rightarrow> task_input \<Rightarrow> exec_config" where
  "exec_poll env vg s i input =
     (case step_task env (sc_active s ! i) input (sc_js s) of
        (TaskPending t, js) \<Rightarrow> Awaiting (s\<lparr>sc_js := js, sc_active := (sc_active s)[i := t]\<rparr>)
      | (TaskReady terminal, js) \<Rightarrow>
          run_loop env vg (apply_terminal terminal
            (s\<lparr>sc_js := js, sc_active := take i (sc_active s) @ drop (Suc i) (sc_active s)\<rparr>))
      | (TaskJournalError e, js) \<Rightarrow> Returned js (Inl (ExecJournal e))
      | (TaskPanic, js) \<Rightarrow> Panicked)"

inductive exec_step :: "sched_env \<Rightarrow> ValidatedActorGraph \<Rightarrow> exec_config \<Rightarrow> exec_config \<Rightarrow> bool"
  for env :: sched_env and vg :: ValidatedActorGraph where
  poll: "i < length (sc_active s) \<Longrightarrow> task_accepts (sc_active s ! i) input
     \<Longrightarrow> exec_step env vg (Awaiting s) (exec_poll env vg s i input)"

inductive_cases exec_stepE: "exec_step env vg c c'"

definition exec_reachable :: "sched_env \<Rightarrow> ValidatedActorGraph \<Rightarrow> exec_config \<Rightarrow> bool" where
  "exec_reachable env vg c = (exec_step env vg)\<^sup>*\<^sup>* (exec_start env vg) c"

end
