(* ===== verification/Dispatch_Verifier.thy ===== *)
theory Dispatch_Verifier
  imports Scheduler_Journal
begin

text \<open>
  The verifier of dispatches, \<open>SchedulerDispatchVerifier for InMemorySchedulerJournal\<close> of
  \<open>crates/orchestrator/src/actor_graph.rs\<close>: it accepts an \<open>AgentDispatch\<close> only when the retained
  records prove it, by walking the causal chain of the dispatch through retries and dependency
  hand-offs down to the accepted graph.  The walk is a work-list loop over journal positions; its
  body is \<open>ancestry_step\<close>.
\<close>

section \<open>Errors and evidence\<close>

datatype (plugins only: code size) SchedulerDispatchVerificationError =
    VerificationJournal SchedulerJournalError
  | AttestationMismatch
  | DependencyHandoffKeySetMismatch
  | DependencyEventKeySetMismatch
  | DependencyHandoffWorkOrderMismatch WorkOrderId WorkOrderId
  | DependencyHandoffEventMismatch WorkOrderId SchedulerEventId SchedulerEventId
  | DependencyHandoffIncomplete WorkOrderId HandoffOutcome
  | DispatchRecordNotFound AttemptId
  | DispatchRecordAmbiguous AttemptId
  | DispatchWorkOrderMismatch
  | DispatchActorMismatch
  | DispatchExecutionMismatch
  | DispatchParentAttemptMismatch
  | DispatchGraphRootMismatch
  | DispatchAttestationMismatch
  | DispatchDependencyEventsMismatch
  | DispatchCausalParentMismatch
  | DependencyRecordNotFound WorkOrderId SchedulerEventId
  | DependencyRecordAmbiguous WorkOrderId SchedulerEventId
  | DependencyRecordTypeMismatch WorkOrderId
  | DependencyRetainedHandoffMismatch WorkOrderId
  | DependencyProducerDispatchMissing WorkOrderId
  | DependencyProducerDispatchAmbiguous WorkOrderId
  | DependencyProducerRecordTypeMismatch WorkOrderId
  | DependencyProducerIdentityMismatch WorkOrderId
  | DependencyProducerGraphMismatch WorkOrderId
  | RootRecordNotFound
  | RootRecordAmbiguous
  | RootRecordMismatch

record VerifiedSchedulerDependencyV1 =
  vd_dependency_id :: WorkOrderId
  vd_graph_accepted_event_id :: SchedulerEventId
  vd_handoff_event_id :: SchedulerEventId
  vd_producer_dispatch_event_id :: SchedulerEventId
  vd_actor_id :: ActorId
  vd_execution_id :: ExecutionId
  vd_attempt_id :: AttemptId
  vd_dispatch_attestation :: DispatchAttestation

record VerifiedSchedulerDispatchV1 =
  vs_dispatch_event_id :: SchedulerEventId
  vs_graph_accepted_event_id :: SchedulerEventId
  vs_dependencies :: "(WorkOrderId, VerifiedSchedulerDependencyV1) btree_map"

section \<open>Shape of the dispatch\<close>

definition map_keys_equal_set :: "('k, 'v) btree_map \<Rightarrow> 'k btree_set \<Rightarrow> bool" where
  "map_keys_equal_set m s = (length m = length s \<and> bm_keys m = s)"

text \<open>
  The loop over the dependency hand-offs.  \<open>dispatch.dependency_handoff_event_ids[id]\<close> is read after
  the key sets were compared; a missing key, which would panic, is the outer \<open>None\<close>.
\<close>

fun shape_handoffs ::
  "(WorkOrderId, SchedulerEventId) btree_map \<Rightarrow> (WorkOrderId \<times> Handoff) list
     \<Rightarrow> (SchedulerDispatchVerificationError + unit) option" where
  "shape_handoffs event_ids [] = Some (Inr ())"
| "shape_handoffs event_ids ((dependency_id, handoff) # hs) =
     (if ho_work_order_id handoff \<noteq> dependency_id
      then Some (Inl (DependencyHandoffWorkOrderMismatch dependency_id (ho_work_order_id handoff)))
      else case bm_get event_ids dependency_id of
        None \<Rightarrow> None
      | Some mapped_event_id \<Rightarrow>
          (if ho_retained_event_id handoff \<noteq> mapped_event_id
           then Some (Inl (DependencyHandoffEventMismatch dependency_id mapped_event_id
                  (ho_retained_event_id handoff)))
           else if ho_outcome handoff \<noteq> HandoffCompleted
           then Some (Inl (DependencyHandoffIncomplete dependency_id (ho_outcome handoff)))
           else shape_handoffs event_ids hs))"

definition verify_dispatch_shape ::
  "codec \<Rightarrow> AgentDispatch \<Rightarrow> (SchedulerDispatchVerificationError + unit) option" where
  "verify_dispatch_shape cd dispatch =
     (case dispatch_attestation cd (ad_graph_sha256 dispatch) (ad_work_order dispatch) of
        Inl e \<Rightarrow> Some (Inl (VerificationJournal e))
      | Inr expected_attestation \<Rightarrow>
          (if ad_attestation dispatch \<noteq> expected_attestation then Some (Inl AttestationMismatch)
           else if \<not> map_keys_equal_set (ad_dependency_handoffs dispatch)
                      (wo_dependencies (ad_work_order dispatch))
           then Some (Inl DependencyHandoffKeySetMismatch)
           else if \<not> map_keys_equal_set (ad_dependency_handoff_event_ids dispatch)
                      (wo_dependencies (ad_work_order dispatch))
           then Some (Inl DependencyEventKeySetMismatch)
           else shape_handoffs (ad_dependency_handoff_event_ids dispatch) (ad_dependency_handoffs dispatch)))"

section \<open>Unique records\<close>

text \<open>\<open>matches.next()\<close> twice: no match, one match, or more than one.\<close>

definition unique_match :: "'e \<Rightarrow> 'e \<Rightarrow> 'a list \<Rightarrow> 'e + 'a" where
  "unique_match none many matches =
     (case matches of [] \<Rightarrow> Inl none | [r] \<Rightarrow> Inr r | _ # _ # _ \<Rightarrow> Inl many)"

fun dispatched_attempt :: "SchedulerEvent \<Rightarrow> AttemptId option" where
  "dispatched_attempt (AttemptDispatched d) = Some (de_attempt_id d)"
| "dispatched_attempt _ = None"

definition unique_dispatch_record_for_attempt ::
  "SchedulerRecord list \<Rightarrow> AttemptId \<Rightarrow> SchedulerDispatchVerificationError + SchedulerRecord" where
  "unique_dispatch_record_for_attempt records attempt_id =
     unique_match (DispatchRecordNotFound attempt_id) (DispatchRecordAmbiguous attempt_id)
       (filter (\<lambda>r. dispatched_attempt (sr_event r) = Some attempt_id) records)"

definition unique_dependency_record ::
  "SchedulerRecord list \<Rightarrow> WorkOrderId \<Rightarrow> SchedulerEventId
     \<Rightarrow> SchedulerDispatchVerificationError + SchedulerRecord" where
  "unique_dependency_record records dependency_id event_id =
     unique_match (DependencyRecordNotFound dependency_id event_id)
       (DependencyRecordAmbiguous dependency_id event_id) (filter (\<lambda>r. sr_id r = event_id) records)"

definition verify_graph_root_record ::
  "SchedulerRecord list \<Rightarrow> SchedulerEventId \<Rightarrow> string \<Rightarrow> SchedulerDispatchVerificationError + unit" where
  "verify_graph_root_record records graph_accepted_event_id graph_sha256 =
     (case unique_match RootRecordNotFound RootRecordAmbiguous
             (filter (\<lambda>r. sr_id r = graph_accepted_event_id) records) of
        Inl e \<Rightarrow> Inl e
      | Inr parent \<Rightarrow>
          (case (sr_causal_parent parent, sr_event parent) of
             (None, GraphAccepted retained _ _) \<Rightarrow>
               (if retained = graph_sha256 then Inr () else Inl RootRecordMismatch)
           | _ \<Rightarrow> Inl RootRecordMismatch))"

definition verify_dependency_producer ::
  "SchedulerRecord list \<Rightarrow> WorkOrderId \<Rightarrow> SchedulerRecord \<Rightarrow> Handoff \<Rightarrow> string \<Rightarrow> SchedulerEventId
     \<Rightarrow> SchedulerDispatchVerificationError + VerifiedSchedulerDependencyV1" where
  "verify_dependency_producer records dependency_id handoff_record handoff graph_sha256 graph_accepted_event_id =
     (case sr_causal_parent handoff_record of
        None \<Rightarrow> Inl (DependencyProducerDispatchMissing dependency_id)
      | Some parent_event_id \<Rightarrow>
          (case unique_match (DependencyProducerDispatchMissing dependency_id)
                  (DependencyProducerDispatchAmbiguous dependency_id)
                  (filter (\<lambda>r. sr_id r = parent_event_id) records) of
             Inl e \<Rightarrow> Inl e
           | Inr parent \<Rightarrow>
               (case sr_event parent of
                  AttemptDispatched d \<Rightarrow>
                    (if de_work_order_id d \<noteq> ho_work_order_id handoff
                        \<or> de_actor_id d \<noteq> ho_actor_id handoff
                        \<or> de_execution_id d \<noteq> ho_execution_id handoff
                        \<or> de_attempt_id d \<noteq> ho_attempt_id handoff
                     then Inl (DependencyProducerIdentityMismatch dependency_id)
                     else if da_graph_sha256 (de_attestation d) \<noteq> graph_sha256
                     then Inl (DependencyProducerGraphMismatch dependency_id)
                     else if de_graph_accepted_event_id d \<noteq> graph_accepted_event_id
                     then Inl DispatchGraphRootMismatch
                     else Inr \<lparr>vd_dependency_id = dependency_id,
                               vd_graph_accepted_event_id = graph_accepted_event_id,
                               vd_handoff_event_id = sr_id handoff_record,
                               vd_producer_dispatch_event_id = sr_id parent,
                               vd_actor_id = de_actor_id d, vd_execution_id = de_execution_id d,
                               vd_attempt_id = de_attempt_id d,
                               vd_dispatch_attestation = de_attestation d\<rparr>)
                | _ \<Rightarrow> Inl (DependencyProducerRecordTypeMismatch dependency_id))))"

section \<open>The walk along the causal chain\<close>

type_synonym record_index = "(SchedulerEventId, nat \<times> SchedulerRecord) btree_map"

text \<open>Every record with its position; \<open>None\<close> when an identifier occurs twice.\<close>

fun build_index :: "nat \<Rightarrow> record_index \<Rightarrow> SchedulerRecord list \<Rightarrow> record_index option" where
  "build_index pos index [] = Some index"
| "build_index pos index (r # rs) =
     (if bm_contains_key index (sr_id r) then None
      else build_index (Suc pos) (bm_insert (sr_id r) (pos, r) index) rs)"

definition preceding_record ::
  "record_index \<Rightarrow> SchedulerEventId \<Rightarrow> nat \<Rightarrow> SchedulerDispatchVerificationError + SchedulerRecord" where
  "preceding_record index event_id child_position =
     (case bm_get index event_id of
        None \<Rightarrow> Inl DispatchCausalParentMismatch
      | Some (pos, r) \<Rightarrow>
          (if pos \<ge> child_position then Inl DispatchCausalParentMismatch else Inr r))"

text \<open>
  \<open>index[&record.id].0\<close> for a record found in the index.  Entries are stored under their own
  identifier, so the lookup succeeds; position 0 for a missing entry would reject every parent.
\<close>

definition index_position :: "record_index \<Rightarrow> SchedulerRecord \<Rightarrow> nat" where
  "index_position index r = (case bm_get index (sr_id r) of None \<Rightarrow> 0 | Some (pos, _) \<Rightarrow> pos)"

text \<open>A retry: the parent is the failure of the previous attempt, whose parent is that attempt's dispatch.\<close>

definition ancestry_retry ::
  "record_index \<Rightarrow> SchedulerEventId \<Rightarrow> nat \<Rightarrow> SchedulerRecord \<Rightarrow> dispatched_event \<Rightarrow> AttemptId
     \<Rightarrow> SchedulerDispatchVerificationError + SchedulerEventId list" where
  "ancestry_retry index graph_accepted_event_id dispatch_position current d parent_attempt_id =
     (case sr_causal_parent current of
        None \<Rightarrow> Inl DispatchCausalParentMismatch
      | Some failed_event_id \<Rightarrow>
          (case preceding_record index failed_event_id dispatch_position of
             Inl e \<Rightarrow> Inl e
           | Inr failed \<Rightarrow>
               (case sr_event failed of
                  AttemptFailed failed_work_order_id failed_execution_id failed_attempt_id _ will_retry \<Rightarrow>
                    (if failed_work_order_id \<noteq> de_work_order_id d
                        \<or> failed_execution_id \<noteq> de_execution_id d
                        \<or> failed_attempt_id \<noteq> parent_attempt_id
                        \<or> \<not> will_retry
                     then Inl DispatchCausalParentMismatch
                     else case sr_causal_parent failed of
                       None \<Rightarrow> Inl DispatchCausalParentMismatch
                     | Some parent_dispatch_event_id \<Rightarrow>
                         (case preceding_record index parent_dispatch_event_id (index_position index failed) of
                            Inl e \<Rightarrow> Inl e
                          | Inr parent_dispatch \<Rightarrow>
                              (case sr_event parent_dispatch of
                                 AttemptDispatched p \<Rightarrow>
                                   (if de_work_order_id p \<noteq> de_work_order_id d
                                       \<or> de_actor_id p \<noteq> de_actor_id d
                                       \<or> de_execution_id p \<noteq> de_execution_id d
                                       \<or> de_attempt_id p \<noteq> parent_attempt_id
                                       \<or> de_graph_accepted_event_id p \<noteq> graph_accepted_event_id
                                       \<or> de_attestation p \<noteq> de_attestation d
                                       \<or> de_dependency_handoff_event_ids p \<noteq> de_dependency_handoff_event_ids d
                                    then Inl DispatchCausalParentMismatch
                                    else Inr [sr_id parent_dispatch])
                               | _ \<Rightarrow> Inl DispatchCausalParentMismatch)))
                | _ \<Rightarrow> Inl DispatchCausalParentMismatch)))"

text \<open>One dependency of a first attempt: a completed hand-off retained by its producer's dispatch.\<close>

definition ancestry_dependency ::
  "record_index \<Rightarrow> SchedulerEventId \<Rightarrow> string \<Rightarrow> nat \<Rightarrow> WorkOrderId \<Rightarrow> SchedulerEventId
     \<Rightarrow> SchedulerDispatchVerificationError + SchedulerEventId" where
  "ancestry_dependency index graph_accepted_event_id graph_sha256 dispatch_position dependency_id handoff_event_id =
     (case preceding_record index handoff_event_id dispatch_position of
        Inl e \<Rightarrow> Inl e
      | Inr handoff_record \<Rightarrow>
          (case sr_event handoff_record of
             HandoffRetained handoff \<Rightarrow>
               (if ho_retained_event_id handoff \<noteq> handoff_event_id \<or> ho_work_order_id handoff \<noteq> dependency_id
                then Inl (DependencyRetainedHandoffMismatch dependency_id)
                else if ho_outcome handoff \<noteq> HandoffCompleted
                then Inl (DependencyHandoffIncomplete dependency_id (ho_outcome handoff))
                else case sr_causal_parent handoff_record of
                  None \<Rightarrow> Inl (DependencyProducerDispatchMissing dependency_id)
                | Some producer_dispatch_event_id \<Rightarrow>
                    (case preceding_record index producer_dispatch_event_id
                            (index_position index handoff_record) of
                       Inl e \<Rightarrow> Inl e
                     | Inr producer_dispatch \<Rightarrow>
                         (case sr_event producer_dispatch of
                            AttemptDispatched p \<Rightarrow>
                              (if de_work_order_id p \<noteq> ho_work_order_id handoff
                                  \<or> de_actor_id p \<noteq> ho_actor_id handoff
                                  \<or> de_execution_id p \<noteq> ho_execution_id handoff
                                  \<or> de_attempt_id p \<noteq> ho_attempt_id handoff
                                  \<or> de_graph_accepted_event_id p \<noteq> graph_accepted_event_id
                                  \<or> da_graph_sha256 (de_attestation p) \<noteq> graph_sha256
                               then Inl (DependencyProducerIdentityMismatch dependency_id)
                               else Inr (sr_id producer_dispatch))
                          | _ \<Rightarrow> Inl (DependencyProducerRecordTypeMismatch dependency_id))))
           | _ \<Rightarrow> Inl (DependencyRecordTypeMismatch dependency_id)))"

fun ancestry_dependencies ::
  "record_index \<Rightarrow> SchedulerEventId \<Rightarrow> string \<Rightarrow> nat \<Rightarrow> SchedulerEventId btree_set
     \<Rightarrow> (WorkOrderId \<times> SchedulerEventId) list \<Rightarrow> SchedulerDispatchVerificationError + SchedulerEventId list" where
  "ancestry_dependencies index root sha pos seen [] = Inr []"
| "ancestry_dependencies index root sha pos seen ((dependency_id, handoff_event_id) # ds) =
     (if bs_contains seen handoff_event_id then Inl DispatchCausalParentMismatch
      else case ancestry_dependency index root sha pos dependency_id handoff_event_id of
        Inl e \<Rightarrow> Inl e
      | Inr producer \<Rightarrow>
          (case ancestry_dependencies index root sha pos (bs_insert handoff_event_id seen) ds of
             Inl e \<Rightarrow> Inl e
           | Inr producers \<Rightarrow> Inr (producer # producers)))"

text \<open>A dispatch without dependencies: its parent is the accepted graph, at an earlier position.\<close>

definition ancestry_root ::
  "record_index \<Rightarrow> SchedulerEventId \<Rightarrow> nat \<Rightarrow> SchedulerRecord
     \<Rightarrow> SchedulerDispatchVerificationError + SchedulerEventId list" where
  "ancestry_root index graph_accepted_event_id dispatch_position current =
     (if sr_causal_parent current \<noteq> Some graph_accepted_event_id then Inl RootRecordMismatch
      else case bm_get index graph_accepted_event_id of
        None \<Rightarrow> Inl RootRecordNotFound
      | Some (root_position, _) \<Rightarrow>
          (if root_position \<ge> dispatch_position then Inl RootRecordMismatch else Inr []))"

text \<open>
  The body of the loop for one dispatch event: the dispatch events to verify next, in the order
  in which they are pushed.
\<close>

definition ancestry_step ::
  "record_index \<Rightarrow> SchedulerEventId \<Rightarrow> string \<Rightarrow> SchedulerEventId
     \<Rightarrow> SchedulerDispatchVerificationError + SchedulerEventId list" where
  "ancestry_step index root sha dispatch_event_id =
     (case bm_get index dispatch_event_id of
        None \<Rightarrow> Inl DispatchCausalParentMismatch
      | Some (dispatch_position, current) \<Rightarrow>
          (case sr_event current of
             AttemptDispatched d \<Rightarrow>
               (if de_graph_accepted_event_id d \<noteq> root \<or> da_graph_sha256 (de_attestation d) \<noteq> sha
                then Inl DispatchGraphRootMismatch
                else case de_parent_attempt_id d of
                  Some parent_attempt_id \<Rightarrow>
                    ancestry_retry index root dispatch_position current d parent_attempt_id
                | None \<Rightarrow>
                    (case bm_values (de_dependency_handoff_event_ids d) of
                       [] \<Rightarrow> ancestry_root index root dispatch_position current
                     | first_dependency_event_id # _ \<Rightarrow>
                         (if sr_causal_parent current \<noteq> Some first_dependency_event_id
                          then Inl DispatchCausalParentMismatch
                          else ancestry_dependencies index root sha dispatch_position []
                                 (de_dependency_handoff_event_ids d))))
           | _ \<Rightarrow> Inl DispatchCausalParentMismatch))"

text \<open>The head of \<open>pending\<close> is the entry that \<open>pop\<close> returns.\<close>

function ancestry_loop ::
  "record_index \<Rightarrow> SchedulerEventId \<Rightarrow> string \<Rightarrow> SchedulerEventId list \<Rightarrow> SchedulerEventId btree_set
     \<Rightarrow> SchedulerDispatchVerificationError + unit" where
  "ancestry_loop index root sha [] verified = Inr ()"
| "ancestry_loop index root sha (event_id # pending) verified =
     (if bs_contains verified event_id then ancestry_loop index root sha pending verified
      else case ancestry_step index root sha event_id of
        Inl e \<Rightarrow> Inl e
      | Inr pushed \<Rightarrow> ancestry_loop index root sha (rev pushed @ pending) (bs_insert event_id verified))"
  by pat_completeness auto
termination
proof (relation "measures [\<lambda>(index, r, s, p, v). card (set (bm_keys index) - set v), \<lambda>(index, r, s, p, v). length p]")
  fix index :: record_index and root sha event_id pending verified pushed
  assume "\<not> bs_contains verified event_id" and "ancestry_step index root sha event_id = Inr pushed"
  then have "event_id \<in> set (bm_keys index) - set verified"
    by (auto simp: bs_contains_def bm_contains_key_def ancestry_step_def
        simp flip: bm_contains_key_iff split: option.splits)
  then have "card (set (bm_keys index) - set (bs_insert event_id verified)) < card (set (bm_keys index) - set verified)"
    by (intro psubset_card_mono) auto
  then show "((index, root, sha, rev pushed @ pending, bs_insert event_id verified),
      index, root, sha, event_id # pending, verified)
    \<in> measures [\<lambda>(index, r, s, p, v). card (set (bm_keys index) - set v), \<lambda>(index, r, s, p, v). length p]"
    by simp
qed auto

definition verify_full_dispatch_ancestry ::
  "SchedulerRecord list \<Rightarrow> SchedulerRecord \<Rightarrow> SchedulerEventId \<Rightarrow> string
     \<Rightarrow> SchedulerDispatchVerificationError + unit" where
  "verify_full_dispatch_ancestry records dispatch_record graph_accepted_event_id graph_sha256 =
     (case build_index 0 [] records of
        None \<Rightarrow> Inl DispatchCausalParentMismatch
      | Some index \<Rightarrow>
          (case verify_graph_root_record records graph_accepted_event_id graph_sha256 of
             Inl e \<Rightarrow> Inl e
           | Inr _ \<Rightarrow> ancestry_loop index graph_accepted_event_id graph_sha256 [sr_id dispatch_record] []))"

definition verify_dispatch_causal_parent ::
  "SchedulerRecord list \<Rightarrow> SchedulerRecord \<Rightarrow> AgentDispatch \<Rightarrow> SchedulerDispatchVerificationError + unit" where
  "verify_dispatch_causal_parent records dispatch_record dispatch =
     verify_full_dispatch_ancestry records dispatch_record (ad_graph_accepted_event_id dispatch)
       (ad_graph_sha256 dispatch)"

section \<open>verify\_dispatch\<close>

fun verify_dependencies ::
  "SchedulerRecord list \<Rightarrow> string \<Rightarrow> SchedulerEventId \<Rightarrow> (WorkOrderId \<times> Handoff) list
     \<Rightarrow> (WorkOrderId, VerifiedSchedulerDependencyV1) btree_map
     \<Rightarrow> SchedulerDispatchVerificationError + (WorkOrderId, VerifiedSchedulerDependencyV1) btree_map" where
  "verify_dependencies records sha root [] verified = Inr verified"
| "verify_dependencies records sha root ((dependency_id, handoff) # hs) verified =
     (case unique_dependency_record records dependency_id (ho_retained_event_id handoff) of
        Inl e \<Rightarrow> Inl e
      | Inr retained_record \<Rightarrow>
          (case sr_event retained_record of
             HandoffRetained retained_handoff \<Rightarrow>
               (if retained_handoff \<noteq> handoff then Inl (DependencyRetainedHandoffMismatch dependency_id)
                else case verify_dependency_producer records dependency_id retained_record retained_handoff sha root of
                  Inl e \<Rightarrow> Inl e
                | Inr v \<Rightarrow> verify_dependencies records sha root hs (bm_insert dependency_id v verified))
           | _ \<Rightarrow> Inl (DependencyRecordTypeMismatch dependency_id)))"

text \<open>The comparison of the retained dispatch event with the dispatch, field by field.\<close>

definition compare_dispatch :: "dispatched_event \<Rightarrow> AgentDispatch \<Rightarrow> SchedulerDispatchVerificationError option" where
  "compare_dispatch d dispatch =
     (if de_work_order_id d \<noteq> wo_id (ad_work_order dispatch) then Some DispatchWorkOrderMismatch
      else if de_actor_id d \<noteq> ad_actor_id dispatch then Some DispatchActorMismatch
      else if de_execution_id d \<noteq> ad_execution_id dispatch then Some DispatchExecutionMismatch
      else if de_parent_attempt_id d \<noteq> ad_parent_attempt_id dispatch then Some DispatchParentAttemptMismatch
      else if de_graph_accepted_event_id d \<noteq> ad_graph_accepted_event_id dispatch
      then Some DispatchGraphRootMismatch
      else if de_attestation d \<noteq> ad_attestation dispatch then Some DispatchAttestationMismatch
      else if de_dependency_handoff_event_ids d \<noteq> ad_dependency_handoff_event_ids dispatch
      then Some DispatchDependencyEventsMismatch
      else None)"

text \<open>
  The lock of the in-memory journal may be poisoned, which \<open>snapshot\<close> reports.  \<open>None\<close> is a panic: the
  missing key of \<open>shape_handoffs\<close>, or the \<open>unreachable!\<close> after the lookup of the dispatch record.
\<close>

definition snapshot :: "bool \<Rightarrow> SchedulerRecord list \<Rightarrow> SchedulerJournalError + SchedulerRecord list" where
  "snapshot poisoned records =
     (if poisoned then Inl \<lparr>je_message = ''scheduler journal lock was poisoned''\<rparr> else Inr records)"

text \<open>The checks on the snapshot, after the shape of the dispatch was verified.\<close>

definition verify_records ::
  "SchedulerRecord list \<Rightarrow> AgentDispatch
     \<Rightarrow> (SchedulerDispatchVerificationError + VerifiedSchedulerDispatchV1) option" where
  "verify_records records dispatch =
     (case unique_dispatch_record_for_attempt records (ad_attempt_id dispatch) of
        Inl e \<Rightarrow> Some (Inl e)
      | Inr dispatch_record \<Rightarrow>
          (case sr_event dispatch_record of
             AttemptDispatched d \<Rightarrow>
               (case compare_dispatch d dispatch of
                  Some e \<Rightarrow> Some (Inl e)
                | None \<Rightarrow>
                    (case verify_graph_root_record records (ad_graph_accepted_event_id dispatch)
                            (ad_graph_sha256 dispatch) of
                       Inl e \<Rightarrow> Some (Inl e)
                     | Inr _ \<Rightarrow>
                         (case verify_dispatch_causal_parent records dispatch_record dispatch of
                            Inl e \<Rightarrow> Some (Inl e)
                          | Inr _ \<Rightarrow>
                              (case verify_dependencies records (ad_graph_sha256 dispatch)
                                      (ad_graph_accepted_event_id dispatch)
                                      (ad_dependency_handoffs dispatch) [] of
                                 Inl e \<Rightarrow> Some (Inl e)
                               | Inr verified \<Rightarrow>
                                   Some (Inr \<lparr>vs_dispatch_event_id = sr_id dispatch_record,
                                              vs_graph_accepted_event_id = ad_graph_accepted_event_id dispatch,
                                              vs_dependencies = verified\<rparr>)))))
           | _ \<Rightarrow> None))"

definition verify_dispatch ::
  "codec \<Rightarrow> bool \<Rightarrow> SchedulerRecord list \<Rightarrow> AgentDispatch
     \<Rightarrow> (SchedulerDispatchVerificationError + VerifiedSchedulerDispatchV1) option" where
  "verify_dispatch cd poisoned records dispatch =
     (case verify_dispatch_shape cd dispatch of
        None \<Rightarrow> None
      | Some (Inl e) \<Rightarrow> Some (Inl e)
      | Some (Inr _) \<Rightarrow>
          (case snapshot poisoned records of
             Inl e \<Rightarrow> Some (Inl (VerificationJournal e))
           | Inr records \<Rightarrow> verify_records records dispatch))"

end
