(* ===== verification/Journal_Causality.thy ===== *)
theory Journal_Causality
  imports Work_Order_Task Dispatch_Verifier
begin

text \<open>
  Causality of the scheduler journal.  \<open>caused\<close> says what an acknowledged record must be able to point
  to among the records before it: a dispatch to the completed hand-offs of its dependencies or to
  the retryable failure of the attempt before it, a failure or a hand-off to the dispatch of its
  attempt, everything else to some earlier record.  \<open>journal_inv\<close> is what retention with fresh
  identifiers keeps.
\<close>

section \<open>Well-caused journals\<close>

text \<open>The dispatch event that a record points to.\<close>

definition dispatch_at :: "SchedulerRecord list \<Rightarrow> SchedulerEventId option \<Rightarrow> dispatched_event \<Rightarrow> bool" where
  "dispatch_at rs parent d \<longleftrightarrow> (\<exists>r \<in> set rs. parent = Some (sr_id r) \<and> sr_event r = AttemptDispatched d)"

definition handoff_at :: "SchedulerRecord list \<Rightarrow> Handoff \<Rightarrow> bool" where
  "handoff_at rs h \<longleftrightarrow> (\<exists>r \<in> set rs. sr_id r = ho_retained_event_id h \<and> sr_event r = HandoffRetained h)"

text \<open>A retry repeats the dispatch of the failed attempt under a new attempt identifier.\<close>

definition retry_caused :: "SchedulerRecord list \<Rightarrow> SchedulerEventId option \<Rightarrow> dispatched_event \<Rightarrow> AttemptId \<Rightarrow> bool" where
  "retry_caused rs parent d previous \<longleftrightarrow>
     (\<exists>r \<in> set rs. parent = Some (sr_id r)
        \<and> (\<exists>f. sr_event r = AttemptFailed (de_work_order_id d) (de_execution_id d) previous f True)
        \<and> (\<exists>p. dispatch_at rs (sr_causal_parent r) p \<and> de_attempt_id p = previous
             \<and> d = p\<lparr>de_attempt_id := de_attempt_id d, de_parent_attempt_id := Some previous\<rparr>))"

text \<open>A first attempt follows completed hand-offs of all its dependencies.\<close>

definition first_caused :: "SchedulerEventId \<Rightarrow> SchedulerRecord list \<Rightarrow> SchedulerEventId option \<Rightarrow> dispatched_event \<Rightarrow> bool" where
  "first_caused root rs parent d \<longleftrightarrow>
     parent = Some (first_or root (de_dependency_handoff_event_ids d))
     \<and> distinct (bm_values (de_dependency_handoff_event_ids d))
     \<and> (\<forall>(k, e) \<in> set (de_dependency_handoff_event_ids d).
          \<exists>h. handoff_at rs h \<and> ho_retained_event_id h = e \<and> ho_work_order_id h = k
            \<and> ho_outcome h = HandoffCompleted)"

fun event_caused ::
  "SchedulerEventId \<Rightarrow> string \<Rightarrow> SchedulerRecord list \<Rightarrow> SchedulerEventId \<Rightarrow> SchedulerEventId option
     \<Rightarrow> SchedulerEvent \<Rightarrow> bool" where
  "event_caused root sha rs i parent (GraphAccepted g v p) \<longleftrightarrow> rs = [] \<and> i = root \<and> parent = None \<and> g = sha"
| "event_caused root sha rs i parent (AttemptDispatched d) \<longleftrightarrow>
     de_graph_accepted_event_id d = root \<and> da_graph_sha256 (de_attestation d) = sha
     \<and> (\<forall>r \<in> set rs. dispatched_attempt (sr_event r) \<noteq> Some (de_attempt_id d))
     \<and> (case de_parent_attempt_id d of
          None \<Rightarrow> first_caused root rs parent d
        | Some previous \<Rightarrow> retry_caused rs parent d previous)"
| "event_caused root sha rs i parent (AttemptFailed w e a f retry) \<longleftrightarrow>
     (\<exists>d. dispatch_at rs parent d \<and> de_work_order_id d = w \<and> de_execution_id d = e \<and> de_attempt_id d = a)
     \<and> (retry \<longrightarrow> (\<exists>failure. f = Worker failure \<and> is_retryable failure))"
| "event_caused root sha rs i parent (HandoffRetained h) \<longleftrightarrow>
     ho_retained_event_id h = i
     \<and> (\<exists>d. dispatch_at rs parent d \<and> de_work_order_id d = ho_work_order_id h
          \<and> de_actor_id d = ho_actor_id h \<and> de_execution_id d = ho_execution_id h
          \<and> de_attempt_id d = ho_attempt_id h)"
| "event_caused root sha rs i parent _ \<longleftrightarrow> True"

definition is_accepted :: "SchedulerEvent \<Rightarrow> bool" where
  "is_accepted e \<longleftrightarrow> (\<exists>g v p. e = GraphAccepted g v p)"

definition caused :: "SchedulerEventId \<Rightarrow> string \<Rightarrow> SchedulerRecord list \<Rightarrow> SchedulerRecord \<Rightarrow> bool" where
  "caused root sha rs r \<longleftrightarrow>
     sr_id r \<notin> sr_id ` set rs
     \<and> (is_accepted (sr_event r) \<or> (\<exists>p \<in> set rs. sr_causal_parent r = Some (sr_id p)))
     \<and> event_caused root sha rs (sr_id r) (sr_causal_parent r) (sr_event r)"

definition well_caused :: "SchedulerEventId \<Rightarrow> string \<Rightarrow> SchedulerRecord list \<Rightarrow> bool" where
  "well_caused root sha rs \<longleftrightarrow> (\<forall>i < length rs. caused root sha (take i rs) (rs ! i))"

lemma well_caused_Nil [simp]: "well_caused root sha []"
  by (simp add: well_caused_def)

lemma well_caused_snoc: "well_caused root sha (rs @ [r]) \<longleftrightarrow> well_caused root sha rs \<and> caused root sha rs r"
  by (auto simp: well_caused_def nth_append less_Suc_eq)

lemma well_caused_distinct: "well_caused root sha rs \<Longrightarrow> distinct (map sr_id rs)"
  by (induction rs rule: rev_induct) (auto simp: well_caused_snoc caused_def)

lemma well_caused_same_id:
  assumes "well_caused root sha rs" "r \<in> set rs" "r' \<in> set rs" "sr_id r = sr_id r'"
  shows "r = r'"
  using assms well_caused_distinct by (metis distinct_map inj_on_eq_iff)

text \<open>A journal entry is well caused by the records before it.\<close>

lemma well_caused_split:
  "well_caused root sha (ps @ r # qs) \<Longrightarrow> caused root sha ps r"
  unfolding well_caused_def by (drule spec[of _ "length ps"]) simp

lemma dispatch_at_mono: "dispatch_at rs p d \<Longrightarrow> set rs \<subseteq> set rs' \<Longrightarrow> dispatch_at rs' p d"
  by (auto simp: dispatch_at_def)

lemma handoff_at_mono: "handoff_at rs h \<Longrightarrow> set rs \<subseteq> set rs' \<Longrightarrow> handoff_at rs' h"
  by (auto simp: handoff_at_def)

lemma handoff_at_inj:
  assumes "well_caused root sha rs" "handoff_at rs h" "handoff_at rs h'"
    and "ho_retained_event_id h = ho_retained_event_id h'"
  shows "h = h'"
proof -
  obtain r r' where "r \<in> set rs" "r' \<in> set rs" "sr_event r = HandoffRetained h"
    "sr_event r' = HandoffRetained h'" "sr_id r = sr_id r'"
    using assms(2-4) by (auto simp: handoff_at_def)
  with well_caused_same_id[OF assms(1)] show ?thesis by (metis SchedulerEvent.inject(4))
qed

section \<open>Retention with fresh identifiers\<close>

definition ids_drawn :: "sched_env \<Rightarrow> jstate \<Rightarrow> bool" where
  "ids_drawn env js \<longleftrightarrow>
     (\<forall>r \<in> set (js_records js).
        (\<exists>n < js_next js. sr_id r = SchedulerEventId (se_uuid env n))
        \<and> (\<forall>a. dispatched_attempt (sr_event r) = Some a \<longrightarrow> (\<exists>n < js_next js. a = AttemptId (se_uuid env n))))"

definition journal_inv :: "sched_env \<Rightarrow> SchedulerEventId \<Rightarrow> string \<Rightarrow> jstate \<Rightarrow> bool" where
  "journal_inv env root sha js \<longleftrightarrow> well_caused root sha (js_records js) \<and> ids_drawn env js"

lemma fresh_uuid_eq [simp]: "fresh_uuid env js = (se_uuid env (js_next js), js\<lparr>js_next := Suc (js_next js)\<rparr>)"
  by (simp add: fresh_uuid_def)

lemma retain_with_id_cases:
  assumes "retain_with_id env i p ev js = (res, js')"
  obtains (refused) e where "res = Inl e" "js' = js"
  | (acknowledged) "res = Inr ()"
      "js' = js\<lparr>js_records := js_records js @ [\<lparr>sr_id = i, sr_causal_parent = p, sr_event = ev\<rparr>]\<rparr>"
  using assms by (auto simp: retain_with_id_def Let_def split: option.splits)

lemma retain_cases:
  assumes "retain env p ev js = (res, js')"
  obtains (refused) e where "res = Inl e" "js' = js\<lparr>js_next := Suc (js_next js)\<rparr>"
  | (acknowledged) i where "i = SchedulerEventId (se_uuid env (js_next js))" "res = Inr i"
      "js' = \<lparr>js_records = js_records js @ [\<lparr>sr_id = i, sr_causal_parent = p, sr_event = ev\<rparr>],
              js_next = Suc (js_next js)\<rparr>"
  using assms by (auto simp: retain_def retain_with_id_def Let_def split: option.splits intro: that)

lemma ids_drawn_next: "ids_drawn env js \<Longrightarrow> js_next js \<le> n \<Longrightarrow> ids_drawn env (js\<lparr>js_next := n\<rparr>)"
  by (auto simp: ids_drawn_def) (meson order_less_le_trans)+

lemma journal_inv_next: "journal_inv env root sha js \<Longrightarrow> js_next js \<le> n \<Longrightarrow> journal_inv env root sha (js\<lparr>js_next := n\<rparr>)"
  by (simp add: journal_inv_def ids_drawn_next)

lemma ids_drawn_fresh:
  assumes "inj (se_uuid env)" "ids_drawn env js"
  shows "SchedulerEventId (se_uuid env (js_next js)) \<notin> sr_id ` set (js_records js)"
    and "\<forall>r \<in> set (js_records js). dispatched_attempt (sr_event r) \<noteq> Some (AttemptId (se_uuid env (js_next js)))"
  using assms by (fastforce simp: ids_drawn_def inj_eq)+

text \<open>Appending a caused record under a fresh identifier keeps the invariant.\<close>

lemma journal_inv_append:
  assumes "journal_inv env root sha js" and "js_next js \<le> n"
    and "caused root sha (js_records js) r"
    and "\<exists>k < n. sr_id r = SchedulerEventId (se_uuid env k)"
    and "\<And>a. dispatched_attempt (sr_event r) = Some a \<Longrightarrow> \<exists>k < n. a = AttemptId (se_uuid env k)"
  shows "journal_inv env root sha \<lparr>js_records = js_records js @ [r], js_next = n\<rparr>"
proof -
  have "ids_drawn env (js\<lparr>js_next := n\<rparr>)"
    using assms(1,2) by (simp add: journal_inv_def ids_drawn_next)
  with assms show ?thesis
    by (auto simp: journal_inv_def ids_drawn_def well_caused_snoc)
qed

definition journal_extends :: "jstate \<Rightarrow> jstate \<Rightarrow> bool" where
  "journal_extends js js' \<longleftrightarrow> (\<exists>new. js_records js' = js_records js @ new) \<and> js_next js \<le> js_next js'"

lemma journal_extends_refl [simp, intro]: "journal_extends js js"
  by (simp add: journal_extends_def)

lemma journal_extends_trans: "journal_extends a b \<Longrightarrow> journal_extends b c \<Longrightarrow> journal_extends a c"
  by (auto simp: journal_extends_def)

lemma journal_extends_subset: "journal_extends js js' \<Longrightarrow> set (js_records js) \<subseteq> set (js_records js')"
  by (auto simp: journal_extends_def)

lemma journal_extends_next [simp]: "journal_extends js (js\<lparr>js_next := n\<rparr>) \<longleftrightarrow> js_next js \<le> n"
  by (simp add: journal_extends_def)

text \<open>One retention: the invariant is kept, the record is there when it was acknowledged.\<close>

lemma retain_inv:
  assumes "inj (se_uuid env)" and "journal_inv env root sha js" and "retain env (Some p) ev js = (res, js')"
    and "p \<in> sr_id ` set (js_records js)"
    and "event_caused root sha (js_records js) (SchedulerEventId (se_uuid env (js_next js))) (Some p) ev"
    and "\<And>a. dispatched_attempt ev = Some a \<Longrightarrow> \<exists>n < js_next js. a = AttemptId (se_uuid env n)"
  shows "journal_inv env root sha js'" "journal_extends js js'"
    and "res = Inr i \<Longrightarrow> js_records js' = js_records js @ [\<lparr>sr_id = i, sr_causal_parent = Some p, sr_event = ev\<rparr>]"
    and "isl res \<Longrightarrow> js_records js' = js_records js"
proof -
  let ?i = "SchedulerEventId (se_uuid env (js_next js))"
  have "caused root sha (js_records js) \<lparr>sr_id = ?i, sr_causal_parent = Some p, sr_event = ev\<rparr>"
    using assms(1,2,4,5) by (auto simp: caused_def journal_inv_def ids_drawn_fresh)
  then have "journal_inv env root sha \<lparr>js_records = js_records js @ [\<lparr>sr_id = ?i, sr_causal_parent = Some p, sr_event = ev\<rparr>],
      js_next = Suc (js_next js)\<rparr>"
    using assms(2,6) by (intro journal_inv_append) (auto intro: less_SucI)
  then show "journal_inv env root sha js'" "journal_extends js js'"
    "res = Inr i \<Longrightarrow> js_records js' = js_records js @ [\<lparr>sr_id = i, sr_causal_parent = Some p, sr_event = ev\<rparr>]"
    "isl res \<Longrightarrow> js_records js' = js_records js"
    using assms(2,3) by (auto elim!: retain_cases simp: journal_inv_next journal_extends_def)
qed

section \<open>Dispatches and their dependencies\<close>

text \<open>Every dispatch, retries included, follows completed hand-offs of the dependencies it names.\<close>

lemma dispatch_after_dependencies:
  assumes wc: "well_caused root sha rs" and "p < length rs" "sr_event (rs ! p) = AttemptDispatched d"
    "(k, e) \<in> set (de_dependency_handoff_event_ids d)"
  shows "\<exists>h. handoff_at (take p rs) h \<and> ho_work_order_id h = k \<and> ho_outcome h = HandoffCompleted"
  using assms(2-)
proof (induction p arbitrary: d rule: less_induct)
  case (less p)
  have caused: "caused root sha (take p rs) (rs ! p)"
    using wc less.prems(1) by (simp add: well_caused_def)
  show ?case
  proof (cases "de_parent_attempt_id d")
    case None
    then have "first_caused root (take p rs) (sr_causal_parent (rs ! p)) d"
      using caused less.prems(2) by (simp add: caused_def)
    then show ?thesis
      using less.prems(3) by (fastforce simp: first_caused_def)
  next
    case (Some previous)
    then have "retry_caused (take p rs) (sr_causal_parent (rs ! p)) d previous"
      using caused less.prems(2) by (simp add: caused_def)
    then obtain r pd par where "dispatch_at (take p rs) par pd"
      "d = pd\<lparr>de_attempt_id := de_attempt_id d, de_parent_attempt_id := Some previous\<rparr>"
      by (auto simp: retry_caused_def)
    moreover from arg_cong[OF this(2), of de_dependency_handoff_event_ids]
    have "de_dependency_handoff_event_ids pd = de_dependency_handoff_event_ids d"
      by simp
    ultimately obtain q where q: "q < p" "q < length rs" "sr_event (rs ! q) = AttemptDispatched pd"
      "(k, e) \<in> set (de_dependency_handoff_event_ids pd)"
      using less.prems(3) by (auto simp: dispatch_at_def in_set_conv_nth)
    have "set (take q rs) \<subseteq> set (take p rs)"
      using q(1) by (simp add: set_take_subset_set_take)
    then show ?thesis
      using less.IH[OF q] handoff_at_mono by blast
  qed
qed

lemma retry_after_failure:
  assumes wc: "well_caused root sha (ps @ r # qs)" and "sr_event r = AttemptDispatched d" "de_parent_attempt_id d = Some previous"
  obtains fr failure where "fr \<in> set ps" "sr_causal_parent r = Some (sr_id fr)" "is_retryable failure"
    "sr_event fr = AttemptFailed (de_work_order_id d) (de_execution_id d) previous (Worker failure) True"
proof -
  have "retry_caused ps (sr_causal_parent r) d previous"
    using well_caused_split[OF wc] assms(2,3) by (simp add: caused_def)
  then obtain fr f where fr: "fr \<in> set ps" "sr_causal_parent r = Some (sr_id fr)"
    "sr_event fr = AttemptFailed (de_work_order_id d) (de_execution_id d) previous f True"
    by (auto simp: retry_caused_def)
  obtain as bs where ps: "ps = as @ fr # bs" using fr(1) by (metis split_list)
  then have "caused root sha as fr"
    using well_caused_split[of root sha as fr "bs @ r # qs"] wc by simp
  then obtain failure where "f = Worker failure" "is_retryable failure"
    using fr(3) by (auto simp: caused_def)
  with fr that show thesis by blast
qed

end
