(* ===== verification/Validation_Correct.thy ===== *)
theory Validation_Correct
  imports Actor_Validation "HOL-Library.Multiset"
begin

text \<open>
  The specification of a valid actor graph and the proof that the checker of \<open>Actor_Validation\<close>
  decides it.  Each group of checks has a lemma that says when it reports nothing; the pass over
  the work orders is analysed by induction from the last work order.
\<close>

section \<open>Specification\<close>

text \<open>Work orders by identifier.\<close>

definition order_index :: "WorkOrder list \<Rightarrow> order_map" where
  "order_index orders = bm_of_list (map (\<lambda>order. (wo_id order, order)) orders)"

definition valid_policy :: "ActorGraph \<Rightarrow> ActorGraphPolicy \<Rightarrow> bool" where
  "valid_policy graph policy \<longleftrightarrow>
     ag_schema_version graph = ACTOR_GRAPH_SCHEMA_VERSION
     \<and> \<not> is_blank (gp_policy_version policy)
     \<and> length (gp_policy_version policy) \<le> MAX_ASSIGNMENT_ID_BYTES
     \<and> length (gp_workspace_leases policy) \<le> HARD_MAX_POLICY_LEASES
     \<and> length (gp_model_profiles policy) \<le> HARD_MAX_MODEL_PROFILES
     \<and> length (pg_capabilities (gp_root_permissions policy)) \<le> HARD_MAX_CAPABILITIES
     \<and> (\<forall>(lease_id, lease) \<in> set (gp_workspace_leases policy).
          valid_sha256 (digest_sha256 (lp_source lease))
          \<and> (lp_access lease = Write \<longrightarrow> supports_write (lp_source lease)))
     \<and> (\<forall>(profile_id, lineage) \<in> set (gp_model_profiles policy). valid_lineage lineage)
     \<and> valid_sha256 (gp_plan_input_snapshot_sha256 policy)
     \<and> ag_plan_input_snapshot_sha256 graph = gp_plan_input_snapshot_sha256 policy
     \<and> ag_work_orders graph \<noteq> []
     \<and> length (ag_work_orders graph)
         \<le> min (unat (gl_max_work_orders (gp_limits policy))) HARD_MAX_WORK_ORDERS
     \<and> gl_max_parallel (gp_limits policy) \<noteq> 0"

text \<open>One work order stays within the trusted envelope.\<close>

definition valid_order :: "ActorGraphPolicy \<Rightarrow> WorkOrder \<Rightarrow> bool" where
  "valid_order policy order \<longleftrightarrow>
     \<not> is_blank (wo_objective order) \<and> length (wo_objective order) \<le> MAX_OBJECTIVE_BYTES
     \<and> wo_acceptance_criteria order \<noteq> []
     \<and> length (wo_acceptance_criteria order) \<le> MAX_ACCEPTANCE_CRITERIA
     \<and> (\<forall>criterion \<in> set (wo_acceptance_criteria order).
          \<not> is_blank criterion \<and> length criterion \<le> MAX_ACCEPTANCE_CRITERION_BYTES)
     \<and> valid_lineage (aa_lineage (wo_assignment order))
     \<and> bm_get (gp_model_profiles policy) (aa_model_profile_id (wo_assignment order))
         = Some (aa_lineage (wo_assignment order))
     \<and> valid_sha256 (wo_context_manifest_sha256 order)
     \<and> ab_max_attempts (wo_budget order) \<noteq> 0
     \<and> ab_max_wall_time_ms (wo_budget order) \<noteq> 0
     \<and> ab_max_cleanup_time_ms (wo_budget order) \<noteq> 0
     \<and> length (wo_dependencies order) \<le> HARD_MAX_DEPENDENCIES
     \<and> length (wo_reviews order) \<le> HARD_MAX_REVIEWS
     \<and> length (pg_capabilities (wo_permissions order)) \<le> HARD_MAX_CAPABILITIES
     \<and> set (pg_capabilities (wo_permissions order)) \<subseteq> set (pg_capabilities (gp_root_permissions policy))
     \<and> valid_sha256 (digest_sha256 (wg_source (wo_workspace order)))
     \<and> (\<exists>lease. bm_get (gp_workspace_leases policy) (wg_lease_id (wo_workspace order)) = Some lease
          \<and> lp_source lease = wg_source (wo_workspace order)
          \<and> permits (lp_access lease) (wg_access (wo_workspace order)))
     \<and> (wg_access (wo_workspace order) = Write \<longrightarrow>
          supports_write (wg_source (wo_workspace order)) \<and> ab_max_attempts (wo_budget order) = 1
          \<and> wo_reviews order = [])"

text \<open>A leased workspace that anyone writes is used by one work order only.\<close>

definition exclusive_writers :: "WorkOrder list \<Rightarrow> bool" where
  "exclusive_writers orders \<longleftrightarrow>
     (\<forall>lease. (\<exists>order \<in> set orders. wg_lease_id (wo_workspace order) = lease
                 \<and> wg_access (wo_workspace order) = Write)
        \<longrightarrow> length (filter (\<lambda>order. wg_lease_id (wo_workspace order) = lease) orders) \<le> 1)"

definition order_text :: "WorkOrder \<Rightarrow> nat" where
  "order_text order = length (wo_objective order) + sum_list (map length (wo_acceptance_criteria order))"

text \<open>Dependencies are known and gated; reviewers are independent terminal consumers.\<close>

definition valid_edges :: "WorkOrder list \<Rightarrow> WorkOrder \<Rightarrow> bool" where
  "valid_edges orders order \<longleftrightarrow>
     (\<forall>d \<in> set (wo_dependencies order). d \<noteq> wo_id order
        \<and> (\<exists>dep. bm_get (order_index orders) d = Some dep \<and> wo_reviews dep = [])
        \<and> (\<forall>reviewer \<in> set orders. d \<in> set (wo_reviews reviewer) \<longrightarrow> d \<in> set (wo_reviews order)))
     \<and> (\<forall>t \<in> set (wo_reviews order). t \<in> set (wo_dependencies order)
        \<and> (\<exists>producer. bm_get (order_index orders) t = Some producer
             \<and> ml_independence_domain_id (aa_lineage (wo_assignment order))
               \<noteq> ml_independence_domain_id (aa_lineage (wo_assignment producer))))"

definition group_members :: "WorkOrder list \<Rightarrow> CandidateGroupId \<Rightarrow> WorkOrder list" where
  "group_members orders g = filter (\<lambda>order. wo_candidate_group order = Some g) orders"

text \<open>Competing candidates: at least two, same contract and source, own leases, no mutual dependency.\<close>

definition valid_group :: "WorkOrder list \<Rightarrow> WorkOrder list \<Rightarrow> bool" where
  "valid_group orders members \<longleftrightarrow>
     2 \<le> length members
     \<and> distinct (map (\<lambda>c. wg_lease_id (wo_workspace c)) members)
     \<and> (\<forall>c \<in> set members. same_contract c (hd members)
          \<and> wg_source (wo_workspace c) = wg_source (wo_workspace (hd members)))
     \<and> (\<forall>c \<in> set members. \<forall>peer \<in> set members. wo_id peer \<noteq> wo_id c
          \<longrightarrow> (wo_id c, wo_id peer) \<notin> (dep_edge (order_index orders))\<^sup>+)"

text \<open>The exact reservation of one work order, over the natural numbers.\<close>

definition attempts_of :: "WorkOrder \<Rightarrow> nat" where
  "attempts_of order = unat (ab_max_attempts (wo_budget order))"

definition tokens_of :: "WorkOrder \<Rightarrow> nat" where
  "tokens_of order = unat (ab_max_output_tokens (wo_budget order)) * attempts_of order"

definition tool_calls_of :: "WorkOrder \<Rightarrow> nat" where
  "tool_calls_of order = unat (ab_max_tool_calls (wo_budget order)) * attempts_of order"

definition wall_time_of :: "WorkOrder \<Rightarrow> nat" where
  "wall_time_of order =
     (unat (ab_max_wall_time_ms (wo_budget order)) + unat (ab_max_cleanup_time_ms (wo_budget order)))
     * attempts_of order"

definition within_budget :: "ActorGraphLimits \<Rightarrow> WorkOrder list \<Rightarrow> bool" where
  "within_budget limits orders \<longleftrightarrow>
     sum_list (map attempts_of orders) \<le> unat (gl_max_total_attempts limits)
     \<and> sum_list (map tokens_of orders) \<le> unat (gl_max_total_output_tokens limits)
     \<and> sum_list (map tool_calls_of orders) \<le> unat (gl_max_total_tool_calls limits)
     \<and> sum_list (map wall_time_of orders) \<le> unat (gl_max_total_wall_time_ms limits)"

definition valid_actor_graph :: "ActorGraph \<Rightarrow> ActorGraphPolicy \<Rightarrow> bool" where
  "valid_actor_graph graph policy \<longleftrightarrow>
     (let orders = ag_work_orders graph in
      valid_policy graph policy
      \<and> distinct (map wo_id orders)
      \<and> (\<forall>order \<in> set orders. valid_order policy order)
      \<and> exclusive_writers orders
      \<and> sum_list (map order_text orders) \<le> HARD_MAX_GRAPH_TEXT_BYTES
      \<and> (\<forall>order \<in> set orders. valid_edges orders order)
      \<and> (\<forall>g. group_members orders g \<noteq> [] \<longrightarrow> valid_group orders (group_members orders g))
      \<and> acyclic (dep_edge (order_index orders))
      \<and> within_budget (gp_limits policy) orders)"

section \<open>Header and single work orders\<close>

lemma policy_violations_Nil_iff: "policy_violations graph policy = [] \<longleftrightarrow> valid_policy graph policy"
  by (auto simp: policy_violations_def valid_policy_def)

lemma enumerate0_all: "(\<forall>x \<in> set (enumerate0 xs). P (snd x)) \<longleftrightarrow> (\<forall>x \<in> set xs. P x)"
  by (metis (no_types, lifting) imageE imageI snd_set_enumerate0)

lemma criteria_violations_Nil_iff:
  "concat (map (\<lambda>(index, criterion). report (length criterion > n) (v index criterion)) (enumerate0 xs)) = []
   \<longleftrightarrow> (\<forall>criterion \<in> set xs. length criterion \<le> n)"
  using enumerate0_all[of xs "\<lambda>c. length c \<le> n"] by (auto simp: not_less split_beta)

lemma assignment_violations_Nil_iff:
  "concat (map (\<lambda>(field, value). report (is_blank value \<or> length value > MAX_ASSIGNMENT_ID_BYTES) (v field))
     (assignment_fields lineage)) = [] \<longleftrightarrow> valid_lineage lineage"
  by (auto simp: assignment_fields_def valid_lineage_def not_less)

lemma model_profile_violations_Nil_iff:
  "model_profile_violations policy order = [] \<longleftrightarrow>
     bm_get (gp_model_profiles policy) (aa_model_profile_id (wo_assignment order))
       = Some (aa_lineage (wo_assignment order))"
  by (auto simp: model_profile_violations_def Let_def split: option.splits)

lemma workspace_lease_violations_Nil_iff:
  "workspace_lease_violations policy order = [] \<longleftrightarrow>
     (\<exists>lease. bm_get (gp_workspace_leases policy) (wg_lease_id (wo_workspace order)) = Some lease
        \<and> lp_source lease = wg_source (wo_workspace order)
        \<and> permits (lp_access lease) (wg_access (wo_workspace order)))"
  by (auto simp: workspace_lease_violations_def Let_def split: option.splits)

lemma order_violations_Nil_iff: "order_violations policy order = [] \<longleftrightarrow> valid_order policy order"
  unfolding order_violations_def Let_def append_is_Nil_conv report_Nil_iff
    criteria_violations_Nil_iff assignment_violations_Nil_iff model_profile_violations_Nil_iff
    workspace_lease_violations_Nil_iff is_subset_of_def bs_is_subset_iff valid_order_def list_ex_iff
    not_less
  by (cases "wg_access (wo_workspace order)") blast+

section \<open>The pass over the work orders\<close>

lemma scan_orders_Nil [simp]: "scan_orders policy [] = order_scan_init"
  by (simp add: scan_orders_def)

lemma scan_orders_snoc: "scan_orders policy (xs @ [x]) = scan_order policy (scan_orders policy xs) x"
  by (simp add: scan_orders_def)

lemma scan_order_sel [simp]:
  "os_orders (scan_order policy s x) = bm_insert (wo_id x) x (os_orders s)"
  "os_lease_uses (scan_order policy s x) = use_lease (wo_workspace x) (os_lease_uses s)"
  "os_total_graph_text_bytes (scan_order policy s x) = text_bytes (os_total_graph_text_bytes s) x"
  "os_violations (scan_order policy s x) = os_violations s
     @ report (bm_contains_key (os_orders s) (wo_id x)) (DuplicateWorkOrder (wo_id x))
     @ order_violations policy x"
  by (simp_all add: scan_order_def Let_def split_beta)

lemma order_scan_init_sel [simp]:
  "os_orders order_scan_init = []" "os_lease_uses order_scan_init = []"
  "os_total_graph_text_bytes order_scan_init = 0" "os_violations order_scan_init = []"
  "os_overflow order_scan_init = False" "os_total_attempts order_scan_init = 0"
  "os_total_output_tokens order_scan_init = 0" "os_total_tool_calls order_scan_init = 0"
  "os_total_wall_time_ms order_scan_init = 0"
  by (simp_all add: order_scan_init_def)

lemma order_index_snoc: "order_index (xs @ [x]) = bm_insert (wo_id x) x (order_index xs)"
  by (simp add: order_index_def bm_of_list_def)

lemma os_orders_scan: "os_orders (scan_orders policy xs) = order_index xs"
proof (induction xs rule: rev_induct)
  case Nil
  show ?case by (simp add: order_index_def bm_of_list_def)
next
  case (snoc x xs)
  then show ?case by (simp add: scan_orders_snoc order_index_snoc)
qed

lemma order_index_contains: "bm_contains_key (order_index xs) i \<longleftrightarrow> i \<in> wo_id ` set xs"
  by (auto simp: order_index_def bm_contains_key_iff bm_keys_of_list image_image)

lemma order_index_get:
  "distinct (map wo_id xs) \<Longrightarrow> bm_get (order_index xs) i = Some x \<longleftrightarrow> x \<in> set xs \<and> wo_id x = i"
proof -
  assume "distinct (map wo_id xs)"
  then have "distinct (map fst (rev (map (\<lambda>x. (wo_id x, x)) xs)))"
    by (simp add: comp_def flip: rev_map)
  then show ?thesis
    by (auto simp: order_index_def bm_get_of_list)
qed

lemma os_violations_scan_Nil_iff:
  "os_violations (scan_orders policy xs) = [] \<longleftrightarrow>
     distinct (map wo_id xs) \<and> (\<forall>x \<in> set xs. valid_order policy x)"
proof (induction xs rule: rev_induct)
  case (snoc x xs)
  then show ?case
    by (auto simp: scan_orders_snoc os_orders_scan order_index_contains order_violations_Nil_iff)
qed simp

lemma lease_uses_scan:
  "bm_get (os_lease_uses (scan_orders policy xs)) l =
     (let users = filter (\<lambda>x. wg_lease_id (wo_workspace x) = l) xs in
      if users = [] then None
      else Some (length users, \<exists>x \<in> set users. wg_access (wo_workspace x) = Write))"
proof (induction xs arbitrary: l rule: rev_induct)
  case (snoc x xs)
  then show ?case
    by (auto simp: scan_orders_snoc use_lease_def Let_def filter_empty_conv split: option.splits)
qed simp

lemma bm_wf_lease_uses: "bm_wf (os_lease_uses (scan_orders policy xs))"
  by (induction xs rule: rev_induct) (auto simp: scan_orders_snoc use_lease_def Let_def split_beta)

lemma lease_use_violations_Nil_iff:
  "lease_use_violations (os_lease_uses (scan_orders policy xs)) = [] \<longleftrightarrow> exclusive_writers xs"
proof -
  let ?m = "os_lease_uses (scan_orders policy xs)"
  have "lease_use_violations ?m = [] \<longleftrightarrow> (\<forall>l n w. bm_get ?m l = Some (n, w) \<longrightarrow> \<not> (n > 1 \<and> w))"
    by (fastforce simp: lease_use_violations_def bm_get_iff_in_set[OF bm_wf_lease_uses])
  also have "\<dots> \<longleftrightarrow> exclusive_writers xs"
    unfolding lease_uses_scan exclusive_writers_def Let_def
    by (auto simp: not_less filter_empty_conv)
  finally show ?thesis .
qed

lemma foldl_saturating_add:
  "n \<le> usize_max \<Longrightarrow> foldl (\<lambda>t c. usize_saturating_add t (f c)) n cs = min (n + sum_list (map f cs)) usize_max"
proof (induction cs arbitrary: n)
  case (Cons c cs)
  then show ?case
    by (simp add: saturating_add_le) (simp add: usize_saturating_add_def)
qed simp

lemma text_bytes_eq: "n \<le> usize_max \<Longrightarrow> text_bytes n x = min (n + order_text x) usize_max"
  by (simp add: text_bytes_def foldl_saturating_add saturating_add_le order_text_def)
    (simp add: usize_saturating_add_def)

lemma text_bytes_scan:
  "os_total_graph_text_bytes (scan_orders policy xs) = min (sum_list (map order_text xs)) usize_max"
  by (induction xs rule: rev_induct) (simp_all add: scan_orders_snoc text_bytes_eq)

lemma graph_text_limit_iff:
  "os_total_graph_text_bytes (scan_orders policy xs) > HARD_MAX_GRAPH_TEXT_BYTES
   \<longleftrightarrow> sum_list (map order_text xs) > HARD_MAX_GRAPH_TEXT_BYTES"
  by (simp add: text_bytes_scan usize_max_def HARD_MAX_GRAPH_TEXT_BYTES_def)

section \<open>Budgets\<close>

lemma sum_or_max_ok:
  "snd (sum_or_max a b) \<longleftrightarrow> 2 ^ 64 \<le> unat a + unat b"
  "\<not> snd (sum_or_max a b) \<Longrightarrow> unat (fst (sum_or_max a b)) = unat a + unat b"
  by (auto simp: sum_or_max_def checked_add_def unat_word_ariths split: option.splits if_splits)

lemma mul_or_max_ok:
  "snd (mul_or_max a b) \<longleftrightarrow> 2 ^ 64 \<le> unat a * unat b"
  "\<not> snd (mul_or_max a b) \<Longrightarrow> unat (fst (mul_or_max a b)) = unat a * unat b"
  by (auto simp: mul_or_max_def checked_mul_def unat_word_ariths split: option.splits if_splits)

lemma add_product_or_max_ok:
  "snd (add_product_or_max acc a n) \<longleftrightarrow> 2 ^ 64 \<le> unat acc + unat a * unat n"
  "\<not> snd (add_product_or_max acc a n) \<Longrightarrow> unat (fst (add_product_or_max acc a n)) = unat acc + unat a * unat n"
  using mul_or_max_ok[of a n] sum_or_max_ok[of acc "fst (mul_or_max a n)"]
  by (auto simp: add_product_or_max_def split_beta Let_def)

lemma unat_ucast_attempts: "unat (ucast (ab_max_attempts b) :: u64) = unat (ab_max_attempts b)"
  by (simp add: unsigned_ucast_eq take_bit_nat_eq_self unsigned_less[THEN less_trans])

definition budget_fits :: "WorkOrder list \<Rightarrow> bool" where
  "budget_fits xs \<longleftrightarrow>
     sum_list (map attempts_of xs) < 2 ^ 64 \<and> sum_list (map tokens_of xs) < 2 ^ 64
     \<and> sum_list (map tool_calls_of xs) < 2 ^ 64 \<and> sum_list (map wall_time_of xs) < 2 ^ 64
     \<and> (\<forall>x \<in> set xs. unat (ab_max_wall_time_ms (wo_budget x)) + unat (ab_max_cleanup_time_ms (wo_budget x)) < 2 ^ 64)"

definition exact_totals :: "order_scan \<Rightarrow> WorkOrder list \<Rightarrow> bool" where
  "exact_totals s xs \<longleftrightarrow>
     unat (os_total_attempts s) = sum_list (map attempts_of xs)
     \<and> unat (os_total_output_tokens s) = sum_list (map tokens_of xs)
     \<and> unat (os_total_tool_calls s) = sum_list (map tool_calls_of xs)
     \<and> unat (os_total_wall_time_ms s) = sum_list (map wall_time_of xs)"

lemma scan_order_totals:
  assumes "exact_totals s xs" and "\<not> os_overflow s" and "budget_fits xs"
  shows "os_overflow (scan_order policy s x) \<longleftrightarrow> \<not> budget_fits (xs @ [x])"
    and "\<not> os_overflow (scan_order policy s x) \<Longrightarrow> exact_totals (scan_order policy s x) (xs @ [x])"
proof -
  let ?b = "wo_budget x" and ?n = "ucast (ab_max_attempts (wo_budget x)) :: u64"
  let ?w = "sum_or_max (ab_max_wall_time_ms ?b) (ab_max_cleanup_time_ms ?b)"
  note ok = sum_or_max_ok[of "os_total_attempts s" ?n]
    add_product_or_max_ok[of "os_total_output_tokens s" "ab_max_output_tokens ?b" ?n]
    add_product_or_max_ok[of "os_total_tool_calls s" "ab_max_tool_calls ?b" ?n]
    sum_or_max_ok[of "ab_max_wall_time_ms ?b" "ab_max_cleanup_time_ms ?b"]
    add_product_or_max_ok[of "os_total_wall_time_ms s" "fst ?w" ?n]
  have flags: "os_overflow (scan_order policy s x) \<longleftrightarrow> os_overflow s
      \<or> snd (sum_or_max (os_total_attempts s) ?n)
      \<or> snd (add_product_or_max (os_total_output_tokens s) (ab_max_output_tokens ?b) ?n)
      \<or> snd (add_product_or_max (os_total_tool_calls s) (ab_max_tool_calls ?b) ?n)
      \<or> snd ?w \<or> snd (add_product_or_max (os_total_wall_time_ms s) (fst ?w) ?n)"
    by (simp add: scan_order_def Let_def split_beta)
  show "os_overflow (scan_order policy s x) \<longleftrightarrow> \<not> budget_fits (xs @ [x])"
    using assms ok unfolding flags
    by (auto simp: exact_totals_def budget_fits_def unat_ucast_attempts attempts_of_def tokens_of_def
        tool_calls_of_def wall_time_of_def)
  show "\<not> os_overflow (scan_order policy s x) \<Longrightarrow> exact_totals (scan_order policy s x) (xs @ [x])"
    using assms ok unfolding flags
    by (auto simp: exact_totals_def scan_order_def Let_def split_beta unat_ucast_attempts attempts_of_def
        tokens_of_def tool_calls_of_def wall_time_of_def)
qed

lemma os_overflow_mono: "os_overflow s \<Longrightarrow> os_overflow (scan_order policy s x)"
  by (simp add: scan_order_def Let_def split_beta)

lemma budget_fits_prefix: "budget_fits (xs @ ys) \<Longrightarrow> budget_fits xs"
  by (auto simp: budget_fits_def)

lemma scan_budget:
  "(os_overflow (scan_orders policy xs) \<longleftrightarrow> \<not> budget_fits xs)
   \<and> (\<not> os_overflow (scan_orders policy xs) \<longrightarrow> exact_totals (scan_orders policy xs) xs)"
proof (induction xs rule: rev_induct)
  case Nil
  show ?case by (simp add: budget_fits_def exact_totals_def)
next
  case (snoc x xs)
  show ?case
  proof (cases "os_overflow (scan_orders policy xs)")
    case True
    with snoc show ?thesis
      using os_overflow_mono budget_fits_prefix by (auto simp: scan_orders_snoc)
  next
    case False
    with snoc have exact: "exact_totals (scan_orders policy xs) xs" and fits: "budget_fits xs"
      by blast+
    from scan_order_totals[OF exact False fits, of policy x] show ?thesis
      by (simp add: scan_orders_snoc)
  qed
qed

lemma member_le_sum_list_nat: "x \<in> set xs \<Longrightarrow> f x \<le> sum_list (map f xs)" for f :: "'a \<Rightarrow> nat"
  by (induction xs) auto

lemma within_budget_fits:
  assumes "within_budget limits xs" and "\<forall>x \<in> set xs. ab_max_attempts (wo_budget x) \<noteq> 0"
  shows "budget_fits xs"
proof -
  have lt: "unat (l :: u64) < 2 ^ 64" for l
    using unsigned_less[of l] by simp
  have wall: "unat (ab_max_wall_time_ms (wo_budget x)) + unat (ab_max_cleanup_time_ms (wo_budget x)) < 2 ^ 64"
    if "x \<in> set xs" for x
  proof -
    have "0 < attempts_of x"
      using assms(2) that by (simp add: attempts_of_def unat_gt_0)
    then have "unat (ab_max_wall_time_ms (wo_budget x)) + unat (ab_max_cleanup_time_ms (wo_budget x)) \<le> wall_time_of x"
      by (simp add: wall_time_of_def)
    also have "\<dots> \<le> sum_list (map wall_time_of xs)"
      using that by (rule member_le_sum_list_nat)
    also have "\<dots> < 2 ^ 64"
      using assms(1) lt by (auto simp: within_budget_def intro: le_less_trans)
    finally show ?thesis .
  qed
  then show ?thesis
    using assms(1) lt unfolding within_budget_def budget_fits_def by (meson le_less_trans)
qed

lemma budget_violations_Nil_iff:
  assumes "\<forall>x \<in> set xs. ab_max_attempts (wo_budget x) \<noteq> 0"
  shows "budget_violations limits (scan_orders policy xs) = [] \<longleftrightarrow> within_budget limits xs"
proof -
  have "\<not> os_overflow (scan_orders policy xs)" if "within_budget limits xs"
    using that assms scan_budget within_budget_fits by blast
  then show ?thesis
    using scan_budget[of policy xs]
    by (auto simp: budget_violations_def exact_totals_def within_budget_def not_less word_le_nat_alt)
qed

section \<open>Edges and candidate groups\<close>

lemma reviewed_targets_iff: "bs_contains (reviewed_targets xs) t \<longleftrightarrow> (\<exists>x \<in> set xs. t \<in> set (wo_reviews x))"
  by (auto simp: bs_contains_def reviewed_targets_def)

lemma edge_violations_Nil_iff:
  "edge_violations (order_index xs) (reviewed_targets xs) x = [] \<longleftrightarrow> valid_edges xs x"
proof -
  have "dependency_violations (order_index xs) (reviewed_targets xs) x d = [] \<longleftrightarrow> d \<noteq> wo_id x
        \<and> (\<exists>dep. bm_get (order_index xs) d = Some dep \<and> wo_reviews dep = [])
        \<and> (\<forall>r \<in> set xs. d \<in> set (wo_reviews r) \<longrightarrow> d \<in> set (wo_reviews x))" for d
    unfolding dependency_violations_def reviewed_targets_iff
    by (auto simp: bs_contains_def split: option.splits)
  moreover have "review_violations (order_index xs) x t = [] \<longleftrightarrow> t \<in> set (wo_dependencies x)
        \<and> (\<exists>producer. bm_get (order_index xs) t = Some producer
             \<and> ml_independence_domain_id (aa_lineage (wo_assignment x))
               \<noteq> ml_independence_domain_id (aa_lineage (wo_assignment producer)))" for t
    by (auto simp: review_violations_def bs_contains_def split: option.splits)
  ultimately show ?thesis
    unfolding edge_violations_def append_is_Nil_conv concat_map_Nil_iff valid_edges_def by simp
qed

lemma candidate_groups_get:
  "bm_get (candidate_groups xs) g = (if group_members xs g = [] then None else Some (group_members xs g))"
proof (induction xs arbitrary: g rule: rev_induct)
  case (snoc x xs)
  then show ?case
    by (auto simp: candidate_groups_def add_candidate_def group_members_def split: option.splits)
qed (simp add: candidate_groups_def group_members_def)

lemma bm_wf_candidate_groups: "bm_wf (candidate_groups xs)"
  by (induction xs rule: rev_induct) (auto simp: candidate_groups_def add_candidate_def split: option.splits)

lemma candidate_violations_Nil_iff:
  "candidate_violations orders g first peers leases cs = [] \<longleftrightarrow>
     (\<forall>c \<in> set cs. (\<forall>p \<in> set peers. p \<noteq> wo_id c \<longrightarrow> (wo_id c, p) \<notin> (dep_edge orders)\<^sup>+)
        \<and> wg_source (wo_workspace c) = wg_source (wo_workspace first) \<and> same_contract c first)
     \<and> distinct (map (\<lambda>c. wg_lease_id (wo_workspace c)) cs)
     \<and> (\<forall>c \<in> set cs. wg_lease_id (wo_workspace c) \<notin> set leases)"
proof (induction cs arbitrary: leases)
  case (Cons c cs)
  have peers: "concat (map (\<lambda>p. report (dependency_reachable (wo_id c) p orders) (CandidateDependency g (wo_id c) p))
      (filter (\<lambda>p. p \<noteq> wo_id c) peers)) = []
    \<longleftrightarrow> (\<forall>p \<in> set peers. p \<noteq> wo_id c \<longrightarrow> (wo_id c, p) \<notin> (dep_edge orders)\<^sup>+)"
    by (auto simp: dependency_reachable_iff)
  show ?case
    unfolding candidate_violations.simps append_is_Nil_conv Cons.IH report_Nil_iff bs_contains_def
      set_bs_insert list.set list.map distinct.simps set_map peers ball_simps(7)
    by (auto simp only: not_not insert_iff image_iff ball_conj_distrib) metis
qed simp

lemma group_violations_Nil_iff:
  "group_violations (order_index xs) (g, cs) = [] \<longleftrightarrow> cs = [] \<or> valid_group xs cs"
proof (cases cs)
  case (Cons c cs')
  have "group_violations (order_index xs) (g, cs) = [] \<longleftrightarrow> 2 \<le> length cs
      \<and> candidate_violations (order_index xs) g c (bs_of_list (map wo_id cs)) [] cs = []"
    by (simp add: group_violations_def Cons not_less Suc_le_eq del: candidate_violations.simps)
  also have "\<dots> \<longleftrightarrow> valid_group xs cs"
    unfolding candidate_violations_Nil_iff valid_group_def Cons by auto
  finally show ?thesis
    using Cons by simp
qed (simp add: group_violations_def)

lemma all_groups_Nil_iff:
  "(\<forall>e \<in> set (candidate_groups xs). group_violations (order_index xs) e = []) \<longleftrightarrow>
     (\<forall>g. group_members xs g \<noteq> [] \<longrightarrow> valid_group xs (group_members xs g))"
proof -
  have "(\<forall>e \<in> set (candidate_groups xs). group_violations (order_index xs) e = []) \<longleftrightarrow>
      (\<forall>g cs. bm_get (candidate_groups xs) g = Some cs \<longrightarrow> group_violations (order_index xs) (g, cs) = [])"
    by (auto simp: bm_get_iff_in_set[OF bm_wf_candidate_groups])
  then show ?thesis
    unfolding candidate_groups_get group_violations_Nil_iff by auto
qed

lemma cycle_violations_Nil_iff: "cycle_violations orders = [] \<longleftrightarrow> acyclic (dep_edge orders)"
  using dependency_cycle_cases[of orders] dependency_cycle_not_acyclic[of orders]
  by (auto simp: cycle_violations_def)

section \<open>The checker decides the specification\<close>

lemma graph_violations_Nil_iff: "graph_violations graph policy = [] \<longleftrightarrow> valid_actor_graph graph policy"
proof -
  let ?xs = "ag_work_orders graph"
  have attempts: "(\<forall>x \<in> set ?xs. valid_order policy x)
      \<Longrightarrow> \<forall>x \<in> set ?xs. ab_max_attempts (wo_budget x) \<noteq> 0"
    by (simp add: valid_order_def)
  show ?thesis
    unfolding graph_violations_def Let_def append_is_Nil_conv policy_violations_Nil_iff
      os_violations_scan_Nil_iff lease_use_violations_Nil_iff report_Nil_iff graph_text_limit_iff
      os_orders_scan all_groups_Nil_iff cycle_violations_Nil_iff valid_actor_graph_def not_less
      concat_map_Nil_iff edge_violations_Nil_iff
    using budget_violations_Nil_iff[OF attempts, of "gp_limits policy" policy] by auto
qed

lemma validate_against_Inr_iff:
  "validate_against sha json graph policy = Inr v \<longleftrightarrow>
     structural_limit_violations graph policy = []
     \<and> valid_actor_graph (graph\<lparr>ag_work_orders := sort_key wo_id (ag_work_orders graph)\<rparr>) policy
     \<and> vg_graph v = graph\<lparr>ag_work_orders := sort_key wo_id (ag_work_orders graph)\<rparr>
     \<and> vg_policy v = policy
     \<and> canonical_json_digest sha (json (vg_graph v) policy) = Inr (vg_digest_sha256 v)"
  by (cases v) (auto simp: validate_against_def Let_def graph_violations_Nil_iff split: sum.splits)

section \<open>Canonical order\<close>

lemma wo_id_inj: "distinct (map wo_id xs) \<Longrightarrow> x \<in> set xs \<Longrightarrow> y \<in> set xs \<Longrightarrow> wo_id x = wo_id y \<Longrightarrow> x = y"
  by (simp add: distinct_map inj_on_def)

lemma sort_key_canonical:
  assumes "mset xs = mset ys" "distinct (map f ys)"
  shows "sort_key f xs = sort_key f ys"
proof -
  have sets: "set xs = set ys" using assms(1) by (rule mset_eq_setD)
  have "mset (map f xs) = mset (map f ys)" using assms(1) by simp
  then have "distinct (map f xs)" using assms(2) by (metis mset_eq_imp_distinct_iff)
  then show ?thesis
    using assms(2) sets by (intro map_sorted_distinct_set_unique[of f]) (simp_all add: distinct_map)
qed

lemma total_capability_references_permuted:
  assumes "mset orders = mset (ag_work_orders graph)"
  shows "total_capability_references (graph\<lparr>ag_work_orders := orders\<rparr>) policy = total_capability_references graph policy"
  unfolding total_capability_references_def foldl_conv_fold
  using assms by (auto simp: usize_saturating_add_def min_def intro!: fold_multiset_equiv[THEN fun_cong])

lemma structural_limits_permuted:
  assumes "mset orders = mset (ag_work_orders graph)"
  shows "structural_limit_violations (graph\<lparr>ag_work_orders := orders\<rparr>) policy = [] \<longleftrightarrow>
    structural_limit_violations graph policy = []"
proof -
  have "length orders = length (ag_work_orders graph)" "set orders = set (ag_work_orders graph)"
    using assms by (metis size_mset, rule mset_eq_setD)
  then show ?thesis
    by (simp add: structural_limit_violations_def total_capability_references_permuted[OF assms])
qed

end
