(* ===== verification/Task_Invariants.thy ===== *)
theory Task_Invariants
  imports Journal_Causality Validation_Correct
begin

text \<open>
  What one work-order future keeps: the invariant \<open>task_ok\<close> of a future at its await point, and the
  contract \<open>task_post\<close> of one step (\<open>step_task_post\<close>): the journal stays well caused and only grows, only
  attempts of the future's own order are dispatched and never more than its budget allows, a
  result is backed by a retained record, and the future has at most \<open>2 * max_attempts + 1\<close> steps.
\<close>

section \<open>Invariant of a future\<close>

fun dispatched_order :: "SchedulerEvent \<Rightarrow> WorkOrderId option" where
  "dispatched_order (AttemptDispatched d) = Some (de_work_order_id d)"
| "dispatched_order _ = None"

definition dispatches :: "SchedulerRecord list \<Rightarrow> WorkOrderId \<Rightarrow> nat" where
  "dispatches rs w = length (filter (\<lambda>r. dispatched_order (sr_event r) = Some w) rs)"

lemma dispatches_append [simp]: "dispatches (rs @ rs') w = dispatches rs w + dispatches rs' w"
  by (simp add: dispatches_def)

lemma dispatches_single [simp]:
  "dispatches [r] w = (if dispatched_order (sr_event r) = Some w then 1 else 0)"
  "dispatches [] w = 0"
  by (simp_all add: dispatches_def)

text \<open>Every dispatch is of an order of the graph, attests it and names all its dependencies.\<close>

definition dispatches_ok :: "sched_env \<Rightarrow> ValidatedActorGraph \<Rightarrow> SchedulerRecord list \<Rightarrow> bool" where
  "dispatches_ok env vg rs \<longleftrightarrow>
     (\<forall>r \<in> set rs. \<forall>d. sr_event r = AttemptDispatched d \<longrightarrow>
        (\<exists>order \<in> set (ag_work_orders (vg_graph vg)). wo_id order = de_work_order_id d
           \<and> bm_keys (de_dependency_handoff_event_ids d) = wo_dependencies order
           \<and> dispatch_attestation (se_codec env) (vg_digest_sha256 vg) order = Inr (de_attestation d)))"

lemma dispatches_ok_append [simp]:
  "dispatches_ok env vg (rs @ rs') \<longleftrightarrow> dispatches_ok env vg rs \<and> dispatches_ok env vg rs'"
  by (auto simp: dispatches_ok_def)

lemma dispatches_ok_other: "dispatched_order (sr_event r) = None \<Longrightarrow> dispatches_ok env vg [r]"
  by (auto simp: dispatches_ok_def)

definition run_ok :: "sched_env \<Rightarrow> ValidatedActorGraph \<Rightarrow> bool" where
  "run_ok env vg \<longleftrightarrow> inj (se_uuid env) \<and> valid_actor_graph (vg_graph vg) (vg_policy vg)
     \<and> (\<forall>order \<in> set (ag_work_orders (vg_graph vg)). work_order_wf order)"

abbreviation vg_orders :: "ValidatedActorGraph \<Rightarrow> WorkOrder list" where
  "vg_orders vg \<equiv> ag_work_orders (vg_graph vg)"

definition ctx_ok :: "ValidatedActorGraph \<Rightarrow> SchedulerEventId \<Rightarrow> jstate \<Rightarrow> run_ctx \<Rightarrow> bool" where
  "ctx_ok vg root js ctx \<longleftrightarrow>
     rc_root_event ctx = root \<and> rc_graph_sha256 ctx = vg_digest_sha256 vg
     \<and> rc_require_reported_token_usage ctx = gp_require_reported_token_usage (vg_policy vg)
     \<and> rc_work_order ctx \<in> set (vg_orders vg)
     \<and> bm_wf (rc_dependency_handoffs ctx)
     \<and> bm_keys (rc_dependency_handoffs ctx) = wo_dependencies (rc_work_order ctx)
     \<and> (\<forall>(k, h) \<in> set (rc_dependency_handoffs ctx).
          ho_work_order_id h = k \<and> ho_outcome h = HandoffCompleted \<and> handoff_at (js_records js) h)
     \<and> root \<in> sr_id ` set (js_records js)"

text \<open>The dispatch event of the current attempt.\<close>

definition attempt_event :: "run_ctx \<Rightarrow> attempt_state \<Rightarrow> dispatched_event" where
  "attempt_event ctx at =
     \<lparr>de_work_order_id = wo_id (rc_work_order ctx), de_actor_id = at_actor_id at,
      de_execution_id = at_execution_id at, de_attempt_id = at_attempt_id at,
      de_parent_attempt_id = at_parent_attempt_id at, de_graph_accepted_event_id = rc_root_event ctx,
      de_attestation = at_attestation at,
      de_dependency_handoff_event_ids = dependency_handoff_event_ids ctx\<rparr>"

definition attempt_ok :: "sched_env \<Rightarrow> jstate \<Rightarrow> run_ctx \<Rightarrow> attempt_state \<Rightarrow> bool" where
  "attempt_ok env js ctx at \<longleftrightarrow>
     dispatch_at (js_records js) (Some (at_dispatched at)) (attempt_event ctx at)
     \<and> dispatch_attestation (se_codec env) (rc_graph_sha256 ctx) (rc_work_order ctx) = Inr (at_attestation at)
     \<and> at_attempt_number at < attempts_of (rc_work_order ctx)
     \<and> dispatches (js_records js) (wo_id (rc_work_order ctx)) = Suc (at_attempt_number at)"

fun task_ok :: "sched_env \<Rightarrow> ValidatedActorGraph \<Rightarrow> SchedulerEventId \<Rightarrow> jstate \<Rightarrow> task \<Rightarrow> bool" where
  "task_ok env vg root js (TaskNew ctx) \<longleftrightarrow>
     ctx_ok vg root js ctx \<and> dispatches (js_records js) (wo_id (rc_work_order ctx)) = 0"
| "task_ok env vg root js (AwaitWorker ctx at) \<longleftrightarrow> ctx_ok vg root js ctx \<and> attempt_ok env js ctx at"
| "task_ok env vg root js (AwaitCleanup ctx at) \<longleftrightarrow> ctx_ok vg root js ctx \<and> attempt_ok env js ctx at"

lemma task_ok_ctx: "task_ok env vg root js t \<Longrightarrow> ctx_ok vg root js (task_ctx t)"
  by (cases t) auto

text \<open>The steps a future still has.\<close>

fun task_rank :: "task \<Rightarrow> nat" where
  "task_rank (TaskNew ctx) = 2 * attempts_of (rc_work_order ctx) + 1"
| "task_rank (AwaitWorker ctx at) = 2 * (attempts_of (rc_work_order ctx) - at_attempt_number at)"
| "task_rank (AwaitCleanup ctx at) = 2 * (attempts_of (rc_work_order ctx) - at_attempt_number at) - 1"

section \<open>Contract of a step\<close>

text \<open>What a retained hand-off came from.\<close>

definition handoff_completion :: "Handoff \<Rightarrow> AgentCompletion" where
  "handoff_completion h =
     \<lparr>ac_outcome = ho_outcome h, ac_summary = ho_summary h,
      ac_execution_receipt_id = ho_execution_receipt_id h, ac_artifact_sha256 = ho_artifact_sha256 h,
      ac_evidence_ids = ho_evidence_ids h, ac_usage = ho_usage h\<rparr>"

definition handoff_accepted :: "ValidatedActorGraph \<Rightarrow> WorkOrder \<Rightarrow> Handoff \<Rightarrow> bool" where
  "handoff_accepted vg order h \<longleftrightarrow>
     handoff_violations (handoff_completion h) = []
     \<and> usage_violation (ho_usage h) (wo_budget order) (gp_require_reported_token_usage (vg_policy vg)) = None"

definition failure_at :: "SchedulerRecord list \<Rightarrow> WorkOrderId \<Rightarrow> WorkOrderFailure \<Rightarrow> SchedulerEventId \<Rightarrow> bool" where
  "failure_at rs w f e \<longleftrightarrow>
     (\<exists>r \<in> set rs. sr_id r = e \<and> (\<exists>x a. sr_event r = AttemptFailed w x a f False))"

text \<open>The failures of a future, as against those that the executor derives.\<close>

fun attempt_failure :: "WorkOrderFailure \<Rightarrow> bool" where
  "attempt_failure (IncompleteHandoff _) = False"
| "attempt_failure (DependencyFailed _) = False"
| "attempt_failure _ = True"

fun terminal_ok :: "ValidatedActorGraph \<Rightarrow> jstate \<Rightarrow> WorkOrder \<Rightarrow> WorkOrderTerminal \<Rightarrow> bool" where
  "terminal_ok vg js order (TerminalHandoff h) \<longleftrightarrow>
     ho_work_order_id h = wo_id order \<and> handoff_at (js_records js) h \<and> handoff_accepted vg order h"
| "terminal_ok vg js order (TerminalFailed w f e) \<longleftrightarrow>
     w = wo_id order \<and> failure_at (js_records js) w f e \<and> attempt_failure f"

fun result_ok ::
  "sched_env \<Rightarrow> ValidatedActorGraph \<Rightarrow> SchedulerEventId \<Rightarrow> run_ctx \<Rightarrow> nat \<Rightarrow> jstate \<Rightarrow> task_result \<Rightarrow> bool" where
  "result_ok env vg root ctx n js (TaskPending t) \<longleftrightarrow>
     task_ok env vg root js t \<and> task_ctx t = ctx \<and> task_rank t < n"
| "result_ok env vg root ctx n js (TaskReady terminal) \<longleftrightarrow> terminal_ok vg js (rc_work_order ctx) terminal"
| "result_ok env vg root ctx n js (TaskJournalError e) \<longleftrightarrow> True"
| "result_ok env vg root ctx n js TaskPanic \<longleftrightarrow> False"

definition task_post ::
  "sched_env \<Rightarrow> ValidatedActorGraph \<Rightarrow> SchedulerEventId \<Rightarrow> run_ctx \<Rightarrow> nat \<Rightarrow> jstate \<Rightarrow> task_result \<times> jstate \<Rightarrow> bool" where
  "task_post env vg root ctx n js out \<longleftrightarrow>
     (case out of (res, js') \<Rightarrow>
        journal_inv env root (vg_digest_sha256 vg) js' \<and> journal_extends js js'
        \<and> (\<forall>w. w \<noteq> wo_id (rc_work_order ctx) \<longrightarrow> dispatches (js_records js') w = dispatches (js_records js) w)
        \<and> dispatches (js_records js') (wo_id (rc_work_order ctx)) \<le> attempts_of (rc_work_order ctx)
        \<and> (dispatches_ok env vg (js_records js) \<longrightarrow> dispatches_ok env vg (js_records js'))
        \<and> result_ok env vg root ctx n js' res)"

subsection \<open>Contexts\<close>

lemma ctx_ok_mono: "ctx_ok vg root js ctx \<Longrightarrow> journal_extends js js' \<Longrightarrow> ctx_ok vg root js' ctx"
  unfolding ctx_ok_def by (fastforce dest: journal_extends_subset intro: handoff_at_mono)

lemma task_ok_mono:
  assumes "task_ok env vg root js t" "journal_extends js js'"
    and "dispatches (js_records js') (wo_id (task_order t)) = dispatches (js_records js) (wo_id (task_order t))"
  shows "task_ok env vg root js' t"
  using assms ctx_ok_mono[OF _ assms(2)] dispatch_at_mono[OF _ journal_extends_subset[OF assms(2)]]
  by (cases t) (auto simp: attempt_ok_def)

lemma bm_of_list_wf: "bm_wf m \<Longrightarrow> bm_of_list m = m"
proof (rule bm.entries_ext[OF bm_wf_of_list])
  fix k assume wf: "bm_wf m"
  then have "distinct (map fst (rev m))"
    using bm_wf_distinct by (simp add: bm_keys_def flip: rev_map)
  then have "bm_get (bm_of_list m) k = Some v \<longleftrightarrow> bm_get m k = Some v" for v
    by (simp add: bm_get_of_list bm_get_iff_in_set[OF wf])
  then show "bm_get (bm_of_list m) k = bm_get m k"
    by (metis not_None_eq)
qed

lemma dependency_event_ids_eq:
  assumes "bm_wf (rc_dependency_handoffs ctx)"
  shows "dependency_handoff_event_ids ctx = map (\<lambda>(k, h). (k, ho_retained_event_id h)) (rc_dependency_handoffs ctx)"
proof -
  have "bm_wf (map (\<lambda>(k, h). (k, ho_retained_event_id h)) (rc_dependency_handoffs ctx))"
    using assms by (simp add: bm_wf_def comp_def split_beta)
  then show ?thesis
    by (simp add: dependency_handoff_event_ids_def bm_of_list_wf)
qed

lemma ctx_first_caused:
  assumes "ctx_ok vg root js ctx" "journal_inv env root sha js"
  shows "first_caused root (js_records js) (Some (first_or root (dependency_handoff_event_ids ctx)))
           (attempt_event ctx at)"
    and "first_or root (dependency_handoff_event_ids ctx) \<in> sr_id ` set (js_records js)"
proof -
  let ?m = "rc_dependency_handoffs ctx"
  have wf: "bm_wf ?m" and deps: "\<And>k h. (k, h) \<in> set ?m \<Longrightarrow>
      ho_work_order_id h = k \<and> ho_outcome h = HandoffCompleted \<and> handoff_at (js_records js) h"
    using assms(1) by (auto simp: ctx_ok_def)
  have keys: "distinct (map fst ?m)"
    using bm_wf_distinct[OF wf] by (simp add: bm_keys_def)
  have wc: "well_caused root sha (js_records js)"
    using assms(2) by (simp add: journal_inv_def)
  have "inj_on (\<lambda>x. ho_retained_event_id (snd x)) (set ?m)"
  proof (rule inj_onI, clarsimp)
    fix k h k' h'
    assume m: "(k, h) \<in> set ?m" "(k', h') \<in> set ?m" and "ho_retained_event_id h = ho_retained_event_id h'"
    then have "h = h'"
      using handoff_at_inj[OF wc] deps by blast
    with m show "k = k' \<and> h = h'"
      using deps by blast
  qed
  then have "distinct (bm_values (dependency_handoff_event_ids ctx))"
    using keys by (simp add: dependency_event_ids_eq[OF wf] bm_values_def distinct_map comp_def split_beta)
  then show "first_caused root (js_records js) (Some (first_or root (dependency_handoff_event_ids ctx)))
      (attempt_event ctx at)"
    using deps by (fastforce simp: first_caused_def attempt_event_def dependency_event_ids_eq[OF wf])
  show "first_or root (dependency_handoff_event_ids ctx) \<in> sr_id ` set (js_records js)"
  proof (cases ?m)
    case Nil
    then show ?thesis
      using assms(1) by (simp add: dependency_event_ids_eq[OF wf] first_or_def bm_values_def ctx_ok_def)
  next
    case (Cons kh m)
    then show ?thesis
      using deps[of "fst kh" "snd kh"]
      by (auto simp: dependency_event_ids_eq[OF wf] first_or_def bm_values_def handoff_at_def split_beta image_iff)
        metis
  qed
qed

subsection \<open>Steps\<close>

lemma dispatch_attempt_post:
  assumes inj: "inj (se_uuid env)" and inv: "journal_inv env root (vg_digest_sha256 vg) js" and ctx: "ctx_ok vg root js ctx"
    and att: "dispatch_attestation (se_codec env) (rc_graph_sha256 ctx) (rc_work_order ctx) = Inr att"
    and n: "n < attempts_of (rc_work_order ctx)" "dispatches (js_records js) (wo_id (rc_work_order ctx)) = n"
      "2 * (attempts_of (rc_work_order ctx) - n) < m"
    and parent: "causal \<in> sr_id ` set (js_records js)"
    and cause: "\<And>at. \<lbrakk>at_actor_id at = actor; at_execution_id at = execution; at_attestation at = att;
        at_parent_attempt_id at = previous\<rbrakk> \<Longrightarrow>
      (case previous of None \<Rightarrow> first_caused root (js_records js) (Some causal) (attempt_event ctx at)
       | Some p \<Rightarrow> retry_caused (js_records js) (Some causal) (attempt_event ctx at) p)"
  shows "task_post env vg root ctx m js (dispatch_attempt env ctx actor execution att n previous causal js)"
proof -
  let ?js = "js\<lparr>js_next := Suc (js_next js)\<rparr>"
  let ?at = "\<lambda>i. \<lparr>at_actor_id = actor, at_execution_id = execution, at_attestation = att, at_attempt_number = n,
    at_attempt_id = AttemptId (se_uuid env (js_next js)), at_parent_attempt_id = previous, at_dispatched = i\<rparr>"
  let ?ev = "AttemptDispatched (attempt_event ctx (?at undefined))"
  have ev: "attempt_event ctx (?at i) = attempt_event ctx (?at undefined)" for i
    by (simp add: attempt_event_def)
  have caused: "event_caused root (vg_digest_sha256 vg) (js_records ?js) i (Some causal) ?ev" for i
    using cause[of "?at undefined"] ctx dispatch_attestation_sel(1)[OF att] inv ids_drawn_fresh(2)[OF inj, of js]
    by (auto simp: attempt_event_def ctx_ok_def journal_inv_def split: option.splits)
  obtain res js' where r: "retain env (Some causal) ?ev ?js = (res, js')" by force
  have rinv: "journal_inv env root (vg_digest_sha256 vg) js'" "journal_extends ?js js'"
    "\<And>i. res = Inr i \<Longrightarrow> js_records js' = js_records js @ [\<lparr>sr_id = i, sr_causal_parent = Some causal, sr_event = ?ev\<rparr>]"
    "isl res \<Longrightarrow> js_records js' = js_records js"
    using retain_inv[OF inj journal_inv_next[OF inv] r _ caused] parent by (auto simp: attempt_event_def)
  have ext: "journal_extends js js'"
    using rinv(2) by (auto simp: journal_extends_def)
  have out: "dispatch_attempt env ctx actor execution att n previous causal js =
      (case res of Inl e \<Rightarrow> (TaskJournalError e, js') | Inr i \<Rightarrow> (TaskPending (AwaitWorker ctx (?at i)), js'))"
    using r n(1) by (simp add: dispatch_attempt_def attempts_of_def Let_def attempt_event_def)
  show ?thesis
  proof (cases res)
    case (Inl e)
    then show ?thesis
      using rinv ext n by (simp add: task_post_def out)
  next
    case (Inr i)
    note rs = rinv(3)[OF Inr]
    have "dispatch_at (js_records js') (Some i) (attempt_event ctx (?at i))"
      unfolding rs dispatch_at_def ev[of i] by simp
    moreover have "dispatches_ok env vg [\<lparr>sr_id = i, sr_causal_parent = Some causal, sr_event = ?ev\<rparr>]"
      using ctx att dependency_event_ids_eq[of ctx]
      by (auto simp: dispatches_ok_def attempt_event_def ctx_ok_def bm_keys_def comp_def split_beta
          intro!: bexI[of _ "rc_work_order ctx"])
    ultimately show ?thesis
      using Inr rinv(1) ext n att ctx_ok_mono[OF ctx ext]
      by (simp add: task_post_def out attempt_ok_def rs) (simp add: attempt_event_def)
  qed
qed

lemma start_task_post:
  assumes "inj (se_uuid env)" "journal_inv env root (vg_digest_sha256 vg) js" "ctx_ok vg root js ctx"
    and "dispatches (js_records js) (wo_id (rc_work_order ctx)) = 0" "0 < attempts_of (rc_work_order ctx)"
    and "2 * attempts_of (rc_work_order ctx) < m"
  shows "task_post env vg root ctx m js (start_task env ctx js)"
proof -
  let ?js = "js\<lparr>js_next := Suc (Suc (js_next js))\<rparr>"
  have ext: "journal_extends js ?js" by simp
  have inv: "journal_inv env root (vg_digest_sha256 vg) ?js" "ctx_ok vg root ?js ctx"
    using assms(2,3) ctx_ok_mono[OF _ ext] by (simp_all add: journal_inv_next)
  show ?thesis
  proof (cases "dispatch_attestation (se_codec env) (rc_graph_sha256 ctx) (rc_work_order ctx)")
    case (Inl e)
    then show ?thesis
      using inv assms(4) by (simp add: start_task_def task_post_def)
  next
    case (Inr att)
    have root: "rc_root_event ctx = root"
      using assms(3) by (simp add: ctx_ok_def)
    have "task_post env vg root ctx m ?js (dispatch_attempt env ctx actor execution att 0 None
        (first_or root (dependency_handoff_event_ids ctx)) ?js)" for actor execution
      using dispatch_attempt_post[OF assms(1) inv Inr, of 0 m _ actor execution None] assms(4-6)
        ctx_first_caused[OF inv(2,1)]
      by simp
    then have "task_post env vg root ctx m ?js (start_task env ctx js)"
      using Inr root by (simp add: start_task_def)
    then show ?thesis
      using journal_extends_trans[OF ext] by (simp add: task_post_def split: prod.splits)
  qed
qed

text \<open>Only a worker failure with a no-effect receipt is retried.\<close>

definition may_retry :: "WorkOrderFailure \<Rightarrow> bool" where
  "may_retry f \<longleftrightarrow> (\<exists>failure. f = Worker failure \<and> is_retryable failure)"

lemma attempt_dispatched_known: "attempt_ok env js ctx at \<Longrightarrow> at_dispatched at \<in> sr_id ` set (js_records js)"
  by (auto simp: attempt_ok_def attempt_event_def dispatch_at_def)

lemma attempt_failed_caused:
  assumes "attempt_ok env js ctx at" and "retry \<longrightarrow> may_retry f"
  shows "event_caused root sha (js_records js) i (Some (at_dispatched at))
           (AttemptFailed (wo_id (rc_work_order ctx)) (at_execution_id at) (at_attempt_id at) f retry)"
  using assms by (auto simp: attempt_ok_def attempt_event_def dispatch_at_def may_retry_def)

lemma retain_failure_inv:
  assumes "inj (se_uuid env)" "journal_inv env root sha js" "attempt_ok env js ctx at"
    and "retain_failure env ctx at f retry js = (res, js')" "retry \<longrightarrow> may_retry f"
  shows "journal_inv env root sha js'" "journal_extends js js'"
    and "dispatches (js_records js') w = dispatches (js_records js) w"
    and "dispatches_ok env vg (js_records js') = dispatches_ok env vg (js_records js)"
    and "res = Inr i \<Longrightarrow> js_records js' = js_records js @ [\<lparr>sr_id = i, sr_causal_parent = Some (at_dispatched at),
      sr_event = AttemptFailed (wo_id (rc_work_order ctx)) (at_execution_id at) (at_attempt_id at) f retry\<rparr>]"
proof -
  note inv = retain_inv[OF assms(1,2) assms(4)[unfolded retain_failure_def]
      attempt_dispatched_known[OF assms(3)] attempt_failed_caused[OF assms(3,5)]]
  show "journal_inv env root sha js'" "journal_extends js js'"
    and "res = Inr i \<Longrightarrow> js_records js' = js_records js @ [\<lparr>sr_id = i, sr_causal_parent = Some (at_dispatched at),
      sr_event = AttemptFailed (wo_id (rc_work_order ctx)) (at_execution_id at) (at_attempt_id at) f retry\<rparr>]"
    using inv(1-3) by simp_all
  show "dispatches (js_records js') w = dispatches (js_records js) w"
    using inv(3,4) by (cases res) auto
  show "dispatches_ok env vg (js_records js') = dispatches_ok env vg (js_records js)"
    using inv(3,4) by (cases res) (auto simp: dispatches_ok_other)
qed

lemma fail_terminal_post:
  assumes "inj (se_uuid env)" "journal_inv env root (vg_digest_sha256 vg) js" "attempt_ok env js ctx at"
    and "attempt_failure f"
  shows "task_post env vg root ctx m js (fail_terminal env ctx at f js)"
proof -
  obtain res js' where r: "retain_failure env ctx at f False js = (res, js')" by force
  note inv = retain_failure_inv[OF assms(1-3) r, simplified]
  have "dispatches (js_records js) (wo_id (rc_work_order ctx)) \<le> attempts_of (rc_work_order ctx)"
    using assms(3) by (simp add: attempt_ok_def)
  then show ?thesis
    using inv assms(4) by (cases res) (auto simp: fail_terminal_def r task_post_def failure_at_def)
qed

lemma task_post_error:
  assumes "journal_inv env root (vg_digest_sha256 vg) js" "attempt_ok env js ctx at"
  shows "task_post env vg root ctx m js (TaskJournalError e, js)"
  using assms by (simp add: task_post_def attempt_ok_def)

text \<open>Retention of a hand-off that passed the checks.\<close>

lemma retain_handoff_post:
  assumes inj: "inj (se_uuid env)" and inv: "journal_inv env root (vg_digest_sha256 vg) js"
    and at: "attempt_ok env js ctx at"
    and h: "h = completion_handoff ctx at c (SchedulerEventId (se_uuid env (js_next js))) hid"
      "handoff_accepted vg (rc_work_order ctx) h"
    and r: "retain_with_id env (SchedulerEventId (se_uuid env (js_next js))) (Some (at_dispatched at))
      (HandoffRetained h) (js\<lparr>js_next := Suc (Suc (js_next js))\<rparr>) = (res, js')"
  shows "task_post env vg root ctx m js (case res of Inl e \<Rightarrow> TaskJournalError e | Inr _ \<Rightarrow> TaskReady (TerminalHandoff h), js')"
  using r
proof (cases rule: retain_with_id_cases)
  case (refused e)
  then show ?thesis
    using inv at by (simp add: task_post_def journal_inv_next attempt_ok_def)
next
  case acknowledged
  let ?r = "\<lparr>sr_id = SchedulerEventId (se_uuid env (js_next js)), sr_causal_parent = Some (at_dispatched at),
    sr_event = HandoffRetained h\<rparr>"
  have "caused root (vg_digest_sha256 vg) (js_records js) ?r"
    using attempt_dispatched_known[OF at] at inv ids_drawn_fresh(1)[OF inj]
    by (auto simp: caused_def journal_inv_def h(1) completion_handoff_def attempt_ok_def attempt_event_def
        intro!: exI[of _ "attempt_event ctx at"])
  then have "journal_inv env root (vg_digest_sha256 vg)
      \<lparr>js_records = js_records js @ [?r], js_next = Suc (Suc (js_next js))\<rparr>"
    using inv by (intro journal_inv_append) (auto intro!: exI[of _ "js_next js"])
  moreover have "handoff_at (js_records js @ [?r]) h"
    by (simp add: handoff_at_def h(1) completion_handoff_def)
  moreover have "js' = \<lparr>js_records = js_records js @ [?r], js_next = Suc (Suc (js_next js))\<rparr>"
    using acknowledged by (cases js) simp
  moreover have "ho_work_order_id h = wo_id (rc_work_order ctx)"
    by (simp add: h(1) completion_handoff_def)
  ultimately show ?thesis
    using acknowledged(1) at h(2)
    by (simp add: task_post_def journal_extends_def attempt_ok_def dispatches_ok_other)
qed

lemma worker_completed_post:
  assumes "inj (se_uuid env)" "journal_inv env root (vg_digest_sha256 vg) js" "ctx_ok vg root js ctx"
    and "attempt_ok env js ctx at"
  shows "task_post env vg root ctx m js (worker_completed env ctx at c js)"
proof (cases "handoff_violations c = []
    \<and> usage_violation (ac_usage c) (wo_budget (rc_work_order ctx)) (rc_require_reported_token_usage ctx) = None")
  case False
  then show ?thesis
    using fail_terminal_post[OF assms(1,2,4)] task_post_error[OF assms(2,4)]
    by (auto simp: worker_completed_def Let_def split: sum.splits)
next
  case True
  let ?h = "completion_handoff ctx at c (SchedulerEventId (se_uuid env (js_next js)))
    (HandoffId (se_uuid env (Suc (js_next js))))"
  obtain res js' where r: "retain_with_id env (SchedulerEventId (se_uuid env (js_next js))) (Some (at_dispatched at))
      (HandoffRetained ?h) (js\<lparr>js_next := Suc (Suc (js_next js))\<rparr>) = (res, js')"
    by force
  have "handoff_completion ?h = c"
    by (simp add: handoff_completion_def completion_handoff_def)
  moreover have "ho_usage ?h = ac_usage c"
    by (simp add: completion_handoff_def)
  ultimately have "handoff_accepted vg (rc_work_order ctx) ?h"
    using True assms(3) by (simp add: handoff_accepted_def ctx_ok_def)
  then have "task_post env vg root ctx m js (case res of Inl e \<Rightarrow> TaskJournalError e | Inr _ \<Rightarrow> TaskReady (TerminalHandoff ?h), js')"
    by (rule retain_handoff_post[OF assms(1,2,4) refl _ r])
  then show ?thesis
    using True r by (cases res) (auto simp: worker_completed_def Let_def)
qed

text \<open>The retry of an attempt that failed without effect.\<close>

lemma retry_post:
  assumes inj: "inj (se_uuid env)" and inv: "journal_inv env root (vg_digest_sha256 vg) js"
    and ctx: "ctx_ok vg root js ctx" and at: "attempt_ok env js ctx at"
    and r: "retain_failure env ctx at f True js = (Inr failed, js')" "may_retry f"
    and more: "Suc (at_attempt_number at) < attempts_of (rc_work_order ctx)"
    and m: "2 * (attempts_of (rc_work_order ctx) - at_attempt_number at) \<le> m"
  shows "task_post env vg root ctx m js
    (dispatch_attempt env ctx (at_actor_id at) (at_execution_id at) (at_attestation at)
       (Suc (at_attempt_number at)) (Some (at_attempt_id at)) failed js')"
proof -
  note ri = retain_failure_inv[OF inj inv at r(1) impI[OF r(2)]]
  note rs = ri(5)[OF refl]
  have d: "dispatch_at (js_records js') (Some (at_dispatched at)) (attempt_event ctx at)"
    using at dispatch_at_mono journal_extends_subset[OF ri(2)] by (fastforce simp: attempt_ok_def)
  have retry: "retry_caused (js_records js') (Some failed) (attempt_event ctx at') (at_attempt_id at)"
    if "at_actor_id at' = at_actor_id at" "at_execution_id at' = at_execution_id at"
      "at_attestation at' = at_attestation at" "at_parent_attempt_id at' = Some (at_attempt_id at)" for at'
    unfolding retry_caused_def
  proof (rule bexI, intro conjI)
    show "\<exists>p. dispatch_at (js_records js') (sr_causal_parent \<lparr>sr_id = failed, sr_causal_parent = Some (at_dispatched at),
        sr_event = AttemptFailed (wo_id (rc_work_order ctx)) (at_execution_id at) (at_attempt_id at) f True\<rparr>) p
      \<and> de_attempt_id p = at_attempt_id at \<and> attempt_event ctx at' = p\<lparr>de_attempt_id :=
        de_attempt_id (attempt_event ctx at'), de_parent_attempt_id := Some (at_attempt_id at)\<rparr>"
      using d that by (intro exI[of _ "attempt_event ctx at"]) (simp add: attempt_event_def)
    show "\<lparr>sr_id = failed, sr_causal_parent = Some (at_dispatched at), sr_event = AttemptFailed
        (wo_id (rc_work_order ctx)) (at_execution_id at) (at_attempt_id at) f True\<rparr> \<in> set (js_records js')"
      by (simp add: rs)
  qed (use that in \<open>simp_all add: attempt_event_def\<close>)
  have "task_post env vg root ctx m js' (dispatch_attempt env ctx (at_actor_id at) (at_execution_id at)
      (at_attestation at) (Suc (at_attempt_number at)) (Some (at_attempt_id at)) failed js')"
    using at ri(3) more m retry rs
    by (intro dispatch_attempt_post[OF inj ri(1) ctx_ok_mono[OF ctx ri(2)]]) (auto simp: attempt_ok_def)
  then show ?thesis
    using journal_extends_trans[OF ri(2)] ri(3) ri(4)[of vg] by (auto simp: task_post_def split: prod.splits)
qed

lemma worker_failed_post:
  assumes inj: "inj (se_uuid env)" and inv: "journal_inv env root (vg_digest_sha256 vg) js"
    and ctx: "ctx_ok vg root js ctx" and at: "attempt_ok env js ctx at"
    and m: "2 * (attempts_of (rc_work_order ctx) - at_attempt_number at) \<le> m"
  shows "task_post env vg root ctx m js (worker_failed env ctx at fl js)"
proof (cases "worker_failure_violations fl = []")
  case False
  then show ?thesis
    using fail_terminal_post[OF inj inv at] task_post_error[OF inv at]
    by (auto simp: worker_failed_def Let_def split: sum.splits)
next
  case True
  let ?usage = "usage_violation (af_usage fl) (wo_budget (rc_work_order ctx)) False"
  let ?retry = "?usage = None \<and> is_retryable fl \<and> at_attempt_number at + 1 < attempts_of (rc_work_order ctx)"
  let ?f = "case ?usage of Some violation \<Rightarrow> UsageViolation violation | None \<Rightarrow> Worker fl"
  obtain res js' where r: "retain_failure env ctx at ?f ?retry js = (res, js')" by force
  have mr: "?retry \<longrightarrow> may_retry ?f" by (auto simp: may_retry_def)
  have out: "worker_failed env ctx at fl js =
      (case res of Inl e \<Rightarrow> (TaskJournalError e, js')
       | Inr failed \<Rightarrow> if \<not> ?retry then fail_terminal env ctx at ?f js
           else dispatch_attempt env ctx (at_actor_id at) (at_execution_id at) (at_attestation at)
             (Suc (at_attempt_number at)) (Some (at_attempt_id at)) failed js')"
    using True r unfolding worker_failed_def Let_def attempts_of_def
    by (cases res) (auto simp: fail_terminal_def)
  show ?thesis
  proof (cases res)
    case (Inl e)
    then show ?thesis
      using retain_failure_inv[OF inj inv at r] at mr by (simp add: out task_post_def attempt_ok_def)
  next
    case (Inr failed)
    show ?thesis
    proof (cases ?retry)
      case False
      have "attempt_failure ?f" by (simp split: option.splits)
      then show ?thesis
        using fail_terminal_post[OF inj inv at] False Inr by (simp add: out)
    next
      case retry: True
      then show ?thesis
        using retry_post[OF inj inv ctx at, of ?f failed js'] r mr Inr m by (simp add: out)
    qed
  qed
qed

lemma cleanup_attempt_failure: "attempt_failure (cleanup_failure b c)"
  by (simp add: cleanup_failure_def split: option.splits)

theorem step_task_post:
  assumes ok: "run_ok env vg" and inv: "journal_inv env root (vg_digest_sha256 vg) js"
    and task: "task_ok env vg root js t" and acc: "task_accepts t i"
  shows "task_post env vg root (task_ctx t) (task_rank t) js (step_task env t i js)"
proof -
  have inj: "inj (se_uuid env)" using ok by (simp add: run_ok_def)
  have attempts: "0 < attempts_of (rc_work_order ctx)" if "ctx_ok vg root js ctx" for ctx
  proof -
    have "valid_order (vg_policy vg) (rc_work_order ctx)"
      using ok that by (simp add: run_ok_def valid_actor_graph_def ctx_ok_def Let_def)
    then show ?thesis
      by (simp add: valid_order_def attempts_of_def unat_gt_0)
  qed
  show ?thesis
  proof (cases t)
    case (TaskNew ctx)
    then show ?thesis
      using task acc attempts start_task_post[OF inj inv] by simp
  next
    case (AwaitWorker ctx at)
    then have ok: "ctx_ok vg root js ctx" "attempt_ok env js ctx at" using task by auto
    consider (completed) c where "i = WorkerReturned (Inr c)" | (failed) f where "i = WorkerReturned (Inl f)"
      | (timeout) "i = WorkerTimedOut"
      using acc AwaitWorker by (metis sum.exhaust task_accepts.simps(2))
    then show ?thesis
    proof cases
      case timeout
      then show ?thesis
        using AwaitWorker ok inv by (simp add: task_post_def attempt_ok_def)
    qed (use AwaitWorker worker_completed_post[OF inj inv ok] worker_failed_post[OF inj inv ok] in simp_all)
  next
    case (AwaitCleanup ctx at)
    then show ?thesis
      using task acc fail_terminal_post[OF inj inv _ cleanup_attempt_failure] by auto
  qed
qed

section \<open>Counting dispatches\<close>

definition is_dispatch :: "SchedulerRecord \<Rightarrow> bool" where
  "is_dispatch r \<longleftrightarrow> dispatched_order (sr_event r) \<noteq> None"

lemma dispatches_total:
  assumes "finite ids" "\<And>w. w \<notin> ids \<Longrightarrow> dispatches rs w = 0"
  shows "length (filter is_dispatch rs) = (\<Sum>w \<in> ids. dispatches rs w)"
  using assms(2)
proof (induction rs)
  case (Cons r rs)
  have tail: "dispatches rs w = 0" if "w \<notin> ids" for w
    using Cons.prems[OF that] by (simp add: dispatches_def split: if_splits)
  have "(\<Sum>w \<in> ids. dispatches (r # rs) w)
      = (\<Sum>w \<in> ids. (if dispatched_order (sr_event r) = Some w then 1 else 0)) + (\<Sum>w \<in> ids. dispatches rs w)"
    by (simp add: dispatches_def flip: sum.distrib) (rule sum.cong, auto)
  also have "(\<Sum>w \<in> ids. (if dispatched_order (sr_event r) = Some w then 1 else 0)) = (if is_dispatch r then 1 else (0::nat))"
  proof (cases "dispatched_order (sr_event r)")
    case (Some v)
    then have "v \<in> ids"
      using Cons.prems[of v] by (auto simp: dispatches_def)
    then show ?thesis
      using Some assms(1) by (simp add: is_dispatch_def)
  qed (simp add: is_dispatch_def)
  finally show ?case
    using Cons.IH[OF tail] by simp
qed simp

end
