(* ===== verification/Transition_Systems.thy ===== *)
theory Transition_Systems
  imports Main
begin

text \<open>
  The two contracts that the state machines of the development meet.  \<open>safe_system\<close>: an invariant
  that holds initially and is kept by every step holds in every reachable state.  \<open>live_system\<close>:
  with a rank that every step decreases and a step from every state that is not final, every run
  is finite and reaches a final state.
\<close>

locale safe_system =
  fixes init :: "'s \<Rightarrow> bool"
    and step :: "'s \<Rightarrow> 's \<Rightarrow> bool"
    and inv :: "'s \<Rightarrow> bool"
  assumes inv_init: "init s \<Longrightarrow> inv s"
    and inv_step: "inv s \<Longrightarrow> step s t \<Longrightarrow> inv t"
begin

lemma inv_preserved: "step\<^sup>*\<^sup>* s t \<Longrightarrow> inv s \<Longrightarrow> inv t"
  by (induction rule: rtranclp_induct) (auto intro: inv_step)

lemma inv_reachable: "init s \<Longrightarrow> step\<^sup>*\<^sup>* s t \<Longrightarrow> inv t"
  using inv_init inv_preserved by blast

end

locale live_system = safe_system +
  fixes final :: "'s \<Rightarrow> bool"
    and rank :: "'s \<Rightarrow> nat"
  assumes progress: "inv s \<Longrightarrow> \<not> final s \<Longrightarrow> \<exists>t. step s t"
    and rank_step: "inv s \<Longrightarrow> step s t \<Longrightarrow> rank t < rank s"
begin

lemma run_bounded: "inv s \<Longrightarrow> (step ^^ n) s t \<Longrightarrow> n + rank t \<le> rank s"
proof (induction n arbitrary: t)
  case (Suc n)
  then obtain u where u: "(step ^^ n) s u" "step u t"
    by auto
  then have "inv u"
    using Suc.prems(1) inv_preserved by (metis relpowp_imp_rtranclp)
  with u Suc.IH[of u] Suc.prems(1) rank_step[of u t] show ?case by simp
qed simp

lemma eventually_final: "inv s \<Longrightarrow> \<exists>t. step\<^sup>*\<^sup>* s t \<and> final t"
proof (induction "rank s" arbitrary: s rule: less_induct)
  case less
  show ?case
  proof (cases "final s")
    case False
    with less.prems progress obtain t where t: "step s t" by blast
    with less.prems have "rank t < rank s" "inv t"
      using rank_step inv_step by blast+
    with less.hyps t show ?thesis
      by (meson converse_rtranclp_into_rtranclp)
  qed blast
qed

lemma reachable_eventually_final: "init s \<Longrightarrow> step\<^sup>*\<^sup>* s t \<Longrightarrow> \<exists>u. step\<^sup>*\<^sup>* t u \<and> final u"
  using inv_reachable eventually_final by blast

lemma reachable_run_bounded: "init s \<Longrightarrow> (step ^^ n) s t \<Longrightarrow> n \<le> rank s"
  using run_bounded inv_init by fastforce

end

end
