(* ===== verification/Executor_Invariants.thy ===== *)
theory Executor_Invariants
  imports Actor_Executor Task_Invariants Transition_Systems
begin

text \<open>
  The invariant of \<open>ActorGraphExecutor::execute\<close> and its preservation by every step of the loop: a
  work order is pending, active or finished and never two of these, a launched order has completed
  hand-offs of all its dependencies, every result is backed by a retained record, parallelism and
  attempts stay within their limits.
\<close>

section \<open>Invariant\<close>

abbreviation task_id :: "task \<Rightarrow> WorkOrderId" where
  "task_id t \<equiv> wo_id (task_order t)"

abbreviation sc_records :: "sched \<Rightarrow> SchedulerRecord list" where
  "sc_records s \<equiv> js_records (sc_js s)"

text \<open>Pending, active and finished work orders partition the graph.\<close>

definition sc_ids :: "sched \<Rightarrow> WorkOrderId list" where
  "sc_ids s = sc_pending s @ map task_id (sc_active s) @ bm_keys (sc_terminal_event_ids s)"

definition books_ok :: "ValidatedActorGraph \<Rightarrow> sched \<Rightarrow> bool" where
  "books_ok vg s \<longleftrightarrow>
     distinct (sc_ids s) \<and> set (sc_ids s) = wo_id ` set (vg_orders vg)
     \<and> bm_wf (sc_terminal_event_ids s) \<and> bm_wf (sc_handoffs s) \<and> bm_wf (sc_failures s)
     \<and> set (bm_keys (sc_terminal_event_ids s))
         = set (bm_keys (sc_handoffs s)) \<union> set (bm_keys (sc_failures s))"

definition handoff_ok :: "ValidatedActorGraph \<Rightarrow> sched \<Rightarrow> WorkOrderId \<Rightarrow> Handoff \<Rightarrow> bool" where
  "handoff_ok vg s k h \<longleftrightarrow>
     ho_work_order_id h = k \<and> handoff_at (sc_records s) h
     \<and> bm_get (sc_failures s) k
         = (if ho_outcome h = HandoffCompleted then None else Some (IncompleteHandoff (ho_outcome h)))
     \<and> (\<exists>order \<in> set (vg_orders vg). wo_id order = k \<and> handoff_accepted vg order h)"

text \<open>Why a work order failed: its hand-off is incomplete, a dependency failed, or its last attempt failed.\<close>

definition failure_ok :: "ValidatedActorGraph \<Rightarrow> sched \<Rightarrow> WorkOrderId \<Rightarrow> WorkOrderFailure \<Rightarrow> bool" where
  "failure_ok vg s k f \<longleftrightarrow>
     (case f of
        IncompleteHandoff out \<Rightarrow> \<exists>h. bm_get (sc_handoffs s) k = Some h \<and> ho_outcome h = out
      | DependencyFailed ds \<Rightarrow>
          ds \<noteq> [] \<and> (\<forall>d \<in> set ds. bm_contains_key (sc_failures s) d)
          \<and> (\<exists>order \<in> set (vg_orders vg). wo_id order = k \<and> set ds \<subseteq> set (wo_dependencies order))
          \<and> dispatches (sc_records s) k = 0 \<and> bm_get (sc_handoffs s) k = None
      | _ \<Rightarrow> (\<exists>e. failure_at (sc_records s) k f e) \<and> bm_get (sc_handoffs s) k = None)"

definition results_ok :: "ValidatedActorGraph \<Rightarrow> sched \<Rightarrow> bool" where
  "results_ok vg s \<longleftrightarrow>
     (\<forall>k h. bm_get (sc_handoffs s) k = Some h \<longrightarrow> handoff_ok vg s k h)
     \<and> (\<forall>k f. bm_get (sc_failures s) k = Some f \<longrightarrow> failure_ok vg s k f)
     \<and> (\<forall>k e. bm_get (sc_terminal_event_ids s) k = Some e \<longrightarrow> e \<in> sr_id ` set (sc_records s))
     \<and> (\<forall>k. k \<in> set (sc_cleanup_unproven s) \<longleftrightarrow>
          (\<exists>f. bm_get (sc_failures s) k = Some f \<and> is_cleanup_unproven f))"

text \<open>Attempts stay within the budget; a pending order was never dispatched.\<close>

definition counts_ok :: "ValidatedActorGraph \<Rightarrow> SchedulerRecord list \<Rightarrow> bool" where
  "counts_ok vg rs \<longleftrightarrow>
     (\<forall>order \<in> set (vg_orders vg). dispatches rs (wo_id order) \<le> attempts_of order)
     \<and> (\<forall>w. w \<notin> wo_id ` set (vg_orders vg) \<longrightarrow> dispatches rs w = 0)"

definition sched_inv :: "sched_env \<Rightarrow> ValidatedActorGraph \<Rightarrow> sched \<Rightarrow> bool" where
  "sched_inv env vg s \<longleftrightarrow>
     journal_inv env (sc_root s) (vg_digest_sha256 vg) (sc_js s) \<and> dispatches_ok env vg (sc_records s)
     \<and> sc_root s \<in> sr_id ` set (sc_records s)
     \<and> books_ok vg s \<and> results_ok vg s \<and> counts_ok vg (sc_records s)
     \<and> (\<forall>w \<in> set (sc_pending s). dispatches (sc_records s) w = 0)
     \<and> (\<forall>t \<in> set (sc_active s). task_ok env vg (sc_root s) (sc_js s) t)"

definition max_parallel :: "ValidatedActorGraph \<Rightarrow> nat" where
  "max_parallel vg = unat (gl_max_parallel (gp_limits (vg_policy vg)))"

definition limits_ok :: "ValidatedActorGraph \<Rightarrow> sched \<Rightarrow> bool" where
  "limits_ok vg s \<longleftrightarrow>
     length (sc_active s) \<le> unat (sc_maximum_in_flight s) \<and> unat (sc_maximum_in_flight s) \<le> max_parallel vg"

text \<open>The steps that are left: every pending order still has all of its future's steps.\<close>

definition pending_rank :: "ValidatedActorGraph \<Rightarrow> WorkOrderId list \<Rightarrow> nat" where
  "pending_rank vg ps =
     sum_list (map (\<lambda>order. if wo_id order \<in> set ps then 2 * attempts_of order + 2 else 0) (vg_orders vg))"

definition sched_rank :: "ValidatedActorGraph \<Rightarrow> sched \<Rightarrow> nat" where
  "sched_rank vg s = pending_rank vg (sc_pending s) + sum_list (map task_rank (sc_active s))"

section \<open>Polls\<close>

text \<open>The active futures with the one at position \<open>i\<close> taken out.\<close>

lemma list_split_at: "i < length xs \<Longrightarrow> xs = take i xs @ xs ! i # drop (Suc i) xs"
  by (rule id_take_nth_drop)

lemma failure_ok_mono:
  assumes "failure_ok vg s k f" "journal_extends (sc_js s) (sc_js s')"
    and "\<And>d. bm_contains_key (sc_failures s) d \<Longrightarrow> bm_contains_key (sc_failures s') d"
    and "bm_get (sc_handoffs s') k = bm_get (sc_handoffs s) k"
    and "dispatches (sc_records s') k = dispatches (sc_records s) k"
  shows "failure_ok vg s' k f"
proof -
  have "failure_at (sc_records s) k f e \<Longrightarrow> failure_at (sc_records s') k f e" for e
    using journal_extends_subset[OF assms(2)] by (auto simp: failure_at_def)
  with assms show ?thesis
    by (auto simp: failure_ok_def split: WorkOrderFailure.splits)
qed

lemma handoff_ok_mono:
  assumes "handoff_ok vg s k h" "journal_extends (sc_js s) (sc_js s')"
    and "bm_get (sc_failures s') k = bm_get (sc_failures s) k"
  shows "handoff_ok vg s' k h"
  using assms by (auto simp: handoff_ok_def intro: handoff_at_mono[OF _ journal_extends_subset])

text \<open>The journal grows while the maps stay as they are.\<close>

lemma results_ok_journal:
  assumes "results_ok vg s" "journal_extends (sc_js s) js'"
    and "\<And>k f. bm_get (sc_failures s) k = Some f \<Longrightarrow> dispatches (js_records js') k = dispatches (sc_records s) k"
  shows "results_ok vg (s\<lparr>sc_js := js', sc_active := ts\<rparr>)"
  unfolding results_ok_def
proof (intro conjI allI impI)
  fix k h assume "bm_get (sc_handoffs (s\<lparr>sc_js := js', sc_active := ts\<rparr>)) k = Some h"
  then show "handoff_ok vg (s\<lparr>sc_js := js', sc_active := ts\<rparr>) k h"
    using assms(1,2) by - (rule handoff_ok_mono[where s = s], simp_all add: results_ok_def)
next
  fix k f assume "bm_get (sc_failures (s\<lparr>sc_js := js', sc_active := ts\<rparr>)) k = Some f"
  then show "failure_ok vg (s\<lparr>sc_js := js', sc_active := ts\<rparr>) k f"
    using assms by - (rule failure_ok_mono[where s = s], simp_all add: results_ok_def)
next
  fix k e assume "bm_get (sc_terminal_event_ids (s\<lparr>sc_js := js', sc_active := ts\<rparr>)) k = Some e"
  then have "e \<in> sr_id ` set (sc_records s)"
    using assms(1) by (simp add: results_ok_def)
  then show "e \<in> sr_id ` set (sc_records (s\<lparr>sc_js := js', sc_active := ts\<rparr>))"
    using journal_extends_subset[OF assms(2)] by auto
qed (use assms(1) in \<open>simp add: results_ok_def\<close>)

lemma counts_ok_step:
  assumes "counts_ok vg rs" "order \<in> set (vg_orders vg)"
    and "\<And>w. w \<noteq> wo_id order \<Longrightarrow> dispatches rs' w = dispatches rs w"
    and "dispatches rs' (wo_id order) \<le> attempts_of order"
    and "distinct (map wo_id (vg_orders vg))"
  shows "counts_ok vg rs'"
  unfolding counts_ok_def
proof (intro conjI ballI allI impI)
  fix x assume x: "x \<in> set (vg_orders vg)"
  show "dispatches rs' (wo_id x) \<le> attempts_of x"
  proof (cases "wo_id x = wo_id order")
    case True
    with x assms(2,5) have "x = order"
      by (metis distinct_map inj_on_def)
    with assms(4) show ?thesis by simp
  next
    case False
    with assms(1,3) x show ?thesis by (simp add: counts_ok_def)
  qed
next
  fix w assume "w \<notin> wo_id ` set (vg_orders vg)"
  with assms(1-3) show "dispatches rs' w = 0"
    by (metis counts_ok_def imageI)
qed

lemma run_ok_distinct: "run_ok env vg \<Longrightarrow> distinct (map wo_id (vg_orders vg))"
  by (simp add: run_ok_def valid_actor_graph_def Let_def)

text \<open>One step of the future \<open>t\<close>, seen by the rest of the executor.\<close>

lemma step_frame:
  assumes ok: "run_ok env vg" and inv: "sched_inv env vg s" and act: "sc_active s = as @ t # bs"
    and post: "task_post env vg (sc_root s) (task_ctx t) n (sc_js s) (res, js')"
  shows "journal_inv env (sc_root s) (vg_digest_sha256 vg) js'" "journal_extends (sc_js s) js'"
    "sc_root s \<in> sr_id ` set (js_records js')" "counts_ok vg (js_records js')"
    "\<forall>w \<in> set (sc_pending s). dispatches (js_records js') w = 0"
    "\<forall>u \<in> set as \<union> set bs. task_ok env vg (sc_root s) js' u"
    "results_ok vg (s\<lparr>sc_js := js', sc_active := ts\<rparr>)" "dispatches_ok env vg (js_records js')"
proof -
  show "dispatches_ok env vg (js_records js')"
    using inv post by (auto simp: task_post_def sched_inv_def)
  have p: "journal_inv env (sc_root s) (vg_digest_sha256 vg) js'" "journal_extends (sc_js s) js'"
    "\<And>w. w \<noteq> task_id t \<Longrightarrow> dispatches (js_records js') w = dispatches (sc_records s) w"
    "dispatches (js_records js') (task_id t) \<le> attempts_of (task_order t)"
    using post by (auto simp: task_post_def)
  have t: "task_order t \<in> set (vg_orders vg)"
    using inv act task_ok_ctx[of env vg "sc_root s" "sc_js s" t] by (auto simp: sched_inv_def ctx_ok_def)
  have other: "task_id t \<notin> set (sc_pending s)" "task_id t \<notin> set (bm_keys (sc_terminal_event_ids s))"
    "\<And>u. u \<in> set as \<union> set bs \<Longrightarrow> task_id u \<noteq> task_id t"
  proof -
    have "distinct (sc_ids s)"
      using inv by (simp add: sched_inv_def books_ok_def)
    then show "task_id t \<notin> set (sc_pending s)" "task_id t \<notin> set (bm_keys (sc_terminal_event_ids s))"
      "\<And>u. u \<in> set as \<union> set bs \<Longrightarrow> task_id u \<noteq> task_id t"
      unfolding sc_ids_def act by auto (metis imageI)+
  qed
  show "journal_inv env (sc_root s) (vg_digest_sha256 vg) js'" "journal_extends (sc_js s) js'"
    using p by blast+
  show "sc_root s \<in> sr_id ` set (js_records js')"
    using inv journal_extends_subset[OF p(2)] by (auto simp: sched_inv_def)
  show "counts_ok vg (js_records js')"
    using inv counts_ok_step[OF _ t p(3,4) run_ok_distinct[OF ok]] by (simp add: sched_inv_def)
  show "\<forall>w \<in> set (sc_pending s). dispatches (js_records js') w = 0"
    using inv other(1) p(3) by (metis sched_inv_def)
  show "\<forall>u \<in> set as \<union> set bs. task_ok env vg (sc_root s) js' u"
    using inv act other(3) p(3) by (auto simp: sched_inv_def intro!: task_ok_mono[OF _ p(2)])
  show "results_ok vg (s\<lparr>sc_js := js', sc_active := ts\<rparr>)"
  proof (rule results_ok_journal[OF _ p(2)])
    fix k f assume "bm_get (sc_failures s) k = Some f"
    then have "k \<in> set (bm_keys (sc_terminal_event_ids s))"
      using inv by (auto simp: sched_inv_def books_ok_def bm_contains_key_def simp flip: bm_contains_key_iff)
    with other(2) show "dispatches (js_records js') k = dispatches (sc_records s) k"
      by (metis p(3))
  qed (use inv in \<open>simp add: sched_inv_def\<close>)
qed

lemma poll_pending:
  assumes ok: "run_ok env vg" and inv: "sched_inv env vg s" and act: "sc_active s = as @ t # bs"
    and post: "task_post env vg (sc_root s) (task_ctx t) (task_rank t) (sc_js s) (TaskPending t', js')"
  shows "sched_inv env vg (s\<lparr>sc_js := js', sc_active := as @ t' # bs\<rparr>)"
    and "sched_rank vg (s\<lparr>sc_js := js', sc_active := as @ t' # bs\<rparr>) < sched_rank vg s"
proof -
  note f = step_frame[OF ok inv act post]
  have t': "task_ctx t' = task_ctx t" "task_ok env vg (sc_root s) js' t'" "task_rank t' < task_rank t"
    using post by (auto simp: task_post_def)
  then have "sc_ids (s\<lparr>sc_js := js', sc_active := as @ t' # bs\<rparr>) = sc_ids s"
    using act by (simp add: sc_ids_def)
  then have "books_ok vg (s\<lparr>sc_js := js', sc_active := as @ t' # bs\<rparr>)"
    using inv by (simp add: sched_inv_def books_ok_def)
  then show "sched_inv env vg (s\<lparr>sc_js := js', sc_active := as @ t' # bs\<rparr>)"
    using f t' by (auto simp: sched_inv_def)
  show "sched_rank vg (s\<lparr>sc_js := js', sc_active := as @ t' # bs\<rparr>) < sched_rank vg s"
    using t'(3) act by (simp add: sched_rank_def)
qed

text \<open>A work order without a result so far gets one; everything else stays.\<close>

definition adds_result :: "WorkOrderId \<Rightarrow> sched \<Rightarrow> sched \<Rightarrow> bool" where
  "adds_result w s s' \<longleftrightarrow>
     journal_extends (sc_js s) (sc_js s')
     \<and> (\<forall>k. bm_contains_key (sc_failures s) k \<longrightarrow> dispatches (sc_records s') k = dispatches (sc_records s) k)
     \<and> (\<forall>k. k \<noteq> w \<longrightarrow> bm_get (sc_handoffs s') k = bm_get (sc_handoffs s) k)
     \<and> (\<forall>k. k \<noteq> w \<longrightarrow> bm_get (sc_failures s') k = bm_get (sc_failures s) k)
     \<and> (\<forall>k. k \<noteq> w \<longrightarrow> bm_get (sc_terminal_event_ids s') k = bm_get (sc_terminal_event_ids s) k)
     \<and> set (sc_cleanup_unproven s') = set (sc_cleanup_unproven s)
         \<union> {k. k = w \<and> (\<exists>f. bm_get (sc_failures s') w = Some f \<and> is_cleanup_unproven f)}"

lemma results_ok_insert:
  assumes ok: "results_ok vg s" and add: "adds_result w s s'"
    and new: "\<not> bm_contains_key (sc_handoffs s) w" "\<not> bm_contains_key (sc_failures s) w"
    and own: "\<And>h. bm_get (sc_handoffs s') w = Some h \<Longrightarrow> handoff_ok vg s' w h"
      "\<And>f. bm_get (sc_failures s') w = Some f \<Longrightarrow> failure_ok vg s' w f"
      "\<And>e. bm_get (sc_terminal_event_ids s') w = Some e \<Longrightarrow> e \<in> sr_id ` set (sc_records s')"
  shows "results_ok vg s'"
proof -
  note add = add[unfolded adds_result_def]
  have ext: "journal_extends (sc_js s) (sc_js s')" using add by blast
  have mono: "bm_contains_key (sc_failures s) d \<Longrightarrow> bm_contains_key (sc_failures s') d" for d
    using add new(2) by (metis bm_contains_key_def)
  have "handoff_ok vg s' k h" if "bm_get (sc_handoffs s') k = Some h" for k h
  proof (cases "k = w")
    case False
    then have "handoff_ok vg s k h"
      using that add ok by (simp add: results_ok_def)
    then show ?thesis
      using False add by (intro handoff_ok_mono[OF _ ext]) simp_all
  qed (use own that in simp)
  moreover have "failure_ok vg s' k f" if "bm_get (sc_failures s') k = Some f" for k f
  proof (cases "k = w")
    case False
    then have "failure_ok vg s k f" "bm_contains_key (sc_failures s) k"
      using that add ok by (simp_all add: results_ok_def bm_contains_key_def)
    then show ?thesis
      using False add mono by (intro failure_ok_mono[OF _ ext]) simp_all
  qed (use own that in simp)
  moreover have "e \<in> sr_id ` set (sc_records s')" if "bm_get (sc_terminal_event_ids s') k = Some e" for k e
  proof (cases "k = w")
    case False
    then have "e \<in> sr_id ` set (sc_records s)"
      using that add ok by (simp add: results_ok_def)
    then show ?thesis
      using journal_extends_subset[OF ext] by auto
  qed (use own that in simp)
  moreover have "k \<in> set (sc_cleanup_unproven s') \<longleftrightarrow>
      (\<exists>f. bm_get (sc_failures s') k = Some f \<and> is_cleanup_unproven f)" for k
    using add ok new(2) by (cases "k = w") (simp_all add: results_ok_def bm_contains_key_def)
  ultimately show ?thesis
    by (simp add: results_ok_def)
qed

lemma books_terminal_keys:
  assumes "books_ok vg s" "w \<notin> set (bm_keys (sc_terminal_event_ids s))"
  shows "\<not> bm_contains_key (sc_handoffs s) w" "\<not> bm_contains_key (sc_failures s) w"
  using assms by (auto simp: books_ok_def bm_contains_key_iff)

lemma results_ok_terminal:
  assumes ok: "results_ok vg s" and order: "order \<in> set (vg_orders vg)"
    and new: "\<not> bm_contains_key (sc_handoffs s) (wo_id order)" "\<not> bm_contains_key (sc_failures s) (wo_id order)"
    and tok: "terminal_ok vg (sc_js s) order terminal"
  shows "results_ok vg (apply_terminal terminal s)"
proof (cases terminal)
  case (TerminalHandoff h)
  then have h: "ho_work_order_id h = wo_id order" "handoff_at (sc_records s) h" "handoff_accepted vg order h"
    using tok by auto
  have add: "adds_result (wo_id order) s (apply_terminal terminal s)"
    using new h(1) unfolding TerminalHandoff adds_result_def by (auto simp: bm_contains_key_def)
  show ?thesis
    by (rule results_ok_insert[OF ok add new])
      (use TerminalHandoff h order new in \<open>auto simp: handoff_ok_def failure_ok_def bm_contains_key_def handoff_at_def
        split: if_splits intro: rev_image_eqI\<close>)
next
  case (TerminalFailed w f e)
  then have f: "w = wo_id order" "failure_at (sc_records s) w f e" "attempt_failure f"
    using tok by auto
  have add: "adds_result (wo_id order) s (apply_terminal terminal s)"
    using new f(1) unfolding TerminalFailed adds_result_def by (auto simp: bm_contains_key_def)
  have fok: "failure_ok vg (apply_terminal terminal s) w f"
    using f new by (cases f) (auto simp: TerminalFailed failure_ok_def bm_contains_key_def)
  show ?thesis
    by (rule results_ok_insert[OF ok add new])
      (use TerminalFailed f new fok in \<open>auto simp: failure_at_def bm_contains_key_def\<close>)
qed

lemma apply_terminal_sel [simp]:
  "sc_js (apply_terminal terminal s) = sc_js s" "sc_root (apply_terminal terminal s) = sc_root s"
  "sc_pending (apply_terminal terminal s) = sc_pending s" "sc_active (apply_terminal terminal s) = sc_active s"
  "sc_maximum_in_flight (apply_terminal terminal s) = sc_maximum_in_flight s"
  by (cases terminal; simp)+

lemma books_ok_insert:
  assumes "distinct (sc_pending s @ map task_id (sc_active s) @ w # bm_keys (sc_terminal_event_ids s))"
    and "set (sc_pending s @ map task_id (sc_active s) @ w # bm_keys (sc_terminal_event_ids s)) = wo_id ` set (vg_orders vg)"
    and "set (bm_keys (sc_terminal_event_ids s)) = set (bm_keys (sc_handoffs s)) \<union> set (bm_keys (sc_failures s))"
    and "bm_wf (sc_terminal_event_ids s)" "bm_wf (sc_handoffs s')" "bm_wf (sc_failures s')"
    and "sc_pending s' = sc_pending s" "sc_active s' = sc_active s"
    and "sc_terminal_event_ids s' = bm_insert w e (sc_terminal_event_ids s)"
    and "set (bm_keys (sc_handoffs s')) \<union> set (bm_keys (sc_failures s'))
      = insert w (set (bm_keys (sc_handoffs s)) \<union> set (bm_keys (sc_failures s)))"
  shows "books_ok vg s'"
proof -
  have wf: "bm_wf (sc_terminal_event_ids s')"
    using assms(4,9) by simp
  have keys: "set (bm_keys (sc_terminal_event_ids s')) = insert w (set (bm_keys (sc_terminal_event_ids s)))"
    by (simp add: assms(9))
  have "distinct (sc_ids s')" "set (sc_ids s') = wo_id ` set (vg_orders vg)"
    using assms(1) bm_wf_distinct[OF wf] keys unfolding sc_ids_def assms(7,8) assms(2)[symmetric] by auto
  then show ?thesis
    using wf keys assms(3,5,6,10) by (simp add: books_ok_def)
qed

text \<open>The maps after a terminal result.\<close>

lemma apply_terminal_maps:
  assumes "terminal_ok vg js order terminal" "bm_wf (sc_handoffs s)" "bm_wf (sc_failures s)"
  shows "\<exists>e. sc_terminal_event_ids (apply_terminal terminal s) = bm_insert (wo_id order) e (sc_terminal_event_ids s)"
    "bm_wf (sc_handoffs (apply_terminal terminal s))" "bm_wf (sc_failures (apply_terminal terminal s))"
    "set (bm_keys (sc_handoffs (apply_terminal terminal s))) \<union> set (bm_keys (sc_failures (apply_terminal terminal s)))
      = insert (wo_id order) (set (bm_keys (sc_handoffs s)) \<union> set (bm_keys (sc_failures s)))"
  using assms by (cases terminal; auto)+

lemma distinct_move: "distinct (ps @ (as @ t # bs) @ ts) \<longleftrightarrow> distinct (ps @ (as @ bs) @ t # ts)"
  by auto

lemma set_move: "set (ps @ (as @ t # bs) @ ts) = set (ps @ (as @ bs) @ t # ts)"
  by auto

lemma poll_ready:
  assumes ok: "run_ok env vg" and inv: "sched_inv env vg s" and act: "sc_active s = as @ t # bs"
    and post: "task_post env vg (sc_root s) (task_ctx t) n (sc_js s) (TaskReady terminal, js')"
  defines "s' \<equiv> apply_terminal terminal (s\<lparr>sc_js := js', sc_active := as @ bs\<rparr>)"
  shows "sched_inv env vg s'" "sched_rank vg s' + task_rank t = sched_rank vg s"
proof -
  note f = step_frame[OF ok inv act post]
  let ?s = "s\<lparr>sc_js := js', sc_active := as @ bs\<rparr>"
  have books: "books_ok vg s" using inv by (simp add: sched_inv_def)
  have t: "task_order t \<in> set (vg_orders vg)"
    using inv act task_ok_ctx[of env vg "sc_root s" "sc_js s" t] by (auto simp: sched_inv_def ctx_ok_def)
  have tok: "terminal_ok vg js' (task_order t) terminal"
    using post by (auto simp: task_post_def)
  have dist: "distinct (sc_pending s @ map task_id (as @ bs) @ task_id t # bm_keys (sc_terminal_event_ids s))"
    and ids: "set (sc_pending s @ map task_id (as @ bs) @ task_id t # bm_keys (sc_terminal_event_ids s)) = wo_id ` set (vg_orders vg)"
    using books unfolding books_ok_def sc_ids_def act map_append list.map distinct_move set_move by blast+
  then have new: "\<not> bm_contains_key (sc_handoffs s) (task_id t)" "\<not> bm_contains_key (sc_failures s) (task_id t)"
    using books_terminal_keys[OF books] by auto
  have "results_ok vg s'"
    unfolding s'_def by (rule results_ok_terminal[OF f(7) t]) (use new tok in simp_all)
  moreover have "books_ok vg s'"
  proof -
    have wf: "bm_wf (sc_handoffs ?s)" "bm_wf (sc_failures ?s)"
      using books by (simp_all add: books_ok_def)
    obtain e where "sc_terminal_event_ids s' = bm_insert (task_id t) e (sc_terminal_event_ids ?s)"
      unfolding s'_def using apply_terminal_maps(1)[OF tok wf] by blast
    then show ?thesis
      using dist ids books apply_terminal_maps(2-4)[OF tok wf, folded s'_def]
      by (intro books_ok_insert[where s = ?s and w = "task_id t" and e = e]) (simp_all add: books_ok_def s'_def)
  qed
  ultimately show "sched_inv env vg s'"
    using f by (simp add: sched_inv_def s'_def)
  show "sched_rank vg s' + task_rank t = sched_rank vg s"
    by (simp add: sched_rank_def s'_def act)
qed

section \<open>Blocking\<close>

fun control_event :: "SchedulerEvent \<Rightarrow> bool" where
  "control_event (WorkOrderBlocked _ _ _) = True"
| "control_event (GraphFinished _ _) = True"
| "control_event (GraphSuspended _ _ _) = True"
| "control_event _ = False"

text \<open>What holds of the journal whenever the executor returns.\<close>

definition journal_ok :: "sched_env \<Rightarrow> ValidatedActorGraph \<Rightarrow> jstate \<Rightarrow> bool" where
  "journal_ok env vg js \<longleftrightarrow>
     (\<exists>root. journal_inv env root (vg_digest_sha256 vg) js) \<and> counts_ok vg (js_records js)
     \<and> dispatches_ok env vg (js_records js)"

lemma retain_control:
  assumes "run_ok env vg" "sched_inv env vg s" "p \<in> sr_id ` set (sc_records s)" "control_event ev"
    and "retain env (Some p) ev (sc_js s) = (res, js')"
  shows "journal_inv env (sc_root s) (vg_digest_sha256 vg) js'" "journal_extends (sc_js s) js'"
    and "dispatches (js_records js') w = dispatches (sc_records s) w"
    and "res = Inr i \<Longrightarrow> js_records js' = sc_records s @ [\<lparr>sr_id = i, sr_causal_parent = Some p, sr_event = ev\<rparr>]"
    and "journal_ok env vg js'" "dispatches_ok env vg (js_records js')"
proof -
  have inj: "inj (se_uuid env)" and inv: "journal_inv env (sc_root s) (vg_digest_sha256 vg) (sc_js s)"
    using assms(1,2) by (simp_all add: run_ok_def sched_inv_def)
  have ev: "event_caused (sc_root s) (vg_digest_sha256 vg) (sc_records s) j (Some p) ev"
    "dispatched_attempt ev = None" "dispatched_order ev = None" for j
    using assms(4) by (cases ev; simp)+
  note r = retain_inv[OF inj inv assms(5,3) ev(1)]
  show *: "journal_inv env (sc_root s) (vg_digest_sha256 vg) js'" "journal_extends (sc_js s) js'"
    "res = Inr i \<Longrightarrow> js_records js' = sc_records s @ [\<lparr>sr_id = i, sr_causal_parent = Some p, sr_event = ev\<rparr>]"
    using r ev(2) by simp_all
  have disp: "dispatches (js_records js') w = dispatches (sc_records s) w" for w
    using r(3,4) ev(2,3) by (cases res) auto
  then show "dispatches (js_records js') w = dispatches (sc_records s) w" .
  have "counts_ok vg (js_records js')"
    using assms(2) by (simp add: sched_inv_def counts_ok_def disp)
  moreover show dok: "dispatches_ok env vg (js_records js')"
    using r(3,4) ev(2,3) assms(2) by (cases res) (auto simp: sched_inv_def dispatches_ok_other)
  ultimately show "journal_ok env vg js'" using * by (auto simp: journal_ok_def)
qed

lemma first_or_in: "(\<And>k v. (k, v) \<in> set m \<Longrightarrow> v \<in> A) \<Longrightarrow> root \<in> A \<Longrightarrow> first_or root m \<in> A"
  by (cases m) (force simp: first_or_def bm_values_def)+

lemma bm_of_list_subset: "kv \<in> set (bm_of_list kvs) \<Longrightarrow> kv \<in> set kvs"
  by (metis bm_get_iff_in_set bm_get_of_list bm_wf_of_list map_of_SomeD set_rev surj_pair)

text \<open>A pending order with failed dependencies.\<close>

definition blockable :: "ValidatedActorGraph \<Rightarrow> sched \<Rightarrow> WorkOrderId \<Rightarrow> WorkOrderId list \<Rightarrow> bool" where
  "blockable vg s w ds \<longleftrightarrow>
     w \<in> set (sc_pending s) \<and> ds \<noteq> [] \<and> (\<forall>d \<in> set ds. bm_contains_key (sc_failures s) d)
     \<and> (\<exists>order \<in> set (vg_orders vg). wo_id order = w \<and> set ds \<subseteq> set (wo_dependencies order))"

lemma terminal_parent:
  assumes "sched_inv env vg s"
  shows "first_or (sc_root s) (bm_of_list (List.map_filter
    (\<lambda>d. map_option (Pair d) (bm_get (sc_terminal_event_ids s) d)) ds)) \<in> sr_id ` set (sc_records s)"
  using assms
  by (intro first_or_in) (auto simp: sched_inv_def results_ok_def List.map_filter_def dest!: bm_of_list_subset)

lemma pending_rank_remove: "pending_rank vg (bs_remove w ps) \<le> pending_rank vg ps"
  unfolding pending_rank_def by (intro sum_list_mono) auto

lemma block_order_inv:
  assumes ok: "run_ok env vg" and inv: "sched_inv env vg s" and b: "blockable vg s w ds"
    and r: "block_order env w ds s = Inr s'"
  shows "sched_inv env vg s'" "sched_rank vg s' \<le> sched_rank vg s"
proof -
  obtain e js tids where e: "retain env (Some (first_or (sc_root s) (bm_of_list (List.map_filter
      (\<lambda>d. map_option (Pair d) (bm_get (sc_terminal_event_ids s) d)) ds)))) (WorkOrderBlocked w ds tids) (sc_js s) = (Inr e, js)"
    and s': "s' = s\<lparr>sc_js := js, sc_pending := bs_remove w (sc_pending s),
      sc_failures := bm_insert w (DependencyFailed ds) (sc_failures s),
      sc_terminal_event_ids := bm_insert w e (sc_terminal_event_ids s)\<rparr>"
    using r by (auto simp: block_order_def Let_def split: prod.splits sum.splits)
  note c = retain_control[OF ok inv terminal_parent[OF inv] _ e, simplified]
  have books: "books_ok vg s" using inv by (simp add: sched_inv_def)
  have w: "w \<in> set (sc_pending s)" "w \<notin> set (bm_keys (sc_terminal_event_ids s))" "w \<notin> task_id ` set (sc_active s)"
    using b books by (auto simp: blockable_def books_ok_def sc_ids_def)
  note new = books_terminal_keys[OF books w(2)]
  have "results_ok vg s'"
  proof (rule results_ok_insert[OF _ _ new])
    show "adds_result w s s'"
      using c by (auto simp: adds_result_def s')
    show "failure_ok vg s' w f" if "bm_get (sc_failures s') w = Some f" for f
      using that b new inv c(3) by (auto simp: s' failure_ok_def blockable_def sched_inv_def bm_contains_key_def)
    show "handoff_ok vg s' w h" if "bm_get (sc_handoffs s') w = Some h" for h
      using that new by (simp add: s' bm_contains_key_def)
  qed (use inv c(4) in \<open>auto simp: s' sched_inv_def\<close>)
  moreover have "books_ok vg s'"
    by (rule books_ok_insert[where s = "s\<lparr>sc_pending := bs_remove w (sc_pending s)\<rparr>" and w = w and e = e])
      (use books w in \<open>auto simp: books_ok_def sc_ids_def s'\<close>)
  moreover have "task_ok env vg (sc_root s) js t" if "t \<in> set (sc_active s)" for t
    using that inv c by (auto simp: sched_inv_def intro: task_ok_mono)
  ultimately show "sched_inv env vg s'"
    using inv c journal_extends_subset[OF c(2)] by (auto simp: sched_inv_def counts_ok_def s')
  show "sched_rank vg s' \<le> sched_rank vg s"
    by (simp add: sched_rank_def s' pending_rank_remove)
qed

lemma block_order_error:
  assumes "run_ok env vg" "sched_inv env vg s" "block_order env w ds s = Inl (e, js)"
  shows "journal_ok env vg js"
proof -
  obtain tids where "retain env (Some (first_or (sc_root s) (bm_of_list (List.map_filter
      (\<lambda>d. map_option (Pair d) (bm_get (sc_terminal_event_ids s) d)) ds)))) (WorkOrderBlocked w ds tids) (sc_js s) = (Inl e, js)"
    using assms(3) by (auto simp: block_order_def Let_def split: prod.splits sum.splits)
  then show ?thesis
    by (rule retain_control(5)[OF assms(1,2) terminal_parent[OF assms(2)], rotated]) simp
qed

text \<open>The loop over the blocked orders.\<close>

definition blocked_post :: "sched_env \<Rightarrow> ValidatedActorGraph \<Rightarrow> WorkOrderId set \<Rightarrow> sched \<Rightarrow> sched \<Rightarrow> bool" where
  "blocked_post env vg ws s s' \<longleftrightarrow>
     sched_inv env vg s' \<and> sched_rank vg s' \<le> sched_rank vg s
     \<and> sc_handoffs s' = sc_handoffs s \<and> sc_active s' = sc_active s
     \<and> sc_maximum_in_flight s' = sc_maximum_in_flight s \<and> sc_cleanup_unproven s' = sc_cleanup_unproven s
     \<and> set (sc_pending s') = set (sc_pending s) - ws
     \<and> (\<forall>d. bm_contains_key (sc_failures s') d \<longleftrightarrow> bm_contains_key (sc_failures s) d \<or> d \<in> ws)"

lemma blockable_rest:
  assumes "\<forall>(w, ds) \<in> set bs. blockable vg s w ds" "w \<notin> fst ` set bs" "block_order env w ds s = Inr s'"
  shows "\<forall>(w, ds) \<in> set bs. blockable vg s' w ds"
proof clarify
  fix w' ds' assume "(w', ds') \<in> set bs"
  with assms(1,2) have "blockable vg s w' ds'" "w' \<noteq> w"
    by (auto simp: rev_image_eqI)
  then show "blockable vg s' w' ds'"
    by (simp add: blockable_def block_order_sel[OF assms(3)])
qed

lemma block_orders_inv:
  assumes "run_ok env vg" "sched_inv env vg s" "distinct (map fst bs)"
    and "\<forall>(w, ds) \<in> set bs. blockable vg s w ds"
  shows "case block_orders env bs s of Inl (e, js) \<Rightarrow> journal_ok env vg js
    | Inr s' \<Rightarrow> blocked_post env vg (fst ` set bs) s s'"
  using assms(2-)
proof (induction bs arbitrary: s)
  case Nil
  then show ?case by (simp add: blocked_post_def)
next
  case (Cons b bs)
  obtain w ds where b: "b = (w, ds)" by force
  show ?case
  proof (cases "block_order env w ds s")
    case (Inl ejs)
    then show ?thesis
      using block_order_error[OF assms(1) Cons.prems(1)] by (cases ejs) (simp add: b)
  next
    case (Inr s1)
    have s1: "sched_inv env vg s1" "sched_rank vg s1 \<le> sched_rank vg s"
      using block_order_inv[OF assms(1) Cons.prems(1) _ Inr] Cons.prems(3) by (auto simp: b)
    have rest: "\<forall>(w, ds) \<in> set bs. blockable vg s1 w ds"
      by (rule blockable_rest[OF _ _ Inr]) (use Cons.prems(2,3) in \<open>simp_all add: b\<close>)
    have "case block_orders env bs s1 of Inl (e, js) \<Rightarrow> journal_ok env vg js
        | Inr s' \<Rightarrow> blocked_post env vg (fst ` set bs) s1 s'"
      using Cons.IH[OF s1(1) _ rest] Cons.prems(2) by simp
    then show ?thesis
      using s1(2) by (auto simp: b Inr blocked_post_def block_order_sel[OF Inr] split: sum.splits)
  qed
qed

text \<open>Lookup of pending orders.\<close>

lemma executor_orders_eq: "executor_orders vg = order_index (vg_orders vg)"
  by (simp add: executor_orders_def order_index_def)

lemma executor_orders_get:
  "run_ok env vg \<Longrightarrow> bm_get (executor_orders vg) w = Some x \<longleftrightarrow> x \<in> set (vg_orders vg) \<and> wo_id x = w"
  by (simp add: executor_orders_eq order_index_get run_ok_distinct)

lemma pending_lookup:
  assumes "run_ok env vg" "books_ok vg s"
  obtains f where "index_all (bm_get (executor_orders vg)) (sc_pending s) = Some (map f (sc_pending s))"
    and "\<forall>w \<in> set (sc_pending s). \<forall>x. x \<in> set (vg_orders vg) \<and> wo_id x = w \<longleftrightarrow> x = f w"
proof -
  have "\<exists>x. bm_get (executor_orders vg) w = Some x" if "w \<in> set (sc_pending s)" for w
  proof -
    have "w \<in> wo_id ` set (vg_orders vg)"
      using assms(2) that by (auto simp: books_ok_def sc_ids_def)
    then show ?thesis
      by (auto simp: executor_orders_get[OF assms(1)])
  qed
  then obtain f where f: "\<And>w. w \<in> set (sc_pending s) \<Longrightarrow> bm_get (executor_orders vg) w = Some (f w)"
    by metis
  show thesis
  proof (rule that)
    show "index_all (bm_get (executor_orders vg)) (sc_pending s) = Some (map f (sc_pending s))"
      by (rule index_all_map) (rule f)
    show "\<forall>w \<in> set (sc_pending s). \<forall>x. x \<in> set (vg_orders vg) \<and> wo_id x = w \<longleftrightarrow> x = f w"
      using f executor_orders_get[OF assms(1)] by (metis option.inject)
  qed
qed

lemma blocked_orders_spec:
  assumes "run_ok env vg" "books_ok vg s"
  obtains bs where "blocked_orders (executor_orders vg) s = Some bs" "distinct (map fst bs)"
    and "\<forall>(w, ds) \<in> set bs. blockable vg s w ds"
    and "\<And>x. x \<in> set (vg_orders vg) \<Longrightarrow> wo_id x \<in> set (sc_pending s) \<Longrightarrow> wo_id x \<notin> fst ` set bs
      \<Longrightarrow> failed_dependencies s x = []"
proof -
  obtain f where f: "index_all (bm_get (executor_orders vg)) (sc_pending s) = Some (map f (sc_pending s))"
    "\<forall>w \<in> set (sc_pending s). \<forall>x. x \<in> set (vg_orders vg) \<and> wo_id x = w \<longleftrightarrow> x = f w"
    by (rule pending_lookup[OF assms])
  let ?bs = "filter (\<lambda>(_, failed). failed \<noteq> []) (map (\<lambda>w. (w, failed_dependencies s (f w))) (sc_pending s))"
  have eq: "zip ps (map g ps) = map (\<lambda>w. (w, g w)) ps" for ps :: "WorkOrderId list" and g :: "WorkOrderId \<Rightarrow> WorkOrderId list"
    by (induction ps) auto
  show thesis
  proof (rule that)
    show "blocked_orders (executor_orders vg) s = Some ?bs"
      by (simp add: blocked_orders_def f(1) comp_def eq)
    have "distinct (sc_pending s)"
      using assms(2) by (simp add: books_ok_def sc_ids_def)
    then show "distinct (map fst ?bs)"
      by (auto intro!: distinct_map_filter simp: comp_def)
    show "\<forall>(w, ds) \<in> set ?bs. blockable vg s w ds"
      using f(2) by (auto simp: blockable_def failed_dependencies_def intro!: bexI[of _ "f _"])
    show "failed_dependencies s x = []" if "x \<in> set (vg_orders vg)" "wo_id x \<in> set (sc_pending s)"
      "wo_id x \<notin> fst ` set ?bs" for x
    proof -
      have "f (wo_id x) = x" using that(1,2) f(2) by metis
      with that(2,3) show ?thesis by force
    qed
  qed
qed

section \<open>Launching\<close>

text \<open>No pending order with an incomplete hand-off among its dependencies is left.\<close>

definition unblocked :: "ValidatedActorGraph \<Rightarrow> sched \<Rightarrow> bool" where
  "unblocked vg s \<longleftrightarrow>
     (\<forall>x \<in> set (vg_orders vg). wo_id x \<in> set (sc_pending s) \<longrightarrow>
        (\<forall>d \<in> set (wo_dependencies x). bm_contains_key (sc_handoffs s) d \<longrightarrow> \<not> bm_contains_key (sc_failures s) d))"

definition launchable :: "ValidatedActorGraph \<Rightarrow> sched \<Rightarrow> WorkOrder \<Rightarrow> bool" where
  "launchable vg s x \<longleftrightarrow>
     x \<in> set (vg_orders vg) \<and> wo_id x \<in> set (sc_pending s)
     \<and> (\<forall>d \<in> set (wo_dependencies x). bm_contains_key (sc_handoffs s) d \<and> \<not> bm_contains_key (sc_failures s) d)"

lemma pending_rank_launch:
  assumes "x \<in> set (vg_orders vg)" "wo_id x \<in> set ps" "distinct (map wo_id (vg_orders vg))"
  shows "pending_rank vg (bs_remove (wo_id x) ps) + (2 * attempts_of x + 2) = pending_rank vg ps"
proof -
  have dist: "distinct (vg_orders vg)" "inj_on wo_id (set (vg_orders vg))"
    using assms(3) by (simp_all add: distinct_map)
  let ?f = "\<lambda>ps x. if wo_id x \<in> set ps then 2 * attempts_of x + 2 else 0"
  have "(\<Sum>y\<in>set (vg_orders vg) - {x}. ?f (bs_remove (wo_id x) ps) y) = (\<Sum>y\<in>set (vg_orders vg) - {x}. ?f ps y)"
    using assms(1) inj_onD[OF dist(2)] by (intro sum.cong) auto
  then show ?thesis
    using assms(1,2) sum.remove[OF finite_set assms(1), of "?f ps"]
      sum.remove[OF finite_set assms(1), of "?f (bs_remove (wo_id x) ps)"]
    by (simp add: pending_rank_def sum_list_distinct_conv_sum_set[OF dist(1)])
qed

lemma zip_keys: "length xs = length ys \<Longrightarrow> bm_keys (zip xs ys) = xs"
  by (simp add: bm_keys_def)

text \<open>The dependencies of a launchable order are there, retained and completed.\<close>

lemma launch_dependencies:
  assumes ok: "run_ok env vg" and inv: "sched_inv env vg s" and x: "launchable vg s x"
  obtains hs where "index_all (bm_get (sc_handoffs s)) (wo_dependencies x) = Some hs"
    and "bm_of_list (zip (wo_dependencies x) hs) = zip (wo_dependencies x) hs"
    and "bm_keys (zip (wo_dependencies x) hs) = wo_dependencies x"
    and "\<forall>(k, h) \<in> set (zip (wo_dependencies x) hs).
      ho_work_order_id h = k \<and> ho_outcome h = HandoffCompleted \<and> handoff_at (sc_records s) h"
proof -
  have "\<forall>d \<in> set (wo_dependencies x). \<exists>h. bm_get (sc_handoffs s) d = Some h"
    using x by (auto simp: launchable_def bm_contains_key_def)
  then obtain f where f: "\<And>d. d \<in> set (wo_dependencies x) \<Longrightarrow> bm_get (sc_handoffs s) d = Some (f d)"
    by metis
  have sel: "k \<in> set (wo_dependencies x) \<and> h = f k" if "(k, h) \<in> set (zip (wo_dependencies x) (map f (wo_dependencies x)))" for k h
    using that by (auto simp: zip_map2 zip_same_conv_map)
  have sorted: "bs_wf (wo_dependencies x)"
    using ok x by (auto simp: run_ok_def launchable_def work_order_wf_def)
  show thesis
  proof (rule that)
    show "index_all (bm_get (sc_handoffs s)) (wo_dependencies x) = Some (map f (wo_dependencies x))"
      by (rule index_all_map) (rule f)
    show "bm_keys (zip (wo_dependencies x) (map f (wo_dependencies x))) = wo_dependencies x"
      by (simp add: zip_keys)
    then show "bm_of_list (zip (wo_dependencies x) (map f (wo_dependencies x))) = zip (wo_dependencies x) (map f (wo_dependencies x))"
      using sorted by (intro bm_of_list_wf) (simp add: bm_wf_def bm_keys_def bs_wf_def)
    show "\<forall>(k, h) \<in> set (zip (wo_dependencies x) (map f (wo_dependencies x))).
        ho_work_order_id h = k \<and> ho_outcome h = HandoffCompleted \<and> handoff_at (sc_records s) h"
    proof clarify
      fix k h assume "(k, h) \<in> set (zip (wo_dependencies x) (map f (wo_dependencies x)))"
      then have k: "k \<in> set (wo_dependencies x)" "h = f k" using sel by auto
      then have "handoff_ok vg s k h"
        using f inv by (auto simp: sched_inv_def results_ok_def)
      moreover have "bm_get (sc_failures s) k = None"
        using x k by (auto simp: launchable_def bm_contains_key_def)
      ultimately show "ho_work_order_id h = k \<and> ho_outcome h = HandoffCompleted \<and> handoff_at (sc_records s) h"
        by (auto simp: handoff_ok_def split: if_splits)
    qed
  qed
qed

lemma launch_order_inv:
  assumes ok: "run_ok env vg" and inv: "sched_inv env vg s" and x: "launchable vg s x"
  obtains s' where "launch_order vg x s = Some s'" "sched_inv env vg s'" "sched_rank vg s' \<le> sched_rank vg s"
proof -
  obtain hs where hs: "index_all (bm_get (sc_handoffs s)) (wo_dependencies x) = Some hs"
    "bm_of_list (zip (wo_dependencies x) hs) = zip (wo_dependencies x) hs"
    "bm_keys (zip (wo_dependencies x) hs) = wo_dependencies x"
    "\<forall>(k, h) \<in> set (zip (wo_dependencies x) hs).
      ho_work_order_id h = k \<and> ho_outcome h = HandoffCompleted \<and> handoff_at (sc_records s) h"
    by (rule launch_dependencies[OF assms])
  let ?ctx = "\<lparr>rc_root_event = sc_root s, rc_graph_sha256 = vg_digest_sha256 vg,
    rc_require_reported_token_usage = gp_require_reported_token_usage (vg_policy vg), rc_work_order = x,
    rc_dependency_handoffs = zip (wo_dependencies x) hs\<rparr>"
  let ?s = "s\<lparr>sc_pending := bs_remove (wo_id x) (sc_pending s), sc_active := sc_active s @ [TaskNew ?ctx]\<rparr>"
  have w: "x \<in> set (vg_orders vg)" "wo_id x \<in> set (sc_pending s)"
    using x by (simp_all add: launchable_def)
  have "bm_wf (zip (wo_dependencies x) hs)"
    using bm_wf_of_list hs(2) by metis
  then have "ctx_ok vg (sc_root s) (sc_js s) ?ctx"
    using w(1) hs(3,4) inv by (simp add: ctx_ok_def sched_inv_def)
  then have task: "task_ok env vg (sc_root s) (sc_js s) (TaskNew ?ctx)"
    using w(2) inv by (simp add: sched_inv_def)
  have "set (sc_ids ?s) = set (sc_ids s)" "distinct (sc_ids s) \<Longrightarrow> distinct (sc_ids ?s)"
    using w(2) by (auto simp: sc_ids_def)
  then have "books_ok vg ?s"
    using inv by (simp add: sched_inv_def books_ok_def)
  moreover have "results_ok vg ?s"
    using inv by (simp add: sched_inv_def results_ok_def handoff_ok_def failure_ok_def cong: WorkOrderFailure.case_cong)
  ultimately have "sched_inv env vg ?s"
    using inv task by (simp add: sched_inv_def)
  moreover have "sched_rank vg ?s \<le> sched_rank vg s"
    using pending_rank_launch[OF w run_ok_distinct[OF ok]] by (simp add: sched_rank_def)
  moreover have "launch_order vg x s = Some ?s"
    by (simp add: launch_order_def hs(1,2))
  ultimately show thesis by (rule that[rotated])
qed

lemma launch_orders_inv:
  assumes ok: "run_ok env vg" and "sched_inv env vg s" "distinct (map wo_id xs)" "\<forall>x \<in> set xs. launchable vg s x"
  shows "\<exists>s'. launch_orders vg xs s = Some s' \<and> sched_inv env vg s' \<and> sched_rank vg s' \<le> sched_rank vg s"
  using assms(2-)
proof (induction xs arbitrary: s)
  case (Cons x xs)
  obtain s1 where s1: "launch_order vg x s = Some s1" "sched_inv env vg s1" "sched_rank vg s1 \<le> sched_rank vg s"
    using launch_order_inv[OF ok Cons.prems(1), of x] Cons.prems(3) by auto
  have "\<forall>y \<in> set xs. launchable vg s1 y"
    using Cons.prems(2,3) by (auto simp: launchable_def launch_order_sel[OF s1(1)] rev_image_eqI)
  then show ?case
    using Cons.IH[OF s1(2)] Cons.prems(2) s1(1,3) by fastforce
qed simp

text \<open>The ready orders are pending, in dispatch order, and launchable.\<close>

lemma ready_orders_spec:
  assumes ok: "run_ok env vg" and books: "books_ok vg s" and un: "unblocked vg s"
  obtains xs where "ready_orders (executor_orders vg) s = Some xs" "distinct (map wo_id xs)"
    "\<forall>x \<in> set xs. launchable vg s x"
    "\<And>x. x \<in> set (vg_orders vg) \<Longrightarrow> wo_id x \<in> set (sc_pending s)
       \<Longrightarrow> \<forall>d \<in> set (wo_dependencies x). bm_contains_key (sc_handoffs s) d \<Longrightarrow> x \<in> set xs"
proof -
  obtain f where f: "index_all (bm_get (executor_orders vg)) (sc_pending s) = Some (map f (sc_pending s))"
    "\<forall>w \<in> set (sc_pending s). \<forall>x. x \<in> set (vg_orders vg) \<and> wo_id x = w \<longleftrightarrow> x = f w"
    by (rule pending_lookup[OF ok books])
  have fw: "f w \<in> set (vg_orders vg)" "wo_id (f w) = w" if "w \<in> set (sc_pending s)" for w
    using f(2) that by auto
  let ?p = "\<lambda>x. list_all (bm_contains_key (sc_handoffs s)) (wo_dependencies x)"
  let ?xs = "sort_key (\<lambda>x. (- sint (wo_priority x), wo_id x)) (filter ?p (map f (sc_pending s)))"
  have "map wo_id (map f (sc_pending s)) = sc_pending s"
    using fw(2) by (simp add: map_idI)
  moreover have "distinct (sc_pending s)"
    using books by (simp add: books_ok_def sc_ids_def)
  ultimately have dist: "distinct (map wo_id (map f (sc_pending s)))" by simp
  show thesis
  proof (rule that)
    show "ready_orders (executor_orders vg) s = Some ?xs"
      by (simp add: ready_orders_def f(1))
    have "distinct (map wo_id (filter ?p (map f (sc_pending s))))"
      using dist by (rule distinct_map_filter)
    then show "distinct (map wo_id ?xs)"
      by (simp add: distinct_map)
    show "\<forall>x \<in> set ?xs. launchable vg s x"
    proof
      fix x assume "x \<in> set ?xs"
      then obtain w where w: "w \<in> set (sc_pending s)" "x = f w"
        and deps: "\<forall>d \<in> set (wo_dependencies x). bm_contains_key (sc_handoffs s) d"
        by (auto simp: list_all_iff)
      have "x \<in> set (vg_orders vg)" "wo_id x \<in> set (sc_pending s)"
        using fw[OF w(1)] w by simp_all
      with deps un show "launchable vg s x"
        by (simp add: launchable_def unblocked_def)
    qed
    show "x \<in> set ?xs" if "x \<in> set (vg_orders vg)" "wo_id x \<in> set (sc_pending s)"
      "\<forall>d \<in> set (wo_dependencies x). bm_contains_key (sc_handoffs s) d" for x
    proof -
      have "x = f (wo_id x)" using f(2) that(1,2) by blast
      then show ?thesis using that by (auto simp: list_all_iff)
    qed
  qed
qed

lemma unat_max: "unat (max a b) = max (unat a) (unat b)"
  by (simp add: max_def word_le_nat_alt)

lemma unat_u32_or_max: "n \<le> max_parallel vg \<Longrightarrow> unat (u32_or_max n) = n"
  using unsigned_less[of "gl_max_parallel (gp_limits (vg_policy vg))", where ?'a = nat]
  by (simp add: u32_or_max_def max_parallel_def unsigned_of_nat take_bit_nat_eq_self_iff)

lemma sched_inv_in_flight [simp]:
  "sched_inv env vg (s\<lparr>sc_maximum_in_flight := n\<rparr>) = sched_inv env vg s"
proof -
  have "sc_ids (s\<lparr>sc_maximum_in_flight := n\<rparr>) = sc_ids s"
    by (simp add: sc_ids_def)
  then show ?thesis
    by (simp add: sched_inv_def books_ok_def results_ok_def handoff_ok_def failure_ok_def
        cong: WorkOrderFailure.case_cong)
qed

lemma fill_slots_inv:
  assumes ok: "run_ok env vg" and inv: "sched_inv env vg s" and un: "unblocked vg s" and lim: "limits_ok vg s"
  obtains launched s' where "fill_slots vg (executor_orders vg) s = Some (launched, s')" "sched_inv env vg s'"
    "sched_rank vg s' \<le> sched_rank vg s" "limits_ok vg s'" "sc_cleanup_unproven s' = sc_cleanup_unproven s"
    "launched \<longleftrightarrow> 0 < free_slots vg s \<and> (\<exists>x. launchable vg s x)"
proof (cases "0 < free_slots vg s")
  case False
  then show thesis
    using inv lim by (intro that[of False s]) (simp_all add: fill_slots_def)
next
  case True
  have books: "books_ok vg s" using inv by (simp add: sched_inv_def)
  obtain xs where xs: "ready_orders (executor_orders vg) s = Some xs" "distinct (map wo_id xs)"
    "\<forall>x \<in> set xs. launchable vg s x"
    and all: "\<And>x. x \<in> set (vg_orders vg) \<Longrightarrow> wo_id x \<in> set (sc_pending s)
       \<Longrightarrow> \<forall>d \<in> set (wo_dependencies x). bm_contains_key (sc_handoffs s) d \<Longrightarrow> x \<in> set xs"
    using ready_orders_spec[OF ok books un] by metis
  let ?xs = "take (free_slots vg s) xs"
  have "distinct (map wo_id ?xs)"
    using xs(2) by (metis distinct_take take_map)
  moreover have "\<forall>x \<in> set ?xs. launchable vg s x"
    using xs(3) set_take_subset by fast
  ultimately obtain s1 where s1: "launch_orders vg ?xs s = Some s1" "sched_inv env vg s1"
    "sched_rank vg s1 \<le> sched_rank vg s"
    using launch_orders_inv[OF ok inv] by blast
  let ?s = "s1\<lparr>sc_maximum_in_flight := max (sc_maximum_in_flight s1) (u32_or_max (length (sc_active s1)))\<rparr>"
  have len: "length (sc_active s1) \<le> max_parallel vg"
    using launch_orders_sel(8)[OF s1(1)] lim True by (simp add: free_slots_def limits_ok_def max_parallel_def)
  show thesis
  proof (rule that[of "xs \<noteq> []" ?s])
    show "fill_slots vg (executor_orders vg) s = Some (xs \<noteq> [], ?s)"
      using True by (simp add: fill_slots_def xs(1) s1(1))
    show "sched_inv env vg ?s"
      using s1(2) by simp
    show "limits_ok vg ?s"
      using len lim launch_orders_sel(9)[OF s1(1)] by (simp add: limits_ok_def unat_max unat_u32_or_max)
    show "(xs \<noteq> []) \<longleftrightarrow> 0 < free_slots vg s \<and> (\<exists>x. launchable vg s x)"
      using True all xs(3) by (metis launchable_def list.set_intros(1) neq_Nil_conv empty_iff empty_set)
  qed (use s1(3) launch_orders_sel(7)[OF s1(1)] in \<open>simp_all add: sched_rank_def\<close>)
qed

end
