(* ===== verification/Executor_Correct.thy ===== *)
theory Executor_Correct
  imports Executor_Invariants
begin

text \<open>
  Correctness of the whole executor.  The loop between two awaits keeps the invariant, never stalls
  on a validated graph (acyclicity gives a pending order with finished dependencies), never
  panics, and never increases the number of steps that are left.  \<open>ex\<close> interprets the contracts of
  \<open>Transition_Systems\<close> on the executor.
\<close>

section \<open>Results\<close>

definition graph_outcome :: "ValidatedActorGraph \<Rightarrow> sched \<Rightarrow> ActorGraphOutcome" where
  "graph_outcome vg s =
     (if sc_failures s = [] \<and> length (sc_handoffs s) = length (executor_orders vg)
      then GraphCompleted else GraphFailed)"

text \<open>A returned run projects a state in which every order is finished, and is the last record.\<close>

definition run_result_ok :: "sched_env \<Rightarrow> ValidatedActorGraph \<Rightarrow> jstate \<Rightarrow> ActorGraphRun \<Rightarrow> bool" where
  "run_result_ok env vg js run \<longleftrightarrow>
     (\<exists>s p. sched_inv env vg s \<and> limits_ok vg s \<and> sc_pending s = [] \<and> sc_active s = []
        \<and> sc_cleanup_unproven s = []
        \<and> run = \<lparr>ar_graph_sha256 = vg_digest_sha256 vg, ar_accepted_event_id = sc_root s,
            ar_finished_event_id = ar_finished_event_id run, ar_terminal_event_ids = sc_terminal_event_ids s,
            ar_outcome = graph_outcome vg s, ar_handoffs = sc_handoffs s, ar_failures = sc_failures s,
            ar_maximum_in_flight = sc_maximum_in_flight s\<rparr>
        \<and> js_records js = sc_records s @ [\<lparr>sr_id = ar_finished_event_id run, sr_causal_parent = Some p,
            sr_event = GraphFinished (graph_outcome vg s) (sc_terminal_event_ids s)\<rparr>])"

definition suspension_ok ::
  "sched_env \<Rightarrow> ValidatedActorGraph \<Rightarrow> jstate \<Rightarrow> WorkOrderId list \<Rightarrow> SchedulerEventId \<Rightarrow> bool" where
  "suspension_ok env vg js ids e \<longleftrightarrow>
     (\<exists>s p. sched_inv env vg s \<and> sc_active s = [] \<and> ids = sc_cleanup_unproven s \<and> ids \<noteq> []
        \<and> js_records js = sc_records s @ [\<lparr>sr_id = e, sr_causal_parent = Some p,
            sr_event = GraphSuspended ids (sc_pending s) (sc_terminal_event_ids s)\<rparr>])"

definition returned_ok ::
  "sched_env \<Rightarrow> ValidatedActorGraph \<Rightarrow> jstate \<Rightarrow> ActorGraphExecutionError + ActorGraphRun \<Rightarrow> bool" where
  "returned_ok env vg js r \<longleftrightarrow>
     journal_ok env vg js
     \<and> (case r of
          Inr run \<Rightarrow> run_result_ok env vg js run
        | Inl (ExecJournal e) \<Rightarrow> True
        | Inl (ExecCleanupUnproven ids e) \<Rightarrow> suspension_ok env vg js ids e
        | Inl (SchedulerInvariant _) \<Rightarrow> False)"

section \<open>The loop\<close>

lemma find_map_in: "find_map f xs = Some y \<Longrightarrow> \<exists>x \<in> set xs. f x = Some y"
  by (induction xs) (auto split: option.splits)

lemma suspend_ok:
  assumes "run_ok env vg" "sched_inv env vg s" "sc_active s = []" "sc_cleanup_unproven s \<noteq> []"
  obtains js e where "suspend env s = LoopReturn js e" "returned_ok env vg js (Inl e)"
proof -
  let ?p = "case find_map (bm_get (sc_terminal_event_ids s)) (sc_cleanup_unproven s) of
    Some event_id \<Rightarrow> event_id | None \<Rightarrow> sc_root s"
  let ?ev = "GraphSuspended (sc_cleanup_unproven s) (sc_pending s) (sc_terminal_event_ids s)"
  have p: "?p \<in> sr_id ` set (sc_records s)"
    using assms(2) by (auto simp: sched_inv_def results_ok_def split: option.splits dest!: find_map_in)
  obtain res js where r: "retain env (Some ?p) ?ev (sc_js s) = (res, js)" by force
  note c = retain_control[OF assms(1,2) p _ r, simplified]
  show thesis
  proof (cases res)
    case (Inl e)
    then show thesis
      using r c(5) by (intro that[of js "ExecJournal e"]) (simp_all add: suspend_def Let_def returned_ok_def)
  next
    case (Inr e)
    have "suspension_ok env vg js (sc_cleanup_unproven s) e"
      unfolding suspension_ok_def using assms(2-4) c(4)[OF Inr] by blast
    then show thesis
      using r c(5) Inr
      by (intro that[of js "ExecCleanupUnproven (sc_cleanup_unproven s) e"])
        (simp_all add: suspend_def Let_def returned_ok_def)
  qed
qed

lemma finish_graph_ok:
  assumes ok: "run_ok env vg" and inv: "sched_inv env vg s" and rest: "limits_ok vg s" "sc_pending s = []"
    "sc_active s = []" "sc_cleanup_unproven s = []"
  obtains js r where "finish_graph env vg s = Returned js r" "returned_ok env vg js r"
proof -
  let ?p = "first_or (sc_root s) (sc_terminal_event_ids s)"
  let ?ev = "GraphFinished (graph_outcome vg s) (sc_terminal_event_ids s)"
  have "bm_wf (sc_terminal_event_ids s)"
    using inv by (simp add: sched_inv_def books_ok_def)
  then have p: "?p \<in> sr_id ` set (sc_records s)"
    using inv by (intro first_or_in) (auto simp: sched_inv_def results_ok_def simp flip: bm_get_iff_in_set)
  obtain res js where r: "retain env (Some ?p) ?ev (sc_js s) = (res, js)" by force
  note c = retain_control[OF ok inv p _ r, simplified]
  show thesis
  proof (cases res)
    case (Inl e)
    then show thesis
      using r c(5)
      by (intro that[of js "Inl (ExecJournal e)"]) (simp_all add: finish_graph_def Let_def returned_ok_def graph_outcome_def)
  next
    case (Inr e)
    let ?run = "\<lparr>ar_graph_sha256 = vg_digest_sha256 vg, ar_accepted_event_id = sc_root s,
      ar_finished_event_id = e, ar_terminal_event_ids = sc_terminal_event_ids s,
      ar_outcome = graph_outcome vg s, ar_handoffs = sc_handoffs s, ar_failures = sc_failures s,
      ar_maximum_in_flight = sc_maximum_in_flight s\<rparr>"
    have "run_result_ok env vg js ?run"
      unfolding run_result_ok_def using inv rest c(4)[OF Inr] by (intro exI[of _ s] exI[of _ ?p]) simp
    then show thesis
      using r c(5) Inr
      by (intro that[of js "Inr ?run"]) (simp_all add: finish_graph_def Let_def returned_ok_def graph_outcome_def)
  qed
qed

text \<open>After blocking, no pending order has a failed dependency with a hand-off.\<close>

lemma unblocked_after_blocking:
  assumes ok: "run_ok env vg" and inv: "sched_inv env vg s" and post: "blocked_post env vg ws s s1"
    and ws: "ws \<subseteq> set (sc_pending s)"
    and none: "\<And>x. x \<in> set (vg_orders vg) \<Longrightarrow> wo_id x \<in> set (sc_pending s) \<Longrightarrow> wo_id x \<notin> ws
      \<Longrightarrow> failed_dependencies s x = []"
  shows "unblocked vg s1"
  unfolding unblocked_def
proof (intro ballI impI)
  fix x d assume x: "x \<in> set (vg_orders vg)" "wo_id x \<in> set (sc_pending s1)" "d \<in> set (wo_dependencies x)"
    and h: "bm_contains_key (sc_handoffs s1) d"
  have "failed_dependencies s x = []"
    using none[OF x(1)] x(2) post by (simp add: blocked_post_def)
  then have "\<not> bm_contains_key (sc_failures s) d"
    using x(3) by (auto simp: failed_dependencies_def filter_empty_conv)
  moreover have "d \<notin> ws"
  proof -
    have "d \<in> set (bm_keys (sc_terminal_event_ids s))"
      using h post inv by (auto simp: blocked_post_def sched_inv_def books_ok_def bm_contains_key_iff)
    moreover have "distinct (sc_ids s)"
      using inv by (simp add: sched_inv_def books_ok_def)
    ultimately show ?thesis
      using ws by (auto simp: sc_ids_def)
  qed
  ultimately show "\<not> bm_contains_key (sc_failures s1) d"
    using post by (simp add: blocked_post_def)
qed

text \<open>Acyclicity: among pending orders, one depends on no pending order.\<close>

lemma minimal_pending:
  assumes ok: "run_ok env vg" and ps: "ps \<noteq> {}" "ps \<subseteq> wo_id ` set (vg_orders vg)"
  obtains x where "x \<in> set (vg_orders vg)" "wo_id x \<in> ps" "set (wo_dependencies x) \<inter> ps = {}"
    "set (wo_dependencies x) \<subseteq> wo_id ` set (vg_orders vg)"
proof -
  let ?m = "order_index (vg_orders vg)"
  have valid: "acyclic (dep_edge ?m)" "\<forall>x \<in> set (vg_orders vg). valid_edges (vg_orders vg) x"
    using ok by (simp_all add: run_ok_def valid_actor_graph_def Let_def)
  note get = order_index_get[OF run_ok_distinct[OF ok]]
  have known: "d \<in> wo_id ` set (vg_orders vg)" if "x \<in> set (vg_orders vg)" "d \<in> set (wo_dependencies x)" for x d
    using valid(2) that by (fastforce simp: valid_edges_def get)
  have "dep_edge ?m \<subseteq> (wo_id ` set (vg_orders vg)) \<times> (wo_id ` set (vg_orders vg))"
    using known by (auto simp: dep_edge_def get)
  then have "finite (dep_edge ?m)"
    by (rule finite_subset) simp
  then have wf: "wf ((dep_edge ?m)\<inverse>)"
    using valid(1) by (rule finite_acyclic_wf_converse)
  from ps(1) obtain w0 where "w0 \<in> ps" by blast
  from wfE_min[OF wf this] obtain w where w: "w \<in> ps" "\<And>y. (w, y) \<in> dep_edge ?m \<Longrightarrow> y \<notin> ps"
    by auto
  then obtain x where x: "x \<in> set (vg_orders vg)" "wo_id x = w"
    using ps(2) by auto
  show thesis
  proof (rule that[OF x(1)])
    show "wo_id x \<in> ps" using w x by simp
    show "set (wo_dependencies x) \<inter> ps = {}"
      using w(2) x get by (auto simp: dep_edge_def)
    show "set (wo_dependencies x) \<subseteq> wo_id ` set (vg_orders vg)"
      using known x(1) by blast
  qed
qed

lemma no_stall:
  assumes ok: "run_ok env vg" and inv: "sched_inv env vg s" and idle: "sc_active s = []" "sc_pending s \<noteq> []"
    and none: "\<And>x. x \<in> set (vg_orders vg) \<Longrightarrow> wo_id x \<in> set (sc_pending s) \<Longrightarrow> failed_dependencies s x = []"
  shows "\<exists>x. launchable vg s x"
proof -
  have books: "books_ok vg s" using inv by (simp add: sched_inv_def)
  then have sub: "set (sc_pending s) \<subseteq> wo_id ` set (vg_orders vg)"
    by (auto simp: books_ok_def sc_ids_def)
  obtain x where x: "x \<in> set (vg_orders vg)" "wo_id x \<in> set (sc_pending s)"
    "set (wo_dependencies x) \<inter> set (sc_pending s) = {}" "set (wo_dependencies x) \<subseteq> wo_id ` set (vg_orders vg)"
    using minimal_pending[OF ok _ sub] idle(2) by auto
  have "bm_contains_key (sc_handoffs s) d \<and> \<not> bm_contains_key (sc_failures s) d" if d: "d \<in> set (wo_dependencies x)" for d
  proof -
    have "d \<in> set (sc_ids s)" using d x(4) books by (auto simp: books_ok_def)
    then have "d \<in> set (bm_keys (sc_handoffs s)) \<union> set (bm_keys (sc_failures s))"
      using d x(3) idle(1) books by (auto simp: sc_ids_def books_ok_def)
    moreover have "\<not> bm_contains_key (sc_failures s) d"
      using none[OF x(1,2)] d by (auto simp: failed_dependencies_def filter_empty_conv)
    ultimately show ?thesis by (auto simp: bm_contains_key_iff)
  qed
  with x(1,2) show ?thesis by (auto simp: launchable_def)
qed

subsection \<open>One turn\<close>

fun loop_ok :: "sched_env \<Rightarrow> ValidatedActorGraph \<Rightarrow> sched \<Rightarrow> loop_next \<Rightarrow> bool" where
  "loop_ok env vg s (LoopAwait s') \<longleftrightarrow>
     sched_inv env vg s' \<and> limits_ok vg s' \<and> sc_active s' \<noteq> [] \<and> sched_rank vg s' \<le> sched_rank vg s"
| "loop_ok env vg s (LoopContinue s') \<longleftrightarrow>
     sched_inv env vg s' \<and> limits_ok vg s' \<and> sched_rank vg s' \<le> sched_rank vg s"
| "loop_ok env vg s (LoopBreak s') \<longleftrightarrow>
     sched_inv env vg s' \<and> limits_ok vg s' \<and> sc_pending s' = [] \<and> sc_active s' = [] \<and> sc_cleanup_unproven s' = []"
| "loop_ok env vg s (LoopReturn js e) \<longleftrightarrow> returned_ok env vg js (Inl e)"
| "loop_ok env vg s LoopPanic \<longleftrightarrow> False"

lemma max_parallel_pos: "run_ok env vg \<Longrightarrow> 0 < max_parallel vg"
  by (simp add: run_ok_def valid_actor_graph_def valid_policy_def max_parallel_def Let_def unat_gt_0)

lemma loop_body_ok:
  assumes ok: "run_ok env vg" and inv: "sched_inv env vg s" and lim: "limits_ok vg s"
  shows "loop_ok env vg s (loop_body env vg (executor_orders vg) s)"
proof (cases "sc_cleanup_unproven s = []")
  case False
  show ?thesis
  proof (cases "sc_active s = []")
    case True
    then obtain js e where "suspend env s = LoopReturn js e" "returned_ok env vg js (Inl e)"
      using suspend_ok[OF ok inv _ False] by blast
    then show ?thesis
      using False True by (simp add: loop_body_def)
  qed (use False inv lim in \<open>simp add: loop_body_def\<close>)
next
  case clean: True
  have books: "books_ok vg s" using inv by (simp add: sched_inv_def)
  obtain bs where bs: "blocked_orders (executor_orders vg) s = Some bs" "distinct (map fst bs)"
    "\<forall>(w, ds) \<in> set bs. blockable vg s w ds"
    and none: "\<And>x. x \<in> set (vg_orders vg) \<Longrightarrow> wo_id x \<in> set (sc_pending s) \<Longrightarrow> wo_id x \<notin> fst ` set bs
      \<Longrightarrow> failed_dependencies s x = []"
    using blocked_orders_spec[OF ok books] by metis
  note bi = block_orders_inv[OF ok inv bs(2,3)]
  show ?thesis
  proof (cases "block_orders env bs s")
    case (Inl ejs)
    then show ?thesis
      using bi clean bs(1) by (cases ejs) (simp add: loop_body_def returned_ok_def)
  next
    case (Inr s1)
    then have post: "blocked_post env vg (fst ` set bs) s s1" using bi by simp
    then have s1: "sched_inv env vg s1" "sched_rank vg s1 \<le> sched_rank vg s" "limits_ok vg s1"
      "sc_cleanup_unproven s1 = []" "sc_active s1 = sc_active s"
      using lim clean by (simp_all add: blocked_post_def limits_ok_def)
    have sub: "fst ` set bs \<subseteq> set (sc_pending s)"
      using bs(3) by (auto simp: blockable_def)
    have "unblocked vg s1"
      using unblocked_after_blocking[OF ok inv post sub none] by blast
    then obtain launched s2 where s2: "fill_slots vg (executor_orders vg) s1 = Some (launched, s2)"
      "sched_inv env vg s2" "sched_rank vg s2 \<le> sched_rank vg s1" "limits_ok vg s2"
      "sc_cleanup_unproven s2 = sc_cleanup_unproven s1"
      "launched \<longleftrightarrow> 0 < free_slots vg s1 \<and> (\<exists>x. launchable vg s1 x)"
      using fill_slots_inv[OF ok s1(1) _ s1(3)] by metis
    have out: "loop_body env vg (executor_orders vg) s =
        (if sc_active s2 = [] then
           (if sc_pending s2 = [] then LoopBreak s2
            else if bs \<noteq> [] \<or> launched then LoopContinue s2
            else LoopReturn (sc_js s2) (SchedulerInvariant (sc_pending s2)))
         else LoopAwait s2)"
      using clean by (simp add: loop_body_def bs(1) Inr s2(1))
    have progress: "bs \<noteq> [] \<or> launched" if idle: "sc_active s2 = []" "sc_pending s2 \<noteq> []"
    proof (rule ccontr)
      assume no: "\<not> (bs \<noteq> [] \<or> launched)"
      then have "s1 = s" "sc_pending s2 = sc_pending s1" "sc_active s1 = []"
        using Inr fill_slots_launched(2)[OF s2(1)] fill_slots_launched(3)[OF s2(1)] idle(1) by simp_all
      moreover have "\<exists>x. launchable vg s1 x"
        using no_stall[OF ok s1(1)] none no idle(2) \<open>s1 = s\<close> \<open>sc_pending s2 = sc_pending s1\<close> \<open>sc_active s1 = []\<close>
        by simp
      ultimately show False
        using no s2(6) max_parallel_pos[OF ok] by (simp add: free_slots_def max_parallel_def)
    qed
    show ?thesis
      using s1 s2 progress unfolding out by auto
  qed
qed

section \<open>The executor as a transition system\<close>

definition exec_inv :: "sched_env \<Rightarrow> ValidatedActorGraph \<Rightarrow> exec_config \<Rightarrow> bool" where
  "exec_inv env vg c \<longleftrightarrow> run_ok env vg \<and>
     (case c of
        Awaiting s \<Rightarrow> sched_inv env vg s \<and> limits_ok vg s \<and> sc_active s \<noteq> []
      | Returned js r \<Rightarrow> returned_ok env vg js r
      | Panicked \<Rightarrow> False)"

definition exec_rank :: "ValidatedActorGraph \<Rightarrow> exec_config \<Rightarrow> nat" where
  "exec_rank vg c = (case c of Awaiting s \<Rightarrow> Suc (sched_rank vg s) | _ \<Rightarrow> 0)"

definition exec_final :: "exec_config \<Rightarrow> bool" where
  "exec_final c \<longleftrightarrow> (\<exists>js r. c = Returned js r)"

definition exec_init :: "sched_env \<Rightarrow> ValidatedActorGraph \<Rightarrow> exec_config \<Rightarrow> bool" where
  "exec_init env vg c \<longleftrightarrow> run_ok env vg \<and> c = exec_start env vg"

lemma run_loop_ok:
  assumes "run_ok env vg" "sched_inv env vg s" "limits_ok vg s"
  shows "exec_inv env vg (run_loop env vg s) \<and> exec_rank vg (run_loop env vg s) \<le> Suc (sched_rank vg s)"
  using assms
proof (induction env vg s rule: run_loop.induct)
  case (1 env vg s)
  have ok: "loop_ok env vg s (loop_body env vg (executor_orders vg) s)"
    using loop_body_ok 1(2-4) by blast
  note eq = run_loop.simps[of env vg s]
  show ?case
  proof (cases "loop_body env vg (executor_orders vg) s")
    case (LoopAwait s')
    then show ?thesis
      using ok 1(2) by (simp add: eq exec_inv_def exec_rank_def)
  next
    case (LoopContinue s')
    then show ?thesis
      using ok 1(1)[OF LoopContinue 1(2)] by (simp add: eq)
  next
    case (LoopBreak s')
    then obtain js r where "finish_graph env vg s' = Returned js r" "returned_ok env vg js r"
      using finish_graph_ok[OF 1(2), of s'] ok by auto
    then show ?thesis
      using 1(2) LoopBreak by (simp add: eq exec_inv_def exec_rank_def)
  next
    case (LoopReturn js e)
    then show ?thesis
      using ok 1(2) by (simp add: eq exec_inv_def exec_rank_def)
  qed (use ok in simp)
qed

lemma index_initial: "run_ok env vg \<Longrightarrow> set (bs_of_list (bm_keys (executor_orders vg))) = wo_id ` set (vg_orders vg)"
  by (auto simp: executor_orders_eq order_index_contains simp flip: bm_contains_key_iff)

text \<open>The state in which the loop starts, once the graph is accepted.\<close>

definition initial_sched :: "ValidatedActorGraph \<Rightarrow> SchedulerEventId \<Rightarrow> jstate \<Rightarrow> sched" where
  "initial_sched vg root js =
     \<lparr>sc_root = root, sc_js = js, sc_pending = bs_of_list (bm_keys (executor_orders vg)),
      sc_handoffs = [], sc_failures = [], sc_terminal_event_ids = [], sc_cleanup_unproven = [],
      sc_active = [], sc_maximum_in_flight = 0\<rparr>"

lemma exec_start_cases:
  assumes ok: "run_ok env vg"
  obtains (refused) js e where "exec_start env vg = Returned js (Inl (ExecJournal e))" "js_records js = []"
    "returned_ok env vg js (Inl (ExecJournal e))"
  | (accepted) root js where "exec_start env vg = run_loop env vg (initial_sched vg root js)"
    "sched_inv env vg (initial_sched vg root js)" "limits_ok vg (initial_sched vg root js)"
proof -
  let ?ev = "GraphAccepted (vg_digest_sha256 vg) (gp_policy_version (vg_policy vg)) (gp_plan_input_snapshot_sha256 (vg_policy vg))"
  obtain res js where r: "retain env None ?ev \<lparr>js_records = [], js_next = 0\<rparr> = (res, js)" by force
  from r show thesis
  proof (cases rule: retain_cases)
    case (refused e)
    then show thesis
      using r that(1)[of js e]
      by (simp add: exec_start_def returned_ok_def journal_ok_def journal_inv_def ids_drawn_def counts_ok_def
          dispatches_ok_def)
  next
    case (acknowledged i)
    let ?s = "initial_sched vg i js"
    have rs: "js_records js = [\<lparr>sr_id = i, sr_causal_parent = None, sr_event = ?ev\<rparr>]"
      using acknowledged by simp
    have "caused i (vg_digest_sha256 vg) [] \<lparr>sr_id = i, sr_causal_parent = None, sr_event = ?ev\<rparr>"
      by (simp add: caused_def is_accepted_def)
    then have "well_caused i (vg_digest_sha256 vg) (js_records js)"
      using well_caused_snoc[of i _ "[]"] by (simp add: rs)
    then have "journal_inv env i (vg_digest_sha256 vg) js"
      using acknowledged by (simp add: journal_inv_def ids_drawn_def)
    moreover have "books_ok vg ?s"
      using index_initial[OF ok] bs_wf_of_list[of "bm_keys (executor_orders vg)"]
      by (simp add: initial_sched_def books_ok_def sc_ids_def bm_keys_def bs_wf_def strict_sorted_iff)
    moreover have "dispatches (js_records js) w = 0" for w
      by (simp add: rs)
    ultimately have "sched_inv env vg ?s"
      by (simp add: sched_inv_def results_ok_def counts_ok_def rs dispatches_ok_other initial_sched_def)
    moreover have "limits_ok vg ?s"
      by (simp add: limits_ok_def initial_sched_def)
    moreover have "exec_start env vg = run_loop env vg ?s"
      using r acknowledged(2) by (simp add: exec_start_def initial_sched_def)
    ultimately show thesis using that(2) by blast
  qed
qed

lemma exec_start_inv:
  assumes ok: "run_ok env vg"
  shows "exec_inv env vg (exec_start env vg)"
  using ok
proof (cases rule: exec_start_cases)
  case (refused js e)
  then show ?thesis using ok by (simp add: exec_inv_def)
next
  case (accepted root js)
  then show ?thesis using run_loop_ok[OF ok] by simp
qed

lemma task_rank_pos: "task_ok env vg root js t \<Longrightarrow> 0 < task_rank t"
  by (cases t) (auto simp: attempt_ok_def)

lemma exec_poll_ok:
  assumes ok: "run_ok env vg" and inv: "sched_inv env vg s" and lim: "limits_ok vg s"
    and i: "i < length (sc_active s)" and acc: "task_accepts (sc_active s ! i) input"
  shows "exec_inv env vg (exec_poll env vg s i input) \<and> exec_rank vg (exec_poll env vg s i input) < Suc (sched_rank vg s)"
proof -
  let ?t = "sc_active s ! i" and ?as = "take i (sc_active s)" and ?bs = "drop (Suc i) (sc_active s)"
  have act: "sc_active s = ?as @ ?t # ?bs" using i by (rule list_split_at)
  have t: "?t \<in> set (sc_active s)" using i by simp
  obtain res js where r: "step_task env ?t input (sc_js s) = (res, js)" by force
  have tok: "task_ok env vg (sc_root s) (sc_js s) ?t"
    using inv t by (simp add: sched_inv_def)
  note tpos = task_rank_pos[OF tok]
  from tok have post: "task_post env vg (sc_root s) (task_ctx ?t) (task_rank ?t) (sc_js s) (res, js)"
    using step_task_post[OF ok _ _ acc, of "sc_root s" "sc_js s"] inv by (simp add: sched_inv_def r)
  show ?thesis
  proof (cases res)
    case (TaskPending t')
    have upd: "(sc_active s)[i := t'] = ?as @ t' # ?bs"
      using i by (rule upd_conv_take_nth_drop)
    have "limits_ok vg (s\<lparr>sc_js := js, sc_active := (sc_active s)[i := t']\<rparr>)"
      using lim by (simp add: limits_ok_def)
    then show ?thesis
      using poll_pending[OF ok inv act, of t' js] post TaskPending r ok
      by (simp add: exec_poll_def exec_inv_def exec_rank_def upd)
  next
    case (TaskReady terminal)
    let ?s = "apply_terminal terminal (s\<lparr>sc_js := js, sc_active := ?as @ ?bs\<rparr>)"
    have s: "sched_inv env vg ?s" "limits_ok vg ?s"
      using poll_ready(1)[OF ok inv act] post TaskReady lim i by (auto simp: limits_ok_def)
    have "sched_rank vg ?s < sched_rank vg s"
      using poll_ready(2)[OF ok inv act] post TaskReady tpos by fastforce
    then show ?thesis
      using run_loop_ok[OF ok s] r TaskReady by (simp add: exec_poll_def)
  next
    case (TaskJournalError e)
    have "journal_ok env vg js"
      using step_frame(1,4,8)[OF ok inv act post] by (auto simp: journal_ok_def)
    then show ?thesis
      using r ok TaskJournalError by (simp add: exec_poll_def exec_inv_def exec_rank_def returned_ok_def)
  qed (use post in \<open>simp add: task_post_def\<close>)
qed

lemma task_can_step: "\<exists>i. task_accepts t i"
  by (cases t) auto

interpretation ex: live_system "exec_init env vg" "exec_step env vg" "exec_inv env vg" exec_final "exec_rank vg"
  for env vg
proof
  fix c c'
  show "exec_init env vg c \<Longrightarrow> exec_inv env vg c"
    by (simp add: exec_init_def exec_start_inv)
  show "exec_inv env vg c \<Longrightarrow> exec_step env vg c c' \<Longrightarrow> exec_inv env vg c'"
    using exec_poll_ok by (auto simp: exec_inv_def elim!: exec_stepE)
  show "exec_inv env vg c \<Longrightarrow> exec_step env vg c c' \<Longrightarrow> exec_rank vg c' < exec_rank vg c"
    using exec_poll_ok by (auto simp: exec_inv_def exec_rank_def[of _ "Awaiting _"] elim!: exec_stepE)
  show "\<exists>c'. exec_step env vg c c'" if inv: "exec_inv env vg c" and nf: "\<not> exec_final c"
  proof -
    obtain s where s: "c = Awaiting s" "sc_active s \<noteq> []"
      using inv nf by (cases c) (auto simp: exec_inv_def exec_final_def)
    then obtain input where "task_accepts (sc_active s ! 0) input"
      using task_can_step by blast
    then show ?thesis
      using s exec_step.poll[of 0 s input env vg] by blast
  qed
qed

section \<open>Reachable configurations\<close>

text \<open>The acknowledged records of a configuration.\<close>

fun config_records :: "exec_config \<Rightarrow> SchedulerRecord list" where
  "config_records (Awaiting s) = sc_records s"
| "config_records (Returned js r) = js_records js"
| "config_records Panicked = []"

lemma reachable_inv: "run_ok env vg \<Longrightarrow> exec_reachable env vg c \<Longrightarrow> exec_inv env vg c"
  using ex.inv_reachable[of env vg "exec_start env vg" c] by (simp add: exec_reachable_def exec_init_def)

lemma reachable_journal:
  assumes "run_ok env vg" "exec_reachable env vg c"
  obtains root where "well_caused root (vg_digest_sha256 vg) (config_records c)" "counts_ok vg (config_records c)"
    "dispatches_ok env vg (config_records c)"
  using reachable_inv[OF assms] that
  by (cases c) (auto simp: exec_inv_def sched_inv_def returned_ok_def journal_ok_def journal_inv_def)

lemma reachable_awaiting:
  assumes "run_ok env vg" "exec_reachable env vg (Awaiting s)"
  shows "sched_inv env vg s" "limits_ok vg s" "sc_active s \<noteq> []"
  using reachable_inv[OF assms] by (simp_all add: exec_inv_def)

text \<open>A returned run comes from a state in which every order is finished.\<close>

lemma reachable_run:
  assumes "run_ok env vg" "exec_reachable env vg (Returned js (Inr run))"
  obtains s where "sched_inv env vg s" "limits_ok vg s" "sc_pending s = []" "sc_active s = []" "sc_cleanup_unproven s = []"
    "ar_handoffs run = sc_handoffs s" "ar_failures run = sc_failures s" "ar_terminal_event_ids run = sc_terminal_event_ids s"
    "ar_outcome run = graph_outcome vg s" "ar_maximum_in_flight run = sc_maximum_in_flight s"
    "ar_accepted_event_id run = sc_root s"
proof -
  have "run_result_ok env vg js run"
    using reachable_inv[OF assms] by (simp add: exec_inv_def returned_ok_def)
  then obtain s where s: "sched_inv env vg s" "limits_ok vg s" "sc_pending s = []" "sc_active s = []" "sc_cleanup_unproven s = []"
    and run: "run = \<lparr>ar_graph_sha256 = vg_digest_sha256 vg, ar_accepted_event_id = sc_root s,
      ar_finished_event_id = ar_finished_event_id run, ar_terminal_event_ids = sc_terminal_event_ids s,
      ar_outcome = graph_outcome vg s, ar_handoffs = sc_handoffs s, ar_failures = sc_failures s,
      ar_maximum_in_flight = sc_maximum_in_flight s\<rparr>"
    unfolding run_result_ok_def by blast
  show thesis
    by (rule that[OF s]; subst run; simp)
qed

text \<open>The journal of a returned run is that of its last state and the final record.\<close>

lemma reachable_run_records:
  assumes "run_ok env vg" "exec_reachable env vg (Returned js (Inr run))"
  obtains s where "sched_inv env vg s" "ar_handoffs run = sc_handoffs s" "ar_failures run = sc_failures s"
    "sc_cleanup_unproven s = []" "set (sc_records s) \<subseteq> set (js_records js)"
    "\<And>w. dispatches (js_records js) w = dispatches (sc_records s) w"
proof -
  have "run_result_ok env vg js run"
    using reachable_inv[OF assms] by (simp add: exec_inv_def returned_ok_def)
  then obtain s p where s: "sched_inv env vg s" "sc_cleanup_unproven s = []"
    "js_records js = sc_records s @ [\<lparr>sr_id = ar_finished_event_id run, sr_causal_parent = Some p,
       sr_event = GraphFinished (graph_outcome vg s) (sc_terminal_event_ids s)\<rparr>]"
    and run: "run = \<lparr>ar_graph_sha256 = vg_digest_sha256 vg, ar_accepted_event_id = sc_root s,
      ar_finished_event_id = ar_finished_event_id run, ar_terminal_event_ids = sc_terminal_event_ids s,
      ar_outcome = graph_outcome vg s, ar_handoffs = sc_handoffs s, ar_failures = sc_failures s,
      ar_maximum_in_flight = sc_maximum_in_flight s\<rparr>"
    unfolding run_result_ok_def by blast
  show thesis
  proof (rule that[OF s(1)])
    show "ar_handoffs run = sc_handoffs s" "ar_failures run = sc_failures s"
      by (subst run; simp)+
    show "set (sc_records s) \<subseteq> set (js_records js)"
      by (auto simp: s(3))
  qed (use s(2,3) in simp_all)
qed

lemma sched_inv_handoff: "sched_inv env vg s \<Longrightarrow> bm_get (sc_handoffs s) k = Some h \<Longrightarrow> handoff_ok vg s k h"
  by (simp add: sched_inv_def results_ok_def)

lemma sched_inv_failure:
  assumes "sched_inv env vg s" "bm_get (sc_failures s) k = Some f"
  shows "failure_ok vg s k f" "is_cleanup_unproven f \<longleftrightarrow> k \<in> set (sc_cleanup_unproven s)"
  using assms by (auto simp: sched_inv_def results_ok_def)

text \<open>The outcome is completed exactly when every order has a completed hand-off.\<close>

lemma graph_outcome_completed:
  assumes ok: "run_ok env vg" and inv: "sched_inv env vg s" and fin: "sc_pending s = []" "sc_active s = []"
  shows "graph_outcome vg s = GraphCompleted \<longleftrightarrow>
    (\<forall>order \<in> set (vg_orders vg). \<exists>h. bm_get (sc_handoffs s) (wo_id order) = Some h \<and> ho_outcome h = HandoffCompleted)"
proof -
  let ?ids = "wo_id ` set (vg_orders vg)"
  have books: "set (bm_keys (sc_handoffs s)) \<union> set (bm_keys (sc_failures s)) = ?ids"
    "bm_wf (sc_handoffs s)"
    using inv fin by (auto simp: sched_inv_def books_ok_def sc_ids_def)
  have hok: "\<And>k h. bm_get (sc_handoffs s) k = Some h \<Longrightarrow> handoff_ok vg s k h"
    using inv by (simp add: sched_inv_def results_ok_def)
  have len: "length (executor_orders vg) = card ?ids"
  proof -
    have "set (bm_keys (executor_orders vg)) = ?ids"
      by (auto simp: executor_orders_eq order_index_contains simp flip: bm_contains_key_iff)
    moreover have "distinct (bm_keys (executor_orders vg))"
      by (simp add: executor_orders_def bm_wf_distinct bm_wf_of_list)
    ultimately show ?thesis
      by (metis bm_keys_def distinct_card length_map)
  qed
  have len': "length (sc_handoffs s) = card (set (bm_keys (sc_handoffs s)))"
    using bm_wf_distinct[OF books(2)] by (metis bm_keys_def distinct_card length_map)
  have "graph_outcome vg s = GraphCompleted \<longleftrightarrow> sc_failures s = [] \<and> card (set (bm_keys (sc_handoffs s))) = card ?ids"
    by (simp add: graph_outcome_def len len')
  also have "\<dots> \<longleftrightarrow> sc_failures s = [] \<and> set (bm_keys (sc_handoffs s)) = ?ids"
    using books(1) by (metis List.finite_set card_subset_eq finite_imageI sup_ge1)
  also have "\<dots> \<longleftrightarrow> (\<forall>w \<in> ?ids. \<exists>h. bm_get (sc_handoffs s) w = Some h \<and> ho_outcome h = HandoffCompleted)"
  proof
    assume *: "sc_failures s = [] \<and> set (bm_keys (sc_handoffs s)) = ?ids"
    show "\<forall>w \<in> ?ids. \<exists>h. bm_get (sc_handoffs s) w = Some h \<and> ho_outcome h = HandoffCompleted"
    proof
      fix w assume "w \<in> ?ids"
      then obtain h where h: "bm_get (sc_handoffs s) w = Some h"
        using * by (metis bm_contains_key_def bm_contains_key_iff not_None_eq)
      then show "\<exists>h. bm_get (sc_handoffs s) w = Some h \<and> ho_outcome h = HandoffCompleted"
        using hok[OF h] * by (auto simp: handoff_ok_def split: if_splits)
    qed
  next
    assume *: "\<forall>w \<in> ?ids. \<exists>h. bm_get (sc_handoffs s) w = Some h \<and> ho_outcome h = HandoffCompleted"
    have "\<not> bm_contains_key (sc_failures s) w" for w
    proof
      assume "bm_contains_key (sc_failures s) w"
      then have "w \<in> ?ids" using books(1) by (auto simp: bm_contains_key_iff)
      then obtain h where "bm_get (sc_handoffs s) w = Some h" "ho_outcome h = HandoffCompleted" using * by blast
      with hok[OF this(1)] \<open>bm_contains_key (sc_failures s) w\<close> show False
        by (simp add: handoff_ok_def bm_contains_key_def)
    qed
    then have none: "set (bm_keys (sc_failures s)) = {}"
      by (simp add: bm_contains_key_iff subset_eq flip: subset_empty)
    with books(1) show "sc_failures s = [] \<and> set (bm_keys (sc_handoffs s)) = ?ids"
      by (simp add: bm_keys_def)
  qed
  finally show ?thesis by simp
qed

text \<open>The rank of the first configuration: all futures of all orders.\<close>

lemma sum_attempt_futures:
  "sum_list (map (\<lambda>order. 2 * attempts_of order + 2) orders) = 2 * sum_list (map attempts_of orders) + 2 * length orders"
  by (induction orders) simp_all

lemma exec_start_rank:
  assumes ok: "run_ok env vg"
  shows "exec_rank vg (exec_start env vg) \<le> 1 + 2 * sum_list (map attempts_of (vg_orders vg)) + 2 * length (vg_orders vg)"
  using ok
proof (cases rule: exec_start_cases)
  case (refused js e)
  then show ?thesis by (simp add: exec_rank_def)
next
  case (accepted root js)
  have "pending_rank vg (sc_pending (initial_sched vg root js)) =
      sum_list (map (\<lambda>order. 2 * attempts_of order + 2) (vg_orders vg))"
    unfolding pending_rank_def using index_initial[OF ok]
    by (intro arg_cong[of _ _ sum_list] map_cong) (auto simp: initial_sched_def)
  also have "\<dots> = 2 * sum_list (map attempts_of (vg_orders vg)) + 2 * length (vg_orders vg)"
    by (rule sum_attempt_futures)
  finally have "sched_rank vg (initial_sched vg root js)
      = 2 * sum_list (map attempts_of (vg_orders vg)) + 2 * length (vg_orders vg)"
    by (simp add: sched_rank_def initial_sched_def)
  then show ?thesis
    using run_loop_ok[OF ok accepted(2,3)] accepted(1) by simp
qed

section \<open>Unproven cleanups\<close>

lemma bs_insert_nonempty: "bs_insert x s \<noteq> []"
  by (cases s) simp_all

lemma apply_terminal_drains:
  assumes "sc_cleanup_unproven s \<noteq> []"
  shows "sc_cleanup_unproven (apply_terminal terminal s) \<noteq> []" "sc_pending (apply_terminal terminal s) = sc_pending s"
    "sc_active (apply_terminal terminal s) = sc_active s"
  using assms by (cases terminal; simp add: bs_insert_nonempty)+

lemma run_loop_drains:
  assumes "sc_cleanup_unproven s \<noteq> []" "run_loop env vg s = Awaiting t"
  shows "t = s"
  using assms by (auto simp: run_loop.simps[of env vg s] loop_body_def suspend_def Let_def split: if_splits prod.splits sum.splits)

lemma exec_poll_drains:
  assumes "sc_cleanup_unproven s \<noteq> []" "i < length (sc_active s)" "Awaiting t = exec_poll env vg s i input"
  shows "sc_pending t = sc_pending s \<and> sc_cleanup_unproven t \<noteq> [] \<and> length (sc_active t) \<le> length (sc_active s)"
proof -
  obtain res js where r: "step_task env (sc_active s ! i) input (sc_js s) = (res, js)" by force
  show ?thesis
  proof (cases res)
    case (TaskReady terminal)
    let ?s = "s\<lparr>sc_js := js, sc_active := take i (sc_active s) @ drop (Suc i) (sc_active s)\<rparr>"
    have "t = apply_terminal terminal ?s"
      using assms r TaskReady apply_terminal_drains(1)[of ?s terminal]
      by (intro run_loop_drains[of "apply_terminal terminal ?s" env vg]) (simp_all add: exec_poll_def)
    then show ?thesis
      using assms(1,2) apply_terminal_drains[of ?s terminal] by simp
  qed (use assms r in \<open>simp_all add: exec_poll_def\<close>)
qed

end
