(* ===== verification/Verifier_Correct.thy ===== *)
theory Verifier_Correct
  imports Executor_Correct
begin

text \<open>
  The dispatch verifier against the scheduler.  The walk over the causal chain succeeds exactly when
  every dispatch event it can reach passes its local check; on a well-caused journal every dispatch
  event does.  Hence a worker that verifies its dispatch before it acts accepts every dispatch of
  the executor, and what it accepts is proved by the retained records.
\<close>

section \<open>The index of records\<close>

definition index_ok :: "record_index \<Rightarrow> SchedulerRecord list \<Rightarrow> bool" where
  "index_ok index rs \<longleftrightarrow>
     (\<forall>i p r. bm_get index i = Some (p, r) \<longleftrightarrow> p < length rs \<and> rs ! p = r \<and> sr_id r = i)"

lemma build_index_ok:
  assumes "index_ok index ps" "distinct (map sr_id (ps @ rs))"
  shows "\<exists>index'. build_index (length ps) index rs = Some index' \<and> index_ok index' (ps @ rs)"
  using assms
proof (induction rs arbitrary: ps index)
  case (Cons r rs)
  have new: "\<not> bm_contains_key index (sr_id r)"
  proof
    assume "bm_contains_key index (sr_id r)"
    then obtain p r' where "bm_get index (sr_id r) = Some (p, r')"
      by (auto simp: bm_contains_key_def)
    then have "r' \<in> set ps" "sr_id r' = sr_id r"
      using Cons.prems(1) by (auto simp: index_ok_def)
    then show False
      using Cons.prems(2) by (auto simp: rev_image_eqI)
  qed
  have "index_ok (bm_insert (sr_id r) (length ps, r) index) (ps @ [r])"
    unfolding index_ok_def
  proof (intro allI)
    fix i p r'
    show "bm_get (bm_insert (sr_id r) (length ps, r) index) i = Some (p, r') \<longleftrightarrow>
        p < length (ps @ [r]) \<and> (ps @ [r]) ! p = r' \<and> sr_id r' = i"
    proof (cases "i = sr_id r")
      case True
      have "sr_id (ps ! q) \<noteq> sr_id r" if "q < length ps" for q
        using Cons.prems(2) nth_mem[OF that] by (auto simp: rev_image_eqI)
      then show ?thesis
        using True by (auto simp: nth_append less_Suc_eq)
    next
      case False
      then show ?thesis
        using Cons.prems(1) by (auto simp: index_ok_def nth_append less_Suc_eq)
    qed
  qed
  then show ?case
    using Cons.IH[of "bm_insert (sr_id r) (length ps, r) index" "ps @ [r]"] Cons.prems(2) new by simp
qed simp

lemma index_of_journal:
  assumes "well_caused root sha rs"
  obtains index where "build_index 0 [] rs = Some index" "index_ok index rs"
  using build_index_ok[of "[]" "[]" rs] well_caused_distinct[OF assms] by (auto simp: index_ok_def)

lemma preceding_record_iff:
  assumes "index_ok index rs" "q \<le> length rs"
  shows "preceding_record index i q = Inr r \<longleftrightarrow> r \<in> set (take q rs) \<and> sr_id r = i"
proof -
  have "preceding_record index i q = Inr r \<longleftrightarrow> (\<exists>p < q. bm_get index i = Some (p, r))"
    by (auto simp: preceding_record_def not_le split: option.splits)
  also have "\<dots> \<longleftrightarrow> (\<exists>p < q. p < length rs \<and> rs ! p = r \<and> sr_id r = i)"
    using assms(1) by (simp add: index_ok_def)
  also have "\<dots> \<longleftrightarrow> r \<in> set (take q rs) \<and> sr_id r = i"
    using assms(2) by (auto simp: in_set_conv_nth)
  finally show ?thesis .
qed

section \<open>The walk\<close>

text \<open>The dispatch events that the walk visits next.\<close>

definition ancestry_rel :: "record_index \<Rightarrow> SchedulerEventId \<Rightarrow> string \<Rightarrow> (SchedulerEventId \<times> SchedulerEventId) set" where
  "ancestry_rel index root sha = {(e, e'). \<exists>ps. ancestry_step index root sha e = Inr ps \<and> e' \<in> set ps}"

definition ancestry_good :: "record_index \<Rightarrow> SchedulerEventId \<Rightarrow> string \<Rightarrow> SchedulerEventId \<Rightarrow> bool" where
  "ancestry_good index root sha e \<longleftrightarrow>
     (\<forall>e'. (e, e') \<in> (ancestry_rel index root sha)\<^sup>* \<longrightarrow> \<not> isl (ancestry_step index root sha e'))"

lemma ancestry_goodD:
  assumes "ancestry_good index root sha e"
  obtains ps where "ancestry_step index root sha e = Inr ps" "\<forall>e' \<in> set ps. ancestry_good index root sha e'"
proof -
  have "\<not> isl (ancestry_step index root sha e)"
    using assms by (auto simp: ancestry_good_def)
  then obtain ps where ps: "ancestry_step index root sha e = Inr ps"
    by (cases "ancestry_step index root sha e") auto
  moreover have "ancestry_good index root sha e'" if "e' \<in> set ps" for e'
  proof -
    have "(e, e') \<in> ancestry_rel index root sha"
      using ps that by (auto simp: ancestry_rel_def)
    then show ?thesis
      using assms unfolding ancestry_good_def by (meson converse_rtrancl_into_rtrancl)
  qed
  ultimately show thesis using that by blast
qed

lemma ancestry_loop_complete:
  "\<forall>e \<in> set pending. ancestry_good index root sha e \<Longrightarrow> ancestry_loop index root sha pending verified = Inr ()"
proof (induction index root sha pending verified rule: ancestry_loop.induct)
  case (2 index root sha e pending verified)
  obtain ps where "ancestry_step index root sha e = Inr ps" "\<forall>e' \<in> set ps. ancestry_good index root sha e'"
    using 2(3) ancestry_goodD by (metis list.set_intros(1))
  then show ?case
    using 2 by (cases "bs_contains verified e") auto
qed simp

text \<open>Events already verified lead only to events that are verified or waiting.\<close>

definition ancestry_frontier ::
  "record_index \<Rightarrow> SchedulerEventId \<Rightarrow> string \<Rightarrow> SchedulerEventId set \<Rightarrow> SchedulerEventId set \<Rightarrow> bool" where
  "ancestry_frontier index root sha vs ps \<longleftrightarrow>
     (\<forall>e \<in> vs. \<exists>qs. ancestry_step index root sha e = Inr qs \<and> set qs \<subseteq> vs \<union> ps)"

lemma ancestry_loop_sound:
  "ancestry_loop index root sha pending verified = Inr () \<Longrightarrow>
     ancestry_frontier index root sha (set verified) (set pending) \<Longrightarrow>
     \<exists>vs. set pending \<union> set verified \<subseteq> vs \<and> ancestry_frontier index root sha vs {}"
proof (induction index root sha pending verified rule: ancestry_loop.induct)
  case (1 index root sha verified)
  then show ?case by auto
next
  case (2 index root sha e pending verified)
  show ?case
  proof (cases "bs_contains verified e")
    case True
    then have "ancestry_frontier index root sha (set verified) (set pending)"
      using 2(4) by (fastforce simp: ancestry_frontier_def bs_contains_def)
    then show ?thesis
      using 2(1)[OF True] 2(3) True by (auto simp: bs_contains_def)
  next
    case False
    then obtain ps where ps: "ancestry_step index root sha e = Inr ps"
      "ancestry_loop index root sha (rev ps @ pending) (bs_insert e verified) = Inr ()"
      using 2(3) by (auto split: sum.splits)
    have "ancestry_frontier index root sha (set (bs_insert e verified)) (set (rev ps @ pending))"
      using 2(4) ps(1) by (fastforce simp: ancestry_frontier_def)
    then show ?thesis
      using 2(2)[OF False ps(1) ps(2)] by auto
  qed
qed

lemma ancestry_frontier_closed:
  assumes "ancestry_frontier index root sha vs {}" "e \<in> vs"
  shows "ancestry_good index root sha e"
proof -
  have "e' \<in> vs" if "(e, e') \<in> (ancestry_rel index root sha)\<^sup>*" for e'
    using that assms(2)
  proof (induction rule: rtrancl_induct)
    case (step y z)
    then obtain qs where "ancestry_step index root sha y = Inr qs" "set qs \<subseteq> vs"
      using assms(1) by (auto simp: ancestry_frontier_def)
    then show ?case
      using step(2) by (auto simp: ancestry_rel_def)
  qed
  then show ?thesis
    using assms(1) by (fastforce simp: ancestry_good_def ancestry_frontier_def)
qed

lemma ancestry_loop_iff:
  "ancestry_loop index root sha [e] [] = Inr () \<longleftrightarrow> ancestry_good index root sha e"
  using ancestry_loop_complete[of "[e]"] ancestry_loop_sound[of index root sha "[e]" "[]"] ancestry_frontier_closed
  by (fastforce simp: ancestry_frontier_def)

section \<open>Well-caused journals pass the walk\<close>

lemma in_set_take_nth: "r \<in> set (take q rs) \<Longrightarrow> \<exists>p < q. p < length rs \<and> rs ! p = r"
  by (auto simp: in_set_conv_nth)

lemma well_caused_nth: "well_caused root sha rs \<Longrightarrow> p < length rs \<Longrightarrow> caused root sha (take p rs) (rs ! p)"
  by (simp add: well_caused_def)

lemma set_take_mono: "p \<le> q \<Longrightarrow> set (take p rs) \<subseteq> set (take q rs)"
  by (rule set_take_subset_set_take)

text \<open>Every dispatch event carries the accepted graph.\<close>

lemma dispatch_graph:
  assumes "well_caused root sha rs" "r \<in> set rs" "sr_event r = AttemptDispatched d"
  shows "de_graph_accepted_event_id d = root" "da_graph_sha256 (de_attestation d) = sha"
proof -
  obtain p where "p < length rs" "rs ! p = r"
    using assms(2) by (auto simp: in_set_conv_nth)
  then have "caused root sha (take p rs) r"
    using well_caused_nth[OF assms(1)] by blast
  then show "de_graph_accepted_event_id d = root" "da_graph_sha256 (de_attestation d) = sha"
    using assms(3) by (auto simp: caused_def)
qed

text \<open>The dispatch behind a retained hand-off or failure precedes it.\<close>

lemma result_dispatch:
  assumes wc: "well_caused root sha rs" and idx: "index_ok index rs" and q: "q < length rs"
    and par: "event_caused root sha (take q rs) (sr_id (rs ! q)) (sr_causal_parent (rs ! q)) (sr_event (rs ! q))
      \<Longrightarrow> dispatch_at (take q rs) (sr_causal_parent (rs ! q)) d"
  obtains pr where "sr_causal_parent (rs ! q) = Some (sr_id pr)" "sr_event pr = AttemptDispatched d" "pr \<in> set rs"
    "preceding_record index (sr_id pr) (index_position index (rs ! q)) = Inr pr"
proof -
  have "dispatch_at (take q rs) (sr_causal_parent (rs ! q)) d"
    using well_caused_nth[OF wc q] par by (simp add: caused_def)
  then obtain pr where pr: "pr \<in> set (take q rs)" "sr_causal_parent (rs ! q) = Some (sr_id pr)"
    "sr_event pr = AttemptDispatched d"
    by (auto simp: dispatch_at_def)
  have "bm_get index (sr_id (rs ! q)) = Some (q, rs ! q)"
    using idx q by (simp add: index_ok_def)
  then have "index_position index (rs ! q) = q"
    by (simp add: index_position_def)
  moreover have "preceding_record index (sr_id pr) q = Inr pr"
    using preceding_record_iff[OF idx, of q] q pr(1) by simp
  ultimately show thesis
    using that[OF pr(2,3)] in_set_takeD[OF pr(1)] by simp
qed

lemma ancestry_retry_ok:
  assumes wc: "well_caused root sha rs" and idx: "index_ok index rs" and p: "p < length rs"
    and r: "sr_event (rs ! p) = AttemptDispatched d" "de_parent_attempt_id d = Some previous"
  obtains pr pd where "ancestry_retry index root p (rs ! p) d previous = Inr [sr_id pr]" "pr \<in> set rs"
    "sr_event pr = AttemptDispatched pd"
proof -
  have "retry_caused (take p rs) (sr_causal_parent (rs ! p)) d previous"
    using well_caused_nth[OF wc p] r by (simp add: caused_def)
  then obtain fr f pd where fr: "fr \<in> set (take p rs)" "sr_causal_parent (rs ! p) = Some (sr_id fr)"
    "sr_event fr = AttemptFailed (de_work_order_id d) (de_execution_id d) previous f True"
    and pd: "dispatch_at (take p rs) (sr_causal_parent fr) pd" "de_attempt_id pd = previous"
    "d = pd\<lparr>de_attempt_id := de_attempt_id d, de_parent_attempt_id := Some previous\<rparr>"
    by (auto simp: retry_caused_def)
  obtain q where q: "q < p" "q < length rs" "rs ! q = fr"
    using in_set_take_nth[OF fr(1)] by blast
  have "dispatch_at (take q rs) (sr_causal_parent fr) pd"
  proof -
    have "caused root sha (take q rs) fr" using well_caused_nth[OF wc q(2)] q(3) by simp
    then obtain pd' where pd': "dispatch_at (take q rs) (sr_causal_parent fr) pd'"
      using fr(3) by (auto simp: caused_def)
    moreover have "pd' = pd"
      using pd(1) pd' well_caused_same_id[OF wc]
      by (auto simp: dispatch_at_def dest!: in_set_takeD) (metis SchedulerEvent.inject(2))
    ultimately show ?thesis by simp
  qed
  then obtain pr where pr: "sr_causal_parent fr = Some (sr_id pr)" "sr_event pr = AttemptDispatched pd" "pr \<in> set rs"
    "preceding_record index (sr_id pr) (index_position index fr) = Inr pr"
    using result_dispatch[OF wc idx q(2), of pd] q(3) by auto
  have pre: "preceding_record index (sr_id fr) p = Inr fr"
    using preceding_record_iff[OF idx, of p] p fr(1) by simp
  have same: "de_work_order_id pd = de_work_order_id d" "de_actor_id pd = de_actor_id d"
    "de_execution_id pd = de_execution_id d" "de_attestation pd = de_attestation d"
    "de_dependency_handoff_event_ids pd = de_dependency_handoff_event_ids d"
    by (subst pd(3); simp)+
  have "ancestry_retry index root p (rs ! p) d previous = Inr [sr_id pr]"
    using fr(2,3) pre pr pd(2) same dispatch_graph(1)[OF wc pr(3,2)] by (simp add: ancestry_retry_def)
  then show thesis using pr by (intro that)
qed

lemma ancestry_dependency_ok:
  assumes wc: "well_caused root sha rs" and idx: "index_ok index rs" and p: "p < length rs"
    and h: "handoff_at (take p rs) h" "ho_outcome h = HandoffCompleted"
  obtains pr pd where "ancestry_dependency index root sha p (ho_work_order_id h) (ho_retained_event_id h) = Inr (sr_id pr)"
    "pr \<in> set rs" "sr_event pr = AttemptDispatched pd"
proof -
  obtain hr where hr: "hr \<in> set (take p rs)" "sr_id hr = ho_retained_event_id h" "sr_event hr = HandoffRetained h"
    using h(1) by (auto simp: handoff_at_def)
  obtain q where q: "q < p" "q < length rs" "rs ! q = hr"
    using in_set_take_nth[OF hr(1)] by blast
  have "caused root sha (take q rs) hr" using well_caused_nth[OF wc q(2)] q(3) by simp
  then obtain pd where pd: "dispatch_at (take q rs) (sr_causal_parent hr) pd" "de_work_order_id pd = ho_work_order_id h"
    "de_actor_id pd = ho_actor_id h" "de_execution_id pd = ho_execution_id h" "de_attempt_id pd = ho_attempt_id h"
    using hr(3) by (auto simp: caused_def)
  obtain pr where pr: "sr_causal_parent hr = Some (sr_id pr)" "sr_event pr = AttemptDispatched pd" "pr \<in> set rs"
    "preceding_record index (sr_id pr) (index_position index hr) = Inr pr"
    using result_dispatch[OF wc idx q(2), of pd] q(3) pd(1) by auto
  have "preceding_record index (ho_retained_event_id h) p = Inr hr"
    using preceding_record_iff[OF idx, of p] p hr(1,2) by simp
  then have "ancestry_dependency index root sha p (ho_work_order_id h) (ho_retained_event_id h) = Inr (sr_id pr)"
    using hr(3) h(2) pr pd dispatch_graph[OF wc pr(3,2)] by (simp add: ancestry_dependency_def)
  then show thesis using pr by (intro that)
qed

lemma ancestry_dependencies_ok:
  assumes wc: "well_caused root sha rs" and idx: "index_ok index rs" and p: "p < length rs"
    and deps: "\<forall>(k, e) \<in> set ds. \<exists>h. handoff_at (take p rs) h \<and> ho_retained_event_id h = e \<and> ho_work_order_id h = k
      \<and> ho_outcome h = HandoffCompleted"
    and dist: "distinct (map snd ds)" "set (map snd ds) \<inter> set seen = {}"
  shows "\<exists>ps. ancestry_dependencies index root sha p seen ds = Inr ps
    \<and> (\<forall>e \<in> set ps. \<exists>r \<in> set rs. sr_id r = e \<and> (\<exists>d. sr_event r = AttemptDispatched d))"
  using deps dist
proof (induction ds arbitrary: seen)
  case (Cons kd ds)
  obtain k e where kd: "kd = (k, e)" by force
  obtain h where h: "handoff_at (take p rs) h" "ho_retained_event_id h = e" "ho_work_order_id h = k"
    "ho_outcome h = HandoffCompleted"
    using Cons.prems(1) kd by auto
  obtain pr pd where pr: "ancestry_dependency index root sha p k e = Inr (sr_id pr)" "pr \<in> set rs"
    "sr_event pr = AttemptDispatched pd"
    using ancestry_dependency_ok[OF wc idx p h(1,4)] h(2,3) by metis
  have "\<exists>ps. ancestry_dependencies index root sha p (bs_insert e seen) ds = Inr ps
      \<and> (\<forall>e \<in> set ps. \<exists>r \<in> set rs. sr_id r = e \<and> (\<exists>d. sr_event r = AttemptDispatched d))"
    using Cons.prems kd by (intro Cons.IH) auto
  then show ?case
    using pr Cons.prems(3) kd by (auto simp: bs_contains_def)
qed simp

lemma journal_root:
  assumes wc: "well_caused root sha rs" and "root \<in> sr_id ` set rs"
  obtains v p where "sr_id (rs ! 0) = root" "sr_causal_parent (rs ! 0) = None"
    "sr_event (rs ! 0) = GraphAccepted sha v p" "0 < length rs"
proof -
  have "0 < length rs" using assms(2) by (cases rs) auto
  moreover from this have "caused root sha [] (rs ! 0)"
    using well_caused_nth[OF wc, of 0] by simp
  ultimately show thesis
    using that by (auto simp: caused_def is_accepted_def)
qed

text \<open>Every dispatch event of a well-caused journal passes, and leads to dispatch events.\<close>

lemma ancestry_step_ok:
  assumes wc: "well_caused root sha rs" and idx: "index_ok index rs" and root: "root \<in> sr_id ` set rs"
    and r: "r \<in> set rs" "sr_event r = AttemptDispatched d"
  shows "\<exists>ps. ancestry_step index root sha (sr_id r) = Inr ps
    \<and> (\<forall>e \<in> set ps. \<exists>r \<in> set rs. sr_id r = e \<and> (\<exists>d. sr_event r = AttemptDispatched d))"
proof -
  obtain p where p: "p < length rs" "rs ! p = r"
    using r(1) by (auto simp: in_set_conv_nth)
  have get: "bm_get index (sr_id r) = Some (p, r)"
    using idx p by (simp add: index_ok_def)
  have caused: "caused root sha (take p rs) r"
    using well_caused_nth[OF wc p(1)] p(2) by simp
  note graph = dispatch_graph[OF wc r]
  show ?thesis
  proof (cases "de_parent_attempt_id d")
    case (Some previous)
    obtain pr pd where "ancestry_retry index root p r d previous = Inr [sr_id pr]" "pr \<in> set rs"
      "sr_event pr = AttemptDispatched pd"
      using ancestry_retry_ok[OF wc idx p(1)] p(2) r(2) Some by metis
    then show ?thesis
      using get r(2) graph Some by (auto simp: ancestry_step_def)
  next
    case None
    then have first: "first_caused root (take p rs) (sr_causal_parent r) d"
      using caused r(2) by (simp add: caused_def)
    show ?thesis
    proof (cases "de_dependency_handoff_event_ids d")
      case Nil
      then have parent: "sr_causal_parent r = Some root"
        using first by (simp add: first_caused_def first_or_def bm_values_def)
      then have "root \<in> sr_id ` set (take p rs)"
        using caused r(2) by (auto simp: caused_def is_accepted_def)
      then obtain rr where "rr \<in> set (take p rs)" "sr_id rr = root" by blast
      then obtain q where "q < p" "bm_get index root = Some (q, rr)"
        using in_set_take_nth[of rr p rs] idx by (auto simp: index_ok_def)
      then show ?thesis
        using get r(2) graph None Nil parent by (simp add: ancestry_step_def ancestry_root_def bm_values_def)
    next
      case (Cons kd ds)
      have "\<exists>ps. ancestry_dependencies index root sha p [] (de_dependency_handoff_event_ids d) = Inr ps
          \<and> (\<forall>e \<in> set ps. \<exists>r \<in> set rs. sr_id r = e \<and> (\<exists>d. sr_event r = AttemptDispatched d))"
        using first by (intro ancestry_dependencies_ok[OF wc idx p(1)]) (auto simp: first_caused_def bm_values_def)
      then show ?thesis
        using get r(2) graph None Cons first
        by (auto simp: ancestry_step_def first_caused_def first_or_def bm_values_def)
    qed
  qed
qed

lemma well_caused_ancestry:
  assumes wc: "well_caused root sha rs" and idx: "index_ok index rs" and root: "root \<in> sr_id ` set rs"
    and r: "r \<in> set rs" "sr_event r = AttemptDispatched d"
  shows "ancestry_good index root sha (sr_id r)"
proof (rule ancestry_frontier_closed)
  let ?vs = "{e. \<exists>r \<in> set rs. sr_id r = e \<and> (\<exists>d. sr_event r = AttemptDispatched d)}"
  show "ancestry_frontier index root sha ?vs {}"
    using ancestry_step_ok[OF wc idx root] by (fastforce simp: ancestry_frontier_def)
  show "sr_id r \<in> ?vs" using r by auto
qed

section \<open>Acceptance\<close>

lemma filter_unique:
  assumes "distinct xs" "x \<in> set xs" "P x" "\<And>y. y \<in> set xs \<Longrightarrow> P y \<Longrightarrow> y = x"
  shows "filter P xs = [x]"
proof -
  have eq: "set (filter P xs) = {x}"
    unfolding set_filter using assms(2,3) by (blast dest: assms(4))
  have "length (filter P xs) = card (set (filter P xs))"
    using assms(1) by (simp only: distinct_card distinct_filter)
  then have "length (filter P xs) = Suc 0" by (simp only: eq) simp
  then obtain y where "filter P xs = [y]" by (auto simp: length_Suc_conv)
  with eq show ?thesis by simp
qed

lemma unique_match_id:
  assumes wc: "well_caused root sha rs" and r: "r \<in> set rs"
  shows "unique_match none many (filter (\<lambda>x. sr_id x = sr_id r) rs) = Inr r"
proof -
  have "filter (\<lambda>x. sr_id x = sr_id r) rs = [r]"
  proof (rule filter_unique)
    show "distinct rs" using well_caused_distinct[OF wc] by (simp add: distinct_map)
    show "y = r" if "y \<in> set rs" "sr_id y = sr_id r" for y
      using well_caused_same_id[OF wc that(1) r that(2)] .
  qed (use r in simp_all)
  then show ?thesis by (simp add: unique_match_def)
qed

lemma well_caused_attempt_unique:
  assumes wc: "well_caused root sha rs" and "r \<in> set rs" "r' \<in> set rs"
    and "dispatched_attempt (sr_event r) = Some a" "dispatched_attempt (sr_event r') = Some a"
  shows "r = r'"
proof -
  have later: False if q: "q < length rs" "p < q" "dispatched_attempt (sr_event (rs ! q)) = Some a"
    "dispatched_attempt (sr_event (rs ! p)) = Some a" for p q
  proof -
    obtain d where d: "sr_event (rs ! q) = AttemptDispatched d" "de_attempt_id d = a"
      using q(3) by (cases "sr_event (rs ! q)") auto
    have "rs ! p \<in> set (take q rs)"
      using q(1,2) by (auto simp: in_set_conv_nth)
    then show False
      using well_caused_nth[OF wc q(1)] d q(4) by (auto simp: caused_def)
  qed
  obtain p q where "p < length rs" "rs ! p = r" "q < length rs" "rs ! q = r'"
    using assms(2,3) by (auto simp: in_set_conv_nth)
  then show ?thesis
    using later[of q p] later[of p q] assms(4,5) by (cases p q rule: linorder_cases) auto
qed

lemma root_record_ok:
  assumes wc: "well_caused root sha rs" and "root \<in> sr_id ` set rs"
  shows "verify_graph_root_record rs root sha = Inr ()"
proof -
  obtain v p where r: "sr_id (rs ! 0) = root" "sr_causal_parent (rs ! 0) = None"
    "sr_event (rs ! 0) = GraphAccepted sha v p" "0 < length rs"
    by (rule journal_root[OF assms])
  then have "unique_match RootRecordNotFound RootRecordAmbiguous (filter (\<lambda>r. sr_id r = root) rs) = Inr (rs ! 0)"
    using unique_match_id[OF wc nth_mem[OF r(4)]] by simp
  then show ?thesis
    using r(2,3) by (simp add: verify_graph_root_record_def)
qed

lemma producer_ok:
  assumes wc: "well_caused root sha rs" and hr: "hr \<in> set rs" "sr_event hr = HandoffRetained h"
  shows "\<exists>v. verify_dependency_producer rs k hr h sha root = Inr v"
proof -
  obtain q where q: "q < length rs" "rs ! q = hr"
    using hr(1) by (auto simp: in_set_conv_nth)
  have "caused root sha (take q rs) hr" using well_caused_nth[OF wc q(1)] q(2) by simp
  then obtain pr pd where pr: "pr \<in> set rs" "sr_causal_parent hr = Some (sr_id pr)" "sr_event pr = AttemptDispatched pd"
    and pd: "de_work_order_id pd = ho_work_order_id h"
    "de_actor_id pd = ho_actor_id h" "de_execution_id pd = ho_execution_id h" "de_attempt_id pd = ho_attempt_id h"
    using hr(2) by (auto simp: caused_def dispatch_at_def dest: in_set_takeD)
  show ?thesis
    using pr(2,3) pd dispatch_graph[OF wc pr(1,3)]
    by (simp add: verify_dependency_producer_def unique_match_id[OF wc pr(1)])
qed

lemma verify_dependencies_ok:
  assumes wc: "well_caused root sha rs" and "\<forall>(k, h) \<in> set hs. handoff_at rs h"
  shows "\<exists>v. verify_dependencies rs sha root hs verified = Inr v"
  using assms(2)
proof (induction hs arbitrary: verified)
  case (Cons kh hs)
  obtain k h where kh: "kh = (k, h)" by force
  obtain hr where hr: "hr \<in> set rs" "sr_id hr = ho_retained_event_id h" "sr_event hr = HandoffRetained h"
    using Cons.prems kh by (auto simp: handoff_at_def)
  have "unique_dependency_record rs k (ho_retained_event_id h) = Inr hr"
    using unique_match_id[OF wc hr(1)] hr(2) by (simp add: unique_dependency_record_def)
  then show ?case
    using Cons kh hr(3) producer_ok[OF wc hr(1,3), of k] by auto
qed simp

lemma shape_handoffs_ok:
  assumes "\<forall>(k, h) \<in> set hs. ho_work_order_id h = k \<and> ho_outcome h = HandoffCompleted
    \<and> bm_get ids k = Some (ho_retained_event_id h)"
  shows "shape_handoffs ids hs = Some (Inr ())"
  using assms by (induction ids hs rule: shape_handoffs.induct) auto

text \<open>Every dispatch that the executor hands to a worker is accepted.\<close>

lemma task_dispatch_shape:
  assumes ctx: "ctx_ok vg root js ctx" and at: "attempt_ok env js ctx at"
  shows "verify_dispatch_shape (se_codec env) (task_dispatch ctx at) = Some (Inr ())"
proof -
  let ?m = "rc_dependency_handoffs ctx"
  have wf: "bm_wf ?m" and keys: "bm_keys ?m = wo_dependencies (rc_work_order ctx)"
    and deps: "\<forall>(k, h) \<in> set ?m. ho_work_order_id h = k \<and> ho_outcome h = HandoffCompleted"
    using ctx by (auto simp: ctx_ok_def)
  note ids = dependency_event_ids_eq[OF wf]
  have wf': "bm_wf (dependency_handoff_event_ids ctx)"
    by (simp add: dependency_handoff_event_ids_def bm_wf_of_list)
  have "\<forall>(k, h) \<in> set ?m. ho_work_order_id h = k \<and> ho_outcome h = HandoffCompleted
      \<and> bm_get (dependency_handoff_event_ids ctx) k = Some (ho_retained_event_id h)"
  proof clarify
    fix k h assume "(k, h) \<in> set ?m"
    moreover from this have "(k, ho_retained_event_id h) \<in> set (dependency_handoff_event_ids ctx)"
      by (force simp: ids)
    ultimately show "ho_work_order_id h = k \<and> ho_outcome h = HandoffCompleted
        \<and> bm_get (dependency_handoff_event_ids ctx) k = Some (ho_retained_event_id h)"
      using deps by (auto simp: bm_get_iff_in_set[OF wf'])
  qed
  then have "shape_handoffs (dependency_handoff_event_ids ctx) ?m = Some (Inr ())"
    by (rule shape_handoffs_ok)
  moreover have "map_keys_equal_set ?m (wo_dependencies (rc_work_order ctx))"
    using keys by (simp add: map_keys_equal_set_def flip: keys) (simp add: bm_keys_def)
  moreover have "map_keys_equal_set (dependency_handoff_event_ids ctx) (wo_dependencies (rc_work_order ctx))"
    by (simp add: map_keys_equal_set_def ids flip: keys) (simp add: bm_keys_def comp_def split_beta)
  moreover have "dispatch_attestation (se_codec env) (rc_graph_sha256 ctx) (rc_work_order ctx) = Inr (at_attestation at)"
    using at by (simp add: attempt_ok_def)
  ultimately show ?thesis
    by (simp add: verify_dispatch_shape_def task_dispatch_def)
qed

lemma task_dispatch_accepted:
  assumes inv: "journal_inv env root (vg_digest_sha256 vg) js" and ctx: "ctx_ok vg root js ctx"
    and at: "attempt_ok env js ctx at"
  obtains v where "verify_dispatch (se_codec env) False (js_records js) (task_dispatch ctx at) = Some (Inr v)"
    "vs_dispatch_event_id v = at_dispatched at"
proof -
  let ?rs = "js_records js" and ?sha = "vg_digest_sha256 vg" and ?d = "task_dispatch ctx at"
  have wc: "well_caused root ?sha ?rs" using inv by (simp add: journal_inv_def)
  have root: "root \<in> sr_id ` set ?rs" "rc_root_event ctx = root" "rc_graph_sha256 ctx = ?sha"
    using ctx by (simp_all add: ctx_ok_def)
  obtain r where r: "r \<in> set ?rs" "sr_id r = at_dispatched at" "sr_event r = AttemptDispatched (attempt_event ctx at)"
    using at by (auto simp: attempt_ok_def dispatch_at_def)
  have "filter (\<lambda>x. dispatched_attempt (sr_event x) = Some (at_attempt_id at)) ?rs = [r]"
  proof (rule filter_unique)
    show "distinct ?rs" using well_caused_distinct[OF wc] by (simp add: distinct_map)
    show p: "dispatched_attempt (sr_event r) = Some (at_attempt_id at)"
      using r(3) by (simp add: attempt_event_def)
    show "y = r" if "y \<in> set ?rs" "dispatched_attempt (sr_event y) = Some (at_attempt_id at)" for y
      using well_caused_attempt_unique[OF wc that(1) r(1) that(2) p] .
  qed (rule r(1))
  then have unique: "unique_dispatch_record_for_attempt ?rs (ad_attempt_id ?d) = Inr r"
    by (simp add: unique_dispatch_record_for_attempt_def task_dispatch_def unique_match_def)
  have cmp: "compare_dispatch (attempt_event ctx at) ?d = None"
    by (simp add: compare_dispatch_def attempt_event_def task_dispatch_def)
  obtain index where index: "build_index 0 [] ?rs = Some index" "index_ok index ?rs"
    by (rule index_of_journal[OF wc])
  have walk: "verify_dispatch_causal_parent ?rs r ?d = Inr ()"
    using well_caused_ancestry[OF wc index(2) root(1) r(1,3)] root_record_ok[OF wc root(1)] root(2,3)
    by (simp add: verify_dispatch_causal_parent_def verify_full_dispatch_ancestry_def index(1) task_dispatch_def
        ancestry_loop_iff del: ancestry_loop.simps)
  have "\<forall>(k, h) \<in> set (rc_dependency_handoffs ctx). handoff_at ?rs h"
    using ctx by (auto simp: ctx_ok_def)
  then obtain v where deps: "verify_dependencies ?rs ?sha root (rc_dependency_handoffs ctx) [] = Inr v"
    using verify_dependencies_ok[OF wc] by blast
  show thesis
  proof (rule that[of "\<lparr>vs_dispatch_event_id = sr_id r, vs_graph_accepted_event_id = root, vs_dependencies = v\<rparr>"])
    show "verify_dispatch (se_codec env) False ?rs ?d
        = Some (Inr \<lparr>vs_dispatch_event_id = sr_id r, vs_graph_accepted_event_id = root, vs_dependencies = v\<rparr>)"
      using task_dispatch_shape[OF ctx at] unique cmp walk deps r(3) root_record_ok[OF wc root(1)] root(2,3)
      by (simp add: verify_dispatch_def snapshot_def verify_records_def) (simp add: task_dispatch_def)
  qed (use r(2) in simp)
qed

section \<open>Soundness\<close>

definition names_graph :: "SchedulerEventId \<Rightarrow> string \<Rightarrow> dispatched_event \<Rightarrow> bool" where
  "names_graph root sha d \<longleftrightarrow> de_graph_accepted_event_id d = root \<and> da_graph_sha256 (de_attestation d) = sha"

definition produced_by :: "Handoff \<Rightarrow> dispatched_event \<Rightarrow> bool" where
  "produced_by h d \<longleftrightarrow>
     de_work_order_id d = ho_work_order_id h \<and> de_actor_id d = ho_actor_id h
     \<and> de_execution_id d = ho_execution_id h \<and> de_attempt_id d = ho_attempt_id h"

text \<open>
  The specification of the walk: the dispatch at position \<open>p\<close> of the journal is proved when every step
  of its history, back to the accepted graph, is retained at an earlier position.
\<close>

inductive dispatch_proved :: "SchedulerRecord list \<Rightarrow> SchedulerEventId \<Rightarrow> string \<Rightarrow> nat \<Rightarrow> bool"
  for rs :: "SchedulerRecord list" and root :: SchedulerEventId and sha :: string where
  first_root: "p < length rs \<Longrightarrow> sr_event (rs ! p) = AttemptDispatched d \<Longrightarrow> names_graph root sha d
     \<Longrightarrow> de_parent_attempt_id d = None \<Longrightarrow> de_dependency_handoff_event_ids d = []
     \<Longrightarrow> sr_causal_parent (rs ! p) = Some root \<Longrightarrow> q < p \<Longrightarrow> sr_id (rs ! q) = root
     \<Longrightarrow> dispatch_proved rs root sha p"
| retried: "p < length rs \<Longrightarrow> sr_event (rs ! p) = AttemptDispatched d \<Longrightarrow> names_graph root sha d
     \<Longrightarrow> de_parent_attempt_id d = Some previous \<Longrightarrow> q < p \<Longrightarrow> sr_causal_parent (rs ! p) = Some (sr_id (rs ! q))
     \<Longrightarrow> sr_event (rs ! q) = AttemptFailed (de_work_order_id d) (de_execution_id d) previous f True
     \<Longrightarrow> q' < q \<Longrightarrow> sr_causal_parent (rs ! q) = Some (sr_id (rs ! q')) \<Longrightarrow> sr_event (rs ! q') = AttemptDispatched pd
     \<Longrightarrow> pd = d\<lparr>de_attempt_id := previous, de_parent_attempt_id := de_parent_attempt_id pd\<rparr>
     \<Longrightarrow> dispatch_proved rs root sha q' \<Longrightarrow> dispatch_proved rs root sha p"
| first_dependent: "p < length rs \<Longrightarrow> sr_event (rs ! p) = AttemptDispatched d \<Longrightarrow> names_graph root sha d
     \<Longrightarrow> de_parent_attempt_id d = None \<Longrightarrow> de_dependency_handoff_event_ids d = (k, e) # ds
     \<Longrightarrow> sr_causal_parent (rs ! p) = Some e
     \<Longrightarrow> (\<And>k e. (k, e) \<in> set (de_dependency_handoff_event_ids d) \<Longrightarrow> \<exists>q h q' pd. q < p \<and> sr_id (rs ! q) = e
          \<and> sr_event (rs ! q) = HandoffRetained h \<and> ho_work_order_id h = k \<and> ho_outcome h = HandoffCompleted
          \<and> q' < q \<and> sr_causal_parent (rs ! q) = Some (sr_id (rs ! q')) \<and> sr_event (rs ! q') = AttemptDispatched pd
          \<and> produced_by h pd \<and> dispatch_proved rs root sha q')
     \<Longrightarrow> dispatch_proved rs root sha p"

text \<open>What a successful lookup of an earlier record means.\<close>

lemma preceding_recordD:
  assumes "index_ok index rs" "preceding_record index i q = Inr r"
  obtains p where "p < q" "p < length rs" "rs ! p = r" "sr_id r = i" "index_position index r = p"
    "bm_get index i = Some (p, r)"
proof -
  obtain p where p: "p < q" "bm_get index i = Some (p, r)"
    using assms(2) by (auto simp: preceding_record_def not_le split: option.splits if_splits)
  then have "p < length rs" "rs ! p = r" "sr_id r = i"
    using assms(1) by (auto simp: index_ok_def)
  then show thesis
    using p that by (auto simp: index_position_def)
qed

lemma ancestry_retryD:
  assumes idx: "index_ok index rs" and r: "ancestry_retry index root p r d previous = Inr ps"
    and d: "names_graph root sha d"
  obtains q q' f pd where "q < p" "sr_causal_parent r = Some (sr_id (rs ! q))"
    "sr_event (rs ! q) = AttemptFailed (de_work_order_id d) (de_execution_id d) previous f True"
    "q' < q" "sr_causal_parent (rs ! q) = Some (sr_id (rs ! q'))" "sr_event (rs ! q') = AttemptDispatched pd"
    "pd = d\<lparr>de_attempt_id := previous, de_parent_attempt_id := de_parent_attempt_id pd\<rparr>"
    "ps = [sr_id (rs ! q')]" "bm_get index (sr_id (rs ! q')) = Some (q', rs ! q')"
proof -
  obtain fid fr f pid pr pd where
    fr: "sr_causal_parent r = Some fid" "preceding_record index fid p = Inr fr"
      "sr_event fr = AttemptFailed (de_work_order_id d) (de_execution_id d) previous f True"
    and pr: "sr_causal_parent fr = Some pid" "preceding_record index pid (index_position index fr) = Inr pr"
      "sr_event pr = AttemptDispatched pd" "ps = [sr_id pr]"
    and same: "de_work_order_id pd = de_work_order_id d" "de_actor_id pd = de_actor_id d"
      "de_execution_id pd = de_execution_id d" "de_attempt_id pd = previous"
      "de_graph_accepted_event_id pd = root" "de_attestation pd = de_attestation d"
      "de_dependency_handoff_event_ids pd = de_dependency_handoff_event_ids d"
    using r by (auto simp: ancestry_retry_def split: option.splits sum.splits SchedulerEvent.splits if_splits)
  obtain q where q: "q < p" "q < length rs" "rs ! q = fr" "sr_id fr = fid" "index_position index fr = q"
    using preceding_recordD[OF idx fr(2)] by metis
  obtain q' where q': "q' < q" "rs ! q' = pr" "sr_id pr = pid" "bm_get index pid = Some (q', pr)"
    using preceding_recordD[OF idx pr(2)] q(5) by metis
  have "pd = d\<lparr>de_attempt_id := previous, de_parent_attempt_id := de_parent_attempt_id pd\<rparr>"
    using same d by (simp add: names_graph_def)
  then show thesis
    using that[OF q(1) _ _ q'(1)] fr pr q q' by simp
qed

lemma ancestry_dependencyD:
  assumes idx: "index_ok index rs" and r: "ancestry_dependency index root sha p k e = Inr e'"
  obtains q h q' pd where "q < p" "sr_id (rs ! q) = e" "sr_event (rs ! q) = HandoffRetained h"
    "ho_work_order_id h = k" "ho_outcome h = HandoffCompleted" "q' < q"
    "sr_causal_parent (rs ! q) = Some (sr_id (rs ! q'))" "sr_event (rs ! q') = AttemptDispatched pd"
    "produced_by h pd" "e' = sr_id (rs ! q')" "bm_get index e' = Some (q', rs ! q')"
proof -
  obtain hr h pid pr pd where
    hr: "preceding_record index e p = Inr hr" "sr_event hr = HandoffRetained h" "ho_work_order_id h = k"
      "ho_outcome h = HandoffCompleted"
    and pr: "sr_causal_parent hr = Some pid" "preceding_record index pid (index_position index hr) = Inr pr"
      "sr_event pr = AttemptDispatched pd" "e' = sr_id pr" and same: "produced_by h pd"
    using r by (auto simp: ancestry_dependency_def produced_by_def
        split: option.splits sum.splits SchedulerEvent.splits if_splits)
  obtain q where q: "q < p" "q < length rs" "rs ! q = hr" "sr_id hr = e" "index_position index hr = q"
    using preceding_recordD[OF idx hr(1)] by metis
  obtain q' where q': "q' < q" "rs ! q' = pr" "sr_id pr = pid" "bm_get index pid = Some (q', pr)"
    using preceding_recordD[OF idx pr(2)] q(5) by metis
  show thesis
    using that[OF q(1) _ _ hr(3,4) q'(1)] hr pr same q q' by simp
qed

lemma ancestry_dependenciesD:
  assumes "ancestry_dependencies index root sha p seen ds = Inr ps" "(k, e) \<in> set ds"
  shows "\<exists>e' \<in> set ps. ancestry_dependency index root sha p k e = Inr e'"
  using assms by (induction ds arbitrary: seen ps) (fastforce split: if_splits sum.splits)+

lemma ancestry_proved:
  assumes idx: "index_ok index rs" and "ancestry_good index root sha e" "bm_get index e = Some (p, r)"
  shows "dispatch_proved rs root sha p"
  using assms(2-)
proof (induction p arbitrary: e r rule: less_induct)
  case (less p)
  have r: "p < length rs" "rs ! p = r" "sr_id r = e"
    using idx less.prems(2) by (auto simp: index_ok_def)
  obtain ps where ps: "ancestry_step index root sha e = Inr ps" "\<forall>e' \<in> set ps. ancestry_good index root sha e'"
    by (rule ancestry_goodD[OF less.prems(1)])
  obtain d where d: "sr_event (rs ! p) = AttemptDispatched d" "names_graph root sha d"
    using ps(1) less.prems(2) r
    by (auto simp: ancestry_step_def names_graph_def split: SchedulerEvent.splits if_splits)
  show ?case
  proof (cases "de_parent_attempt_id d")
    case (Some previous)
    then have "ancestry_retry index root p (rs ! p) d previous = Inr ps"
      using ps(1) less.prems(2) d r by (simp add: ancestry_step_def names_graph_def)
    then obtain q q' f pd where x: "q < p" "sr_causal_parent (rs ! p) = Some (sr_id (rs ! q))"
      "sr_event (rs ! q) = AttemptFailed (de_work_order_id d) (de_execution_id d) previous f True"
      "q' < q" "sr_causal_parent (rs ! q) = Some (sr_id (rs ! q'))" "sr_event (rs ! q') = AttemptDispatched pd"
      "pd = d\<lparr>de_attempt_id := previous, de_parent_attempt_id := de_parent_attempt_id pd\<rparr>"
      "ps = [sr_id (rs ! q')]" "bm_get index (sr_id (rs ! q')) = Some (q', rs ! q')"
      by (rule ancestry_retryD[OF idx _ d(2)])
    have "dispatch_proved rs root sha q'"
      using less.IH[OF _ _ x(9)] x(1,4,8) ps(2) by simp
    then show ?thesis
      using dispatch_proved.retried[OF r(1) d Some x(1-7)] by blast
  next
    case None
    show ?thesis
    proof (cases "de_dependency_handoff_event_ids d")
      case Nil
      then have "ancestry_root index root p (rs ! p) = Inr ps"
        using ps(1) less.prems(2) d r None by (simp add: ancestry_step_def names_graph_def bm_values_def)
      then obtain q rr where "sr_causal_parent (rs ! p) = Some root" "bm_get index root = Some (q, rr)" "q < p"
        by (auto simp: ancestry_root_def not_le split: if_splits option.splits)
      then show ?thesis
        using dispatch_proved.first_root[OF r(1) d None Nil] idx by (auto simp: index_ok_def)
    next
      case (Cons ke ds)
      obtain k e' where ke: "ke = (k, e')" by force
      have parent: "sr_causal_parent (rs ! p) = Some e'"
        and deps: "ancestry_dependencies index root sha p [] (de_dependency_handoff_event_ids d) = Inr ps"
        using ps(1) less.prems(2) d r None Cons ke
        by (auto simp: ancestry_step_def names_graph_def bm_values_def split: if_splits)
      show ?thesis
      proof (rule dispatch_proved.first_dependent[OF r(1) d None Cons[unfolded ke] parent])
        fix k e assume "(k, e) \<in> set (de_dependency_handoff_event_ids d)"
        then obtain e' where e': "e' \<in> set ps" "ancestry_dependency index root sha p k e = Inr e'"
          using ancestry_dependenciesD[OF deps] by blast
        from e'(2) obtain q h q' pd where x: "q < p" "sr_id (rs ! q) = e" "sr_event (rs ! q) = HandoffRetained h"
          "ho_work_order_id h = k" "ho_outcome h = HandoffCompleted" "q' < q"
          "sr_causal_parent (rs ! q) = Some (sr_id (rs ! q'))" "sr_event (rs ! q') = AttemptDispatched pd"
          "produced_by h pd" "bm_get index e' = Some (q', rs ! q')"
          using ancestry_dependencyD[OF idx] by metis
        have "dispatch_proved rs root sha q'"
          using less.IH[OF _ _ x(10)] x(1,6) e'(1) ps(2) by simp
        with x show "\<exists>q h q' pd. q < p \<and> sr_id (rs ! q) = e
          \<and> sr_event (rs ! q) = HandoffRetained h \<and> ho_work_order_id h = k \<and> ho_outcome h = HandoffCompleted
          \<and> q' < q \<and> sr_causal_parent (rs ! q) = Some (sr_id (rs ! q')) \<and> sr_event (rs ! q') = AttemptDispatched pd
          \<and> produced_by h pd \<and> dispatch_proved rs root sha q'"
          by blast
      qed
    qed
  qed
qed

lemma build_index_distinct:
  "build_index n index rs = Some index' \<Longrightarrow>
     distinct (map sr_id rs) \<and> (\<forall>r \<in> set rs. \<not> bm_contains_key index (sr_id r))"
  by (induction n index rs rule: build_index.induct) (auto split: if_splits)

lemma build_index_sound:
  assumes "build_index 0 [] rs = Some index"
  shows "distinct (map sr_id rs)" "index_ok index rs"
proof -
  show "distinct (map sr_id rs)"
    using build_index_distinct[OF assms] by blast
  then show "index_ok index rs"
    using build_index_ok[of "[]" "[]" rs] assms by (auto simp: index_ok_def)
qed

lemma unique_matchD: "unique_match none many xs = Inr x \<longleftrightarrow> xs = [x]"
  by (auto simp: unique_match_def split: list.splits)

text \<open>The dispatch event that a dispatch claims.\<close>

definition dispatch_event :: "AgentDispatch \<Rightarrow> dispatched_event" where
  "dispatch_event dispatch =
     \<lparr>de_work_order_id = wo_id (ad_work_order dispatch), de_actor_id = ad_actor_id dispatch,
      de_execution_id = ad_execution_id dispatch, de_attempt_id = ad_attempt_id dispatch,
      de_parent_attempt_id = ad_parent_attempt_id dispatch,
      de_graph_accepted_event_id = ad_graph_accepted_event_id dispatch, de_attestation = ad_attestation dispatch,
      de_dependency_handoff_event_ids = ad_dependency_handoff_event_ids dispatch\<rparr>"

lemma compare_dispatch_None:
  "compare_dispatch d dispatch = None \<Longrightarrow> de_attempt_id d = ad_attempt_id dispatch \<Longrightarrow> d = dispatch_event dispatch"
  by (simp add: compare_dispatch_def dispatch_event_def split: if_splits)

lemma verify_dependenciesD:
  assumes "verify_dependencies rs sha root hs verified = Inr v" "(k, h) \<in> set hs"
  shows "handoff_at rs h"
  using assms
proof (induction rs sha root hs verified rule: verify_dependencies.induct)
  case (2 rs sha root k' h' hs verified)
  have "handoff_at rs h'"
    using 2(2) by (auto simp: unique_dependency_record_def unique_matchD handoff_at_def filter_eq_Cons_iff
        split: sum.splits SchedulerEvent.splits if_splits)
  with 2 show ?case
    by (auto split: sum.splits SchedulerEvent.splits if_splits)
qed simp

lemma shape_handoffsD:
  assumes "shape_handoffs ids hs = Some (Inr ())" "(k, h) \<in> set hs"
  shows "ho_work_order_id h = k" "ho_outcome h = HandoffCompleted" "bm_get ids k = Some (ho_retained_event_id h)"
  using assms by (induction ids hs rule: shape_handoffs.induct) (auto split: if_splits option.splits)

lemma root_recordD:
  "verify_graph_root_record rs root sha = Inr () \<Longrightarrow>
     \<exists>r \<in> set rs. sr_id r = root \<and> sr_causal_parent r = None \<and> (\<exists>v p. sr_event r = GraphAccepted sha v p)"
  by (auto simp: verify_graph_root_record_def unique_matchD filter_eq_Cons_iff
      split: sum.splits option.splits SchedulerEvent.splits if_splits)

text \<open>What the acceptance of a dispatch guarantees of the retained records.\<close>

definition dispatch_justified :: "codec \<Rightarrow> SchedulerRecord list \<Rightarrow> AgentDispatch \<Rightarrow> SchedulerEventId \<Rightarrow> bool" where
  "dispatch_justified cd rs dispatch e \<longleftrightarrow>
     dispatch_attestation cd (ad_graph_sha256 dispatch) (ad_work_order dispatch) = Inr (ad_attestation dispatch)
     \<and> bm_keys (ad_dependency_handoffs dispatch) = wo_dependencies (ad_work_order dispatch)
     \<and> bm_keys (ad_dependency_handoff_event_ids dispatch) = wo_dependencies (ad_work_order dispatch)
     \<and> (\<forall>(k, h) \<in> set (ad_dependency_handoffs dispatch).
          ho_work_order_id h = k \<and> ho_outcome h = HandoffCompleted \<and> handoff_at rs h
          \<and> bm_get (ad_dependency_handoff_event_ids dispatch) k = Some (ho_retained_event_id h))
     \<and> distinct (map sr_id rs)
     \<and> (\<exists>r \<in> set rs. sr_id r = ad_graph_accepted_event_id dispatch \<and> sr_causal_parent r = None
          \<and> (\<exists>v p. sr_event r = GraphAccepted (ad_graph_sha256 dispatch) v p))
     \<and> filter (\<lambda>r. dispatched_attempt (sr_event r) = Some (ad_attempt_id dispatch)) rs
         = filter (\<lambda>r. sr_id r = e) rs
     \<and> (\<exists>p < length rs. sr_id (rs ! p) = e \<and> sr_event (rs ! p) = AttemptDispatched (dispatch_event dispatch)
          \<and> dispatch_proved rs (ad_graph_accepted_event_id dispatch) (ad_graph_sha256 dispatch) p)"

lemma verify_dispatch_shapeD:
  assumes "verify_dispatch_shape cd dispatch = Some (Inr u)"
  shows "dispatch_attestation cd (ad_graph_sha256 dispatch) (ad_work_order dispatch) = Inr (ad_attestation dispatch)"
    "bm_keys (ad_dependency_handoffs dispatch) = wo_dependencies (ad_work_order dispatch)"
    "bm_keys (ad_dependency_handoff_event_ids dispatch) = wo_dependencies (ad_work_order dispatch)"
    "shape_handoffs (ad_dependency_handoff_event_ids dispatch) (ad_dependency_handoffs dispatch) = Some (Inr ())"
  using assms by (auto simp: verify_dispatch_shape_def map_keys_equal_set_def split: sum.splits if_splits)

lemma verify_recordsD:
  assumes "verify_records rs dispatch = Some (Inr v)"
  obtains r where
    "filter (\<lambda>r. dispatched_attempt (sr_event r) = Some (ad_attempt_id dispatch)) rs = [r]"
    "sr_event r = AttemptDispatched (dispatch_event dispatch)" "vs_dispatch_event_id v = sr_id r"
    "verify_graph_root_record rs (ad_graph_accepted_event_id dispatch) (ad_graph_sha256 dispatch) = Inr ()"
    "verify_dispatch_causal_parent rs r dispatch = Inr ()"
    "\<exists>m. verify_dependencies rs (ad_graph_sha256 dispatch) (ad_graph_accepted_event_id dispatch)
      (ad_dependency_handoffs dispatch) [] = Inr m"
proof -
  obtain r d where r: "filter (\<lambda>r. dispatched_attempt (sr_event r) = Some (ad_attempt_id dispatch)) rs = [r]"
    "sr_event r = AttemptDispatched d" "compare_dispatch d dispatch = None" "vs_dispatch_event_id v = sr_id r"
    "verify_graph_root_record rs (ad_graph_accepted_event_id dispatch) (ad_graph_sha256 dispatch) = Inr ()"
    "verify_dispatch_causal_parent rs r dispatch = Inr ()"
    "\<exists>m. verify_dependencies rs (ad_graph_sha256 dispatch) (ad_graph_accepted_event_id dispatch)
      (ad_dependency_handoffs dispatch) [] = Inr m"
    using assms by (auto simp: verify_records_def unique_dispatch_record_for_attempt_def unique_matchD
        split: sum.splits SchedulerEvent.splits option.splits)
  have "de_attempt_id d = ad_attempt_id dispatch"
    using r(1,2) by (auto simp: filter_eq_Cons_iff)
  then have "d = dispatch_event dispatch"
    using compare_dispatch_None[OF r(3)] by simp
  with r that show thesis by blast
qed

lemma verify_dispatch_justified:
  assumes "verify_dispatch cd poisoned rs dispatch = Some (Inr v)"
  shows "dispatch_justified cd rs dispatch (vs_dispatch_event_id v)"
proof -
  let ?root = "ad_graph_accepted_event_id dispatch" and ?sha = "ad_graph_sha256 dispatch"
  have "verify_dispatch_shape cd dispatch = Some (Inr ())" and recs: "verify_records rs dispatch = Some (Inr v)"
    using assms by (auto simp: verify_dispatch_def snapshot_def split: option.splits sum.splits if_splits)
  note shape = verify_dispatch_shapeD[OF this(1)]
  obtain r where r: "filter (\<lambda>r. dispatched_attempt (sr_event r) = Some (ad_attempt_id dispatch)) rs = [r]"
    "sr_event r = AttemptDispatched (dispatch_event dispatch)" "vs_dispatch_event_id v = sr_id r"
    "verify_graph_root_record rs ?root ?sha = Inr ()" "verify_dispatch_causal_parent rs r dispatch = Inr ()"
    "\<exists>m. verify_dependencies rs ?sha ?root (ad_dependency_handoffs dispatch) [] = Inr m"
    by (rule verify_recordsD[OF recs])
  have mem: "r \<in> set rs" using r(1) by (auto simp: filter_eq_Cons_iff)
  obtain index where index: "build_index 0 [] rs = Some index" "ancestry_good index ?root ?sha (sr_id r)"
    using r(5) by (auto simp: verify_dispatch_causal_parent_def verify_full_dispatch_ancestry_def ancestry_loop_iff
        simp del: ancestry_loop.simps split: option.splits sum.splits)
  note idx = build_index_sound[OF index(1)]
  obtain p where p: "p < length rs" "rs ! p = r" using mem by (auto simp: in_set_conv_nth)
  then have "dispatch_proved rs ?root ?sha p"
    using ancestry_proved[OF idx(2) index(2), of p r] idx(2) by (simp add: index_ok_def)
  moreover have "filter (\<lambda>x. sr_id x = sr_id r) rs = [r]"
    using idx(1) mem by (intro filter_unique) (auto simp: distinct_map dest: inj_onD)
  moreover have "\<forall>(k, h) \<in> set (ad_dependency_handoffs dispatch).
      ho_work_order_id h = k \<and> ho_outcome h = HandoffCompleted \<and> handoff_at rs h
      \<and> bm_get (ad_dependency_handoff_event_ids dispatch) k = Some (ho_retained_event_id h)"
    using shape_handoffsD[OF shape(4)] verify_dependenciesD r(6) by blast
  ultimately show ?thesis
    unfolding dispatch_justified_def using shape(1-3) idx(1) root_recordD[OF r(4)] r(1-3) p by auto
qed

text \<open>The verifier never panics.\<close>

lemma shape_handoffs_total:
  "\<forall>(k, h) \<in> set hs. bm_contains_key ids k \<Longrightarrow> shape_handoffs ids hs \<noteq> None"
  by (induction ids hs rule: shape_handoffs.induct) (auto simp: bm_contains_key_def split: option.splits)

lemma verify_dispatch_shape_total: "verify_dispatch_shape cd dispatch \<noteq> None"
proof -
  have "shape_handoffs (ad_dependency_handoff_event_ids dispatch) (ad_dependency_handoffs dispatch) \<noteq> None"
    if "map_keys_equal_set (ad_dependency_handoffs dispatch) ks" "map_keys_equal_set (ad_dependency_handoff_event_ids dispatch) ks"
    for ks
    using that
    by (intro shape_handoffs_total) (auto simp: map_keys_equal_set_def bm_contains_key_iff bm_keys_def rev_image_eqI)
  then show ?thesis
    by (auto simp: verify_dispatch_shape_def split: sum.splits)
qed

lemma verify_records_total: "verify_records rs dispatch \<noteq> None"
proof -
  have "\<exists>d. sr_event r = AttemptDispatched d"
    if "unique_dispatch_record_for_attempt rs a = Inr r" for r a
  proof -
    have "dispatched_attempt (sr_event r) = Some a"
      using that by (auto simp: unique_dispatch_record_for_attempt_def unique_matchD filter_eq_Cons_iff)
    then show ?thesis by (cases "sr_event r") auto
  qed
  then show ?thesis
    by (fastforce simp: verify_records_def split: sum.splits option.splits)
qed

end
