(* ===== verification/Scheduler_Refinement.thy ===== *)
theory Scheduler_Refinement
  imports Executor_Correct
begin

text \<open>
  The abstract contract of the scheduler and the proof that the executor refines it.  The abstract
  scheduler keeps four sets of work orders (waiting, running, completed, failed) and has four steps:
  start an order whose dependencies are completed while a slot is free, complete or fail a running
  order, and block a waiting order with a failed dependency.  Every step of the executor is a
  sequence of these.
\<close>

section \<open>The abstract scheduler\<close>

record abs_sched =
  as_waiting :: "WorkOrderId set"
  as_running :: "WorkOrderId set"
  as_completed :: "WorkOrderId set"
  as_failed :: "WorkOrderId set"

inductive spec_step :: "ValidatedActorGraph \<Rightarrow> abs_sched \<Rightarrow> abs_sched \<Rightarrow> bool"
  for vg :: ValidatedActorGraph where
  start: "order \<in> set (vg_orders vg) \<Longrightarrow> wo_id order \<in> as_waiting a
     \<Longrightarrow> set (wo_dependencies order) \<subseteq> as_completed a \<Longrightarrow> card (as_running a) < max_parallel vg
     \<Longrightarrow> spec_step vg a (a\<lparr>as_waiting := as_waiting a - {wo_id order}, as_running := insert (wo_id order) (as_running a)\<rparr>)"
| complete: "w \<in> as_running a
     \<Longrightarrow> spec_step vg a (a\<lparr>as_running := as_running a - {w}, as_completed := insert w (as_completed a)\<rparr>)"
| fail: "w \<in> as_running a
     \<Longrightarrow> spec_step vg a (a\<lparr>as_running := as_running a - {w}, as_failed := insert w (as_failed a)\<rparr>)"
| block: "order \<in> set (vg_orders vg) \<Longrightarrow> wo_id order \<in> as_waiting a
     \<Longrightarrow> set (wo_dependencies order) \<inter> as_failed a \<noteq> {}
     \<Longrightarrow> spec_step vg a (a\<lparr>as_waiting := as_waiting a - {wo_id order}, as_failed := insert (wo_id order) (as_failed a)\<rparr>)"

definition spec_init :: "ValidatedActorGraph \<Rightarrow> abs_sched \<Rightarrow> bool" where
  "spec_init vg a \<longleftrightarrow> a = \<lparr>as_waiting = wo_id ` set (vg_orders vg), as_running = {}, as_completed = {}, as_failed = {}\<rparr>"

text \<open>The sets partition the graph, and whoever runs or completed depends on completed orders only.\<close>

definition spec_inv :: "ValidatedActorGraph \<Rightarrow> abs_sched \<Rightarrow> bool" where
  "spec_inv vg a \<longleftrightarrow>
     as_waiting a \<union> as_running a \<union> as_completed a \<union> as_failed a = wo_id ` set (vg_orders vg)
     \<and> as_waiting a \<inter> (as_running a \<union> as_completed a \<union> as_failed a) = {}
     \<and> as_running a \<inter> (as_completed a \<union> as_failed a) = {} \<and> as_completed a \<inter> as_failed a = {}
     \<and> finite (as_running a) \<and> card (as_running a) \<le> max_parallel vg
     \<and> (\<forall>order \<in> set (vg_orders vg). wo_id order \<in> as_running a \<union> as_completed a
          \<longrightarrow> set (wo_dependencies order) \<subseteq> as_completed a)"

lemma spec_inv_step:
  assumes dist: "distinct (map wo_id (vg_orders vg))" and "spec_inv vg a" "spec_step vg a b"
  shows "spec_inv vg b"
  using assms(3,2)
proof cases
  case (start order)
  have "set (wo_dependencies x) \<subseteq> as_completed a" if "x \<in> set (vg_orders vg)" "wo_id x = wo_id order" for x
    using dist that start(2,4) by (metis distinct_map inj_on_def)
  moreover have "card (insert (wo_id order) (as_running a)) \<le> max_parallel vg"
    using start(5) assms(2) by (simp add: spec_inv_def card_insert_if)
  ultimately show ?thesis
    using start(1-3) assms(2) unfolding spec_inv_def by (auto 0 3)
next
  case (complete w)
  then show ?thesis
    using assms(2) card_Diff1_le[of "as_running a" w] unfolding spec_inv_def by (auto 0 3)
next
  case (fail w)
  then show ?thesis
    using assms(2) card_Diff1_le[of "as_running a" w] unfolding spec_inv_def by (auto 0 3)
next
  case (block order)
  then show ?thesis
    using assms(2) unfolding spec_inv_def by (auto 0 3)
qed

interpretation sp: safe_system "\<lambda>a. distinct (map wo_id (vg_orders vg)) \<and> spec_init vg a" "spec_step vg"
    "\<lambda>a. distinct (map wo_id (vg_orders vg)) \<and> spec_inv vg a"
  for vg
proof
  show "distinct (map wo_id (vg_orders vg)) \<and> spec_init vg a \<Longrightarrow> distinct (map wo_id (vg_orders vg)) \<and> spec_inv vg a" for a
    by (auto simp: spec_init_def spec_inv_def)
  show "distinct (map wo_id (vg_orders vg)) \<and> spec_inv vg a \<Longrightarrow> spec_step vg a b
      \<Longrightarrow> distinct (map wo_id (vg_orders vg)) \<and> spec_inv vg b" for a b
    using spec_inv_step by blast
qed

section \<open>Abstraction of the executor\<close>

definition completed_ids :: "(WorkOrderId, Handoff) btree_map \<Rightarrow> WorkOrderId set" where
  "completed_ids m = {k. \<exists>h. bm_get m k = Some h \<and> ho_outcome h = HandoffCompleted}"

lemma completed_ids_insert:
  "\<not> bm_contains_key m k \<Longrightarrow> completed_ids (bm_insert k h m) =
     (if ho_outcome h = HandoffCompleted then insert k (completed_ids m) else completed_ids m)"
  by (auto simp: completed_ids_def bm_contains_key_def split: if_splits)

definition abs_of :: "sched \<Rightarrow> abs_sched" where
  "abs_of s = \<lparr>as_waiting = set (sc_pending s), as_running = task_id ` set (sc_active s),
     as_completed = completed_ids (sc_handoffs s), as_failed = set (bm_keys (sc_failures s))\<rparr>"

definition abs_run :: "ActorGraphRun \<Rightarrow> abs_sched" where
  "abs_run run = \<lparr>as_waiting = {}, as_running = {}, as_completed = completed_ids (ar_handoffs run),
     as_failed = set (bm_keys (ar_failures run))\<rparr>"

text \<open>An execution that ends in an error leaves the abstract run where it was.\<close>

fun abs_config :: "exec_config \<Rightarrow> abs_sched option" where
  "abs_config (Awaiting s) = Some (abs_of s)"
| "abs_config (Returned js (Inr run)) = Some (abs_run run)"
| "abs_config _ = None"

lemma block_order_refines:
  assumes "blockable vg s w ds" "block_order env w ds s = Inr s'"
  shows "spec_step vg (abs_of s) (abs_of s')"
proof -
  obtain order where o: "order \<in> set (vg_orders vg)" "wo_id order = w" "set ds \<subseteq> set (wo_dependencies order)"
    "w \<in> set (sc_pending s)" "ds \<noteq> []" "\<forall>d \<in> set ds. bm_contains_key (sc_failures s) d"
    using assms(1) by (auto simp: blockable_def)
  moreover have "set (wo_dependencies order) \<inter> as_failed (abs_of s) \<noteq> {}"
    using o(3,5,6) by (cases ds) (auto simp: abs_of_def bm_contains_key_iff)
  moreover have "abs_of s' = (abs_of s)\<lparr>as_waiting := as_waiting (abs_of s) - {wo_id order},
      as_failed := insert (wo_id order) (as_failed (abs_of s))\<rparr>"
    by (simp add: abs_of_def block_order_sel[OF assms(2)] o(2))
  ultimately show ?thesis
    using spec_step.block[of order vg "abs_of s"] by (simp add: abs_of_def)
qed

lemma block_orders_refines:
  assumes "run_ok env vg" "sched_inv env vg s" "distinct (map fst bs)"
    and "\<forall>(w, ds) \<in> set bs. blockable vg s w ds" "block_orders env bs s = Inr s'"
  shows "(spec_step vg)\<^sup>*\<^sup>* (abs_of s) (abs_of s')"
  using assms(2-)
proof (induction bs arbitrary: s)
  case (Cons b bs)
  obtain w ds s1 where b: "b = (w, ds)" "block_order env w ds s = Inr s1" "block_orders env bs s1 = Inr s'"
    using Cons.prems(4) by (cases b) (auto split: sum.splits)
  have blk: "blockable vg s w ds" using Cons.prems(3) b(1) by simp
  have "\<forall>(w, ds) \<in> set bs. blockable vg s1 w ds"
    by (rule blockable_rest[OF _ _ b(2)]) (use Cons.prems(2,3) b(1) in simp_all)
  then have "(spec_step vg)\<^sup>*\<^sup>* (abs_of s1) (abs_of s')"
    using Cons.IH[OF block_order_inv(1)[OF assms(1) Cons.prems(1) blk b(2)]] Cons.prems(2) b by simp
  with block_order_refines[OF blk b(2)] show ?case
    by (rule converse_rtranclp_into_rtranclp)
qed simp

lemma launch_order_refines:
  assumes inv: "sched_inv env vg s" and x: "launchable vg s x" and slot: "length (sc_active s) < max_parallel vg"
    and s': "launch_order vg x s = Some s'"
  shows "spec_step vg (abs_of s) (abs_of s')"
proof -
  have "set (wo_dependencies x) \<subseteq> as_completed (abs_of s)"
  proof
    fix d assume "d \<in> set (wo_dependencies x)"
    then obtain h where "bm_get (sc_handoffs s) d = Some h" "bm_get (sc_failures s) d = None"
      using x by (auto simp: launchable_def bm_contains_key_def)
    then show "d \<in> as_completed (abs_of s)"
      using inv by (auto simp: sched_inv_def results_ok_def handoff_ok_def abs_of_def completed_ids_def split: if_splits)
  qed
  moreover have "card (as_running (abs_of s)) < max_parallel vg"
    using slot card_length[of "map task_id (sc_active s)"] by (simp add: abs_of_def)
  moreover have "abs_of s' = (abs_of s)\<lparr>as_waiting := as_waiting (abs_of s) - {wo_id x},
      as_running := insert (wo_id x) (as_running (abs_of s))\<rparr>"
    using s' by (auto simp: launch_order_def abs_of_def split: option.splits)
  ultimately show ?thesis
    using x spec_step.start[of x vg "abs_of s"] by (simp add: launchable_def abs_of_def)
qed

lemma launch_orders_refines:
  assumes ok: "run_ok env vg" and "sched_inv env vg s" "distinct (map wo_id xs)" "\<forall>x \<in> set xs. launchable vg s x"
    "length xs + length (sc_active s) \<le> max_parallel vg" "launch_orders vg xs s = Some s'"
  shows "(spec_step vg)\<^sup>*\<^sup>* (abs_of s) (abs_of s')"
  using assms(2-)
proof (induction xs arbitrary: s)
  case (Cons x xs)
  obtain s1 where s1: "launch_order vg x s = Some s1" "launch_orders vg xs s1 = Some s'"
    using Cons.prems(5) by (auto split: option.splits)
  have x: "launchable vg s x" using Cons.prems(3) by simp
  have "sched_inv env vg s1"
    using launch_order_inv[OF ok Cons.prems(1) x] s1(1) by (metis option.inject)
  moreover have "\<forall>y \<in> set xs. launchable vg s1 y"
    using Cons.prems(2,3) by (auto simp: launchable_def launch_order_sel[OF s1(1)] rev_image_eqI)
  ultimately have "(spec_step vg)\<^sup>*\<^sup>* (abs_of s1) (abs_of s')"
    using Cons.IH[of s1] Cons.prems(2,4) s1(2) launch_order_sel(8)[OF s1(1)] by simp
  with launch_order_refines[OF Cons.prems(1) x _ s1(1)] Cons.prems(4) show ?case
    by (auto intro: converse_rtranclp_into_rtranclp)
qed simp

lemma fill_slots_refines:
  assumes ok: "run_ok env vg" and inv: "sched_inv env vg s" and un: "unblocked vg s" and lim: "limits_ok vg s"
    and s': "fill_slots vg (executor_orders vg) s = Some (launched, s')"
  shows "(spec_step vg)\<^sup>*\<^sup>* (abs_of s) (abs_of s')"
proof (cases "0 < free_slots vg s")
  case True
  have books: "books_ok vg s" using inv by (simp add: sched_inv_def)
  obtain xs where xs: "ready_orders (executor_orders vg) s = Some xs" "distinct (map wo_id xs)"
    "\<forall>x \<in> set xs. launchable vg s x"
    using ready_orders_spec[OF ok books un] by metis
  let ?xs = "take (free_slots vg s) xs"
  obtain s1 where s1: "launch_orders vg ?xs s = Some s1" "abs_of s' = abs_of s1"
    using s' True xs(1) by (auto simp: fill_slots_def abs_of_def split: option.splits)
  have "distinct (map wo_id ?xs)" "\<forall>x \<in> set ?xs. launchable vg s x"
    using xs(2,3) set_take_subset by (simp_all add: distinct_take flip: take_map) fast
  moreover have "length ?xs + length (sc_active s) \<le> max_parallel vg"
    using True by (simp add: free_slots_def max_parallel_def)
  ultimately show ?thesis
    using launch_orders_refines[OF ok inv _ _ _ s1(1)] s1(2) by simp
qed (use s' in \<open>auto simp: fill_slots_def\<close>)

text \<open>One turn of the loop.\<close>

fun loop_refines :: "ValidatedActorGraph \<Rightarrow> sched \<Rightarrow> loop_next \<Rightarrow> bool" where
  "loop_refines vg s (LoopAwait s') = (spec_step vg)\<^sup>*\<^sup>* (abs_of s) (abs_of s')"
| "loop_refines vg s (LoopContinue s') = (spec_step vg)\<^sup>*\<^sup>* (abs_of s) (abs_of s')"
| "loop_refines vg s (LoopBreak s') = (spec_step vg)\<^sup>*\<^sup>* (abs_of s) (abs_of s')"
| "loop_refines vg s _ = True"

lemma loop_body_refines:
  assumes ok: "run_ok env vg" and inv: "sched_inv env vg s" and lim: "limits_ok vg s"
  shows "loop_refines vg s (loop_body env vg (executor_orders vg) s)"
proof (cases "sc_cleanup_unproven s = []")
  case False
  then show ?thesis
    by (auto simp: loop_body_def suspend_def Let_def split: prod.splits sum.splits)
next
  case True
  have books: "books_ok vg s" using inv by (simp add: sched_inv_def)
  obtain bs where bs: "blocked_orders (executor_orders vg) s = Some bs" "distinct (map fst bs)"
    "\<forall>(w, ds) \<in> set bs. blockable vg s w ds"
    and none: "\<And>x. x \<in> set (vg_orders vg) \<Longrightarrow> wo_id x \<in> set (sc_pending s) \<Longrightarrow> wo_id x \<notin> fst ` set bs
      \<Longrightarrow> failed_dependencies s x = []"
    using blocked_orders_spec[OF ok books] by metis
  show ?thesis
  proof (cases "block_orders env bs s")
    case (Inl ejs)
    then show ?thesis
      using True bs(1) by (cases ejs) (simp add: loop_body_def)
  next
    case (Inr s1)
    then have post: "blocked_post env vg (fst ` set bs) s s1"
      using block_orders_inv[OF ok inv bs(2,3)] by simp
    have sub: "fst ` set bs \<subseteq> set (sc_pending s)"
      using bs(3) by (auto simp: blockable_def)
    have s1: "sched_inv env vg s1" "limits_ok vg s1" "unblocked vg s1"
      using post lim unblocked_after_blocking[OF ok inv post sub none] by (simp_all add: blocked_post_def limits_ok_def)
    obtain launched s2 where s2: "fill_slots vg (executor_orders vg) s1 = Some (launched, s2)"
      using fill_slots_inv[OF ok s1(1,3,2)] by metis
    have "(spec_step vg)\<^sup>*\<^sup>* (abs_of s) (abs_of s2)"
      using block_orders_refines[OF ok inv bs(2,3) Inr] fill_slots_refines[OF ok s1(1,3,2) s2] by (rule rtranclp_trans)
    then show ?thesis
      using True by (simp add: loop_body_def bs(1) Inr s2)
  qed
qed

lemma finish_graph_abs:
  "sc_pending s = [] \<Longrightarrow> sc_active s = [] \<Longrightarrow> abs_config (finish_graph env vg s) \<in> {None, Some (abs_of s)}"
  by (auto simp: finish_graph_def Let_def abs_of_def abs_run_def split: prod.splits sum.splits)

lemma run_loop_refines:
  assumes "run_ok env vg" "sched_inv env vg s" "limits_ok vg s"
  shows "abs_config (run_loop env vg s) = Some a \<Longrightarrow> (spec_step vg)\<^sup>*\<^sup>* (abs_of s) a"
  using assms
proof (induction env vg s rule: run_loop.induct)
  case (1 env vg s)
  have ok: "loop_ok env vg s (loop_body env vg (executor_orders vg) s)"
    and ref: "loop_refines vg s (loop_body env vg (executor_orders vg) s)"
    using loop_body_ok loop_body_refines 1(3-5) by blast+
  note eq = run_loop.simps[of env vg s]
  show ?case
  proof (cases "loop_body env vg (executor_orders vg) s")
    case (LoopContinue s')
    then have "(spec_step vg)\<^sup>*\<^sup>* (abs_of s') a"
      using 1(1)[OF LoopContinue _ 1(3)] 1(2) ok by (simp add: eq)
    then show ?thesis
      using ref LoopContinue by (metis loop_refines.simps(2) rtranclp_trans)
  next
    case (LoopBreak s')
    then show ?thesis
      using ref ok 1(2) finish_graph_abs[of s' env vg] by (auto simp: eq)
  qed (use ref ok 1(2) in \<open>auto simp: eq\<close>)
qed

lemma apply_terminal_refines:
  assumes inv: "sched_inv env vg s" and act: "sc_active s = as @ t # bs"
    and tok: "terminal_ok vg js (task_order t) terminal"
  shows "spec_step vg (abs_of s) (abs_of (apply_terminal terminal (s\<lparr>sc_js := js, sc_active := as @ bs\<rparr>)))"
proof -
  let ?s = "apply_terminal terminal (s\<lparr>sc_js := js, sc_active := as @ bs\<rparr>)"
  have "distinct (sc_ids s)" "set (bm_keys (sc_terminal_event_ids s)) = set (bm_keys (sc_handoffs s)) \<union> set (bm_keys (sc_failures s))"
    using inv by (simp_all add: sched_inv_def books_ok_def)
  then have t: "task_id t \<notin> task_id ` set as \<union> task_id ` set bs" "\<not> bm_contains_key (sc_handoffs s) (task_id t)"
    by (auto simp: sc_ids_def act bm_contains_key_iff)
  have run: "task_id t \<in> as_running (abs_of s)"
    "as_running (abs_of ?s) = as_running (abs_of s) - {task_id t}" "as_waiting (abs_of ?s) = as_waiting (abs_of s)"
    using t(1) by (auto simp: abs_of_def act rev_image_eqI)
  consider (completed) "as_completed (abs_of ?s) = insert (task_id t) (as_completed (abs_of s))" "as_failed (abs_of ?s) = as_failed (abs_of s)"
    | (failed) "as_completed (abs_of ?s) = as_completed (abs_of s)" "as_failed (abs_of ?s) = insert (task_id t) (as_failed (abs_of s))"
  proof (cases terminal)
    case (TerminalHandoff h)
    then show thesis
      using that tok completed_ids_insert[OF t(2), of h]
      by (cases "ho_outcome h = HandoffCompleted") (simp_all add: abs_of_def)
  next
    case (TerminalFailed w f e)
    then show thesis
      using that(2) tok by (simp add: abs_of_def)
  qed
  then show ?thesis
  proof cases
    case completed
    then have "abs_of ?s = (abs_of s)\<lparr>as_running := as_running (abs_of s) - {task_id t}, as_completed := insert (task_id t) (as_completed (abs_of s))\<rparr>"
      using run(2,3) by (intro abs_sched.equality) simp_all
    then show ?thesis using spec_step.complete[OF run(1)] by simp
  next
    case failed
    then have "abs_of ?s = (abs_of s)\<lparr>as_running := as_running (abs_of s) - {task_id t}, as_failed := insert (task_id t) (as_failed (abs_of s))\<rparr>"
      using run(2,3) by (intro abs_sched.equality) simp_all
    then show ?thesis using spec_step.fail[OF run(1)] by simp
  qed
qed

section \<open>Simulation\<close>

lemma exec_poll_refines:
  assumes ok: "run_ok env vg" and inv: "sched_inv env vg s" and lim: "limits_ok vg s"
    and i: "i < length (sc_active s)" and acc: "task_accepts (sc_active s ! i) input"
    and a: "abs_config (exec_poll env vg s i input) = Some a"
  shows "(spec_step vg)\<^sup>*\<^sup>* (abs_of s) a"
proof -
  let ?t = "sc_active s ! i" and ?as = "take i (sc_active s)" and ?bs = "drop (Suc i) (sc_active s)"
  have act: "sc_active s = ?as @ ?t # ?bs" using i by (rule list_split_at)
  obtain res js where r: "step_task env ?t input (sc_js s) = (res, js)" by force
  have "task_ok env vg (sc_root s) (sc_js s) ?t"
    using inv i by (simp add: sched_inv_def)
  then have post: "task_post env vg (sc_root s) (task_ctx ?t) (task_rank ?t) (sc_js s) (res, js)"
    using step_task_post[OF ok _ _ acc, of "sc_root s" "sc_js s"] inv by (simp add: sched_inv_def r)
  show ?thesis
  proof (cases res)
    case (TaskPending t')
    then have "task_ctx t' = task_ctx ?t" using post by (simp add: task_post_def)
    then have "map task_id ((sc_active s)[i := t']) = map task_id (sc_active s)"
      using i by (simp add: map_update list_update_same_conv)
    then have "task_id ` set ((sc_active s)[i := t']) = task_id ` set (sc_active s)"
      by (metis set_map)
    then show ?thesis
      using a r TaskPending by (auto simp: exec_poll_def abs_of_def)
  next
    case (TaskReady terminal)
    let ?s = "apply_terminal terminal (s\<lparr>sc_js := js, sc_active := ?as @ ?bs\<rparr>)"
    have s: "sched_inv env vg ?s" "limits_ok vg ?s"
      using poll_ready(1)[OF ok inv act] post TaskReady lim i by (auto simp: limits_ok_def)
    have "spec_step vg (abs_of s) (abs_of ?s)"
      using apply_terminal_refines[OF inv act] post TaskReady by (simp add: task_post_def)
    moreover have "(spec_step vg)\<^sup>*\<^sup>* (abs_of ?s) a"
      using run_loop_refines[OF ok s] a r TaskReady by (simp add: exec_poll_def)
    ultimately show ?thesis
      by (rule converse_rtranclp_into_rtranclp)
  qed (use a r in \<open>simp_all add: exec_poll_def\<close>)
qed

lemma exec_step_refines:
  assumes "exec_inv env vg c" "exec_step env vg c c'" "abs_config c = Some a" "abs_config c' = Some a'"
  shows "(spec_step vg)\<^sup>*\<^sup>* a a'"
  using assms exec_poll_refines by (auto simp: exec_inv_def elim!: exec_stepE)

lemma exec_start_refines:
  assumes ok: "run_ok env vg" and a: "abs_config (exec_start env vg) = Some a"
  obtains a0 where "spec_init vg a0" "(spec_step vg)\<^sup>*\<^sup>* a0 a"
proof -
  from ok show thesis
  proof (cases rule: exec_start_cases)
    case (refused js e)
    then show thesis using a by simp
  next
    case (accepted root js)
    have "spec_init vg (abs_of (initial_sched vg root js))"
      using index_initial[OF ok] by (simp add: spec_init_def abs_of_def completed_ids_def bm_keys_def initial_sched_def)
    then show thesis
      using that run_loop_refines[OF ok accepted(2,3)] a accepted(1) by simp
  qed
qed

text \<open>Every reachable configuration abstracts to a reachable abstract state.\<close>

lemma exec_reachable_refines:
  assumes ok: "run_ok env vg" and reach: "exec_reachable env vg c" and a: "abs_config c = Some a"
  shows "\<exists>a0. spec_init vg a0 \<and> (spec_step vg)\<^sup>*\<^sup>* a0 a"
  using reach[unfolded exec_reachable_def] a
proof (induction arbitrary: a rule: rtranclp_induct)
  case base
  then show ?case using exec_start_refines[OF ok] by blast
next
  case (step c c')
  have "exec_init env vg (exec_start env vg)"
    using ok by (simp add: exec_init_def)
  then have inv: "exec_inv env vg c"
    using step(1) ex.inv_reachable by blast
  obtain s where "c = Awaiting s" using step(2) by (auto elim: exec_stepE)
  then obtain a1 where a1: "abs_config c = Some a1" by simp
  then obtain a0 where "spec_init vg a0" "(spec_step vg)\<^sup>*\<^sup>* a0 a1"
    using step.IH by blast
  then show ?case
    using exec_step_refines[OF inv step(2) a1 step.prems] by (metis rtranclp_trans)
qed

end
