(* ===== verification/Example_Graph.thy ===== *)
theory Example_Graph
  imports Verifier_Correct Scheduler_Refinement
begin

text \<open>
  A small actor graph, a policy that admits it and an execution environment, on which the properties
  are instantiated: an implementer that may be retried once and a reviewer, from another
  independence domain, that depends on it.
\<close>

definition digest0 :: string where
  "digest0 = replicate 64 (CHR ''0'')"

definition lineage_of :: "string \<Rightarrow> ModelLineage" where
  "lineage_of domain = \<lparr>ml_backend_id = ''backend'', ml_model_id = ''model'', ml_deployment_id = ''local'',
     ml_independence_domain_id = domain\<rparr>"

definition budget_of :: "u32 \<Rightarrow> AgentBudget" where
  "budget_of attempts = \<lparr>ab_max_output_tokens = 100, ab_max_tool_calls = 10, ab_max_wall_time_ms = 1000,
     ab_max_cleanup_time_ms = 100, ab_max_attempts = attempts\<rparr>"

definition example_order ::
  "nat \<Rightarrow> WorkOrderId list \<Rightarrow> string \<Rightarrow> string \<Rightarrow> string \<Rightarrow> u32 \<Rightarrow> WorkOrderId list \<Rightarrow> WorkOrder" where
  "example_order n deps profile domain lease attempts reviews =
     \<lparr>wo_id = WorkOrderId n, wo_objective = ''work'', wo_acceptance_criteria = [''done''],
      wo_dependencies = deps, wo_candidate_group = None, wo_priority = 0,
      wo_context_manifest_sha256 = digest0,
      wo_assignment = \<lparr>aa_role_id = ''role'', aa_model_profile_id = profile, aa_lineage = lineage_of domain\<rparr>,
      wo_permissions = \<lparr>pg_capabilities = [''read'']\<rparr>,
      wo_workspace = \<lparr>wg_lease_id = lease, wg_source = BrokeredRepositorySnapshotV1 digest0, wg_access = ReadOnly\<rparr>,
      wo_budget = budget_of attempts, wo_reviews = reviews\<rparr>"

definition implementer :: WorkOrder where
  "implementer = example_order 1 [] ''p1'' ''d1'' ''l1'' 2 []"

definition reviewer :: WorkOrder where
  "reviewer = example_order 2 [WorkOrderId 1] ''p2'' ''d2'' ''l2'' 1 [WorkOrderId 1]"

definition example_graph :: ActorGraph where
  "example_graph = \<lparr>ag_schema_version = 2, ag_plan_input_snapshot_sha256 = digest0,
     ag_work_orders = [implementer, reviewer]\<rparr>"

definition example_lease :: WorkspaceLeasePolicy where
  "example_lease = \<lparr>lp_source = BrokeredRepositorySnapshotV1 digest0, lp_access = ReadOnly\<rparr>"

definition example_policy :: ActorGraphPolicy where
  "example_policy = \<lparr>gp_policy_version = ''v1'', gp_plan_input_snapshot_sha256 = digest0,
     gp_root_permissions = \<lparr>pg_capabilities = [''read'', ''search'']\<rparr>,
     gp_limits = \<lparr>gl_max_work_orders = 4, gl_max_parallel = 2, gl_max_total_attempts = 10,
       gl_max_total_output_tokens = 1000, gl_max_total_tool_calls = 100, gl_max_total_wall_time_ms = 10000\<rparr>,
     gp_require_reported_token_usage = False,
     gp_workspace_leases = [(''l1'', example_lease), (''l2'', example_lease)],
     gp_model_profiles = [(''p1'', lineage_of ''d1''), (''p2'', lineage_of ''d2'')]\<rparr>"

text \<open>A stand-in for the hash function and the serializer: what matters is the length of the digest.\<close>

definition example_sha256 :: "u8 list \<Rightarrow> u8 list" where
  "example_sha256 bytes = replicate 32 0"

definition example_json :: "ActorGraph \<Rightarrow> ActorGraphPolicy \<Rightarrow> string + u8 list" where
  "example_json graph policy = Inr []"

definition example_vg :: ValidatedActorGraph where
  "example_vg = \<lparr>vg_graph = example_graph, vg_policy = example_policy, vg_digest_sha256 = digest0\<rparr>"

definition example_codec :: codec where
  "example_codec = \<lparr>cd_sha256 = example_sha256, cd_work_order = \<lambda>_. Inr [], cd_permissions = \<lambda>_. Inr [],
     cd_completion = \<lambda>_. Inr [], cd_failure = \<lambda>_. Inr []\<rparr>"

definition example_env :: sched_env where
  "example_env = \<lparr>se_codec = example_codec, se_uuid = \<lambda>n. n, se_ack = in_memory_ack False\<rparr>"

lemmas example_defs = digest0_def lineage_of_def budget_of_def example_order_def implementer_def reviewer_def
  example_graph_def example_lease_def example_policy_def example_vg_def

lemma digest0_valid: "valid_sha256 digest0"
  by code_simp

lemma example_blank: "\<not> is_blank ''work''" "\<not> is_blank ''done''" "\<not> is_blank ''v1''" "\<not> is_blank ''backend''"
    "\<not> is_blank ''model''" "\<not> is_blank ''local''" "\<not> is_blank ''d1''" "\<not> is_blank ''d2''"
  by code_simp+

lemma example_lineage: "valid_lineage (lineage_of ''d1'')" "valid_lineage (lineage_of ''d2'')"
  by (simp_all add: valid_lineage_def lineage_of_def example_blank limit_defs)

lemma example_orders: "ag_work_orders example_graph = [implementer, reviewer]"
  by (simp add: example_graph_def)

lemma example_ids: "wo_id implementer = WorkOrderId 1" "wo_id reviewer = WorkOrderId 2"
    "wo_dependencies implementer = []" "wo_dependencies reviewer = [WorkOrderId 1]"
    "wo_reviews implementer = []" "wo_reviews reviewer = [WorkOrderId 1]"
    "wo_candidate_group implementer = None" "wo_candidate_group reviewer = None"
    "wg_access (wo_workspace implementer) = ReadOnly" "wg_access (wo_workspace reviewer) = ReadOnly"
    "wo_budget implementer = budget_of 2" "wo_budget reviewer = budget_of 1"
  by (simp_all add: implementer_def reviewer_def example_order_def)

lemma example_valid_policy: "valid_policy example_graph example_policy"
  by (simp add: valid_policy_def example_policy_def example_graph_def example_lease_def digest0_valid example_blank
      example_lineage ACTOR_GRAPH_SCHEMA_VERSION_def limit_defs)

lemma example_valid_orders: "valid_order example_policy implementer" "valid_order example_policy reviewer"
  by (simp_all add: valid_order_def implementer_def reviewer_def example_order_def example_policy_def example_lease_def
      budget_of_def digest0_valid example_blank example_lineage limit_defs bm_get_def)

lemma example_index: "order_index [implementer, reviewer] = [(WorkOrderId 1, implementer), (WorkOrderId 2, reviewer)]"
  by (simp add: order_index_def bm_of_list_def example_ids)

lemma example_acyclic: "acyclic (dep_edge (order_index [implementer, reviewer]))"
proof -
  have "dep_edge (order_index [implementer, reviewer]) = {(WorkOrderId 2, WorkOrderId 1)}"
    by (auto simp: dep_edge_def example_index bm_get_def example_ids split: if_splits)
  then show ?thesis by (simp add: acyclic_insert) (simp add: acyclic_def)
qed

lemma example_valid: "valid_actor_graph example_graph example_policy"
  unfolding valid_actor_graph_def Let_def example_orders
proof (intro conjI)
  show "\<forall>order \<in> set [implementer, reviewer]. valid_order example_policy order"
    using example_valid_orders by simp
  show "exclusive_writers [implementer, reviewer]"
    by (simp add: exclusive_writers_def example_ids)
  show "sum_list (map order_text [implementer, reviewer]) \<le> HARD_MAX_GRAPH_TEXT_BYTES"
    by (simp add: order_text_def implementer_def reviewer_def example_order_def limit_defs)
  show "\<forall>order \<in> set [implementer, reviewer]. valid_edges [implementer, reviewer] order"
    by (simp add: valid_edges_def example_ids example_index bm_get_def)
      (simp add: implementer_def reviewer_def example_order_def lineage_of_def)
  show "\<forall>g. group_members [implementer, reviewer] g \<noteq> [] \<longrightarrow>
      valid_group [implementer, reviewer] (group_members [implementer, reviewer] g)"
    by (simp add: group_members_def example_ids)
  show "within_budget (gp_limits example_policy) [implementer, reviewer]"
    by (simp add: within_budget_def attempts_of_def tokens_of_def tool_calls_of_def wall_time_of_def example_ids
        budget_of_def example_policy_def)
qed (simp_all add: example_valid_policy example_acyclic example_ids)

lemma example_structural: "structural_limit_violations example_graph example_policy = []"
  by (simp add: structural_limit_violations_def order_structural_violations_def total_capability_references_def
      example_graph_def example_policy_def implementer_def reviewer_def example_order_def limit_defs
      usize_saturating_add_def usize_max_def)

lemma example_digest: "canonical_json_digest example_sha256 (example_json g p) = Inr digest0"
  by code_simp

lemma example_validates: "validate_against example_sha256 example_json example_graph example_policy = Inr example_vg"
proof -
  have "sort_key wo_id (ag_work_orders example_graph) = ag_work_orders example_graph"
    by (simp add: example_orders example_ids)
  then show ?thesis
    by (simp add: validate_against_Inr_iff example_structural example_valid example_vg_def example_digest)
qed

lemma example_run_ok: "run_ok example_env example_vg"
  by (simp add: run_ok_def example_env_def example_vg_def example_valid inj_def example_orders work_order_wf_def
      example_ids bs_wf_def)

section \<open>An execution\<close>

definition root0 :: SchedulerEventId where
  "root0 = SchedulerEventId 0"

definition accepted_record :: SchedulerRecord where
  "accepted_record = \<lparr>sr_id = root0, sr_causal_parent = None, sr_event = GraphAccepted digest0 ''v1'' digest0\<rparr>"

definition example_ctx :: run_ctx where
  "example_ctx = \<lparr>rc_root_event = root0, rc_graph_sha256 = digest0, rc_require_reported_token_usage = False,
     rc_work_order = implementer, rc_dependency_handoffs = []\<rparr>"

text \<open>The implementer is launched, the reviewer waits for it.\<close>

definition sched0 :: sched where
  "sched0 = \<lparr>sc_root = root0, sc_js = \<lparr>js_records = [accepted_record], js_next = 1\<rparr>,
     sc_pending = [WorkOrderId 2], sc_handoffs = [], sc_failures = [], sc_terminal_event_ids = [],
     sc_cleanup_unproven = [], sc_active = [TaskNew example_ctx], sc_maximum_in_flight = 1\<rparr>"

lemma example_executor_orders: "executor_orders example_vg = [(WorkOrderId 1, implementer), (WorkOrderId 2, reviewer)]"
  by (simp add: executor_orders_eq example_vg_def example_orders example_index)

lemma example_sel [simp]:
  "vg_graph example_vg = example_graph" "vg_digest_sha256 example_vg = digest0"
  "gp_policy_version (vg_policy example_vg) = ''v1''" "gp_plan_input_snapshot_sha256 (vg_policy example_vg) = digest0"
  "gp_require_reported_token_usage (vg_policy example_vg) = False"
  "gl_max_parallel (gp_limits (vg_policy example_vg)) = 2"
  "se_ack example_env rs r = None" "se_uuid example_env n = n" "se_codec example_env = example_codec"
  by (simp_all add: example_vg_def example_policy_def example_env_def in_memory_ack_def)

lemmas exec_eval = exec_start_def exec_poll_def retain_def retain_with_id_def loop_body_def run_loop.simps
  example_executor_orders blocked_orders_def bm_keys_def bs_of_list_def bm_get_def bm_contains_key_def
  failed_dependencies_def fill_slots_def free_slots_def ready_orders_def example_ids launch_order_def bm_of_list_def
  u32_or_max_def bs_remove_def

lemma example_start: "exec_start example_env example_vg = Awaiting sched0"
  by (simp add: exec_eval sched0_def example_ctx_def accepted_record_def root0_def)

text \<open>The first attempt of the implementer is dispatched.\<close>

definition attestation_of :: "WorkOrder \<Rightarrow> DispatchAttestation" where
  "attestation_of order = \<lparr>da_graph_sha256 = digest0, da_work_order_sha256 = digest0, da_permissions_sha256 = digest0,
     da_assignment = wo_assignment order, da_context_manifest_sha256 = wo_context_manifest_sha256 order,
     da_workspace = wo_workspace order, da_budget = wo_budget order\<rparr>"

lemma example_attestation: "dispatch_attestation example_codec digest0 order = Inr (attestation_of order)"
proof -
  have "canonical_json_digest example_sha256 (Inr []) = Inr digest0"
    by code_simp
  then show ?thesis
    by (simp add: dispatch_attestation_def journal_digest_def example_codec_def attestation_of_def)
qed

definition attempt1 :: attempt_state where
  "attempt1 = \<lparr>at_actor_id = ActorId 1, at_execution_id = ExecutionId 2, at_attestation = attestation_of implementer,
     at_attempt_number = 0, at_attempt_id = AttemptId 3, at_parent_attempt_id = None, at_dispatched = SchedulerEventId 4\<rparr>"

definition dispatched1 :: SchedulerRecord where
  "dispatched1 = \<lparr>sr_id = SchedulerEventId 4, sr_causal_parent = Some root0,
     sr_event = AttemptDispatched (attempt_event example_ctx attempt1)\<rparr>"

definition sched1 :: sched where
  "sched1 = sched0\<lparr>sc_js := \<lparr>js_records = [accepted_record, dispatched1], js_next = 5\<rparr>,
     sc_active := [AwaitWorker example_ctx attempt1]\<rparr>"

lemmas task_eval = start_task_def dispatch_attempt_def example_attestation dependency_handoff_event_ids_def
  first_or_def bm_values_def attempt_event_def budget_of_def Let_def numeral_2_eq_2[symmetric]

lemma example_step1: "exec_poll example_env example_vg sched0 0 FirstPoll = Awaiting sched1"
  by (simp add: exec_eval task_eval sched1_def sched0_def example_ctx_def dispatched1_def attempt1_def accepted_record_def
      root0_def)

text \<open>The implementer completes, the reviewer is launched and dispatched, and completes.\<close>

definition completion0 :: AgentCompletion where
  "completion0 = \<lparr>ac_outcome = HandoffCompleted, ac_summary = ''work'', ac_execution_receipt_id = ''r'',
     ac_artifact_sha256 = [], ac_evidence_ids = [''e''], ac_usage = \<lparr>us_output_tokens = Some 7, us_tool_calls = 3\<rparr>\<rparr>"

lemma completion0_ok: "handoff_violations completion0 = []"
    "usage_violation (ac_usage completion0) (budget_of n) False = None"
  by (simp add: handoff_violations_Nil_iff completion0_def example_blank bounded_receipt_def limit_defs)
    (simp add: usage_violation_def completion0_def budget_of_def)

definition handoff1 :: Handoff where
  "handoff1 = completion_handoff example_ctx attempt1 completion0 (SchedulerEventId 5) (HandoffId 6)"

definition retained1 :: SchedulerRecord where
  "retained1 = \<lparr>sr_id = SchedulerEventId 5, sr_causal_parent = Some (SchedulerEventId 4), sr_event = HandoffRetained handoff1\<rparr>"

definition reviewer_ctx :: run_ctx where
  "reviewer_ctx = \<lparr>rc_root_event = root0, rc_graph_sha256 = digest0, rc_require_reported_token_usage = False,
     rc_work_order = reviewer, rc_dependency_handoffs = [(WorkOrderId 1, handoff1)]\<rparr>"

definition sched2 :: sched where
  "sched2 = sched0\<lparr>sc_js := \<lparr>js_records = [accepted_record, dispatched1, retained1], js_next = 7\<rparr>,
     sc_pending := [], sc_handoffs := [(WorkOrderId 1, handoff1)],
     sc_terminal_event_ids := [(WorkOrderId 1, SchedulerEventId 5)], sc_active := [TaskNew reviewer_ctx]\<rparr>"

lemma handoff1_sel: "ho_outcome handoff1 = HandoffCompleted" "ho_work_order_id handoff1 = WorkOrderId 1"
    "ho_retained_event_id handoff1 = SchedulerEventId 5"
  by (simp_all add: handoff1_def completion_handoff_def completion0_def example_ctx_def example_ids)

lemma example_completed1:
  "worker_completed example_env example_ctx attempt1 completion0
     \<lparr>js_records = [accepted_record, dispatched1], js_next = 5\<rparr>
   = (TaskReady (TerminalHandoff handoff1), \<lparr>js_records = [accepted_record, dispatched1, retained1], js_next = 7\<rparr>)"
  by (simp add: worker_completed_def completion0_ok example_ids example_ctx_def[THEN arg_cong[where f = rc_work_order]]
      example_ctx_def[THEN arg_cong[where f = rc_require_reported_token_usage]] retain_with_id_def retained1_def handoff1_def Let_def numeral_2_eq_2[symmetric]
      attempt1_def[THEN arg_cong[where f = at_dispatched]])

lemma example_step2: "exec_poll example_env example_vg sched1 0 (WorkerReturned (Inr completion0)) = Awaiting sched2"
  by (simp add: exec_eval sched1_def sched0_def example_completed1 handoff1_sel sched2_def reviewer_ctx_def)

definition attempt2 :: attempt_state where
  "attempt2 = \<lparr>at_actor_id = ActorId 7, at_execution_id = ExecutionId 8, at_attestation = attestation_of reviewer,
     at_attempt_number = 0, at_attempt_id = AttemptId 9, at_parent_attempt_id = None, at_dispatched = SchedulerEventId 10\<rparr>"

definition dispatched2 :: SchedulerRecord where
  "dispatched2 = \<lparr>sr_id = SchedulerEventId 10, sr_causal_parent = Some (SchedulerEventId 5),
     sr_event = AttemptDispatched (attempt_event reviewer_ctx attempt2)\<rparr>"

definition sched3 :: sched where
  "sched3 = sched2\<lparr>sc_js := \<lparr>js_records = [accepted_record, dispatched1, retained1, dispatched2], js_next = 11\<rparr>,
     sc_active := [AwaitWorker reviewer_ctx attempt2]\<rparr>"

lemma example_step3: "exec_poll example_env example_vg sched2 0 FirstPoll = Awaiting sched3"
  by (simp add: exec_eval task_eval sched3_def sched2_def sched0_def reviewer_ctx_def dispatched2_def attempt2_def root0_def
      handoff1_sel)

definition handoff2 :: Handoff where
  "handoff2 = completion_handoff reviewer_ctx attempt2 completion0 (SchedulerEventId 11) (HandoffId 12)"

definition retained2 :: SchedulerRecord where
  "retained2 = \<lparr>sr_id = SchedulerEventId 11, sr_causal_parent = Some (SchedulerEventId 10), sr_event = HandoffRetained handoff2\<rparr>"

definition terminals :: "(WorkOrderId, SchedulerEventId) btree_map" where
  "terminals = [(WorkOrderId 1, SchedulerEventId 5), (WorkOrderId 2, SchedulerEventId 11)]"

definition finished_record :: SchedulerRecord where
  "finished_record = \<lparr>sr_id = SchedulerEventId 13, sr_causal_parent = Some (SchedulerEventId 5),
     sr_event = GraphFinished GraphCompleted terminals\<rparr>"

definition final_js :: jstate where
  "final_js = \<lparr>js_records = [accepted_record, dispatched1, retained1, dispatched2, retained2, finished_record], js_next = 14\<rparr>"

definition final_run :: ActorGraphRun where
  "final_run = \<lparr>ar_graph_sha256 = digest0, ar_accepted_event_id = root0, ar_finished_event_id = SchedulerEventId 13,
     ar_terminal_event_ids = terminals, ar_outcome = GraphCompleted,
     ar_handoffs = [(WorkOrderId 1, handoff1), (WorkOrderId 2, handoff2)], ar_failures = [], ar_maximum_in_flight = 1\<rparr>"

lemma handoff2_sel: "ho_outcome handoff2 = HandoffCompleted" "ho_work_order_id handoff2 = WorkOrderId 2"
    "ho_retained_event_id handoff2 = SchedulerEventId 11"
  by (simp_all add: handoff2_def completion_handoff_def completion0_def reviewer_ctx_def example_ids)

lemma example_completed2:
  "worker_completed example_env reviewer_ctx attempt2 completion0
     \<lparr>js_records = [accepted_record, dispatched1, retained1, dispatched2], js_next = 11\<rparr>
   = (TaskReady (TerminalHandoff handoff2),
      \<lparr>js_records = [accepted_record, dispatched1, retained1, dispatched2, retained2], js_next = 13\<rparr>)"
  by (simp add: worker_completed_def completion0_ok example_ids reviewer_ctx_def[THEN arg_cong[where f = rc_work_order]]
      reviewer_ctx_def[THEN arg_cong[where f = rc_require_reported_token_usage]] retain_with_id_def retained2_def
      handoff2_def Let_def attempt2_def[THEN arg_cong[where f = at_dispatched]])

lemma example_step4:
  "exec_poll example_env example_vg sched3 0 (WorkerReturned (Inr completion0)) = Returned final_js (Inr final_run)"
  by (simp add: exec_eval sched3_def sched2_def sched0_def example_completed2 handoff2_sel finish_graph_def Let_def
      final_js_def final_run_def terminals_def finished_record_def first_or_def bm_values_def)

text \<open>The other way: the worker of the implementer runs into its deadline and its cleanup stays unproven.\<close>

definition sched1_cleanup :: sched where
  "sched1_cleanup = sched1\<lparr>sc_active := [AwaitCleanup example_ctx attempt1]\<rparr>"

lemma example_timeout: "exec_poll example_env example_vg sched1 0 WorkerTimedOut = Awaiting sched1_cleanup"
  by (simp add: exec_poll_def sched1_def sched1_cleanup_def)

definition unproven :: WorkOrderFailure where
  "unproven = CleanupUnproven 1000 100"

definition suspended_js :: jstate where
  "suspended_js = \<lparr>js_records = [accepted_record, dispatched1,
       \<lparr>sr_id = SchedulerEventId 5, sr_causal_parent = Some (SchedulerEventId 4),
        sr_event = AttemptFailed (WorkOrderId 1) (ExecutionId 2) (AttemptId 3) unproven False\<rparr>,
       \<lparr>sr_id = SchedulerEventId 6, sr_causal_parent = Some (SchedulerEventId 5),
        sr_event = GraphSuspended [WorkOrderId 1] [WorkOrderId 2] [(WorkOrderId 1, SchedulerEventId 5)]\<rparr>], js_next = 7\<rparr>"

lemma example_suspended:
  "exec_poll example_env example_vg sched1_cleanup 0 CleanupTimedOut
     = Returned suspended_js (Inl (ExecCleanupUnproven [WorkOrderId 1] (SchedulerEventId 6)))"
  by (simp add: exec_eval sched1_cleanup_def sched1_def sched0_def fail_terminal_def retain_failure_def cleanup_failure_def
      example_ctx_def attempt1_def budget_of_def suspend_def Let_def suspended_js_def unproven_def)

text \<open>Or the worker of the implementer fails without an effect, and the attempt is retried.\<close>

definition failure0 :: AgentFailure where
  "failure0 = \<lparr>af_kind = RetryableNoEffect, af_message = ''work'', af_usage = \<lparr>us_output_tokens = None, us_tool_calls = 0\<rparr>,
     af_execution_receipt_id = ''r'', af_effect_receipt_id = Some ''e''\<rparr>"

lemma failure0_ok: "worker_failure_violations failure0 = []" "is_retryable failure0"
    "usage_violation (af_usage failure0) (budget_of n) False = None"
  by (simp_all add: worker_failure_violations_def is_retryable_def failure0_def example_blank limit_defs usage_violation_def
      budget_of_def)

definition failed1 :: SchedulerRecord where
  "failed1 = \<lparr>sr_id = SchedulerEventId 5, sr_causal_parent = Some (SchedulerEventId 4),
     sr_event = AttemptFailed (WorkOrderId 1) (ExecutionId 2) (AttemptId 3) (Worker failure0) True\<rparr>"

definition attempt_retry :: attempt_state where
  "attempt_retry = attempt1\<lparr>at_attempt_number := 1, at_attempt_id := AttemptId 6, at_parent_attempt_id := Some (AttemptId 3),
     at_dispatched := SchedulerEventId 7\<rparr>"

definition dispatched_retry :: SchedulerRecord where
  "dispatched_retry = \<lparr>sr_id = SchedulerEventId 7, sr_causal_parent = Some (SchedulerEventId 5),
     sr_event = AttemptDispatched (attempt_event example_ctx attempt_retry)\<rparr>"

definition sched1_retry :: sched where
  "sched1_retry = sched1\<lparr>sc_js := \<lparr>js_records = [accepted_record, dispatched1, failed1, dispatched_retry], js_next = 8\<rparr>,
     sc_active := [AwaitWorker example_ctx attempt_retry]\<rparr>"

lemma example_retry: "exec_poll example_env example_vg sched1 0 (WorkerReturned (Inl failure0)) = Awaiting sched1_retry"
  by (simp add: exec_poll_def sched1_def sched0_def worker_failed_def failure0_ok failure0_ok(3)[unfolded budget_of_def] example_ids example_ctx_def attempt1_def
      retain_failure_def retain_def retain_with_id_def task_eval sched1_retry_def failed1_def dispatched_retry_def attempt_retry_def)

text \<open>Or it fails for good, and the reviewer is blocked.\<close>

definition failure_permanent :: AgentFailure where
  "failure_permanent = failure0\<lparr>af_kind := PermanentBackend, af_effect_receipt_id := None\<rparr>"

lemma failure_permanent_ok: "worker_failure_violations failure_permanent = []" "\<not> is_retryable failure_permanent"
    "usage_violation (af_usage failure_permanent) (budget_of n) False = None"
  by (simp_all add: worker_failure_violations_def is_retryable_def failure_permanent_def failure0_def example_blank limit_defs
      usage_violation_def budget_of_def)

definition failed_terminals :: "(WorkOrderId, SchedulerEventId) btree_map" where
  "failed_terminals = [(WorkOrderId 1, SchedulerEventId 5), (WorkOrderId 2, SchedulerEventId 6)]"

definition failed_js :: jstate where
  "failed_js = \<lparr>js_records = [accepted_record, dispatched1,
       \<lparr>sr_id = SchedulerEventId 5, sr_causal_parent = Some (SchedulerEventId 4),
        sr_event = AttemptFailed (WorkOrderId 1) (ExecutionId 2) (AttemptId 3) (Worker failure_permanent) False\<rparr>,
       \<lparr>sr_id = SchedulerEventId 6, sr_causal_parent = Some (SchedulerEventId 5),
        sr_event = WorkOrderBlocked (WorkOrderId 2) [WorkOrderId 1] [(WorkOrderId 1, SchedulerEventId 5)]\<rparr>,
       \<lparr>sr_id = SchedulerEventId 7, sr_causal_parent = Some (SchedulerEventId 5),
        sr_event = GraphFinished GraphFailed failed_terminals\<rparr>], js_next = 8\<rparr>"

definition failed_run :: ActorGraphRun where
  "failed_run = \<lparr>ar_graph_sha256 = digest0, ar_accepted_event_id = root0, ar_finished_event_id = SchedulerEventId 7,
     ar_terminal_event_ids = failed_terminals, ar_outcome = GraphFailed, ar_handoffs = [],
     ar_failures = [(WorkOrderId 1, Worker failure_permanent), (WorkOrderId 2, DependencyFailed [WorkOrderId 1])],
     ar_maximum_in_flight = 1\<rparr>"

lemma example_worker_failed:
  "worker_failed example_env example_ctx attempt1 failure_permanent \<lparr>js_records = [accepted_record, dispatched1], js_next = 5\<rparr>
   = (TaskReady (TerminalFailed (WorkOrderId 1) (Worker failure_permanent) (SchedulerEventId 5)),
      \<lparr>js_records = take 3 (js_records failed_js), js_next = 6\<rparr>)"
  by (simp add: worker_failed_def failure_permanent_ok example_ids example_ctx_def attempt1_def retain_failure_def retain_def
      retain_with_id_def failed_js_def Let_def)

lemma example_failed:
  "exec_poll example_env example_vg sched1 0 (WorkerReturned (Inl failure_permanent)) = Returned failed_js (Inr failed_run)"
  by (simp add: exec_eval sched1_def sched0_def example_worker_failed)
    (simp add: exec_eval block_order_def failed_js_def failed_run_def failed_terminals_def
      finish_graph_def Let_def first_or_def bm_values_def List.map_filter_simps)

section \<open>Reachability\<close>

lemma reach_step:
  assumes "exec_reachable env vg (Awaiting s)" "i < length (sc_active s)" "task_accepts (sc_active s ! i) input"
    "exec_poll env vg s i input = c"
  shows "exec_reachable env vg c"
  using assms exec_step.poll[of i s input env vg] by (auto simp: exec_reachable_def intro: rtranclp.rtrancl_into_rtrancl)

lemma example_reach0: "exec_reachable example_env example_vg (Awaiting sched0)"
  by (simp add: exec_reachable_def flip: example_start)

lemma example_reach1: "exec_reachable example_env example_vg (Awaiting sched1)"
  by (rule reach_step[OF example_reach0 _ _ example_step1]) (simp_all add: sched0_def)

lemma example_reach2: "exec_reachable example_env example_vg (Awaiting sched2)"
  by (rule reach_step[OF example_reach1 _ _ example_step2]) (simp_all add: sched1_def)

lemma example_reach3: "exec_reachable example_env example_vg (Awaiting sched3)"
  by (rule reach_step[OF example_reach2 _ _ example_step3]) (simp_all add: sched2_def)

lemma example_reach4: "exec_reachable example_env example_vg (Returned final_js (Inr final_run))"
  by (rule reach_step[OF example_reach3 _ _ example_step4]) (simp_all add: sched3_def)

lemma example_reach_cleanup: "exec_reachable example_env example_vg (Awaiting sched1_cleanup)"
  by (rule reach_step[OF example_reach1 _ _ example_timeout]) (simp_all add: sched1_def)

lemma example_reach_retry: "exec_reachable example_env example_vg (Awaiting sched1_retry)"
  by (rule reach_step[OF example_reach1 _ _ example_retry]) (simp_all add: sched1_def)

lemma example_reach_failed: "exec_reachable example_env example_vg (Returned failed_js (Inr failed_run))"
  by (rule reach_step[OF example_reach1 _ _ example_failed]) (simp_all add: sched1_def)

lemma example_reach_suspended:
  "exec_reachable example_env example_vg (Returned suspended_js (Inl (ExecCleanupUnproven [WorkOrderId 1] (SchedulerEventId 6))))"
  by (rule reach_step[OF example_reach_cleanup _ _ example_suspended]) (simp_all add: sched1_cleanup_def)

section \<open>A writer\<close>

text \<open>One order that may write a workspace leased from a committed head.\<close>

definition writer :: WorkOrder where
  "writer = implementer\<lparr>wo_workspace := \<lparr>wg_lease_id = ''l3'', wg_source = GitCleanCommittedHeadV1 digest0, wg_access = Write\<rparr>,
     wo_budget := budget_of 1\<rparr>"

definition writer_graph :: ActorGraph where
  "writer_graph = example_graph\<lparr>ag_work_orders := [writer]\<rparr>"

definition writer_policy :: ActorGraphPolicy where
  "writer_policy = example_policy\<lparr>gp_workspace_leases :=
     [(''l3'', \<lparr>lp_source = GitCleanCommittedHeadV1 digest0, lp_access = Write\<rparr>)]\<rparr>"

definition writer_vg :: ValidatedActorGraph where
  "writer_vg = \<lparr>vg_graph = writer_graph, vg_policy = writer_policy, vg_digest_sha256 = digest0\<rparr>"

lemma writer_sel: "wg_access (wo_workspace writer) = Write" "wo_id writer = WorkOrderId 1" "wo_dependencies writer = []"
    "wo_reviews writer = []" "wo_candidate_group writer = None" "wo_budget writer = budget_of 1"
    "ag_work_orders writer_graph = [writer]" "vg_graph writer_vg = writer_graph" "vg_policy writer_vg = writer_policy"
  by (simp_all add: writer_def example_ids writer_vg_def writer_graph_def)

lemma writer_valid: "valid_actor_graph writer_graph writer_policy"
proof -
  have orders: "ag_work_orders writer_graph = [writer]"
    by (simp add: writer_graph_def)
  have policy: "valid_policy writer_graph writer_policy"
    using example_valid_policy by (simp add: valid_policy_def writer_graph_def writer_policy_def digest0_valid limit_defs)
      (simp add: example_policy_def)
  have order: "valid_order writer_policy writer"
    by (simp add: valid_order_def writer_def implementer_def example_order_def writer_policy_def example_policy_def
        budget_of_def digest0_valid example_blank example_lineage limit_defs bm_get_def)
  have "dep_edge (order_index [writer]) = {}"
    by (auto simp: dep_edge_def order_index_def bm_of_list_def bm_get_def writer_sel split: if_splits)
  moreover have "within_budget (gp_limits writer_policy) [writer]"
    by (simp add: within_budget_def attempts_of_def tokens_of_def tool_calls_of_def wall_time_of_def writer_sel
        budget_of_def writer_policy_def example_policy_def)
  moreover have "order_text writer \<le> HARD_MAX_GRAPH_TEXT_BYTES"
    by (simp add: order_text_def writer_def implementer_def example_order_def limit_defs)
  ultimately show ?thesis
    using policy order
    by (simp add: valid_actor_graph_def Let_def orders exclusive_writers_def valid_edges_def group_members_def writer_sel
        acyclic_def)
qed

lemma writer_structural: "structural_limit_violations writer_graph writer_policy = []"
  by (simp add: structural_limit_violations_def order_structural_violations_def total_capability_references_def
      writer_graph_def writer_policy_def writer_def example_policy_def implementer_def example_order_def limit_defs
      usize_saturating_add_def usize_max_def)

lemma writer_validates: "validate_against example_sha256 example_json writer_graph writer_policy = Inr writer_vg"
proof -
  have "writer_graph\<lparr>ag_work_orders := sort_key wo_id (ag_work_orders writer_graph)\<rparr> = writer_graph"
    by (simp add: writer_graph_def)
  then show ?thesis
    by (simp add: validate_against_Inr_iff writer_structural writer_valid writer_vg_def example_digest)
qed

section \<open>Competing candidates\<close>

definition candidate :: "nat \<Rightarrow> string \<Rightarrow> WorkOrder" where
  "candidate n lease = (example_order n [] ''p1'' ''d1'' lease 1 [])\<lparr>wo_candidate_group := Some ''g''\<rparr>"

definition race_graph :: ActorGraph where
  "race_graph = example_graph\<lparr>ag_work_orders := [candidate 1 ''l1'', candidate 2 ''l2'']\<rparr>"

definition race_vg :: ValidatedActorGraph where
  "race_vg = \<lparr>vg_graph = race_graph, vg_policy = example_policy, vg_digest_sha256 = digest0\<rparr>"

lemma candidate_sel: "wo_id (candidate n l) = WorkOrderId n" "wo_dependencies (candidate n l) = []"
    "wo_reviews (candidate n l) = []" "wo_candidate_group (candidate n l) = Some ''g''"
    "wg_lease_id (wo_workspace (candidate n l)) = l" "wg_access (wo_workspace (candidate n l)) = ReadOnly"
    "wg_source (wo_workspace (candidate n l)) = BrokeredRepositorySnapshotV1 digest0"
    "wo_budget (candidate n l) = budget_of 1" "same_contract (candidate n l) (candidate m k)"
    "ag_work_orders race_graph = [candidate 1 ''l1'', candidate 2 ''l2'']" "vg_graph race_vg = race_graph"
  by (simp_all add: candidate_def example_order_def same_contract_def race_graph_def race_vg_def)

lemma race_no_edges: "dep_edge (order_index [candidate 1 ''l1'', candidate 2 ''l2'']) = {}"
  by (auto simp: dep_edge_def order_index_def bm_of_list_def bm_get_def candidate_sel split: if_splits)

lemma race_valid: "valid_actor_graph race_graph example_policy"
proof -
  have policy: "valid_policy race_graph example_policy"
    using example_valid_policy by (simp add: valid_policy_def race_graph_def limit_defs) (simp add: example_policy_def)
  have orders: "valid_order example_policy (candidate 1 ''l1'')" "valid_order example_policy (candidate 2 ''l2'')"
    by (simp_all add: valid_order_def candidate_def example_order_def example_policy_def example_lease_def
        budget_of_def digest0_valid example_blank example_lineage limit_defs bm_get_def)
  have "within_budget (gp_limits example_policy) [candidate 1 ''l1'', candidate 2 ''l2'']"
    by (simp add: within_budget_def attempts_of_def tokens_of_def tool_calls_of_def wall_time_of_def candidate_sel
        budget_of_def example_policy_def)
  moreover have "sum_list (map order_text [candidate 1 ''l1'', candidate 2 ''l2'']) \<le> HARD_MAX_GRAPH_TEXT_BYTES"
    by (simp add: order_text_def candidate_def example_order_def limit_defs)
  moreover have "valid_group [candidate 1 ''l1'', candidate 2 ''l2''] [candidate 1 ''l1'', candidate 2 ''l2'']"
    by (simp add: valid_group_def candidate_sel race_no_edges[unfolded One_nat_def])
  ultimately show ?thesis
    using policy orders
    by (simp add: valid_actor_graph_def Let_def candidate_sel exclusive_writers_def valid_edges_def group_members_def
        race_no_edges[unfolded One_nat_def] acyclic_def)
qed

lemma race_structural: "structural_limit_violations race_graph example_policy = []"
  by (simp add: structural_limit_violations_def order_structural_violations_def total_capability_references_def
      race_graph_def candidate_def example_policy_def example_order_def limit_defs usize_saturating_add_def usize_max_def)

lemma race_validates: "validate_against example_sha256 example_json race_graph example_policy = Inr race_vg"
proof -
  have "race_graph\<lparr>ag_work_orders := sort_key wo_id (ag_work_orders race_graph)\<rparr> = race_graph"
    by (simp add: race_graph_def candidate_sel)
  then show ?thesis
    by (simp add: validate_against_Inr_iff race_structural race_valid race_vg_def example_digest)
qed

end
