(* ===== verification/Runtime_Protocol.thy ===== *)
theory Runtime_Protocol
  imports Actor_Model
begin

text \<open>
  The part of \<open>crates/protocol/src/lib.rs\<close> that the runtime and the event store exchange: sessions,
  runs and their specifications, events, cancellations, and the bounded reads of artifacts.  Time
  stamps are numbers, a workspace path is its wire text.  Of the event payloads the model keeps the
  life cycle of sessions and runs; \<open>OtherPayload\<close> stands for the planning, child and repository
  variants, which neither the runtime nor the log reads, with their wire text.
\<close>

section \<open>Limits\<close>

definition CHILD_RECONNAISSANCE_MAX_TEXT_UNICODE_SCALARS :: nat where
  "CHILD_RECONNAISSANCE_MAX_TEXT_UNICODE_SCALARS = 32 * 1024"

definition CHILD_RECONNAISSANCE_MAX_TEXT_BYTES :: nat where
  "CHILD_RECONNAISSANCE_MAX_TEXT_BYTES = 32 * 1024"

definition READ_ONLY_REPOSITORY_AGENT_V1_TOTAL_RESERVED_OUTPUT_TOKENS :: u64 where
  "READ_ONLY_REPOSITORY_AGENT_V1_TOTAL_RESERVED_OUTPUT_TOKENS = 8 * 1536"

definition READ_ONLY_REPOSITORY_AGENT_V1_MAX_WALL_TIME_SECONDS :: u64 where
  "READ_ONLY_REPOSITORY_AGENT_V1_MAX_WALL_TIME_SECONDS = 180"

definition ROOT_PLANNING_POLICY_V1_INITIAL_PLAN_MAX_OUTPUT_TOKENS :: u32 where
  "ROOT_PLANNING_POLICY_V1_INITIAL_PLAN_MAX_OUTPUT_TOKENS = 16384"

definition ROOT_PLANNING_POLICY_V1_INITIAL_REVIEW_MAX_OUTPUT_TOKENS :: u32 where
  "ROOT_PLANNING_POLICY_V1_INITIAL_REVIEW_MAX_OUTPUT_TOKENS = 4096"

definition PARALLEL_RECONNAISSANCE_V1_MAX_TOTAL_RESERVED_OUTPUT_TOKENS :: u64 where
  "PARALLEL_RECONNAISSANCE_V1_MAX_TOTAL_RESERVED_OUTPUT_TOKENS = 1048576"

definition PARALLEL_RECONNAISSANCE_V1_OUTPUT_TOKENS_PER_MODEL_TURN :: u64 where
  "PARALLEL_RECONNAISSANCE_V1_OUTPUT_TOKENS_PER_MODEL_TURN = 8192"

text \<open>The repair and the final review have the allowances of the initial plan and the initial review.\<close>

definition PARALLEL_RECONNAISSANCE_V1_ROOT_PLANNING_WORST_CASE_OUTPUT_TOKENS :: u64 where
  "PARALLEL_RECONNAISSANCE_V1_ROOT_PLANNING_WORST_CASE_OUTPUT_TOKENS =
     ucast ROOT_PLANNING_POLICY_V1_INITIAL_PLAN_MAX_OUTPUT_TOKENS
     + ucast ROOT_PLANNING_POLICY_V1_INITIAL_REVIEW_MAX_OUTPUT_TOKENS
     + ucast ROOT_PLANNING_POLICY_V1_INITIAL_PLAN_MAX_OUTPUT_TOKENS
     + ucast ROOT_PLANNING_POLICY_V1_INITIAL_REVIEW_MAX_OUTPUT_TOKENS"

text \<open>Two planner stages of two attempts; two children of two attempts of two model turns.\<close>

definition PARALLEL_RECONNAISSANCE_V1_MIN_TOTAL_RESERVED_OUTPUT_TOKENS :: u64 where
  "PARALLEL_RECONNAISSANCE_V1_MIN_TOTAL_RESERVED_OUTPUT_TOKENS =
     PARALLEL_RECONNAISSANCE_V1_ROOT_PLANNING_WORST_CASE_OUTPUT_TOKENS
     + 2 * 2 * PARALLEL_RECONNAISSANCE_V1_OUTPUT_TOKENS_PER_MODEL_TURN
     + 2 * 2 * 2 * PARALLEL_RECONNAISSANCE_V1_OUTPUT_TOKENS_PER_MODEL_TURN"

definition MAX_ARTIFACT_CHUNK_BYTES :: u32 where
  "MAX_ARTIFACT_CHUNK_BYTES = 256 * 1024"

lemmas protocol_limit_defs =
  CHILD_RECONNAISSANCE_MAX_TEXT_UNICODE_SCALARS_def CHILD_RECONNAISSANCE_MAX_TEXT_BYTES_def
  READ_ONLY_REPOSITORY_AGENT_V1_TOTAL_RESERVED_OUTPUT_TOKENS_def
  READ_ONLY_REPOSITORY_AGENT_V1_MAX_WALL_TIME_SECONDS_def
  ROOT_PLANNING_POLICY_V1_INITIAL_PLAN_MAX_OUTPUT_TOKENS_def
  ROOT_PLANNING_POLICY_V1_INITIAL_REVIEW_MAX_OUTPUT_TOKENS_def
  PARALLEL_RECONNAISSANCE_V1_MAX_TOTAL_RESERVED_OUTPUT_TOKENS_def
  PARALLEL_RECONNAISSANCE_V1_OUTPUT_TOKENS_PER_MODEL_TURN_def
  PARALLEL_RECONNAISSANCE_V1_ROOT_PLANNING_WORST_CASE_OUTPUT_TOKENS_def
  PARALLEL_RECONNAISSANCE_V1_MIN_TOTAL_RESERVED_OUTPUT_TOKENS_def

section \<open>Sessions and runs\<close>

datatype SessionId = SessionId uuid
datatype RunId = RunId uuid
datatype EventId = EventId uuid
datatype CancellationRequestId = CancellationRequestId uuid
datatype RunClaimId = RunClaimId uuid
datatype RuntimeInstanceId = RuntimeInstanceId uuid

type_synonym timestamp = int
type_synonym WorkspacePath = string

datatype ErrorCode = CodeInvalidRequest | CodeIncompatibleProtocol | CodeNotFound | CodeConflict | CodeInternal

record ProtocolError =
  pe_code :: ErrorCode
  pe_message :: string
  pe_retryable :: bool

record Session =
  sn_id :: SessionId
  sn_workspace_root :: WorkspacePath
  sn_title :: "string option"
  sn_created_at :: timestamp

datatype PlanAcceptanceContract = IndependentSemanticReviewV1 | LegacyMechanicalOnlyV4 | NotApplicable

datatype RunPurpose = PlanOnly | ParallelRepositoryReconnaissanceV1 | Execute

datatype BackendKind = ModelBackend | AgentBackend

record BackendSelection =
  bk_backend_id :: string
  bk_kind :: BackendKind
  bk_model :: "string option"
  bk_reasoning_effort :: "string option"

record ArtifactRef =
  art_sha256 :: string
  art_size_bytes :: u64
  art_media_type :: string

datatype InputItem = TextInput string | ArtifactInput ArtifactRef

record RunLimits =
  rl_max_output_tokens :: "u64 option"
  rl_max_wall_time_seconds :: "u64 option"
  rl_max_subagents :: u32

record RunSpec =
  rs_session_id :: SessionId
  rs_purpose :: RunPurpose
  rs_plan_acceptance :: PlanAcceptanceContract
  rs_backend :: BackendSelection
  rs_input :: "InputItem list"
  rs_limits :: RunLimits

record CreateRunRequest =
  rq_run_id :: RunId
  rq_spec :: RunSpec

datatype RunState = Queued | Running | Waiting | RunCompleted | RunFailed | RunCancelled

record Run =
  rn_id :: RunId
  rn_spec :: RunSpec
  rn_state :: RunState
  rn_created_at :: timestamp

definition with_id :: "timestamp \<Rightarrow> RunId \<Rightarrow> RunSpec \<Rightarrow> Run" where
  "with_id now rid spec = \<lparr>rn_id = rid, rn_spec = spec, rn_state = Queued, rn_created_at = now\<rparr>"

section \<open>Cancellations and events\<close>

record CancellationRequested =
  cq_cancellation_request_id :: CancellationRequestId
  cq_cancellation_generation :: u64

datatype CancellationDisposition = CancellationRecorded | AlreadyRequested | RunAlreadyTerminal

record CancellationReceipt =
  ct_run_id :: RunId
  ct_cancellation_request_id :: CancellationRequestId
  ct_cancellation_generation :: u64
  ct_disposition :: CancellationDisposition

record Provenance =
  pv_producer :: string
  pv_backend :: "BackendSelection option"
  pv_raw_artifact :: "ArtifactRef option"

record RunClaimed =
  cl_claim_id :: RunClaimId
  cl_runtime_instance_id :: RuntimeInstanceId
  cl_claim_generation :: u64
  cl_cancellation_generation :: u64
  cl_lease_expires_at :: timestamp

datatype EventPayload =
    SessionCreated Session
  | UserInput "InputItem list"
  | RunCreated Run
  | RunStateChanged RunState RunState
  | RunClaimedEvent RunClaimed
  | CancellationEvent CancellationRequested
  | OtherPayload string

record NewEvent =
  ne_session_id :: SessionId
  ne_run_id :: "RunId option"
  ne_actor_id :: uuid
  ne_causal_parent :: "EventId option"
  ne_provenance :: Provenance
  ne_payload :: EventPayload

record EventEnvelope =
  ee_id :: EventId
  ee_sequence :: u64
  ee_session_id :: SessionId
  ee_run_id :: "RunId option"
  ee_actor_id :: uuid
  ee_causal_parent :: "EventId option"
  ee_occurred_at :: timestamp
  ee_provenance :: Provenance
  ee_payload :: EventPayload

record EventPage =
  ep_events :: "EventEnvelope list"
  ep_next_sequence :: u64
  ep_has_more :: bool

section \<open>Bounded reads of artifacts\<close>

datatype ArtifactReadContractError =
    InvalidDigest
  | InvalidMaxBytes u32
  | OffsetBeyondArtifact u64 u64
  | ChunkTooLarge nat
  | EmptyNonTerminalChunk
  | RangeOverflow
  | ChunkBeyondArtifact u64 u64
  | InvalidEndOfFile bool bool
  | InvalidNextOffset u64 u64

datatype Sha256DigestError = InvalidLength nat | InvalidCharacter

definition sha256_parse :: "string \<Rightarrow> Sha256DigestError + string" where
  "sha256_parse value =
     (if length value \<noteq> 64 then Inl (InvalidLength (length value))
      else if \<not> list_all (\<lambda>b. is_ascii_digit b \<or> (97 \<le> byte b \<and> byte b \<le> 102)) value
      then Inl InvalidCharacter
      else Inr value)"

definition validate_artifact_ref :: "ArtifactRef \<Rightarrow> ArtifactReadContractError + unit" where
  "validate_artifact_ref artifact =
     (case sha256_parse (art_sha256 artifact) of Inl _ \<Rightarrow> Inl InvalidDigest | Inr _ \<Rightarrow> Inr ())"

record GetArtifactRequest =
  gr_artifact :: ArtifactRef
  gr_offset :: u64
  gr_max_bytes :: u32

definition get_artifact_request_new ::
  "ArtifactRef \<Rightarrow> u64 \<Rightarrow> u32 \<Rightarrow> ArtifactReadContractError + GetArtifactRequest" where
  "get_artifact_request_new artifact offset max_bytes =
     (case validate_artifact_ref artifact of
        Inl e \<Rightarrow> Inl e
      | Inr _ \<Rightarrow>
          (if max_bytes = 0 \<or> max_bytes > MAX_ARTIFACT_CHUNK_BYTES then Inl (InvalidMaxBytes max_bytes)
           else if offset > art_size_bytes artifact
           then Inl (OffsetBeyondArtifact offset (art_size_bytes artifact))
           else Inr \<lparr>gr_artifact = artifact, gr_offset = offset, gr_max_bytes = max_bytes\<rparr>))"

record ArtifactChunk =
  ck_artifact :: ArtifactRef
  ck_offset :: u64
  ck_next_offset :: u64
  ck_eof :: bool
  ck_data :: "u8 list"

definition artifact_chunk_new ::
  "ArtifactRef \<Rightarrow> u64 \<Rightarrow> u8 list \<Rightarrow> bool \<Rightarrow> ArtifactReadContractError + ArtifactChunk" where
  "artifact_chunk_new artifact offset data eof =
     (case validate_artifact_ref artifact of
        Inl e \<Rightarrow> Inl e
      | Inr _ \<Rightarrow>
          (if offset > art_size_bytes artifact
           then Inl (OffsetBeyondArtifact offset (art_size_bytes artifact))
           else if length data > unat MAX_ARTIFACT_CHUNK_BYTES then Inl (ChunkTooLarge (length data))
           else if data = [] \<and> offset < art_size_bytes artifact then Inl EmptyNonTerminalChunk
           else if length data \<ge> 2 ^ 64 then Inl RangeOverflow
           else case checked_add offset (of_nat (length data)) of
             None \<Rightarrow> Inl RangeOverflow
           | Some next_offset \<Rightarrow>
               (if next_offset > art_size_bytes artifact
                then Inl (ChunkBeyondArtifact next_offset (art_size_bytes artifact))
                else if eof \<noteq> (next_offset = art_size_bytes artifact)
                then Inl (InvalidEndOfFile (next_offset = art_size_bytes artifact) eof)
                else Inr \<lparr>ck_artifact = artifact, ck_offset = offset, ck_next_offset = next_offset,
                          ck_eof = eof, ck_data = data\<rparr>)))"

lemma validate_artifact_ref_iff: "validate_artifact_ref artifact = Inr () \<longleftrightarrow> valid_sha256 (art_sha256 artifact)"
  by (simp add: validate_artifact_ref_def sha256_parse_def valid_sha256_def)

lemma validate_artifact_ref_cases:
  "validate_artifact_ref artifact = (if valid_sha256 (art_sha256 artifact) then Inr () else Inl InvalidDigest)"
  by (simp add: validate_artifact_ref_def sha256_parse_def valid_sha256_def)

text \<open>A request is built exactly for a canonical reference, a bounded size and an offset in the artifact.\<close>

lemma get_artifact_request_new_Inr_iff:
  "get_artifact_request_new artifact offset max_bytes = Inr r \<longleftrightarrow>
     valid_sha256 (art_sha256 artifact) \<and> 0 < max_bytes \<and> max_bytes \<le> MAX_ARTIFACT_CHUNK_BYTES
     \<and> offset \<le> art_size_bytes artifact
     \<and> r = \<lparr>gr_artifact = artifact, gr_offset = offset, gr_max_bytes = max_bytes\<rparr>"
  by (auto simp: get_artifact_request_new_def validate_artifact_ref_cases not_less word_greater_zero_iff)

end
