(* ===== verification/Run_Specs.thy ===== *)
theory Run_Specs
  imports Runtime_Protocol
begin

text \<open>
  The checks of run specifications of \<open>crates/runtime/src/runtime.rs\<close>, one per purpose, with their
  errors in the order of the code, and the declarative notion \<open>valid_run_spec\<close> that they decide.
\<close>

section \<open>Errors of the runtime\<close>

datatype RepositoryErrorKind = RepoInvalidRequest | RepoNotFound | RepoConflict | RepoUnavailable | RepoInternal

record RepositoryError =
  re_kind :: RepositoryErrorKind
  re_message :: string

datatype RuntimeError =
    IncompatibleProtocol u32 u32
  | UnsupportedRunPurpose RunPurpose
  | InvalidRunSpec string
  | SessionNotFound SessionId
  | RunNotFound RunId
  | RunConflict RunId
  | RepositoryFailed RepositoryError

text \<open>The messages with identifiers and numbers are texts of the formatter: parameters.\<close>

record formatter =
  fm_protocol :: "u32 \<Rightarrow> u32 \<Rightarrow> string"
  fm_purpose :: "RunPurpose \<Rightarrow> string"
  fm_session :: "SessionId \<Rightarrow> string"
  fm_run :: "RunId \<Rightarrow> string"
  fm_run_conflict :: "RunId \<Rightarrow> string"

fun repository_code :: "RepositoryErrorKind \<Rightarrow> ErrorCode" where
  "repository_code RepoInvalidRequest = CodeInvalidRequest"
| "repository_code RepoNotFound = CodeNotFound"
| "repository_code RepoConflict = CodeConflict"
| "repository_code RepoUnavailable = CodeInternal"
| "repository_code RepoInternal = CodeInternal"

fun to_protocol_error :: "formatter \<Rightarrow> RuntimeError \<Rightarrow> ProtocolError" where
  "to_protocol_error fm (IncompatibleProtocol requested supported) =
     \<lparr>pe_code = CodeIncompatibleProtocol, pe_message = fm_protocol fm requested supported, pe_retryable = False\<rparr>"
| "to_protocol_error fm (UnsupportedRunPurpose purpose) =
     \<lparr>pe_code = CodeInvalidRequest, pe_message = fm_purpose fm purpose, pe_retryable = False\<rparr>"
| "to_protocol_error fm (InvalidRunSpec reason) =
     \<lparr>pe_code = CodeInvalidRequest, pe_message = reason, pe_retryable = False\<rparr>"
| "to_protocol_error fm (SessionNotFound sid) =
     \<lparr>pe_code = CodeNotFound, pe_message = fm_session fm sid, pe_retryable = False\<rparr>"
| "to_protocol_error fm (RunNotFound rid) =
     \<lparr>pe_code = CodeNotFound, pe_message = fm_run fm rid, pe_retryable = False\<rparr>"
| "to_protocol_error fm (RunConflict rid) =
     \<lparr>pe_code = CodeConflict, pe_message = fm_run_conflict fm rid, pe_retryable = False\<rparr>"
| "to_protocol_error fm (RepositoryFailed error) =
     \<lparr>pe_code = repository_code (re_kind error), pe_message = ''local runtime state operation failed'',
      pe_retryable = (re_kind error = RepoUnavailable)\<rparr>"

section \<open>Specifications by purpose\<close>

text \<open>The pairs of purpose and acceptance contract that a new run may have.\<close>

definition contract_consistent :: "RunPurpose \<Rightarrow> PlanAcceptanceContract \<Rightarrow> bool" where
  "contract_consistent purpose acceptance \<longleftrightarrow>
     ((purpose = PlanOnly \<or> purpose = ParallelRepositoryReconnaissanceV1) \<and> acceptance = IndependentSemanticReviewV1)
     \<or> (purpose = Execute \<and> acceptance = NotApplicable)"

abbreviation invalid_spec :: "string \<Rightarrow> RuntimeError + 'a" where
  "invalid_spec reason \<equiv> Inl (InvalidRunSpec reason)"

fun plan_only_inputs :: "InputItem list \<Rightarrow> RuntimeError + unit" where
  "plan_only_inputs [] = Inr ()"
| "plan_only_inputs (TextInput text # items) =
     (if \<not> is_blank text then plan_only_inputs items
      else invalid_spec ''plan-only text input must not be blank'')"
| "plan_only_inputs (ArtifactInput artifact # items) =
     invalid_spec ''artifact input is not implemented for plan-only runs''"

definition exceeds :: "u64 option \<Rightarrow> u64 \<Rightarrow> bool" where
  "exceeds limit bound \<longleftrightarrow> (case limit of None \<Rightarrow> False | Some l \<Rightarrow> l > bound)"

definition below :: "u64 option \<Rightarrow> u64 \<Rightarrow> bool" where
  "below limit bound \<longleftrightarrow> (case limit of None \<Rightarrow> False | Some l \<Rightarrow> l < bound)"

definition validate_plan_only_spec :: "CreateRunRequest \<Rightarrow> RuntimeError + unit" where
  "validate_plan_only_spec request =
     (let spec = rq_spec request; backend = rs_backend spec; limits = rs_limits spec in
      if rs_plan_acceptance spec \<noteq> IndependentSemanticReviewV1
      then invalid_spec ''new plan-only runs require independent semantic review''
      else if bk_kind backend \<noteq> ModelBackend then invalid_spec ''plan-only runs require a model backend''
      else if is_blank (bk_backend_id backend) then invalid_spec ''backend_id must not be blank''
      else if (case bk_model backend of None \<Rightarrow> True | Some model \<Rightarrow> is_blank model)
      then invalid_spec ''plan-only runs require an explicit model''
      else if rs_input spec = [] then invalid_spec ''plan-only runs require at least one text input''
      else case plan_only_inputs (rs_input spec) of
        Inl e \<Rightarrow> Inl e
      | Inr _ \<Rightarrow>
          (if rl_max_output_tokens limits = Some 0
           then invalid_spec ''max_output_tokens must be greater than zero''
           else if exceeds (rl_max_output_tokens limits) (ucast ROOT_PLANNING_POLICY_V1_INITIAL_PLAN_MAX_OUTPUT_TOKENS)
           then invalid_spec ''max_output_tokens exceeds the PlanOnly hard limit''
           else if rl_max_wall_time_seconds limits = Some 0
           then invalid_spec ''max_wall_time_seconds must be greater than zero''
           else if rl_max_subagents limits \<noteq> 0
           then invalid_spec ''the read-only plan slice does not authorize subagents''
           else Inr ()))"

text \<open>An identifier without surrounding white space.\<close>

definition exact_identifier :: "string \<Rightarrow> bool" where
  "exact_identifier s \<longleftrightarrow> s \<noteq> [] \<and> trim s = s"

definition validate_parallel_repository_reconnaissance_v1_spec :: "CreateRunRequest \<Rightarrow> RuntimeError + unit" where
  "validate_parallel_repository_reconnaissance_v1_spec request =
     (let spec = rq_spec request; backend = rs_backend spec; limits = rs_limits spec in
      if rs_plan_acceptance spec \<noteq> IndependentSemanticReviewV1
      then invalid_spec ''parallel repository reconnaissance requires independent semantic review''
      else if bk_kind backend \<noteq> ModelBackend
      then invalid_spec ''parallel repository reconnaissance requires a model backend''
      else if bk_backend_id backend = [] \<or> trim (bk_backend_id backend) \<noteq> bk_backend_id backend
      then invalid_spec ''backend_id must be an exact nonblank identifier''
      else case bk_model backend of
        None \<Rightarrow> invalid_spec ''parallel repository reconnaissance requires an explicit model''
      | Some model \<Rightarrow>
          if model = [] \<or> trim model \<noteq> model
          then invalid_spec ''model must be an exact nonblank identifier''
          else case (case rs_input spec of
               [TextInput text] \<Rightarrow>
                 (if \<not> is_blank text then Inr ()
                  else invalid_spec ''parallel repository reconnaissance text input must not be blank'')
             | [ArtifactInput _] \<Rightarrow>
                 invalid_spec ''artifact input is not implemented for parallel repository reconnaissance''
             | _ \<Rightarrow> invalid_spec ''parallel repository reconnaissance requires exactly one text input'') of
            Inl e \<Rightarrow> Inl e
          | Inr _ \<Rightarrow>
              if rl_max_output_tokens limits = Some 0
              then invalid_spec ''max_output_tokens must be greater than zero''
              else if exceeds (rl_max_output_tokens limits) PARALLEL_RECONNAISSANCE_V1_MAX_TOTAL_RESERVED_OUTPUT_TOKENS
              then invalid_spec ''max_output_tokens exceeds the parallel reconnaissance v1 aggregate reservation limit''
              else if below (rl_max_output_tokens limits) PARALLEL_RECONNAISSANCE_V1_MIN_TOTAL_RESERVED_OUTPUT_TOKENS
              then invalid_spec ''max_output_tokens cannot fund the complete parallel reconnaissance v1 call shape''
              else if rl_max_wall_time_seconds limits = Some 0
              then invalid_spec ''max_wall_time_seconds must be greater than zero''
              else if rl_max_subagents limits \<noteq> 2
              then invalid_spec ''parallel repository reconnaissance v1 requires authority for exactly two subagents''
              else Inr ())"

definition supported_reasoning :: "string \<Rightarrow> bool" where
  "supported_reasoning reasoning \<longleftrightarrow> reasoning \<in> {''off'', ''on'', ''low'', ''medium'', ''high''}"

text \<open>The only text input of an execution.\<close>

fun execute_goal :: "InputItem list \<Rightarrow> RuntimeError + string" where
  "execute_goal [TextInput text] =
     (if \<not> is_blank text then Inr text
      else invalid_spec ''the read-only Execute v1 goal must not be blank'')"
| "execute_goal [ArtifactInput _] =
     invalid_spec ''artifact input is not implemented for the read-only Execute v1 profile''"
| "execute_goal _ = invalid_spec ''the read-only Execute v1 profile requires exactly one text goal''"

definition validate_execute_read_only_repository_agent_v1_spec :: "CreateRunRequest \<Rightarrow> RuntimeError + unit" where
  "validate_execute_read_only_repository_agent_v1_spec request =
     (let spec = rq_spec request; backend = rs_backend spec; limits = rs_limits spec in
      if rs_plan_acceptance spec \<noteq> NotApplicable
      then invalid_spec ''the read-only Execute v1 profile requires plan_acceptance not_applicable''
      else if bk_kind backend \<noteq> ModelBackend
      then invalid_spec ''the read-only Execute v1 profile requires a model backend''
      else if bk_backend_id backend = [] \<or> trim (bk_backend_id backend) \<noteq> bk_backend_id backend
      then invalid_spec ''backend_id must be an exact nonblank identifier''
      else case bk_model backend of
        None \<Rightarrow> invalid_spec ''the read-only Execute v1 profile requires an explicit model''
      | Some model \<Rightarrow>
          if model = [] \<or> trim model \<noteq> model
          then invalid_spec ''model must be an exact nonblank identifier''
          else if (case bk_reasoning_effort backend of None \<Rightarrow> False | Some reasoning \<Rightarrow> \<not> supported_reasoning reasoning)
          then invalid_spec ''the read-only Execute v1 reasoning setting is unsupported''
          else case execute_goal (rs_input spec) of
            Inl e \<Rightarrow> Inl e
          | Inr goal \<Rightarrow>
              if length goal > CHILD_RECONNAISSANCE_MAX_TEXT_BYTES
                 \<or> chars_count goal > CHILD_RECONNAISSANCE_MAX_TEXT_UNICODE_SCALARS
              then invalid_spec ''the read-only Execute v1 goal exceeds the bounded model-visible text contract''
              else if rl_max_output_tokens limits \<noteq> Some READ_ONLY_REPOSITORY_AGENT_V1_TOTAL_RESERVED_OUTPUT_TOKENS
              then invalid_spec ''the read-only Execute v1 profile requires its exact aggregate output reservation''
              else case rl_max_wall_time_seconds limits of
                None \<Rightarrow> invalid_spec ''the read-only Execute v1 profile requires finite wall-time authority''
              | Some seconds \<Rightarrow>
                  if seconds = 0 \<or> seconds > READ_ONLY_REPOSITORY_AGENT_V1_MAX_WALL_TIME_SECONDS
                  then invalid_spec ''the read-only Execute v1 wall-time authority is outside its closed bound''
                  else if rl_max_subagents limits \<noteq> 0
                  then invalid_spec ''the single-agent read-only Execute v1 profile grants no delegation authority''
                  else Inr ())"

text \<open>The match on the purpose in \<open>create_run\<close>.\<close>

definition validate_run_spec :: "CreateRunRequest \<Rightarrow> RuntimeError + unit" where
  "validate_run_spec request =
     (case rs_purpose (rq_spec request) of
        PlanOnly \<Rightarrow> validate_plan_only_spec request
      | ParallelRepositoryReconnaissanceV1 \<Rightarrow> validate_parallel_repository_reconnaissance_v1_spec request
      | Execute \<Rightarrow> validate_execute_read_only_repository_agent_v1_spec request)"

section \<open>What the checks decide\<close>

definition nonblank_text :: "InputItem \<Rightarrow> bool" where
  "nonblank_text item \<longleftrightarrow> (\<exists>text. item = TextInput text \<and> \<not> is_blank text)"

definition plan_only_ok :: "RunSpec \<Rightarrow> bool" where
  "plan_only_ok spec \<longleftrightarrow>
     \<not> is_blank (bk_backend_id (rs_backend spec))
     \<and> (\<exists>model. bk_model (rs_backend spec) = Some model \<and> \<not> is_blank model)
     \<and> rs_input spec \<noteq> [] \<and> list_all nonblank_text (rs_input spec)
     \<and> (case rl_max_output_tokens (rs_limits spec) of None \<Rightarrow> True | Some n \<Rightarrow> 0 < n \<and> n \<le> 16384)
     \<and> rl_max_wall_time_seconds (rs_limits spec) \<noteq> Some 0 \<and> rl_max_subagents (rs_limits spec) = 0"

definition exact_backend :: "RunSpec \<Rightarrow> bool" where
  "exact_backend spec \<longleftrightarrow> exact_identifier (bk_backend_id (rs_backend spec))
     \<and> (\<exists>model. bk_model (rs_backend spec) = Some model \<and> exact_identifier model)"

definition reconnaissance_ok :: "RunSpec \<Rightarrow> bool" where
  "reconnaissance_ok spec \<longleftrightarrow>
     exact_backend spec \<and> (\<exists>item. rs_input spec = [item] \<and> nonblank_text item)
     \<and> (case rl_max_output_tokens (rs_limits spec) of None \<Rightarrow> True | Some n \<Rightarrow> 139264 \<le> n \<and> n \<le> 1048576)
     \<and> rl_max_wall_time_seconds (rs_limits spec) \<noteq> Some 0 \<and> rl_max_subagents (rs_limits spec) = 2"

definition execute_ok :: "RunSpec \<Rightarrow> bool" where
  "execute_ok spec \<longleftrightarrow>
     exact_backend spec
     \<and> (case bk_reasoning_effort (rs_backend spec) of None \<Rightarrow> True | Some r \<Rightarrow> supported_reasoning r)
     \<and> (\<exists>goal. rs_input spec = [TextInput goal] \<and> \<not> is_blank goal \<and> length goal \<le> 32768)
     \<and> rl_max_output_tokens (rs_limits spec) = Some 12288
     \<and> (\<exists>seconds. rl_max_wall_time_seconds (rs_limits spec) = Some seconds \<and> 0 < seconds \<and> seconds \<le> 180)
     \<and> rl_max_subagents (rs_limits spec) = 0"

definition valid_run_spec :: "RunSpec \<Rightarrow> bool" where
  "valid_run_spec spec \<longleftrightarrow>
     contract_consistent (rs_purpose spec) (rs_plan_acceptance spec) \<and> bk_kind (rs_backend spec) = ModelBackend
     \<and> (case rs_purpose spec of PlanOnly \<Rightarrow> plan_only_ok spec
        | ParallelRepositoryReconnaissanceV1 \<Rightarrow> reconnaissance_ok spec | Execute \<Rightarrow> execute_ok spec)"

lemma plan_only_inputs_iff: "plan_only_inputs items = Inr () \<longleftrightarrow> list_all nonblank_text items"
  by (induction items rule: plan_only_inputs.induct) (auto simp: nonblank_text_def)

lemma execute_goal_iff: "execute_goal items = Inr goal \<longleftrightarrow> items = [TextInput goal] \<and> \<not> is_blank goal"
  by (cases items rule: execute_goal.cases) auto

lemma inr_unit_cases: "(case r of Inl e \<Rightarrow> Inl e | Inr _ \<Rightarrow> k) = Inr y \<longleftrightarrow> r = Inr () \<and> k = Inr y"
  for r :: "'e + unit" and k :: "'e + 'a"
  by (cases r) auto

lemma word_pos: "0 < n \<longleftrightarrow> n \<noteq> 0" for n :: u64
  by (rule word_greater_zero_iff)

lemma plan_only_iff:
  "validate_plan_only_spec request = Inr () \<longleftrightarrow>
     rs_plan_acceptance (rq_spec request) = IndependentSemanticReviewV1
     \<and> bk_kind (rs_backend (rq_spec request)) = ModelBackend \<and> plan_only_ok (rq_spec request)"
  by (auto simp: validate_plan_only_spec_def plan_only_ok_def Let_def inr_unit_cases plan_only_inputs_iff exceeds_def
      protocol_limit_defs word_pos not_less split: option.splits)

lemma single_text_iff:
  "(case items of [TextInput text] \<Rightarrow> (if \<not> is_blank text then Inr () else Inl a)
    | [ArtifactInput x] \<Rightarrow> Inl b | _ \<Rightarrow> Inl c) = (Inr () :: RuntimeError + unit)
   \<longleftrightarrow> (\<exists>item. items = [item] \<and> nonblank_text item)"
  by (auto simp: nonblank_text_def split: list.splits InputItem.splits if_splits)

lemma reconnaissance_iff:
  "validate_parallel_repository_reconnaissance_v1_spec request = Inr () \<longleftrightarrow>
     rs_plan_acceptance (rq_spec request) = IndependentSemanticReviewV1
     \<and> bk_kind (rs_backend (rq_spec request)) = ModelBackend \<and> reconnaissance_ok (rq_spec request)"
  by (auto simp: validate_parallel_repository_reconnaissance_v1_spec_def reconnaissance_ok_def exact_backend_def
      exact_identifier_def Let_def inr_unit_cases single_text_iff exceeds_def below_def protocol_limit_defs not_less
      split: option.splits)

lemma execute_iff:
  "validate_execute_read_only_repository_agent_v1_spec request = Inr () \<longleftrightarrow>
     rs_plan_acceptance (rq_spec request) = NotApplicable
     \<and> bk_kind (rs_backend (rq_spec request)) = ModelBackend \<and> execute_ok (rq_spec request)"
proof -
  let ?spec = "rq_spec request"
  have count: "length goal \<le> 32768 \<Longrightarrow> \<not> 32768 < chars_count goal" for goal
    using chars_count_le[of goal] by simp
  show ?thesis
  proof (cases "bk_model (rs_backend ?spec)")
    case None
    then show ?thesis
      by (simp add: validate_execute_read_only_repository_agent_v1_spec_def execute_ok_def exact_backend_def Let_def)
  next
    case (Some model)
    note model = this
    show ?thesis
    proof (cases "execute_goal (rs_input ?spec)")
      case (Inl e)
      then have "\<nexists>goal. rs_input ?spec = [TextInput goal] \<and> \<not> is_blank goal"
        by (auto simp flip: execute_goal_iff)
      with Inl model show ?thesis
        by (auto simp: validate_execute_read_only_repository_agent_v1_spec_def execute_ok_def Let_def)
    next
      case (Inr goal)
      then have input: "rs_input ?spec = [TextInput goal]" "\<not> is_blank goal"
        by (simp_all add: execute_goal_iff)
      show ?thesis
        using model Inr input(2) count[of goal]
        by (cases "rl_max_wall_time_seconds (rs_limits ?spec)"; cases "bk_reasoning_effort (rs_backend ?spec)")
          (auto simp: validate_execute_read_only_repository_agent_v1_spec_def execute_ok_def exact_backend_def
            exact_identifier_def Let_def protocol_limit_defs word_pos not_less input(1))
    qed
  qed
qed

lemma validate_run_spec_iff:
  "contract_consistent (rs_purpose (rq_spec request)) (rs_plan_acceptance (rq_spec request))
     \<and> validate_run_spec request = Inr () \<longleftrightarrow> valid_run_spec (rq_spec request)"
  by (auto simp: validate_run_spec_def valid_run_spec_def contract_consistent_def plan_only_iff reconnaissance_iff execute_iff
      split: RunPurpose.splits)

text \<open>Every failure is an invalid specification with its reason.\<close>

lemma plan_only_inputs_error: "plan_only_inputs items = Inl e \<Longrightarrow> \<exists>reason. e = InvalidRunSpec reason"
  by (induction items rule: plan_only_inputs.induct) (auto split: if_splits)

lemma execute_goal_error: "execute_goal items = Inl e \<Longrightarrow> \<exists>reason. e = InvalidRunSpec reason"
  by (cases items rule: execute_goal.cases) (auto split: if_splits)

lemma validate_run_spec_error:
  assumes "validate_run_spec request = Inl e"
  shows "\<exists>reason. e = InvalidRunSpec reason"
  using assms
  by (auto simp: validate_run_spec_def validate_plan_only_spec_def validate_parallel_repository_reconnaissance_v1_spec_def
      validate_execute_read_only_repository_agent_v1_spec_def Let_def dest: plan_only_inputs_error execute_goal_error
      split: RunPurpose.splits if_splits sum.splits option.splits list.splits InputItem.splits)

end
