(* ===== verification/Event_Store.thy ===== *)
theory Event_Store
  imports Run_Specs
begin

text \<open>
  The core of the event store: \<open>crates/store/src/store_core_api.rs\<close> and the functions of
  \<open>crates/store/src/lib.rs\<close> that it calls.  The tables are lists of rows, and what the schema makes
  SQLite do on an insert into \<open>events\<close> (keys, foreign keys, triggers) is part of the insertion.
  A transaction that fails leaves the tables as they were.

  Rows of \<open>sessions\<close> and \<open>runs\<close> hold the values whose JSON they store.  Parameters (\<open>store_env\<close>): the
  serializer and the deserializer of events, the generator of event identifiers and the clock, the
  failures of SQLite itself when it commits and when it answers a query, and the semantic admission of the single payloads
  (\<open>validate_typed_artifact_refs\<close>, \<open>validate_generic_event\<close>, \<open>reject_public_store_owned_event\<close>),
  which may refuse anything.
\<close>

section \<open>Errors\<close>

datatype sqlite_code = ConstraintViolation | DatabaseBusy | DatabaseLocked | OtherSqlite

datatype io_kind = IoNotFound | IoInterrupted | IoWouldBlock | IoTimedOut | IoOther

text \<open>\<open>Database None\<close> is an error of the driver that is not a failure of SQLite.\<close>

datatype StoreError =
    Database "sqlite_code option"
  | JsonError string
  | IoError io_kind
  | InvalidArtifactHash
  | ArtifactTooLarge
  | ArtifactReferenceBudget
  | ArtifactIntegrity
  | SequenceOverflow
  | EventTooLarge
  | InvalidStateEvent
  | IdentifiedEventConflict
  | IncompatibleSchema int int string

fun is_conflict :: "StoreError \<Rightarrow> bool" where
  "is_conflict IdentifiedEventConflict = True"
| "is_conflict (Database (Some code)) = (code = ConstraintViolation)"
| "is_conflict _ = False"

fun store_error_retryable :: "StoreError \<Rightarrow> bool" where
  "store_error_retryable (Database (Some code)) = (code = DatabaseBusy \<or> code = DatabaseLocked)"
| "store_error_retryable (IoError kind) = (kind = IoInterrupted \<or> kind = IoWouldBlock \<or> kind = IoTimedOut)"
| "store_error_retryable _ = False"

text \<open>The text of an error is its \<open>Display\<close>, a parameter.\<close>

definition repository_error :: "(StoreError \<Rightarrow> string) \<Rightarrow> StoreError \<Rightarrow> RepositoryError" where
  "repository_error display error =
     \<lparr>re_kind =
        (if is_conflict error then RepoConflict
         else if error = IoError IoNotFound then RepoNotFound
         else if error = EventTooLarge \<or> error = ArtifactReferenceBudget then RepoInvalidRequest
         else if store_error_retryable error then RepoUnavailable
         else RepoInternal),
      re_message = display error\<rparr>"

section \<open>Tables\<close>

definition EVENT_PAGE_SIZE :: nat where
  "EVENT_PAGE_SIZE = 512"

definition EVENT_PAGE_BYTES :: nat where
  "EVENT_PAGE_BYTES = 1024 * 1024"

definition MAX_INLINE_EVENT_BYTES :: nat where
  "MAX_INLINE_EVENT_BYTES = 256 * 1024"

lemmas page_limit_defs = EVENT_PAGE_SIZE_def EVENT_PAGE_BYTES_def MAX_INLINE_EVENT_BYTES_def

record event_row =
  er_id :: EventId
  er_session_id :: SessionId
  er_run_id :: "RunId option"
  er_causal_parent :: "EventId option"
  er_sequence :: u64
  er_value_json :: string

record state_row =
  st_run_id :: RunId
  st_session_id :: SessionId
  st_state :: RunState
  st_state_sequence :: u64

record store_db =
  db_sessions :: "Session list"
  db_runs :: "Run list"
  db_events :: "event_row list"
  db_states :: "state_row list"
  db_drawn :: nat

text \<open>The driver binds an unsigned integer only when it fits the signed integers of SQLite.\<close>

definition MAX_SQLITE_INTEGER_U64 :: u64 where
  "MAX_SQLITE_INTEGER_U64 = 2 ^ 63 - 1"

definition sql_integer :: "u64 \<Rightarrow> bool" where
  "sql_integer n \<longleftrightarrow> n \<le> MAX_SQLITE_INTEGER_U64"

text \<open>The queries that load rows, and their steps: step 0 prepares and starts, step \<open>n + 1\<close> fetches row \<open>n\<close>.
  A query for one row is a single step.\<close>

datatype store_query =
    SessionQuery SessionId
  | RunQuery RunId
  | EventQuery EventId
  | SessionEventsQuery SessionId u64
  | RunSessionQuery RunId
  | RunEventsQuery RunId u64

record store_env =
  sv_encode :: "EventEnvelope \<Rightarrow> string + string"
  sv_decode :: "string \<Rightarrow> StoreError + EventEnvelope"
  sv_event_id :: "nat \<Rightarrow> EventId"
  sv_now :: "nat \<Rightarrow> timestamp"
  sv_sqlite :: "store_db \<Rightarrow> StoreError option"
  sv_fetch :: "store_query \<Rightarrow> store_db \<Rightarrow> nat \<Rightarrow> StoreError option"
  sv_artifact_refs :: "Provenance \<Rightarrow> EventPayload \<Rightarrow> StoreError option"
  sv_generic :: "store_db \<Rightarrow> EventEnvelope \<Rightarrow> StoreError option"
  sv_store_owned :: "NewEvent \<Rightarrow> bool"

abbreviation constraint_violation :: StoreError where
  "constraint_violation \<equiv> Database (Some ConstraintViolation)"

text \<open>The answer of a query for at most one row, when SQLite does not fail it.\<close>

definition query_row :: "store_env \<Rightarrow> store_query \<Rightarrow> store_db \<Rightarrow> 'a \<Rightarrow> StoreError + 'a" where
  "query_row env query db row = (case sv_fetch env query db 0 of Some e \<Rightarrow> Inl e | None \<Rightarrow> Inr row)"

section \<open>Admission of an event\<close>

text \<open>\<open>SELECT COALESCE(MAX(sequence), 0) FROM events WHERE session_id = ?1\<close>\<close>

definition max_sequence :: "store_db \<Rightarrow> SessionId \<Rightarrow> u64" where
  "max_sequence db session_id =
     fold max (map er_sequence (filter (\<lambda>row. er_session_id row = session_id) (db_events db))) 0"

definition preallocate_identified_event_envelope ::
  "timestamp \<Rightarrow> EventId \<Rightarrow> NewEvent \<Rightarrow> store_db \<Rightarrow> StoreError + EventEnvelope" where
  "preallocate_identified_event_envelope now event_id event db =
     (case checked_add (max_sequence db (ne_session_id event)) 1 of
        None \<Rightarrow> Inl SequenceOverflow
      | Some sequence \<Rightarrow>
          Inr \<lparr>ee_id = event_id, ee_sequence = sequence, ee_session_id = ne_session_id event,
               ee_run_id = ne_run_id event, ee_actor_id = ne_actor_id event,
               ee_causal_parent = ne_causal_parent event, ee_occurred_at = now,
               ee_provenance = ne_provenance event, ee_payload = ne_payload event\<rparr>)"

fun is_run_created :: "EventPayload \<Rightarrow> bool" where
  "is_run_created (RunCreated _) = True"
| "is_run_created _ = False"

fun is_creation :: "EventPayload \<Rightarrow> bool" where
  "is_creation (SessionCreated _) = True"
| "is_creation (RunCreated _) = True"
| "is_creation _ = False"

definition run_bound :: "store_db \<Rightarrow> RunId \<Rightarrow> SessionId \<Rightarrow> bool" where
  "run_bound db run_id session_id \<longleftrightarrow>
     list_ex (\<lambda>run. rn_id run = run_id \<and> rs_session_id (rn_spec run) = session_id) (db_runs db)"

definition parent_sequence :: "store_db \<Rightarrow> EventId \<Rightarrow> SessionId \<Rightarrow> u64 option" where
  "parent_sequence db parent_id session_id =
     map_option er_sequence
       (List.find (\<lambda>row. er_id row = parent_id \<and> er_session_id row = session_id) (db_events db))"

definition validate_exact_event_admission :: "store_db \<Rightarrow> EventEnvelope \<Rightarrow> StoreError option" where
  "validate_exact_event_admission db envelope =
     (if list_ex (\<lambda>row. er_id row = ee_id envelope) (db_events db) then Some InvalidStateEvent
      else if checked_add (max_sequence db (ee_session_id envelope)) 1 \<noteq> Some (ee_sequence envelope)
      then Some InvalidStateEvent
      else if (case ee_run_id envelope of None \<Rightarrow> False
               | Some run_id \<Rightarrow> \<not> is_run_created (ee_payload envelope)
                   \<and> \<not> run_bound db run_id (ee_session_id envelope))
      then Some InvalidStateEvent
      else if (case ee_causal_parent envelope of None \<Rightarrow> False
               | Some parent_id \<Rightarrow>
                   (case parent_sequence db parent_id (ee_session_id envelope) of None \<Rightarrow> True
                    | Some sequence \<Rightarrow> sequence \<ge> ee_sequence envelope))
      then Some InvalidStateEvent
      else None)"

definition encode_inline_event :: "store_env \<Rightarrow> EventEnvelope \<Rightarrow> StoreError + string" where
  "encode_inline_event env envelope =
     (case sv_encode env envelope of
        Inl message \<Rightarrow> Inl (JsonError message)
      | Inr json \<Rightarrow> if length json > MAX_INLINE_EVENT_BYTES then Inl EventTooLarge else Inr json)"

definition new_run_acceptance_contract_is_valid :: "Run \<Rightarrow> bool" where
  "new_run_acceptance_contract_is_valid run =
     contract_consistent (rs_purpose (rn_spec run)) (rs_plan_acceptance (rn_spec run))"

fun valid_run_transition :: "RunState \<Rightarrow> RunState \<Rightarrow> bool" where
  "valid_run_transition Queued to = (to = Running \<or> to = RunFailed \<or> to = RunCancelled)"
| "valid_run_transition Waiting to = (to = Running \<or> to = RunFailed \<or> to = RunCancelled)"
| "valid_run_transition Running to = (to = Waiting \<or> to = RunCompleted \<or> to = RunFailed \<or> to = RunCancelled)"
| "valid_run_transition _ _ = False"

section \<open>Insertion\<close>

text \<open>The update of the projection by \<open>events_project_run_state_after_insert\<close> applies to this row.\<close>

definition projects_to :: "EventEnvelope \<Rightarrow> RunState \<Rightarrow> RunState \<Rightarrow> state_row \<Rightarrow> bool" where
  "projects_to envelope from to row \<longleftrightarrow>
     ee_run_id envelope = Some (st_run_id row) \<and> st_session_id row = ee_session_id envelope
     \<and> st_state row = from \<and> st_state_sequence row < ee_sequence envelope \<and> valid_run_transition from to"

text \<open>
  The triggers after the insertion into \<open>events\<close>.  A run creation adds the state of the run, and a
  state change replaces it; anything else aborts.
\<close>

definition project_state :: "EventEnvelope \<Rightarrow> state_row list \<Rightarrow> StoreError + state_row list" where
  "project_state envelope states =
     (case ee_payload envelope of
        RunCreated run \<Rightarrow>
          (case ee_run_id envelope of
             None \<Rightarrow> Inl constraint_violation
           | Some run_id \<Rightarrow>
               (if rn_state run \<noteq> Queued \<or> list_ex (\<lambda>row. st_run_id row = run_id) states
                then Inl constraint_violation
                else Inr (states @ [\<lparr>st_run_id = run_id, st_session_id = ee_session_id envelope,
                                     st_state = Queued, st_state_sequence = ee_sequence envelope\<rparr>])))
      | RunStateChanged from to \<Rightarrow>
          (if length (filter (projects_to envelope from to) states) = 1
           then Inr (map (\<lambda>row. if projects_to envelope from to row
                                then row\<lparr>st_state := to, st_state_sequence := ee_sequence envelope\<rparr> else row) states)
           else Inl constraint_violation)
      | _ \<Rightarrow> Inr states)"

definition event_row_of :: "EventEnvelope \<Rightarrow> string \<Rightarrow> event_row" where
  "event_row_of envelope json =
     \<lparr>er_id = ee_id envelope, er_session_id = ee_session_id envelope, er_run_id = ee_run_id envelope,
      er_causal_parent = ee_causal_parent envelope, er_sequence = ee_sequence envelope, er_value_json = json\<rparr>"

text \<open>The keys, the foreign keys and the guards of the table.\<close>

definition event_keys_ok :: "store_db \<Rightarrow> event_row \<Rightarrow> bool" where
  "event_keys_ok db row \<longleftrightarrow>
     \<not> list_ex (\<lambda>r. er_id r = er_id row \<or> (er_session_id r = er_session_id row \<and> er_sequence r = er_sequence row))
         (db_events db)
     \<and> length (er_value_json row) \<le> MAX_INLINE_EVENT_BYTES
     \<and> list_ex (\<lambda>session. sn_id session = er_session_id row) (db_sessions db)
     \<and> (case er_run_id row of None \<Rightarrow> True | Some run_id \<Rightarrow> run_bound db run_id (er_session_id row))
     \<and> (case er_causal_parent row of None \<Rightarrow> True
        | Some parent \<Rightarrow> parent_sequence db parent (er_session_id row) \<noteq> None)"

definition insert_event_in_transaction :: "store_env \<Rightarrow> EventEnvelope \<Rightarrow> store_db \<Rightarrow> StoreError + store_db" where
  "insert_event_in_transaction env envelope db =
     (case encode_inline_event env envelope of
        Inl e \<Rightarrow> Inl e
      | Inr json \<Rightarrow>
          (let row = event_row_of envelope json in
           if \<not> sql_integer (ee_sequence envelope) then Inl (Database None)
           else if \<not> event_keys_ok db row then Inl constraint_violation
           else case project_state envelope (db_states db) of
             Inl e \<Rightarrow> Inl e
           | Inr states \<Rightarrow> Inr (db\<lparr>db_events := db_events db @ [row], db_states := states\<rparr>)))"

definition insert_session_row :: "EventEnvelope \<Rightarrow> Session \<Rightarrow> store_db \<Rightarrow> StoreError + store_db" where
  "insert_session_row envelope session db =
     (if ee_session_id envelope \<noteq> sn_id session \<or> ee_run_id envelope \<noteq> None then Inl InvalidStateEvent
      else if list_ex (\<lambda>s. sn_id s = sn_id session) (db_sessions db) then Inl constraint_violation
      else Inr (db\<lparr>db_sessions := db_sessions db @ [session]\<rparr>))"

definition insert_run_row :: "EventEnvelope \<Rightarrow> Run \<Rightarrow> store_db \<Rightarrow> StoreError + store_db" where
  "insert_run_row envelope run db =
     (if \<not> new_run_acceptance_contract_is_valid run \<or> ee_session_id envelope \<noteq> rs_session_id (rn_spec run)
         \<or> ee_run_id envelope \<noteq> Some (rn_id run) \<or> rn_state run \<noteq> Queued
      then Inl InvalidStateEvent
      else if list_ex (\<lambda>r. rn_id r = rn_id run) (db_runs db)
              \<or> \<not> list_ex (\<lambda>session. sn_id session = rs_session_id (rn_spec run)) (db_sessions db)
      then Inl constraint_violation
      else Inr (db\<lparr>db_runs := db_runs db @ [run]\<rparr>))"

definition apply_exact_event_envelope :: "store_env \<Rightarrow> EventEnvelope \<Rightarrow> store_db \<Rightarrow> StoreError + store_db" where
  "apply_exact_event_envelope env envelope db =
     (case validate_exact_event_admission db envelope of
        Some e \<Rightarrow> Inl e
      | None \<Rightarrow>
          (case sv_artifact_refs env (ee_provenance envelope) (ee_payload envelope) of
             Some e \<Rightarrow> Inl e
           | None \<Rightarrow>
               (case (case ee_payload envelope of
                        SessionCreated session \<Rightarrow> insert_session_row envelope session db
                      | RunCreated run \<Rightarrow> insert_run_row envelope run db
                      | _ \<Rightarrow> (case sv_generic env db envelope of Some e \<Rightarrow> Inl e | None \<Rightarrow> Inr db)) of
                  Inl e \<Rightarrow> Inl e
                | Inr db' \<Rightarrow> insert_event_in_transaction env envelope db')))"

section \<open>Operations\<close>

text \<open>The identifier of the next event and the time are drawn when the envelope is allocated.\<close>

definition draw :: "store_db \<Rightarrow> store_db" where
  "draw db = db\<lparr>db_drawn := Suc (db_drawn db)\<rparr>"

text \<open>The end of a transaction: the changes are kept, or SQLite fails and they are not.\<close>

definition commit :: "store_env \<Rightarrow> store_db \<Rightarrow> store_db \<Rightarrow> 'a \<Rightarrow> (StoreError + 'a) \<times> store_db" where
  "commit env before changed result =
     (case sv_sqlite env changed of Some e \<Rightarrow> (Inl e, before) | None \<Rightarrow> (Inr result, changed))"

text \<open>A transaction that allocates an envelope, checks it, applies it and commits.\<close>

definition append_transaction ::
  "store_env \<Rightarrow> EventId \<Rightarrow> NewEvent \<Rightarrow> (EventEnvelope \<Rightarrow> bool) \<Rightarrow> (EventEnvelope \<Rightarrow> 'a) \<Rightarrow> store_db
     \<Rightarrow> (StoreError + 'a) \<times> store_db" where
  "append_transaction env event_id event accepts result db =
     (case preallocate_identified_event_envelope (sv_now env (db_drawn db)) event_id event db of
        Inl e \<Rightarrow> (Inl e, draw db)
      | Inr envelope \<Rightarrow>
          (if \<not> accepts envelope then (Inl InvalidStateEvent, draw db)
           else case apply_exact_event_envelope env envelope (draw db) of
             Inl e \<Rightarrow> (Inl e, draw db)
           | Inr db' \<Rightarrow> commit env (draw db) db' (result envelope)))"

definition create_session ::
  "store_env \<Rightarrow> Session \<Rightarrow> NewEvent \<Rightarrow> store_db \<Rightarrow> (StoreError + EventEnvelope) \<times> store_db" where
  "create_session env session event db =
     append_transaction env (sv_event_id env (db_drawn db)) event
       (\<lambda>envelope. ee_session_id envelope = sn_id session \<and> ee_run_id envelope = None
          \<and> ee_payload envelope = SessionCreated session) (\<lambda>envelope. envelope) db"

definition store_create_run ::
  "store_env \<Rightarrow> Run \<Rightarrow> NewEvent \<Rightarrow> store_db \<Rightarrow> (StoreError + EventEnvelope) \<times> store_db" where
  "store_create_run env run event db =
     append_transaction env (sv_event_id env (db_drawn db)) event
       (\<lambda>envelope. new_run_acceptance_contract_is_valid run \<and> ee_session_id envelope = rs_session_id (rn_spec run)
          \<and> ee_run_id envelope = Some (rn_id run) \<and> rn_state run = Queued
          \<and> ee_payload envelope = RunCreated run) (\<lambda>envelope. envelope) db"

definition append_event ::
  "store_env \<Rightarrow> NewEvent \<Rightarrow> store_db \<Rightarrow> (StoreError + EventEnvelope) \<times> store_db" where
  "append_event env event db =
     (if sv_store_owned env event then (Inl InvalidStateEvent, db)
      else append_transaction env (sv_event_id env (db_drawn db)) event
             (\<lambda>envelope. \<not> is_creation (ee_payload envelope)) (\<lambda>envelope. envelope) db)"

definition new_event_from_envelope :: "EventEnvelope \<Rightarrow> NewEvent" where
  "new_event_from_envelope envelope =
     \<lparr>ne_session_id = ee_session_id envelope, ne_run_id = ee_run_id envelope, ne_actor_id = ee_actor_id envelope,
      ne_causal_parent = ee_causal_parent envelope, ne_provenance = ee_provenance envelope,
      ne_payload = ee_payload envelope\<rparr>"

text \<open>The projection of identities has a row for every event (\<open>events_project_identity_after_insert\<close>).\<close>

definition load_event_by_id :: "store_env \<Rightarrow> EventId \<Rightarrow> store_db \<Rightarrow> StoreError + EventEnvelope option" where
  "load_event_by_id env event_id db =
     (case query_row env (EventQuery event_id) db (List.find (\<lambda>row. er_id row = event_id) (db_events db)) of
        Inl e \<Rightarrow> Inl e
      | Inr None \<Rightarrow> Inr None
      | Inr (Some row) \<Rightarrow>
          (case sv_decode env (er_value_json row) of
             Inl e \<Rightarrow> Inl e
           | Inr event \<Rightarrow>
               (if ee_id event \<noteq> event_id \<or> ee_session_id event \<noteq> er_session_id row \<or> ee_sequence event \<noteq> er_sequence row
                then Inl InvalidStateEvent else Inr (Some event))))"

datatype IdempotentAppendOutcome = Appended EventEnvelope | AlreadyPresent EventEnvelope

definition append_identified_event ::
  "store_env \<Rightarrow> EventId \<Rightarrow> NewEvent \<Rightarrow> store_db \<Rightarrow> (StoreError + IdempotentAppendOutcome) \<times> store_db" where
  "append_identified_event env event_id event db =
     (if sv_store_owned env event then (Inl InvalidStateEvent, db)
      else case load_event_by_id env event_id db of
        Inl e \<Rightarrow> (Inl e, db)
      | Inr (Some existing) \<Rightarrow>
          (if ee_id existing \<noteq> event_id \<or> new_event_from_envelope existing \<noteq> event
           then (Inl IdentifiedEventConflict, db)
           else commit env db db (AlreadyPresent existing))
      | Inr None \<Rightarrow>
          (if is_creation (ne_payload event) then (Inl InvalidStateEvent, db)
           else append_transaction env event_id event (\<lambda>_. True) Appended db))"

datatype DeadlineAppendOutcome = DeadlineAppended | DeadlineElapsed

text \<open>\<open>now\<close> is the time of the check immediately before the commit.\<close>

definition append_event_before_deadline ::
  "store_env \<Rightarrow> NewEvent \<Rightarrow> timestamp \<Rightarrow> timestamp \<Rightarrow> store_db
     \<Rightarrow> (StoreError + DeadlineAppendOutcome) \<times> store_db" where
  "append_event_before_deadline env event deadline now db =
     (if sv_store_owned env event then (Inl InvalidStateEvent, db)
      else case preallocate_identified_event_envelope (sv_now env (db_drawn db)) (sv_event_id env (db_drawn db)) event db of
        Inl e \<Rightarrow> (Inl e, draw db)
      | Inr envelope \<Rightarrow>
          (if is_creation (ee_payload envelope) then (Inl InvalidStateEvent, draw db)
           else case apply_exact_event_envelope env envelope (draw db) of
             Inl e \<Rightarrow> (Inl e, draw db)
           | Inr db' \<Rightarrow>
               (if deadline \<le> now then (Inr DeadlineElapsed, draw db)
                else commit env (draw db) db' DeadlineAppended)))"

section \<open>Queries\<close>

definition store_get_session :: "store_env \<Rightarrow> SessionId \<Rightarrow> store_db \<Rightarrow> StoreError + Session option" where
  "store_get_session env session_id db =
     query_row env (SessionQuery session_id) db (List.find (\<lambda>session. sn_id session = session_id) (db_sessions db))"

definition store_get_run :: "store_env \<Rightarrow> RunId \<Rightarrow> store_db \<Rightarrow> StoreError + Run option" where
  "store_get_run env run_id db =
     (case query_row env (RunQuery run_id) db (List.find (\<lambda>run. rn_id run = run_id) (db_runs db)) of
        Inl e \<Rightarrow> Inl e
      | Inr None \<Rightarrow> Inr None
      | Inr (Some run) \<Rightarrow>
          (case List.find (\<lambda>row. st_run_id row = run_id \<and> st_session_id row = rs_session_id (rn_spec run)) (db_states db) of
             None \<Rightarrow> Inl InvalidStateEvent
           | Some row \<Rightarrow> Inr (Some (run\<lparr>rn_state := st_state row\<rparr>))))"

record store_event_page =
  sp_events :: "EventEnvelope list"
  sp_next_sequence :: u64
  sp_has_more :: bool
  sp_encoded_bytes :: nat

text \<open>
  The loop over the selected rows; \<open>bound\<close> is the check of an event against the query, and \<open>fetch\<close> the
  failure of the steps of the query.
\<close>

fun collect_page ::
  "store_env \<Rightarrow> (nat \<Rightarrow> StoreError option) \<Rightarrow> (EventEnvelope \<Rightarrow> bool) \<Rightarrow> event_row list \<Rightarrow> EventEnvelope list
     \<Rightarrow> nat \<Rightarrow> StoreError + (EventEnvelope list \<times> nat \<times> bool)" where
  "collect_page env fetch bound [] events encoded_bytes =
     (case fetch (Suc (length events)) of Some e \<Rightarrow> Inl e | None \<Rightarrow> Inr (events, encoded_bytes, False))"
| "collect_page env fetch bound (row # rows) events encoded_bytes =
     (case fetch (Suc (length events)) of Some e \<Rightarrow> Inl e | None \<Rightarrow>
      let json = er_value_json row in
      if length json > MAX_INLINE_EVENT_BYTES then Inl EventTooLarge
      else if length events = EVENT_PAGE_SIZE \<or> usize_saturating_add encoded_bytes (length json) > EVENT_PAGE_BYTES
      then Inr (events, encoded_bytes, True)
      else case sv_decode env json of
        Inl e \<Rightarrow> Inl e
      | Inr event \<Rightarrow>
          (if ee_sequence event \<noteq> er_sequence row \<or> \<not> bound event then Inl InvalidStateEvent
           else collect_page env fetch bound rows (events @ [event]) (encoded_bytes + length json)))"

definition page_of ::
  "u64 \<Rightarrow> StoreError + (EventEnvelope list \<times> nat \<times> bool) \<Rightarrow> StoreError + store_event_page" where
  "page_of sequence collected =
     (case collected of
        Inl e \<Rightarrow> Inl e
      | Inr (events, encoded_bytes, has_more) \<Rightarrow>
          Inr \<lparr>sp_events = events,
               sp_next_sequence = (if events = [] then sequence else ee_sequence (last events)),
               sp_has_more = has_more, sp_encoded_bytes = encoded_bytes\<rparr>)"

text \<open>\<open>WHERE ... AND sequence > ?n ORDER BY sequence ASC LIMIT page size + 1\<close>\<close>

definition select_rows :: "(event_row \<Rightarrow> bool) \<Rightarrow> u64 \<Rightarrow> store_db \<Rightarrow> event_row list" where
  "select_rows matching sequence db =
     take (EVENT_PAGE_SIZE + 1)
       (sort_key er_sequence (filter (\<lambda>row. matching row \<and> er_sequence row > sequence) (db_events db)))"

definition events_after :: "store_env \<Rightarrow> SessionId \<Rightarrow> u64 \<Rightarrow> store_db \<Rightarrow> StoreError + store_event_page" where
  "events_after env session_id sequence db =
     (let fetch = sv_fetch env (SessionEventsQuery session_id sequence) db in
      case fetch 0 of Some e \<Rightarrow> Inl e | None \<Rightarrow>
      if \<not> sql_integer sequence then Inl (Database None)
      else page_of sequence (collect_page env fetch (\<lambda>_. True)
        (select_rows (\<lambda>row. er_session_id row = session_id) sequence db) [] 0))"

definition events_for_run_after :: "store_env \<Rightarrow> RunId \<Rightarrow> u64 \<Rightarrow> store_db \<Rightarrow> StoreError + store_event_page" where
  "events_for_run_after env run_id sequence db =
     (case query_row env (RunSessionQuery run_id) db (List.find (\<lambda>run. rn_id run = run_id) (db_runs db)) of
        Inl e \<Rightarrow> Inl e
      | Inr None \<Rightarrow> Inl InvalidStateEvent
      | Inr (Some run) \<Rightarrow>
          (let session_id = rs_session_id (rn_spec run);
               fetch = sv_fetch env (RunEventsQuery run_id sequence) db in
           case fetch 0 of Some e \<Rightarrow> Inl e | None \<Rightarrow>
           if \<not> sql_integer sequence then Inl (Database None)
           else page_of sequence (collect_page env fetch
             (\<lambda>event. ee_run_id event = Some run_id \<and> ee_session_id event = session_id)
             (select_rows (\<lambda>row. er_session_id row = session_id \<and> er_run_id row = Some run_id) sequence db) [] 0)))"

end
