(* ===== verification/Artifact_Store.thy ===== *)
theory Artifact_Store
  imports Event_Store
begin

text \<open>
  The content-addressed artifacts of \<open>crates/store/src/lib.rs\<close>: files under the artifact root, named by
  the hexadecimal SHA-256 of their content.  The hash function is a parameter, and so are the
  failures of the file system before and after a file is in place.
\<close>

definition MAX_ARTIFACT_BYTES :: u64 where
  "MAX_ARTIFACT_BYTES = 64 * 1024 * 1024"

type_synonym artifact_files = "string \<rightharpoonup> u8 list"

definition sha256_hex :: "(u8 list \<Rightarrow> u8 list) \<Rightarrow> u8 list \<Rightarrow> string" where
  "sha256_hex sha256 bytes = encode_digest (sha256 bytes)"

text \<open>\<open>usize\<close> and \<open>u64\<close> have the same width: the conversion of a length fails from \<open>2 ^ 64\<close> on.\<close>

definition u64_of_len :: "'a list \<Rightarrow> u64 option" where
  "u64_of_len xs = (if length xs < 2 ^ 64 then Some (of_nat (length xs)) else None)"

definition verify_artifact :: "(u8 list \<Rightarrow> u8 list) \<Rightarrow> ArtifactRef \<Rightarrow> u8 list \<Rightarrow> StoreError option" where
  "verify_artifact sha256 artifact bytes =
     (case u64_of_len bytes of
        None \<Rightarrow> Some ArtifactTooLarge
      | Some size_bytes \<Rightarrow>
          (if size_bytes \<noteq> art_size_bytes artifact \<or> sha256_hex sha256 bytes \<noteq> art_sha256 artifact
           then Some ArtifactIntegrity else None))"

text \<open>The path of a digest; the two directory levels only spread the files.\<close>

definition artifact_path_at :: "string \<Rightarrow> StoreError + string" where
  "artifact_path_at hash = (if \<not> valid_sha256 hash then Inl InvalidArtifactHash else Inr hash)"

text \<open>
  Opening, measuring and reading the file; \<open>failure\<close> is an error of the file system.  The file may be
  read only up to one byte past the limit, which the size check has excluded.
\<close>

definition read_verified_artifact ::
  "(u8 list \<Rightarrow> u8 list) \<Rightarrow> io_kind option \<Rightarrow> artifact_files \<Rightarrow> string \<Rightarrow> ArtifactRef \<Rightarrow> StoreError + u8 list" where
  "read_verified_artifact sha256 failure files path artifact =
     (if art_size_bytes artifact > MAX_ARTIFACT_BYTES then Inl ArtifactTooLarge
      else case failure of
        Some kind \<Rightarrow> Inl (IoError kind)
      | None \<Rightarrow>
          (case files path of
             None \<Rightarrow> Inl (IoError IoNotFound)
           | Some content \<Rightarrow>
               (if length content > unat MAX_ARTIFACT_BYTES then Inl ArtifactTooLarge
                else if length content \<noteq> unat (art_size_bytes artifact) then Inl ArtifactIntegrity
                else let bytes = take (unat MAX_ARTIFACT_BYTES + 1) content in
                  if length bytes > unat MAX_ARTIFACT_BYTES then Inl ArtifactTooLarge
                  else case verify_artifact sha256 artifact bytes of
                    Some e \<Rightarrow> Inl e
                  | None \<Rightarrow> Inr bytes)))"

definition store_get_artifact ::
  "(u8 list \<Rightarrow> u8 list) \<Rightarrow> io_kind option \<Rightarrow> artifact_files \<Rightarrow> ArtifactRef \<Rightarrow> StoreError + u8 list" where
  "store_get_artifact sha256 failure files artifact =
     (case artifact_path_at (art_sha256 artifact) of
        Inl e \<Rightarrow> Inl e
      | Inr path \<Rightarrow> read_verified_artifact sha256 failure files path artifact)"

text \<open>
  Storing: a file that exists is kept, a new one appears under its name at once
  (\<open>persist_noclobber\<close>); the result is read back and verified.
\<close>

definition put_artifact_at ::
  "(u8 list \<Rightarrow> u8 list) \<Rightarrow> io_kind option \<Rightarrow> io_kind option \<Rightarrow> io_kind option \<Rightarrow> u8 list \<Rightarrow> string
     \<Rightarrow> artifact_files \<Rightarrow> (StoreError + ArtifactRef) \<times> artifact_files" where
  "put_artifact_at sha256 prepare_failure sync_failure read_failure bytes media_type files =
     (case u64_of_len bytes of
        None \<Rightarrow> (Inl ArtifactTooLarge, files)
      | Some size_bytes \<Rightarrow>
          (if size_bytes > MAX_ARTIFACT_BYTES then (Inl ArtifactTooLarge, files)
           else let hash = sha256_hex sha256 bytes in
             case artifact_path_at hash of
               Inl e \<Rightarrow> (Inl e, files)
             | Inr path \<Rightarrow>
                 (case prepare_failure of
                    Some kind \<Rightarrow> (Inl (IoError kind), files)
                  | None \<Rightarrow>
                      (let files' = (if files path = None then files(path \<mapsto> bytes) else files) in
                       case sync_failure of
                         Some kind \<Rightarrow> (Inl (IoError kind), files')
                       | None \<Rightarrow>
                           (let artifact = \<lparr>art_sha256 = hash, art_size_bytes = size_bytes, art_media_type = media_type\<rparr> in
                            case read_verified_artifact sha256 read_failure files' path artifact of
                              Inl e \<Rightarrow> (Inl e, files')
                            | Inr _ \<Rightarrow> (Inr artifact, files'))))))"

section \<open>Correctness\<close>

lemma unat_of_len: "length xs < 2 ^ 64 \<Longrightarrow> unat (of_nat (length xs) :: u64) = length xs"
  by (simp add: unat_of_nat take_bit_nat_eq_self)

lemma verify_artifact_None_iff:
  "verify_artifact sha256 artifact bytes = None \<longleftrightarrow>
     length bytes = unat (art_size_bytes artifact) \<and> sha256_hex sha256 bytes = art_sha256 artifact"
proof -
  have "length bytes < 2 ^ 64" if "length bytes = unat (art_size_bytes artifact)"
    using that unsigned_less[of "art_size_bytes artifact"] by simp
  moreover have "(of_nat (length bytes) = art_size_bytes artifact) = (length bytes = unat (art_size_bytes artifact))"
    if "length bytes < 2 ^ 64"
    using unat_of_len[OF that] by auto
  ultimately show ?thesis
    by (auto simp: verify_artifact_def u64_of_len_def split: if_splits)
qed

text \<open>What is read has the size and the digest of its reference, whatever the files hold.\<close>

lemma read_verified_sound:
  assumes "read_verified_artifact sha256 failure files path artifact = Inr bytes"
  shows "files path = Some bytes" "length bytes = unat (art_size_bytes artifact)"
    "sha256_hex sha256 bytes = art_sha256 artifact" "art_size_bytes artifact \<le> MAX_ARTIFACT_BYTES"
  using assms
  by (auto simp: read_verified_artifact_def Let_def verify_artifact_None_iff not_less
      split: if_splits option.splits)

lemma read_verified_complete:
  assumes "files path = Some bytes" "length bytes = unat (art_size_bytes artifact)"
    "sha256_hex sha256 bytes = art_sha256 artifact" "art_size_bytes artifact \<le> MAX_ARTIFACT_BYTES"
  shows "read_verified_artifact sha256 None files path artifact = Inr bytes"
proof -
  have "length bytes \<le> unat MAX_ARTIFACT_BYTES"
    using assms(2,4) by (simp add: word_le_nat_alt)
  with assms show ?thesis
    by (auto simp: read_verified_artifact_def verify_artifact_None_iff split: option.splits)
qed

lemma store_get_sound:
  assumes "store_get_artifact sha256 failure files artifact = Inr bytes"
  shows "valid_sha256 (art_sha256 artifact)" "files (art_sha256 artifact) = Some bytes"
    "length bytes = unat (art_size_bytes artifact)" "sha256_hex sha256 bytes = art_sha256 artifact"
    "art_size_bytes artifact \<le> MAX_ARTIFACT_BYTES"
proof -
  have r: "valid_sha256 (art_sha256 artifact)"
    "read_verified_artifact sha256 failure files (art_sha256 artifact) artifact = Inr bytes"
    using assms by (auto simp: store_get_artifact_def artifact_path_at_def split: if_splits)
  then show "valid_sha256 (art_sha256 artifact)" "files (art_sha256 artifact) = Some bytes"
    "length bytes = unat (art_size_bytes artifact)" "sha256_hex sha256 bytes = art_sha256 artifact"
    "art_size_bytes artifact \<le> MAX_ARTIFACT_BYTES"
    using read_verified_sound[OF r(2)] by simp_all
qed

lemma put_artifact_sound:
  assumes "put_artifact_at sha256 f1 f2 f3 bytes media_type files = (Inr artifact, files')"
  obtains content where "files' (art_sha256 artifact) = Some content" "sha256_hex sha256 content = sha256_hex sha256 bytes"
    "length content = length bytes" "art_sha256 artifact = sha256_hex sha256 bytes" "art_media_type artifact = media_type"
    "unat (art_size_bytes artifact) = length bytes" "valid_sha256 (art_sha256 artifact)"
    "art_size_bytes artifact \<le> MAX_ARTIFACT_BYTES"
    "files (art_sha256 artifact) = None \<longrightarrow> content = bytes"
proof -
  have len: "length bytes < 2 ^ 64" "of_nat (length bytes) \<le> MAX_ARTIFACT_BYTES"
    and hash: "valid_sha256 (sha256_hex sha256 bytes)"
    and files': "files' = (if files (sha256_hex sha256 bytes) = None then files(sha256_hex sha256 bytes \<mapsto> bytes) else files)"
    and art: "artifact = \<lparr>art_sha256 = sha256_hex sha256 bytes, art_size_bytes = of_nat (length bytes), art_media_type = media_type\<rparr>"
    and read: "\<exists>content. read_verified_artifact sha256 f3 files' (sha256_hex sha256 bytes) artifact = Inr content"
    using assms
    by (auto simp: put_artifact_at_def u64_of_len_def artifact_path_at_def Let_def not_less
        split: if_splits option.splits sum.splits)
  from read obtain content where c: "read_verified_artifact sha256 f3 files' (sha256_hex sha256 bytes) artifact = Inr content" ..
  have size: "unat (art_size_bytes artifact) = length bytes"
    using len(1) by (simp add: art unat_of_len)
  show thesis
    using that[of content] read_verified_sound[OF c] size art hash files' by (auto split: if_splits)
qed

end
