(* ===== verification/Local_Runtime.thy ===== *)
theory Local_Runtime
  imports Artifact_Store
begin

text \<open>
  \<open>LocalRuntime\<close> of \<open>crates/runtime/src/runtime.rs\<close> over the trait \<open>Repository\<close>, a record of its
  operations on a state \<open>'r\<close>.  Every call returns the state after it, reads too: between two calls of
  one runtime other processes may use the same store.  \<open>None\<close> is a panic of the code.
\<close>

section \<open>The repository\<close>

type_synonym ('r, 'a) repo_call = "'r \<Rightarrow> (RepositoryError + 'a) \<times> 'r"
type_synonym ('r, 'a) runtime_call = "'r \<Rightarrow> (RuntimeError + 'a) \<times> 'r"

record 'r repository =
  rp_insert_session :: "Session \<Rightarrow> NewEvent \<Rightarrow> ('r, unit) repo_call"
  rp_get_session :: "SessionId \<Rightarrow> ('r, Session option) repo_call"
  rp_insert_run :: "Run \<Rightarrow> NewEvent \<Rightarrow> ('r, unit) repo_call"
  rp_get_run :: "RunId \<Rightarrow> ('r, Run option) repo_call"
  rp_append_event :: "NewEvent \<Rightarrow> ('r, EventEnvelope) repo_call"
  rp_events_after :: "SessionId \<Rightarrow> u64 \<Rightarrow> ('r, EventPage) repo_call"
  rp_events_for_run_after :: "RunId \<Rightarrow> u64 \<Rightarrow> ('r, EventPage) repo_call"
  rp_read_artifact :: "ArtifactRef \<Rightarrow> ('r, u8 list) repo_call"

text \<open>\<open>?\<close> on the result of the repository and on the result of a method.\<close>

definition try_repo :: "('r, 'a) repo_call \<Rightarrow> ('a \<Rightarrow> ('r, 'b) runtime_call) \<Rightarrow> ('r, 'b) runtime_call" where
  "try_repo call k r =
     (case call r of (Inl error, r') \<Rightarrow> (Inl (RepositoryFailed error), r') | (Inr x, r') \<Rightarrow> k x r')"

definition try_call :: "('r, 'a) runtime_call \<Rightarrow> ('a \<Rightarrow> ('r, 'b) runtime_call) \<Rightarrow> ('r, 'b) runtime_call" where
  "try_call call k r = (case call r of (Inl error, r') \<Rightarrow> (Inl error, r') | (Inr x, r') \<Rightarrow> k x r')"

abbreviation ok_with :: "'a \<Rightarrow> ('r, 'a) runtime_call" where
  "ok_with x \<equiv> \<lambda>r. (Inr x, r)"

abbreviation err_with :: "RuntimeError \<Rightarrow> ('r, 'a) runtime_call" where
  "err_with e \<equiv> \<lambda>r. (Inl e, r)"

section \<open>Sessions and runs\<close>

definition PROTOCOL_VERSION :: u32 where
  "PROTOCOL_VERSION = 9"

datatype RuntimeCapability =
    DurableSessions | DurableRootPlanning | ParallelReconnaissanceCapability | EventReplay | Streaming | Cancellation

text \<open>The version and the capabilities of the answer; the identity of the server is constant text.\<close>

definition initialize :: "u32 \<Rightarrow> RuntimeError + u32 \<times> RuntimeCapability set" where
  "initialize protocol_version =
     (if protocol_version \<noteq> PROTOCOL_VERSION then Inl (IncompatibleProtocol protocol_version PROTOCOL_VERSION)
      else Inr (PROTOCOL_VERSION, {DurableSessions, EventReplay, Cancellation}))"

definition runtime_provenance :: Provenance where
  "runtime_provenance = \<lparr>pv_producer = ''birdcode-runtime/0.1.0'', pv_backend = None, pv_raw_artifact = None\<rparr>"

text \<open>An event of the runtime: the actor and the provenance are its own.\<close>

definition runtime_event ::
  "uuid \<Rightarrow> SessionId \<Rightarrow> RunId option \<Rightarrow> EventId option \<Rightarrow> EventPayload \<Rightarrow> NewEvent" where
  "runtime_event actor_id session_id run_id causal_parent payload =
     \<lparr>ne_session_id = session_id, ne_run_id = run_id, ne_actor_id = actor_id, ne_causal_parent = causal_parent,
      ne_provenance = runtime_provenance, ne_payload = payload\<rparr>"

text \<open>\<open>session_id\<close> and \<open>now\<close> are what \<open>Session::new\<close> draws.\<close>

definition runtime_create_session ::
  "'r repository \<Rightarrow> uuid \<Rightarrow> SessionId \<Rightarrow> timestamp \<Rightarrow> WorkspacePath \<Rightarrow> string option \<Rightarrow> ('r, Session) runtime_call" where
  "runtime_create_session repo actor_id session_id now workspace_root title =
     (let session = \<lparr>sn_id = session_id, sn_workspace_root = workspace_root, sn_title = title, sn_created_at = now\<rparr> in
      try_repo (rp_insert_session repo session
        (runtime_event actor_id (sn_id session) None None (SessionCreated session))) (\<lambda>_. ok_with session))"

definition get_session :: "'r repository \<Rightarrow> SessionId \<Rightarrow> ('r, Session) runtime_call" where
  "get_session repo session_id =
     try_repo (rp_get_session repo session_id)
       (\<lambda>found. case found of None \<Rightarrow> err_with (SessionNotFound session_id) | Some session \<Rightarrow> ok_with session)"

text \<open>The end of \<open>create_run\<close>: the insertion and what a conflict turns out to be.\<close>

definition insert_new_run :: "'r repository \<Rightarrow> uuid \<Rightarrow> Run \<Rightarrow> ('r, Run) runtime_call" where
  "insert_new_run repo actor_id run r =
     (case rp_insert_run repo run
         (runtime_event actor_id (rs_session_id (rn_spec run)) (Some (rn_id run)) None (RunCreated run)) r of
        (Inr _, r') \<Rightarrow> (Inr run, r')
      | (Inl error, r') \<Rightarrow>
          (if re_kind error = RepoConflict
           then try_repo (rp_get_run repo (rn_id run))
             (\<lambda>found. case found of
                Some existing \<Rightarrow> if rn_spec existing = rn_spec run then ok_with existing else err_with (RunConflict (rn_id run))
              | None \<Rightarrow> err_with (RepositoryFailed error)) r'
           else (Inl (RepositoryFailed error), r')))"

definition create_run :: "'r repository \<Rightarrow> uuid \<Rightarrow> timestamp \<Rightarrow> CreateRunRequest \<Rightarrow> ('r, Run) runtime_call" where
  "create_run repo actor_id now request =
     (let spec = rq_spec request in
      if \<not> contract_consistent (rs_purpose spec) (rs_plan_acceptance spec)
      then err_with (InvalidRunSpec ''run purpose and plan_acceptance contract are inconsistent'')
      else try_repo (rp_get_session repo (rs_session_id spec))
        (\<lambda>session. if session = None then err_with (SessionNotFound (rs_session_id spec))
         else case validate_run_spec request of
           Inl error \<Rightarrow> err_with error
         | Inr _ \<Rightarrow>
             try_repo (rp_get_run repo (rq_run_id request))
               (\<lambda>found. case found of
                  Some existing \<Rightarrow>
                    if rn_spec existing = spec then ok_with existing else err_with (RunConflict (rq_run_id request))
                | None \<Rightarrow> insert_new_run repo actor_id (with_id now (rq_run_id request) spec))))"

definition get_run :: "'r repository \<Rightarrow> RunId \<Rightarrow> ('r, Run) runtime_call" where
  "get_run repo run_id =
     try_repo (rp_get_run repo run_id)
       (\<lambda>found. case found of None \<Rightarrow> err_with (RunNotFound run_id) | Some run \<Rightarrow> ok_with run)"

definition get_events :: "'r repository \<Rightarrow> SessionId \<Rightarrow> u64 \<Rightarrow> ('r, EventPage) runtime_call" where
  "get_events repo session_id after_sequence =
     try_repo (rp_get_session repo session_id)
       (\<lambda>session. if session = None then err_with (SessionNotFound session_id)
        else try_repo (rp_events_after repo session_id after_sequence) ok_with)"

section \<open>Artifacts\<close>

text \<open>
  \<open>bytes[offset..end]\<close> panics when the offset lies behind the end.  \<open>usize\<close> holds every \<open>u64\<close>, so the
  conversion of the offset does not fail.  \<open>describe\<close> is the text of a contract error.
\<close>

definition get_artifact ::
  "'r repository \<Rightarrow> (ArtifactReadContractError \<Rightarrow> string) \<Rightarrow> GetArtifactRequest \<Rightarrow> 'r
     \<Rightarrow> (RuntimeError + ArtifactChunk) option \<times> 'r" where
  "get_artifact repo describe request r =
     (case rp_read_artifact repo (gr_artifact request) r of
        (Inl error, r') \<Rightarrow> (Some (Inl (RepositoryFailed error)), r')
      | (Inr bytes, r') \<Rightarrow>
          (let offset = unat (gr_offset request); requested = unat (gr_max_bytes request);
               finish = min (usize_saturating_add offset requested) (length bytes) in
           if offset > finish then (None, r')
           else let chunk = take (finish - offset) (drop offset bytes); eof = (finish = length bytes) in
             case artifact_chunk_new (gr_artifact request) (gr_offset request) chunk eof of
               Inl error \<Rightarrow>
                 (Some (Inl (RepositoryFailed \<lparr>re_kind = RepoInternal,
                    re_message = ''verified artifact violated its wire contract: '' @ describe error\<rparr>)), r')
             | Inr c \<Rightarrow> (Some (Inr c), r')))"

section \<open>Replay and cancellation\<close>

text \<open>The loop of \<open>run_events\<close>; the cursor increases strictly.\<close>

function run_events_loop ::
  "'r repository \<Rightarrow> RunId \<Rightarrow> u64 \<Rightarrow> EventEnvelope list \<Rightarrow> ('r, EventEnvelope list) runtime_call" where
  "run_events_loop repo run_id cursor events r =
     (case rp_events_for_run_after repo run_id cursor r of
        (Inl error, r') \<Rightarrow> (Inl (RepositoryFailed error), r')
      | (Inr page, r') \<Rightarrow>
          (if \<not> ep_has_more page then (Inr (events @ ep_events page), r')
           else if ep_next_sequence page \<le> cursor
           then (Inl (RepositoryFailed \<lparr>re_kind = RepoInternal, re_message = ''event replay cursor did not advance''\<rparr>), r')
           else run_events_loop repo run_id (ep_next_sequence page) (events @ ep_events page) r'))"
  by pat_completeness auto

lemma cursor_decreases: "\<not> next_cursor \<le> cursor \<Longrightarrow> 2 ^ 64 - unat next_cursor < 2 ^ 64 - unat cursor"
  for cursor next_cursor :: u64
  using unsigned_less[where 'a = nat, of next_cursor] by (simp add: not_le word_less_nat_alt)

termination run_events_loop
  by (relation "measure (\<lambda>(repo, run_id, cursor, events, r). 2 ^ 64 - unat cursor)")
    (simp_all only: wf_measure in_measure case_prod_conv cursor_decreases not_False_eq_True)

declare run_events_loop.simps [simp del]

definition run_events :: "'r repository \<Rightarrow> Run \<Rightarrow> ('r, EventEnvelope list) runtime_call" where
  "run_events repo run = run_events_loop repo (rn_id run) 0 []"

fun cancellation_of :: "EventEnvelope \<Rightarrow> (EventEnvelope \<times> CancellationRequested) option" where
  "cancellation_of event =
     (case ee_payload event of CancellationEvent cancellation \<Rightarrow> Some (event, cancellation) | _ \<Rightarrow> None)"

fun find_map_option :: "('a \<Rightarrow> 'b option) \<Rightarrow> 'a list \<Rightarrow> 'b option" where
  "find_map_option f [] = None"
| "find_map_option f (x # xs) = (case f x of Some y \<Rightarrow> Some y | None \<Rightarrow> find_map_option f xs)"

definition latest_cancellation :: "EventEnvelope list \<Rightarrow> (EventEnvelope \<times> CancellationRequested) option" where
  "latest_cancellation events = find_map_option cancellation_of (rev events)"

definition is_terminal :: "RunState \<Rightarrow> bool" where
  "is_terminal state \<longleftrightarrow> state = RunCompleted \<or> state = RunFailed \<or> state = RunCancelled"

definition finish_inactive_cancellation ::
  "'r repository \<Rightarrow> uuid \<Rightarrow> Run \<Rightarrow> EventId \<Rightarrow> ('r, unit) runtime_call" where
  "finish_inactive_cancellation repo actor_id original cancellation_event_id =
     try_call (get_run repo (rn_id original))
       (\<lambda>current. if rn_state current \<noteq> Queued \<and> rn_state current \<noteq> Waiting then ok_with ()
        else (\<lambda>r. case rp_append_event repo
              (runtime_event actor_id (rs_session_id (rn_spec current)) (Some (rn_id current))
                 (Some cancellation_event_id) (RunStateChanged (rn_state current) RunCancelled)) r of
            (Inr _, r') \<Rightarrow> (Inr (), r')
          | (Inl error, r') \<Rightarrow>
              try_call (get_run repo (rn_id current))
                (\<lambda>refreshed. if rn_state refreshed = RunCancelled then ok_with ()
                  else err_with (RepositoryFailed error)) r'))"

definition receipt ::
  "RunId \<Rightarrow> CancellationRequestId \<Rightarrow> u64 \<Rightarrow> CancellationDisposition \<Rightarrow> CancellationReceipt" where
  "receipt run_id request_id generation disposition =
     \<lparr>ct_run_id = run_id, ct_cancellation_request_id = request_id, ct_cancellation_generation = generation,
      ct_disposition = disposition\<rparr>"

definition MAX_CANCELLATION_APPEND_ATTEMPTS :: nat where
  "MAX_CANCELLATION_APPEND_ATTEMPTS = 8"

text \<open>What one attempt does: it returns from \<open>cancel_run\<close>, or the append failed with this error.\<close>

datatype attempt_result = AttemptReturns "RuntimeError + CancellationReceipt" | AppendFailed RepositoryError

definition cancellation_attempt ::
  "'r repository \<Rightarrow> uuid \<Rightarrow> RunId \<Rightarrow> CancellationRequestId \<Rightarrow> Run \<Rightarrow> EventEnvelope list \<Rightarrow> 'r
     \<Rightarrow> attempt_result \<times> 'r" where
  "cancellation_attempt repo actor_id run_id request_id run events r =
     (case (is_terminal (rn_state run), latest_cancellation events) of
        (True, None) \<Rightarrow> (AttemptReturns (Inr (receipt run_id request_id 0 RunAlreadyTerminal)), r)
      | (True, Some (_, cancellation)) \<Rightarrow>
          (AttemptReturns (Inr (receipt run_id (cq_cancellation_request_id cancellation)
             (cq_cancellation_generation cancellation) RunAlreadyTerminal)), r)
      | (False, Some (event, cancellation)) \<Rightarrow>
          (case finish_inactive_cancellation repo actor_id run (ee_id event) r of
             (Inl e, r') \<Rightarrow> (AttemptReturns (Inl e), r')
           | (Inr _, r') \<Rightarrow>
               (AttemptReturns (Inr (receipt run_id (cq_cancellation_request_id cancellation)
                  (cq_cancellation_generation cancellation) AlreadyRequested)), r'))
      | (False, None) \<Rightarrow>
          (case rp_append_event repo
              (runtime_event actor_id (rs_session_id (rn_spec run)) (Some (rn_id run))
                 (if events = [] then None else Some (ee_id (last events)))
                 (CancellationEvent \<lparr>cq_cancellation_request_id = request_id, cq_cancellation_generation = 1\<rparr>)) r of
             (Inr cancellation_event, r') \<Rightarrow>
               (case finish_inactive_cancellation repo actor_id run (ee_id cancellation_event) r' of
                  (Inl e, r'') \<Rightarrow> (AttemptReturns (Inl e), r'')
                | (Inr _, r'') \<Rightarrow> (AttemptReturns (Inr (receipt run_id request_id 1 CancellationRecorded)), r''))
           | (Inl error, r') \<Rightarrow> (AppendFailed error, r')))"

text \<open>The loop with the attempts that are left; after the last one the code does not expect to arrive.\<close>

fun cancel_attempts ::
  "'r repository \<Rightarrow> uuid \<Rightarrow> RunId \<Rightarrow> CancellationRequestId \<Rightarrow> nat \<Rightarrow> 'r
     \<Rightarrow> (RuntimeError + CancellationReceipt) option \<times> 'r" where
  "cancel_attempts repo actor_id run_id request_id 0 r = (None, r)"
| "cancel_attempts repo actor_id run_id request_id (Suc left) r =
     (case get_run repo run_id r of
        (Inl e, r1) \<Rightarrow> (Some (Inl e), r1)
      | (Inr run, r1) \<Rightarrow>
          (case run_events repo run r1 of
             (Inl e, r2) \<Rightarrow> (Some (Inl e), r2)
           | (Inr events, r2) \<Rightarrow>
               (case cancellation_attempt repo actor_id run_id request_id run events r2 of
                  (AttemptReturns result, r3) \<Rightarrow> (Some result, r3)
                | (AppendFailed error, r3) \<Rightarrow>
                    (if left > 0 then cancel_attempts repo actor_id run_id request_id left r3
                     else (Some (Inl (RepositoryFailed error)), r3)))))"

text \<open>\<open>request_id\<close> is what \<open>CancellationRequestId::new\<close> draws.\<close>

definition cancel_run ::
  "'r repository \<Rightarrow> uuid \<Rightarrow> CancellationRequestId \<Rightarrow> RunId \<Rightarrow> 'r
     \<Rightarrow> (RuntimeError + CancellationReceipt) option \<times> 'r" where
  "cancel_run repo actor_id request_id run_id =
     cancel_attempts repo actor_id run_id request_id MAX_CANCELLATION_APPEND_ATTEMPTS"

section \<open>The store as a repository\<close>

text \<open>
  The state is the database and the number of calls so far.  Before each call other processes may
  change the database: \<open>others\<close> tells how.
\<close>

type_synonym shared_store = "store_db \<times> nat"

definition shared_call ::
  "(nat \<Rightarrow> store_db \<Rightarrow> store_db) \<Rightarrow> (StoreError \<Rightarrow> string) \<Rightarrow> (store_db \<Rightarrow> (StoreError + 'a) \<times> store_db)
     \<Rightarrow> ('a \<Rightarrow> 'b) \<Rightarrow> (shared_store, 'b) repo_call" where
  "shared_call others display operation result r =
     (case operation (others (snd r) (fst r)) of
        (Inl error, db') \<Rightarrow> (Inl (repository_error display error), (db', Suc (snd r)))
      | (Inr x, db') \<Rightarrow> (Inr (result x), (db', Suc (snd r))))"

definition read_only :: "(store_db \<Rightarrow> StoreError + 'a) \<Rightarrow> store_db \<Rightarrow> (StoreError + 'a) \<times> store_db" where
  "read_only query db = (query db, db)"

definition protocol_page :: "store_event_page \<Rightarrow> EventPage" where
  "protocol_page page =
     \<lparr>ep_events = sp_events page, ep_next_sequence = sp_next_sequence page, ep_has_more = sp_has_more page\<rparr>"

definition store_repository ::
  "store_env \<Rightarrow> (StoreError \<Rightarrow> string) \<Rightarrow> (nat \<Rightarrow> store_db \<Rightarrow> store_db) \<Rightarrow> (ArtifactRef \<Rightarrow> StoreError + u8 list)
     \<Rightarrow> shared_store repository" where
  "store_repository env display others artifacts =
     \<lparr>rp_insert_session = (\<lambda>session event. shared_call others display (create_session env session event) (\<lambda>_. ())),
      rp_get_session = (\<lambda>session_id. shared_call others display (read_only (store_get_session env session_id)) (\<lambda>x. x)),
      rp_insert_run = (\<lambda>run event. shared_call others display (store_create_run env run event) (\<lambda>_. ())),
      rp_get_run = (\<lambda>run_id. shared_call others display (read_only (store_get_run env run_id)) (\<lambda>x. x)),
      rp_append_event = (\<lambda>event. shared_call others display (append_event env event) (\<lambda>x. x)),
      rp_events_after = (\<lambda>session_id sequence.
        shared_call others display (read_only (events_after env session_id sequence)) protocol_page),
      rp_events_for_run_after = (\<lambda>run_id sequence.
        shared_call others display (read_only (events_for_run_after env run_id sequence)) protocol_page),
      rp_read_artifact = (\<lambda>artifact. shared_call others display (read_only (\<lambda>_. artifacts artifact)) (\<lambda>x. x))\<rparr>"

end
