(* ===== verification/Event_Log.thy ===== *)
theory Event_Log
  imports Event_Store
begin

text \<open>
  What the event store promises: the log of a store is a sequence of events of which each is
  admissible after the ones before it, and every other table is a function of the log.  This is the
  specification that the operations of \<open>Event_Store\<close> refine; it mentions no table and no row.
\<close>

section \<open>Functions of a log\<close>

type_synonym event_log = "EventEnvelope list"

definition session_log :: "event_log \<Rightarrow> SessionId \<Rightarrow> event_log" where
  "session_log log session_id = filter (\<lambda>e. ee_session_id e = session_id) log"

definition sessions_of :: "event_log \<Rightarrow> Session list" where
  "sessions_of log = concat (map (\<lambda>e. case ee_payload e of SessionCreated session \<Rightarrow> [session] | _ \<Rightarrow> []) log)"

definition runs_of :: "event_log \<Rightarrow> Run list" where
  "runs_of log = concat (map (\<lambda>e. case ee_payload e of RunCreated run \<Rightarrow> [run] | _ \<Rightarrow> []) log)"

text \<open>The state of a run is the one that its last creation or state change names.\<close>

definition next_state :: "RunId \<Rightarrow> EventEnvelope \<Rightarrow> RunState option \<Rightarrow> RunState option" where
  "next_state run_id e state =
     (if ee_run_id e \<noteq> Some run_id then state
      else case ee_payload e of RunCreated _ \<Rightarrow> Some Queued | RunStateChanged _ to \<Rightarrow> Some to | _ \<Rightarrow> state)"

definition run_state :: "event_log \<Rightarrow> RunId \<Rightarrow> RunState option" where
  "run_state log run_id = fold (next_state run_id) log None"

definition session_exists :: "event_log \<Rightarrow> SessionId \<Rightarrow> bool" where
  "session_exists log session_id \<longleftrightarrow> session_id \<in> sn_id ` set (sessions_of log)"

definition run_in_session :: "event_log \<Rightarrow> RunId \<Rightarrow> SessionId \<Rightarrow> bool" where
  "run_in_session log run_id session_id \<longleftrightarrow>
     (\<exists>run \<in> set (runs_of log). rn_id run = run_id \<and> rs_session_id (rn_spec run) = session_id)"

text \<open>The requirements on the payload: creations are fresh and consistent, state changes are legal.\<close>

definition payload_admissible :: "event_log \<Rightarrow> EventEnvelope \<Rightarrow> bool" where
  "payload_admissible log e \<longleftrightarrow>
     (case ee_payload e of
        SessionCreated session \<Rightarrow>
          sn_id session = ee_session_id e \<and> ee_run_id e = None \<and> \<not> session_exists log (ee_session_id e)
      | RunCreated run \<Rightarrow>
          ee_run_id e = Some (rn_id run) \<and> rs_session_id (rn_spec run) = ee_session_id e \<and> rn_state run = Queued
          \<and> new_run_acceptance_contract_is_valid run \<and> session_exists log (ee_session_id e)
          \<and> rn_id run \<notin> rn_id ` set (runs_of log)
      | payload \<Rightarrow>
          session_exists log (ee_session_id e)
          \<and> (\<forall>run_id. ee_run_id e = Some run_id \<longrightarrow> run_in_session log run_id (ee_session_id e))
          \<and> (\<forall>from to. payload = RunStateChanged from to \<longrightarrow>
               (\<exists>run_id. ee_run_id e = Some run_id \<and> run_state log run_id = Some from \<and> valid_run_transition from to)))"

definition admissible :: "event_log \<Rightarrow> EventEnvelope \<Rightarrow> bool" where
  "admissible log e \<longleftrightarrow>
     ee_id e \<notin> ee_id ` set log
     \<and> unat (ee_sequence e) = Suc (length (session_log log (ee_session_id e)))
     \<and> (\<forall>parent. ee_causal_parent e = Some parent \<longrightarrow>
          (\<exists>d \<in> set log. ee_id d = parent \<and> ee_session_id d = ee_session_id e))
     \<and> payload_admissible log e"

inductive valid_log :: "event_log \<Rightarrow> bool" where
  valid_log_Nil: "valid_log []"
| valid_log_snoc: "valid_log log \<Longrightarrow> admissible log e \<Longrightarrow> valid_log (log @ [e])"

inductive_simps valid_log_snoc_iff: "valid_log (log @ [e])"

lemma session_log_simps [simp]:
  "session_log [] s = []"
  "session_log (log @ [e]) s = (if ee_session_id e = s then session_log log s @ [e] else session_log log s)"
  by (simp_all add: session_log_def)

lemma sessions_of_simps [simp]:
  "sessions_of [] = []"
  "sessions_of (log @ [e]) = sessions_of log @ (case ee_payload e of SessionCreated session \<Rightarrow> [session] | _ \<Rightarrow> [])"
  by (simp_all add: sessions_of_def)

lemma runs_of_simps [simp]:
  "runs_of [] = []"
  "runs_of (log @ [e]) = runs_of log @ (case ee_payload e of RunCreated run \<Rightarrow> [run] | _ \<Rightarrow> [])"
  by (simp_all add: runs_of_def)

lemma run_state_simps [simp]:
  "run_state [] r = None" "run_state (log @ [e]) r = next_state r e (run_state log r)"
  by (simp_all add: run_state_def)

lemma session_exists_mono: "session_exists log s \<Longrightarrow> session_exists (log @ [e]) s"
  by (auto simp: session_exists_def)

lemma run_in_session_mono: "run_in_session log r s \<Longrightarrow> run_in_session (log @ [e]) r s"
  by (auto simp: run_in_session_def)

lemma admissible_session:
  "admissible log e \<Longrightarrow> session_exists (log @ [e]) (ee_session_id e)"
  by (auto simp: admissible_def payload_admissible_def session_exists_def split: EventPayload.splits)

lemma admissible_run:
  "admissible log e \<Longrightarrow> ee_run_id e = Some r \<Longrightarrow> run_in_session (log @ [e]) r (ee_session_id e)"
  by (auto simp: admissible_def payload_admissible_def run_in_session_def split: EventPayload.splits)

section \<open>Properties of a valid log\<close>

lemma valid_log_sessions:
  "valid_log log \<Longrightarrow> e \<in> set log \<Longrightarrow> session_exists log (ee_session_id e)"
  by (induction rule: valid_log.induct) (auto intro: session_exists_mono admissible_session)

lemma valid_log_runs:
  "valid_log log \<Longrightarrow> e \<in> set log \<Longrightarrow> ee_run_id e = Some r \<Longrightarrow> run_in_session log r (ee_session_id e)"
  by (induction rule: valid_log.induct) (auto intro: run_in_session_mono admissible_run)

lemma valid_log_ids: "valid_log log \<Longrightarrow> distinct (map ee_id log)"
  by (induction rule: valid_log.induct) (auto simp: admissible_def)

lemma valid_log_sequences:
  "valid_log log \<Longrightarrow>
     map (\<lambda>e. unat (ee_sequence e)) (session_log log s) = [1..<Suc (length (session_log log s))]"
  by (induction rule: valid_log.induct) (auto simp: admissible_def)

lemma valid_log_distinct_runs: "valid_log log \<Longrightarrow> distinct (map rn_id (runs_of log))"
  by (induction rule: valid_log.induct)
    (auto simp: admissible_def payload_admissible_def split: EventPayload.splits)

lemma valid_log_distinct_sessions: "valid_log log \<Longrightarrow> distinct (map sn_id (sessions_of log))"
  by (induction rule: valid_log.induct)
    (auto simp: admissible_def payload_admissible_def session_exists_def split: EventPayload.splits)

lemma valid_log_prefix: "valid_log (xs @ ys) \<Longrightarrow> valid_log xs"
  by (induction ys rule: rev_induct)
    (auto simp: valid_log_snoc_iff simp flip: append_assoc)

lemma valid_log_member: "valid_log (xs @ e # ys) \<Longrightarrow> admissible xs e"
  using valid_log_prefix[of "xs @ [e]" ys] by (simp add: valid_log_snoc_iff)

text \<open>A parent lies before its child.\<close>

lemma valid_log_parent:
  assumes "valid_log (xs @ e # ys)" "ee_causal_parent e = Some parent"
  shows "\<exists>d \<in> set xs. ee_id d = parent \<and> ee_session_id d = ee_session_id e"
  using valid_log_member[OF assms(1)] assms(2) by (simp add: admissible_def)

text \<open>The states of runs: a run has one exactly when it is created, and a terminal one stays.\<close>

lemma valid_log_run_state:
  assumes "valid_log log"
  shows "run_state log r \<noteq> None \<longleftrightarrow> r \<in> rn_id ` set (runs_of log)"
  using assms
proof (induction rule: valid_log.induct)
  case (valid_log_snoc log e)
  then show ?case
    by (cases "ee_payload e")
      (force simp: next_state_def admissible_def payload_admissible_def run_in_session_def)+
qed simp

definition terminal_state :: "RunState \<Rightarrow> bool" where
  "terminal_state state \<longleftrightarrow> state \<in> {RunCompleted, RunFailed, RunCancelled}"

lemma terminal_no_transition: "valid_run_transition from to \<Longrightarrow> \<not> terminal_state from"
  by (cases "from") (auto simp: terminal_state_def)

lemma admissible_terminal:
  assumes "admissible log e" "valid_log log" "run_state log r = Some state" "terminal_state state"
  shows "run_state (log @ [e]) r = Some state"
proof -
  have "r \<in> rn_id ` set (runs_of log)"
    using valid_log_run_state[OF assms(2)] assms(3) by force
  with assms(1,3,4) show ?thesis
    by (cases "ee_payload e")
      (auto simp: admissible_def payload_admissible_def next_state_def dest: terminal_no_transition)
qed

lemma valid_log_terminal:
  assumes "valid_log (log @ rest)" "run_state log r = Some state" "terminal_state state"
  shows "run_state (log @ rest) r = Some state"
  using assms(1)
proof (induction rest rule: rev_induct)
  case (snoc e rest)
  then have "valid_log (log @ rest)" "admissible (log @ rest) e"
    by (simp_all add: valid_log_snoc_iff flip: append_assoc)
  with snoc.IH admissible_terminal[of "log @ rest" e r state] assms(3) show ?case
    by (simp flip: append_assoc)
qed (use assms(2) in simp)

end
