(* ===== verification/Event_Store_Correct.thy ===== *)
theory Event_Store_Correct
  imports Event_Log Transition_Systems
begin

text \<open>
  The store refines the specification of \<open>Event_Log\<close>: in every reachable state the log is valid, the
  tables are what the log determines, and an operation appends one admissible event or nothing.
\<close>

section \<open>Rows and events\<close>

text \<open>What the store relies on of \<open>serde_json\<close>: what was encoded is decoded to the same event.\<close>

definition codec_ok :: "store_env \<Rightarrow> bool" where
  "codec_ok env \<longleftrightarrow> (\<forall>e json. sv_encode env e = Inr json \<longrightarrow> sv_decode env json = Inr e)"

definition row_event :: "store_env \<Rightarrow> event_row \<Rightarrow> EventEnvelope" where
  "row_event env row = projr (sv_decode env (er_value_json row))"

definition event_log :: "store_env \<Rightarrow> store_db \<Rightarrow> event_log" where
  "event_log env db = map (row_event env) (db_events db)"

definition row_ok :: "store_env \<Rightarrow> event_row \<Rightarrow> bool" where
  "row_ok env row \<longleftrightarrow>
     length (er_value_json row) \<le> MAX_INLINE_EVENT_BYTES \<and> \<not> isl (sv_decode env (er_value_json row))
     \<and> sql_integer (er_sequence row) \<and> row = event_row_of (row_event env row) (er_value_json row)"

definition state_row_ok :: "event_log \<Rightarrow> state_row \<Rightarrow> bool" where
  "state_row_ok log row \<longleftrightarrow>
     run_state log (st_run_id row) = Some (st_state row) \<and> run_in_session log (st_run_id row) (st_session_id row)
     \<and> unat (st_state_sequence row) \<le> length (session_log log (st_session_id row))"

text \<open>The tables are determined by a valid log.\<close>

definition store_inv :: "store_env \<Rightarrow> store_db \<Rightarrow> bool" where
  "store_inv env db \<longleftrightarrow>
     (\<forall>row \<in> set (db_events db). row_ok env row)
     \<and> valid_log (event_log env db)
     \<and> db_sessions db = sessions_of (event_log env db)
     \<and> db_runs db = runs_of (event_log env db)
     \<and> map st_run_id (db_states db) = map rn_id (db_runs db)
     \<and> (\<forall>row \<in> set (db_states db). state_row_ok (event_log env db) row)"

lemma row_ok_columns:
  assumes "row_ok env row"
  shows "ee_id (row_event env row) = er_id row" "ee_session_id (row_event env row) = er_session_id row"
    "ee_run_id (row_event env row) = er_run_id row" "ee_causal_parent (row_event env row) = er_causal_parent row"
    "ee_sequence (row_event env row) = er_sequence row" "sv_decode env (er_value_json row) = Inr (row_event env row)"
proof -
  have r: "row = event_row_of (row_event env row) (er_value_json row)"
    using assms by (simp add: row_ok_def)
  show "ee_id (row_event env row) = er_id row" "ee_session_id (row_event env row) = er_session_id row"
    "ee_run_id (row_event env row) = er_run_id row" "ee_causal_parent (row_event env row) = er_causal_parent row"
    "ee_sequence (row_event env row) = er_sequence row"
    by (subst (2) r, simp add: event_row_of_def)+
  show "sv_decode env (er_value_json row) = Inr (row_event env row)"
    using assms by (cases "sv_decode env (er_value_json row)") (simp_all add: row_ok_def row_event_def)
qed

lemma row_ok_new:
  assumes "codec_ok env" "encode_inline_event env e = Inr json"
  shows "sql_integer (ee_sequence e) \<Longrightarrow> row_ok env (event_row_of e json)" "row_event env (event_row_of e json) = e"
proof -
  have "sv_encode env e = Inr json" "length json \<le> MAX_INLINE_EVENT_BYTES"
    using assms(2) by (auto simp: encode_inline_event_def not_less split: sum.splits if_splits)
  moreover from this have "sv_decode env json = Inr e"
    using assms(1) by (auto simp: codec_ok_def)
  ultimately show "sql_integer (ee_sequence e) \<Longrightarrow> row_ok env (event_row_of e json)" "row_event env (event_row_of e json) = e"
    by (simp_all add: row_ok_def row_event_def event_row_of_def)
qed

section \<open>Queries of the tables as functions of the log\<close>

lemma fold_max_unat: "unat (fold max xs a) = fold max (map unat xs) (unat a)" for xs :: "u64 list"
proof (induction xs arbitrary: a)
  case (Cons x xs)
  have "unat (max x a) = max (unat x) (unat a)"
    by (simp add: max_def word_le_nat_alt)
  with Cons show ?case by simp
qed simp

lemma fold_max_upt: "fold max [1..<Suc n] 0 = (n::nat)"
  by (induction n) simp_all

lemma map_filter_rows:
  assumes "\<forall>row \<in> set rows. row_ok env row"
    and "\<And>row. row_ok env row \<Longrightarrow> P row \<longleftrightarrow> Q (row_event env row)"
  shows "map (row_event env) (filter P rows) = filter Q (map (row_event env) rows)"
  using assms(1) by (induction rows) (auto simp: assms(2))

lemma inv_rows: "store_inv env db \<Longrightarrow> row \<in> set (db_events db) \<Longrightarrow> row_ok env row"
  by (simp add: store_inv_def)

lemmas inv_columns = row_ok_columns[OF inv_rows]

lemma inv_tables:
  assumes "store_inv env db"
  shows "valid_log (event_log env db)" "db_sessions db = sessions_of (event_log env db)"
    "db_runs db = runs_of (event_log env db)" "map st_run_id (db_states db) = map rn_id (db_runs db)"
    "row \<in> set (db_states db) \<Longrightarrow> state_row_ok (event_log env db) row"
  using assms by (simp_all add: store_inv_def)

lemma list_ex_key: "list_ex (\<lambda>x. f x = k) xs \<longleftrightarrow> k \<in> f ` set xs"
  by (auto simp: list_ex_iff)

lemma id_used_iff:
  "store_inv env db \<Longrightarrow> list_ex (\<lambda>row. er_id row = i) (db_events db) \<longleftrightarrow> i \<in> ee_id ` set (event_log env db)"
  by (simp add: list_ex_key event_log_def image_image inv_columns cong: image_cong_simp)

lemma max_sequence_log:
  assumes "store_inv env db"
  shows "unat (max_sequence db s) = length (session_log (event_log env db) s)"
proof -
  let ?rows = "filter (\<lambda>row. er_session_id row = s) (db_events db)"
  have log: "session_log (event_log env db) s = map (row_event env) ?rows"
    using map_filter_rows[of "db_events db" env "\<lambda>row. er_session_id row = s" "\<lambda>e. ee_session_id e = s"]
      inv_rows[OF assms] by (simp add: session_log_def event_log_def row_ok_columns)
  have "map unat (map er_sequence ?rows) = map (\<lambda>e. unat (ee_sequence e)) (session_log (event_log env db) s)"
    using assms by (auto simp: log inv_columns)
  also have "\<dots> = [1..<Suc (length (session_log (event_log env db) s))]"
    using valid_log_sequences inv_tables(1)[OF assms] by blast
  finally show ?thesis
    unfolding max_sequence_def fold_max_unat by (simp only: unsigned_0 fold_max_upt)
qed

lemma checked_succ_iff: "checked_add a 1 = Some b \<longleftrightarrow> unat b = Suc (unat a)" for a b :: u64
proof
  assume b: "unat b = Suc (unat a)"
  have "unat b < 2 ^ 64"
    using unsigned_less[of b] by simp
  with b have "unat a + unat (1::u64) < 2 ^ 64" "a + 1 = b"
    by (simp_all add: word_unat_eq_iff unat_word_ariths)
  then show "checked_add a 1 = Some b"
    by (simp add: checked_add_def)
qed (auto dest: checked_add_Some_unat)

lemma run_bound_iff: "store_inv env db \<Longrightarrow> run_bound db r s \<longleftrightarrow> run_in_session (event_log env db) r s"
  by (auto simp: run_bound_def run_in_session_def list_ex_iff inv_tables(3))

lemma session_row_iff:
  "store_inv env db \<Longrightarrow> list_ex (\<lambda>session. sn_id session = s) (db_sessions db) \<longleftrightarrow> session_exists (event_log env db) s"
  by (auto simp: session_exists_def list_ex_iff inv_tables(2))

lemma parent_sequence_Some_iff:
  assumes "store_inv env db"
  shows "parent_sequence db p s \<noteq> None \<longleftrightarrow>
    (\<exists>d \<in> set (event_log env db). ee_id d = p \<and> ee_session_id d = s)"
proof -
  have "parent_sequence db p s \<noteq> None \<longleftrightarrow> (\<exists>row \<in> set (db_events db). er_id row = p \<and> er_session_id row = s)"
    by (auto simp: parent_sequence_def find_None_iff)
  then show ?thesis
    using assms by (auto simp: event_log_def inv_columns)
qed

lemma event_sequence_bound:
  assumes "store_inv env db" "row \<in> set (db_events db)"
  shows "1 \<le> unat (er_sequence row)"
    "unat (er_sequence row) \<le> length (session_log (event_log env db) (er_session_id row))"
proof -
  let ?log = "session_log (event_log env db) (er_session_id row)"
  have "row_event env row \<in> set ?log"
    using assms by (auto simp: session_log_def event_log_def inv_columns)
  then have "unat (ee_sequence (row_event env row)) \<in> set (map (\<lambda>e. unat (ee_sequence e)) ?log)"
    by auto
  then have "unat (er_sequence row) \<in> {1..<Suc (length ?log)}"
    using valid_log_sequences[OF inv_tables(1)[OF assms(1)]] inv_columns(5)[OF assms] by (metis set_upt)
  then show "1 \<le> unat (er_sequence row)" "unat (er_sequence row) \<le> length ?log"
    by simp_all
qed

lemma parent_sequence_less:
  assumes "store_inv env db" "parent_sequence db p s = Some n" "unat m = Suc (length (session_log (event_log env db) s))"
  shows "\<not> m \<le> n"
proof -
  obtain row where row: "row \<in> set (db_events db)" "er_session_id row = s" "er_sequence row = n"
    using assms(2) by (auto simp: parent_sequence_def find_Some_iff) (metis nth_mem)
  then have "unat n \<le> length (session_log (event_log env db) s)"
    using event_sequence_bound(2)[OF assms(1) row(1)] by simp
  with assms(3) show ?thesis
    by (simp add: word_le_nat_alt)
qed

text \<open>The admission of an envelope is the part of \<open>admissible\<close> that does not depend on the payload.\<close>

lemma validate_exact_event_admission_iff:
  assumes "store_inv env db"
  shows "validate_exact_event_admission db e = None \<longleftrightarrow>
    ee_id e \<notin> ee_id ` set (event_log env db)
    \<and> unat (ee_sequence e) = Suc (length (session_log (event_log env db) (ee_session_id e)))
    \<and> (\<forall>parent. ee_causal_parent e = Some parent \<longrightarrow>
         (\<exists>d \<in> set (event_log env db). ee_id d = parent \<and> ee_session_id d = ee_session_id e))
    \<and> (\<forall>r. ee_run_id e = Some r \<longrightarrow> is_run_created (ee_payload e)
         \<or> run_in_session (event_log env db) r (ee_session_id e))"
proof -
  let ?seq = "unat (ee_sequence e) = Suc (length (session_log (event_log env db) (ee_session_id e)))"
  have seq: "checked_add (max_sequence db (ee_session_id e)) 1 = Some (ee_sequence e) \<longleftrightarrow> ?seq"
    using max_sequence_log[OF assms] by (simp add: checked_succ_iff)
  have parent: "(case parent_sequence db p (ee_session_id e) of None \<Rightarrow> True | Some n \<Rightarrow> ee_sequence e \<le> n)
      \<longleftrightarrow> \<not> (\<exists>d \<in> set (event_log env db). ee_id d = p \<and> ee_session_id d = ee_session_id e)" if ?seq for p
    using parent_sequence_Some_iff[OF assms, of p "ee_session_id e"] parent_sequence_less[OF assms _ that]
    by (cases "parent_sequence db p (ee_session_id e)") auto
  show ?thesis
  proof (cases ?seq)
    case True
    then show ?thesis
      using id_used_iff[OF assms] run_bound_iff[OF assms] parent seq
      by (cases "ee_run_id e"; cases "ee_causal_parent e") (simp_all add: validate_exact_event_admission_def)
  next
    case False
    with seq show ?thesis by (simp add: validate_exact_event_admission_def)
  qed
qed

section \<open>Insertion of an admissible event\<close>

definition creation_ok :: "event_log \<Rightarrow> EventEnvelope \<Rightarrow> bool" where
  "creation_ok log e \<longleftrightarrow> is_creation (ee_payload e) \<longrightarrow> payload_admissible log e"

definition transition_ok :: "event_log \<Rightarrow> EventEnvelope \<Rightarrow> bool" where
  "transition_ok log e \<longleftrightarrow> (\<forall>from to. ee_payload e = RunStateChanged from to \<longrightarrow>
     (\<exists>r. ee_run_id e = Some r \<and> run_state log r = Some from \<and> valid_run_transition from to))"

lemma payload_admissible_iff:
  "payload_admissible log e \<longleftrightarrow>
     creation_ok log e \<and> (is_creation (ee_payload e) \<or> session_exists log (ee_session_id e))
     \<and> (\<forall>r. ee_run_id e = Some r \<longrightarrow> is_run_created (ee_payload e) \<or> run_in_session log r (ee_session_id e))
     \<and> transition_ok log e"
  by (auto simp: payload_admissible_def creation_ok_def transition_ok_def split: EventPayload.splits)

text \<open>The rows of sessions and runs after the event.\<close>

definition with_rows :: "event_log \<Rightarrow> store_db \<Rightarrow> store_db" where
  "with_rows log db = db\<lparr>db_sessions := sessions_of log, db_runs := runs_of log\<rparr>"

definition payload_effect :: "store_env \<Rightarrow> EventEnvelope \<Rightarrow> store_db \<Rightarrow> StoreError + store_db" where
  "payload_effect env e db =
     (case ee_payload e of
        SessionCreated session \<Rightarrow> insert_session_row e session db
      | RunCreated run \<Rightarrow> insert_run_row e run db
      | _ \<Rightarrow> (case sv_generic env db e of Some x \<Rightarrow> Inl x | None \<Rightarrow> Inr db))"

lemma payload_effect_iff:
  assumes "store_inv env db"
  shows "payload_effect env e db = Inr db' \<longleftrightarrow>
    creation_ok (event_log env db) e \<and> (is_creation (ee_payload e) \<or> sv_generic env db e = None)
    \<and> db' = with_rows (event_log env db @ [e]) db"
proof -
  have same: "with_rows (event_log env db) db = db"
    using inv_tables(2,3)[OF assms] by (simp add: with_rows_def)
  note rows = list_ex_key inv_tables(2,3)[OF assms]
  show ?thesis
  proof (cases "ee_payload e")
    case (SessionCreated session)
    then show ?thesis
      by (auto simp: payload_effect_def insert_session_row_def creation_ok_def payload_admissible_def with_rows_def
          session_exists_def rows)
  next
    case (RunCreated run)
    then show ?thesis
      by (auto simp: payload_effect_def insert_run_row_def creation_ok_def payload_admissible_def with_rows_def
          session_exists_def rows)
  qed (use same in \<open>auto simp: payload_effect_def creation_ok_def with_rows_def split: option.splits\<close>)
qed

lemma event_keys_ok_iff:
  assumes "store_inv env db" "validate_exact_event_admission db e = None"
    "creation_ok (event_log env db) e" "length json \<le> MAX_INLINE_EVENT_BYTES"
  shows "event_keys_ok (with_rows (event_log env db @ [e]) db) (event_row_of e json) \<longleftrightarrow>
    is_creation (ee_payload e) \<or> session_exists (event_log env db) (ee_session_id e)"
proof -
  let ?log = "event_log env db" and ?db = "with_rows (event_log env db @ [e]) db"
  note adm = assms(2)[unfolded validate_exact_event_admission_iff[OF assms(1)]]
  have key: "\<not> (er_id row = ee_id e \<or> er_session_id row = ee_session_id e \<and> er_sequence row = ee_sequence e)"
    if "row \<in> set (db_events db)" for row
  proof -
    have "er_id row \<in> ee_id ` set ?log"
      using that inv_columns(1)[OF assms(1) that] by (force simp: event_log_def image_image)
    with adm event_sequence_bound(2)[OF assms(1) that] show ?thesis
      by (metis Suc_n_not_le_n)
  qed
  have session: "list_ex (\<lambda>s. sn_id s = ee_session_id e) (db_sessions ?db) \<longleftrightarrow>
      is_creation (ee_payload e) \<or> session_exists ?log (ee_session_id e)"
    using assms(3) by (cases "ee_payload e")
      (auto simp: with_rows_def list_ex_key session_exists_def creation_ok_def payload_admissible_def)
  have run: "run_bound ?db r (ee_session_id e)" if "ee_run_id e = Some r" for r
    using that adm assms(3) by (cases "ee_payload e")
      (auto simp: with_rows_def run_bound_def run_in_session_def list_ex_iff creation_ok_def payload_admissible_def)
  have parent: "parent_sequence ?db p (ee_session_id e) \<noteq> None" if "ee_causal_parent e = Some p" for p
    using that adm parent_sequence_Some_iff[OF assms(1)] by (simp add: parent_sequence_def with_rows_def)
  have keys: "\<not> list_ex (\<lambda>r. er_id r = ee_id e \<or> er_session_id r = ee_session_id e \<and> er_sequence r = ee_sequence e)
      (db_events ?db)"
    using key by (auto simp: list_ex_iff with_rows_def)
  show ?thesis
    using keys session run parent assms(4)
    by (cases "ee_run_id e"; cases "ee_causal_parent e") (simp_all add: event_keys_ok_def event_row_of_def)
qed

text \<open>The row of the projection for a run.\<close>

lemma run_in_session_unique:
  "valid_log log \<Longrightarrow> run_in_session log r s \<Longrightarrow> run_in_session log r t \<Longrightarrow> s = t"
  using valid_log_distinct_runs by (fastforce simp: run_in_session_def distinct_map inj_on_def)

lemma state_row_of_run:
  assumes "store_inv env db" "run_in_session (event_log env db) r s"
  obtains before row after where "db_states db = before @ row # after" "st_run_id row = r"
    "r \<notin> st_run_id ` set (before @ after)" "st_session_id row = s" "state_row_ok (event_log env db) row"
proof -
  have "r \<in> set (map rn_id (db_runs db))"
    using assms(2) inv_tables(3)[OF assms(1)] by (auto simp: run_in_session_def)
  then have "r \<in> st_run_id ` set (db_states db)"
    using inv_tables(4)[OF assms(1)] by (metis set_map)
  then obtain row where row: "row \<in> set (db_states db)" "st_run_id row = r" by auto
  then obtain before after where split: "db_states db = before @ row # after" by (meson split_list)
  have ok: "state_row_ok (event_log env db) row"
    using row(1) inv_tables(5)[OF assms(1)] by blast
  have "distinct (map st_run_id (db_states db))"
    using inv_tables(3,4)[OF assms(1)] valid_log_distinct_runs[OF inv_tables(1)[OF assms(1)]] by simp
  then have "r \<notin> st_run_id ` set (before @ after)"
    using row(2) by (auto simp: split)
  moreover have "st_session_id row = s"
    using ok row(2) run_in_session_unique[OF inv_tables(1)[OF assms(1)] _ assms(2)] by (simp add: state_row_ok_def)
  ultimately show thesis
    using that split row(2) ok by blast
qed

definition projected :: "EventEnvelope \<Rightarrow> state_row list \<Rightarrow> state_row list" where
  "projected e states =
     (case ee_payload e of
        RunCreated run \<Rightarrow> states @ [\<lparr>st_run_id = rn_id run, st_session_id = ee_session_id e, st_state = Queued,
                                   st_state_sequence = ee_sequence e\<rparr>]
      | RunStateChanged from to \<Rightarrow>
          map (\<lambda>row. if ee_run_id e = Some (st_run_id row)
                     then row\<lparr>st_state := to, st_state_sequence := ee_sequence e\<rparr> else row) states
      | _ \<Rightarrow> states)"

lemma project_change_iff:
  assumes "store_inv env db" "validate_exact_event_admission db e = None" "ee_payload e = RunStateChanged from to"
  shows "project_state e (db_states db) = Inr states \<longleftrightarrow>
    transition_ok (event_log env db) e \<and> states = projected e (db_states db)"
proof (cases "ee_run_id e")
  case None
  then show ?thesis
    using assms(3) by (simp add: project_state_def projects_to_def transition_ok_def)
next
  case (Some r)
  let ?log = "event_log env db"
  note adm = assms(2)[unfolded validate_exact_event_admission_iff[OF assms(1)]]
  have "run_in_session ?log r (ee_session_id e)"
    using adm Some assms(3) by simp
  then obtain before row after where row: "db_states db = before @ row # after" "st_run_id row = r"
    "r \<notin> st_run_id ` set (before @ after)" "st_session_id row = ee_session_id e" "state_row_ok ?log row"
    using state_row_of_run[OF assms(1)] by blast
  have other: "\<not> projects_to e from to x" "ee_run_id e \<noteq> Some (st_run_id x)" if "x \<in> set before \<union> set after" for x
    using that row(3) Some by (auto simp: projects_to_def)
  have this_row: "projects_to e from to row \<longleftrightarrow> transition_ok ?log e"
    using row(2,4,5) Some adm assms(3)
    by (auto simp: projects_to_def transition_ok_def state_row_ok_def word_less_nat_alt)
  have "filter (projects_to e from to) (db_states db) = (if transition_ok ?log e then [row] else [])"
    using other(1) this_row by (simp add: row(1) filter_empty_conv)
  then show ?thesis
    using assms(3) other this_row Some row(2) by (auto simp: project_state_def projected_def row(1))
qed

lemma project_state_iff:
  assumes "store_inv env db" "validate_exact_event_admission db e = None" "creation_ok (event_log env db) e"
  shows "project_state e (db_states db) = Inr states \<longleftrightarrow>
    transition_ok (event_log env db) e \<and> states = projected e (db_states db)"
proof (cases "ee_payload e")
  case (RunCreated run)
  then have run: "ee_run_id e = Some (rn_id run)" "rn_state run = Queued" "rn_id run \<notin> set (map rn_id (db_runs db))"
    using assms(3) inv_tables(3)[OF assms(1)] by (simp_all add: creation_ok_def payload_admissible_def)
  then have "\<not> list_ex (\<lambda>row. st_run_id row = rn_id run) (db_states db)"
    using inv_tables(4)[OF assms(1)] by (metis (mono_tags, lifting) imageI list_ex_iff set_map)
  with run RunCreated show ?thesis
    by (auto simp: project_state_def projected_def transition_ok_def)
next
  case (RunStateChanged source target)
  then show ?thesis
    using project_change_iff assms(1,2) by blast
qed (auto simp: project_state_def projected_def transition_ok_def)

text \<open>The database after an admissible event.\<close>

definition extended :: "store_env \<Rightarrow> EventEnvelope \<Rightarrow> string \<Rightarrow> store_db \<Rightarrow> store_db" where
  "extended env e json db =
     (with_rows (event_log env db @ [e]) db)
       \<lparr>db_events := db_events db @ [event_row_of e json], db_states := projected e (db_states db)\<rparr>"

definition refused :: "store_env \<Rightarrow> store_db \<Rightarrow> EventEnvelope \<Rightarrow> bool" where
  "refused env db e \<longleftrightarrow> sv_artifact_refs env (ee_provenance e) (ee_payload e) \<noteq> None
     \<or> (\<not> is_creation (ee_payload e) \<and> sv_generic env db e \<noteq> None) \<or> \<not> sql_integer (ee_sequence e)"

lemma insert_event_iff:
  assumes "store_inv env db" "validate_exact_event_admission db e = None" "creation_ok (event_log env db) e"
  shows "insert_event_in_transaction env e (with_rows (event_log env db @ [e]) db) = Inr db' \<longleftrightarrow>
    (\<exists>json. encode_inline_event env e = Inr json \<and> db' = extended env e json db) \<and> sql_integer (ee_sequence e)
    \<and> (is_creation (ee_payload e) \<or> session_exists (event_log env db) (ee_session_id e))
    \<and> transition_ok (event_log env db) e"
proof (cases "encode_inline_event env e")
  case (Inr json)
  then have len: "length json \<le> MAX_INLINE_EVENT_BYTES"
    by (auto simp: encode_inline_event_def not_less split: sum.splits if_splits)
  have states: "db_states (with_rows (event_log env db @ [e]) db) = db_states db"
    "db_events (with_rows (event_log env db @ [e]) db) = db_events db"
    by (simp_all add: with_rows_def)
  have unfolded: "insert_event_in_transaction env e (with_rows (event_log env db @ [e]) db) =
      (if \<not> sql_integer (ee_sequence e) then Inl (Database None)
       else if \<not> (is_creation (ee_payload e) \<or> session_exists (event_log env db) (ee_session_id e)) then Inl constraint_violation
       else case project_state e (db_states db) of Inl x \<Rightarrow> Inl x
         | Inr sts \<Rightarrow> Inr ((with_rows (event_log env db @ [e]) db)
             \<lparr>db_events := db_events db @ [event_row_of e json], db_states := sts\<rparr>))"
    unfolding insert_event_in_transaction_def Inr sum.case Let_def event_keys_ok_iff[OF assms len] states ..
  show ?thesis
  proof (cases "project_state e (db_states db)")
    case (Inl x)
    then have "\<not> transition_ok (event_log env db) e"
      using project_state_iff[OF assms, of "projected e (db_states db)"] by simp
    with Inl show ?thesis by (simp add: unfolded)
  next
    case Inr2: (Inr sts)
    then have "transition_ok (event_log env db) e" "sts = projected e (db_states db)"
      using project_state_iff[OF assms, of sts] by simp_all
    with Inr2 Inr show ?thesis by (auto simp: unfolded extended_def[symmetric])
  qed
qed (simp add: insert_event_in_transaction_def)

lemma apply_exact_unfold:
  "apply_exact_event_envelope env e db =
     (case validate_exact_event_admission db e of
        Some x \<Rightarrow> Inl x
      | None \<Rightarrow>
          (case sv_artifact_refs env (ee_provenance e) (ee_payload e) of
             Some x \<Rightarrow> Inl x
           | None \<Rightarrow> (case payload_effect env e db of Inl x \<Rightarrow> Inl x
                     | Inr db1 \<Rightarrow> insert_event_in_transaction env e db1)))"
  unfolding apply_exact_event_envelope_def payload_effect_def ..

text \<open>An envelope is applied exactly when it is admissible and nothing refuses it.\<close>

lemma apply_exact_iff:
  assumes "store_inv env db"
  shows "apply_exact_event_envelope env e db = Inr db' \<longleftrightarrow>
    admissible (event_log env db) e \<and> \<not> refused env db e
    \<and> (\<exists>json. encode_inline_event env e = Inr json \<and> db' = extended env e json db)"
proof (cases "validate_exact_event_admission db e")
  case None
  note adm = None[unfolded validate_exact_event_admission_iff[OF assms]]
  have admissible: "admissible (event_log env db) e \<longleftrightarrow> creation_ok (event_log env db) e
      \<and> (is_creation (ee_payload e) \<or> session_exists (event_log env db) (ee_session_id e))
      \<and> transition_ok (event_log env db) e"
    using adm by (simp add: admissible_def payload_admissible_iff)
  show ?thesis
  proof (cases "payload_effect env e db")
    case (Inl x)
    then have "\<not> (creation_ok (event_log env db) e \<and> (is_creation (ee_payload e) \<or> sv_generic env db e = None))"
      using payload_effect_iff[OF assms, of e] by auto
    with Inl None admissible show ?thesis
      by (auto simp: apply_exact_unfold refused_def split: option.splits)
  next
    case (Inr db1)
    then have ok: "creation_ok (event_log env db) e" "is_creation (ee_payload e) \<or> sv_generic env db e = None"
      "db1 = with_rows (event_log env db @ [e]) db"
      using payload_effect_iff[OF assms, of e] by auto
    show ?thesis
      using Inr None admissible ok insert_event_iff[OF assms None ok(1)]
      by (auto simp: apply_exact_unfold refused_def split: option.splits)
  qed
next
  case (Some x)
  then have "\<not> admissible (event_log env db) e"
    using validate_exact_event_admission_iff[OF assms, of e]
    by (auto simp: admissible_def payload_admissible_iff)
  with Some show ?thesis by (simp add: apply_exact_unfold)
qed

lemma projected_run_ids:
  "map st_run_id (projected e states) =
     map st_run_id states @ (case ee_payload e of RunCreated run \<Rightarrow> [rn_id run] | _ \<Rightarrow> [])"
  by (auto simp: projected_def split: EventPayload.splits)

lemma session_log_length_mono: "length (session_log log s) \<le> length (session_log (log @ [e]) s)"
  by simp

lemma state_row_keep:
  assumes "state_row_ok log row" "next_state (st_run_id row) e (run_state log (st_run_id row)) = run_state log (st_run_id row)"
  shows "state_row_ok (log @ [e]) row"
  using assms run_in_session_mono session_log_length_mono[of log "st_session_id row" e]
  by (auto simp: state_row_ok_def simp del: session_log_simps intro: order_trans)

lemma projected_rows:
  assumes "valid_log log" "admissible log e" "\<forall>row \<in> set states. state_row_ok log row"
    and row: "row \<in> set (projected e states)"
  shows "state_row_ok (log @ [e]) row"
proof (cases "ee_payload e")
  case (RunCreated run)
  note adm = assms(2)[unfolded admissible_def payload_admissible_def RunCreated, simplified]
  have fresh: "st_run_id row \<noteq> rn_id run" if "state_row_ok log row" for row
    using that adm unfolding state_row_ok_def run_in_session_def by (metis imageI)
  from row RunCreated consider "row \<in> set states"
    | "row = \<lparr>st_run_id = rn_id run, st_session_id = ee_session_id e, st_state = Queued, st_state_sequence = ee_sequence e\<rparr>"
    by (auto simp: projected_def)
  then show ?thesis
  proof cases
    case 1
    with assms(3) have ok: "state_row_ok log row" by blast
    show ?thesis
      using fresh[OF ok] adm by (intro state_row_keep[OF ok]) (simp add: next_state_def)
  next
    case 2
    then show ?thesis
      using adm RunCreated by (simp add: state_row_ok_def next_state_def run_in_session_def)
  qed
next
  case (RunStateChanged source target)
  then obtain old where old: "old \<in> set states"
    "row = (if ee_run_id e = Some (st_run_id old) then old\<lparr>st_state := target, st_state_sequence := ee_sequence e\<rparr> else old)"
    using row by (auto simp: projected_def)
  with assms(3) have ok: "state_row_ok log old" by blast
  show ?thesis
  proof (cases "ee_run_id e = Some (st_run_id old)")
    case True
    have "run_in_session log (st_run_id old) (ee_session_id e)"
      using assms(2) True RunStateChanged by (simp add: admissible_def payload_admissible_def)
    with ok have "st_session_id old = ee_session_id e"
      using run_in_session_unique[OF assms(1)] unfolding state_row_ok_def by blast
    then show ?thesis
      using ok old(2) True assms(2) RunStateChanged run_in_session_mono
      by (simp add: state_row_ok_def next_state_def admissible_def)
  qed (use ok old(2) in \<open>simp add: state_row_keep next_state_def\<close>)
qed (use row assms(3) in \<open>simp_all add: projected_def state_row_keep next_state_def\<close>)

lemma extended_inv:
  assumes "codec_ok env" "store_inv env db" "admissible (event_log env db) e" "encode_inline_event env e = Inr json"
    "sql_integer (ee_sequence e)"
  shows "store_inv env (extended env e json db)" "event_log env (extended env e json db) = event_log env db @ [e]"
proof -
  show log: "event_log env (extended env e json db) = event_log env db @ [e]"
    by (simp add: event_log_def extended_def with_rows_def row_ok_new(2)[OF assms(1,4)])
  have rows: "\<forall>row \<in> set (db_events (extended env e json db)). row_ok env row"
    using inv_rows[OF assms(2)] row_ok_new(1)[OF assms(1,4,5)] by (auto simp: extended_def with_rows_def)
  have ids: "map st_run_id (db_states (extended env e json db)) = map rn_id (db_runs (extended env e json db))"
    using inv_tables(3,4)[OF assms(2)]
    by (simp add: extended_def with_rows_def projected_run_ids split: EventPayload.splits)
  have states: "\<forall>row \<in> set (db_states (extended env e json db)). state_row_ok (event_log env db @ [e]) row"
    using projected_rows[OF inv_tables(1)[OF assms(2)] assms(3), of "db_states db"] inv_tables(5)[OF assms(2)]
    by (auto simp: extended_def with_rows_def)
  have "db_sessions (extended env e json db) = sessions_of (event_log env db @ [e])"
    "db_runs (extended env e json db) = runs_of (event_log env db @ [e])"
    by (simp_all add: extended_def with_rows_def)
  with rows ids states log show "store_inv env (extended env e json db)"
    using valid_log_snoc[OF inv_tables(1)[OF assms(2)] assms(3)] by (simp add: store_inv_def)
qed

end
