(* ===== verification/Event_Store_Refinement.thy ===== *)
theory Event_Store_Refinement
  imports Event_Store_Correct
begin

text \<open>
  The operations of the store as steps on the log: every one of them keeps the invariant and appends
  one admissible event or nothing.  The store meets the contract \<open>safe_system\<close>; what a query returns
  in a reachable store is read off the log, and an identified append is idempotent under any
  operations in between.
\<close>

section \<open>Transactions\<close>

lemma draw_inv [simp]:
  "store_inv env (draw db) \<longleftrightarrow> store_inv env db" "event_log env (draw db) = event_log env db"
  by (simp_all add: draw_def store_inv_def event_log_def)

text \<open>An operation leaves the log as it is, or it appends an admissible event that \<open>ok\<close> describes.\<close>

definition appends ::
  "store_env \<Rightarrow> store_db \<Rightarrow> (EventEnvelope \<Rightarrow> bool) \<Rightarrow> store_db \<Rightarrow> bool" where
  "appends env db ok db' \<longleftrightarrow>
     store_inv env db' \<and> (\<exists>e. ok e \<and> admissible (event_log env db) e \<and> event_log env db' = event_log env db @ [e])"

definition unchanged :: "store_env \<Rightarrow> store_db \<Rightarrow> store_db \<Rightarrow> bool" where
  "unchanged env db db' \<longleftrightarrow> store_inv env db' \<and> event_log env db' = event_log env db"

lemma unchanged_refl [simp]: "unchanged env db db \<longleftrightarrow> store_inv env db"
  "unchanged env db (draw db) \<longleftrightarrow> store_inv env db"
  by (simp_all add: unchanged_def)

text \<open>The envelope that a request gets.\<close>

definition envelope_for :: "EventId \<Rightarrow> NewEvent \<Rightarrow> EventEnvelope \<Rightarrow> bool" where
  "envelope_for event_id event e \<longleftrightarrow> ee_id e = event_id \<and> new_event_from_envelope e = event"

lemma preallocate_envelope:
  "preallocate_identified_event_envelope now event_id event db = Inr e \<Longrightarrow> envelope_for event_id event e"
  by (auto simp: preallocate_identified_event_envelope_def envelope_for_def new_event_from_envelope_def
      split: option.splits)

lemma apply_commit:
  assumes "codec_ok env" "store_inv env db" "apply_exact_event_envelope env e (draw db) = Inr db'"
    "commit env (draw db) db' v = (r, db'')"
  shows "if isl r then unchanged env db db'' else r = Inr v \<and> appends env db (\<lambda>d. d = e) db''"
proof -
  have inv: "store_inv env (draw db)" using assms(2) by simp
  obtain json where json: "admissible (event_log env db) e" "encode_inline_event env e = Inr json"
    "db' = extended env e json (draw db)" "sql_integer (ee_sequence e)"
    using assms(3) unfolding apply_exact_iff[OF inv] refused_def by auto
  have "store_inv env db'" "event_log env db' = event_log env db @ [e]"
    using extended_inv[OF assms(1) inv _ json(2,4)] json(1,3) by simp_all
  with assms(2,4) json(1) show ?thesis
    by (auto simp: commit_def appends_def split: option.splits)
qed

lemma append_transaction_outcome:
  assumes "codec_ok env" "store_inv env db" "append_transaction env event_id event accepts result db = (r, db')"
  shows "case r of Inl _ \<Rightarrow> unchanged env db db'
    | Inr v \<Rightarrow> (\<exists>e. v = result e \<and> accepts e \<and> envelope_for event_id event e \<and> appends env db (\<lambda>d. d = e) db')"
proof (cases "preallocate_identified_event_envelope (sv_now env (db_drawn db)) event_id event db")
  case (Inl x)
  with assms show ?thesis by (auto simp: append_transaction_def)
next
  case (Inr e)
  note envelope = preallocate_envelope[OF Inr]
  show ?thesis
  proof (cases "accepts e")
    case True
    show ?thesis
    proof (cases "apply_exact_event_envelope env e (draw db)")
      case (Inl x)
      with assms Inr True show ?thesis by (auto simp: append_transaction_def)
    next
      case applied: (Inr db1)
      then have c: "commit env (draw db) db1 (result e) = (r, db')"
        using assms(3) Inr True by (simp add: append_transaction_def)
      show ?thesis
        using apply_commit[OF assms(1,2) applied c] True envelope by (cases r) auto
    qed
  qed (use assms Inr in \<open>auto simp: append_transaction_def\<close>)
qed

lemma append_before_deadline_outcome:
  assumes "codec_ok env" "store_inv env db" "append_event_before_deadline env event deadline now db = (r, db')"
  shows "if r = Inr DeadlineAppended
    then now < deadline \<and> appends env db (\<lambda>e. \<not> is_creation (ee_payload e) \<and> new_event_from_envelope e = event) db'
    else unchanged env db db'"
proof (cases "sv_store_owned env event")
  case False
  show ?thesis
  proof (cases "preallocate_identified_event_envelope (sv_now env (db_drawn db)) (sv_event_id env (db_drawn db)) event db")
    case (Inl x)
    with assms False show ?thesis by (auto simp: append_event_before_deadline_def)
  next
    case (Inr e)
    note envelope = preallocate_envelope[OF Inr]
    show ?thesis
    proof (cases "apply_exact_event_envelope env e (draw db)")
      case (Inl x)
      with assms False Inr show ?thesis by (auto simp: append_event_before_deadline_def split: if_splits)
    next
      case applied: (Inr db1)
      consider "is_creation (ee_payload e) \<or> deadline \<le> now" "(r, db') \<in> {(Inl InvalidStateEvent, draw db), (Inr DeadlineElapsed, draw db)}"
        | "\<not> is_creation (ee_payload e)" "now < deadline" "commit env (draw db) db1 DeadlineAppended = (r, db')"
        using assms(3) False Inr applied
        by (auto simp: append_event_before_deadline_def not_le split: if_splits)
      then show ?thesis
      proof cases
        case 2
        then show ?thesis
          using apply_commit[OF assms(1,2) applied 2(3)] envelope
          by (cases r) (auto simp: appends_def envelope_for_def)
      qed (use assms(2) in auto)
    qed
  qed
qed (use assms in \<open>auto simp: append_event_before_deadline_def\<close>)

section \<open>The store as a transition system\<close>

inductive store_step :: "store_env \<Rightarrow> store_db \<Rightarrow> store_db \<Rightarrow> bool" for env where
  step_create_session: "create_session env session event db = (r, db') \<Longrightarrow> store_step env db db'"
| step_create_run: "store_create_run env run event db = (r, db') \<Longrightarrow> store_step env db db'"
| step_append: "append_event env event db = (r, db') \<Longrightarrow> store_step env db db'"
| step_append_identified: "append_identified_event env event_id event db = (r, db') \<Longrightarrow> store_step env db db'"
| step_append_before_deadline:
    "append_event_before_deadline env event deadline now db = (r, db') \<Longrightarrow> store_step env db db'"

definition empty_store :: store_db where
  "empty_store = \<lparr>db_sessions = [], db_runs = [], db_events = [], db_states = [], db_drawn = 0\<rparr>"

definition store_opened :: "store_env \<Rightarrow> store_db \<Rightarrow> bool" where
  "store_opened env db \<longleftrightarrow> codec_ok env \<and> db = empty_store"

definition consistent :: "store_env \<Rightarrow> store_db \<Rightarrow> bool" where
  "consistent env db \<longleftrightarrow> codec_ok env \<and> store_inv env db"

lemma transaction_step:
  assumes "consistent env db" "append_transaction env event_id event accepts result db = (r, db')"
  shows "unchanged env db db' \<or> appends env db (\<lambda>_. True) db'"
  using append_transaction_outcome[OF _ _ assms(2)] assms(1)
  by (cases r) (auto simp: consistent_def appends_def)

lemma append_event_outcome:
  assumes "consistent env db" "append_event env event db = (r, db')"
  shows "case r of Inl _ \<Rightarrow> unchanged env db db'
    | Inr e \<Rightarrow> \<not> is_creation (ee_payload e) \<and> new_event_from_envelope e = event \<and> appends env db (\<lambda>d. d = e) db'"
proof (cases "sv_store_owned env event")
  case True
  with assms show ?thesis by (auto simp: append_event_def consistent_def)
next
  case False
  with assms(2) have "append_transaction env (sv_event_id env (db_drawn db)) event
      (\<lambda>e. \<not> is_creation (ee_payload e)) (\<lambda>e. e) db = (r, db')"
    by (simp add: append_event_def)
  from append_transaction_outcome[OF _ _ this] assms(1) show ?thesis
    by (cases r) (auto simp: consistent_def envelope_for_def)
qed

lemma commit_same: "commit env db db v = (case sv_sqlite env db of Some e \<Rightarrow> (Inl e, db) | None \<Rightarrow> (Inr v, db))"
  by (simp add: commit_def)

lemma identified_cases:
  assumes "append_identified_event env event_id event db = (r, db')"
  obtains (kept) "db' = db" "\<And>e. r \<noteq> Inr (Appended e)"
    | (fresh) "\<not> sv_store_owned env event" "load_event_by_id env event_id db = Inr None" "\<not> is_creation (ne_payload event)"
        "append_transaction env event_id event (\<lambda>_. True) Appended db = (r, db')"
  using assms
  by (auto simp: append_identified_event_def commit_same split: if_splits sum.splits option.splits)

lemma store_step_outcome:
  assumes "consistent env db" "store_step env db db'"
  shows "unchanged env db db' \<or> appends env db (\<lambda>_. True) db'"
  using assms(2)
proof cases
  case (step_create_session session event r)
  then show ?thesis using transaction_step[OF assms(1)] by (simp add: create_session_def)
next
  case (step_create_run run event r)
  then show ?thesis using transaction_step[OF assms(1)] by (simp add: store_create_run_def)
next
  case (step_append event r)
  from append_event_outcome[OF assms(1) this] show ?thesis
    by (cases r) (auto simp: appends_def)
next
  case (step_append_identified event_id event r)
  then show ?thesis
  proof (cases rule: identified_cases)
    case kept
    with assms(1) show ?thesis by (simp add: consistent_def)
  next
    case fresh
    then show ?thesis using transaction_step[OF assms(1)] by blast
  qed
next
  case (step_append_before_deadline event deadline now r)
  from append_before_deadline_outcome[OF _ _ this] assms(1) show ?thesis
    by (auto simp: consistent_def appends_def split: if_splits)
qed

lemma consistent_empty: "store_opened env db \<Longrightarrow> consistent env db"
  by (auto simp: store_opened_def consistent_def empty_store_def store_inv_def event_log_def intro: valid_log_Nil)

interpretation store: safe_system "store_opened env" "store_step env" "consistent env" for env
proof
  fix db db'
  assume "consistent env db" "store_step env db db'"
  with store_step_outcome[of env db db'] show "consistent env db'"
    by (auto simp: consistent_def unchanged_def appends_def)
qed (rule consistent_empty)

section \<open>Queries\<close>

lemma steps_extend_log:
  assumes "(store_step env)\<^sup>*\<^sup>* db db'" "consistent env db"
  shows "\<exists>rest. event_log env db' = event_log env db @ rest"
  using assms
proof (induction rule: rtranclp_induct)
  case (step db1 db2)
  then obtain rest where "event_log env db1 = event_log env db @ rest" by blast
  moreover have "consistent env db1"
    using store.inv_preserved step.hyps(1) step.prems by blast
  ultimately show ?case
    using store_step_outcome[OF _ step.hyps(2)] by (auto simp: unchanged_def appends_def)
qed simp

lemma find_map: "List.find P (map f xs) = map_option f (List.find (\<lambda>x. P (f x)) xs)"
  by (induction xs) simp_all

lemma find_cong_set: "(\<And>x. x \<in> set xs \<Longrightarrow> P x \<longleftrightarrow> Q x) \<Longrightarrow> List.find P xs = List.find Q xs"
  by (induction xs) auto

lemma query_row_Inr: "query_row env q db x = Inr y \<longleftrightarrow> sv_fetch env q db 0 = None \<and> x = y"
  by (simp add: query_row_def split: option.splits)

text \<open>The stored event with an identifier is the event of the log with it.\<close>

lemma load_event_by_id_log:
  assumes "store_inv env db"
  shows "load_event_by_id env i db = query_row env (EventQuery i) db (List.find (\<lambda>e. ee_id e = i) (event_log env db))"
proof -
  have "List.find (\<lambda>e. ee_id e = i) (event_log env db) =
      map_option (row_event env) (List.find (\<lambda>row. er_id row = i) (db_events db))"
    unfolding event_log_def find_map using assms
    by (intro arg_cong[where f = "map_option (row_event env)"] find_cong_set) (simp add: inv_columns)
  moreover have "load_event_by_id env i db =
      query_row env (EventQuery i) db (map_option (row_event env) (List.find (\<lambda>row. er_id row = i) (db_events db)))"
  proof (cases "List.find (\<lambda>row. er_id row = i) (db_events db)")
    case (Some row)
    then have "row \<in> set (db_events db)" "er_id row = i"
      by (auto simp: find_Some_iff)
    then show ?thesis
      using Some inv_columns[OF assms, of row] by (simp add: load_event_by_id_def query_row_def split: option.splits)
  qed (simp add: load_event_by_id_def query_row_def split: option.splits)
  ultimately show ?thesis by simp
qed

lemma find_split: "P x \<Longrightarrow> \<forall>y \<in> set before. \<not> P y \<Longrightarrow> List.find P (before @ x # after) = Some x"
  by (induction before) auto

lemma distinct_find:
  assumes "distinct (map f xs)" "x \<in> set xs"
  shows "List.find (\<lambda>y. f y = f x) xs = Some x"
  using assms by (induction xs) auto

text \<open>The stored run is the created one with the state that the log gives it.\<close>

lemma store_get_run_log:
  assumes "store_inv env db"
  shows "store_get_run env r db =
    query_row env (RunQuery r) db (map_option (\<lambda>run. run\<lparr>rn_state := the (run_state (event_log env db) r)\<rparr>)
           (List.find (\<lambda>run. rn_id run = r) (runs_of (event_log env db))))"
proof (cases "List.find (\<lambda>run. rn_id run = r) (runs_of (event_log env db))")
  case None
  with assms show ?thesis by (simp add: store_get_run_def query_row_def inv_tables(3) split: option.splits)
next
  case (Some run)
  then have run: "run \<in> set (runs_of (event_log env db))" "rn_id run = r"
    by (auto simp: find_Some_iff)
  then have "run_in_session (event_log env db) r (rs_session_id (rn_spec run))"
    by (auto simp: run_in_session_def)
  then obtain before row after where row: "db_states db = before @ row # after" "st_run_id row = r"
    "r \<notin> st_run_id ` set (before @ after)" "st_session_id row = rs_session_id (rn_spec run)"
    "state_row_ok (event_log env db) row"
    by (rule state_row_of_run[OF assms])
  have "List.find (\<lambda>x. st_run_id x = r \<and> st_session_id x = rs_session_id (rn_spec run)) (db_states db) = Some row"
    unfolding row(1) using row(2-4) by (intro find_split) (simp_all, metis UnI1 imageI)
  with Some row(2,5) assms show ?thesis
    by (simp add: store_get_run_def query_row_def inv_tables(3) state_row_ok_def split: option.splits)
qed

lemma store_get_session_log:
  "store_inv env db \<Longrightarrow>
     store_get_session env s db = query_row env (SessionQuery s) db (List.find (\<lambda>session. sn_id session = s) (sessions_of (event_log env db)))"
  by (simp add: store_get_session_def inv_tables(2))

text \<open>A run that is found in a terminal state is found in it for ever.\<close>

lemma terminal_get_run:
  assumes "consistent env db" "(store_step env)\<^sup>*\<^sup>* db db'" "store_get_run env r db = Inr (Some run)"
    "terminal_state (rn_state run)"
  shows "store_get_run env r db' = query_row env (RunQuery r) db' (Some run)"
proof -
  have inv: "store_inv env db" "store_inv env db'"
    using assms(1) store.inv_preserved[OF assms(2,1)] by (simp_all add: consistent_def)
  obtain rest where rest: "event_log env db' = event_log env db @ rest"
    using steps_extend_log[OF assms(2,1)] by blast
  have "map_option (\<lambda>run. run\<lparr>rn_state := the (run_state (event_log env db) r)\<rparr>)
      (List.find (\<lambda>run. rn_id run = r) (runs_of (event_log env db))) = Some run"
    using assms(3) unfolding store_get_run_log[OF inv(1), of r] query_row_Inr by (rule conjunct2)
  then obtain created where created: "List.find (\<lambda>run. rn_id run = r) (runs_of (event_log env db)) = Some created"
    "run = created\<lparr>rn_state := the (run_state (event_log env db) r)\<rparr>"
    by (auto simp: map_option_eq_Some)
  then have member: "created \<in> set (runs_of (event_log env db))" "rn_id created = r"
    by (auto simp: find_Some_iff)
  have valid: "valid_log (event_log env db @ rest)" "valid_log (event_log env db)"
    using inv inv_tables(1) rest by metis+
  then have state: "run_state (event_log env db) r = Some (rn_state run)"
    using valid_log_run_state[OF valid(2), of r] member created(2) by auto
  have "List.find (\<lambda>run. rn_id run = rn_id created) (runs_of (event_log env db @ rest)) = Some created"
    by (rule distinct_find[OF valid_log_distinct_runs[OF valid(1)]]) (use member(1) in \<open>simp add: runs_of_def\<close>)
  then have "store_get_run env r db' = query_row env (RunQuery r) db' (Some (created\<lparr>rn_state := the (Some (rn_state run))\<rparr>))"
    unfolding store_get_run_log[OF inv(2), of r] rest valid_log_terminal[OF valid(1) state assms(4)] member(2) by simp
  also have "created\<lparr>rn_state := the (Some (rn_state run))\<rparr> = run"
    using created(2) unfolding state by (cases run) simp
  finally show ?thesis .
qed

section \<open>Identified appends\<close>

lemma identified_present:
  assumes "consistent env db" "e \<in> set (event_log env db)" "\<not> sv_store_owned env (new_event_from_envelope e)"
  shows "append_identified_event env (ee_id e) (new_event_from_envelope e) db =
    (case sv_fetch env (EventQuery (ee_id e)) db 0 of Some error \<Rightarrow> (Inl error, db)
     | None \<Rightarrow> commit env db db (AlreadyPresent e))"
proof -
  have inv: "store_inv env db" using assms(1) by (simp add: consistent_def)
  have "load_event_by_id env (ee_id e) db = query_row env (EventQuery (ee_id e)) db (Some e)"
    using load_event_by_id_log[OF inv] distinct_find[OF valid_log_ids[OF inv_tables(1)[OF inv]] assms(2)] by simp
  with assms(3) show ?thesis by (simp add: append_identified_event_def query_row_def split: option.splits)
qed

lemma identified_conflict:
  assumes "consistent env db" "e \<in> set (event_log env db)" "event \<noteq> new_event_from_envelope e" "\<not> sv_store_owned env event"
  shows "append_identified_event env (ee_id e) event db =
    (Inl (case sv_fetch env (EventQuery (ee_id e)) db 0 of Some error \<Rightarrow> error | None \<Rightarrow> IdentifiedEventConflict), db)"
proof -
  have inv: "store_inv env db" using assms(1) by (simp add: consistent_def)
  have "load_event_by_id env (ee_id e) db = query_row env (EventQuery (ee_id e)) db (Some e)"
    using load_event_by_id_log[OF inv] distinct_find[OF valid_log_ids[OF inv_tables(1)[OF inv]] assms(2)] by simp
  with assms(3,4) show ?thesis by (simp add: append_identified_event_def query_row_def split: option.splits)
qed

lemma identified_appended:
  assumes "consistent env db" "append_identified_event env event_id event db = (Inr (Appended e), db')"
  shows "ee_id e = event_id" "new_event_from_envelope e = event" "event_log env db' = event_log env db @ [e]"
    "\<not> sv_store_owned env event"
proof -
  from assms(2) have out: "append_transaction env event_id event (\<lambda>_. True) Appended db = (Inr (Appended e), db')
      \<and> \<not> sv_store_owned env event"
    by (cases rule: identified_cases) blast+
  with append_transaction_outcome[OF _ _ conjunct1[OF out]] assms(1)
  show "ee_id e = event_id" "new_event_from_envelope e = event" "event_log env db' = event_log env db @ [e]"
    "\<not> sv_store_owned env event"
    by (auto simp: consistent_def envelope_for_def appends_def)
qed

section \<open>When an append succeeds\<close>

text \<open>The envelope of the next event: the next number of its session.\<close>

definition next_envelope :: "store_env \<Rightarrow> store_db \<Rightarrow> EventId \<Rightarrow> NewEvent \<Rightarrow> EventEnvelope" where
  "next_envelope env db event_id event =
     \<lparr>ee_id = event_id, ee_sequence = of_nat (Suc (length (session_log (event_log env db) (ne_session_id event)))),
      ee_session_id = ne_session_id event, ee_run_id = ne_run_id event, ee_actor_id = ne_actor_id event,
      ee_causal_parent = ne_causal_parent event, ee_occurred_at = sv_now env (db_drawn db),
      ee_provenance = ne_provenance event, ee_payload = ne_payload event\<rparr>"

lemma preallocate_next:
  assumes "store_inv env db"
  shows "preallocate_identified_event_envelope (sv_now env (db_drawn db)) event_id event db =
    (if Suc (length (session_log (event_log env db) (ne_session_id event))) < 2 ^ 64
     then Inr (next_envelope env db event_id event) else Inl SequenceOverflow)"
proof -
  let ?max = "max_sequence db (ne_session_id event)" and ?n = "length (session_log (event_log env db) (ne_session_id event))"
  have n: "unat ?max = ?n" by (rule max_sequence_log[OF assms])
  have "checked_add ?max 1 = (if Suc ?n < 2 ^ 64 then Some (of_nat (Suc ?n)) else None)"
    using n by (auto simp: checked_add_def simp flip: n)
  then show ?thesis
    by (simp add: preallocate_identified_event_envelope_def next_envelope_def)
qed

lemma admissible_next_small:
  assumes "admissible (event_log env db) (next_envelope env db event_id event)"
  shows "Suc (length (session_log (event_log env db) (ne_session_id event))) < 2 ^ 64"
proof -
  let ?e = "next_envelope env db event_id event"
  have "unat (ee_sequence ?e) = Suc (length (session_log (event_log env db) (ne_session_id event)))"
    using assms by (simp add: admissible_def next_envelope_def)
  with unsigned_less[where 'a = nat, of "ee_sequence ?e"] show ?thesis by simp
qed

lemma append_transaction_succeeds:
  assumes "consistent env db" "e = next_envelope env db event_id event" "admissible (event_log env db) e"
    "accepts e" "\<not> refused env (draw db) e" "encode_inline_event env e = Inr json" "\<And>db. sv_sqlite env db = None"
  obtains db' where "append_transaction env event_id event accepts result db = (Inr (result e), db')"
    "consistent env db'" "event_log env db' = event_log env db @ [e]" "db_drawn db' = Suc (db_drawn db)"
proof -
  have inv: "store_inv env db" "store_inv env (draw db)" "codec_ok env" using assms(1) by (simp_all add: consistent_def)
  let ?db' = "extended env e json (draw db)"
  have "apply_exact_event_envelope env e (draw db) = Inr ?db'"
    using apply_exact_iff[OF inv(2)] assms(3,5,6) by simp
  moreover have "preallocate_identified_event_envelope (sv_now env (db_drawn db)) event_id event db = Inr e"
    using preallocate_next[OF inv(1)] admissible_next_small assms(2,3) by simp
  ultimately have "append_transaction env event_id event accepts result db = (Inr (result e), ?db')"
    using assms(4,7) by (simp add: append_transaction_def commit_def)
  moreover have "store_inv env ?db'" "event_log env ?db' = event_log env db @ [e]"
    using extended_inv[OF inv(3,2) _ assms(6)] assms(3,5) by (simp_all add: refused_def)
  moreover have "db_drawn ?db' = Suc (db_drawn db)"
    by (simp add: extended_def with_rows_def draw_def)
  ultimately show thesis using that inv(3) by (simp add: consistent_def)
qed

lemma append_event_iff:
  assumes "consistent env db"
  shows "append_event env event db = (Inr e, db') \<longleftrightarrow>
    \<not> sv_store_owned env event \<and> \<not> is_creation (ne_payload event)
    \<and> e = next_envelope env db (sv_event_id env (db_drawn db)) event
    \<and> admissible (event_log env db) e \<and> \<not> refused env (draw db) e
    \<and> (\<exists>json. encode_inline_event env e = Inr json \<and> db' = extended env e json (draw db) \<and> sv_sqlite env db' = None)"
proof -
  let ?e = "next_envelope env db (sv_event_id env (db_drawn db)) event"
  have inv: "store_inv env db" "store_inv env (draw db)" using assms by (simp_all add: consistent_def)
  have payload: "ee_payload ?e = ne_payload event" by (simp add: next_envelope_def)
  have applied: "(apply_exact_event_envelope env ?e (draw db) = Inr db1) \<longleftrightarrow>
      admissible (event_log env db) ?e \<and> \<not> refused env (draw db) ?e
      \<and> (\<exists>json. encode_inline_event env ?e = Inr json \<and> db1 = extended env ?e json (draw db))" for db1
    using apply_exact_iff[OF inv(2), of ?e db1] by simp
  have "append_event env event db = (Inr e, db') \<longleftrightarrow>
      \<not> sv_store_owned env event \<and> \<not> is_creation (ne_payload event) \<and> e = ?e
      \<and> Suc (length (session_log (event_log env db) (ne_session_id event))) < 2 ^ 64
      \<and> apply_exact_event_envelope env ?e (draw db) = Inr db' \<and> sv_sqlite env db' = None"
    by (auto simp: append_event_def append_transaction_def preallocate_next[OF inv(1)] payload commit_def
        split: sum.splits option.splits if_splits)
  with applied admissible_next_small show ?thesis by blast
qed

end
