(* ===== verification/Event_Paging.thy ===== *)
theory Event_Paging
  imports Event_Store_Refinement
begin

text \<open>
  The bounded pages of the store.  A page is the longest prefix of the events after the cursor that
  fits the limits; on a reachable store it fails only when SQLite fails a step of its query, and it never
  stops without an event while there is one.
\<close>

section \<open>The loop over the rows\<close>

definition page_limits_ok :: "EventEnvelope list \<Rightarrow> nat \<Rightarrow> bool" where
  "page_limits_ok events encoded_bytes \<longleftrightarrow> length events \<le> EVENT_PAGE_SIZE \<and> encoded_bytes \<le> EVENT_PAGE_BYTES"

text \<open>The first failure among \<open>n\<close> steps of a query from step \<open>i\<close>.\<close>

fun first_failure :: "(nat \<Rightarrow> StoreError option) \<Rightarrow> nat \<Rightarrow> nat \<Rightarrow> StoreError option" where
  "first_failure fetch i 0 = None"
| "first_failure fetch i (Suc n) = (case fetch i of Some e \<Rightarrow> Some e | None \<Rightarrow> first_failure fetch (Suc i) n)"

lemma first_failure_step: "first_failure fetch i n = Some e \<Longrightarrow> \<exists>j. fetch j = Some e"
  by (induction fetch i n rule: first_failure.induct) (auto split: option.splits)

definition or_fails :: "StoreError option \<Rightarrow> 'a \<Rightarrow> StoreError + 'a" where
  "or_fails failure x = (case failure of Some e \<Rightarrow> Inl e | None \<Rightarrow> Inr x)"

lemma or_fails_simps [simp]: "or_fails None x = Inr x" "or_fails (Some e) x = Inl e"
  by (simp_all add: or_fails_def)

lemma collect_page_spec:
  assumes "\<forall>row \<in> set rows. row_ok env row \<and> bound (row_event env row)" "page_limits_ok events bytes"
  shows "\<exists>k bytes'. k \<le> length rows \<and> page_limits_ok (events @ map (row_event env) (take k rows)) bytes'
    \<and> collect_page env fetch bound rows events bytes =
        or_fails (first_failure fetch (Suc (length events)) (Suc k))
          (events @ map (row_event env) (take k rows), bytes', k < length rows)
    \<and> (events = [] \<and> bytes = 0 \<and> rows \<noteq> [] \<longrightarrow> 0 < k)"
  using assms
proof (induction rows arbitrary: events bytes)
  case Nil
  then show ?case by (auto split: option.splits)
next
  case (Cons row rows)
  let ?json = "er_value_json row"
  have row: "row_ok env row" "bound (row_event env row)" using Cons.prems(1) by simp_all
  have small: "length ?json \<le> MAX_INLINE_EVENT_BYTES" using row(1) by (simp add: row_ok_def)
  show ?case
  proof (cases "length events = EVENT_PAGE_SIZE \<or> usize_saturating_add bytes (length ?json) > EVENT_PAGE_BYTES")
    case True
    then have "collect_page env fetch bound (row # rows) events bytes =
        or_fails (first_failure fetch (Suc (length events)) (Suc 0)) (events, bytes, True)"
      using small by (simp add: Let_def split: option.splits)
    moreover have "\<not> (events = [] \<and> bytes = 0)"
      using True small by (auto simp: page_limit_defs usize_saturating_add_def usize_max_def)
    ultimately show ?thesis
      using Cons.prems(2) by (intro exI[of _ 0] exI[of _ bytes]) auto
  next
    case False
    then have "page_limits_ok (events @ [row_event env row]) (bytes + length ?json)"
      using Cons.prems(2) saturating_add_le_boundD[of bytes "length ?json" EVENT_PAGE_BYTES]
      by (auto simp: page_limits_ok_def page_limit_defs usize_max_def)
    from Cons.IH[OF _ this] Cons.prems(1) obtain k bytes' where k: "k \<le> length rows"
      "page_limits_ok (events @ row_event env row # map (row_event env) (take k rows)) bytes'"
      "collect_page env fetch bound rows (events @ [row_event env row]) (bytes + length ?json) =
         or_fails (first_failure fetch (Suc (Suc (length events))) (Suc k))
           (events @ row_event env row # map (row_event env) (take k rows), bytes', k < length rows)"
      by auto
    moreover have "collect_page env fetch bound (row # rows) events bytes =
        (case fetch (Suc (length events)) of Some e \<Rightarrow> Inl e
         | None \<Rightarrow> collect_page env fetch bound rows (events @ [row_event env row]) (bytes + length ?json))"
      using False small row row_ok_columns[OF row(1)] by (simp add: Let_def split: option.splits)
    ultimately have "collect_page env fetch bound (row # rows) events bytes =
        or_fails (first_failure fetch (Suc (length events)) (Suc (Suc k)))
          (events @ row_event env row # map (row_event env) (take k rows), bytes', k < length rows)"
      by (simp split: option.splits)
    with k(1,2) show ?thesis
      by (intro exI[of _ "Suc k"] exI[of _ bytes']) (simp del: first_failure.simps)
  qed
qed

section \<open>Pages of a log\<close>

text \<open>What a page after a cursor is of the events it draws from.\<close>

definition is_page :: "EventEnvelope list \<Rightarrow> u64 \<Rightarrow> EventEnvelope list \<Rightarrow> u64 \<Rightarrow> bool \<Rightarrow> bool" where
  "is_page content cursor events next_sequence has_more \<longleftrightarrow>
     (\<exists>remaining. filter (\<lambda>e. ee_sequence e > cursor) content = events @ remaining
        \<and> (has_more \<longleftrightarrow> remaining \<noteq> []) \<and> (has_more \<longrightarrow> events \<noteq> []))
     \<and> next_sequence = (if events = [] then cursor else ee_sequence (last events))"

lemma session_log_sorted:
  assumes "valid_log log"
  shows "sorted_wrt (\<lambda>d e. ee_sequence d < ee_sequence e) (session_log log s)"
proof -
  have "sorted_wrt (<) (map (\<lambda>e. unat (ee_sequence e)) (session_log log s))"
    by (simp only: valid_log_sequences[OF assms] sorted_wrt_upt)
  then show ?thesis
    by (simp add: sorted_wrt_map word_less_nat_alt)
qed

lemma select_rows_log:
  assumes "store_inv env db" "\<And>row. matching row \<Longrightarrow> er_session_id row = s"
    "\<And>row. row_ok env row \<Longrightarrow> matching row \<longleftrightarrow> P (row_event env row)"
  shows "select_rows matching cursor db =
      take (EVENT_PAGE_SIZE + 1) (filter (\<lambda>row. matching row \<and> er_sequence row > cursor) (db_events db))"
    "map (row_event env) (filter (\<lambda>row. matching row \<and> er_sequence row > cursor) (db_events db)) =
      filter (\<lambda>e. ee_sequence e > cursor) (filter P (event_log env db))"
proof -
  let ?rows = "filter (\<lambda>row. matching row \<and> er_sequence row > cursor) (db_events db)"
  show log: "map (row_event env) ?rows = filter (\<lambda>e. ee_sequence e > cursor) (filter P (event_log env db))"
    using map_filter_rows[of "db_events db" env "\<lambda>row. matching row \<and> er_sequence row > cursor"
        "\<lambda>e. P e \<and> ee_sequence e > cursor"] inv_rows[OF assms(1)] assms(3)
    by (simp add: event_log_def row_ok_columns conj_commute)
  let ?srows = "filter (\<lambda>row. er_session_id row = s) (db_events db)"
  have "map (row_event env) ?srows = session_log (event_log env db) s"
    using map_filter_rows[of "db_events db" env "\<lambda>row. er_session_id row = s" "\<lambda>e. ee_session_id e = s"]
      inv_rows[OF assms(1)] by (simp add: session_log_def event_log_def row_ok_columns)
  then have "sorted_wrt (\<lambda>d e. ee_sequence d < ee_sequence e) (map (row_event env) ?srows)"
    using session_log_sorted[OF inv_tables(1)[OF assms(1)]] by simp
  then have "sorted_wrt (\<lambda>d e. ee_sequence (row_event env d) < ee_sequence (row_event env e)) ?srows"
    by (simp add: sorted_wrt_map)
  then have "sorted_wrt (\<lambda>d e. er_sequence d \<le> er_sequence e) ?srows"
    by (rule sorted_wrt_mono_rel[rotated]) (use inv_columns(5)[OF assms(1)] in auto)
  then have "sorted_wrt (\<lambda>d e. er_sequence d \<le> er_sequence e)
      (filter (\<lambda>row. matching row \<and> er_sequence row > cursor) ?srows)"
    by (rule sorted_wrt_filter)
  moreover have "filter (\<lambda>row. matching row \<and> er_sequence row > cursor) ?srows = ?rows"
    using assms(2) by (auto intro: filter_cong)
  ultimately have "sorted (map er_sequence ?rows)"
    by (simp add: sorted_wrt_map)
  then show "select_rows matching cursor db = take (EVENT_PAGE_SIZE + 1) ?rows"
    by (simp add: select_rows_def sort_key_id_if_sorted)
qed

lemma page_spec:
  assumes "store_inv env db" "\<And>row. matching row \<Longrightarrow> er_session_id row = s"
    "\<And>row. row_ok env row \<Longrightarrow> matching row \<longleftrightarrow> P (row_event env row)" "\<And>e. P e \<Longrightarrow> bound e"
  shows "\<exists>page. page_of cursor (collect_page env fetch bound (select_rows matching cursor db) [] 0) =
        or_fails (first_failure fetch 1 (Suc (length (sp_events page)))) page
    \<and> is_page (filter P (event_log env db)) cursor (sp_events page) (sp_next_sequence page) (sp_has_more page)
    \<and> page_limits_ok (sp_events page) (sp_encoded_bytes page)"
proof -
  let ?all = "filter (\<lambda>row. matching row \<and> er_sequence row > cursor) (db_events db)"
  let ?rows = "take (EVENT_PAGE_SIZE + 1) ?all"
  have select: "select_rows matching cursor db = ?rows"
      "map (row_event env) ?all = filter (\<lambda>e. ee_sequence e > cursor) (filter P (event_log env db))"
    by (rule select_rows_log[where s = s and P = P]; use assms in blast)+
  have "\<forall>row \<in> set ?rows. row_ok env row \<and> bound (row_event env row)"
  proof
    fix row assume "row \<in> set ?rows"
    then have row: "row \<in> set (db_events db)" "matching row" by (auto dest: in_set_takeD)
    show "row_ok env row \<and> bound (row_event env row)"
      using inv_rows[OF assms(1) row(1)] assms(3,4) row(2) by blast
  qed
  moreover have "page_limits_ok [] 0" by (simp add: page_limits_ok_def)
  ultimately obtain k bytes where k: "k \<le> length ?rows"
    "page_limits_ok (map (row_event env) (take k ?rows)) bytes"
    "collect_page env fetch bound ?rows [] 0 = or_fails (first_failure fetch (Suc 0) (Suc k))
       (map (row_event env) (take k ?rows), bytes, k < length ?rows)"
    "?rows \<noteq> [] \<longrightarrow> 0 < k"
    using collect_page_spec[of ?rows env bound "[]" 0 fetch] unfolding append_Nil list.size(3) by blast
  have k512: "k \<le> EVENT_PAGE_SIZE" using k(1,2) by (simp add: page_limits_ok_def)
  then have take: "take k ?rows = take k ?all" and more: "k < length ?rows \<longleftrightarrow> k < length ?all"
    by auto
  have content: "filter (\<lambda>e. ee_sequence e > cursor) (filter P (event_log env db)) =
      map (row_event env) (take k ?all) @ map (row_event env) (drop k ?all)"
    by (simp only: select(2)[symmetric] map_append[symmetric] append_take_drop_id)
  have "is_page (filter P (event_log env db)) cursor (map (row_event env) (take k ?all))
      (if map (row_event env) (take k ?all) = [] then cursor else ee_sequence (last (map (row_event env) (take k ?all))))
      (k < length ?all)"
    unfolding is_page_def content using k(4) by (intro conjI exI[of _ "map (row_event env) (drop k ?all)"]) auto
  moreover have "length (map (row_event env) (take k ?all)) = k" using k(1) by simp
  moreover have "page_of cursor (or_fails f (events, bytes, more)) = or_fails f
      \<lparr>sp_events = events, sp_next_sequence = (if events = [] then cursor else ee_sequence (last events)),
       sp_has_more = more, sp_encoded_bytes = bytes\<rparr>" for f events more
    by (simp add: page_of_def or_fails_def split: option.splits)
  ultimately show ?thesis
    using k(2) unfolding select(1) k(3) take more
    by (intro exI[of _ "\<lparr>sp_events = map (row_event env) (take k ?all),
          sp_next_sequence = (if map (row_event env) (take k ?all) = [] then cursor
            else ee_sequence (last (map (row_event env) (take k ?all)))),
          sp_has_more = k < length ?all, sp_encoded_bytes = bytes\<rparr>"])
      (simp only: store_event_page.select_convs One_nat_def simp_thms)
qed

text \<open>A query fails as its steps do, or before the first row when its cursor cannot be bound.\<close>

definition page_failure :: "(nat \<Rightarrow> StoreError option) \<Rightarrow> u64 \<Rightarrow> EventEnvelope list \<Rightarrow> StoreError option" where
  "page_failure fetch cursor events =
     (case fetch 0 of Some e \<Rightarrow> Some e | None \<Rightarrow>
      if \<not> sql_integer cursor then Some (Database None) else first_failure fetch 1 (Suc (length events)))"

lemma events_after_spec:
  assumes "store_inv env db"
  shows "\<exists>page. events_after env s cursor db =
        or_fails (page_failure (sv_fetch env (SessionEventsQuery s cursor) db) cursor (sp_events page)) page
    \<and> is_page (session_log (event_log env db) s) cursor (sp_events page) (sp_next_sequence page) (sp_has_more page)
    \<and> page_limits_ok (sp_events page) (sp_encoded_bytes page)"
proof -
  let ?fetch = "sv_fetch env (SessionEventsQuery s cursor) db"
  have "\<exists>page. page_of cursor (collect_page env ?fetch (\<lambda>_. True) (select_rows (\<lambda>row. er_session_id row = s) cursor db) [] 0) =
        or_fails (first_failure ?fetch 1 (Suc (length (sp_events page)))) page
    \<and> is_page (filter (\<lambda>e. ee_session_id e = s) (event_log env db)) cursor (sp_events page) (sp_next_sequence page)
        (sp_has_more page)
    \<and> page_limits_ok (sp_events page) (sp_encoded_bytes page)"
    by (rule page_spec[OF assms]) (auto simp: row_ok_columns)
  then show ?thesis
    unfolding session_log_def
    by (rule ex_forward) (auto simp: events_after_def Let_def page_failure_def split: option.splits)
qed

definition run_log :: "event_log \<Rightarrow> RunId \<Rightarrow> event_log" where
  "run_log log run_id = filter (\<lambda>e. ee_run_id e = Some run_id) log"

lemma run_log_session:
  assumes "valid_log log" "run \<in> set (runs_of log)" "rn_id run = r"
  shows "filter (\<lambda>e. ee_session_id e = rs_session_id (rn_spec run) \<and> ee_run_id e = Some r) log = run_log log r"
proof -
  have "run_in_session log r (rs_session_id (rn_spec run))"
    using assms(2,3) by (auto simp: run_in_session_def)
  then have "ee_session_id e = rs_session_id (rn_spec run)" if "e \<in> set log" "ee_run_id e = Some r" for e
    using valid_log_runs[OF assms(1) that] run_in_session_unique[OF assms(1)] by blast
  then show ?thesis
    by (auto simp: run_log_def intro!: filter_cong)
qed

lemma events_for_run_after_spec:
  assumes "store_inv env db" "r \<in> rn_id ` set (runs_of (event_log env db))"
  shows "\<exists>page. events_for_run_after env r cursor db =
        or_fails (case sv_fetch env (RunSessionQuery r) db 0 of Some e \<Rightarrow> Some e
          | None \<Rightarrow> page_failure (sv_fetch env (RunEventsQuery r cursor) db) cursor (sp_events page)) page
    \<and> is_page (run_log (event_log env db) r) cursor (sp_events page) (sp_next_sequence page) (sp_has_more page)
    \<and> page_limits_ok (sp_events page) (sp_encoded_bytes page)"
proof -
  obtain run where run: "run \<in> set (runs_of (event_log env db))" "rn_id run = r"
    using assms(2) by auto
  then have find: "List.find (\<lambda>x. rn_id x = r) (db_runs db) = Some run"
    using distinct_find[OF valid_log_distinct_runs[OF inv_tables(1)[OF assms(1)]] run(1)] inv_tables(3)[OF assms(1)]
    by simp
  let ?fetch = "sv_fetch env (RunEventsQuery r cursor) db" and ?s = "rs_session_id (rn_spec run)"
  have "\<exists>page. page_of cursor (collect_page env ?fetch (\<lambda>e. ee_run_id e = Some r \<and> ee_session_id e = ?s)
        (select_rows (\<lambda>row. er_session_id row = ?s \<and> er_run_id row = Some r) cursor db) [] 0) =
        or_fails (first_failure ?fetch 1 (Suc (length (sp_events page)))) page
    \<and> is_page (filter (\<lambda>e. ee_session_id e = ?s \<and> ee_run_id e = Some r) (event_log env db)) cursor (sp_events page)
        (sp_next_sequence page) (sp_has_more page)
    \<and> page_limits_ok (sp_events page) (sp_encoded_bytes page)"
    by (rule page_spec[OF assms(1)]) (auto simp: row_ok_columns)
  then show ?thesis
    unfolding run_log_session[OF inv_tables(1)[OF assms(1)] run, symmetric]
    by (rule ex_forward)
      (auto simp: events_for_run_after_def find query_row_def Let_def page_failure_def split: option.splits)
qed

lemma events_for_run_after_known:
  "store_inv env db \<Longrightarrow> events_for_run_after env r cursor db = Inr page \<Longrightarrow>
     r \<in> rn_id ` set (runs_of (event_log env db))"
  by (auto simp: events_for_run_after_def query_row_def inv_tables(3) find_Some_iff Let_def
      split: option.splits if_splits)

lemma run_log_sorted:
  assumes "valid_log log"
  shows "sorted_wrt (\<lambda>d e. ee_sequence d < ee_sequence e) (run_log log r)"
proof (cases "run_log log r")
  case (Cons d ds)
  then have d: "d \<in> set log" "ee_run_id d = Some r" by (auto simp: run_log_def filter_eq_Cons_iff)
  then have "ee_session_id e = ee_session_id d" if "e \<in> set log" "ee_run_id e = Some r" for e
    using valid_log_runs[OF assms] that run_in_session_unique[OF assms] by blast
  then have "run_log log r = filter (\<lambda>e. ee_run_id e = Some r) (session_log log (ee_session_id d))"
    by (auto simp: run_log_def session_log_def intro!: filter_cong)
  then show ?thesis
    using sorted_wrt_filter[OF session_log_sorted[OF assms]] by simp
qed simp

end
