(* ===== verification/Local_Runtime_Correct.thy ===== *)
theory Local_Runtime_Correct
  imports Local_Runtime Event_Paging "HOL-Library.Sublist"
begin

text \<open>
  The contract of the trait \<open>Repository\<close> and what the runtime makes of it.  \<open>event_repository\<close> is
  about any state that carries a valid log: calls only extend the log, also when other processes do
  so meanwhile, and results are about the log at the end of the call.  The store is its instance.
\<close>

section \<open>Replay by pages\<close>

abbreviation before_in_log :: "EventEnvelope \<Rightarrow> EventEnvelope \<Rightarrow> bool" where
  "before_in_log d e \<equiv> ee_sequence d < ee_sequence e"

definition cursor_after :: "EventEnvelope list \<Rightarrow> u64" where
  "cursor_after events = (if events = [] then 0 else ee_sequence (last events))"

lemma filter_after_cursor:
  assumes "sorted_wrt before_in_log (events @ rest)" "\<forall>e \<in> set rest. 0 < ee_sequence e"
  shows "filter (\<lambda>e. ee_sequence e > cursor_after events) (events @ rest) = rest"
proof (cases events rule: rev_exhaust)
  case Nil
  with assms show ?thesis by (simp add: cursor_after_def filter_True)
next
  case (snoc before e)
  have "filter (\<lambda>d. ee_sequence e < ee_sequence d) events = []"
    using assms(1) by (auto simp: snoc sorted_wrt_append filter_empty_conv)
  moreover have "filter (\<lambda>d. ee_sequence e < ee_sequence d) rest = rest"
    using assms(1) by (auto simp: snoc sorted_wrt_append filter_True)
  ultimately show ?thesis by (simp add: cursor_after_def snoc)
qed

text \<open>One page continues a replay: what is left is left, and the cursor moves on when there is more.\<close>

lemma page_continues:
  assumes "sorted_wrt before_in_log content" "\<forall>e \<in> set content. 0 < ee_sequence e"
    "content = events @ rest" "is_page content (cursor_after events) fetched next_sequence has_more"
  obtains remaining where "content = (events @ fetched) @ remaining" "has_more \<longleftrightarrow> remaining \<noteq> []"
    "has_more \<Longrightarrow> cursor_after events < next_sequence" "has_more \<Longrightarrow> next_sequence = cursor_after (events @ fetched)"
proof -
  have rest: "filter (\<lambda>e. ee_sequence e > cursor_after events) content = rest"
    using filter_after_cursor[of events rest] assms(1-3) by simp
  obtain remaining where r: "rest = fetched @ remaining" "has_more \<longleftrightarrow> remaining \<noteq> []" "has_more \<longrightarrow> fetched \<noteq> []"
    "next_sequence = (if fetched = [] then cursor_after events else ee_sequence (last fetched))"
    using assms(4) unfolding is_page_def rest by blast
  have "ee_sequence (last fetched) > cursor_after events" if "fetched \<noteq> []"
  proof -
    have "last fetched \<in> set (filter (\<lambda>e. ee_sequence e > cursor_after events) content)"
      using that rest r(1) by simp
    then show ?thesis by simp
  qed
  with r assms(3) that[of remaining] show thesis by (simp add: cursor_after_def)
qed

lemma valid_log_positive:
  assumes "valid_log log" "e \<in> set log"
  shows "0 < ee_sequence e"
proof -
  obtain xs ys where "log = xs @ e # ys" using assms(2) by (meson split_list)
  then have "unat (ee_sequence e) > 0"
    using valid_log_member[of xs e ys] assms(1) by (simp add: admissible_def)
  then show ?thesis
    using word_greater_zero_iff by fastforce
qed

lemma run_log_prefix: "prefix log log' \<Longrightarrow> prefix (run_log log i) (run_log log' i)"
  by (auto simp: prefix_def run_log_def)

section \<open>What a cancellation achieves\<close>

text \<open>At a moment between two logs the run neither waits in the queue nor for input.\<close>

definition leaves_inactive :: "event_log \<Rightarrow> event_log \<Rightarrow> RunId \<Rightarrow> bool" where
  "leaves_inactive log log' i \<longleftrightarrow>
     (\<exists>m state. prefix log m \<and> prefix m log' \<and> run_state m i = Some state \<and> state \<noteq> Queued \<and> state \<noteq> Waiting)"

lemma leaves_inactive_mono:
  "leaves_inactive log log' i \<Longrightarrow> prefix log0 log \<Longrightarrow> prefix log' log1 \<Longrightarrow> leaves_inactive log0 log1 i"
  unfolding leaves_inactive_def by (meson prefix_order.trans)

lemma leaves_inactive_now:
  "run_state log' i = Some state \<Longrightarrow> state \<noteq> Queued \<Longrightarrow> state \<noteq> Waiting \<Longrightarrow> prefix log log' \<Longrightarrow> leaves_inactive log log' i"
  unfolding leaves_inactive_def by blast

definition cancellation_retained :: "event_log \<Rightarrow> RunId \<Rightarrow> CancellationRequestId \<Rightarrow> u64 \<Rightarrow> bool" where
  "cancellation_retained log i request_id generation \<longleftrightarrow>
     (\<exists>e \<in> set log. ee_run_id e = Some i \<and> ee_payload e =
        CancellationEvent \<lparr>cq_cancellation_request_id = request_id, cq_cancellation_generation = generation\<rparr>)"

lemma cancellation_retained_mono:
  "cancellation_retained log i c g \<Longrightarrow> prefix log log' \<Longrightarrow> cancellation_retained log' i c g"
  unfolding cancellation_retained_def by (meson set_mono_prefix subsetD)

definition cancellation_outcome ::
  "event_log \<Rightarrow> event_log \<Rightarrow> RunId \<Rightarrow> CancellationRequestId \<Rightarrow> CancellationReceipt \<Rightarrow> bool" where
  "cancellation_outcome log log' i request_id rc \<longleftrightarrow> ct_run_id rc = i \<and>
     (case ct_disposition rc of
        RunAlreadyTerminal \<Rightarrow> \<exists>state. run_state log' i = Some state \<and> terminal_state state
      | AlreadyRequested \<Rightarrow>
          cancellation_retained log' i (ct_cancellation_request_id rc) (ct_cancellation_generation rc)
          \<and> leaves_inactive log log' i
      | CancellationRecorded \<Rightarrow>
          ct_cancellation_request_id rc = request_id \<and> ct_cancellation_generation rc = 1
          \<and> cancellation_retained log' i request_id 1 \<and> leaves_inactive log log' i)"

lemma cancellation_outcome_mono:
  "cancellation_outcome log log' i c rc \<Longrightarrow> prefix log0 log \<Longrightarrow> cancellation_outcome log0 log' i c rc"
  by (auto simp: cancellation_outcome_def split: CancellationDisposition.splits
      intro: leaves_inactive_mono[OF _ _ prefix_order.refl])

lemma find_map_option_Some: "find_map_option f xs = Some y \<Longrightarrow> \<exists>x \<in> set xs. f x = Some y"
  by (induction xs) (auto split: option.splits)

lemma latest_cancellation_Some:
  assumes "latest_cancellation events = Some (e, c)"
  shows "e \<in> set events" "ee_payload e = CancellationEvent c"
proof -
  obtain x where "x \<in> set events" "cancellation_of x = Some (e, c)"
    using find_map_option_Some[OF assms[unfolded latest_cancellation_def]] by auto
  then show "e \<in> set events" "ee_payload e = CancellationEvent c"
    by (auto split: EventPayload.splits)
qed

lemma is_terminal_iff: "is_terminal state \<longleftrightarrow> terminal_state state"
  by (auto simp: is_terminal_def terminal_state_def)

section \<open>Creation of runs, call by call\<close>

lemma create_run_unfold:
  "create_run repo actor now request r =
    (let spec = rq_spec request in
     if \<not> contract_consistent (rs_purpose spec) (rs_plan_acceptance spec)
     then (Inl (InvalidRunSpec ''run purpose and plan_acceptance contract are inconsistent''), r)
     else case rp_get_session repo (rs_session_id spec) r of
       (Inl e, r1) \<Rightarrow> (Inl (RepositoryFailed e), r1)
     | (Inr None, r1) \<Rightarrow> (Inl (SessionNotFound (rs_session_id spec)), r1)
     | (Inr (Some session), r1) \<Rightarrow>
         (case validate_run_spec request of
            Inl e \<Rightarrow> (Inl e, r1)
          | Inr _ \<Rightarrow>
              (case rp_get_run repo (rq_run_id request) r1 of
                 (Inl e, r2) \<Rightarrow> (Inl (RepositoryFailed e), r2)
               | (Inr (Some existing), r2) \<Rightarrow>
                   ((if rn_spec existing = spec then Inr existing else Inl (RunConflict (rq_run_id request))), r2)
               | (Inr None, r2) \<Rightarrow> insert_new_run repo actor (with_id now (rq_run_id request) spec) r2)))"
  by (auto simp: create_run_def try_repo_def Let_def split: prod.splits sum.splits option.splits)

text \<open>A creation stops before it looks for the run, or it does what the answer calls for.\<close>

lemma create_run_cases:
  assumes "create_run repo actor now request r = (result, r')"
  obtains (refused) e where "result = Inl e" "\<And>i. e \<noteq> RunConflict i"
      "r' = r \<or> (\<exists>a. rp_get_session repo (rs_session_id (rq_spec request)) r = (a, r'))"
    | (looked) a r1 found r2 where "valid_run_spec (rq_spec request)"
        "rp_get_session repo (rs_session_id (rq_spec request)) r = (a, r1)"
        "rp_get_run repo (rq_run_id request) r1 = (found, r2)"
        "(result, r') = (case found of
           Inl e \<Rightarrow> (Inl (RepositoryFailed e), r2)
         | Inr (Some existing) \<Rightarrow>
             ((if rn_spec existing = rq_spec request then Inr existing else Inl (RunConflict (rq_run_id request))), r2)
         | Inr None \<Rightarrow> insert_new_run repo actor (with_id now (rq_run_id request) (rq_spec request)) r2)"
proof (cases "contract_consistent (rs_purpose (rq_spec request)) (rs_plan_acceptance (rq_spec request))")
  case False
  then show thesis using assms refused[of "InvalidRunSpec ''run purpose and plan_acceptance contract are inconsistent''"]
    by (simp add: create_run_unfold Let_def)
next
  case True
  let ?get = "rp_get_session repo (rs_session_id (rq_spec request)) r"
  obtain a r1 where get: "?get = (a, r1)" by force
  show thesis
  proof (cases "\<exists>s. a = Inr (Some s)")
    case False
    then have "\<exists>e. result = Inl e \<and> (\<forall>i. e \<noteq> RunConflict i)" "r' = r1"
      using assms True get by (auto simp: create_run_unfold Let_def split: sum.splits option.splits)
    with get show thesis using refused by blast
  next
    case session: True
    show thesis
    proof (cases "validate_run_spec request")
      case (Inl e)
      then have "result = Inl e" "r' = r1" "\<And>i. e \<noteq> RunConflict i"
        using assms True get session validate_run_spec_error[OF Inl] by (auto simp: create_run_unfold Let_def)
      with get show thesis using refused by blast
    next
      case (Inr u)
      then have "valid_run_spec (rq_spec request)"
        using validate_run_spec_iff[of request] True by simp
      moreover obtain found r2 where "rp_get_run repo (rq_run_id request) r1 = (found, r2)" by force
      ultimately show thesis
        using looked[of a r1 found r2] assms True get session Inr
        by (auto simp: create_run_unfold Let_def split: sum.splits option.splits)
    qed
  qed
qed

section \<open>The contract of a repository\<close>

locale event_repository =
  fixes repo :: "'r repository"
    and log :: "'r \<Rightarrow> event_log"
    and ok :: "'r \<Rightarrow> bool"
  assumes log_valid: "ok r \<Longrightarrow> valid_log (log r)"
    and get_session_keeps: "ok r \<Longrightarrow> rp_get_session repo s r = (a, r') \<Longrightarrow> ok r' \<and> prefix (log r) (log r')"
    and get_run_keeps: "ok r \<Longrightarrow> rp_get_run repo i r = (b, r') \<Longrightarrow> ok r' \<and> prefix (log r) (log r')"
    and insert_run_keeps: "ok r \<Longrightarrow> rp_insert_run repo run event r = (c, r') \<Longrightarrow> ok r' \<and> prefix (log r) (log r')"
    and append_event_keeps: "ok r \<Longrightarrow> rp_append_event repo event r = (d, r') \<Longrightarrow> ok r' \<and> prefix (log r) (log r')"
    and run_page_keeps: "ok r \<Longrightarrow> rp_events_for_run_after repo i cursor r = (p, r') \<Longrightarrow> ok r' \<and> prefix (log r) (log r')"
    and get_run_result: "ok r \<Longrightarrow> rp_get_run repo i r = (Inr found, r') \<Longrightarrow>
      found = map_option (\<lambda>run. run\<lparr>rn_state := the (run_state (log r') i)\<rparr>)
                (List.find (\<lambda>run. rn_id run = i) (runs_of (log r')))"
    and insert_run_result: "ok r \<Longrightarrow> rp_insert_run repo run event r = (Inr u, r') \<Longrightarrow>
      ne_payload event = RunCreated run \<Longrightarrow> run \<in> set (runs_of (log r')) \<and> run_state (log r') (rn_id run) = Some Queued"
    and append_event_result: "ok r \<Longrightarrow> rp_append_event repo event r = (Inr e, r') \<Longrightarrow>
      new_event_from_envelope e = event \<and> (\<exists>before. prefix (log r) before \<and> log r' = before @ [e])"
    and run_page_result: "ok r \<Longrightarrow> rp_events_for_run_after repo i cursor r = (Inr page, r') \<Longrightarrow>
      is_page (run_log (log r') i) cursor (ep_events page) (ep_next_sequence page) (ep_has_more page)"
begin

text \<open>A state that may follow: the invariant holds and the log is longer.\<close>

definition later :: "'r \<Rightarrow> 'r \<Rightarrow> bool" where
  "later r r' \<longleftrightarrow> ok r' \<and> prefix (log r) (log r')"

lemma later_trans: "later r r' \<Longrightarrow> later r' r'' \<Longrightarrow> later r r''"
  unfolding later_def using prefix_order.trans by blast

lemma later_refl: "ok r \<Longrightarrow> later r r"
  by (simp add: later_def)

lemma later_ok: "later r r' \<Longrightarrow> ok r'"
  by (simp add: later_def)

lemmas keeps =
  get_session_keeps[folded later_def] get_run_keeps[folded later_def] insert_run_keeps[folded later_def]
  append_event_keeps[folded later_def] run_page_keeps[folded later_def]

text \<open>Replay returns the events of the run at the end of the call; it fails only when the repository does.\<close>

lemma run_events_loop_exact:
  assumes "ok r" "run_log (log r) i = events @ rest" "cursor = cursor_after events"
    "run_events_loop repo i cursor events r = (result, r')"
  shows "later r r' \<and> (case result of Inr all \<Rightarrow> all = run_log (log r') i
    | Inl e \<Rightarrow> \<exists>error seen r0. e = RepositoryFailed error \<and> later r r0 \<and> set seen \<subseteq> set (log r0)
        \<and> rp_events_for_run_after repo i (cursor_after seen) r0 = (Inl error, r'))"
  using assms
proof (induction "2 ^ 64 - unat cursor" arbitrary: cursor events rest r rule: less_induct)
  case less
  obtain answer r1 where call: "rp_events_for_run_after repo i cursor r = (answer, r1)" by force
  then have step: "later r r1" using keeps(5) less.prems(1) by blast
  show ?case
  proof (cases answer)
    case (Inl error)
    then have "result = Inl (RepositoryFailed error)" "r' = r1" "rp_events_for_run_after repo i cursor r = (Inl error, r')"
      using less.prems(4) call by (simp_all add: run_events_loop.simps)
    moreover have "set events \<subseteq> set (log r)"
      using arg_cong[OF less.prems(2), of set] by (auto simp: run_log_def)
    ultimately show ?thesis
      using step later_refl[OF less.prems(1)] less.prems(3) by auto
  next
    case (Inr page)
    have valid: "valid_log (log r1)" using log_valid later_ok step by blast
    have "prefix (run_log (log r) i) (run_log (log r1) i)"
      using step run_log_prefix by (simp add: later_def)
    then obtain rest' where content: "run_log (log r1) i = events @ rest'"
      using less.prems(2) by (auto simp: prefix_def)
    have "is_page (run_log (log r1) i) (cursor_after events) (ep_events page) (ep_next_sequence page) (ep_has_more page)"
      using run_page_result less.prems(1,3) call Inr by blast
    moreover have "\<forall>e \<in> set (run_log (log r1) i). 0 < ee_sequence e"
      using valid_log_positive[OF valid] by (simp add: run_log_def)
    ultimately obtain remaining where remaining: "run_log (log r1) i = (events @ ep_events page) @ remaining"
      "ep_has_more page \<longleftrightarrow> remaining \<noteq> []" "ep_has_more page \<Longrightarrow> cursor_after events < ep_next_sequence page"
      "ep_has_more page \<Longrightarrow> ep_next_sequence page = cursor_after (events @ ep_events page)"
      using page_continues[OF run_log_sorted[OF valid] _ content] by blast
    show ?thesis
    proof (cases "ep_has_more page")
      case False
      then show ?thesis
        using less.prems(4) call Inr remaining(1,2) step by (auto simp: run_events_loop.simps)
    next
      case True
      then have next_page: "\<not> ep_next_sequence page \<le> cursor" using remaining(3) less.prems(3) by simp
      then have "run_events_loop repo i (ep_next_sequence page) (events @ ep_events page) r1 = (result, r')"
        using less.prems(4) call Inr True by (simp add: run_events_loop.simps[of repo i cursor])
      from less.hyps[OF cursor_decreases[OF next_page] later_ok[OF step] remaining(1) remaining(4)[OF True] this]
      show ?thesis
        using later_trans[OF step] by (cases result) auto
    qed
  qed
qed

lemma run_events_exact:
  assumes "ok r" "run_events repo run r = (result, r')"
  shows "later r r' \<and> (case result of Inr all \<Rightarrow> all = run_log (log r') (rn_id run)
    | Inl e \<Rightarrow> \<exists>error seen r0. e = RepositoryFailed error \<and> later r r0 \<and> set seen \<subseteq> set (log r0)
        \<and> rp_events_for_run_after repo (rn_id run) (cursor_after seen) r0 = (Inl error, r'))"
  using run_events_loop_exact[of r "rn_id run" "[]" "run_log (log r) (rn_id run)" 0] assms
  by (simp add: run_events_def cursor_after_def)

lemma get_run_exact:
  assumes "ok r" "get_run repo i r = (result, r')"
  shows "later r r' \<and> (\<forall>run. result = Inr run \<longrightarrow> rn_id run = i \<and> run_state (log r') i = Some (rn_state run)
    \<and> (\<exists>created \<in> set (runs_of (log r')). rn_id created = i \<and> rn_spec run = rn_spec created
        \<and> rn_created_at run = rn_created_at created))"
proof -
  obtain answer r1 where call: "rp_get_run repo i r = (answer, r1)" by force
  then have "later r r1" using keeps(2) assms(1) by blast
  moreover have "r' = r1"
    using assms(2) call by (auto simp: get_run_def try_repo_def split: sum.splits option.splits)
  moreover have "rn_id run = i \<and> run_state (log r1) i = Some (rn_state run)
      \<and> (\<exists>created \<in> set (runs_of (log r1)). rn_id created = i \<and> rn_spec run = rn_spec created
        \<and> rn_created_at run = rn_created_at created)" if "result = Inr run" for run
  proof -
    have "answer = Inr (Some run)"
      using assms(2) call that by (auto simp: get_run_def try_repo_def split: sum.splits option.splits)
    then have "map_option (\<lambda>run. run\<lparr>rn_state := the (run_state (log r1) i)\<rparr>)
        (List.find (\<lambda>run. rn_id run = i) (runs_of (log r1))) = Some run"
      using get_run_result[OF assms(1), of i "Some run" r1] call by simp
    then obtain created where created: "List.find (\<lambda>x. rn_id x = i) (runs_of (log r1)) = Some created"
      "run = created\<lparr>rn_state := the (run_state (log r1) i)\<rparr>"
      by (auto simp: map_option_eq_Some)
    then have member: "created \<in> set (runs_of (log r1))" "rn_id created = i"
      by (auto simp: find_Some_iff)
    then have "run_state (log r1) i \<noteq> None"
      using valid_log_run_state[OF log_valid] later_ok \<open>later r r1\<close> by blast
    with created(2) member show ?thesis by auto
  qed
  ultimately show ?thesis by blast
qed

lemma finish_spec:
  assumes "ok r" "finish_inactive_cancellation repo actor original event_id r = (result, r')"
  shows "later r r' \<and> (result = Inr () \<longrightarrow> leaves_inactive (log r) (log r') (rn_id original))"
proof -
  let ?i = "rn_id original"
  obtain answer r1 where call: "get_run repo ?i r = (answer, r1)" by force
  note got = get_run_exact[OF assms(1) call]
  show ?thesis
  proof (cases answer)
    case (Inl e)
    then show ?thesis using got assms(2) call by (auto simp: finish_inactive_cancellation_def try_call_def)
  next
    case (Inr current)
    then have current: "rn_id current = ?i" "run_state (log r1) ?i = Some (rn_state current)" and step: "later r r1"
      using got by simp_all
    show ?thesis
    proof (cases "rn_state current = Queued \<or> rn_state current = Waiting")
      case False
      then have "result = Inr ()" "r' = r1"
        using assms(2) call Inr by (auto simp: finish_inactive_cancellation_def try_call_def)
      with False current(2) step show ?thesis by (simp add: leaves_inactive_now later_def)
    next
      case True
      let ?event = "runtime_event actor (rs_session_id (rn_spec current)) (Some (rn_id current)) (Some event_id)
        (RunStateChanged (rn_state current) RunCancelled)"
      obtain appended r2 where append: "rp_append_event repo ?event r1 = (appended, r2)" by force
      then have step2: "later r r2" using keeps(4) later_ok[OF step] later_trans[OF step] by blast
      show ?thesis
      proof (cases appended)
        case (Inr e)
        then have r': "result = Inr ()" "r' = r2"
          using assms(2) call \<open>answer = Inr current\<close> True append by (auto simp: finish_inactive_cancellation_def try_call_def)
        obtain before where e: "new_event_from_envelope e = ?event" "log r2 = before @ [e]"
          using append_event_result[OF later_ok[OF step]] append Inr by blast
        then have "run_state (log r2) ?i = Some RunCancelled"
          using current(1) by (auto simp: next_state_def new_event_from_envelope_def runtime_event_def)
        with step2 r' show ?thesis by (simp add: leaves_inactive_now later_def)
      next
        case (Inl error)
        obtain again r3 where reread: "get_run repo (rn_id current) r2 = (again, r3)" by force
        note got2 = get_run_exact[OF later_ok[OF step2] reread]
        have out: "r' = r3" "result = Inr () \<Longrightarrow> \<exists>run. again = Inr run \<and> rn_state run = RunCancelled"
          using assms(2) call \<open>answer = Inr current\<close> True append Inl reread
          by (auto simp: finish_inactive_cancellation_def try_call_def split: sum.splits if_splits)
        have "later r r3" using got2 later_trans[OF step2] by blast
        moreover have "leaves_inactive (log r) (log r3) ?i" if success: "result = Inr ()"
        proof -
          obtain run where "again = Inr run" "rn_state run = RunCancelled" using out(2)[OF success] by blast
          then have "run_state (log r3) ?i = Some RunCancelled" using got2 current(1) by simp
          then show ?thesis using \<open>later r r3\<close> by (simp add: leaves_inactive_now later_def)
        qed
        ultimately show ?thesis using out(1) by simp
      qed
    qed
  qed
qed

lemma attempt_terminal:
  assumes "later r r'" "run_state (log r) i = Some state" "terminal_state state"
  shows "run_state (log r') i = Some state"
proof -
  obtain rest where rest: "log r' = log r @ rest" using assms(1) by (auto simp: later_def prefix_def)
  have "valid_log (log r @ rest)" using log_valid[OF later_ok[OF assms(1)]] rest by simp
  then show ?thesis using valid_log_terminal assms(2,3) rest by simp
qed

lemma retained_in_replay:
  assumes "latest_cancellation (run_log (log r) i) = Some (e, c)"
  shows "cancellation_retained (log r) i (cq_cancellation_request_id c) (cq_cancellation_generation c)"
  using latest_cancellation_Some[OF assms] by (auto simp: cancellation_retained_def run_log_def)

lemma attempt_spec:
  assumes "ok r" "run_state (log r0) i = Some (rn_state run)" "later r0 r" "rn_id run = i" "events = run_log (log r) i"
    "cancellation_attempt repo actor i request_id run events r = (result, r')"
  shows "later r r' \<and> (\<forall>rc. result = AttemptReturns (Inr rc) \<longrightarrow> cancellation_outcome (log r) (log r') i request_id rc)"
proof (cases "is_terminal (rn_state run)")
  case True
  then have "terminal_state (rn_state run)" "run_state (log r) i = Some (rn_state run)"
    using attempt_terminal[OF assms(3,2)] by (simp_all add: is_terminal_iff)
  then show ?thesis
    using assms(1,6) True later_refl
    by (auto simp: cancellation_attempt_def cancellation_outcome_def receipt_def split: option.splits)
next
  case False
  show ?thesis
  proof (cases "latest_cancellation events")
    case (Some found)
    obtain e c where ec: "found = (e, c)" by force
    obtain finished r1 where finish: "finish_inactive_cancellation repo actor run (ee_id e) r = (finished, r1)" by force
    note spec = finish_spec[OF assms(1) finish]
    have "cancellation_retained (log r1) i (cq_cancellation_request_id c) (cq_cancellation_generation c)"
      using retained_in_replay[of r i e c] Some ec assms(5) spec cancellation_retained_mono by (auto simp: later_def)
    then show ?thesis
      using spec assms(4,6) False Some ec finish
      by (cases finished) (auto simp: cancellation_attempt_def cancellation_outcome_def receipt_def)
  next
    case None
    let ?event = "runtime_event actor (rs_session_id (rn_spec run)) (Some (rn_id run))
      (if events = [] then None else Some (ee_id (last events)))
      (CancellationEvent \<lparr>cq_cancellation_request_id = request_id, cq_cancellation_generation = 1\<rparr>)"
    obtain appended r1 where append: "rp_append_event repo ?event r = (appended, r1)" by force
    then have step: "later r r1" using keeps(4) assms(1) by blast
    show ?thesis
    proof (cases appended)
      case (Inl error)
      then show ?thesis using step assms(6) False None append by (auto simp: cancellation_attempt_def)
    next
      case (Inr e)
      then have e: "new_event_from_envelope e = ?event" "e \<in> set (log r1)"
        using append_event_result[OF assms(1), of ?event e r1] append by auto
      obtain finished r2 where finish: "finish_inactive_cancellation repo actor run (ee_id e) r1 = (finished, r2)" by force
      note spec = finish_spec[OF later_ok[OF step] finish]
      have "cancellation_retained (log r1) i request_id 1"
        using e assms(4) by (auto simp: cancellation_retained_def new_event_from_envelope_def runtime_event_def)
      then have "cancellation_retained (log r2) i request_id 1"
        using spec cancellation_retained_mono by (auto simp: later_def)
      moreover have "later r r2" using spec later_trans[OF step] by blast
      moreover have "finished = Inr () \<longrightarrow> leaves_inactive (log r) (log r2) i"
        using spec step assms(4) leaves_inactive_mono[OF _ _ prefix_order.refl] by (auto simp: later_def)
      moreover have "result = (case finished of Inl x \<Rightarrow> AttemptReturns (Inl x)
          | Inr _ \<Rightarrow> AttemptReturns (Inr (receipt i request_id 1 CancellationRecorded)))" "r' = r2"
        using assms(6) False None append Inr finish by (auto simp: cancellation_attempt_def split: sum.splits)
      ultimately show ?thesis
        by (auto simp: cancellation_outcome_def receipt_def split: sum.splits)
    qed
  qed
qed

text \<open>The loop of attempts.\<close>

lemma cancel_attempts_spec:
  assumes "ok r" "cancel_attempts repo actor i request_id n r = (result, r')"
  shows "later r r' \<and> (\<forall>rc. result = Some (Inr rc) \<longrightarrow> cancellation_outcome (log r) (log r') i request_id rc)"
  using assms
proof (induction n arbitrary: r)
  case 0
  then show ?case using later_refl by simp
next
  case (Suc n)
  obtain answer r1 where call: "get_run repo i r = (answer, r1)" by force
  note got = get_run_exact[OF Suc.prems(1) call]
  show ?case
  proof (cases answer)
    case (Inl e)
    then show ?thesis using got Suc.prems(2) call by auto
  next
    case (Inr run)
    obtain replay r2 where events: "run_events repo run r1 = (replay, r2)" by force
    have step: "later r r1" using got by blast
    note replayed = run_events_exact[OF later_ok[OF step] events]
    then have step2: "later r r2" using later_trans[OF step] by blast
    show ?thesis
    proof (cases replay)
      case (Inl e)
      then show ?thesis using step2 Suc.prems(2) call \<open>answer = Inr run\<close> events by auto
    next
      case replay: (Inr all)
      obtain attempt r3 where attempt: "cancellation_attempt repo actor i request_id run all r2 = (attempt, r3)" by force
      have "rn_id run = i" "run_state (log r1) i = Some (rn_state run)" "all = run_log (log r2) i" "later r1 r2"
        using got Inr replayed replay by auto
      note spec = attempt_spec[OF later_ok[OF step2] this(2,4,1,3) attempt]
      have step3: "later r r3" using spec later_trans[OF step2] by blast
      have from_r: "cancellation_outcome (log r) log' i request_id rc"
        if "cancellation_outcome (log x) log' i request_id rc" "later r x" for x log' rc
        using cancellation_outcome_mono[OF that(1)] that(2) by (simp add: later_def)
      show ?thesis
      proof (cases attempt)
        case (AttemptReturns out)
        then show ?thesis
          using Suc.prems(2) call Inr events replay attempt step3 spec from_r[OF _ step2] by auto
      next
        case (AppendFailed error)
        then show ?thesis
          using Suc.prems(2) call Inr events replay attempt step3 Suc.IH[OF later_ok[OF step3]]
            from_r[OF _ step3] later_trans[OF step3]
          by (cases "n = 0") auto
      qed
    qed
  qed
qed

text \<open>Creation of runs.  The log holds the run that a successful creation returns.\<close>

definition created_as :: "'r \<Rightarrow> RunId \<Rightarrow> RunSpec \<Rightarrow> Run \<Rightarrow> bool" where
  "created_as r i spec run \<longleftrightarrow> rn_id run = i \<and> rn_spec run = spec \<and> run_state (log r) i = Some (rn_state run)
     \<and> (\<exists>created \<in> set (runs_of (log r)). rn_id created = i \<and> rn_spec created = spec
          \<and> rn_created_at created = rn_created_at run)"

lemma found_run:
  assumes "ok r" "rp_get_run repo i r = (Inr (Some run), r')" "rn_spec run = spec"
  shows "created_as r' i spec run"
proof -
  have "get_run repo i r = (Inr run, r')"
    using assms(2) by (simp add: get_run_def try_repo_def)
  from get_run_exact[OF assms(1) this] assms(3) show ?thesis
    by (auto simp: created_as_def)
qed

lemma insert_new_run_spec:
  assumes "ok r" "insert_new_run repo actor run r = (result, r')" "rn_state run = Queued"
  shows "later r r' \<and> (\<forall>got. result = Inr got \<longrightarrow> created_as r' (rn_id run) (rn_spec run) got)"
proof -
  let ?event = "runtime_event actor (rs_session_id (rn_spec run)) (Some (rn_id run)) None (RunCreated run)"
  obtain inserted r1 where insert: "rp_insert_run repo run ?event r = (inserted, r1)" by force
  then have step: "later r r1" using keeps(3) assms(1) by blast
  show ?thesis
  proof (cases inserted)
    case (Inr u)
    then have "run \<in> set (runs_of (log r1))" "run_state (log r1) (rn_id run) = Some Queued"
      using insert_run_result[OF assms(1), of run ?event u r1] insert by (simp_all add: runtime_event_def)
    with assms(3) have "created_as r1 (rn_id run) (rn_spec run) run"
      by (auto simp: created_as_def)
    with step Inr insert assms(2) show ?thesis by (auto simp: insert_new_run_def)
  next
    case (Inl error)
    obtain found r2 where call: "rp_get_run repo (rn_id run) r1 = (found, r2)" by force
    then have step2: "later r r2" using keeps(2) later_ok[OF step] later_trans[OF step] by blast
    have "later r r'" "\<And>got. result = Inr got \<Longrightarrow> r' = r2 \<and> found = Inr (Some got) \<and> rn_spec got = rn_spec run"
      using assms(2) insert Inl call step step2
      by (auto simp: insert_new_run_def try_repo_def split: if_splits sum.splits option.splits)
    with found_run[OF later_ok[OF step]] call show ?thesis by blast
  qed
qed

lemma create_run_spec:
  assumes "ok r" "create_run repo actor now request r = (result, r')"
  shows "later r r' \<and> (\<forall>run. result = Inr run \<longrightarrow>
    valid_run_spec (rq_spec request) \<and> created_as r' (rq_run_id request) (rq_spec request) run)"
  using assms(2)
proof (cases rule: create_run_cases)
  case (refused e)
  then show ?thesis using keeps(1) later_refl assms(1) by auto
next
  case (looked a r1 found r2)
  have s1: "later r r1" using looked(2) keeps(1) assms(1) by blast
  have s2: "later r r2" using looked(3) keeps(2) later_ok[OF s1] later_trans[OF s1] by blast
  consider (fresh) "found = Inr None" | (existing) e where "found = Inr (Some e)" | (failed) x where "found = Inl x"
    by (metis old.sum.exhaust option.exhaust)
  then show ?thesis
  proof cases
    case fresh
    then have "insert_new_run repo actor (with_id now (rq_run_id request) (rq_spec request)) r2 = (result, r')"
      using looked(4) by simp
    from insert_new_run_spec[OF later_ok[OF s2] this] looked(1) later_trans[OF s2] show ?thesis
      by (auto simp: with_id_def)
  next
    case (existing e)
    then show ?thesis
      using looked found_run[OF later_ok[OF s1], of "rq_run_id request" e r2 "rq_spec request"] s2
      by (auto split: if_splits)
  qed (use looked(4) s2 in auto)
qed

text \<open>Once a run exists, creating it again finds it, and creating another one under its name conflicts.\<close>

lemma created_found:
  assumes "created \<in> set (runs_of (log r))" "later r r'"
  shows "List.find (\<lambda>run. rn_id run = rn_id created) (runs_of (log r')) = Some created"
proof -
  obtain rest where "log r' = log r @ rest" using assms(2) by (auto simp: later_def prefix_def)
  then have "created \<in> set (runs_of (log r'))"
    using assms(1) by (simp add: runs_of_def)
  then show ?thesis
    by (intro distinct_find valid_log_distinct_runs log_valid later_ok[OF assms(2)])
qed

lemma create_run_again:
  assumes "ok r" "created \<in> set (runs_of (log r))" "rn_id created = rq_run_id request"
    "create_run repo actor now request r = (result, r')"
  shows "(\<exists>e. result = Inl e \<and> (\<forall>i. e \<noteq> RunConflict i))
    \<or> (\<exists>run. result = (if rn_spec created = rq_spec request then Inr run else Inl (RunConflict (rq_run_id request)))
         \<and> run = created\<lparr>rn_state := the (run_state (log r') (rn_id created))\<rparr>)"
  using assms(4)
proof (cases rule: create_run_cases)
  case (looked a r1 found r2)
  have s1: "later r r1" using looked(2) keeps(1) assms(1) by blast
  then have s2: "later r r2" using looked(3) keeps(2) later_ok[OF s1] later_trans[OF s1] by blast
  show ?thesis
  proof (cases found)
    case (Inr answer)
    have "answer = Some (created\<lparr>rn_state := the (run_state (log r2) (rn_id created))\<rparr>)"
      using get_run_result[OF later_ok[OF s1], of "rq_run_id request" answer r2] looked(3) Inr
        created_found[OF assms(2) s2] assms(3) by simp
    then show ?thesis
      using looked(4) Inr by auto
  qed (use looked(4) in auto)
qed blast

end

end
