(* ===== verification/Store_Repository.thy ===== *)
theory Store_Repository
  imports Local_Runtime_Correct
begin

text \<open>
  The store meets the contract of the repository, with other processes that use the same store
  between any two calls.
\<close>

section \<open>Shared calls\<close>

text \<open>Other processes change the store by its operations.\<close>

definition others_ok :: "store_env \<Rightarrow> (nat \<Rightarrow> store_db \<Rightarrow> store_db) \<Rightarrow> bool" where
  "others_ok env others \<longleftrightarrow> (\<forall>n db. (store_step env)\<^sup>*\<^sup>* db (others n db))"

definition shared_ok :: "store_env \<Rightarrow> (nat \<Rightarrow> store_db \<Rightarrow> store_db) \<Rightarrow> shared_store \<Rightarrow> bool" where
  "shared_ok env others r \<longleftrightarrow> consistent env (fst r) \<and> others_ok env others"

definition shared_log :: "store_env \<Rightarrow> shared_store \<Rightarrow> event_log" where
  "shared_log env r = event_log env (fst r)"

lemma steps_later:
  assumes "(store_step env)\<^sup>*\<^sup>* db db'" "consistent env db"
  shows "consistent env db'" "prefix (event_log env db) (event_log env db')"
  using store.inv_preserved[OF assms] steps_extend_log[OF assms] by auto

text \<open>A call sees the store after the others, and the store is consistent then and after the call.\<close>

lemma shared_call_cases:
  assumes "shared_call others display operation result r = (answer, r')" "shared_ok env others r"
  obtains db x db' where "consistent env db" "prefix (shared_log env r) (event_log env db)" "operation db = (x, db')"
    "r' = (db', Suc (snd r))" "answer = (case x of Inl e \<Rightarrow> Inl (repository_error display e) | Inr v \<Rightarrow> Inr (result v))"
proof -
  let ?db = "others (snd r) (fst r)"
  have "(store_step env)\<^sup>*\<^sup>* (fst r) ?db" "consistent env (fst r)"
    using assms(2) by (simp_all add: shared_ok_def others_ok_def)
  note later = steps_later[OF this]
  obtain x db' where "operation ?db = (x, db')" by force
  with assms(1) later that[of ?db x db'] show thesis
    by (auto simp: shared_call_def shared_log_def split: sum.splits)
qed

lemma shared_step:
  assumes "shared_call others display operation result r = (answer, r')" "shared_ok env others r"
    "\<And>db x db'. operation db = (x, db') \<Longrightarrow> (store_step env)\<^sup>*\<^sup>* db db'"
  shows "shared_ok env others r' \<and> prefix (shared_log env r) (shared_log env r')"
  using assms(1,2)
proof (cases rule: shared_call_cases)
  case (1 db x db')
  note later = steps_later[OF assms(3)[OF 1(3)] 1(1)]
  with 1(2,4) assms(2) show ?thesis
    by (auto simp: shared_ok_def shared_log_def intro: prefix_order.trans)
qed

lemma shared_read:
  assumes "shared_call others display (read_only query) result r = (answer, r')" "shared_ok env others r"
  shows "answer = (case query (fst r') of Inl e \<Rightarrow> Inl (repository_error display e) | Inr v \<Rightarrow> Inr (result v))"
    "store_inv env (fst r')"
  using assms
  by (cases rule: shared_call_cases; auto simp: read_only_def consistent_def split: sum.splits)+

section \<open>The interpretation\<close>

lemma create_run_appended:
  assumes "consistent env db" "store_create_run env run event db = (Inr e, db')"
  shows "event_log env db' = event_log env db @ [e] \<and> ee_payload e = RunCreated run \<and> ee_run_id e = Some (rn_id run)"
  using append_transaction_outcome[OF _ _ assms(2)[unfolded store_create_run_def]] assms(1)
  by (auto simp: consistent_def appends_def)

lemma inserted_run:
  assumes "shared_call others display (store_create_run env run event) (\<lambda>_. ()) r = (Inr u, r')" "shared_ok env others r"
  shows "run \<in> set (runs_of (shared_log env r')) \<and> run_state (shared_log env r') (rn_id run) = Some Queued"
  using assms
proof (cases rule: shared_call_cases)
  case (1 db x db')
  then obtain e where "store_create_run env run event db = (Inr e, db')"
    by (auto split: sum.splits)
  from create_run_appended[OF 1(1) this] 1(4) show ?thesis
    by (simp add: shared_log_def next_state_def)
qed

lemma appended_event:
  assumes "shared_call others display (append_event env event) (\<lambda>x. x) r = (Inr e, r')" "shared_ok env others r"
  shows "new_event_from_envelope e = event
    \<and> (\<exists>before. prefix (shared_log env r) before \<and> shared_log env r' = before @ [e])"
  using assms
proof (cases rule: shared_call_cases)
  case (1 db x db')
  then have "append_event env event db = (Inr e, db')"
    by (auto split: sum.splits)
  from append_event_outcome[OF 1(1) this] 1(2,4) show ?thesis
    by (auto simp: shared_log_def appends_def)
qed

interpretation store_repo: event_repository
  "store_repository env display others artifacts" "shared_log env" "shared_ok env others"
  for env display others artifacts
proof
  fix r assume "shared_ok env others r"
  then show "valid_log (shared_log env r)"
    by (simp add: shared_ok_def consistent_def shared_log_def inv_tables(1))
next
  fix r s a r' assume "shared_ok env others r" "rp_get_session (store_repository env display others artifacts) s r = (a, r')"
  then show "shared_ok env others r' \<and> prefix (shared_log env r) (shared_log env r')"
    by (intro shared_step) (auto simp: store_repository_def read_only_def)
next
  fix r i b r' assume "shared_ok env others r" "rp_get_run (store_repository env display others artifacts) i r = (b, r')"
  then show "shared_ok env others r' \<and> prefix (shared_log env r) (shared_log env r')"
    by (intro shared_step) (auto simp: store_repository_def read_only_def)
next
  fix r run event c r'
  assume "shared_ok env others r" "rp_insert_run (store_repository env display others artifacts) run event r = (c, r')"
  then show "shared_ok env others r' \<and> prefix (shared_log env r) (shared_log env r')"
    by (intro shared_step) (auto simp: store_repository_def intro: step_create_run)
next
  fix r event d r'
  assume "shared_ok env others r" "rp_append_event (store_repository env display others artifacts) event r = (d, r')"
  then show "shared_ok env others r' \<and> prefix (shared_log env r) (shared_log env r')"
    by (intro shared_step) (auto simp: store_repository_def intro: step_append)
next
  fix r i cursor p r'
  assume "shared_ok env others r" "rp_events_for_run_after (store_repository env display others artifacts) i cursor r = (p, r')"
  then show "shared_ok env others r' \<and> prefix (shared_log env r) (shared_log env r')"
    by (intro shared_step) (auto simp: store_repository_def read_only_def)
next
  fix r i found r'
  assume ok: "shared_ok env others r"
    and "rp_get_run (store_repository env display others artifacts) i r = (Inr found, r')"
  then have call: "shared_call others display (read_only (store_get_run env i)) (\<lambda>x. x) r = (Inr found, r')"
    by (simp add: store_repository_def)
  show "found = map_option (\<lambda>run. run\<lparr>rn_state := the (run_state (shared_log env r') i)\<rparr>)
      (List.find (\<lambda>run. rn_id run = i) (runs_of (shared_log env r')))"
    using shared_read[OF call ok]
    by (simp add: store_get_run_log shared_log_def query_row_def split: option.splits)
next
  fix r run event u r'
  assume "shared_ok env others r" "rp_insert_run (store_repository env display others artifacts) run event r = (Inr u, r')"
  then show "run \<in> set (runs_of (shared_log env r')) \<and> run_state (shared_log env r') (rn_id run) = Some Queued"
    by (intro inserted_run) (simp_all add: store_repository_def)
next
  fix r event e r'
  assume "shared_ok env others r" "rp_append_event (store_repository env display others artifacts) event r = (Inr e, r')"
  then show "new_event_from_envelope e = event
      \<and> (\<exists>before. prefix (shared_log env r) before \<and> shared_log env r' = before @ [e])"
    by (intro appended_event) (simp_all add: store_repository_def)
next
  fix r i cursor page r'
  assume ok: "shared_ok env others r"
    and "rp_events_for_run_after (store_repository env display others artifacts) i cursor r = (Inr page, r')"
  then have call: "shared_call others display (read_only (events_for_run_after env i cursor)) protocol_page r = (Inr page, r')"
    by (simp add: store_repository_def)
  note read = shared_read[OF call ok]
  have "i \<in> rn_id ` set (runs_of (event_log env (fst r')))"
    using read events_for_run_after_known[OF read(2), of i cursor] by (auto split: sum.splits)
  then show "is_page (run_log (shared_log env r') i) cursor (ep_events page) (ep_next_sequence page) (ep_has_more page)"
    using events_for_run_after_spec[OF read(2), of i cursor] read(1)
    by (auto simp: shared_log_def protocol_page_def or_fails_def split: option.splits sum.splits)
qed

section \<open>The runtime on the store\<close>

lemma run_exists_later:
  "prefix log log' \<Longrightarrow> i \<in> rn_id ` set (runs_of log) \<Longrightarrow> i \<in> rn_id ` set (runs_of log')"
  unfolding prefix_def runs_of_def by fastforce

text \<open>The cursors of a replay are numbers of stored events, which the driver can bind.\<close>

lemma cursor_fits:
  assumes "shared_ok env others r" "set seen \<subseteq> set (shared_log env r)"
  shows "sql_integer (cursor_after seen)"
proof (cases "seen = []")
  case False
  then have "last seen \<in> set (event_log env (fst r))"
    using assms(2) by (auto simp: shared_log_def)
  then obtain row where row: "row \<in> set (db_events (fst r))" "last seen = row_event env row"
    by (auto simp: event_log_def)
  have "row_ok env row" using inv_rows[OF _ row(1)] assms(1) by (simp add: shared_ok_def consistent_def)
  with False row(2) row_ok_columns(5)[OF this] show ?thesis by (simp add: cursor_after_def row_ok_def)
qed (simp add: cursor_after_def sql_integer_def)

text \<open>The failures of SQLite that a replay of a run may meet in a state of the store.\<close>

definition replay_read_fails :: "store_env \<Rightarrow> RunId \<Rightarrow> store_db \<Rightarrow> StoreError \<Rightarrow> bool" where
  "replay_read_fails env i db error \<longleftrightarrow>
     sv_fetch env (RunSessionQuery i) db 0 = Some error
     \<or> (\<exists>cursor step. sv_fetch env (RunEventsQuery i cursor) db step = Some error)"

lemma page_failure_step:
  "sql_integer cursor \<Longrightarrow> page_failure fetch cursor events = Some e \<Longrightarrow> \<exists>step. fetch step = Some e"
  by (auto simp: page_failure_def split: option.splits if_splits dest: first_failure_step)

lemma failed_run_page:
  assumes "store_inv env db" "i \<in> rn_id ` set (runs_of (event_log env db))" "sql_integer cursor"
    "events_for_run_after env i cursor db = Inl error"
  shows "replay_read_fails env i db error"
proof -
  let ?fetch = "sv_fetch env (RunEventsQuery i cursor) db"
  obtain page where page: "events_for_run_after env i cursor db =
      or_fails (case sv_fetch env (RunSessionQuery i) db 0 of Some e \<Rightarrow> Some e
        | None \<Rightarrow> page_failure ?fetch cursor (sp_events page)) page"
    using events_for_run_after_spec[OF assms(1,2)] by blast
  show ?thesis
  proof (cases "sv_fetch env (RunSessionQuery i) db 0")
    case None
    with page assms(4) have "page_failure ?fetch cursor (sp_events page) = Some error"
      by (cases "page_failure ?fetch cursor (sp_events page)") simp_all
    from page_failure_step[OF assms(3) this] show ?thesis unfolding replay_read_fails_def by blast
  qed (use page assms(4) in \<open>simp add: replay_read_fails_def\<close>)
qed

text \<open>Replay of a run that exists returns its events, or fails as a read of the store did.\<close>

lemma store_run_events:
  assumes "shared_ok env others r" "rn_id run \<in> rn_id ` set (runs_of (shared_log env r))"
    "run_events (store_repository env display others artifacts) run r = (result, r')"
  shows "shared_ok env others r' \<and> prefix (shared_log env r) (shared_log env r')
    \<and> (case result of Inr events \<Rightarrow> events = run_log (shared_log env r') (rn_id run)
      | Inl e \<Rightarrow> \<exists>error. e = RepositoryFailed (repository_error display error)
          \<and> replay_read_fails env (rn_id run) (fst r') error)"
proof -
  let ?repo = "store_repository env display others artifacts"
  note spec = store_repo.run_events_exact[OF assms(1,3), unfolded store_repo.later_def]
  show ?thesis
  proof (cases result)
    case (Inl e)
    then obtain error seen r0 where failed: "e = RepositoryFailed error" "shared_ok env others r0"
      "prefix (shared_log env r) (shared_log env r0)" "set seen \<subseteq> set (shared_log env r0)"
      "rp_events_for_run_after ?repo (rn_id run) (cursor_after seen) r0 = (Inl error, r')"
      using spec by auto
    let ?c = "cursor_after seen"
    have cursor: "sql_integer ?c" using cursor_fits failed(2,4) by blast
    have call: "shared_call others display (read_only (events_for_run_after env (rn_id run) ?c)) protocol_page r0 = (Inl error, r')"
      using failed(5) by (simp add: store_repository_def)
    note read = shared_read[OF call failed(2)]
    have "rn_id run \<in> rn_id ` set (runs_of (event_log env (fst r')))"
      using run_exists_later assms(2) spec by (metis shared_log_def)
    moreover obtain err where "events_for_run_after env (rn_id run) ?c (fst r') = Inl err" "error = repository_error display err"
      using read(1) by (auto split: sum.splits)
    ultimately have "replay_read_fails env (rn_id run) (fst r') err"
      using failed_run_page[OF read(2) _ cursor] by blast
    with Inl failed(1) \<open>error = _\<close> spec show ?thesis by auto
  qed (use spec in simp)
qed

lemma cancel_attempts_return: "0 < n \<Longrightarrow> fst (cancel_attempts repo actor i request_id n r) \<noteq> None"
proof (induction n arbitrary: r)
  case (Suc n)
  then show ?case
    by (auto split: prod.splits sum.splits attempt_result.splits)
qed simp

end
