(* ===== verification/Artifact_Fetch.thy ===== *)
theory Artifact_Fetch
  imports Local_Runtime
begin

text \<open>
  The command line client fetches an artifact in bounded pages (\<open>fetch_verified_artifact\<close> of
  \<open>apps/cli/src/main.rs\<close>).  The source of the pages is the closure \<open>read\<close>, any function with a state.
  Of the error texts the model keeps one constructor per message.
\<close>

section \<open>The client\<close>

definition MAX_CLI_ARTIFACT_BYTES :: u64 where
  "MAX_CLI_ARTIFACT_BYTES = 16 * 1024 * 1024"

datatype CliContractError =
    DeclaredTooLarge | ReadFailed string | PageNotBound | EofAtWrongSize | PaginationStuck
  | AssembledLengthDiffers | AssembledDigestDiffers

type_synonym 's page_reader = "ArtifactRef \<Rightarrow> u64 \<Rightarrow> u32 \<Rightarrow> 's \<Rightarrow> (string + ArtifactChunk) \<times> 's"

function fetch_loop ::
  "'s page_reader \<Rightarrow> ArtifactRef \<Rightarrow> u64 \<Rightarrow> u8 list \<Rightarrow> 's \<Rightarrow> (CliContractError + u8 list) \<times> 's" where
  "fetch_loop read artifact offset bytes s =
     (case read artifact offset MAX_ARTIFACT_CHUNK_BYTES s of
        (Inl message, s') \<Rightarrow> (Inl (ReadFailed message), s')
      | (Inr chunk, s') \<Rightarrow>
          (if ck_artifact chunk \<noteq> artifact \<or> ck_offset chunk \<noteq> offset then (Inl PageNotBound, s')
           else if ck_eof chunk
           then (if ck_next_offset chunk \<noteq> art_size_bytes artifact then (Inl EofAtWrongSize, s')
                 else (Inr (bytes @ ck_data chunk), s'))
           else if ck_next_offset chunk \<le> offset then (Inl PaginationStuck, s')
           else fetch_loop read artifact (ck_next_offset chunk) (bytes @ ck_data chunk) s'))"
  by pat_completeness auto

termination fetch_loop
  by (relation "measure (\<lambda>(read, artifact, offset, bytes, s). 2 ^ 64 - unat offset)")
    (simp_all only: wf_measure in_measure case_prod_conv cursor_decreases not_False_eq_True)

declare fetch_loop.simps [simp del]

definition fetch_verified_artifact ::
  "(u8 list \<Rightarrow> u8 list) \<Rightarrow> ArtifactRef \<Rightarrow> 's page_reader \<Rightarrow> 's \<Rightarrow> (CliContractError + u8 list) \<times> 's" where
  "fetch_verified_artifact sha256 artifact read s =
     (if art_size_bytes artifact > MAX_CLI_ARTIFACT_BYTES then (Inl DeclaredTooLarge, s)
      else case fetch_loop read artifact 0 [] s of
        (Inl e, s') \<Rightarrow> (Inl e, s')
      | (Inr bytes, s') \<Rightarrow>
          (if u64_of_len bytes \<noteq> Some (art_size_bytes artifact) then (Inl AssembledLengthDiffers, s')
           else if sha256_hex sha256 bytes \<noteq> art_sha256 artifact then (Inl AssembledDigestDiffers, s')
           else (Inr bytes, s')))"

text \<open>What the client accepts has the declared size and digest, whatever the pages were.\<close>

lemma fetch_sound:
  assumes "fetch_verified_artifact sha256 artifact read s = (Inr bytes, s')"
  shows "length bytes = unat (art_size_bytes artifact)" "sha256_hex sha256 bytes = art_sha256 artifact"
    "art_size_bytes artifact \<le> MAX_CLI_ARTIFACT_BYTES"
proof -
  have "verify_artifact sha256 artifact bytes = None" "art_size_bytes artifact \<le> MAX_CLI_ARTIFACT_BYTES"
    using assms
    by (auto simp: fetch_verified_artifact_def verify_artifact_def not_less split: if_splits prod.splits sum.splits)
  then show "length bytes = unat (art_size_bytes artifact)" "sha256_hex sha256 bytes = art_sha256 artifact"
    "art_size_bytes artifact \<le> MAX_CLI_ARTIFACT_BYTES"
    by (simp_all add: verify_artifact_None_iff)
qed

section \<open>Pages of given bytes\<close>

definition chunk_size :: "u8 list \<Rightarrow> u64 \<Rightarrow> nat" where
  "chunk_size bytes offset = min (unat MAX_ARTIFACT_CHUNK_BYTES) (length bytes - unat offset)"

definition exact_chunk :: "ArtifactRef \<Rightarrow> u8 list \<Rightarrow> u64 \<Rightarrow> ArtifactChunk" where
  "exact_chunk artifact bytes offset =
     \<lparr>ck_artifact = artifact, ck_offset = offset, ck_next_offset = offset + of_nat (chunk_size bytes offset),
      ck_eof = (unat offset + chunk_size bytes offset = length bytes),
      ck_data = take (chunk_size bytes offset) (drop (unat offset) bytes)\<rparr>"

lemma exact_next_offset:
  assumes "length bytes < 2 ^ 64" "unat offset \<le> length bytes"
  shows "unat (offset + of_nat (chunk_size bytes offset)) = unat offset + chunk_size bytes offset"
    "checked_add offset (of_nat (chunk_size bytes offset)) = Some (offset + of_nat (chunk_size bytes offset))"
proof -
  have le: "unat offset + chunk_size bytes offset \<le> length bytes"
    using assms(2) by (simp add: chunk_size_def)
  then have n: "unat (of_nat (chunk_size bytes offset) :: u64) = chunk_size bytes offset"
    using assms(1) by (simp add: unat_of_nat take_bit_nat_eq_self)
  show "checked_add offset (of_nat (chunk_size bytes offset)) = Some (offset + of_nat (chunk_size bytes offset))"
    using le assms(1) by (simp add: checked_add_def n)
  from checked_add_Some_unat[OF this] n
  show "unat (offset + of_nat (chunk_size bytes offset)) = unat offset + chunk_size bytes offset" by simp
qed

text \<open>
  The contract of a source that serves the pages of the bytes of one artifact, and that the client
  assembles them to these bytes.
\<close>

locale exact_pages =
  fixes read :: "'s page_reader"
    and artifact :: ArtifactRef
    and bytes :: "u8 list"
    and ok :: "'s \<Rightarrow> bool"
  assumes size: "ok s \<Longrightarrow> length bytes = unat (art_size_bytes artifact)"
    and page: "ok s \<Longrightarrow> unat offset \<le> length bytes \<Longrightarrow>
      \<exists>s'. ok s' \<and> read artifact offset MAX_ARTIFACT_CHUNK_BYTES s = (Inr (exact_chunk artifact bytes offset), s')"
begin

lemma length_bound: "ok s \<Longrightarrow> length bytes < 2 ^ 64"
  using size[of s] unsigned_less[where 'a = nat, of "art_size_bytes artifact"] by simp

lemma fetch_loop_exact:
  "ok s \<Longrightarrow> unat offset \<le> length bytes \<Longrightarrow>
     \<exists>s'. ok s' \<and> fetch_loop read artifact offset (take (unat offset) bytes) s = (Inr bytes, s')"
proof (induction "2 ^ 64 - unat offset" arbitrary: offset s rule: less_induct)
  case less
  let ?n = "chunk_size bytes offset" and ?next = "offset + of_nat (chunk_size bytes offset)"
  obtain s1 where s1: "ok s1" "read artifact offset MAX_ARTIFACT_CHUNK_BYTES s = (Inr (exact_chunk artifact bytes offset), s1)"
    using page less.prems by blast
  have nxt: "unat ?next = unat offset + ?n" using exact_next_offset[OF length_bound[OF less.prems(1)] less.prems(2)] by simp
  have data: "take (unat offset) bytes @ take ?n (drop (unat offset) bytes) = take (unat ?next) bytes"
    by (simp add: nxt take_add)
  show ?case
  proof (cases "unat ?next = length bytes")
    case True
    then have "?next = art_size_bytes artifact" using size[OF less.prems(1)] by (simp add: word_unat_eq_iff)
    with True s1 data nxt show ?thesis
      by (auto simp: fetch_loop.simps[of read artifact offset] exact_chunk_def)
  next
    case False
    then have "0 < ?n" "unat ?next \<le> length bytes"
      using less.prems(2) nxt by (auto simp: chunk_size_def MAX_ARTIFACT_CHUNK_BYTES_def)
    then have advance: "\<not> ?next \<le> offset" by (simp add: word_le_nat_alt nxt)
    from less.hyps[OF cursor_decreases[OF advance] s1(1) \<open>unat ?next \<le> length bytes\<close>]
    show ?thesis
      using False s1(2) advance nxt data by (simp add: fetch_loop.simps[of read artifact offset] exact_chunk_def)
  qed
qed

lemma fetch_exact:
  assumes "ok s" "sha256_hex sha256 bytes = art_sha256 artifact" "art_size_bytes artifact \<le> MAX_CLI_ARTIFACT_BYTES"
  shows "\<exists>s'. ok s' \<and> fetch_verified_artifact sha256 artifact read s = (Inr bytes, s')"
proof -
  obtain s' where s': "ok s'" "fetch_loop read artifact 0 [] s = (Inr bytes, s')"
    using fetch_loop_exact[OF assms(1), of 0] by auto
  have "u64_of_len bytes = Some (art_size_bytes artifact)"
    using length_bound[OF assms(1)] by (simp add: u64_of_len_def size[OF assms(1)])
  with s' assms(2,3) show ?thesis by (simp add: fetch_verified_artifact_def not_less)
qed

end

section \<open>The daemon as the source\<close>

text \<open>
  \<open>DaemonClient::get_artifact\<close> of \<open>crates/client/src/lib.rs\<close>: the request is checked when it is built, and
  the answer against the request.  \<open>call\<close> is the exchange over the connection;
  \<open>OtherClientError\<close> stands for its errors.
\<close>

datatype ClientError =
    InvalidArtifactRequest ArtifactReadContractError
  | ArtifactReferenceMismatch
  | ArtifactOffsetMismatch u64 u64
  | ArtifactChunkExceedsRequest u32 nat
  | OtherClientError string

definition validate_artifact_response :: "GetArtifactRequest \<Rightarrow> ArtifactChunk \<Rightarrow> ClientError option" where
  "validate_artifact_response request chunk =
     (if ck_artifact chunk \<noteq> gr_artifact request then Some ArtifactReferenceMismatch
      else if ck_offset chunk \<noteq> gr_offset request
      then Some (ArtifactOffsetMismatch (gr_offset request) (ck_offset chunk))
      else if length (ck_data chunk) > unat (gr_max_bytes request)
      then Some (ArtifactChunkExceedsRequest (gr_max_bytes request) (length (ck_data chunk)))
      else None)"

definition client_get_artifact ::
  "(GetArtifactRequest \<Rightarrow> 's \<Rightarrow> (ClientError + ArtifactChunk) \<times> 's) \<Rightarrow> ArtifactRef \<Rightarrow> u64 \<Rightarrow> u32 \<Rightarrow> 's
     \<Rightarrow> (ClientError + ArtifactChunk) \<times> 's" where
  "client_get_artifact call artifact offset max_bytes s =
     (case get_artifact_request_new artifact offset max_bytes of
        Inl e \<Rightarrow> (Inl (InvalidArtifactRequest e), s)
      | Inr request \<Rightarrow>
          (case call request s of
             (Inl e, s') \<Rightarrow> (Inl e, s')
           | (Inr chunk, s') \<Rightarrow>
               (case validate_artifact_response request chunk of
                  Some e \<Rightarrow> (Inl e, s')
                | None \<Rightarrow> (Inr chunk, s'))))"

text \<open>The closure of the command line client turns errors into their text.\<close>

definition cli_reader ::
  "(ClientError \<Rightarrow> string) \<Rightarrow> (GetArtifactRequest \<Rightarrow> 's \<Rightarrow> (ClientError + ArtifactChunk) \<times> 's) \<Rightarrow> 's page_reader" where
  "cli_reader display call artifact offset max_bytes s =
     (case client_get_artifact call artifact offset max_bytes s of
        (Inl e, s') \<Rightarrow> (Inl (display e), s')
      | (Inr chunk, s') \<Rightarrow> (Inr chunk, s'))"

text \<open>A connection that delivers each request to a runtime and its answer back.\<close>

definition runtime_exchange ::
  "'r repository \<Rightarrow> (ArtifactReadContractError \<Rightarrow> string) \<Rightarrow> (RuntimeError \<Rightarrow> string) \<Rightarrow> GetArtifactRequest \<Rightarrow> 'r
     \<Rightarrow> (ClientError + ArtifactChunk) \<times> 'r" where
  "runtime_exchange repo describe shown request r =
     (case get_artifact repo describe request r of
        (Some (Inr chunk), r') \<Rightarrow> (Inr chunk, r')
      | (Some (Inl e), r') \<Rightarrow> (Inl (OtherClientError (shown e)), r')
      | (None, r') \<Rightarrow> (Inl (OtherClientError []), r'))"

lemma artifact_chunk_exact:
  assumes "valid_sha256 (art_sha256 artifact)" "length bytes = unat (art_size_bytes artifact)" "unat offset \<le> length bytes"
  shows "artifact_chunk_new artifact offset (take (chunk_size bytes offset) (drop (unat offset) bytes))
      (unat offset + chunk_size bytes offset = length bytes) = Inr (exact_chunk artifact bytes offset)"
proof -
  let ?n = "chunk_size bytes offset"
  have bound: "length bytes < 2 ^ 64"
    using assms(2) unsigned_less[where 'a = nat, of "art_size_bytes artifact"] by simp
  note nxt = exact_next_offset[OF bound assms(3)]
  have n: "?n \<le> length bytes - unat offset" "?n \<le> unat MAX_ARTIFACT_CHUNK_BYTES" "unat offset < length bytes \<Longrightarrow> 0 < ?n"
    by (auto simp: chunk_size_def MAX_ARTIFACT_CHUNK_BYTES_def)
  have len: "length (take ?n (drop (unat offset) bytes)) = ?n" using n(1) by simp
  have "\<not> offset > art_size_bytes artifact" "\<not> offset + of_nat ?n > art_size_bytes artifact"
    "(offset + of_nat ?n = art_size_bytes artifact) = (unat offset + ?n = length bytes)"
    using assms(2,3) n(1) nxt(1) by (simp_all add: word_less_nat_alt word_unat_eq_iff)
  moreover have "\<not> (take ?n (drop (unat offset) bytes) = [] \<and> offset < art_size_bytes artifact)"
    using n(3) len assms(2) by (metis length_0_conv less_numeral_extra(3) word_less_nat_alt)
  moreover have "?n < 2 ^ 64" using n(1) bound by simp
  ultimately show ?thesis
    using assms(1) n(2) nxt(2) len
    by (simp add: artifact_chunk_new_def validate_artifact_ref_cases exact_chunk_def)
qed

lemma get_artifact_exact:
  assumes "get_artifact_request_new artifact offset MAX_ARTIFACT_CHUNK_BYTES = Inr request"
    "rp_read_artifact repo artifact r = (Inr bytes, r')" "length bytes = unat (art_size_bytes artifact)"
  shows "get_artifact repo describe request r = (Some (Inr (exact_chunk artifact bytes offset)), r')"
proof -
  have req: "valid_sha256 (art_sha256 artifact)" "offset \<le> art_size_bytes artifact"
    "request = \<lparr>gr_artifact = artifact, gr_offset = offset, gr_max_bytes = MAX_ARTIFACT_CHUNK_BYTES\<rparr>"
    using assms(1) by (simp_all add: get_artifact_request_new_Inr_iff)
  have off: "unat offset \<le> length bytes" using req(2) assms(3) by (simp add: word_le_nat_alt)
  have bound: "length bytes < 2 ^ 64"
    using assms(3) unsigned_less[where 'a = nat, of "art_size_bytes artifact"] by simp
  have finish: "min (usize_saturating_add (unat offset) (unat MAX_ARTIFACT_CHUNK_BYTES)) (length bytes)
      = unat offset + chunk_size bytes offset"
    using off bound by (auto simp: usize_saturating_add_def usize_max_def chunk_size_def)
  show ?thesis
    using artifact_chunk_exact[OF req(1) assms(3) off] assms(2)
    by (simp add: get_artifact_def req(3) Let_def finish)
qed

lemma cli_reader_exact:
  assumes "rp_read_artifact repo artifact r = (Inr bytes, r')" "length bytes = unat (art_size_bytes artifact)"
    "valid_sha256 (art_sha256 artifact)" "unat offset \<le> length bytes"
  shows "cli_reader display (runtime_exchange repo describe shown) artifact offset MAX_ARTIFACT_CHUNK_BYTES r =
    (Inr (exact_chunk artifact bytes offset), r')"
proof -
  let ?request = "\<lparr>gr_artifact = artifact, gr_offset = offset, gr_max_bytes = MAX_ARTIFACT_CHUNK_BYTES\<rparr>"
  have request: "get_artifact_request_new artifact offset MAX_ARTIFACT_CHUNK_BYTES = Inr ?request"
    using assms(2-4) by (simp add: get_artifact_request_new_Inr_iff word_le_nat_alt MAX_ARTIFACT_CHUNK_BYTES_def)
  have "chunk_size bytes offset \<le> unat MAX_ARTIFACT_CHUNK_BYTES"
    by (simp add: chunk_size_def)
  then have "validate_artifact_response ?request (exact_chunk artifact bytes offset) = None"
    by (simp add: validate_artifact_response_def exact_chunk_def)
  with request get_artifact_exact[OF request assms(1,2)] show ?thesis
    by (simp add: cli_reader_def client_get_artifact_def runtime_exchange_def)
qed

text \<open>A store that holds the artifact serves its pages, with other processes at work.\<close>

interpretation store_pages: exact_pages
  "cli_reader display (runtime_exchange
     (store_repository env disp others (store_get_artifact sha256 None files)) describe shown)"
  artifact bytes "\<lambda>_. store_get_artifact sha256 None files artifact = Inr bytes"
  for display env disp others sha256 files describe shown artifact bytes
proof
  fix r :: shared_store and offset :: u64
  assume get: "store_get_artifact sha256 None files artifact = Inr bytes"
  show "length bytes = unat (art_size_bytes artifact)"
    using store_get_sound(3)[OF get] .
  assume off: "unat offset \<le> length bytes"
  obtain r' where read: "rp_read_artifact (store_repository env disp others (store_get_artifact sha256 None files)) artifact r
      = (Inr bytes, r')"
    by (simp add: store_repository_def shared_call_def read_only_def get)
  show "\<exists>r'. store_get_artifact sha256 None files artifact = Inr bytes
      \<and> cli_reader display (runtime_exchange (store_repository env disp others (store_get_artifact sha256 None files)) describe shown)
          artifact offset MAX_ARTIFACT_CHUNK_BYTES r = (Inr (exact_chunk artifact bytes offset), r')"
    using cli_reader_exact[OF read store_get_sound(3,1)[OF get] off] get by simp
qed

lemma put_then_get:
  assumes "put_artifact_at sha256 f1 f2 f3 bytes media_type files = (Inr artifact, files')" "files (sha256_hex sha256 bytes) = None"
  shows "store_get_artifact sha256 None files' artifact = Inr bytes"
  using assms(1)
proof (rule put_artifact_sound)
  fix content
  assume c: "files' (art_sha256 artifact) = Some content" "art_sha256 artifact = sha256_hex sha256 bytes"
    "unat (art_size_bytes artifact) = length bytes" "valid_sha256 (art_sha256 artifact)"
    "art_size_bytes artifact \<le> MAX_ARTIFACT_BYTES" "files (art_sha256 artifact) = None \<longrightarrow> content = bytes"
  then have "files' (art_sha256 artifact) = Some bytes" using assms(2) by simp
  with c show ?thesis
    by (simp add: store_get_artifact_def artifact_path_at_def read_verified_complete)
qed

end
