(* ===== verification/Example_Store.thy ===== *)
theory Example_Store
  imports Store_Repository Artifact_Fetch
begin

text \<open>
  A concrete store on which the properties of store and runtime are instantiated: a codec that
  knows a list of events, a session, a run, its states and a cancellation.
\<close>

section \<open>A codec for a list of events\<close>

text \<open>The text of an event has as many characters as the event has predecessors in the list.\<close>

definition list_encode :: "EventEnvelope list \<Rightarrow> EventEnvelope \<Rightarrow> string + string" where
  "list_encode events e =
     (if e \<in> set events then Inr (replicate (length (takeWhile (\<lambda>d. d \<noteq> e) events)) CHR ''x'') else Inl ''unknown event'')"

definition list_decode :: "EventEnvelope list \<Rightarrow> string \<Rightarrow> StoreError + EventEnvelope" where
  "list_decode events json = (if length json < length events then Inr (events ! length json) else Inl (JsonError ''unknown event''))"

lemma list_codec: "list_encode events e = Inr json \<Longrightarrow> list_decode events json = Inr e"
proof -
  assume enc: "list_encode events e = Inr json"
  then have e: "e \<in> set events" "length json = length (takeWhile (\<lambda>d. d \<noteq> e) events)"
    by (auto simp: list_encode_def split: if_splits)
  have "length (takeWhile (\<lambda>d. d \<noteq> e) events) < length events"
    using e(1) by (metis (mono_tags) length_takeWhile_le nat_less_le takeWhile_eq_all_conv takeWhile_eq_take take_all_iff)
  then show ?thesis
    using nth_length_takeWhile[of "\<lambda>d. d \<noteq> e" events] by (simp add: list_decode_def e(2))
qed

section \<open>The events\<close>

definition ex_session :: Session where
  "ex_session = \<lparr>sn_id = SessionId 1, sn_workspace_root = ''/w'', sn_title = None, sn_created_at = 0\<rparr>"

definition ex_spec :: RunSpec where
  "ex_spec = \<lparr>rs_session_id = SessionId 1, rs_purpose = PlanOnly, rs_plan_acceptance = IndependentSemanticReviewV1,
     rs_backend = \<lparr>bk_backend_id = ''lm'', bk_kind = ModelBackend, bk_model = Some ''m'', bk_reasoning_effort = None\<rparr>,
     rs_input = [TextInput ''plan''],
     rs_limits = \<lparr>rl_max_output_tokens = None, rl_max_wall_time_seconds = None, rl_max_subagents = 0\<rparr>\<rparr>"

definition ex_run :: Run where
  "ex_run = with_id 1 (RunId 2) ex_spec"

definition ex_request :: CreateRunRequest where
  "ex_request = \<lparr>rq_run_id = RunId 2, rq_spec = ex_spec\<rparr>"

definition ex_cancellation :: CancellationRequested where
  "ex_cancellation = \<lparr>cq_cancellation_request_id = CancellationRequestId 5, cq_cancellation_generation = 1\<rparr>"

abbreviation ex_actor :: uuid where
  "ex_actor \<equiv> 7"

definition ex_new :: "RunId option \<Rightarrow> EventId option \<Rightarrow> EventPayload \<Rightarrow> NewEvent" where
  "ex_new = runtime_event ex_actor (SessionId 1)"

text \<open>The event that gets the given identifier at the given time.\<close>

definition ex_event :: "nat \<Rightarrow> u64 \<Rightarrow> nat \<Rightarrow> NewEvent \<Rightarrow> EventEnvelope" where
  "ex_event i sequence time event =
     \<lparr>ee_id = EventId i, ee_sequence = sequence, ee_session_id = ne_session_id event, ee_run_id = ne_run_id event,
      ee_actor_id = ne_actor_id event, ee_causal_parent = ne_causal_parent event, ee_occurred_at = int time,
      ee_provenance = ne_provenance event, ee_payload = ne_payload event\<rparr>"

definition ex_open :: NewEvent where
  "ex_open = ex_new None None (SessionCreated ex_session)"

definition ex_queue :: NewEvent where
  "ex_queue = ex_new (Some (RunId 2)) None (RunCreated ex_run)"

definition ex_start :: NewEvent where
  "ex_start = ex_new (Some (RunId 2)) None (RunStateChanged Queued Running)"

definition ex_finish :: NewEvent where
  "ex_finish = ex_new (Some (RunId 2)) None (RunStateChanged Running RunCompleted)"

definition ex_cancel :: NewEvent where
  "ex_cancel = ex_new (Some (RunId 2)) (Some (EventId 1)) (CancellationEvent ex_cancellation)"

definition ex_stop :: NewEvent where
  "ex_stop = ex_new (Some (RunId 2)) (Some (EventId 2)) (RunStateChanged Queued RunCancelled)"

definition ex_note :: NewEvent where
  "ex_note = ex_new (Some (RunId 2)) (Some (EventId 1)) (OtherPayload ''note'')"

definition ex_events :: "EventEnvelope list" where
  "ex_events = [ex_event 0 1 0 ex_open, ex_event 1 2 1 ex_queue, ex_event 2 3 2 ex_start, ex_event 3 4 3 ex_finish,
     ex_event 2 3 2 ex_cancel, ex_event 3 4 3 ex_stop, ex_event 9 3 2 ex_note, ex_event 3 4 3 ex_start]"

definition ex_env :: store_env where
  "ex_env = \<lparr>sv_encode = list_encode ex_events, sv_decode = list_decode ex_events, sv_event_id = EventId, sv_now = int,
     sv_sqlite = (\<lambda>_. None), sv_fetch = (\<lambda>_ _ _. None), sv_artifact_refs = (\<lambda>_ _. None), sv_generic = (\<lambda>_ _. None), sv_store_owned = (\<lambda>_. False)\<rparr>"

lemma ex_opened: "store_opened ex_env empty_store"
  by (simp add: store_opened_def codec_ok_def ex_env_def list_codec)

lemmas ex_data_defs = ex_session_def ex_spec_def ex_run_def ex_cancellation_def ex_new_def ex_open_def ex_queue_def
  ex_start_def ex_finish_def ex_cancel_def ex_stop_def ex_note_def runtime_event_def with_id_def

lemma ex_event_select [simp]:
  "ee_id (ex_event i q t n) = EventId i" "ee_sequence (ex_event i q t n) = q" "ee_session_id (ex_event i q t n) = ne_session_id n"
  "ee_run_id (ex_event i q t n) = ne_run_id n" "ee_causal_parent (ex_event i q t n) = ne_causal_parent n"
  "ee_payload (ex_event i q t n) = ne_payload n" "ee_provenance (ex_event i q t n) = ne_provenance n"
  by (simp_all add: ex_event_def)

lemma ex_event_eq_iff [simp]:
  "ex_event i q t n = ex_event i' q' t' n' \<longleftrightarrow> i = i' \<and> q = q' \<and> t = t' \<and> n = n'"
  by (cases n; cases n') (auto simp: ex_event_def)

lemma ex_new_select [simp]:
  "ne_session_id (ex_new r p y) = SessionId 1" "ne_run_id (ex_new r p y) = r" "ne_causal_parent (ex_new r p y) = p"
  "ne_payload (ex_new r p y) = y" "ne_actor_id (ex_new r p y) = ex_actor" "ne_provenance (ex_new r p y) = runtime_provenance"
  "ex_new r p y = ex_new r' p' y' \<longleftrightarrow> r = r' \<and> p = p' \<and> y = y'"
  by (auto simp: ex_new_def runtime_event_def)

lemmas ex_news = ex_open_def ex_queue_def ex_start_def ex_finish_def ex_cancel_def ex_stop_def ex_note_def

lemma ex_codec:
  "list_encode ex_events (ex_event 0 1 0 ex_open) = Inr []"
  "list_encode ex_events (ex_event 1 2 1 ex_queue) = Inr ''x''"
  "list_encode ex_events (ex_event 2 3 2 ex_start) = Inr ''xx''"
  "list_encode ex_events (ex_event 3 4 3 ex_finish) = Inr ''xxx''"
  "list_encode ex_events (ex_event 2 3 2 ex_cancel) = Inr ''xxxx''"
  "list_encode ex_events (ex_event 3 4 3 ex_stop) = Inr ''xxxxx''"
  "list_encode ex_events (ex_event 9 3 2 ex_note) = Inr ''xxxxxx''"
  "list_encode ex_events (ex_event 3 4 3 ex_start) = Inr ''xxxxxxx''"
  by (simp_all add: list_encode_def ex_events_def ex_news numeral_eq_Suc)

lemma ex_env_select [simp]:
  "sv_encode ex_env = list_encode ex_events" "sv_decode ex_env = list_decode ex_events" "sv_event_id ex_env = EventId"
  "sv_now ex_env = int" "sv_sqlite ex_env db = None" "sv_fetch ex_env q db k = None" "sv_artifact_refs ex_env p y = None" "sv_generic ex_env db e = None"
  "\<not> sv_store_owned ex_env n"
  by (simp_all add: ex_env_def)

lemma ex_query_row [simp]: "query_row ex_env q db x = Inr x"
  by (simp add: query_row_def)

lemma ex_page_reads: "sql_integer cursor \<Longrightarrow> page_failure (sv_fetch ex_env q db) cursor events = None"
proof -
  have "first_failure (sv_fetch ex_env q db) i n = None" for i n
    by (induction n arbitrary: i) simp_all
  then show "sql_integer cursor \<Longrightarrow> page_failure (sv_fetch ex_env q db) cursor events = None"
    by (simp add: page_failure_def)
qed

lemma ex_preallocate:
  "ex_event i q t n = \<lparr>ee_id = EventId i, ee_sequence = q, ee_session_id = ne_session_id n, ee_run_id = ne_run_id n,
     ee_actor_id = ne_actor_id n, ee_causal_parent = ne_causal_parent n, ee_occurred_at = int t,
     ee_provenance = ne_provenance n, ee_payload = ne_payload n\<rparr>"
  by (simp add: ex_event_def)

lemma ex_encode_inline:
  "list_encode ex_events e = Inr json \<Longrightarrow> length json \<le> 8 \<Longrightarrow> encode_inline_event ex_env e = Inr json"
  by (simp add: encode_inline_event_def page_limit_defs)

lemma ex_not_refused: "sql_integer (ee_sequence e) \<Longrightarrow> \<not> refused ex_env db e"
  by (simp add: refused_def)

text \<open>A transaction of the example, for an event that the codec knows.\<close>

lemma ex_append:
  assumes "consistent ex_env db" "db_drawn db = t" "event_log ex_env db = log"
    "q = of_nat (Suc (length (session_log log (ne_session_id event))))"
    "admissible log (ex_event i q t event)" "accepts (ex_event i q t event)"
    "list_encode ex_events (ex_event i q t event) = Inr json" "length json \<le> 8"
    "append_transaction ex_env (EventId i) event accepts result db = (r, db')" "sql_integer q"
  shows "r = Inr (result (ex_event i q t event)) \<and> consistent ex_env db'
    \<and> event_log ex_env db' = log @ [ex_event i q t event] \<and> db_drawn db' = Suc t"
proof -
  have e: "ex_event i q t event = next_envelope ex_env db (EventId i) event"
    by (simp add: next_envelope_def ex_event_def assms(2-4))
  have adm: "admissible (event_log ex_env db) (ex_event i q t event)" using assms(3,5) by simp
  obtain db1 where db1: "append_transaction ex_env (EventId i) event accepts result db = (Inr (result (ex_event i q t event)), db1)"
    "consistent ex_env db1" "event_log ex_env db1 = event_log ex_env db @ [ex_event i q t event]" "db_drawn db1 = Suc (db_drawn db)"
    by (rule append_transaction_succeeds[where accepts = accepts and result = result,
          OF assms(1) e adm _ ex_not_refused ex_encode_inline[OF assms(7,8)]]) (simp_all add: assms(6,10))
  from db1(1) assms(9) have "r = Inr (result (ex_event i q t event))" "db' = db1" by simp_all
  with db1(2-4) assms(2,3) show ?thesis by simp
qed

section \<open>The states\<close>

definition ex_db1 :: store_db where
  "ex_db1 = snd (create_session ex_env ex_session ex_open empty_store)"

definition ex_db2 :: store_db where
  "ex_db2 = snd (store_create_run ex_env ex_run ex_queue ex_db1)"

definition ex_db3 :: store_db where
  "ex_db3 = snd (append_event ex_env ex_start ex_db2)"

definition ex_db4 :: store_db where
  "ex_db4 = snd (append_event ex_env ex_finish ex_db3)"

lemma ex_steps:
  "store_step ex_env empty_store ex_db1" "store_step ex_env ex_db1 ex_db2" "store_step ex_env ex_db2 ex_db3"
  "store_step ex_env ex_db3 ex_db4"
  unfolding ex_db1_def ex_db2_def ex_db3_def ex_db4_def
  by (rule step_create_session step_create_run step_append, rule prod.collapse[symmetric])+

lemma ex_reachable:
  "(store_step ex_env)\<^sup>*\<^sup>* empty_store ex_db1" "(store_step ex_env)\<^sup>*\<^sup>* empty_store ex_db2"
  "(store_step ex_env)\<^sup>*\<^sup>* empty_store ex_db3" "(store_step ex_env)\<^sup>*\<^sup>* empty_store ex_db4"
  using ex_steps by (meson converse_rtranclp_into_rtranclp rtranclp.rtrancl_refl)+

definition ex_log1 :: event_log where
  "ex_log1 = [ex_event 0 1 0 ex_open]"

definition ex_log2 :: event_log where
  "ex_log2 = ex_log1 @ [ex_event 1 2 1 ex_queue]"

definition ex_log3 :: event_log where
  "ex_log3 = ex_log2 @ [ex_event 2 3 2 ex_start]"

definition ex_log4 :: event_log where
  "ex_log4 = ex_log3 @ [ex_event 3 4 3 ex_finish]"

lemmas ex_log_defs = ex_log1_def ex_log2_def ex_log3_def ex_log4_def

lemmas ex_admissible = admissible_def payload_admissible_def session_log_def sessions_of_def runs_of_def session_exists_def
  run_in_session_def run_state_def next_state_def ex_news ex_session_def ex_run_def ex_spec_def with_id_def
  new_run_acceptance_contract_is_valid_def contract_consistent_def sql_integer_def MAX_SQLITE_INTEGER_U64_def

lemma ex_state1: "fst (create_session ex_env ex_session ex_open empty_store) = Inr (ex_event 0 1 0 ex_open)
    \<and> consistent ex_env ex_db1 \<and> event_log ex_env ex_db1 = ex_log1 \<and> db_drawn ex_db1 = 1"
proof -
  let ?accepts = "\<lambda>e. ee_session_id e = sn_id ex_session \<and> ee_run_id e = None \<and> ee_payload e = SessionCreated ex_session"
  have "append_transaction ex_env (EventId 0) ex_open ?accepts (\<lambda>e. e) empty_store =
      (fst (create_session ex_env ex_session ex_open empty_store), ex_db1)"
    by (simp add: ex_db1_def create_session_def) (simp add: empty_store_def)
  from ex_append[OF consistent_empty[OF ex_opened] _ _ _ _ _ ex_codec(1) _ this, of "[]"] show ?thesis
    by (simp add: empty_store_def event_log_def ex_log1_def ex_admissible)
qed

lemma ex_state2: "fst (store_create_run ex_env ex_run ex_queue ex_db1) = Inr (ex_event 1 2 1 ex_queue)
    \<and> consistent ex_env ex_db2 \<and> event_log ex_env ex_db2 = ex_log2 \<and> db_drawn ex_db2 = 2"
proof -
  let ?accepts = "\<lambda>e. new_run_acceptance_contract_is_valid ex_run \<and> ee_session_id e = rs_session_id (rn_spec ex_run)
    \<and> ee_run_id e = Some (rn_id ex_run) \<and> rn_state ex_run = Queued \<and> ee_payload e = RunCreated ex_run"
  have "append_transaction ex_env (EventId 1) ex_queue ?accepts (\<lambda>e. e) ex_db1 =
      (fst (store_create_run ex_env ex_run ex_queue ex_db1), ex_db2)"
    using ex_state1 by (simp add: ex_db2_def store_create_run_def)
  from ex_append[OF _ _ _ _ _ _ ex_codec(2) _ this, of ex_log1] ex_state1 show ?thesis
    by (simp add: ex_log_defs ex_admissible)
qed

lemma ex_state3: "fst (append_event ex_env ex_start ex_db2) = Inr (ex_event 2 3 2 ex_start)
    \<and> consistent ex_env ex_db3 \<and> event_log ex_env ex_db3 = ex_log3 \<and> db_drawn ex_db3 = 3"
proof -
  have "append_transaction ex_env (EventId 2) ex_start (\<lambda>e. \<not> is_creation (ee_payload e)) (\<lambda>e. e) ex_db2 =
      (fst (append_event ex_env ex_start ex_db2), ex_db3)"
    using ex_state2 by (simp add: ex_db3_def append_event_def)
  from ex_append[OF _ _ _ _ _ _ ex_codec(3) _ this, of ex_log2] ex_state2 show ?thesis
    by (simp add: ex_log_defs ex_admissible)
qed

lemma ex_state4: "fst (append_event ex_env ex_finish ex_db3) = Inr (ex_event 3 4 3 ex_finish)
    \<and> consistent ex_env ex_db4 \<and> event_log ex_env ex_db4 = ex_log4 \<and> db_drawn ex_db4 = 4"
proof -
  have "append_transaction ex_env (EventId 3) ex_finish (\<lambda>e. \<not> is_creation (ee_payload e)) (\<lambda>e. e) ex_db3 =
      (fst (append_event ex_env ex_finish ex_db3), ex_db4)"
    using ex_state3 by (simp add: ex_db4_def append_event_def)
  from ex_append[OF _ _ _ _ _ _ ex_codec(4) _ this, of ex_log3] ex_state3 show ?thesis
    by (simp add: ex_log_defs ex_admissible)
qed

text \<open>An identified append in the state with a queued run.\<close>

definition ex_db_note :: store_db where
  "ex_db_note = snd (append_identified_event ex_env (EventId 9) ex_note ex_db2)"

lemma ex_note_appended: "append_identified_event ex_env (EventId 9) ex_note ex_db2 =
    (Inr (Appended (ex_event 9 3 2 ex_note)), ex_db_note)
    \<and> consistent ex_env ex_db_note \<and> event_log ex_env ex_db_note = ex_log2 @ [ex_event 9 3 2 ex_note] \<and> db_drawn ex_db_note = 3"
proof -
  have "load_event_by_id ex_env (EventId 9) ex_db2 = Inr None"
    using load_event_by_id_log[of ex_env ex_db2 "EventId 9"] ex_state2 by (simp add: consistent_def ex_log_defs)
  then have eq: "append_identified_event ex_env (EventId 9) ex_note ex_db2 =
      append_transaction ex_env (EventId 9) ex_note (\<lambda>_. True) Appended ex_db2"
    by (simp add: append_identified_event_def ex_news)
  then have "append_transaction ex_env (EventId 9) ex_note (\<lambda>_. True) Appended ex_db2 =
      (fst (append_identified_event ex_env (EventId 9) ex_note ex_db2), ex_db_note)"
    by (simp add: ex_db_note_def)
  from ex_append[OF _ _ _ _ _ _ ex_codec(7) _ this, of ex_log2] ex_state2 show ?thesis
    by (auto simp: ex_log_defs ex_admissible prod_eq_iff ex_db_note_def)
qed

section \<open>The runtime\<close>

definition ex_others :: "nat \<Rightarrow> store_db \<Rightarrow> store_db" where
  "ex_others n db = db"

definition ex_repo :: "shared_store repository" where
  "ex_repo = store_repository ex_env (\<lambda>_. []) ex_others (\<lambda>_. Inl InvalidArtifactHash)"

lemma ex_others_ok: "others_ok ex_env ex_others"
  by (simp add: others_ok_def ex_others_def)

lemma ex_shared_ok: "shared_ok ex_env ex_others (ex_db1, 0)" "shared_ok ex_env ex_others (ex_db2, n)"
  using ex_state1 ex_state2 ex_others_ok by (simp_all add: shared_ok_def)

lemma ex_valid_spec: "validate_run_spec ex_request = Inr ()"
proof -
  have "valid_run_spec (rq_spec ex_request)"
    by (simp add: valid_run_spec_def ex_request_def ex_spec_def contract_consistent_def plan_only_ok_def nonblank_text_def)
      code_simp
  then show ?thesis using validate_run_spec_iff by blast
qed

lemma ex_create_run: "create_run ex_repo ex_actor 1 ex_request (ex_db1, 0) = (Inr ex_run, (ex_db2, 3))"
proof -
  have inv: "store_inv ex_env ex_db1" "event_log ex_env ex_db1 = ex_log1"
    using ex_state1 by (simp_all add: consistent_def)
  have session: "store_get_session ex_env (SessionId 1) ex_db1 = Inr (Some ex_session)"
    using store_get_session_log[OF inv(1)] inv(2) by (simp add: ex_log_defs ex_admissible)
  have run: "store_get_run ex_env (RunId 2) ex_db1 = Inr None"
    using store_get_run_log[OF inv(1), of "RunId 2"] inv(2) by (simp add: ex_log_defs ex_admissible)
  have created: "store_create_run ex_env ex_run ex_queue ex_db1 = (Inr (ex_event 1 2 1 ex_queue), ex_db2)"
    using ex_state2 by (simp add: ex_db2_def prod_eq_iff)
  have consistent: "contract_consistent (rs_purpose ex_spec) (rs_plan_acceptance ex_spec)" "rs_session_id ex_spec = SessionId 1"
    "rq_spec ex_request = ex_spec" "rq_run_id ex_request = RunId 2" "with_id 1 (RunId 2) ex_spec = ex_run"
    "rn_spec ex_run = ex_spec" "rn_id ex_run = RunId 2"
    "runtime_event ex_actor (SessionId 1) (Some (RunId 2)) None (RunCreated ex_run) = ex_queue"
    by (simp_all add: contract_consistent_def ex_spec_def ex_request_def ex_run_def with_id_def ex_queue_def ex_new_def)
  show ?thesis
    using ex_valid_spec
    by (simp add: create_run_unfold consistent ex_repo_def store_repository_def shared_call_def read_only_def ex_others_def
        session run insert_new_run_def created del: One_nat_def)
qed

text \<open>Creating the run again finds it.\<close>

lemma ex_consistent_names: "rs_session_id ex_spec = SessionId 1" "rq_spec ex_request = ex_spec" "rq_run_id ex_request = RunId 2"
  "rn_spec ex_run = ex_spec" "rn_id ex_run = RunId 2" "ex_run\<lparr>rn_state := Queued\<rparr> = ex_run" "rn_state ex_run = Queued"
  by (simp_all add: ex_spec_def ex_request_def ex_run_def with_id_def)

lemma ex_get_run: "store_get_run ex_env (RunId 2) ex_db2 = Inr (Some ex_run)"
  using store_get_run_log[of ex_env ex_db2 "RunId 2"] ex_state2
  by (simp add: consistent_def ex_log_defs ex_admissible)

lemma ex_repo_get_run: "get_run ex_repo (RunId 2) (ex_db2, n) = (Inr ex_run, (ex_db2, Suc n))"
  by (simp add: get_run_def try_repo_def ex_repo_def store_repository_def shared_call_def read_only_def ex_others_def ex_get_run)

lemma ex_create_again: "create_run ex_repo ex_actor 9 ex_request (ex_db2, 3) = (Inr ex_run, (ex_db2, 5))"
proof -
  have "store_get_session ex_env (SessionId 1) ex_db2 = Inr (Some ex_session)"
    using store_get_session_log[of ex_env ex_db2 "SessionId 1"] ex_state2
    by (simp add: consistent_def ex_log_defs ex_admissible)
  moreover have "contract_consistent (rs_purpose ex_spec) (rs_plan_acceptance ex_spec)"
    by (simp add: contract_consistent_def ex_spec_def)
  ultimately show ?thesis
    using ex_valid_spec
    by (simp add: create_run_unfold ex_consistent_names ex_repo_def store_repository_def shared_call_def read_only_def
        ex_others_def ex_get_run del: One_nat_def)
qed

subsection \<open>A cancellation\<close>

definition ex_db_cancel :: store_db where
  "ex_db_cancel = snd (append_event ex_env ex_cancel ex_db2)"

definition ex_db_stop :: store_db where
  "ex_db_stop = snd (append_event ex_env ex_stop ex_db_cancel)"

lemma ex_state_cancel: "append_event ex_env ex_cancel ex_db2 = (Inr (ex_event 2 3 2 ex_cancel), ex_db_cancel)
    \<and> consistent ex_env ex_db_cancel \<and> event_log ex_env ex_db_cancel = ex_log2 @ [ex_event 2 3 2 ex_cancel] \<and> db_drawn ex_db_cancel = 3"
proof -
  have "append_transaction ex_env (EventId 2) ex_cancel (\<lambda>e. \<not> is_creation (ee_payload e)) (\<lambda>e. e) ex_db2 =
      (fst (append_event ex_env ex_cancel ex_db2), ex_db_cancel)"
    using ex_state2 by (simp add: ex_db_cancel_def append_event_def)
  from ex_append[OF _ _ _ _ _ _ ex_codec(5) _ this, of ex_log2] ex_state2 show ?thesis
    by (simp add: ex_log_defs ex_admissible prod_eq_iff ex_db_cancel_def)
qed

lemma ex_state_stop: "append_event ex_env ex_stop ex_db_cancel = (Inr (ex_event 3 4 3 ex_stop), ex_db_stop)
    \<and> event_log ex_env ex_db_stop = ex_log2 @ [ex_event 2 3 2 ex_cancel, ex_event 3 4 3 ex_stop]"
proof -
  have "append_transaction ex_env (EventId 3) ex_stop (\<lambda>e. \<not> is_creation (ee_payload e)) (\<lambda>e. e) ex_db_cancel =
      (fst (append_event ex_env ex_stop ex_db_cancel), ex_db_stop)"
    using ex_state_cancel by (simp add: ex_db_stop_def append_event_def)
  from ex_append[OF _ _ _ _ _ _ ex_codec(6) _ this, of "ex_log2 @ [ex_event 2 3 2 ex_cancel]"] ex_state_cancel show ?thesis
    by (simp add: ex_log_defs ex_admissible prod_eq_iff ex_db_stop_def)
qed

lemma ex_replay: "run_events ex_repo ex_run (ex_db2, n) = (Inr [ex_event 1 2 1 ex_queue], (ex_db2, Suc n))"
proof -
  have inv: "store_inv ex_env ex_db2" "event_log ex_env ex_db2 = ex_log2" using ex_state2 by (simp_all add: consistent_def)
  have log: "run_log ex_log2 (RunId 2) = [ex_event 1 2 1 ex_queue]" "RunId 2 \<in> rn_id ` set (runs_of ex_log2)"
    by (simp_all add: run_log_def ex_log_defs ex_admissible)
  obtain page where page: "events_for_run_after ex_env (RunId 2) 0 ex_db2 = Inr page"
    "is_page [ex_event 1 2 1 ex_queue] 0 (sp_events page) (sp_next_sequence page) (sp_has_more page)"
    using events_for_run_after_spec[OF inv(1), of "RunId 2" 0] inv(2) log
    by (auto simp: ex_page_reads sql_integer_def)
  then have "sp_events page = [ex_event 1 2 1 ex_queue]" "\<not> sp_has_more page"
    by (auto simp: is_page_def Cons_eq_append_conv)
  with page(1) show ?thesis
    by (simp add: run_events_def run_events_loop.simps ex_consistent_names ex_repo_def store_repository_def shared_call_def
        read_only_def ex_others_def protocol_page_def)
qed

lemma ex_cancel_run: "cancel_run ex_repo ex_actor (CancellationRequestId 5) (RunId 2) (ex_db2, 0) =
    (Some (Inr (receipt (RunId 2) (CancellationRequestId 5) 1 CancellationRecorded)), (ex_db_stop, 5))"
proof -
  have inv: "store_inv ex_env ex_db_cancel" using ex_state_cancel by (simp add: consistent_def)
  have "store_get_run ex_env (RunId 2) ex_db_cancel = Inr (Some ex_run)"
    using store_get_run_log[OF inv, of "RunId 2"] ex_state_cancel by (simp add: ex_log_defs ex_admissible)
  then have again: "get_run ex_repo (RunId 2) (ex_db_cancel, n) = (Inr ex_run, (ex_db_cancel, Suc n))" for n
    by (simp add: get_run_def try_repo_def ex_repo_def store_repository_def shared_call_def read_only_def ex_others_def)
  have events: "runtime_event ex_actor (SessionId 1) (Some (RunId 2)) (Some (EventId 1))
      (CancellationEvent \<lparr>cq_cancellation_request_id = CancellationRequestId 5, cq_cancellation_generation = 1\<rparr>) = ex_cancel"
    "runtime_event ex_actor (SessionId 1) (Some (RunId 2)) (Some (EventId 2)) (RunStateChanged Queued RunCancelled) = ex_stop"
    by (simp_all add: ex_cancel_def ex_stop_def ex_new_def ex_cancellation_def)
  have append: "rp_append_event ex_repo ex_cancel (ex_db2, n) = (Inr (ex_event 2 3 2 ex_cancel), (ex_db_cancel, Suc n))"
    "rp_append_event ex_repo ex_stop (ex_db_cancel, n) = (Inr (ex_event 3 4 3 ex_stop), (ex_db_stop, Suc n))" for n
    using ex_state_cancel ex_state_stop by (simp_all add: ex_repo_def store_repository_def shared_call_def ex_others_def)
  have finish: "finish_inactive_cancellation ex_repo ex_actor ex_run (EventId 2) (ex_db_cancel, n) = (Inr (), (ex_db_stop, Suc (Suc n)))" for n
    by (simp add: finish_inactive_cancellation_def try_call_def ex_consistent_names again events append del: One_nat_def)
  have none: "latest_cancellation [ex_event 1 2 1 ex_queue] = None" "\<not> is_terminal Queued"
    by (simp_all add: latest_cancellation_def ex_queue_def is_terminal_def)
  have attempt: "cancellation_attempt ex_repo ex_actor (RunId 2) (CancellationRequestId 5) ex_run [ex_event 1 2 1 ex_queue] (ex_db2, n) =
      (AttemptReturns (Inr (receipt (RunId 2) (CancellationRequestId 5) 1 CancellationRecorded)), (ex_db_stop, Suc (Suc (Suc n))))" for n
    by (simp add: cancellation_attempt_def ex_consistent_names none events append finish del: One_nat_def)
  have attempts: "MAX_CANCELLATION_APPEND_ATTEMPTS = Suc 7" "Suc (Suc (Suc (Suc (Suc 0)))) = 5"
    by (simp_all add: MAX_CANCELLATION_APPEND_ATTEMPTS_def)
  show ?thesis
    unfolding cancel_run_def attempts(1) cancel_attempts.simps ex_repo_get_run prod.case sum.case ex_replay attempt
      attempt_result.case attempts(2) ..
qed

section \<open>An artifact\<close>

definition ex_sha256 :: "u8 list \<Rightarrow> u8 list" where
  "ex_sha256 bytes = replicate 31 0 @ [of_nat (length bytes)]"

lemma ex_put: "put_artifact_at ex_sha256 None None None [1, 2, 3] ''text/plain'' Map.empty =
  (Inr \<lparr>art_sha256 = sha256_hex ex_sha256 [1, 2, 3], art_size_bytes = 3, art_media_type = ''text/plain''\<rparr>,
   [sha256_hex ex_sha256 [1, 2, 3] \<mapsto> [1, 2, 3]])"
proof -
  let ?artifact = "\<lparr>art_sha256 = sha256_hex ex_sha256 [1, 2, 3], art_size_bytes = 3, art_media_type = ''text/plain''\<rparr>"
  have "valid_sha256 (sha256_hex ex_sha256 [1, 2, 3])"
    unfolding sha256_hex_def by (rule encode_digest_valid) (simp add: ex_sha256_def)
  moreover have "read_verified_artifact ex_sha256 None [sha256_hex ex_sha256 [1, 2, 3] \<mapsto> [1, 2, 3]]
      (sha256_hex ex_sha256 [1, 2, 3]) ?artifact = Inr [1, 2, 3]"
    by (rule read_verified_complete) (simp_all add: MAX_ARTIFACT_BYTES_def)
  ultimately show ?thesis
    by (simp add: put_artifact_at_def u64_of_len_def MAX_ARTIFACT_BYTES_def artifact_path_at_def Let_def)
qed

end
