(* ===== verification/Store_Properties.thy ===== *)
theory Store_Properties
  imports Example_Store
begin

text \<open>
  The properties of run specifications, the event store, the local runtime and the artifact client,
  each with an instance on the concrete store of \<open>Example_Store\<close>.
\<close>

section \<open>Run specifications\<close>

text \<open>
  The checks of a new run decide the declarative specification of its purpose: a request passes
  the match on purpose and acceptance contract and the check of its purpose exactly when its
  specification is valid (backend, inputs, and limits within the closed bounds of the purpose).
\<close>

theorem run_spec_checks_exact:
  "contract_consistent (rs_purpose (rq_spec request)) (rs_plan_acceptance (rq_spec request))
     \<and> validate_run_spec request = Inr () \<longleftrightarrow> valid_run_spec (rq_spec request)"
  by (rule validate_run_spec_iff)

section \<open>The event store\<close>

text \<open>
  In every state that the operations of a newly opened store reach, the log is valid
  (identifiers are unique, each session is numbered from one without gaps, parents precede their children,
  creations are fresh and state changes legal), the tables of sessions and runs are what the log
  created, and a query for a run that SQLite answers returns the created run in the state that the log gives it.
\<close>

theorem store_tables_follow_log:
  assumes "store_opened env db0" "(store_step env)\<^sup>*\<^sup>* db0 db"
  shows "valid_log (event_log env db) \<and> db_sessions db = sessions_of (event_log env db)
    \<and> db_runs db = runs_of (event_log env db)
    \<and> store_get_run env r db = query_row env (RunQuery r) db (map_option (\<lambda>run. run\<lparr>rn_state := the (run_state (event_log env db) r)\<rparr>)
        (List.find (\<lambda>run. rn_id run = r) (runs_of (event_log env db))))"
proof -
  have "store_inv env db" using store.inv_reachable[OF assms] by (simp add: consistent_def)
  then show ?thesis using inv_tables(1-3) store_get_run_log by blast
qed

theorem store_tables_follow_log_witness:
  "valid_log (event_log ex_env ex_db4)
    \<and> store_get_run ex_env (RunId 2) ex_db4 = Inr (Some (ex_run\<lparr>rn_state := RunCompleted\<rparr>))"
  using store_tables_follow_log[OF ex_opened ex_reachable(4), of "RunId 2"] ex_state4
  by (simp add: ex_log_defs ex_admissible)

text \<open>
  C9. Every operation refines the log: in a reachable store it leaves the log as it is or appends one
  event, and that event is admissible after the log so far.  Nothing is ever removed or changed.
\<close>

theorem store_refines_log:
  assumes "store_opened env db0" "(store_step env)\<^sup>*\<^sup>* db0 db" "store_step env db db'"
  shows "event_log env db' = event_log env db
    \<or> (\<exists>e. admissible (event_log env db) e \<and> event_log env db' = event_log env db @ [e])"
  using store_step_outcome[OF store.inv_reachable[OF assms(1,2)] assms(3)]
  by (auto simp: unchanged_def appends_def)

theorem store_refines_log_witness:
  "event_log ex_env ex_db3 = event_log ex_env ex_db2
    \<or> (\<exists>e. admissible (event_log ex_env ex_db2) e \<and> event_log ex_env ex_db3 = event_log ex_env ex_db2 @ [e])"
  by (rule store_refines_log[OF ex_opened ex_reachable(2) ex_steps(3)])

text \<open>
  C35. An append succeeds exactly when it should: the event is not one that only the store may write, it is
  no creation, its envelope with the next number of its session is admissible after the log, no
  check of its artifacts or of its payload refuses it, its text fits the inline limit, and SQLite commits.
\<close>

theorem append_admission_exact:
  assumes "store_opened env db0" "(store_step env)\<^sup>*\<^sup>* db0 db"
  shows "append_event env event db = (Inr e, db') \<longleftrightarrow>
    \<not> sv_store_owned env event \<and> \<not> is_creation (ne_payload event)
    \<and> e = next_envelope env db (sv_event_id env (db_drawn db)) event
    \<and> admissible (event_log env db) e \<and> \<not> refused env (draw db) e
    \<and> (\<exists>json. encode_inline_event env e = Inr json \<and> db' = extended env e json (draw db) \<and> sv_sqlite env db' = None)"
  by (rule append_event_iff[OF store.inv_reachable[OF assms]])

theorem append_admission_exact_witness:
  "append_event ex_env ex_start ex_db2 = (Inr (ex_event 2 3 2 ex_start), ex_db3)
    \<and> admissible (event_log ex_env ex_db2) (ex_event 2 3 2 ex_start)
    \<and> (\<forall>e db'. append_event ex_env ex_queue ex_db2 \<noteq> (Inr e, db'))"
proof -
  have "append_event ex_env ex_start ex_db2 = (Inr (ex_event 2 3 2 ex_start), ex_db3)"
    using ex_state3 by (simp add: ex_db3_def prod_eq_iff)
  moreover from this have "admissible (event_log ex_env ex_db2) (ex_event 2 3 2 ex_start)"
    using append_admission_exact[OF ex_opened ex_reachable(2)] by blast
  moreover have "append_event ex_env ex_queue ex_db2 \<noteq> (Inr e, db')" for e db'
    using append_admission_exact[OF ex_opened ex_reachable(2), of ex_queue e db'] by (simp add: ex_news)
  ultimately show ?thesis by blast
qed

text \<open>
  C36. A terminal run is final: once a query returns a run as completed, failed or cancelled, it returns the
  same run after any further operations, or fails as SQLite fails the query.
\<close>

theorem terminal_runs_are_final:
  assumes "store_opened env db0" "(store_step env)\<^sup>*\<^sup>* db0 db" "(store_step env)\<^sup>*\<^sup>* db db'"
    "store_get_run env r db = Inr (Some run)" "terminal_state (rn_state run)"
  shows "store_get_run env r db' =
    (case sv_fetch env (RunQuery r) db' 0 of Some error \<Rightarrow> Inl error | None \<Rightarrow> Inr (Some run))"
  using terminal_get_run[OF store.inv_reachable[OF assms(1,2)] assms(3-5)] by (simp only: query_row_def)

theorem terminal_runs_are_final_witness:
  "store_get_run ex_env (RunId 2) (snd (append_event ex_env ex_start ex_db4)) = Inr (Some (ex_run\<lparr>rn_state := RunCompleted\<rparr>))"
proof -
  let ?run = "ex_run\<lparr>rn_state := RunCompleted\<rparr>"
  have later: "(store_step ex_env)\<^sup>*\<^sup>* ex_db4 (snd (append_event ex_env ex_start ex_db4))"
    by (rule r_into_rtranclp, rule step_append, rule prod.collapse[symmetric])
  have found: "store_get_run ex_env (RunId 2) ex_db4 = Inr (Some ?run)"
    using store_get_run_log[of ex_env ex_db4 "RunId 2"] ex_state4 by (simp add: consistent_def ex_log_defs ex_admissible)
  have "terminal_state (rn_state ?run)" by (simp add: terminal_state_def)
  note terminal_runs_are_final[OF ex_opened ex_reachable(4) later found this]
  then show ?thesis unfolding ex_env_select option.case .
qed

text \<open>
  C37. An identified append is idempotent and exclusive: after it has appended an event, and after any
  operations that follow, repeating it answers with the same event and changes nothing, and another
  event under the same identifier is a conflict, unless SQLite fails the lookup or the commit.
\<close>

theorem identified_append_idempotent:
  assumes "store_opened env db0" "(store_step env)\<^sup>*\<^sup>* db0 db"
    "append_identified_event env event_id event db = (Inr (Appended e), db1)" "(store_step env)\<^sup>*\<^sup>* db1 db2"
  shows "append_identified_event env event_id event db2 =
      ((case sv_fetch env (EventQuery event_id) db2 0 of Some error \<Rightarrow> Inl error | None \<Rightarrow>
        case sv_sqlite env db2 of Some error \<Rightarrow> Inl error | None \<Rightarrow> Inr (AlreadyPresent e)), db2)
    \<and> (other \<noteq> event \<longrightarrow> sv_store_owned env other
        \<or> append_identified_event env event_id other db2 =
          (Inl (case sv_fetch env (EventQuery event_id) db2 0 of Some error \<Rightarrow> error | None \<Rightarrow> IdentifiedEventConflict), db2))"
proof -
  have c: "consistent env db" by (rule store.inv_reachable[OF assms(1,2)])
  have c1: "consistent env db1" using store.inv_step[OF c step_append_identified[OF assms(3)]] .
  have c2: "consistent env db2" by (rule store.inv_preserved[OF assms(4) c1])
  note appended = identified_appended[OF c assms(3)]
  then have e: "e \<in> set (event_log env db2)" using steps_extend_log[OF assms(4) c1] by auto
  show ?thesis
    using identified_present[OF c2 e] identified_conflict[OF c2 e, of other] appended
    by (auto simp: commit_same split: option.splits)
qed

theorem identified_append_idempotent_witness:
  "append_identified_event ex_env (EventId 9) ex_note ex_db_note = (Inr (AlreadyPresent (ex_event 9 3 2 ex_note)), ex_db_note)
    \<and> append_identified_event ex_env (EventId 9) ex_cancel ex_db_note = (Inl IdentifiedEventConflict, ex_db_note)"
  using identified_append_idempotent[OF ex_opened ex_reachable(2) conjunct1[OF ex_note_appended] rtranclp.rtrancl_refl, of ex_cancel]
  by (simp add: ex_news)



section \<open>The runtime on the store\<close>

text \<open>
  C39. Replay of a run ends and is complete: whatever other processes do to the store between the pages, the
  loop over the pages returns all events of the run that the log holds when its last page is read, in order.
  It fails in one way only: with the error of a query of the run that SQLite failed in the state of the store
  then; the cursor always advances and always fits the integers of SQLite.
\<close>

theorem run_replay_complete:
  assumes "shared_ok env others r" "rn_id run \<in> rn_id ` set (runs_of (shared_log env r))"
    "run_events (store_repository env display others artifacts) run r = (result, r')"
  shows "prefix (shared_log env r) (shared_log env r')
    \<and> (case result of Inr events \<Rightarrow> events = run_log (shared_log env r') (rn_id run)
      | Inl e \<Rightarrow> \<exists>error. e = RepositoryFailed (repository_error display error)
          \<and> (sv_fetch env (RunSessionQuery (rn_id run)) (fst r') 0 = Some error
            \<or> (\<exists>cursor step. sv_fetch env (RunEventsQuery (rn_id run) cursor) (fst r') step = Some error)))"
  using store_run_events[OF assms] by (auto simp: replay_read_fails_def split: sum.splits)

theorem run_replay_complete_witness:
  "\<exists>r'. run_events ex_repo ex_run (ex_db2, 0) = (Inr (run_log (shared_log ex_env r') (RunId 2)), r')
    \<and> prefix (shared_log ex_env (ex_db2, 0)) (shared_log ex_env r')"
proof -
  obtain result r' where run: "run_events ex_repo ex_run (ex_db2, 0) = (result, r')" by (metis surj_pair)
  have "rn_id ex_run \<in> rn_id ` set (runs_of (shared_log ex_env (ex_db2, 0)))"
    using ex_state2 by (simp add: shared_log_def ex_log_defs ex_admissible)
  from run_replay_complete[OF ex_shared_ok(2) this run[unfolded ex_repo_def]] run show ?thesis
    by (intro exI[of _ r']) (cases result; simp add: ex_consistent_names)
qed

text \<open>
  C40. Cancellation returns a receipt or an error, it never falls out of its bounded retry loop, and a receipt
  is true: \<open>RunAlreadyTerminal\<close> means that the run is terminal, the other two that the named request is retained in
  the log of the run and that at some moment of the call the run is neither queued nor waiting; a recorded
  request is the one of this call.  Other processes may change the store at any time.
\<close>

theorem cancellation_receipts_true:
  assumes "shared_ok env others r"
    "cancel_run (store_repository env display others artifacts) actor_id request_id run_id r = (result, r')"
  shows "result \<noteq> None \<and> prefix (shared_log env r) (shared_log env r')
    \<and> (\<forall>rc. result = Some (Inr rc) \<longrightarrow> cancellation_outcome (shared_log env r) (shared_log env r') run_id request_id rc)"
  using store_repo.cancel_attempts_spec[OF assms(1) assms(2)[unfolded cancel_run_def], unfolded store_repo.later_def]
    cancel_attempts_return[of MAX_CANCELLATION_APPEND_ATTEMPTS "store_repository env display others artifacts" actor_id
      run_id request_id r] assms(2)
  by (simp add: cancel_run_def MAX_CANCELLATION_APPEND_ATTEMPTS_def)

theorem cancellation_receipts_true_witness:
  "cancel_run ex_repo ex_actor (CancellationRequestId 5) (RunId 2) (ex_db2, 0) =
     (Some (Inr (receipt (RunId 2) (CancellationRequestId 5) 1 CancellationRecorded)), (ex_db_stop, 5))
   \<and> cancellation_outcome (shared_log ex_env (ex_db2, 0)) (shared_log ex_env (ex_db_stop, 5)) (RunId 2)
       (CancellationRequestId 5) (receipt (RunId 2) (CancellationRequestId 5) 1 CancellationRecorded)"
  using cancellation_receipts_true[OF ex_shared_ok(2) ex_cancel_run[unfolded ex_repo_def]] ex_cancel_run by simp

text \<open>
  Creation of runs is checked and idempotent: a successful creation has a valid specification and returns
  a run with the requested name and specification; creating a run under the same name later either fails
  for another reason, or returns that run for the same specification and a conflict for any other.
\<close>

theorem run_creation_idempotent:
  assumes "shared_ok env others r" "create_run (store_repository env display others artifacts) actor_id now request r = (Inr run, r1)"
    "shared_ok env others r2" "prefix (shared_log env r1) (shared_log env r2)"
    "create_run (store_repository env display others artifacts) actor_id' now' request' r2 = (result, r3)"
    "rq_run_id request' = rq_run_id request"
  shows "valid_run_spec (rq_spec request) \<and> rn_id run = rq_run_id request \<and> rn_spec run = rq_spec request
    \<and> ((\<exists>e. result = Inl e \<and> (\<forall>i. e \<noteq> RunConflict i))
      \<or> (if rq_spec request' = rq_spec request
         then (\<exists>again. result = Inr again \<and> rn_id again = rn_id run \<and> rn_spec again = rn_spec run
           \<and> rn_created_at again = rn_created_at run)
         else result = Inl (RunConflict (rq_run_id request))))"
proof -
  have created: "valid_run_spec (rq_spec request)"
    "store_repo.created_as env r1 (rq_run_id request) (rq_spec request) run"
    using store_repo.create_run_spec[OF assms(1,2)] by simp_all
  then obtain c where c: "c \<in> set (runs_of (shared_log env r1))" "rn_id c = rq_run_id request" "rn_spec c = rq_spec request"
    "rn_created_at c = rn_created_at run" and run: "rn_id run = rq_run_id request" "rn_spec run = rq_spec request"
    by (auto simp: store_repo.created_as_def)
  have "c \<in> set (runs_of (shared_log env r2))"
    using c(1) assms(4) by (auto simp: prefix_def runs_of_def)
  from store_repo.create_run_again[OF assms(3) this _ assms(5)] c assms(6) run created(1)
  show ?thesis by (auto split: if_splits)
qed

theorem run_creation_idempotent_witness:
  "create_run ex_repo ex_actor 1 ex_request (ex_db1, 0) = (Inr ex_run, (ex_db2, 3))
   \<and> create_run ex_repo ex_actor 9 ex_request (ex_db2, 3) = (Inr ex_run, (ex_db2, 5))
   \<and> valid_run_spec ex_spec \<and> rn_id ex_run = RunId 2 \<and> rn_spec ex_run = ex_spec"
  using run_creation_idempotent[OF ex_shared_ok(1) ex_create_run[unfolded ex_repo_def] ex_shared_ok(2) _
      ex_create_again[unfolded ex_repo_def]] ex_create_run ex_create_again
  by (simp add: ex_consistent_names)

section \<open>Artifacts\<close>

text \<open>
  C30. Artifacts survive the round trip: bytes that the store accepts as a new artifact, of a size that the client
  allows, come back to the command line client over bounded pages unchanged.  And whatever source answers, what
  the client accepts for this reference has the length and the digest of these bytes.
\<close>

theorem artifact_round_trip:
  assumes "put_artifact_at sha256 f1 f2 f3 bytes media_type files = (Inr artifact, files')"
    "files (sha256_hex sha256 bytes) = None" "length bytes \<le> 16777216"
  shows "(\<exists>r'. fetch_verified_artifact sha256 artifact (cli_reader display (runtime_exchange
      (store_repository env disp others (store_get_artifact sha256 None files')) describe shown)) r = (Inr bytes, r'))
    \<and> (fetch_verified_artifact sha256 artifact read s = (Inr received, s') \<longrightarrow>
        length received = length bytes \<and> sha256_hex sha256 received = sha256_hex sha256 bytes)"
proof -
  have get: "store_get_artifact sha256 None files' artifact = Inr bytes" by (rule put_then_get[OF assms(1,2)])
  note sound = store_get_sound[OF get]
  have "art_size_bytes artifact \<le> MAX_CLI_ARTIFACT_BYTES"
    using sound(3) assms(3) by (simp add: word_le_nat_alt MAX_CLI_ARTIFACT_BYTES_def)
  with store_pages.fetch_exact[OF get sound(4)] fetch_sound[of sha256 artifact read s received s'] sound(3,4)
  show ?thesis by auto
qed

theorem artifact_round_trip_witness:
  "\<exists>r'. fetch_verified_artifact ex_sha256
      \<lparr>art_sha256 = sha256_hex ex_sha256 [1, 2, 3], art_size_bytes = 3, art_media_type = ''text/plain''\<rparr>
      (cli_reader (\<lambda>_. []) (runtime_exchange
        (store_repository ex_env (\<lambda>_. []) ex_others
          (store_get_artifact ex_sha256 None [sha256_hex ex_sha256 [1, 2, 3] \<mapsto> [1, 2, 3]])) (\<lambda>_. []) (\<lambda>_. []))) (ex_db2, 0)
    = (Inr [1, 2, 3], r')"
  by (rule conjunct1[OF artifact_round_trip[OF ex_put]]) simp_all

end
