(* ===== verification/Backend_Contract.thy ===== *)
theory Backend_Contract
  imports Rust_Text
begin

text \<open>
  The provider-neutral contract of \<open>crates/backends/src/contract.rs\<close>: identities of backends,
  endpoints and deployments, the content-addressed \<open>BackendInstanceIdentity\<close>, structured inference
  requests, responses and errors.

  The URL parser (crate \<open>url\<close>), SHA-256 and the JSON serializer are third-party code; they are the
  fields of the record \<open>backend_env\<close>, an argument of every operation that uses them.  The record
  \<open>Url\<close> lists what the source reads of a parsed URL.
\<close>

section \<open>Third-party code\<close>

datatype json_value =
    JNull | JBool bool | JNumber string | JString string
  | JArray "json_value list" | JObject "(string \<times> json_value) list"

record Url =
  url_scheme :: string
  url_host_str :: "string option"
  url_username :: string
  url_password :: "string option"
  url_query :: "string option"
  url_fragment :: "string option"
  url_path :: string
  url_origin_ascii :: string

section \<open>Identities\<close>

definition BACKEND_INSTANCE_IDENTITY_SCHEMA_VERSION :: u32 where
  "BACKEND_INSTANCE_IDENTITY_SCHEMA_VERSION = 1"

definition BACKEND_INSTANCE_IDENTITY_DOMAIN :: string where
  "BACKEND_INSTANCE_IDENTITY_DOMAIN = ''birdcode.backend-instance-identity.v1''"

definition MAX_BACKEND_DEPLOYMENT_ID_BYTES :: nat where
  "MAX_BACKEND_DEPLOYMENT_ID_BYTES = 512"

definition MAX_BACKEND_ORIGIN_BYTES :: nat where
  "MAX_BACKEND_ORIGIN_BYTES = 2048"

type_synonym BackendId = string
type_synonym ModelId = string
type_synonym BackendDeploymentId = string
type_synonym BackendEndpointOrigin = string
type_synonym BackendInstanceDigest = string

datatype BackendTransportIdentity = HttpOrigin BackendEndpointOrigin

record BackendInstanceIdentity =
  bi_schema_version :: u32
  bi_backend_id :: BackendId
  bi_transport :: BackendTransportIdentity
  bi_configured_deployment_id :: BackendDeploymentId
  bi_identity_sha256 :: BackendInstanceDigest

datatype BackendInstanceIdentityError =
    EmptyDeploymentId | DeploymentIdTooLong nat | UnsupportedOriginScheme | MissingOriginHost
  | OriginContainsUserInfo | InvalidCanonicalOrigin | InvalidInstanceDigest
  | UnsupportedIdentitySchemaVersion u32 | IdentityDigestMismatch | IdentityEncoding string

datatype ContractError =
    EmptyIdentifier string | IdentifierTooLong string nat | InvalidSchemaName | NoMessages
  | ContractZeroOutputTokens

record backend_env =
  be_sha256 :: "u8 list \<Rightarrow> u8 list"
  be_url_parse :: "string \<Rightarrow> Url option"
  be_json_parse :: "string \<Rightarrow> json_value option"
  be_identity_json ::
    "string \<Rightarrow> u32 \<Rightarrow> BackendId \<Rightarrow> BackendTransportIdentity \<Rightarrow> BackendDeploymentId \<Rightarrow> string + u8 list"

definition backend_id_new :: "string \<Rightarrow> ContractError + BackendId" where
  "backend_id_new value =
     (if value = [] then Inl (EmptyIdentifier ''backend_id'') else Inr value)"

definition deployment_id_new :: "string \<Rightarrow> BackendInstanceIdentityError + BackendDeploymentId" where
  "deployment_id_new value =
     (if value = [] then Inl EmptyDeploymentId
      else if length value > MAX_BACKEND_DEPLOYMENT_ID_BYTES
        then Inl (DeploymentIdTooLong MAX_BACKEND_DEPLOYMENT_ID_BYTES)
      else Inr value)"

section \<open>Endpoint origins\<close>

definition from_http_url :: "Url \<Rightarrow> BackendInstanceIdentityError + BackendEndpointOrigin" where
  "from_http_url url =
     (if url_scheme url \<notin> {''http'', ''https''} then Inl UnsupportedOriginScheme
      else if url_host_str url = None then Inl MissingOriginHost
      else if url_username url \<noteq> [] \<or> url_password url \<noteq> None then Inl OriginContainsUserInfo
      else (let value = url_origin_ascii url in
        if value = ''null'' \<or> length value > MAX_BACKEND_ORIGIN_BYTES then Inl InvalidCanonicalOrigin
        else Inr value))"

definition origin_parse ::
  "('a) backend_env_scheme \<Rightarrow> string \<Rightarrow> BackendInstanceIdentityError + BackendEndpointOrigin" where
  "origin_parse env value =
     (case be_url_parse env value of
        None \<Rightarrow> Inl InvalidCanonicalOrigin
      | Some url \<Rightarrow>
          if url_query url \<noteq> None \<or> url_fragment url \<noteq> None \<or> url_path url \<notin> {'''', ''/''}
            then Inl InvalidCanonicalOrigin
          else (case from_http_url url of
              Inl e \<Rightarrow> Inl e
            | Inr canonical \<Rightarrow>
                if canonical = value then Inr canonical else Inl InvalidCanonicalOrigin))"

definition matches_endpoint ::
  "('a) backend_env_scheme \<Rightarrow> BackendEndpointOrigin \<Rightarrow> string \<Rightarrow> bool" where
  "matches_endpoint env self endpoint =
     (case be_url_parse env endpoint of
        None \<Rightarrow> False
      | Some url \<Rightarrow>
          url_username url = [] \<and> url_password url = None \<and> from_http_url url = Inr self)"

section \<open>Instance identities\<close>

definition encode_sha256 :: "('a) backend_env_scheme \<Rightarrow> u8 list \<Rightarrow> string" where
  "encode_sha256 env bytes = encode_digest (be_sha256 env bytes)"

definition instance_digest_parse :: "string \<Rightarrow> BackendInstanceIdentityError + BackendInstanceDigest" where
  "instance_digest_parse value =
     (if valid_sha256 value then Inr value else Inl InvalidInstanceDigest)"

definition build_identity ::
  "('a) backend_env_scheme \<Rightarrow> BackendId \<Rightarrow> BackendTransportIdentity \<Rightarrow> BackendDeploymentId
     \<Rightarrow> BackendInstanceIdentityError + BackendInstanceIdentity" where
  "build_identity env backend_id transport deployment =
     (case be_identity_json env BACKEND_INSTANCE_IDENTITY_DOMAIN
             BACKEND_INSTANCE_IDENTITY_SCHEMA_VERSION backend_id transport deployment of
        Inl e \<Rightarrow> Inl (IdentityEncoding e)
      | Inr encoded \<Rightarrow> Inr
          \<lparr>bi_schema_version = BACKEND_INSTANCE_IDENTITY_SCHEMA_VERSION,
           bi_backend_id = backend_id, bi_transport = transport,
           bi_configured_deployment_id = deployment,
           bi_identity_sha256 = encode_sha256 env encoded\<rparr>)"

definition for_http_origin ::
  "('a) backend_env_scheme \<Rightarrow> BackendId \<Rightarrow> BackendDeploymentId \<Rightarrow> Url
     \<Rightarrow> BackendInstanceIdentityError + BackendInstanceIdentity" where
  "for_http_origin env backend_id deployment url =
     (case from_http_url url of
        Inl e \<Rightarrow> Inl e
      | Inr origin \<Rightarrow> build_identity env backend_id (HttpOrigin origin) deployment)"

definition endpoint_origin :: "BackendInstanceIdentity \<Rightarrow> BackendEndpointOrigin" where
  "endpoint_origin self = (case bi_transport self of HttpOrigin origin \<Rightarrow> origin)"

definition identity_validate_integrity ::
  "('a) backend_env_scheme \<Rightarrow> BackendInstanceIdentity \<Rightarrow> BackendInstanceIdentityError + unit" where
  "identity_validate_integrity env self =
     (if bi_schema_version self \<noteq> BACKEND_INSTANCE_IDENTITY_SCHEMA_VERSION
        then Inl (UnsupportedIdentitySchemaVersion (bi_schema_version self))
      else case build_identity env (bi_backend_id self) (bi_transport self)
                  (bi_configured_deployment_id self) of
          Inl e \<Rightarrow> Inl e
        | Inr expected \<Rightarrow>
            if bi_identity_sha256 expected = bi_identity_sha256 self then Inr ()
            else Inl IdentityDigestMismatch)"

text \<open>Reading an identity from the wire rebuilds it and compares the digest.\<close>

definition identity_deserialize ::
  "('a) backend_env_scheme \<Rightarrow> BackendInstanceIdentity
     \<Rightarrow> BackendInstanceIdentityError + BackendInstanceIdentity" where
  "identity_deserialize env repr =
     (if bi_schema_version repr \<noteq> BACKEND_INSTANCE_IDENTITY_SCHEMA_VERSION
        then Inl (UnsupportedIdentitySchemaVersion (bi_schema_version repr))
      else case build_identity env (bi_backend_id repr) (bi_transport repr)
                  (bi_configured_deployment_id repr) of
          Inl e \<Rightarrow> Inl e
        | Inr expected \<Rightarrow>
            if bi_identity_sha256 expected \<noteq> bi_identity_sha256 repr then Inl IdentityDigestMismatch
            else Inr expected)"

section \<open>Requests and results\<close>

datatype BackendMessageRole = RoleSystem | RoleDeveloper | RoleUser | RoleAssistant

record Message =
  msg_role :: BackendMessageRole
  msg_content :: string

record StructuredOutputSpec =
  so_name :: string
  so_validation_schema :: json_value
  so_generation_schema :: "json_value option"

datatype ReasoningSetting = ReasoningOff | ReasoningOn | ReasoningLow | ReasoningMedium | ReasoningHigh

record StructuredInferenceRequest =
  sq_model_id :: ModelId
  sq_messages :: "Message list"
  sq_output :: StructuredOutputSpec
  sq_max_output_tokens :: u32
  sq_reasoning :: "ReasoningSetting option"

record TokenUsage =
  tu_input_tokens :: "u64 option"
  tu_output_tokens :: "u64 option"
  tu_total_tokens :: "u64 option"

record InferenceEvidence =
  ie_backend_id :: BackendId
  ie_backend_instance :: "BackendInstanceIdentity option"
  ie_endpoint :: string
  ie_status :: "16 word"
  ie_completion_id :: "string option"
  ie_response_body_sha256 :: "string option"
  ie_raw_response :: json_value

record StructuredInferenceResponse =
  sr_model_id :: ModelId
  sr_value :: json_value
  sr_raw_text :: string
  sr_finish_reason :: "string option"
  sr_usage :: "TokenUsage option"
  sr_evidence :: InferenceEvidence

datatype BackendOperation = Configure | DiscoverOpenAiModels | DiscoverNativeModels | StructuredInference

datatype BackendErrorKind =
    InvalidConfiguration | BackendInvalidRequest | BackendUnsupported | InvalidSchema
  | BackendTransport | BackendTimeout | RequestTooLarge | ResponseTooLarge | HttpStatus
  | MalformedResponse | ResponseContractViolation | SchemaViolation | IncompleteResponse

record BackendErrorEvidence =
  bee_endpoint :: "string option"
  bee_status :: "16 word option"
  bee_response_body_sha256 :: "string option"
  bee_raw_response :: "json_value option"
  bee_response_preview :: "string option"

record BackendError =
  bx_backend_id :: BackendId
  bx_backend_instance :: "BackendInstanceIdentity option"
  bx_operation :: BackendOperation
  bx_kind :: BackendErrorKind
  bx_message :: string
  bx_evidence :: "BackendErrorEvidence option"

definition is_ascii_alphanumeric :: "char \<Rightarrow> bool" where
  "is_ascii_alphanumeric c =
     (is_ascii_digit c \<or> (65 \<le> byte c \<and> byte c \<le> 90) \<or> (97 \<le> byte c \<and> byte c \<le> 122))"

definition build_output_spec ::
  "string \<Rightarrow> json_value \<Rightarrow> json_value option \<Rightarrow> ContractError + StructuredOutputSpec" where
  "build_output_spec name validation_schema generation_schema =
     (if name = [] then Inl (EmptyIdentifier ''output_schema_name'')
      else if length name > 64 then Inl (IdentifierTooLong ''output_schema_name'' 64)
      else if \<not> list_all (\<lambda>c. is_ascii_alphanumeric c \<or> c = CHR ''_'' \<or> c = CHR ''-'') name
        then Inl InvalidSchemaName
      else Inr \<lparr>so_name = name, so_validation_schema = validation_schema,
                so_generation_schema = generation_schema\<rparr>)"

definition output_spec_generation_schema :: "StructuredOutputSpec \<Rightarrow> json_value" where
  "output_spec_generation_schema self =
     (case so_generation_schema self of Some s \<Rightarrow> s | None \<Rightarrow> so_validation_schema self)"

definition inference_request_new ::
  "ModelId \<Rightarrow> Message list \<Rightarrow> StructuredOutputSpec \<Rightarrow> u32 \<Rightarrow> ContractError + StructuredInferenceRequest" where
  "inference_request_new model_id messages output max_output_tokens =
     (if messages = [] then Inl NoMessages
      else if max_output_tokens = 0 then Inl ContractZeroOutputTokens
      else Inr \<lparr>sq_model_id = model_id, sq_messages = messages, sq_output = output,
                sq_max_output_tokens = max_output_tokens, sq_reasoning = None\<rparr>)"

definition with_reasoning ::
  "ReasoningSetting \<Rightarrow> StructuredInferenceRequest \<Rightarrow> StructuredInferenceRequest" where
  "with_reasoning reasoning self = self\<lparr>sq_reasoning := Some reasoning\<rparr>"

definition matches_response_evidence ::
  "('a) backend_env_scheme \<Rightarrow> BackendInstanceIdentity \<Rightarrow> InferenceEvidence \<Rightarrow> bool" where
  "matches_response_evidence env self evidence =
     (ie_backend_id evidence = bi_backend_id self
      \<and> ie_backend_instance evidence = Some self
      \<and> matches_endpoint env (endpoint_origin self) (ie_endpoint evidence))"

section \<open>Laws\<close>

text \<open>Integrity says that an identity is the one the constructor builds from its parts.\<close>

lemma identity_integrity_iff:
  "identity_validate_integrity env self = Inr () \<longleftrightarrow>
     build_identity env (bi_backend_id self) (bi_transport self)
       (bi_configured_deployment_id self) = Inr self"
  by (cases self)
    (auto simp: identity_validate_integrity_def build_identity_def split: sum.splits)

lemma build_identity_parts:
  "build_identity env b t d = Inr self \<Longrightarrow>
     bi_backend_id self = b \<and> bi_transport self = t \<and> bi_configured_deployment_id self = d"
  by (auto simp: build_identity_def split: sum.splits)

lemma built_identity_integrity:
  "build_identity env b t d = Inr self \<Longrightarrow> identity_validate_integrity env self = Inr ()"
  using build_identity_parts by (fastforce simp: identity_integrity_iff)

lemma identity_deserialize_iff:
  "identity_deserialize env repr = Inr self \<longleftrightarrow>
     self = repr \<and> identity_validate_integrity env repr = Inr ()"
  by (cases repr)
    (auto simp: identity_deserialize_def identity_validate_integrity_def build_identity_def
      split: sum.splits if_splits)

lemma for_http_origin_matches:
  assumes "for_http_origin env b d url = Inr self"
  shows "from_http_url url = Inr (endpoint_origin self)"
  using assms by (auto simp: for_http_origin_def build_identity_def endpoint_origin_def split: sum.splits)

lemma from_http_url_no_userinfo:
  assumes "from_http_url url = Inr origin"
  shows "url_username url = []" "url_password url = None"
  using assms by (simp_all add: from_http_url_def Let_def split: if_split_asm)

text \<open>An endpoint matches exactly when its own URL derives the origin.\<close>

lemma matches_endpoint_iff:
  "matches_endpoint env origin endpoint \<longleftrightarrow>
     (\<exists>url. be_url_parse env endpoint = Some url \<and> from_http_url url = Inr origin)"
  by (auto simp: matches_endpoint_def from_http_url_no_userinfo split: option.splits)

end
