(* ===== verification/Planner_Model.thy ===== *)
theory Planner_Model
  imports Backend_Contract
begin

text \<open>
  The data of the bounded planning protocol, \<open>crates/orchestrator/src/planner.rs\<close>: identifiers, the
  protected catalogs of obligations and evidence, the policy, plans and their patches, directives,
  proposals, and the violations that validation collects.

  A UUID is a 128-bit word.  Ordered sets and maps are lists in key order, as in the theory
  \<open>Prelude\<close>; a digest and an evidence identity are their text.  Constructors that another theory
  of the development already uses carry the prefix \<open>Plan\<close>, \<open>Work\<close>, \<open>Access\<close> or \<open>Directive\<close>.
\<close>

section \<open>Limits\<close>

definition PLAN_SCHEMA_VERSION :: u32 where
  "PLAN_SCHEMA_VERSION = 1"

definition PLAN_HARD_MAX_WORK_ORDERS :: nat where
  "PLAN_HARD_MAX_WORK_ORDERS = 256"

definition HARD_MAX_VERIFICATION_TARGETS :: nat where
  "HARD_MAX_VERIFICATION_TARGETS = 512"

definition HARD_MAX_PATCH_OPERATIONS :: nat where
  "HARD_MAX_PATCH_OPERATIONS = 512"

definition PLAN_HARD_MAX_DEPENDENCIES :: nat where
  "PLAN_HARD_MAX_DEPENDENCIES = 64"

definition HARD_MAX_DELEGATIONS :: nat where
  "HARD_MAX_DELEGATIONS = 64"

definition HARD_MAX_QUESTIONS :: nat where
  "HARD_MAX_QUESTIONS = 16"

definition HARD_MAX_ESCALATIONS :: nat where
  "HARD_MAX_ESCALATIONS = 16"

definition HARD_MAX_FINISH_CLAIMS :: nat where
  "HARD_MAX_FINISH_CLAIMS = 4096"

definition HARD_MAX_OBLIGATIONS :: nat where
  "HARD_MAX_OBLIGATIONS = 4096"

definition HARD_MAX_CONTEXT_EVIDENCE_IDS :: nat where
  "HARD_MAX_CONTEXT_EVIDENCE_IDS = 4096"

definition HARD_MAX_TEXT_BYTES :: nat where
  "HARD_MAX_TEXT_BYTES = 2 * 1024 * 1024"

definition HARD_MAX_OBLIGATION_CATALOG_ENCODED_BYTES :: nat where
  "HARD_MAX_OBLIGATION_CATALOG_ENCODED_BYTES = 4 * 1024 * 1024"

definition HARD_MAX_CONTEXT_MANIFEST_ENCODED_BYTES :: nat where
  "HARD_MAX_CONTEXT_MANIFEST_ENCODED_BYTES = 2 * 1024 * 1024"

definition HARD_MAX_DIRECTIVE_ENCODED_BYTES :: nat where
  "HARD_MAX_DIRECTIVE_ENCODED_BYTES = 4 * 1024 * 1024"

definition HARD_MAX_ACTIVE_JOURNAL_RECORDS :: nat where
  "HARD_MAX_ACTIVE_JOURNAL_RECORDS = 4096"

definition MAX_FIELD_BYTES :: nat where
  "MAX_FIELD_BYTES = 64 * 1024"

definition MAX_EVIDENCE_PER_BASIS :: nat where
  "MAX_EVIDENCE_PER_BASIS = 64"

definition PLAN_MAX_EVIDENCE_ID_BYTES :: nat where
  "PLAN_MAX_EVIDENCE_ID_BYTES = 512"

lemmas plan_limit_defs =
  PLAN_HARD_MAX_WORK_ORDERS_def HARD_MAX_VERIFICATION_TARGETS_def HARD_MAX_PATCH_OPERATIONS_def
  PLAN_HARD_MAX_DEPENDENCIES_def HARD_MAX_DELEGATIONS_def HARD_MAX_QUESTIONS_def
  HARD_MAX_ESCALATIONS_def HARD_MAX_FINISH_CLAIMS_def HARD_MAX_OBLIGATIONS_def
  HARD_MAX_CONTEXT_EVIDENCE_IDS_def HARD_MAX_TEXT_BYTES_def
  HARD_MAX_OBLIGATION_CATALOG_ENCODED_BYTES_def HARD_MAX_CONTEXT_MANIFEST_ENCODED_BYTES_def
  HARD_MAX_DIRECTIVE_ENCODED_BYTES_def HARD_MAX_ACTIVE_JOURNAL_RECORDS_def MAX_FIELD_BYTES_def
  MAX_EVIDENCE_PER_BASIS_def PLAN_MAX_EVIDENCE_ID_BYTES_def

section \<open>Identifiers\<close>

type_synonym uuid128 = "128 word"

datatype PlanId = PlanId (plan_uuid: uuid128)
datatype PlannerExecutionId = PlannerExecutionId (planner_execution_uuid: uuid128)
datatype PlannerAttemptId = PlannerAttemptId (planner_attempt_uuid: uuid128)
datatype BudgetReservationId = BudgetReservationId (budget_reservation_uuid: uuid128)
datatype ObligationId = ObligationId (obligation_uuid: uuid128)
datatype PlanWorkOrderId = PlanWorkOrderId (plan_work_order_uuid: uuid128)
datatype VerificationTargetId = VerificationTargetId (verification_target_uuid: uuid128)
datatype LocalWorkOrderId = LocalWorkOrderId (local_work_order_number: u32)
datatype LocalVerificationTargetId = LocalVerificationTargetId (local_target_number: u32)

text \<open>The derived orders of the identifiers that are keys of ordered maps and sets.\<close>

instantiation ObligationId :: linorder
begin

definition less_eq_ObligationId :: "ObligationId \<Rightarrow> ObligationId \<Rightarrow> bool" where
  "less_eq_ObligationId a b = (obligation_uuid a \<le> obligation_uuid b)"

definition less_ObligationId :: "ObligationId \<Rightarrow> ObligationId \<Rightarrow> bool" where
  "less_ObligationId a b = (obligation_uuid a < obligation_uuid b)"

instance
  by standard (auto simp: less_eq_ObligationId_def less_ObligationId_def intro: ObligationId.expand)

end

instantiation PlanWorkOrderId :: linorder
begin

definition less_eq_PlanWorkOrderId :: "PlanWorkOrderId \<Rightarrow> PlanWorkOrderId \<Rightarrow> bool" where
  "less_eq_PlanWorkOrderId a b = (plan_work_order_uuid a \<le> plan_work_order_uuid b)"

definition less_PlanWorkOrderId :: "PlanWorkOrderId \<Rightarrow> PlanWorkOrderId \<Rightarrow> bool" where
  "less_PlanWorkOrderId a b = (plan_work_order_uuid a < plan_work_order_uuid b)"

instance
  by standard (auto simp: less_eq_PlanWorkOrderId_def less_PlanWorkOrderId_def intro: PlanWorkOrderId.expand)

end

instantiation VerificationTargetId :: linorder
begin

definition less_eq_VerificationTargetId :: "VerificationTargetId \<Rightarrow> VerificationTargetId \<Rightarrow> bool" where
  "less_eq_VerificationTargetId a b = (verification_target_uuid a \<le> verification_target_uuid b)"

definition less_VerificationTargetId :: "VerificationTargetId \<Rightarrow> VerificationTargetId \<Rightarrow> bool" where
  "less_VerificationTargetId a b = (verification_target_uuid a < verification_target_uuid b)"

instance
  by standard (auto simp: less_eq_VerificationTargetId_def less_VerificationTargetId_def intro: VerificationTargetId.expand)

end

instantiation LocalWorkOrderId :: linorder
begin

definition less_eq_LocalWorkOrderId :: "LocalWorkOrderId \<Rightarrow> LocalWorkOrderId \<Rightarrow> bool" where
  "less_eq_LocalWorkOrderId a b = (local_work_order_number a \<le> local_work_order_number b)"

definition less_LocalWorkOrderId :: "LocalWorkOrderId \<Rightarrow> LocalWorkOrderId \<Rightarrow> bool" where
  "less_LocalWorkOrderId a b = (local_work_order_number a < local_work_order_number b)"

instance
  by standard (auto simp: less_eq_LocalWorkOrderId_def less_LocalWorkOrderId_def intro: LocalWorkOrderId.expand)

end

instantiation LocalVerificationTargetId :: linorder
begin

definition less_eq_LocalVerificationTargetId :: "LocalVerificationTargetId \<Rightarrow> LocalVerificationTargetId \<Rightarrow> bool" where
  "less_eq_LocalVerificationTargetId a b = (local_target_number a \<le> local_target_number b)"

definition less_LocalVerificationTargetId :: "LocalVerificationTargetId \<Rightarrow> LocalVerificationTargetId \<Rightarrow> bool" where
  "less_LocalVerificationTargetId a b = (local_target_number a < local_target_number b)"

instance
  by standard (auto simp: less_eq_LocalVerificationTargetId_def less_LocalVerificationTargetId_def intro: LocalVerificationTargetId.expand)

end

instantiation PlannerAttemptId :: linorder
begin

definition less_eq_PlannerAttemptId :: "PlannerAttemptId \<Rightarrow> PlannerAttemptId \<Rightarrow> bool" where
  "less_eq_PlannerAttemptId a b = (planner_attempt_uuid a \<le> planner_attempt_uuid b)"

definition less_PlannerAttemptId :: "PlannerAttemptId \<Rightarrow> PlannerAttemptId \<Rightarrow> bool" where
  "less_PlannerAttemptId a b = (planner_attempt_uuid a < planner_attempt_uuid b)"

instance
  by standard (auto simp: less_eq_PlannerAttemptId_def less_PlannerAttemptId_def intro: PlannerAttemptId.expand)

end

instantiation PlannerExecutionId :: linorder
begin

definition less_eq_PlannerExecutionId :: "PlannerExecutionId \<Rightarrow> PlannerExecutionId \<Rightarrow> bool" where
  "less_eq_PlannerExecutionId a b = (planner_execution_uuid a \<le> planner_execution_uuid b)"

definition less_PlannerExecutionId :: "PlannerExecutionId \<Rightarrow> PlannerExecutionId \<Rightarrow> bool" where
  "less_PlannerExecutionId a b = (planner_execution_uuid a < planner_execution_uuid b)"

instance
  by standard (auto simp: less_eq_PlannerExecutionId_def less_PlannerExecutionId_def intro: PlannerExecutionId.expand)

end

instantiation BudgetReservationId :: linorder
begin

definition less_eq_BudgetReservationId :: "BudgetReservationId \<Rightarrow> BudgetReservationId \<Rightarrow> bool" where
  "less_eq_BudgetReservationId a b = (budget_reservation_uuid a \<le> budget_reservation_uuid b)"

definition less_BudgetReservationId :: "BudgetReservationId \<Rightarrow> BudgetReservationId \<Rightarrow> bool" where
  "less_BudgetReservationId a b = (budget_reservation_uuid a < budget_reservation_uuid b)"

instance
  by standard (auto simp: less_eq_BudgetReservationId_def less_BudgetReservationId_def intro: BudgetReservationId.expand)

end

type_synonym PlannerDigest = string
type_synonym PlannerEvidenceId = string

datatype PlannerContractError =
    InvalidDigest | InvalidEvidenceId | EmptyObligationCatalog | TooManyObligations
  | InvalidObligationStatement | InvalidObligationDigest | ObligationCatalogTooLarge
  | DuplicateObligation ObligationId | EmptyContextCatalog | TooManyContextEvidenceIds
  | ContextCatalogTooLarge | DuplicateContextEvidenceId PlannerEvidenceId
  | InvalidPolicyLimits | Encoding string

section \<open>Protected catalogs and policy\<close>

record ProtectedObligation =
  ob_id :: ObligationId
  ob_content_sha256 :: PlannerDigest
  ob_statement :: string
  ob_required :: bool

type_synonym obligation_map = "(ObligationId, ProtectedObligation) btree_map"

record ProtectedObligationCatalog =
  oc_snapshot_sha256 :: PlannerDigest
  oc_acceptance_policy_sha256 :: PlannerDigest
  oc_obligations :: obligation_map

record ProtectedObligationRef =
  obr_id :: ObligationId
  obr_content_sha256 :: PlannerDigest

record PlannerEvidenceBinding =
  eb_id :: PlannerEvidenceId
  eb_content_sha256 :: PlannerDigest

record PlannerContextCatalog =
  cc_manifest_sha256 :: PlannerDigest
  cc_evidence_bindings :: "PlannerEvidenceBinding list"

datatype PlannerAccess = AccessNone | AccessReadOnly | AccessWorkspaceWrite

text \<open>The derived order follows the order of the constructors.\<close>

fun access_rank :: "PlannerAccess \<Rightarrow> nat" where
  "access_rank AccessNone = 0"
| "access_rank AccessReadOnly = 1"
| "access_rank AccessWorkspaceWrite = 2"

record PlannerLimits =
  pl_max_work_orders :: u32
  pl_max_verification_targets :: u32
  pl_max_patch_operations :: u32
  pl_max_dependencies_per_work_order :: u32
  pl_max_delegations :: u32
  pl_max_questions :: u32
  pl_max_text_bytes :: u64

definition default_limits :: PlannerLimits where
  "default_limits =
     \<lparr>pl_max_work_orders = 32, pl_max_verification_targets = 64, pl_max_patch_operations = 64,
      pl_max_dependencies_per_work_order = 16, pl_max_delegations = 8, pl_max_questions = 3,
      pl_max_text_bytes = 256 * 1024\<rparr>"

record PlannerPolicy =
  pp_policy_sha256 :: PlannerDigest
  pp_maximum_access :: PlannerAccess
  pp_limits :: PlannerLimits

section \<open>Plans\<close>

record DecisionBasis =
  db_evidence_ids :: "PlannerEvidenceId btree_set"
  db_rationale :: string

record NewVerificationTarget =
  nvt_local_id :: LocalVerificationTargetId
  nvt_statement :: string
  nvt_obligations :: "ProtectedObligationRef btree_set"
  nvt_basis :: DecisionBasis

record VerificationTarget =
  vt_id :: VerificationTargetId
  vt_statement :: string
  vt_obligations :: "ProtectedObligationRef btree_set"
  vt_basis :: DecisionBasis

datatype PlannedWorkOrderState = WorkPending | WorkRunning | WorkCompleted | WorkFailed | WorkCancelled

record PlannedWorkOrder =
  pw_id :: PlanWorkOrderId
  pw_revision :: u32
  pw_objective :: string
  pw_obligations :: "ProtectedObligationRef btree_set"
  pw_dependencies :: "PlanWorkOrderId btree_set"
  pw_verification_targets :: "VerificationTargetId btree_set"
  pw_required_access :: PlannerAccess
  pw_state :: PlannedWorkOrderState
  pw_basis :: DecisionBasis

type_synonym plan_orders = "(PlanWorkOrderId, PlannedWorkOrder) btree_map"
type_synonym plan_targets = "(VerificationTargetId, VerificationTarget) btree_map"

record NewWorkOrder =
  nw_local_id :: LocalWorkOrderId
  nw_objective :: string
  nw_obligations :: "ProtectedObligationRef btree_set"
  nw_existing_dependencies :: "PlanWorkOrderId btree_set"
  nw_new_dependencies :: "LocalWorkOrderId btree_set"
  nw_existing_verification_targets :: "VerificationTargetId btree_set"
  nw_new_verification_targets :: "LocalVerificationTargetId btree_set"
  nw_required_access :: PlannerAccess
  nw_basis :: DecisionBasis

record ProtectedWorkOrderRef =
  wr_id :: PlanWorkOrderId
  wr_revision_sha256 :: PlannerDigest

record ReplaceWorkOrder =
  rw_target :: ProtectedWorkOrderRef
  rw_objective :: string
  rw_obligations :: "ProtectedObligationRef btree_set"
  rw_existing_dependencies :: "PlanWorkOrderId btree_set"
  rw_new_dependencies :: "LocalWorkOrderId btree_set"
  rw_existing_verification_targets :: "VerificationTargetId btree_set"
  rw_new_verification_targets :: "LocalVerificationTargetId btree_set"
  rw_required_access :: PlannerAccess
  rw_basis :: DecisionBasis

record CancelWorkOrder =
  cw_target :: ProtectedWorkOrderRef
  cw_basis :: DecisionBasis

record PlanPatch =
  pa_strategy_summary :: "string option"
  pa_add_verification_targets :: "NewVerificationTarget list"
  pa_add_work_orders :: "NewWorkOrder list"
  pa_replace_work_orders :: "ReplaceWorkOrder list"
  pa_cancel_work_orders :: "CancelWorkOrder list"

definition patch_is_empty :: "PlanPatch \<Rightarrow> bool" where
  "patch_is_empty self =
     (pa_strategy_summary self = None
      \<and> pa_add_verification_targets self = []
      \<and> pa_add_work_orders self = []
      \<and> pa_replace_work_orders self = []
      \<and> pa_cancel_work_orders self = [])"

definition operation_count :: "PlanPatch \<Rightarrow> nat" where
  "operation_count self =
     usize_saturating_add
       (usize_saturating_add
         (usize_saturating_add
           (usize_saturating_add
             (if pa_strategy_summary self \<noteq> None then 1 else 0)
             (length (pa_add_verification_targets self)))
           (length (pa_add_work_orders self)))
         (length (pa_replace_work_orders self)))
       (length (pa_cancel_work_orders self))"

record PlanSnapshot =
  ps_schema_version :: u32
  ps_plan_id :: PlanId
  ps_revision :: u64
  ps_parent_plan_sha256 :: "PlannerDigest option"
  ps_obligation_snapshot_sha256 :: PlannerDigest
  ps_acceptance_policy_sha256 :: PlannerDigest
  ps_strategy_summary :: string
  ps_verification_targets :: plan_targets
  ps_work_orders :: plan_orders

definition empty_plan :: "PlanId \<Rightarrow> ProtectedObligationCatalog \<Rightarrow> PlanSnapshot" where
  "empty_plan plan_id obligations =
     \<lparr>ps_schema_version = PLAN_SCHEMA_VERSION, ps_plan_id = plan_id, ps_revision = 0,
      ps_parent_plan_sha256 = None,
      ps_obligation_snapshot_sha256 = oc_snapshot_sha256 obligations,
      ps_acceptance_policy_sha256 = oc_acceptance_policy_sha256 obligations,
      ps_strategy_summary = [], ps_verification_targets = [], ps_work_orders = []\<rparr>"

section \<open>Directives and proposals\<close>

record PlannerTurnBindings =
  tb_plan_id :: PlanId
  tb_base_revision :: u64
  tb_base_plan_sha256 :: PlannerDigest
  tb_obligation_snapshot_sha256 :: PlannerDigest
  tb_acceptance_policy_sha256 :: PlannerDigest
  tb_context_manifest_sha256 :: PlannerDigest
  tb_planner_policy_sha256 :: PlannerDigest

record WorkSelection =
  ws_existing :: "PlanWorkOrderId btree_set"
  ws_new :: "LocalWorkOrderId btree_set"

definition selection_is_empty :: "WorkSelection \<Rightarrow> bool" where
  "selection_is_empty self = (ws_existing self = [] \<and> ws_new self = [])"

record DelegationRequest =
  dr_work_orders :: WorkSelection
  dr_basis :: DecisionBasis

record ClarificationRequest =
  cr_question :: string
  cr_blocked_obligations :: "ProtectedObligationRef btree_set"
  cr_basis :: DecisionBasis

datatype EscalationKind = EscalateAuthority | EscalateBudget | EscalateModelCapability | EscalateHumanDecision

record EscalationRequest =
  es_kind :: EscalationKind
  es_request :: string
  es_blocked_obligations :: "ProtectedObligationRef btree_set"
  es_basis :: DecisionBasis

record FinishClaim =
  fc_obligation :: ProtectedObligationRef
  fc_evidence_ids :: "PlannerEvidenceId btree_set"

datatype PlannerDirectiveKind =
  DirectiveExecute | DirectiveDelegate | DirectiveClarify | DirectiveEscalate | DirectiveFinish

record PlannerDirective =
  pd_kind :: PlannerDirectiveKind
  pd_execute :: WorkSelection
  pd_delegations :: "DelegationRequest list"
  pd_clarifications :: "ClarificationRequest list"
  pd_escalations :: "EscalationRequest list"
  pd_finish_claims :: "FinishClaim list"

record PlannerTurnProposal =
  pt_schema_version :: u32
  pt_bindings :: PlannerTurnBindings
  pt_patch :: PlanPatch
  pt_directive :: PlannerDirective

datatype ResolvedPlannerDirective =
    ResolvedExecute PlanWorkOrderId
  | ResolvedDelegate "PlanWorkOrderId list"
  | ResolvedClarify "ClarificationRequest list"
  | ResolvedEscalate "EscalationRequest list"
  | FinishPendingGate "FinishClaim list"

record ValidatedPlannerTurn =
  vpt_plan :: PlanSnapshot
  vpt_plan_sha256 :: PlannerDigest
  vpt_directive :: ResolvedPlannerDirective

record ValidatedPlannerTurnWithAllocations =
  vpa_validated :: ValidatedPlannerTurn
  vpa_local_work_order_ids :: "(LocalWorkOrderId, PlanWorkOrderId) btree_map"

datatype (plugins only: code) PlannerViolation =
    PlanUnsupportedSchemaVersion u32
  | PolicySnapshotInvalid | ObligationCatalogInvalid | ContextCatalogInvalid | BasePlanInvalid
  | StalePlanBinding | ObligationSnapshotMismatch | AcceptancePolicyMismatch
  | ContextManifestMismatch | PlannerPolicyMismatch
  | PatchOperationLimitExceeded u32 nat
  | PlanWorkOrderLimitExceeded u32 nat
  | VerificationTargetLimitExceeded u32 nat
  | TextLimitExceeded u64 nat
  | DirectiveEncodedLimitExceeded nat
  | DirectiveCollectionLimitExceeded string nat nat
  | EmptyText string
  | FieldTooLarge string nat nat
  | EmptyEvidence string
  | EvidenceLimitExceeded string nat nat
  | UnknownEvidence PlannerEvidenceId
  | InvalidLocalWorkOrderId LocalWorkOrderId
  | InvalidLocalVerificationTargetId LocalVerificationTargetId
  | DuplicateLocalWorkOrderId LocalWorkOrderId
  | DuplicateLocalVerificationTargetId LocalVerificationTargetId
  | UnknownObligation ObligationId
  | ObligationDigestMismatch ObligationId
  | EmptyObligationSet string
  | UnknownWorkOrder PlanWorkOrderId
  | UnknownNewWorkOrder LocalWorkOrderId
  | StaleWorkOrder PlanWorkOrderId
  | WorkOrderOperationConflict PlanWorkOrderId
  | ImmutableWorkOrder PlanWorkOrderId PlannedWorkOrderState
  | UnknownVerificationTarget VerificationTargetId
  | UnknownNewVerificationTarget LocalVerificationTargetId
  | EmptyVerificationTargets "PlanWorkOrderId option"
  | AccessExpansion PlannerAccess
  | PlanDependencyLimitExceeded u32 nat
  | DependencyOnCancelled PlanWorkOrderId PlanWorkOrderId
  | PlanDependencyCycle
  | RequiredObligationUncovered ObligationId
  | PlanRevisionOverflow
  | WorkOrderRevisionOverflow PlanWorkOrderId
  | DirectiveShapeMismatch PlannerDirectiveKind
  | DirectiveTargetNotPending PlanWorkOrderId
  | DelegationLimitExceeded u32 nat
  | ClarificationLimitExceeded u32 nat
  | EscalationLimitExceeded nat nat
  | FinishClaimLimitExceeded nat nat
  | FinishRequiresEmptyPatch
  | FinishMissingRequiredObligation ObligationId
  | DuplicateFinishClaim ObligationId

section \<open>Serialization\<close>

text \<open>
  The JSON serializer is third-party code.  For each type that the planner hashes or measures the
  environment holds the bytes of \<open>serde_json::to_vec\<close>, or its error text; for the directive, which
  is written to a counting writer, the sequence of chunks that the serializer hands to \<open>write\<close>.
\<close>

record planner_env = backend_env +
  pe_obligation_json :: "ProtectedObligation \<Rightarrow> string + u8 list"
  pe_catalog_json :: "PlannerDigest \<Rightarrow> obligation_map \<Rightarrow> string + u8 list"
  pe_binding_json :: "PlannerEvidenceBinding \<Rightarrow> string + u8 list"
  pe_context_json :: "u32 \<Rightarrow> PlannerEvidenceBinding list \<Rightarrow> string + u8 list"
  pe_policy_json :: "PlannerAccess \<Rightarrow> PlannerLimits \<Rightarrow> string + u8 list"
  pe_work_order_json :: "PlannedWorkOrder \<Rightarrow> string + u8 list"
  pe_plan_json :: "PlanSnapshot \<Rightarrow> string + u8 list"
  pe_directive_chunks :: "PlannerDirective \<Rightarrow> string + u8 list list"

definition digest_parse :: "string \<Rightarrow> PlannerContractError + PlannerDigest" where
  "digest_parse value = (if valid_sha256 value then Inr value else Inl InvalidDigest)"

definition evidence_id_new :: "string \<Rightarrow> PlannerContractError + PlannerEvidenceId" where
  "evidence_id_new value =
     (if value = [] \<or> length value > PLAN_MAX_EVIDENCE_ID_BYTES then Inl InvalidEvidenceId
      else Inr value)"

text \<open>\<open>digest_of\<close>: the digest of the encoded value.\<close>

definition digest_of ::
  "('a) backend_env_scheme \<Rightarrow> string + u8 list \<Rightarrow> PlannerContractError + PlannerDigest" where
  "digest_of env encoded =
     (case encoded of Inl e \<Rightarrow> Inl (Encoding e) | Inr bytes \<Rightarrow> Inr (encode_sha256 env bytes))"

definition revision_sha256 ::
  "('a) planner_env_scheme \<Rightarrow> PlannedWorkOrder \<Rightarrow> PlannerContractError + PlannerDigest" where
  "revision_sha256 env self = digest_of env (pe_work_order_json env self)"

definition plan_sha256 ::
  "('a) planner_env_scheme \<Rightarrow> PlanSnapshot \<Rightarrow> PlannerContractError + PlannerDigest" where
  "plan_sha256 env self = digest_of env (pe_plan_json env self)"

text \<open>\<open>Result::ok\<close>\<close>

definition ok :: "'e + 'a \<Rightarrow> 'a option" where
  "ok r = (case r of Inl e \<Rightarrow> None | Inr x \<Rightarrow> Some x)"

lemma ok_eq_Some [simp]: "ok r = Some x \<longleftrightarrow> r = Inr x"
  by (cases r) (auto simp: ok_def)

definition turn_bindings_new ::
  "('a) planner_env_scheme \<Rightarrow> PlanSnapshot \<Rightarrow> ProtectedObligationCatalog \<Rightarrow> PlannerContextCatalog
     \<Rightarrow> PlannerPolicy \<Rightarrow> PlannerContractError + PlannerTurnBindings" where
  "turn_bindings_new env plan obligations context policy =
     (case plan_sha256 env plan of
        Inl e \<Rightarrow> Inl e
      | Inr digest \<Rightarrow> Inr
          \<lparr>tb_plan_id = ps_plan_id plan, tb_base_revision = ps_revision plan,
           tb_base_plan_sha256 = digest,
           tb_obligation_snapshot_sha256 = oc_snapshot_sha256 obligations,
           tb_acceptance_policy_sha256 = oc_acceptance_policy_sha256 obligations,
           tb_context_manifest_sha256 = cc_manifest_sha256 context,
           tb_planner_policy_sha256 = pp_policy_sha256 policy\<rparr>)"

lemma operation_count_zero_iff: "operation_count p = 0 \<longleftrightarrow> patch_is_empty p"
  by (auto simp: operation_count_def patch_is_empty_def usize_saturating_add_def usize_max_def min_def)

end
