(* ===== verification/Planner_Catalogs.thy ===== *)
theory Planner_Catalogs
  imports Planner_Model
begin

text \<open>
  The trusted snapshots of the planning protocol in \<open>crates/orchestrator/src/planner.rs\<close>:
  \<open>ProtectedObligationCatalog\<close>, \<open>PlannerContextCatalog\<close> and \<open>PlannerPolicy\<close> with their checked
  constructors, their self-checks \<open>is_internally_valid\<close> and the binary search for evidence.

  Every constructor is shown to produce snapshots that pass the self-check, and the binary search
  is shown to decide membership on the sorted bindings that the self-check requires.
\<close>

section \<open>Obligations\<close>

definition usize_checked_add :: "nat \<Rightarrow> nat \<Rightarrow> nat option" where
  "usize_checked_add a b = (if a + b \<le> usize_max then Some (a + b) else None)"

definition obligation_new ::
  "('a) backend_env_scheme \<Rightarrow> ObligationId \<Rightarrow> string \<Rightarrow> bool \<Rightarrow> ProtectedObligation" where
  "obligation_new env obligation_id statement required =
     \<lparr>ob_id = obligation_id, ob_content_sha256 = encode_sha256 env (str_bytes statement),
      ob_statement = statement, ob_required = required\<rparr>"

fun obligation_loop ::
  "('a) planner_env_scheme \<Rightarrow> obligation_map \<Rightarrow> nat \<Rightarrow> ProtectedObligation list
     \<Rightarrow> PlannerContractError + obligation_map" where
  "obligation_loop env by_id aggregate [] = Inr by_id"
| "obligation_loop env by_id aggregate (obligation # rest) =
     (if length by_id \<ge> HARD_MAX_OBLIGATIONS then Inl TooManyObligations
      else if is_blank (ob_statement obligation) \<or> length (ob_statement obligation) > MAX_FIELD_BYTES
        then Inl InvalidObligationStatement
      else if ob_content_sha256 obligation \<noteq> encode_sha256 env (str_bytes (ob_statement obligation))
        then Inl InvalidObligationDigest
      else case pe_obligation_json env obligation of
          Inl e \<Rightarrow> Inl (Encoding e)
        | Inr bytes \<Rightarrow>
            (let aggregate' = usize_saturating_add aggregate (usize_saturating_add (length bytes) 80) in
             if aggregate' > HARD_MAX_OBLIGATION_CATALOG_ENCODED_BYTES then Inl ObligationCatalogTooLarge
             else if bm_contains_key by_id (ob_id obligation)
               then Inl (DuplicateObligation (ob_id obligation))
             else obligation_loop env (bm_insert (ob_id obligation) obligation by_id) aggregate' rest))"

definition obligation_catalog_new ::
  "('a) planner_env_scheme \<Rightarrow> PlannerDigest \<Rightarrow> ProtectedObligation list
     \<Rightarrow> PlannerContractError + ProtectedObligationCatalog" where
  "obligation_catalog_new env acceptance_policy_sha256 obligations =
     (case obligation_loop env [] 256 obligations of
        Inl e \<Rightarrow> Inl e
      | Inr by_id \<Rightarrow>
          if by_id = [] then Inl EmptyObligationCatalog
          else case pe_catalog_json env acceptance_policy_sha256 by_id of
              Inl e \<Rightarrow> Inl (Encoding e)
            | Inr bytes \<Rightarrow>
                if length bytes > HARD_MAX_OBLIGATION_CATALOG_ENCODED_BYTES
                  then Inl ObligationCatalogTooLarge
                else (case digest_of env (pe_catalog_json env acceptance_policy_sha256 by_id) of
                    Inl e \<Rightarrow> Inl e
                  | Inr digest \<Rightarrow> Inr
                      \<lparr>oc_snapshot_sha256 = digest,
                       oc_acceptance_policy_sha256 = acceptance_policy_sha256,
                       oc_obligations = by_id\<rparr>))"

fun encoded_len_fold ::
  "('a) planner_env_scheme \<Rightarrow> nat \<Rightarrow> ProtectedObligation list \<Rightarrow> nat option" where
  "encoded_len_fold env sum_so_far [] = Some sum_so_far"
| "encoded_len_fold env sum_so_far (obligation # rest) =
     (case pe_obligation_json env obligation of
        Inl e \<Rightarrow> None
      | Inr bytes \<Rightarrow>
          (case usize_checked_add (length bytes) 80 of
             None \<Rightarrow> None
           | Some encoded \<Rightarrow>
               (case usize_checked_add sum_so_far encoded of
                  None \<Rightarrow> None
                | Some sum_so_far' \<Rightarrow> encoded_len_fold env sum_so_far' rest)))"

definition obligation_catalog_encoded_len ::
  "('a) planner_env_scheme \<Rightarrow> obligation_map \<Rightarrow> nat option" where
  "obligation_catalog_encoded_len env obligations = encoded_len_fold env 256 (bm_values obligations)"

definition obligation_catalog_valid ::
  "('a) planner_env_scheme \<Rightarrow> ProtectedObligationCatalog \<Rightarrow> bool" where
  "obligation_catalog_valid env self =
     (oc_obligations self \<noteq> []
      \<and> length (oc_obligations self) \<le> HARD_MAX_OBLIGATIONS
      \<and> list_all (\<lambda>obligation.
           \<not> is_blank (ob_statement obligation)
           \<and> length (ob_statement obligation) \<le> MAX_FIELD_BYTES
           \<and> ob_content_sha256 obligation = encode_sha256 env (str_bytes (ob_statement obligation)))
         (bm_values (oc_obligations self))
      \<and> (case obligation_catalog_encoded_len env (oc_obligations self) of
           None \<Rightarrow> False
         | Some n \<Rightarrow> n \<le> HARD_MAX_OBLIGATION_CATALOG_ENCODED_BYTES)
      \<and> digest_of env (pe_catalog_json env (oc_acceptance_policy_sha256 self) (oc_obligations self))
          = Inr (oc_snapshot_sha256 self))"

section \<open>Evidence\<close>

fun context_loop ::
  "('a) planner_env_scheme \<Rightarrow> nat \<Rightarrow> PlannerEvidenceId option \<Rightarrow> PlannerEvidenceBinding list
     \<Rightarrow> PlannerContractError + unit" where
  "context_loop env aggregate previous [] = Inr ()"
| "context_loop env aggregate previous (binding # rest) =
     (case pe_binding_json env binding of
        Inl e \<Rightarrow> Inl (Encoding e)
      | Inr bytes \<Rightarrow>
          (let aggregate' = usize_saturating_add aggregate (usize_saturating_add (length bytes) 1) in
           if aggregate' > HARD_MAX_CONTEXT_MANIFEST_ENCODED_BYTES then Inl ContextCatalogTooLarge
           else if previous = Some (eb_id binding) then Inl (DuplicateContextEvidenceId (eb_id binding))
           else context_loop env aggregate' (Some (eb_id binding)) rest))"

definition context_catalog_new ::
  "('a) planner_env_scheme \<Rightarrow> PlannerEvidenceBinding list
     \<Rightarrow> PlannerContractError + PlannerContextCatalog" where
  "context_catalog_new env evidence_bindings =
     (let canonical = sort_key eb_id evidence_bindings in
      if canonical = [] then Inl EmptyContextCatalog
      else if length canonical > HARD_MAX_CONTEXT_EVIDENCE_IDS then Inl TooManyContextEvidenceIds
      else case context_loop env 32 None canonical of
          Inl e \<Rightarrow> Inl e
        | Inr _ \<Rightarrow>
            (case pe_context_json env PLAN_SCHEMA_VERSION canonical of
               Inl e \<Rightarrow> Inl (Encoding e)
             | Inr bytes \<Rightarrow>
                 if length bytes > HARD_MAX_CONTEXT_MANIFEST_ENCODED_BYTES
                   then Inl ContextCatalogTooLarge
                 else (case digest_of env (pe_context_json env PLAN_SCHEMA_VERSION canonical) of
                     Inl e \<Rightarrow> Inl e
                   | Inr digest \<Rightarrow> Inr
                       \<lparr>cc_manifest_sha256 = digest, cc_evidence_bindings = canonical\<rparr>)))"

definition context_catalog_valid ::
  "('a) planner_env_scheme \<Rightarrow> PlannerContextCatalog \<Rightarrow> bool" where
  "context_catalog_valid env self =
     (cc_evidence_bindings self \<noteq> []
      \<and> length (cc_evidence_bindings self) \<le> HARD_MAX_CONTEXT_EVIDENCE_IDS
      \<and> successively (\<lambda>a b. eb_id a < eb_id b) (cc_evidence_bindings self)
      \<and> (case pe_context_json env PLAN_SCHEMA_VERSION (cc_evidence_bindings self) of
           Inl e \<Rightarrow> False
         | Inr bytes \<Rightarrow> length bytes \<le> HARD_MAX_CONTEXT_MANIFEST_ENCODED_BYTES)
      \<and> digest_of env (pe_context_json env PLAN_SCHEMA_VERSION (cc_evidence_bindings self))
          = Inr (cc_manifest_sha256 self))"

text \<open>Reading a catalog from the wire builds it again and compares the digest (\<open>None\<close> is its custom error).\<close>

definition context_catalog_deserialize ::
  "('a) planner_env_scheme \<Rightarrow> PlannerContextCatalog
     \<Rightarrow> PlannerContractError option + PlannerContextCatalog" where
  "context_catalog_deserialize env repr =
     (case context_catalog_new env (cc_evidence_bindings repr) of
        Inl e \<Rightarrow> Inl (Some e)
      | Inr catalog \<Rightarrow>
          if cc_manifest_sha256 catalog \<noteq> cc_manifest_sha256 repr then Inl None else Inr catalog)"

text \<open>
  \<open>slice::binary_search_by\<close> of the standard library: the candidate range starts at \<open>base\<close> and has
  \<open>remaining\<close> (in the source \<open>size\<close>) elements, and halves until one is left.  \<open>Inr\<close> is the index found, \<open>Inl\<close> the place to insert.
\<close>

function search_loop :: "PlannerEvidenceBinding list \<Rightarrow> PlannerEvidenceId \<Rightarrow> nat \<Rightarrow> nat \<Rightarrow> nat" where
  "search_loop bindings evidence_id base remaining =
     (if remaining > 1 then
        (let half = remaining div 2; mid = base + half in
         search_loop bindings evidence_id
           (if eb_id (bindings ! mid) > evidence_id then base else mid) (remaining - half))
      else base)"
  by pat_completeness auto
termination
  by (relation "measure (\<lambda>(_, _, _, remaining). remaining)") auto

declare search_loop.simps [simp del]

definition binary_search :: "PlannerEvidenceBinding list \<Rightarrow> PlannerEvidenceId \<Rightarrow> nat + nat" where
  "binary_search bindings evidence_id =
     (if bindings = [] then Inl 0
      else (let base = search_loop bindings evidence_id 0 (length bindings) in
        if eb_id (bindings ! base) = evidence_id then Inr base
        else Inl (base + (if eb_id (bindings ! base) < evidence_id then 1 else 0))))"

definition contains_evidence :: "PlannerContextCatalog \<Rightarrow> PlannerEvidenceId \<Rightarrow> bool" where
  "contains_evidence self evidence_id =
     (case binary_search (cc_evidence_bindings self) evidence_id of Inl _ \<Rightarrow> False | Inr _ \<Rightarrow> True)"

definition evidence_content_sha256 ::
  "PlannerContextCatalog \<Rightarrow> PlannerEvidenceId \<Rightarrow> PlannerDigest option" where
  "evidence_content_sha256 self evidence_id =
     (case binary_search (cc_evidence_bindings self) evidence_id of
        Inl _ \<Rightarrow> None
      | Inr index \<Rightarrow> Some (eb_content_sha256 (cc_evidence_bindings self ! index)))"

section \<open>Policy\<close>

definition valid_limits :: "PlannerLimits \<Rightarrow> bool" where
  "valid_limits limits =
     (pl_max_work_orders limits > 0
      \<and> unat (pl_max_work_orders limits) \<le> PLAN_HARD_MAX_WORK_ORDERS
      \<and> pl_max_verification_targets limits > 0
      \<and> unat (pl_max_verification_targets limits) \<le> HARD_MAX_VERIFICATION_TARGETS
      \<and> pl_max_patch_operations limits > 0
      \<and> unat (pl_max_patch_operations limits) \<le> HARD_MAX_PATCH_OPERATIONS
      \<and> pl_max_dependencies_per_work_order limits > 0
      \<and> unat (pl_max_dependencies_per_work_order limits) \<le> PLAN_HARD_MAX_DEPENDENCIES
      \<and> pl_max_delegations limits > 0
      \<and> unat (pl_max_delegations limits) \<le> HARD_MAX_DELEGATIONS
      \<and> pl_max_questions limits > 0
      \<and> unat (pl_max_questions limits) \<le> HARD_MAX_QUESTIONS
      \<and> pl_max_text_bytes limits > 0
      \<and> unat (pl_max_text_bytes limits) \<le> HARD_MAX_TEXT_BYTES)"

definition read_only_policy ::
  "('a) planner_env_scheme \<Rightarrow> PlannerLimits \<Rightarrow> PlannerContractError + PlannerPolicy" where
  "read_only_policy env limits =
     (if \<not> valid_limits limits then Inl InvalidPolicyLimits
      else case digest_of env (pe_policy_json env AccessReadOnly limits) of
          Inl e \<Rightarrow> Inl e
        | Inr digest \<Rightarrow> Inr
            \<lparr>pp_policy_sha256 = digest, pp_maximum_access = AccessReadOnly, pp_limits = limits\<rparr>)"

definition policy_valid :: "('a) planner_env_scheme \<Rightarrow> PlannerPolicy \<Rightarrow> bool" where
  "policy_valid env self =
     (pp_maximum_access self = AccessReadOnly
      \<and> valid_limits (pp_limits self)
      \<and> digest_of env (pe_policy_json env (pp_maximum_access self) (pp_limits self))
          = Inr (pp_policy_sha256 self))"

section \<open>Laws of the obligation catalog\<close>

text \<open>The conservative remaining of one entry, and of a catalog, as exact numbers.\<close>

definition entry_size :: "('a) planner_env_scheme \<Rightarrow> ProtectedObligation \<Rightarrow> nat" where
  "entry_size env ob = (case pe_obligation_json env ob of Inl e \<Rightarrow> 0 | Inr bytes \<Rightarrow> length bytes + 80)"

definition obligation_ok :: "('a) planner_env_scheme \<Rightarrow> ProtectedObligation \<Rightarrow> bool" where
  "obligation_ok env ob \<longleftrightarrow>
     \<not> is_blank (ob_statement ob) \<and> length (ob_statement ob) \<le> MAX_FIELD_BYTES
     \<and> ob_content_sha256 ob = encode_sha256 env (str_bytes (ob_statement ob))
     \<and> (\<exists>bytes. pe_obligation_json env ob = Inr bytes)"

lemma saturating_add_exact:
  "usize_saturating_add a b \<le> n \<Longrightarrow> n < usize_max \<Longrightarrow> usize_saturating_add a b = a + b"
  by (auto simp: usize_saturating_add_def min_def split: if_splits)

lemma limits_below_usize_max:
  "HARD_MAX_OBLIGATION_CATALOG_ENCODED_BYTES < usize_max"
  "HARD_MAX_CONTEXT_MANIFEST_ENCODED_BYTES < usize_max"
  "HARD_MAX_DIRECTIVE_ENCODED_BYTES < usize_max"
  by (simp_all add: plan_limit_defs usize_max_def)

lemma sum_list_bm_insert:
  "\<not> bm_contains_key m k \<Longrightarrow>
     (\<Sum>x\<leftarrow>bm_values (bm_insert k v m). f x) = f v + (\<Sum>x\<leftarrow>bm_values m. f x :: nat)"
  by (induction m) (auto simp: bm_values_def bm_contains_key_def bm_get_def split: if_splits)

lemma length_bm_insert:
  "\<not> bm_contains_key m k \<Longrightarrow> length (bm_insert k v m) = Suc (length m)"
  by (induction m) (auto simp: bm_contains_key_def bm_get_def split: if_splits)

lemma set_bm_insert_fresh: "\<not> bm_contains_key m k \<Longrightarrow> set (bm_insert k v m) = insert (k, v) (set m)"
  by (induction m) (auto simp: bm_contains_key_def bm_get_def split: if_splits)

lemma set_bm_values_insert_fresh:
  "\<not> bm_contains_key m k \<Longrightarrow> set (bm_values (bm_insert k v m)) = insert v (set (bm_values m))"
  by (simp add: bm_values_def set_bm_insert_fresh)

lemma encoded_len_fold_exact:
  assumes "\<forall>ob \<in> set obs. obligation_ok env ob"
    and "sum_so_far + (\<Sum>ob\<leftarrow>obs. entry_size env ob) \<le> usize_max"
  shows "encoded_len_fold env sum_so_far obs = Some (sum_so_far + (\<Sum>ob\<leftarrow>obs. entry_size env ob))"
  using assms
  by (induction obs arbitrary: sum_so_far)
    (auto simp: obligation_ok_def entry_size_def usize_checked_add_def)

text \<open>What the loop of the constructor keeps of its accumulators.\<close>

definition catalog_inv :: "('a) planner_env_scheme \<Rightarrow> obligation_map \<Rightarrow> nat \<Rightarrow> bool" where
  "catalog_inv env m aggregate \<longleftrightarrow>
     bm_wf m \<and> length m \<le> HARD_MAX_OBLIGATIONS
     \<and> (\<forall>ob \<in> set (bm_values m). obligation_ok env ob)
     \<and> (\<forall>(k, ob) \<in> set m. ob_id ob = k)
     \<and> aggregate = 256 + (\<Sum>ob\<leftarrow>bm_values m. entry_size env ob)
     \<and> aggregate \<le> HARD_MAX_OBLIGATION_CATALOG_ENCODED_BYTES"

lemma obligation_loop_step:
  assumes "obligation_loop env m aggregate (ob # rest) = Inr m'" and "catalog_inv env m aggregate"
  obtains aggregate' where "obligation_loop env (bm_insert (ob_id ob) ob m) aggregate' rest = Inr m'"
    and "catalog_inv env (bm_insert (ob_id ob) ob m) aggregate'"
    and "\<not> bm_contains_key m (ob_id ob)"
proof -
  from assms(1) obtain bytes where json: "pe_obligation_json env ob = Inr bytes"
    by (auto split: sum.splits if_splits)
  define agg where "agg = usize_saturating_add aggregate (usize_saturating_add (length bytes) 80)"
  from assms(1) json have len: "length m < HARD_MAX_OBLIGATIONS"
    and ok: "obligation_ok env ob"
    and small: "agg \<le> HARD_MAX_OBLIGATION_CATALOG_ENCODED_BYTES"
    and fresh: "\<not> bm_contains_key m (ob_id ob)"
    and rest: "obligation_loop env (bm_insert (ob_id ob) ob m) agg rest = Inr m'"
    by (auto simp: obligation_ok_def agg_def Let_def split: if_splits)
  have "agg = aggregate + usize_saturating_add (length bytes) 80"
    using small limits_below_usize_max(1) unfolding agg_def by (rule saturating_add_exact)
  moreover from this small have "usize_saturating_add (length bytes) 80 = length bytes + 80"
    using limits_below_usize_max(1) by (intro saturating_add_exact) auto
  ultimately have "agg = aggregate + entry_size env ob"
    by (simp add: entry_size_def json)
  with assms(2) len ok small fresh have "catalog_inv env (bm_insert (ob_id ob) ob m) agg"
    by (auto simp: catalog_inv_def sum_list_bm_insert length_bm_insert set_bm_values_insert_fresh
        dest: in_set_bm_insertD)
  with rest fresh show thesis
    using that by blast
qed

lemma obligation_loop_inv:
  "obligation_loop env m aggregate obs = Inr m' \<Longrightarrow> catalog_inv env m aggregate \<Longrightarrow>
     \<exists>aggregate'. catalog_inv env m' aggregate'
       \<and> set (bm_values m') = set (bm_values m) \<union> set obs"
proof (induction obs arbitrary: m aggregate)
  case (Cons ob rest)
  then obtain aggregate' where
      step: "obligation_loop env (bm_insert (ob_id ob) ob m) aggregate' rest = Inr m'"
      "catalog_inv env (bm_insert (ob_id ob) ob m) aggregate'"
      and fresh: "\<not> bm_contains_key m (ob_id ob)"
    by (elim obligation_loop_step)
  from Cons.IH[OF step] fresh show ?case
    by (auto simp: set_bm_values_insert_fresh)
qed auto

lemma catalog_inv_valid:
  assumes "catalog_inv env m aggregate"
  shows "\<exists>n. obligation_catalog_encoded_len env m = Some n
    \<and> n \<le> HARD_MAX_OBLIGATION_CATALOG_ENCODED_BYTES"
proof -
  have "encoded_len_fold env 256 (bm_values m) = Some (256 + (\<Sum>ob\<leftarrow>bm_values m. entry_size env ob))"
    using assms limits_below_usize_max(1) by (intro encoded_len_fold_exact) (auto simp: catalog_inv_def)
  with assms show ?thesis
    by (auto simp: obligation_catalog_encoded_len_def catalog_inv_def)
qed

lemma catalog_inv_empty: "catalog_inv env [] 256"
  by (simp add: catalog_inv_def bm_values_def plan_limit_defs)

lemma obligation_catalog_new_sound:
  assumes "obligation_catalog_new env acceptance obs = Inr catalog"
  shows "obligation_catalog_valid env catalog"
    and "bm_wf (oc_obligations catalog)"
    and "\<forall>(k, ob) \<in> set (oc_obligations catalog). ob_id ob = k"
    and "set (bm_values (oc_obligations catalog)) = set obs"
    and "oc_acceptance_policy_sha256 catalog = acceptance"
proof -
  from assms obtain m where loop: "obligation_loop env [] 256 obs = Inr m" and "m \<noteq> []"
    and cat: "oc_obligations catalog = m" "oc_acceptance_policy_sha256 catalog = acceptance"
      "digest_of env (pe_catalog_json env acceptance m) = Inr (oc_snapshot_sha256 catalog)"
    by (auto simp: obligation_catalog_new_def split: sum.splits if_splits)
  from obligation_loop_inv[OF loop catalog_inv_empty] obtain aggregate where
      inv: "catalog_inv env m aggregate" and vals: "set (bm_values m) = set obs"
    by (auto simp: bm_values_def)
  show "obligation_catalog_valid env catalog"
    using inv catalog_inv_valid[OF inv] cat \<open>m \<noteq> []\<close>
    by (auto simp: obligation_catalog_valid_def catalog_inv_def obligation_ok_def list_all_iff)
  show "bm_wf (oc_obligations catalog)" "\<forall>(k, ob) \<in> set (oc_obligations catalog). ob_id ob = k"
    "set (bm_values (oc_obligations catalog)) = set obs" "oc_acceptance_policy_sha256 catalog = acceptance"
    using inv cat vals by (auto simp: catalog_inv_def)
qed

section \<open>Laws of the evidence catalog\<close>

lemma context_loop_distinct:
  assumes "context_loop env aggregate previous bindings = Inr ()"
    and "sorted (map eb_id bindings)" and "\<forall>p b. previous = Some p \<longrightarrow> b \<in> set bindings \<longrightarrow> p \<le> eb_id b"
  shows "successively (\<lambda>a b. eb_id a < eb_id b) bindings"
    and "\<forall>p b. previous = Some p \<longrightarrow> b \<in> set bindings \<longrightarrow> p < eb_id b"
proof -
  have "successively (\<lambda>a b. eb_id a < eb_id b) bindings
    \<and> (\<forall>p b. previous = Some p \<longrightarrow> b \<in> set bindings \<longrightarrow> p < eb_id b)"
    using assms
  proof (induction bindings arbitrary: aggregate previous)
    case (Cons b rest)
    from Cons.prems(1) obtain aggregate' where "previous \<noteq> Some (eb_id b)"
      and "context_loop env aggregate' (Some (eb_id b)) rest = Inr ()"
      by (auto simp: Let_def split: sum.splits if_splits)
    moreover from this Cons.prems(2) have ih: "successively (\<lambda>a b. eb_id a < eb_id b) rest"
        "\<forall>c \<in> set rest. eb_id b < eb_id c"
      using Cons.IH[of aggregate' "Some (eb_id b)"] by auto
    ultimately show ?case
      using Cons.prems(3) by (cases rest) (auto simp: order.strict_iff_order, fastforce)
  qed simp
  then show "successively (\<lambda>a b. eb_id a < eb_id b) bindings"
    and "\<forall>p b. previous = Some p \<longrightarrow> b \<in> set bindings \<longrightarrow> p < eb_id b"
    by auto
qed

lemma context_catalog_new_sound:
  assumes "context_catalog_new env bindings = Inr catalog"
  shows "context_catalog_valid env catalog"
    and "set (cc_evidence_bindings catalog) = set bindings"
proof -
  let ?canonical = "sort_key eb_id bindings"
  from assms have ne: "?canonical \<noteq> []" "length ?canonical \<le> HARD_MAX_CONTEXT_EVIDENCE_IDS"
    and cat: "cc_evidence_bindings catalog = ?canonical"
    and loop: "context_loop env 32 None ?canonical = Inr ()"
    and enc: "\<exists>bytes. pe_context_json env PLAN_SCHEMA_VERSION ?canonical = Inr bytes
        \<and> length bytes \<le> HARD_MAX_CONTEXT_MANIFEST_ENCODED_BYTES"
      "digest_of env (pe_context_json env PLAN_SCHEMA_VERSION ?canonical) = Inr (cc_manifest_sha256 catalog)"
    by (auto simp: context_catalog_new_def Let_def split: sum.splits if_splits)
  have "successively (\<lambda>a b. eb_id a < eb_id b) ?canonical"
    using loop by (rule context_loop_distinct) auto
  with ne cat enc show "context_catalog_valid env catalog"
    by (auto simp: context_catalog_valid_def)
  show "set (cc_evidence_bindings catalog) = set bindings"
    by (simp add: cat)
qed

lemma search_loop_range:
  assumes "sorted_wrt (\<lambda>a b. eb_id a < eb_id b) bindings"
    and "0 < remaining" and "base + remaining \<le> length bindings"
    and "\<And>j. j < length bindings \<Longrightarrow> eb_id (bindings ! j) = x \<Longrightarrow> base \<le> j \<and> j < base + remaining"
  shows "search_loop bindings x base remaining < length bindings
    \<and> (\<forall>j < length bindings. eb_id (bindings ! j) = x \<longrightarrow> j = search_loop bindings x base remaining)"
  using assms
proof (induction bindings x base remaining rule: search_loop.induct)
  case (1 bs y base remaining)
  show ?case
  proof (cases "remaining > 1")
    case False
    with 1(3-5) have "remaining = 1" by simp
    with 1(4,5) show ?thesis
      by (subst (1 2) search_loop.simps) force
  next
    case True
    define mid where "mid = base + remaining div 2"
    have mid: "mid < length bs" "base < mid" "mid < base + remaining"
      using True 1(4) by (auto simp: mid_def)
    have mono: "eb_id (bs ! i) < eb_id (bs ! j)" if "i < j" "j < length bs" for i j
      using 1(2) that by (simp add: sorted_wrt_iff_nth_less)
    let ?base = "if eb_id (bs ! mid) > y then base else mid"
    have "search_loop bs y base remaining = search_loop bs y ?base (remaining - remaining div 2)"
      using True by (subst search_loop.simps) (simp add: Let_def mid_def)
    moreover have "search_loop bs y ?base (remaining - remaining div 2) < length bs
      \<and> (\<forall>j < length bs. eb_id (bs ! j) = y \<longrightarrow> j = search_loop bs y ?base (remaining - remaining div 2))"
    proof (rule 1(1)[OF True refl mid_def])
      show "sorted_wrt (\<lambda>a b. eb_id a < eb_id b) bs" by (fact 1(2))
      show "0 < remaining - remaining div 2" using True by simp
      show "?base + (remaining - remaining div 2) \<le> length bs"
        using True 1(4) by (auto simp: mid_def)
      fix j
      assume j: "j < length bs" "eb_id (bs ! j) = y"
      then have range: "base \<le> j" "j < base + remaining" by (simp_all add: 1(5))
      show "?base \<le> j \<and> j < ?base + (remaining - remaining div 2)"
      proof (cases "eb_id (bs ! mid) > y")
        case gt: True
        then have "j < mid" using mono[of mid j] j by (cases j mid rule: linorder_cases) auto
        with gt range show ?thesis by (simp add: mid_def)
      next
        case le: False
        then have "mid \<le> j" using mono[of j mid] j mid by (cases j mid rule: linorder_cases) auto
        with le range show ?thesis by (simp add: mid_def)
      qed
    qed
    ultimately show ?thesis by simp
  qed
qed

text \<open>On strictly sorted bindings the search finds exactly the elements of the list.\<close>

lemma binary_search_iff:
  assumes "sorted_wrt (\<lambda>a b. eb_id a < eb_id b) bindings"
  shows "binary_search bindings x = Inr i \<longleftrightarrow> i < length bindings \<and> eb_id (bindings ! i) = x"
proof (cases "bindings = []")
  case False
  with search_loop_range[OF assms, of "length bindings" 0 x] show ?thesis
    by (auto simp: binary_search_def Let_def)
qed (simp add: binary_search_def)

lemma context_catalog_valid_sorted:
  "context_catalog_valid env context \<Longrightarrow>
     sorted_wrt (\<lambda>a b. eb_id a < eb_id b) (cc_evidence_bindings context)"
  using successively_conv_sorted_wrt[OF transpI, of "\<lambda>a b. eb_id a < eb_id b" "cc_evidence_bindings context"]
  by (auto simp: context_catalog_valid_def dest: less_trans)

lemma contains_evidence_iff:
  assumes "context_catalog_valid env context"
  shows "contains_evidence context x \<longleftrightarrow> x \<in> eb_id ` set (cc_evidence_bindings context)"
proof -
  have "contains_evidence context x \<longleftrightarrow> (\<exists>i. binary_search (cc_evidence_bindings context) x = Inr i)"
    by (auto simp: contains_evidence_def split: sum.splits)
  also have "\<dots> \<longleftrightarrow> (\<exists>b \<in> set (cc_evidence_bindings context). eb_id b = x)"
    unfolding binary_search_iff[OF context_catalog_valid_sorted[OF assms]]
    by (metis in_set_conv_nth)
  finally show ?thesis
    by auto
qed

lemma evidence_content_sha256_iff:
  assumes "context_catalog_valid env context"
  shows "evidence_content_sha256 context x = Some d \<longleftrightarrow>
    \<lparr>eb_id = x, eb_content_sha256 = d\<rparr> \<in> set (cc_evidence_bindings context)"
proof -
  note iff = binary_search_iff[OF context_catalog_valid_sorted[OF assms]]
  have "evidence_content_sha256 context x = Some d \<longleftrightarrow>
    (\<exists>i. binary_search (cc_evidence_bindings context) x = Inr i
      \<and> eb_content_sha256 (cc_evidence_bindings context ! i) = d)"
    by (auto simp: evidence_content_sha256_def split: sum.splits)
  then show ?thesis
    by (auto simp: iff in_set_conv_nth)
qed

text \<open>A catalog read back from its own wire form is the catalog.\<close>

lemma context_catalog_deserialize_new:
  assumes "context_catalog_new env bindings = Inr catalog"
  shows "context_catalog_deserialize env catalog = Inr catalog"
proof -
  have sorted: "sorted_wrt (\<lambda>a b. eb_id a < eb_id b) (cc_evidence_bindings catalog)"
    using context_catalog_new_sound(1)[OF assms] by (rule context_catalog_valid_sorted)
  have canonical: "cc_evidence_bindings catalog = sort_key eb_id bindings"
    using assms by (auto simp: context_catalog_new_def Let_def split: sum.splits if_splits)
  then have "sort_key eb_id (cc_evidence_bindings catalog) = sort_key eb_id bindings"
    by (simp add: sort_key_id_if_sorted)
  with assms have "context_catalog_new env (cc_evidence_bindings catalog) = Inr catalog"
    by (simp add: context_catalog_new_def)
  then show ?thesis
    by (simp add: context_catalog_deserialize_def)
qed

section \<open>Laws of the policy\<close>

lemma read_only_policy_sound:
  assumes "read_only_policy env limits = Inr policy"
  shows "policy_valid env policy" and "pp_limits policy = limits"
    and "pp_maximum_access policy = AccessReadOnly"
  using assms by (auto simp: read_only_policy_def policy_valid_def split: sum.splits if_splits)

lemma default_limits_valid: "valid_limits default_limits"
  by (simp add: valid_limits_def default_limits_def plan_limit_defs)

end
