(* ===== verification/Prompt_Types.thy ===== *)
theory Prompt_Types
  imports Backend_Contract
begin

text \<open>
  The part of \<open>crates/prompting/src\<close> (\<open>compiler.rs\<close>, \<open>planner_replanner.rs\<close>) that the
  planner's prompt adapter uses: trust-labelled data sections and runtime constraints, compiled
  messages, and the invocation of the planner prompt.

  A JSON object is the list of its entries in key order, as \<open>serde_json\<close> keeps it in a \<open>BTreeMap\<close>.
  The entries of the evidence packet stay opaque.
\<close>

section \<open>Invocations\<close>

datatype TrustLevel =
  ApplicationPolicy | TrustUser | TrustRepository | TrustTool | UntrustedExternal

datatype SourceKind = SourceUser | SourceRepository | SourceTool | SourceExternal

record DataProvenance =
  dp_source_kind :: SourceKind
  dp_source_id :: string
  dp_artifact_sha256 :: "string option"
  dp_event_id :: "string option"

record DataSection =
  ds_name :: string
  ds_trust :: TrustLevel
  ds_provenance :: DataProvenance
  ds_payload :: json_value

record RuntimeConstraint =
  rc_name :: string
  rc_payload :: json_value

record PromptLimits =
  pm_max_suggested_subtasks :: u32

record PromptInvocation =
  pi_sections :: "DataSection list"
  pi_limits :: PromptLimits
  pi_runtime_constraints :: "RuntimeConstraint list"

section \<open>Compiled prompts\<close>

datatype PromptMessageRole = PromptSystem | PromptUser

datatype MessageContent = ContentText string | ContentJson json_value

text \<open>A semantic version, of the crate \<open>semver\<close>, by its public fields.\<close>

record Version =
  ver_major :: u64
  ver_minor :: u64
  ver_patch :: u64
  ver_pre :: string
  ver_build :: string

definition version_new :: "u64 \<Rightarrow> u64 \<Rightarrow> u64 \<Rightarrow> Version" where
  "version_new major minor patch =
     \<lparr>ver_major = major, ver_minor = minor, ver_patch = patch, ver_pre = [], ver_build = []\<rparr>"

type_synonym PromptId = string

record PromptKey =
  pk_id :: PromptId
  pk_version :: Version

record ManifestProvenance =
  mp_prompt :: PromptKey
  mp_content_sha256 :: string

datatype MessageProvenance =
    FromManifest ManifestProvenance
  | FromRuntimeConstraints ManifestProvenance
  | FromData DataProvenance

record CompiledMessage =
  cm_role :: PromptMessageRole
  cm_trust :: TrustLevel
  cm_provenance :: MessageProvenance
  cm_content :: MessageContent

record CompiledPrompt =
  cp_manifest :: ManifestProvenance
  cp_limits :: PromptLimits
  cp_runtime_constraints :: "RuntimeConstraint list"
  cp_input_sections :: "string list"
  cp_messages :: "CompiledMessage list"
  cp_generation_schema :: json_value
  cp_output_schema :: json_value

section \<open>The invocation of the planner prompt\<close>

record PlannerReplannerBindings =
  rb_plan_id :: string
  rb_base_revision :: u64
  rb_base_plan_sha256 :: string
  rb_obligation_snapshot_sha256 :: string
  rb_acceptance_policy_sha256 :: string
  rb_context_manifest_sha256 :: string
  rb_planner_policy_sha256 :: string

record PlannerEvidencePacket =
  ek_schema_version :: u32
  ek_context_manifest_sha256 :: string
  ek_entries :: "json_value list"
  ek_packet_sha256 :: string

record PlannerReplannerInvocationMaterial =
  im_base_plan :: json_value
  im_protected_obligation_catalog :: json_value
  im_planner_context_catalog :: json_value
  im_evidence_packet :: PlannerEvidencePacket
  im_planner_policy :: json_value
  im_bindings :: PlannerReplannerBindings

text \<open>\<open>format!\<close> of an unsigned integer, and \<open>json!\<close> of an object.\<close>

fun show_nat :: "nat \<Rightarrow> string" where
  "show_nat n = (if n < 10 then [char_of (48 + n)] else show_nat (n div 10) @ [char_of (48 + n mod 10)])"

declare show_nat.simps [simp del]

definition json_number :: "'a::len word \<Rightarrow> json_value" where
  "json_number w = JNumber (show_nat (unat w))"

definition json_object :: "(string \<times> json_value) list \<Rightarrow> json_value" where
  "json_object entries = JObject (bm_of_list entries)"

definition evidence_packet_payload :: "PlannerEvidencePacket \<Rightarrow> json_value" where
  "evidence_packet_payload packet = json_object
     [(''schema_version'', json_number (ek_schema_version packet)),
      (''context_manifest_sha256'', JString (ek_context_manifest_sha256 packet)),
      (''entries'', JArray (ek_entries packet)),
      (''packet_sha256'', JString (ek_packet_sha256 packet))]"

definition binding_payload :: "PlannerReplannerBindings \<Rightarrow> json_value" where
  "binding_payload bindings = json_object
     [(''plan_id'', JString (rb_plan_id bindings)),
      (''base_revision'', json_number (rb_base_revision bindings)),
      (''base_plan_sha256'', JString (rb_base_plan_sha256 bindings)),
      (''obligation_snapshot_sha256'', JString (rb_obligation_snapshot_sha256 bindings)),
      (''acceptance_policy_sha256'', JString (rb_acceptance_policy_sha256 bindings)),
      (''context_manifest_sha256'', JString (rb_context_manifest_sha256 bindings)),
      (''planner_policy_sha256'', JString (rb_planner_policy_sha256 bindings))]"

definition data_section ::
  "string \<Rightarrow> TrustLevel \<Rightarrow> SourceKind \<Rightarrow> string \<Rightarrow> string \<Rightarrow> json_value \<Rightarrow> DataSection" where
  "data_section name trust source_kind source_id artifact payload =
     \<lparr>ds_name = name, ds_trust = trust,
      ds_provenance = \<lparr>dp_source_kind = source_kind, dp_source_id = source_id,
                       dp_artifact_sha256 = Some artifact, dp_event_id = None\<rparr>,
      ds_payload = payload\<rparr>"

definition planner_replanner_invocation :: "PlannerReplannerInvocationMaterial \<Rightarrow> PromptInvocation" where
  "planner_replanner_invocation material =
     (let bindings = im_bindings material; packet = im_evidence_packet material in
      \<lparr>pi_sections =
         [data_section ''base_plan'' UntrustedExternal SourceExternal
            (''accepted-plan:'' @ rb_plan_id bindings @ '':'' @ show_nat (unat (rb_base_revision bindings)))
            (rb_base_plan_sha256 bindings) (im_base_plan material),
          data_section ''protected_obligation_catalog'' TrustUser SourceUser
            ''protected-obligation-catalog''
            (rb_obligation_snapshot_sha256 bindings) (im_protected_obligation_catalog material),
          data_section ''planner_context_catalog'' TrustTool SourceTool ''planner-context-catalog''
            (rb_context_manifest_sha256 bindings) (im_planner_context_catalog material),
          data_section ''planner_evidence_packet'' TrustTool SourceTool ''normalized-planner-evidence''
            (ek_packet_sha256 packet) (evidence_packet_payload packet)],
       pi_limits = \<lparr>pm_max_suggested_subtasks = 0\<rparr>,
       pi_runtime_constraints =
         [\<lparr>rc_name = ''planner_policy'', rc_payload = im_planner_policy material\<rparr>,
          \<lparr>rc_name = ''planner_turn_bindings'', rc_payload = binding_payload bindings\<rparr>]\<rparr>)"

end
