(* ===== verification/Planner_Checks.thy ===== *)
theory Planner_Checks
  imports Planner_Catalogs Prompt_Types
begin

text \<open>
  The checks of \<open>crates/orchestrator/src/planner.rs\<close> that do not change the plan: texts, decision
  bases and obligation references, the structural limits of a proposal with the counting writer of
  the directive, and the invariants of a plan with the search for dependency cycles.

  The source pushes violations to a vector; here each check returns the list it pushes.
\<close>

section \<open>Texts, evidence and references\<close>

definition indexed_field :: "string \<Rightarrow> nat \<Rightarrow> string \<Rightarrow> string" where
  "indexed_field prefix index suffix = prefix @ ''['' @ show_nat index @ '']'' @ suffix"

definition validate_text :: "string \<Rightarrow> string \<Rightarrow> PlannerViolation list" where
  "validate_text field value =
     report (is_blank value) (EmptyText field)
     @ report (length value > MAX_FIELD_BYTES) (FieldTooLarge field MAX_FIELD_BYTES (length value))"

definition validate_evidence_set ::
  "string \<Rightarrow> PlannerEvidenceId btree_set \<Rightarrow> PlannerContextCatalog \<Rightarrow> PlannerViolation list" where
  "validate_evidence_set field evidence_ids context =
     report (evidence_ids = []) (EmptyEvidence field)
     @ report (length evidence_ids > MAX_EVIDENCE_PER_BASIS)
         (EvidenceLimitExceeded field MAX_EVIDENCE_PER_BASIS (length evidence_ids))
     @ map UnknownEvidence (filter (\<lambda>e. \<not> contains_evidence context e) evidence_ids)"

definition validate_basis ::
  "string \<Rightarrow> DecisionBasis \<Rightarrow> PlannerContextCatalog \<Rightarrow> PlannerViolation list" where
  "validate_basis field basis context =
     validate_text (field @ ''.rationale'') (db_rationale basis)
     @ report (db_evidence_ids basis = []) (EmptyEvidence field)
     @ report (length (db_evidence_ids basis) > MAX_EVIDENCE_PER_BASIS)
         (EvidenceLimitExceeded field MAX_EVIDENCE_PER_BASIS (length (db_evidence_ids basis)))
     @ map UnknownEvidence (filter (\<lambda>e. \<not> contains_evidence context e) (db_evidence_ids basis))"

definition validate_obligation_refs ::
  "string \<Rightarrow> ProtectedObligationRef btree_set \<Rightarrow> ProtectedObligationCatalog \<Rightarrow> PlannerViolation list" where
  "validate_obligation_refs field refs catalog =
     report (refs = []) (EmptyObligationSet field)
     @ concat (map (\<lambda>r.
         (case bm_get (oc_obligations catalog) (obr_id r) of
            None \<Rightarrow> [UnknownObligation (obr_id r)]
          | Some obligation \<Rightarrow>
              report (ob_content_sha256 obligation \<noteq> obr_content_sha256 r)
                (ObligationDigestMismatch (obr_id r)))) refs)"

definition validate_single_obligation_ref ::
  "ProtectedObligationRef \<Rightarrow> ProtectedObligationCatalog \<Rightarrow> PlannerViolation list" where
  "validate_single_obligation_ref r catalog = validate_obligation_refs ''obligation_ref'' [r] catalog"

section \<open>Structural limits\<close>

definition selection_len :: "WorkSelection \<Rightarrow> nat" where
  "selection_len selection = usize_saturating_add (length (ws_existing selection)) (length (ws_new selection))"

definition check_collection :: "string \<Rightarrow> nat \<Rightarrow> nat \<Rightarrow> PlannerViolation list" where
  "check_collection field actual maximum =
     report (\<not> actual \<le> maximum) (DirectiveCollectionLimitExceeded field maximum actual)"

text \<open>The source also returns whether a limit was exceeded, which is whether it pushed a violation.\<close>

definition directive_collection_violations :: "PlannerDirective \<Rightarrow> PlannerViolation list" where
  "directive_collection_violations directive =
     check_collection ''directive.execute'' (selection_len (pd_execute directive)) PLAN_HARD_MAX_WORK_ORDERS
     @ concat (map (\<lambda>(index, delegation).
         check_collection (indexed_field ''directive.delegations'' index ''.work_orders'')
           (selection_len (dr_work_orders delegation)) PLAN_HARD_MAX_WORK_ORDERS
         @ check_collection (indexed_field ''directive.delegations'' index ''.basis.evidence_ids'')
             (length (db_evidence_ids (dr_basis delegation))) MAX_EVIDENCE_PER_BASIS)
         (enumerate0 (pd_delegations directive)))
     @ concat (map (\<lambda>(index, clarification).
         check_collection (indexed_field ''directive.clarifications'' index ''.blocked_obligations'')
           (length (cr_blocked_obligations clarification)) HARD_MAX_OBLIGATIONS
         @ check_collection (indexed_field ''directive.clarifications'' index ''.basis.evidence_ids'')
             (length (db_evidence_ids (cr_basis clarification))) MAX_EVIDENCE_PER_BASIS)
         (enumerate0 (pd_clarifications directive)))
     @ concat (map (\<lambda>(index, escalation).
         check_collection (indexed_field ''directive.escalations'' index ''.blocked_obligations'')
           (length (es_blocked_obligations escalation)) HARD_MAX_OBLIGATIONS
         @ check_collection (indexed_field ''directive.escalations'' index ''.basis.evidence_ids'')
             (length (db_evidence_ids (es_basis escalation))) MAX_EVIDENCE_PER_BASIS)
         (enumerate0 (pd_escalations directive)))
     @ concat (map (\<lambda>(index, claim).
         check_collection (indexed_field ''directive.finish_claims'' index ''.evidence_ids'')
           (length (fc_evidence_ids claim)) MAX_EVIDENCE_PER_BASIS)
         (enumerate0 (pd_finish_claims directive)))"

record EncodedLimitWriter =
  ew_written :: nat
  ew_limit :: nat
  ew_exceeded :: bool

text \<open>\<open>write\<close> returns whether it accepted the bytes, and the writer after it.\<close>

definition encoded_limit_write :: "EncodedLimitWriter \<Rightarrow> u8 list \<Rightarrow> bool \<times> EncodedLimitWriter" where
  "encoded_limit_write self bytes =
     (case usize_checked_add (ew_written self) (length bytes) of
        None \<Rightarrow> (False, self\<lparr>ew_exceeded := True\<rparr>)
      | Some next \<Rightarrow>
          if next > ew_limit self then (False, self\<lparr>ew_exceeded := True\<rparr>)
          else (True, self\<lparr>ew_written := next\<rparr>))"

text \<open>The serializer writes its chunks in order and stops at the first refusal.\<close>

fun to_writer :: "EncodedLimitWriter \<Rightarrow> u8 list list \<Rightarrow> bool \<times> EncodedLimitWriter" where
  "to_writer writer [] = (True, writer)"
| "to_writer writer (chunk # chunks) =
     (case encoded_limit_write writer chunk of
        (False, writer') \<Rightarrow> (False, writer')
      | (True, writer') \<Rightarrow> to_writer writer' chunks)"

definition directive_exceeds_encoded_limit ::
  "('a) planner_env_scheme \<Rightarrow> PlannerDirective \<Rightarrow> bool" where
  "directive_exceeds_encoded_limit env directive =
     (case pe_directive_chunks env directive of
        Inl e \<Rightarrow> True
      | Inr chunks \<Rightarrow>
          (case to_writer \<lparr>ew_written = 0, ew_limit = HARD_MAX_DIRECTIVE_ENCODED_BYTES,
                          ew_exceeded = False\<rparr> chunks of
             (accepted, writer) \<Rightarrow> \<not> accepted \<or> ew_exceeded writer))"

definition proposal_text_bytes :: "PlannerTurnProposal \<Rightarrow> nat" where
  "proposal_text_bytes proposal =
     (let patch = pt_patch proposal; directive = pt_directive proposal in
      foldl usize_saturating_add
        (case pa_strategy_summary patch of None \<Rightarrow> 0 | Some s \<Rightarrow> length s)
        (concat (map (\<lambda>t. [length (nvt_statement t), length (db_rationale (nvt_basis t))])
            (pa_add_verification_targets patch))
         @ concat (map (\<lambda>w. [length (nw_objective w), length (db_rationale (nw_basis w))])
            (pa_add_work_orders patch))
         @ concat (map (\<lambda>w. [length (rw_objective w), length (db_rationale (rw_basis w))])
            (pa_replace_work_orders patch))
         @ map (\<lambda>w. length (db_rationale (cw_basis w))) (pa_cancel_work_orders patch)
         @ map (\<lambda>d. length (db_rationale (dr_basis d))) (pd_delegations directive)
         @ concat (map (\<lambda>c. [length (cr_question c), length (db_rationale (cr_basis c))])
            (pd_clarifications directive))
         @ concat (map (\<lambda>c. [length (es_request c), length (db_rationale (es_basis c))])
            (pd_escalations directive))))"

definition plan_structural_violations ::
  "('a) planner_env_scheme \<Rightarrow> PlannerTurnProposal \<Rightarrow> PlanSnapshot \<Rightarrow> PlannerPolicy
     \<Rightarrow> PlannerViolation list" where
  "plan_structural_violations env proposal base policy =
     (let limits = pp_limits policy;
          patch = pt_patch proposal;
          directive = pt_directive proposal;
          overflow = (\<not> patch_is_empty patch \<and> checked_add (ps_revision base) 1 = None);
          operations = operation_count patch;
          work_orders = usize_saturating_add (length (ps_work_orders base)) (length (pa_add_work_orders patch));
          targets = usize_saturating_add (length (ps_verification_targets base))
            (length (pa_add_verification_targets patch));
          collections = directive_collection_violations directive;
          violations =
            report overflow PlanRevisionOverflow
            @ report (operations > HARD_MAX_PATCH_OPERATIONS
                \<or> operations > unat (pl_max_patch_operations limits))
                (PatchOperationLimitExceeded (pl_max_patch_operations limits) operations)
            @ report (work_orders > PLAN_HARD_MAX_WORK_ORDERS
                \<or> work_orders > unat (pl_max_work_orders limits))
                (PlanWorkOrderLimitExceeded (pl_max_work_orders limits) work_orders)
            @ report (targets > HARD_MAX_VERIFICATION_TARGETS
                \<or> targets > unat (pl_max_verification_targets limits))
                (VerificationTargetLimitExceeded (pl_max_verification_targets limits) targets)
            @ report (length (pd_delegations directive) > HARD_MAX_DELEGATIONS)
                (DelegationLimitExceeded (pl_max_delegations limits) (length (pd_delegations directive)))
            @ report (length (pd_clarifications directive) > HARD_MAX_QUESTIONS)
                (ClarificationLimitExceeded (pl_max_questions limits) (length (pd_clarifications directive)))
            @ report (length (pd_escalations directive) > HARD_MAX_ESCALATIONS)
                (EscalationLimitExceeded HARD_MAX_ESCALATIONS (length (pd_escalations directive)))
            @ report (length (pd_finish_claims directive) > HARD_MAX_FINISH_CLAIMS)
                (FinishClaimLimitExceeded HARD_MAX_FINISH_CLAIMS (length (pd_finish_claims directive)))
            @ collections;
          hard_cardinality_exceeded =
            (overflow \<or> operations > HARD_MAX_PATCH_OPERATIONS
             \<or> work_orders > PLAN_HARD_MAX_WORK_ORDERS \<or> targets > HARD_MAX_VERIFICATION_TARGETS
             \<or> length (pd_delegations directive) > HARD_MAX_DELEGATIONS
             \<or> length (pd_clarifications directive) > HARD_MAX_QUESTIONS
             \<or> length (pd_escalations directive) > HARD_MAX_ESCALATIONS
             \<or> length (pd_finish_claims directive) > HARD_MAX_FINISH_CLAIMS
             \<or> collections \<noteq> [])
      in if hard_cardinality_exceeded then violations
         else if directive_exceeds_encoded_limit env directive
           then violations @ [DirectiveEncodedLimitExceeded HARD_MAX_DIRECTIVE_ENCODED_BYTES]
         else (let text_bytes = proposal_text_bytes proposal in
           violations
           @ report (text_bytes > HARD_MAX_TEXT_BYTES \<or> text_bytes > unat (pl_max_text_bytes limits))
               (TextLimitExceeded (pl_max_text_bytes limits) text_bytes)))"

section \<open>Dependency cycles\<close>

text \<open>
  \<open>visit\<close> returns whether it met an active node, with the sets \<open>active\<close> and \<open>complete\<close> after it.  The
  fuel bounds the depth of the recursion; \<open>None\<close> stands for running out of it, which the fuel of
  \<open>plan_graph_has_cycle\<close> is shown to exclude.
\<close>

fun plan_visit ::
  "nat \<Rightarrow> PlanWorkOrderId \<Rightarrow> plan_orders \<Rightarrow> PlanWorkOrderId btree_set \<Rightarrow> PlanWorkOrderId btree_set
     \<Rightarrow> (bool \<times> PlanWorkOrderId btree_set \<times> PlanWorkOrderId btree_set) option"
and plan_visit_dependencies ::
  "nat \<Rightarrow> PlanWorkOrderId list \<Rightarrow> plan_orders \<Rightarrow> PlanWorkOrderId btree_set \<Rightarrow> PlanWorkOrderId btree_set
     \<Rightarrow> (bool \<times> PlanWorkOrderId btree_set \<times> PlanWorkOrderId btree_set) option"
where
  "plan_visit 0 node work_orders active complete = None"
| "plan_visit (Suc n) node work_orders active complete =
     (if bs_contains complete node then Some (False, active, complete)
      else if bs_contains active node then Some (True, active, complete)
      else (case plan_visit_dependencies n
                 (case bm_get work_orders node of None \<Rightarrow> [] | Some work \<Rightarrow> pw_dependencies work)
                 work_orders (bs_insert node active) complete of
              None \<Rightarrow> None
            | Some (True, active', complete') \<Rightarrow> Some (True, active', complete')
            | Some (False, active', complete') \<Rightarrow>
                Some (False, bs_remove node active', bs_insert node complete')))"
| "plan_visit_dependencies n [] work_orders active complete = Some (False, active, complete)"
| "plan_visit_dependencies n (dependency # ds) work_orders active complete =
     (if \<not> bm_contains_key work_orders dependency
        then plan_visit_dependencies n ds work_orders active complete
      else case plan_visit n dependency work_orders active complete of
          None \<Rightarrow> None
        | Some (True, active', complete') \<Rightarrow> Some (True, active', complete')
        | Some (False, active', complete') \<Rightarrow>
            plan_visit_dependencies n ds work_orders active' complete')"

text \<open>\<open>any\<close> over the keys, with the two sets kept between the calls; every key passes the test of the
  dependency loop.\<close>

definition plan_graph_has_cycle :: "plan_orders \<Rightarrow> bool option" where
  "plan_graph_has_cycle work_orders =
     map_option fst
       (plan_visit_dependencies (Suc (length work_orders)) (bm_keys work_orders) work_orders [] [])"

section \<open>Plan invariants\<close>

definition planned_order_violations ::
  "PlanSnapshot \<Rightarrow> ProtectedObligationCatalog \<Rightarrow> PlannerPolicy \<Rightarrow> PlanWorkOrderId \<times> PlannedWorkOrder
     \<Rightarrow> PlannerViolation list" where
  "planned_order_violations plan obligations policy entry =
     (case entry of (key, work) \<Rightarrow>
        report (key \<noteq> pw_id work) BasePlanInvalid
        @ report (access_rank (pw_required_access work) > access_rank (pp_maximum_access policy))
            (AccessExpansion (pw_required_access work))
        @ concat (map (\<lambda>dependency.
            (case bm_get (ps_work_orders plan) dependency of
               None \<Rightarrow> [UnknownWorkOrder dependency]
             | Some dependency_work \<Rightarrow>
                 report (pw_state dependency_work = WorkCancelled) (DependencyOnCancelled key dependency)))
            (pw_dependencies work))
        @ map UnknownVerificationTarget
            (filter (\<lambda>t. \<not> bm_contains_key (ps_verification_targets plan) t) (pw_verification_targets work))
        @ validate_obligation_refs ''plan.work_order.obligations'' (pw_obligations work) obligations)"

definition planned_target_violations ::
  "ProtectedObligationCatalog \<Rightarrow> VerificationTargetId \<times> VerificationTarget \<Rightarrow> PlannerViolation list" where
  "planned_target_violations obligations entry =
     (case entry of (key, target) \<Rightarrow>
        report (key \<noteq> vt_id target) BasePlanInvalid
        @ validate_obligation_refs ''plan.verification_target.obligations'' (vt_obligations target)
            obligations)"

definition obligation_covered :: "PlanSnapshot \<Rightarrow> ProtectedObligation \<Rightarrow> bool" where
  "obligation_covered plan obligation =
     list_ex (\<lambda>work. pw_state work \<noteq> WorkCancelled
         \<and> list_ex (\<lambda>item. obr_id item = ob_id obligation) (pw_obligations work))
       (bm_values (ps_work_orders plan))"

definition required_obligations :: "ProtectedObligationCatalog \<Rightarrow> ProtectedObligation list" where
  "required_obligations obligations = filter ob_required (bm_values (oc_obligations obligations))"

text \<open>The cycle search returns always (\<open>plan_graph_has_cycle_iff\<close> below), so \<open>\<noteq> Some False\<close> is \<open>= Some True\<close>.\<close>

definition plan_invariant_violations ::
  "PlanSnapshot \<Rightarrow> ProtectedObligationCatalog \<Rightarrow> PlannerPolicy \<Rightarrow> bool \<Rightarrow> PlannerViolation list" where
  "plan_invariant_violations plan obligations policy allow_empty =
     (let limits = pp_limits policy in
      report (length (ps_work_orders plan) > unat (pl_max_work_orders limits))
        (PlanWorkOrderLimitExceeded (pl_max_work_orders limits) (length (ps_work_orders plan)))
      @ report (length (ps_verification_targets plan) > unat (pl_max_verification_targets limits))
          (VerificationTargetLimitExceeded (pl_max_verification_targets limits)
             (length (ps_verification_targets plan)))
      @ concat (map (planned_order_violations plan obligations policy) (ps_work_orders plan))
      @ concat (map (planned_target_violations obligations) (ps_verification_targets plan))
      @ report (plan_graph_has_cycle (ps_work_orders plan) \<noteq> Some False) PlanDependencyCycle
      @ (if \<not> allow_empty \<or> ps_work_orders plan \<noteq> [] then
           map (\<lambda>obligation. RequiredObligationUncovered (ob_id obligation))
             (filter (\<lambda>obligation. \<not> obligation_covered plan obligation) (required_obligations obligations))
         else []))"

end
