(* ===== verification/Planner_Turn.thy ===== *)
theory Planner_Turn
  imports Planner_Checks
begin

text \<open>
  One planner turn, \<open>PlannerTurnProposal::validate_and_apply_with_allocations\<close> of
  \<open>crates/orchestrator/src/planner.rs\<close>: the bindings of the proposal, the derived identities of new
  orders and targets, the three passes that apply the patch, and the resolution of the directive.

  Each pass over the patch returns the changed plan with the violations that it pushes; the passes
  go on after a violation, as in the source, and the caller discards the plan if there is any.
\<close>

unbundle bit_operations_syntax

section \<open>Bindings\<close>

definition plan_binding_violations ::
  "('a) planner_env_scheme \<Rightarrow> PlannerTurnProposal \<Rightarrow> PlanSnapshot \<Rightarrow> ProtectedObligationCatalog
     \<Rightarrow> PlannerContextCatalog \<Rightarrow> PlannerPolicy \<Rightarrow> PlannerViolation list" where
  "plan_binding_violations env proposal base obligations context policy =
     (let bindings = pt_bindings proposal in
      report (pt_schema_version proposal \<noteq> PLAN_SCHEMA_VERSION)
        (PlanUnsupportedSchemaVersion (pt_schema_version proposal))
      @ report (\<not> policy_valid env policy) PolicySnapshotInvalid
      @ report (\<not> obligation_catalog_valid env obligations) ObligationCatalogInvalid
      @ report (\<not> context_catalog_valid env context) ContextCatalogInvalid
      @ report (ps_schema_version base \<noteq> PLAN_SCHEMA_VERSION
          \<or> ps_obligation_snapshot_sha256 base \<noteq> oc_snapshot_sha256 obligations
          \<or> ps_acceptance_policy_sha256 base \<noteq> oc_acceptance_policy_sha256 obligations)
          BasePlanInvalid
      @ report (tb_plan_id bindings \<noteq> ps_plan_id base
          \<or> tb_base_revision bindings \<noteq> ps_revision base
          \<or> ok (plan_sha256 env base) \<noteq> Some (tb_base_plan_sha256 bindings))
          StalePlanBinding
      @ report (tb_obligation_snapshot_sha256 bindings \<noteq> oc_snapshot_sha256 obligations)
          ObligationSnapshotMismatch
      @ report (tb_acceptance_policy_sha256 bindings \<noteq> oc_acceptance_policy_sha256 obligations)
          AcceptancePolicyMismatch
      @ report (tb_context_manifest_sha256 bindings \<noteq> cc_manifest_sha256 context)
          ContextManifestMismatch
      @ report (tb_planner_policy_sha256 bindings \<noteq> pp_policy_sha256 policy) PlannerPolicyMismatch
      @ (if ps_revision base > 0 \<or> ps_work_orders base \<noteq> [] then
           plan_invariant_violations base obligations policy False
         else []))"

section \<open>Derived identities\<close>

text \<open>
  \<open>derived_patch_uuid\<close>: the first 16 bytes of a SHA-256 over the domain, the plan, the next revision
  and the local number, with the version and variant bits of UUIDv8.
\<close>

definition to_be_bytes :: "'a::len word \<Rightarrow> u8 list" where
  "to_be_bytes w = rev (map (\<lambda>i. ucast (drop_bit (8 * i) w)) [0..<LENGTH('a) div 8])"

definition derived_patch_uuid ::
  "('a) backend_env_scheme \<Rightarrow> string \<Rightarrow> PlanSnapshot \<Rightarrow> u32 \<Rightarrow> uuid128" where
  "derived_patch_uuid env domain base local_id =
     (let next_revision =
            (case checked_add (ps_revision base) 1 of Some r \<Rightarrow> r | None \<Rightarrow> ps_revision base);
          digest = be_sha256 env
            (str_bytes domain
             @ to_be_bytes (plan_uuid (ps_plan_id base))
             @ to_be_bytes next_revision
             @ to_be_bytes local_id);
          bytes = take 16 digest;
          bytes6 = bytes[6 := ((bytes ! 6) AND 0x0f) OR 0x80];
          bytes8 = bytes6[8 := ((bytes6 ! 8) AND 0x3f) OR 0x80]
      in word_rcat bytes8)"

definition derived_work_order_id ::
  "('a) backend_env_scheme \<Rightarrow> PlanSnapshot \<Rightarrow> LocalWorkOrderId \<Rightarrow> PlanWorkOrderId" where
  "derived_work_order_id env base local_id =
     PlanWorkOrderId (derived_patch_uuid env ''birdcode.plan.work-order.v1'' base
       (local_work_order_number local_id))"

definition derived_target_id ::
  "('a) backend_env_scheme \<Rightarrow> PlanSnapshot \<Rightarrow> LocalVerificationTargetId \<Rightarrow> VerificationTargetId" where
  "derived_target_id env base local_id =
     VerificationTargetId (derived_patch_uuid env ''birdcode.plan.verification-target.v1'' base
       (local_target_number local_id))"

type_synonym work_ids = "(LocalWorkOrderId, PlanWorkOrderId) btree_map"
type_synonym target_ids = "(LocalVerificationTargetId, VerificationTargetId) btree_map"

fun allocate_work_ids ::
  "('a) backend_env_scheme \<Rightarrow> PlanSnapshot \<Rightarrow> work_ids \<Rightarrow> NewWorkOrder list
     \<Rightarrow> work_ids \<times> PlannerViolation list" where
  "allocate_work_ids env base ids [] = (ids, [])"
| "allocate_work_ids env base ids (work # rest) =
     (let local_id = nw_local_id work in
      if local_work_order_number local_id = 0 then
        (case allocate_work_ids env base ids rest of (ids', vs) \<Rightarrow>
           (ids', InvalidLocalWorkOrderId local_id # vs))
      else
        (case allocate_work_ids env base
                (bm_insert local_id (derived_work_order_id env base local_id) ids) rest of (ids', vs) \<Rightarrow>
           (ids', report (bm_contains_key ids local_id) (DuplicateLocalWorkOrderId local_id) @ vs)))"

fun allocate_target_ids ::
  "('a) backend_env_scheme \<Rightarrow> PlanSnapshot \<Rightarrow> target_ids \<Rightarrow> NewVerificationTarget list
     \<Rightarrow> target_ids \<times> PlannerViolation list" where
  "allocate_target_ids env base ids [] = (ids, [])"
| "allocate_target_ids env base ids (target # rest) =
     (let local_id = nvt_local_id target in
      if local_target_number local_id = 0 then
        (case allocate_target_ids env base ids rest of (ids', vs) \<Rightarrow>
           (ids', InvalidLocalVerificationTargetId local_id # vs))
      else
        (case allocate_target_ids env base
                (bm_insert local_id (derived_target_id env base local_id) ids) rest of (ids', vs) \<Rightarrow>
           (ids', report (bm_contains_key ids local_id) (DuplicateLocalVerificationTargetId local_id) @ vs)))"

definition allocate_patch_ids ::
  "('a) backend_env_scheme \<Rightarrow> PlanSnapshot \<Rightarrow> PlanPatch
     \<Rightarrow> (work_ids \<times> target_ids) \<times> PlannerViolation list" where
  "allocate_patch_ids env base patch =
     (case allocate_work_ids env base [] (pa_add_work_orders patch) of (wids, vs) \<Rightarrow>
        (case allocate_target_ids env base [] (pa_add_verification_targets patch) of (tids, vs') \<Rightarrow>
           ((wids, tids), vs @ vs')))"

section \<open>Applying the patch\<close>

fun apply_verification_targets ::
  "PlanSnapshot \<Rightarrow> NewVerificationTarget list \<Rightarrow> target_ids \<Rightarrow> ProtectedObligationCatalog
     \<Rightarrow> PlannerContextCatalog \<Rightarrow> PlanSnapshot \<times> PlannerViolation list" where
  "apply_verification_targets plan [] ids obligations context = (plan, [])"
| "apply_verification_targets plan (target # rest) ids obligations context =
     (let vs = validate_text ''verification_target.statement'' (nvt_statement target)
               @ validate_basis ''verification_target.basis'' (nvt_basis target) context
               @ validate_obligation_refs ''verification_target.obligations'' (nvt_obligations target)
                   obligations;
          plan' = (case bm_get ids (nvt_local_id target) of
              None \<Rightarrow> plan
            | Some target_id \<Rightarrow>
                plan\<lparr>ps_verification_targets := bm_insert target_id
                  \<lparr>vt_id = target_id, vt_statement = nvt_statement target,
                   vt_obligations = nvt_obligations target, vt_basis = nvt_basis target\<rparr>
                  (ps_verification_targets plan)\<rparr>)
      in case apply_verification_targets plan' rest ids obligations context of (plan'', vs') \<Rightarrow>
           (plan'', vs @ vs'))"

definition resolve_dependencies ::
  "PlanWorkOrderId btree_set \<Rightarrow> LocalWorkOrderId btree_set \<Rightarrow> work_ids \<Rightarrow> PlanSnapshot
     \<Rightarrow> PlanWorkOrderId btree_set \<times> PlannerViolation list" where
  "resolve_dependencies existing new allocated plan =
     (bs_of_list (filter (bm_contains_key (ps_work_orders plan)) existing
        @ List.map_filter (bm_get allocated) new),
      map UnknownWorkOrder (filter (\<lambda>i. \<not> bm_contains_key (ps_work_orders plan) i) existing)
      @ map UnknownNewWorkOrder (filter (\<lambda>l. bm_get allocated l = None) new))"

definition resolve_verification_targets ::
  "VerificationTargetId btree_set \<Rightarrow> LocalVerificationTargetId btree_set \<Rightarrow> target_ids \<Rightarrow> PlanSnapshot
     \<Rightarrow> VerificationTargetId btree_set \<times> PlannerViolation list" where
  "resolve_verification_targets existing new allocated plan =
     (bs_of_list (filter (bm_contains_key (ps_verification_targets plan)) existing
        @ List.map_filter (bm_get allocated) new),
      map UnknownVerificationTarget
        (filter (\<lambda>i. \<not> bm_contains_key (ps_verification_targets plan) i) existing)
      @ map UnknownNewVerificationTarget (filter (\<lambda>l. bm_get allocated l = None) new))"

definition validate_work_order_fields ::
  "PlanWorkOrderId option \<Rightarrow> string \<Rightarrow> ProtectedObligationRef btree_set \<Rightarrow> PlanWorkOrderId btree_set
     \<Rightarrow> VerificationTargetId btree_set \<Rightarrow> PlannerAccess \<Rightarrow> DecisionBasis
     \<Rightarrow> ProtectedObligationCatalog \<Rightarrow> PlannerContextCatalog \<Rightarrow> PlannerPolicy \<Rightarrow> PlannerViolation list" where
  "validate_work_order_fields order_id objective refs dependencies targets access basis
       obligations context policy =
     validate_text ''work_order.objective'' objective
     @ validate_basis ''work_order.basis'' basis context
     @ validate_obligation_refs ''work_order.obligations'' refs obligations
     @ report (targets = []) (EmptyVerificationTargets order_id)
     @ report (length dependencies > PLAN_HARD_MAX_DEPENDENCIES
         \<or> length dependencies > unat (pl_max_dependencies_per_work_order (pp_limits policy)))
         (PlanDependencyLimitExceeded (pl_max_dependencies_per_work_order (pp_limits policy))
           (length dependencies))
     @ report (access_rank access > access_rank (pp_maximum_access policy)) (AccessExpansion access)"

fun apply_work_order_additions ::
  "PlanSnapshot \<Rightarrow> NewWorkOrder list \<Rightarrow> work_ids \<Rightarrow> target_ids \<Rightarrow> ProtectedObligationCatalog
     \<Rightarrow> PlannerContextCatalog \<Rightarrow> PlannerPolicy \<Rightarrow> PlanSnapshot \<times> PlannerViolation list" where
  "apply_work_order_additions plan [] wids tids obligations context policy = (plan, [])"
| "apply_work_order_additions plan (work # rest) wids tids obligations context policy =
     (case bm_get wids (nw_local_id work) of
        None \<Rightarrow> apply_work_order_additions plan rest wids tids obligations context policy
      | Some order_id \<Rightarrow>
          (case resolve_dependencies (nw_existing_dependencies work) (nw_new_dependencies work) wids plan of
             (dependencies, vs1) \<Rightarrow>
               (case resolve_verification_targets (nw_existing_verification_targets work)
                       (nw_new_verification_targets work) tids plan of
                  (targets, vs2) \<Rightarrow>
                    (let vs3 = validate_work_order_fields None (nw_objective work) (nw_obligations work)
                           dependencies targets (nw_required_access work) (nw_basis work)
                           obligations context policy;
                         plan' = plan\<lparr>ps_work_orders := bm_insert order_id
                           \<lparr>pw_id = order_id, pw_revision = 1, pw_objective = nw_objective work,
                            pw_obligations = nw_obligations work, pw_dependencies = dependencies,
                            pw_verification_targets = targets,
                            pw_required_access = nw_required_access work, pw_state = WorkPending,
                            pw_basis = nw_basis work\<rparr> (ps_work_orders plan)\<rparr>
                     in case apply_work_order_additions plan' rest wids tids obligations context policy of
                          (plan'', vs4) \<Rightarrow> (plan'', vs1 @ vs2 @ vs3 @ vs4)))))"

text \<open>The checks that replacement and cancellation share: the revision seen, and a state that may change.\<close>

definition mutation_violations ::
  "('a) planner_env_scheme \<Rightarrow> PlannedWorkOrder \<Rightarrow> ProtectedWorkOrderRef \<Rightarrow> PlannerViolation list" where
  "mutation_violations env current target =
     report (ok (revision_sha256 env current) \<noteq> Some (wr_revision_sha256 target))
       (StaleWorkOrder (wr_id target))
     @ report (\<not> (pw_state current = WorkPending \<or> pw_state current = WorkFailed))
       (ImmutableWorkOrder (wr_id target) (pw_state current))"

fun apply_replacements ::
  "('a) planner_env_scheme \<Rightarrow> PlanSnapshot \<Rightarrow> PlanWorkOrderId btree_set \<Rightarrow> ReplaceWorkOrder list
     \<Rightarrow> work_ids \<Rightarrow> target_ids \<Rightarrow> ProtectedObligationCatalog \<Rightarrow> PlannerContextCatalog \<Rightarrow> PlannerPolicy
     \<Rightarrow> (PlanSnapshot \<times> PlanWorkOrderId btree_set) \<times> PlannerViolation list" where
  "apply_replacements env plan seen [] wids tids obligations context policy = ((plan, seen), [])"
| "apply_replacements env plan seen (replacement # rest) wids tids obligations context policy =
     (let order_id = wr_id (rw_target replacement);
          vs0 = report (bs_contains seen order_id) (WorkOrderOperationConflict order_id);
          seen' = bs_insert order_id seen
      in case bm_get (ps_work_orders plan) order_id of
           None \<Rightarrow>
             (case apply_replacements env plan seen' rest wids tids obligations context policy of
                (result, vs) \<Rightarrow> (result, vs0 @ UnknownWorkOrder order_id # vs))
         | Some current \<Rightarrow>
             (case resolve_dependencies (rw_existing_dependencies replacement)
                     (rw_new_dependencies replacement) wids plan of
                (dependencies, vs1) \<Rightarrow>
                  (case resolve_verification_targets (rw_existing_verification_targets replacement)
                          (rw_new_verification_targets replacement) tids plan of
                     (targets, vs2) \<Rightarrow>
                       (let vs3 = validate_work_order_fields (Some order_id) (rw_objective replacement)
                              (rw_obligations replacement) dependencies targets
                              (rw_required_access replacement) (rw_basis replacement)
                              obligations context policy;
                            revision = (case checked_add (pw_revision current) 1 of
                                Some r \<Rightarrow> r | None \<Rightarrow> pw_revision current);
                            vs4 = report (checked_add (pw_revision current) 1 = None)
                              (WorkOrderRevisionOverflow order_id);
                            plan' = plan\<lparr>ps_work_orders := bm_insert order_id
                              \<lparr>pw_id = order_id, pw_revision = revision,
                               pw_objective = rw_objective replacement,
                               pw_obligations = rw_obligations replacement,
                               pw_dependencies = dependencies, pw_verification_targets = targets,
                               pw_required_access = rw_required_access replacement,
                               pw_state = WorkPending, pw_basis = rw_basis replacement\<rparr>
                              (ps_work_orders plan)\<rparr>
                        in case apply_replacements env plan' seen' rest wids tids obligations context policy of
                             (result, vs) \<Rightarrow>
                               (result, vs0 @ mutation_violations env current (rw_target replacement)
                                 @ vs1 @ vs2 @ vs3 @ vs4 @ vs)))))"

fun apply_cancellations ::
  "('a) planner_env_scheme \<Rightarrow> PlanSnapshot \<Rightarrow> PlanWorkOrderId btree_set \<Rightarrow> CancelWorkOrder list
     \<Rightarrow> PlannerContextCatalog \<Rightarrow> PlanSnapshot \<times> PlannerViolation list" where
  "apply_cancellations env plan seen [] context = (plan, [])"
| "apply_cancellations env plan seen (cancellation # rest) context =
     (let order_id = wr_id (cw_target cancellation);
          vs0 = report (bs_contains seen order_id) (WorkOrderOperationConflict order_id)
                @ validate_basis ''cancel_work_order.basis'' (cw_basis cancellation) context;
          seen' = bs_insert order_id seen
      in case bm_get (ps_work_orders plan) order_id of
           None \<Rightarrow>
             (case apply_cancellations env plan seen' rest context of
                (plan'', vs) \<Rightarrow> (plan'', vs0 @ UnknownWorkOrder order_id # vs))
         | Some current \<Rightarrow>
             (let revision = (case checked_add (pw_revision current) 1 of
                      Some r \<Rightarrow> r | None \<Rightarrow> pw_revision current);
                  vs1 = report (checked_add (pw_revision current) 1 = None)
                    (WorkOrderRevisionOverflow order_id);
                  plan' = plan\<lparr>ps_work_orders := bm_insert order_id
                    (current\<lparr>pw_state := WorkCancelled, pw_revision := revision,
                             pw_basis := cw_basis cancellation\<rparr>)
                    (ps_work_orders plan)\<rparr>
              in case apply_cancellations env plan' seen' rest context of
                   (plan'', vs) \<Rightarrow>
                     (plan'', vs0 @ mutation_violations env current (cw_target cancellation) @ vs1 @ vs)))"

definition apply_work_order_mutations ::
  "('a) planner_env_scheme \<Rightarrow> PlanSnapshot \<Rightarrow> PlanPatch \<Rightarrow> work_ids \<Rightarrow> target_ids
     \<Rightarrow> ProtectedObligationCatalog \<Rightarrow> PlannerContextCatalog \<Rightarrow> PlannerPolicy
     \<Rightarrow> PlanSnapshot \<times> PlannerViolation list" where
  "apply_work_order_mutations env plan patch wids tids obligations context policy =
     (case apply_replacements env plan [] (pa_replace_work_orders patch) wids tids obligations context policy of
        ((plan', seen), vs) \<Rightarrow>
          (case apply_cancellations env plan' seen (pa_cancel_work_orders patch) context of
             (plan'', vs') \<Rightarrow> (plan'', vs @ vs')))"

section \<open>Resolving the directive\<close>

definition resolve_work_selection ::
  "WorkSelection \<Rightarrow> work_ids \<Rightarrow> PlanSnapshot \<Rightarrow> PlanWorkOrderId list \<times> PlannerViolation list" where
  "resolve_work_selection selection local_ids plan =
     (bs_of_list (filter (bm_contains_key (ps_work_orders plan)) (ws_existing selection)
        @ List.map_filter (bm_get local_ids) (ws_new selection)),
      map UnknownWorkOrder (filter (\<lambda>i. \<not> bm_contains_key (ps_work_orders plan) i) (ws_existing selection))
      @ map UnknownNewWorkOrder (filter (\<lambda>l. bm_get local_ids l = None) (ws_new selection)))"

definition validate_pending_target :: "PlanWorkOrderId \<Rightarrow> PlanSnapshot \<Rightarrow> PlannerViolation list" where
  "validate_pending_target order_id plan =
     report (case bm_get (ps_work_orders plan) order_id of
               None \<Rightarrow> True | Some work \<Rightarrow> pw_state work \<noteq> WorkPending)
       (DirectiveTargetNotPending order_id)"

text \<open>The inner loop over the orders of one delegation.\<close>

fun select_delegated ::
  "PlanSnapshot \<Rightarrow> PlanWorkOrderId btree_set \<Rightarrow> PlanWorkOrderId list
     \<Rightarrow> PlanWorkOrderId btree_set \<times> PlannerViolation list" where
  "select_delegated plan selected [] = (selected, [])"
| "select_delegated plan selected (order_id # rest) =
     (case select_delegated plan (bs_insert order_id selected) rest of (selected', vs) \<Rightarrow>
        (selected',
         validate_pending_target order_id plan
         @ report (bs_contains selected order_id) (DirectiveShapeMismatch DirectiveDelegate) @ vs))"

fun resolve_delegations ::
  "PlanSnapshot \<Rightarrow> work_ids \<Rightarrow> PlannerContextCatalog \<Rightarrow> nat \<Rightarrow> PlanWorkOrderId btree_set
     \<Rightarrow> DelegationRequest list \<Rightarrow> PlanWorkOrderId btree_set \<times> PlannerViolation list" where
  "resolve_delegations plan local_ids context index selected [] = (selected, [])"
| "resolve_delegations plan local_ids context index selected (delegation # rest) =
     (case resolve_work_selection (dr_work_orders delegation) local_ids plan of (resolved, vs1) \<Rightarrow>
        (case select_delegated plan selected resolved of (selected', vs2) \<Rightarrow>
           (case resolve_delegations plan local_ids context (Suc index) selected' rest of
              (selected'', vs3) \<Rightarrow>
                (selected'',
                 validate_basis (indexed_field ''directive.delegations'' index ''.basis'')
                   (dr_basis delegation) context
                 @ vs1 @ report (resolved = []) (DirectiveShapeMismatch DirectiveDelegate)
                 @ vs2 @ vs3))))"

fun finish_claim_violations ::
  "ProtectedObligationCatalog \<Rightarrow> PlannerContextCatalog \<Rightarrow> ObligationId btree_set \<Rightarrow> FinishClaim list
     \<Rightarrow> ObligationId btree_set \<times> PlannerViolation list" where
  "finish_claim_violations obligations context claimed [] = (claimed, [])"
| "finish_claim_violations obligations context claimed (claim # rest) =
     (let obligation_id = obr_id (fc_obligation claim) in
      case finish_claim_violations obligations context (bs_insert obligation_id claimed) rest of
        (claimed', vs) \<Rightarrow>
          (claimed',
           validate_single_obligation_ref (fc_obligation claim) obligations
           @ validate_evidence_set ''directive.finish_claims.evidence_ids'' (fc_evidence_ids claim) context
           @ report (bs_contains claimed obligation_id) (DuplicateFinishClaim obligation_id) @ vs))"

definition resolve_execute ::
  "PlannerDirective \<Rightarrow> PlanSnapshot \<Rightarrow> work_ids
     \<Rightarrow> ResolvedPlannerDirective option \<times> PlannerViolation list" where
  "resolve_execute directive plan local_ids =
     (let vs0 = report (pd_delegations directive \<noteq> [] \<or> pd_clarifications directive \<noteq> []
              \<or> pd_escalations directive \<noteq> [] \<or> pd_finish_claims directive \<noteq> [])
            (DirectiveShapeMismatch DirectiveExecute)
      in case resolve_work_selection (pd_execute directive) local_ids plan of (selected, vs1) \<Rightarrow>
        (if length selected = 1 then
           (Some (ResolvedExecute (selected ! 0)),
            vs0 @ vs1 @ validate_pending_target (selected ! 0) plan)
         else (None, vs0 @ vs1 @ [DirectiveShapeMismatch DirectiveExecute])))"

definition resolve_delegate ::
  "PlannerDirective \<Rightarrow> PlanSnapshot \<Rightarrow> work_ids \<Rightarrow> PlannerContextCatalog \<Rightarrow> PlannerPolicy
     \<Rightarrow> ResolvedPlannerDirective option \<times> PlannerViolation list" where
  "resolve_delegate directive plan local_ids context policy =
     (let vs0 = report (\<not> selection_is_empty (pd_execute directive) \<or> pd_clarifications directive \<noteq> []
              \<or> pd_escalations directive \<noteq> [] \<or> pd_finish_claims directive \<noteq> []
              \<or> pd_delegations directive = [])
            (DirectiveShapeMismatch DirectiveDelegate)
          @ report (length (pd_delegations directive) > HARD_MAX_DELEGATIONS
              \<or> length (pd_delegations directive) > unat (pl_max_delegations (pp_limits policy)))
            (DelegationLimitExceeded (pl_max_delegations (pp_limits policy))
              (length (pd_delegations directive)))
      in case resolve_delegations plan local_ids context 0 [] (pd_delegations directive) of
           (selected, vs1) \<Rightarrow> (Some (ResolvedDelegate selected), vs0 @ vs1))"

definition resolve_clarify ::
  "PlannerDirective \<Rightarrow> ProtectedObligationCatalog \<Rightarrow> PlannerContextCatalog \<Rightarrow> PlannerPolicy
     \<Rightarrow> ResolvedPlannerDirective option \<times> PlannerViolation list" where
  "resolve_clarify directive obligations context policy =
     (Some (ResolvedClarify (pd_clarifications directive)),
      report (\<not> selection_is_empty (pd_execute directive) \<or> pd_delegations directive \<noteq> []
          \<or> pd_escalations directive \<noteq> [] \<or> pd_finish_claims directive \<noteq> []
          \<or> pd_clarifications directive = [])
        (DirectiveShapeMismatch DirectiveClarify)
      @ report (length (pd_clarifications directive) > HARD_MAX_QUESTIONS
          \<or> length (pd_clarifications directive) > unat (pl_max_questions (pp_limits policy)))
        (ClarificationLimitExceeded (pl_max_questions (pp_limits policy))
          (length (pd_clarifications directive)))
      @ concat (map (\<lambda>(index, clarification).
          validate_text (indexed_field ''directive.clarifications'' index ''.question'')
            (cr_question clarification)
          @ validate_basis (indexed_field ''directive.clarifications'' index ''.basis'')
              (cr_basis clarification) context
          @ validate_obligation_refs ''directive.clarification.blocked_obligations''
              (cr_blocked_obligations clarification) obligations)
          (enumerate0 (pd_clarifications directive))))"

definition resolve_escalate ::
  "PlannerDirective \<Rightarrow> ProtectedObligationCatalog \<Rightarrow> PlannerContextCatalog
     \<Rightarrow> ResolvedPlannerDirective option \<times> PlannerViolation list" where
  "resolve_escalate directive obligations context =
     (Some (ResolvedEscalate (pd_escalations directive)),
      report (\<not> selection_is_empty (pd_execute directive) \<or> pd_delegations directive \<noteq> []
          \<or> pd_clarifications directive \<noteq> [] \<or> pd_finish_claims directive \<noteq> []
          \<or> pd_escalations directive = [])
        (DirectiveShapeMismatch DirectiveEscalate)
      @ concat (map (\<lambda>(index, escalation).
          validate_text (indexed_field ''directive.escalations'' index ''.request'')
            (es_request escalation)
          @ validate_basis (indexed_field ''directive.escalations'' index ''.basis'')
              (es_basis escalation) context
          @ validate_obligation_refs ''directive.escalation.blocked_obligations''
              (es_blocked_obligations escalation) obligations)
          (enumerate0 (pd_escalations directive))))"

definition resolve_finish ::
  "PlannerDirective \<Rightarrow> PlanPatch \<Rightarrow> ProtectedObligationCatalog \<Rightarrow> PlannerContextCatalog
     \<Rightarrow> ResolvedPlannerDirective option \<times> PlannerViolation list" where
  "resolve_finish directive patch obligations context =
     (case finish_claim_violations obligations context [] (pd_finish_claims directive) of
        (claimed, vs) \<Rightarrow>
          (Some (FinishPendingGate (pd_finish_claims directive)),
           report (\<not> selection_is_empty (pd_execute directive) \<or> pd_delegations directive \<noteq> []
               \<or> pd_clarifications directive \<noteq> [] \<or> pd_escalations directive \<noteq> []
               \<or> pd_finish_claims directive = [])
             (DirectiveShapeMismatch DirectiveFinish)
           @ report (\<not> patch_is_empty patch) FinishRequiresEmptyPatch
           @ vs
           @ map (\<lambda>obligation. FinishMissingRequiredObligation (ob_id obligation))
               (filter (\<lambda>obligation. \<not> bs_contains claimed (ob_id obligation))
                 (required_obligations obligations))))"

definition resolve_directive ::
  "PlannerDirective \<Rightarrow> PlanPatch \<Rightarrow> PlanSnapshot \<Rightarrow> work_ids \<Rightarrow> ProtectedObligationCatalog
     \<Rightarrow> PlannerContextCatalog \<Rightarrow> PlannerPolicy \<Rightarrow> ResolvedPlannerDirective option \<times> PlannerViolation list" where
  "resolve_directive directive patch plan local_ids obligations context policy =
     (case pd_kind directive of
        DirectiveExecute \<Rightarrow> resolve_execute directive plan local_ids
      | DirectiveDelegate \<Rightarrow> resolve_delegate directive plan local_ids context policy
      | DirectiveClarify \<Rightarrow> resolve_clarify directive obligations context policy
      | DirectiveEscalate \<Rightarrow> resolve_escalate directive obligations context
      | DirectiveFinish \<Rightarrow> resolve_finish directive patch obligations context)"

section \<open>The turn\<close>

text \<open>The plan after the three passes and the summary, the allocations, and all violations so far.\<close>

definition apply_patch ::
  "('a) planner_env_scheme \<Rightarrow> PlanPatch \<Rightarrow> PlanSnapshot \<Rightarrow> ProtectedObligationCatalog
     \<Rightarrow> PlannerContextCatalog \<Rightarrow> PlannerPolicy \<Rightarrow> (PlanSnapshot \<times> work_ids) \<times> PlannerViolation list" where
  "apply_patch env patch base obligations context policy =
     (case allocate_patch_ids env base patch of ((wids, tids), vs1) \<Rightarrow>
        (case apply_verification_targets base (pa_add_verification_targets patch) tids obligations context of
           (plan1, vs2) \<Rightarrow>
             (case apply_work_order_additions plan1 (pa_add_work_orders patch) wids tids obligations
                     context policy of
                (plan2, vs3) \<Rightarrow>
                  (case apply_work_order_mutations env plan2 patch wids tids obligations context policy of
                     (plan3, vs4) \<Rightarrow>
                       (case pa_strategy_summary patch of
                          None \<Rightarrow> ((plan3, wids), vs1 @ vs2 @ vs3 @ vs4)
                        | Some summary \<Rightarrow>
                            ((plan3\<lparr>ps_strategy_summary := summary\<rparr>, wids),
                             vs1 @ vs2 @ vs3 @ vs4
                             @ validate_text ''patch.strategy_summary'' summary))))))"

definition allow_initial_empty_pause :: "PlannerTurnProposal \<Rightarrow> PlanSnapshot \<Rightarrow> bool" where
  "allow_initial_empty_pause proposal base =
     (ps_revision base = 0 \<and> ps_work_orders base = []
      \<and> patch_is_empty (pt_patch proposal)
      \<and> pd_kind (pt_directive proposal) \<in> {DirectiveClarify, DirectiveEscalate})"

definition validate_and_apply_with_allocations ::
  "('a) planner_env_scheme \<Rightarrow> PlannerTurnProposal \<Rightarrow> PlanSnapshot \<Rightarrow> ProtectedObligationCatalog
     \<Rightarrow> PlannerContextCatalog \<Rightarrow> PlannerPolicy
     \<Rightarrow> PlannerViolation list + ValidatedPlannerTurnWithAllocations" where
  "validate_and_apply_with_allocations env self base obligations context policy =
     (let structural = plan_structural_violations env self base policy in
      if structural \<noteq> [] then Inl structural
      else let bound = plan_binding_violations env self base obligations context policy in
      if bound \<noteq> [] then Inl bound
      else case plan_sha256 env base of
        Inl _ \<Rightarrow> Inl [BasePlanInvalid]
      | Inr old_digest \<Rightarrow>
          (case apply_patch env (pt_patch self) base obligations context policy of
             ((plan, wids), vs1) \<Rightarrow>
               (let vs2 = plan_invariant_violations plan obligations policy
                      (allow_initial_empty_pause self base) in
                case resolve_directive (pt_directive self) (pt_patch self) plan wids obligations context policy of
                  (resolved_directive, vs3) \<Rightarrow>
                    if vs1 @ vs2 @ vs3 \<noteq> [] then Inl (vs1 @ vs2 @ vs3)
                    else (case resolved_directive of
                        None \<Rightarrow> Inl [DirectiveShapeMismatch (pd_kind (pt_directive self))]
                      | Some directive \<Rightarrow>
                          (case (if patch_is_empty (pt_patch self) then Some plan
                                 else (case checked_add (ps_revision base) 1 of
                                     None \<Rightarrow> None
                                   | Some revision \<Rightarrow>
                                       Some (plan\<lparr>ps_revision := revision,
                                                  ps_parent_plan_sha256 := Some old_digest\<rparr>))) of
                             None \<Rightarrow> Inl [PlanRevisionOverflow]
                           | Some next_plan \<Rightarrow>
                               (case plan_sha256 env next_plan of
                                  Inl _ \<Rightarrow> Inl [BasePlanInvalid]
                                | Inr digest \<Rightarrow> Inr
                                    \<lparr>vpa_validated = \<lparr>vpt_plan = next_plan, vpt_plan_sha256 = digest,
                                                     vpt_directive = directive\<rparr>,
                                     vpa_local_work_order_ids = wids\<rparr>))))))"

definition validate_and_apply ::
  "('a) planner_env_scheme \<Rightarrow> PlannerTurnProposal \<Rightarrow> PlanSnapshot \<Rightarrow> ProtectedObligationCatalog
     \<Rightarrow> PlannerContextCatalog \<Rightarrow> PlannerPolicy \<Rightarrow> PlannerViolation list + ValidatedPlannerTurn" where
  "validate_and_apply env self base obligations context policy =
     map_sum (\<lambda>e. e) vpa_validated (validate_and_apply_with_allocations env self base obligations context policy)"

definition planner_setup_violations ::
  "('a) planner_env_scheme \<Rightarrow> PlanSnapshot \<Rightarrow> ProtectedObligationCatalog \<Rightarrow> PlannerContextCatalog
     \<Rightarrow> PlannerPolicy \<Rightarrow> PlannerViolation list" where
  "planner_setup_violations env plan obligations context policy =
     report (\<not> policy_valid env policy) PolicySnapshotInvalid
     @ report (\<not> obligation_catalog_valid env obligations) ObligationCatalogInvalid
     @ report (\<not> context_catalog_valid env context) ContextCatalogInvalid
     @ report (ps_schema_version plan \<noteq> PLAN_SCHEMA_VERSION
         \<or> ps_obligation_snapshot_sha256 plan \<noteq> oc_snapshot_sha256 obligations
         \<or> ps_acceptance_policy_sha256 plan \<noteq> oc_acceptance_policy_sha256 obligations)
         BasePlanInvalid
     @ (if ps_revision plan > 0 \<or> ps_work_orders plan \<noteq> [] then
          plan_invariant_violations plan obligations policy False
        else [])"

end
