(* ===== verification/Dependency_Search.thy ===== *)
theory Dependency_Search
  imports Prelude
begin

text \<open>
  The depth-first cycle search that \<open>crates/orchestrator/src/planner.rs\<close>,
  \<open>crates/prompting/src/router.rs\<close> and \<open>crates/prompting/src/root_planner.rs\<close> each write for their own
  map of nodes. The locale states the equations of the two mutually recursive functions \<open>visit\<close> and
  the loop over dependencies, for a graph whose nodes are the keys of a map. Its lemmas show that the
  search returns for every graph, within fuel one more than the number of nodes, and that it answers
  true exactly when the dependency relation between known nodes has a cycle.

  Finished nodes are closed under dependencies and lie on no cycle; the active nodes all reach the
  node that is visited.
\<close>

type_synonym 'k search_result = "(bool \<times> 'k btree_set \<times> 'k btree_set) option"

locale dependency_search =
  fixes dependencies :: "'g \<Rightarrow> 'k::linorder \<Rightarrow> 'k list"
    and nodes :: "'g \<Rightarrow> 'k list"
    and visit :: "nat \<Rightarrow> 'k \<Rightarrow> 'g \<Rightarrow> 'k btree_set \<Rightarrow> 'k btree_set \<Rightarrow> 'k search_result"
    and visit_all :: "nat \<Rightarrow> 'k list \<Rightarrow> 'g \<Rightarrow> 'k btree_set \<Rightarrow> 'k btree_set \<Rightarrow> 'k search_result"
  assumes visit_0: "visit 0 node g active complete = None"
    and visit_Suc: "visit (Suc n) node g active complete =
      (if bs_contains complete node then Some (False, active, complete)
       else if bs_contains active node then Some (True, active, complete)
       else (case visit_all n (dependencies g node) g (bs_insert node active) complete of
               None \<Rightarrow> None
             | Some (True, active', complete') \<Rightarrow> Some (True, active', complete')
             | Some (False, active', complete') \<Rightarrow>
                 Some (False, bs_remove node active', bs_insert node complete')))"
    and visit_all_Nil: "visit_all n [] g active complete = Some (False, active, complete)"
    and visit_all_Cons: "visit_all n (d # ds) g active complete =
      (if d \<notin> set (nodes g) then visit_all n ds g active complete
       else case visit n d g active complete of
           None \<Rightarrow> None
         | Some (True, active', complete') \<Rightarrow> Some (True, active', complete')
         | Some (False, active', complete') \<Rightarrow> visit_all n ds g active' complete')"
    and unknown_node: "node \<notin> set (nodes g) \<Longrightarrow> dependencies g node = []"
begin

definition edges :: "'g \<Rightarrow> ('k \<times> 'k) set" where
  "edges g = {(a, b). b \<in> set (dependencies g a) \<and> b \<in> set (nodes g)}"

definition search_ok :: "'g \<Rightarrow> 'k btree_set \<Rightarrow> 'k btree_set \<Rightarrow> bool" where
  "search_ok g active complete \<longleftrightarrow>
     set active \<inter> set complete = {}
     \<and> (\<forall>(a, b) \<in> edges g. a \<in> set complete \<longrightarrow> b \<in> set complete)
     \<and> (\<forall>v \<in> set complete. (v, v) \<notin> (edges g)\<^sup>+)"

lemma search_ok_closed:
  assumes "search_ok g active complete" "(a, b) \<in> (edges g)\<^sup>*" "a \<in> set complete"
  shows "b \<in> set complete"
  using assms(2,3,1) by (induction rule: rtrancl_induct) (auto simp: search_ok_def)

text \<open>A node whose known dependencies are finished joins the finished nodes.\<close>

lemma search_ok_finish:
  assumes ok: "search_ok g active complete" and active: "set active = insert node A" and "node \<notin> A"
    and succs: "\<And>b. (node, b) \<in> edges g \<Longrightarrow> b \<in> set complete"
    and B: "set active' = A"
  shows "search_ok g active' (bs_insert node complete)"
proof -
  have "node \<notin> set complete"
    using ok active by (auto simp: search_ok_def)
  have "(node, node) \<notin> (edges g)\<^sup>+"
  proof
    assume "(node, node) \<in> (edges g)\<^sup>+"
    then obtain b where "(node, b) \<in> edges g" "(b, node) \<in> (edges g)\<^sup>*"
      by (meson tranclD)
    with succs search_ok_closed[OF ok] \<open>node \<notin> set complete\<close> show False by blast
  qed
  with ok active B succs \<open>node \<notin> A\<close> show ?thesis
    by (auto simp: search_ok_def)
qed

text \<open>What a visit and a loop promise: no result other than a cycle changes the active nodes.\<close>

definition visit_sound :: "nat \<Rightarrow> 'g \<Rightarrow> bool" where
  "visit_sound n g \<longleftrightarrow> (\<forall>node active complete r active' complete'.
     visit n node g active complete = Some (r, active', complete')
     \<longrightarrow> (\<not> r \<longrightarrow> set active' = set active)
       \<and> (search_ok g active complete \<longrightarrow> (\<forall>a \<in> set active. (a, node) \<in> (edges g)\<^sup>+)
          \<longrightarrow> (if r then \<exists>v. (v, v) \<in> (edges g)\<^sup>+
               else search_ok g active' complete' \<and> insert node (set complete) \<subseteq> set complete')))"

lemma visit_all_sound:
  assumes "visit_sound n g"
  shows "visit_all n ds g active complete = Some (r, active', complete')
    \<Longrightarrow> (\<not> r \<longrightarrow> set active' = set active)
      \<and> (search_ok g active complete
         \<longrightarrow> (\<forall>a \<in> set active. \<forall>d \<in> set ds. d \<in> set (nodes g) \<longrightarrow> (a, d) \<in> (edges g)\<^sup>+)
         \<longrightarrow> (if r then \<exists>v. (v, v) \<in> (edges g)\<^sup>+
              else search_ok g active' complete'
                \<and> set complete \<union> (set ds \<inter> set (nodes g)) \<subseteq> set complete'))"
proof (induction ds arbitrary: active complete)
  case (Cons d ds)
  show ?case
  proof (cases "d \<in> set (nodes g)")
    case True
    with Cons.prems obtain r1 active1 complete1
      where v: "visit n d g active complete = Some (r1, active1, complete1)"
      by (auto simp: visit_all_Cons split: option.splits)
    note one = assms[unfolded visit_sound_def, rule_format, OF v]
    show ?thesis
    proof (cases r1)
      case True
      with Cons.prems v \<open>d \<in> set (nodes g)\<close> one show ?thesis
        by (auto simp: visit_all_Cons)
    next
      case False
      with Cons.prems v True have "visit_all n ds g active1 complete1 = Some (r, active', complete')"
        by (simp add: visit_all_Cons)
      from Cons.IH[OF this] one False True show ?thesis
        by (cases r) (auto simp: subset_iff)
    qed
  next
    case False
    with Cons.prems have "visit_all n ds g active complete = Some (r, active', complete')"
      by (simp add: visit_all_Cons)
    from Cons.IH[OF this] False show ?thesis
      by (cases r) (auto simp: subset_iff)
  qed
qed (auto simp: visit_all_Nil)

lemma visit_sound: "visit_sound n g"
proof (induction n)
  case (Suc n)
  show ?case
    unfolding visit_sound_def
  proof (intro allI impI)
    fix node active complete r active' complete'
    assume run: "visit (Suc n) node g active complete = Some (r, active', complete')"
    let ?goal = "(\<not> r \<longrightarrow> set active' = set active)
       \<and> (search_ok g active complete \<longrightarrow> (\<forall>a \<in> set active. (a, node) \<in> (edges g)\<^sup>+)
          \<longrightarrow> (if r then \<exists>v. (v, v) \<in> (edges g)\<^sup>+
               else search_ok g active' complete' \<and> insert node (set complete) \<subseteq> set complete'))"
    show ?goal
    proof (cases "bs_contains complete node \<or> bs_contains active node")
      case True
      with run show ?thesis
        by (auto simp: visit_Suc bs_contains_def search_ok_def split: if_splits)
    next
      case False
      with run obtain r1 active1 complete1 where
          v: "visit_all n (dependencies g node) g (bs_insert node active) complete
            = Some (r1, active1, complete1)"
        and r: "r = r1" "\<not> r \<Longrightarrow> active' = bs_remove node active1"
          "\<not> r \<Longrightarrow> complete' = bs_insert node complete1"
        by (auto simp: visit_Suc split: option.splits bool.splits)
      note all = visit_all_sound[OF Suc v]
      have frame: "\<not> r \<Longrightarrow> set active1 = insert node (set active)" "node \<notin> set active"
        using all r(1) False by (auto simp: bs_contains_def)
      have "if r then \<exists>v. (v, v) \<in> (edges g)\<^sup>+
          else search_ok g active' complete' \<and> insert node (set complete) \<subseteq> set complete'"
        if ok: "search_ok g active complete" and reach: "\<forall>a \<in> set active. (a, node) \<in> (edges g)\<^sup>+"
      proof -
        have "search_ok g (bs_insert node active) complete"
          using ok False by (auto simp: search_ok_def bs_contains_def)
        moreover have "\<forall>a \<in> set (bs_insert node active). \<forall>d \<in> set (dependencies g node).
            d \<in> set (nodes g) \<longrightarrow> (a, d) \<in> (edges g)\<^sup>+"
          using reach by (auto simp: edges_def intro: trancl_into_trancl)
        ultimately have res: "if r then \<exists>v. (v, v) \<in> (edges g)\<^sup>+
            else search_ok g active1 complete1
              \<and> set complete \<union> (set (dependencies g node) \<inter> set (nodes g)) \<subseteq> set complete1"
          using all r(1) by (cases r) auto
        show ?thesis
        proof (cases r)
          case no_cycle: False
          have "\<And>b. (node, b) \<in> edges g \<Longrightarrow> b \<in> set complete1"
            using res no_cycle by (auto simp: edges_def)
          then have "search_ok g active' complete'"
            using res no_cycle frame r(2,3)
            by (simp add: search_ok_finish[of g active1 complete1 node "set active"])
          with res no_cycle r(3) show ?thesis by auto
        qed (use res in simp)
      qed
      with frame r(2) show ?thesis by auto
    qed
  qed
qed (simp add: visit_sound_def visit_0)

text \<open>The fuel is enough while it exceeds the number of nodes that are not active.\<close>

definition rest_nodes :: "'g \<Rightarrow> 'k btree_set \<Rightarrow> nat" where
  "rest_nodes g active = card (set (nodes g) - set active)"

lemma rest_nodes_insert:
  "node \<in> set (nodes g) \<Longrightarrow> node \<notin> set active
     \<Longrightarrow> rest_nodes g (bs_insert node active) < rest_nodes g active"
  unfolding rest_nodes_def by (intro psubset_card_mono) auto

lemma visit_all_returns:
  assumes "\<And>node active complete. node \<in> set (nodes g) \<Longrightarrow> rest_nodes g active < n
      \<Longrightarrow> visit n node g active complete \<noteq> None"
  shows "rest_nodes g active < n \<Longrightarrow> visit_all n ds g active complete \<noteq> None"
proof (induction ds arbitrary: active complete)
  case (Cons d ds)
  show ?case
  proof (cases "d \<in> set (nodes g)")
    case True
    with Cons.prems obtain r active1 complete1
      where v: "visit n d g active complete = Some (r, active1, complete1)"
      using assms by (metis not_None_eq prod_cases3)
    have "\<not> r \<Longrightarrow> rest_nodes g active1 = rest_nodes g active"
      using visit_sound[unfolded visit_sound_def, rule_format, OF v] by (simp add: rest_nodes_def)
    with Cons True v show ?thesis
      by (cases r) (auto simp: visit_all_Cons)
  qed (use Cons in \<open>simp add: visit_all_Cons\<close>)
qed (simp add: visit_all_Nil)

lemma visit_returns:
  "node \<in> set (nodes g) \<Longrightarrow> rest_nodes g active < n \<Longrightarrow> visit n node g active complete \<noteq> None"
proof (induction n arbitrary: node active complete)
  case (Suc n)
  show ?case
  proof (cases "bs_contains complete node \<or> bs_contains active node")
    case False
    with rest_nodes_insert[of node g active] Suc.prems
    have "rest_nodes g (bs_insert node active) < n"
      by (simp add: bs_contains_def)
    with visit_all_returns[of g n, OF Suc.IH] False show ?thesis
      by (auto simp: visit_Suc split: option.splits bool.splits)
  qed (auto simp: visit_Suc)
qed simp

theorem search_decides:
  "map_option fst (visit_all (Suc (length (nodes g))) (nodes g) g [] [])
     = Some (\<not> acyclic (edges g))"
proof -
  have "rest_nodes g [] < Suc (length (nodes g))"
    using card_length[of "nodes g"] by (simp add: rest_nodes_def)
  then obtain r active complete
    where run: "visit_all (Suc (length (nodes g))) (nodes g) g [] [] = Some (r, active, complete)"
    using visit_all_returns visit_returns by (metis not_None_eq prod_cases3)
  have res: "if r then \<exists>v. (v, v) \<in> (edges g)\<^sup>+
      else search_ok g active complete \<and> set (nodes g) \<subseteq> set complete"
    using visit_all_sound[OF visit_sound run] by (cases r) (auto simp: search_ok_def)
  have "acyclic (edges g)" if "\<not> r"
    unfolding acyclic_def
  proof (intro allI notI)
    fix v
    assume cycle: "(v, v) \<in> (edges g)\<^sup>+"
    then have "v \<in> set (nodes g)"
      by (metis (no_types, lifting) CollectD case_prodD edges_def tranclD2)
    with cycle res that show False
      by (auto simp: search_ok_def)
  qed
  with run res show ?thesis
    by (auto simp: acyclic_def)
qed

end

end
