(* ===== verification/Plan_Acyclic.thy ===== *)
theory Plan_Acyclic
  imports Planner_Checks Dependency_Search
begin

text \<open>
  Correctness of \<open>dependency_graph_has_cycle\<close> of the planner: an instance of the depth-first search of
  \<open>Dependency_Search\<close>, over the work orders of a plan.
\<close>

definition plan_edge :: "plan_orders \<Rightarrow> (PlanWorkOrderId \<times> PlanWorkOrderId) set" where
  "plan_edge orders =
     {(a, b). \<exists>work. bm_get orders a = Some work \<and> b \<in> set (pw_dependencies work)
        \<and> bm_contains_key orders b}"

definition plan_dependencies :: "plan_orders \<Rightarrow> PlanWorkOrderId \<Rightarrow> PlanWorkOrderId list" where
  "plan_dependencies orders node =
     (case bm_get orders node of None \<Rightarrow> [] | Some work \<Rightarrow> pw_dependencies work)"

interpretation plan_search: dependency_search plan_dependencies bm_keys plan_visit plan_visit_dependencies
  by unfold_locales
    (simp_all add: plan_dependencies_def bm_contains_key_def flip: bm_contains_key_iff)

lemma plan_search_edges: "plan_search.edges orders = plan_edge orders"
proof -
  have "(a, b) \<in> plan_search.edges orders \<longleftrightarrow> (a, b) \<in> plan_edge orders" for a b
    by (cases "bm_get orders a")
      (simp_all add: plan_search.edges_def plan_edge_def plan_dependencies_def flip: bm_contains_key_iff)
  then show ?thesis by auto
qed

lemma plan_graph_has_cycle_iff:
  "plan_graph_has_cycle orders = Some (\<not> acyclic (plan_edge orders))"
  using plan_search.search_decides[of orders]
  by (simp add: plan_graph_has_cycle_def plan_search_edges bm_keys_def)

end
