(* ===== verification/Planner_Spec.thy ===== *)
theory Planner_Spec
  imports Planner_Turn Plan_Acyclic
begin

text \<open>
  The declarative side of the planner: what a well-formed plan is, which obligation references and
  decision bases are acceptable, and the lemmas that each collect-all check of the theories
  \<open>Planner_Checks\<close> and \<open>Planner_Turn\<close> reports nothing exactly when its condition holds.
\<close>

named_theorems planner_checks \<open>a check reports nothing exactly when its condition holds\<close>

section \<open>Conditions\<close>

definition refs_ok :: "ProtectedObligationRef list \<Rightarrow> ProtectedObligationCatalog \<Rightarrow> bool" where
  "refs_ok refs catalog \<longleftrightarrow>
     refs \<noteq> []
     \<and> (\<forall>r \<in> set refs. \<exists>ob. bm_get (oc_obligations catalog) (obr_id r) = Some ob
          \<and> ob_content_sha256 ob = obr_content_sha256 r)"

definition evidence_ok :: "PlannerEvidenceId list \<Rightarrow> PlannerContextCatalog \<Rightarrow> bool" where
  "evidence_ok ids context \<longleftrightarrow>
     ids \<noteq> [] \<and> length ids \<le> MAX_EVIDENCE_PER_BASIS \<and> (\<forall>e \<in> set ids. contains_evidence context e)"

definition text_ok :: "string \<Rightarrow> bool" where
  "text_ok s \<longleftrightarrow> \<not> is_blank s \<and> length s \<le> MAX_FIELD_BYTES"

definition basis_ok :: "DecisionBasis \<Rightarrow> PlannerContextCatalog \<Rightarrow> bool" where
  "basis_ok basis context \<longleftrightarrow> text_ok (db_rationale basis) \<and> evidence_ok (db_evidence_ids basis) context"

definition well_formed_order ::
  "PlanSnapshot \<Rightarrow> ProtectedObligationCatalog \<Rightarrow> PlannerPolicy \<Rightarrow> PlanWorkOrderId \<Rightarrow> PlannedWorkOrder \<Rightarrow> bool" where
  "well_formed_order plan obligations policy key work \<longleftrightarrow>
     pw_id work = key
     \<and> access_rank (pw_required_access work) \<le> access_rank (pp_maximum_access policy)
     \<and> (\<forall>d \<in> set (pw_dependencies work). \<exists>w. bm_get (ps_work_orders plan) d = Some w \<and> pw_state w \<noteq> WorkCancelled)
     \<and> (\<forall>t \<in> set (pw_verification_targets work). bm_contains_key (ps_verification_targets plan) t)
     \<and> refs_ok (pw_obligations work) obligations"

definition well_formed_plan :: "PlanSnapshot \<Rightarrow> ProtectedObligationCatalog \<Rightarrow> PlannerPolicy \<Rightarrow> bool" where
  "well_formed_plan plan obligations policy \<longleftrightarrow>
     length (ps_work_orders plan) \<le> unat (pl_max_work_orders (pp_limits policy))
     \<and> length (ps_verification_targets plan) \<le> unat (pl_max_verification_targets (pp_limits policy))
     \<and> (\<forall>(key, work) \<in> set (ps_work_orders plan). well_formed_order plan obligations policy key work)
     \<and> (\<forall>(key, target) \<in> set (ps_verification_targets plan).
          vt_id target = key \<and> refs_ok (vt_obligations target) obligations)
     \<and> acyclic (plan_edge (ps_work_orders plan))"

text \<open>Every required obligation is the obligation of a work order that is not cancelled.\<close>

definition covers_obligations :: "PlanSnapshot \<Rightarrow> ProtectedObligationCatalog \<Rightarrow> bool" where
  "covers_obligations plan obligations \<longleftrightarrow>
     (\<forall>(key, ob) \<in> set (oc_obligations obligations). ob_required ob \<longrightarrow>
        (\<exists>(key, work) \<in> set (ps_work_orders plan). pw_state work \<noteq> WorkCancelled
           \<and> ob_id ob \<in> obr_id ` set (pw_obligations work)))"

section \<open>The checks decide the conditions\<close>

lemma validate_text_Nil_iff [planner_checks]: "validate_text field s = [] \<longleftrightarrow> text_ok s"
  by (simp add: validate_text_def text_ok_def not_less)

lemma filter_Nil_iff: "filter P xs = [] \<longleftrightarrow> (\<forall>x \<in> set xs. \<not> P x)"
  by (simp add: filter_empty_conv)

lemma validate_evidence_set_Nil_iff [planner_checks]:
  "validate_evidence_set field ids context = [] \<longleftrightarrow> evidence_ok ids context"
  by (simp add: validate_evidence_set_def evidence_ok_def filter_Nil_iff not_less)

lemma validate_basis_Nil_iff [planner_checks]:
  "validate_basis field basis context = [] \<longleftrightarrow> basis_ok basis context"
  by (simp add: validate_basis_def basis_ok_def evidence_ok_def filter_Nil_iff not_less validate_text_Nil_iff)

lemma validate_obligation_refs_Nil_iff [planner_checks]:
  "validate_obligation_refs field refs catalog = [] \<longleftrightarrow> refs_ok refs catalog"
  by (auto simp: validate_obligation_refs_def refs_ok_def split: option.splits)

lemma validate_single_obligation_ref_Nil_iff [planner_checks]:
  "validate_single_obligation_ref r catalog = [] \<longleftrightarrow> refs_ok [r] catalog"
  by (simp add: validate_single_obligation_ref_def planner_checks)

lemma planned_order_violations_Nil_iff [planner_checks]:
  "planned_order_violations plan obligations policy (key, work) = []
     \<longleftrightarrow> well_formed_order plan obligations policy key work"
proof -
  have deps: "concat (map (\<lambda>d. (case bm_get (ps_work_orders plan) d of
        None \<Rightarrow> [UnknownWorkOrder d]
      | Some w \<Rightarrow> report (pw_state w = WorkCancelled) (DependencyOnCancelled key d))) ds) = []
    \<longleftrightarrow> (\<forall>d \<in> set ds. \<exists>w. bm_get (ps_work_orders plan) d = Some w \<and> pw_state w \<noteq> WorkCancelled)" for ds
    by (auto split: option.splits)
  show ?thesis
    unfolding planned_order_violations_def well_formed_order_def prod.case append_is_Nil_conv deps
    by (auto simp: filter_Nil_iff not_less planner_checks)
qed

lemma planned_target_violations_Nil_iff [planner_checks]:
  "planned_target_violations obligations (key, target) = []
     \<longleftrightarrow> vt_id target = key \<and> refs_ok (vt_obligations target) obligations"
  by (auto simp: planned_target_violations_def planner_checks)

lemma obligation_covered_iff:
  "obligation_covered plan ob \<longleftrightarrow>
     (\<exists>(key, work) \<in> set (ps_work_orders plan). pw_state work \<noteq> WorkCancelled
        \<and> ob_id ob \<in> obr_id ` set (pw_obligations work))"
  by (force simp: obligation_covered_def list_ex_iff bm_values_def)

lemma uncovered_Nil_iff:
  "filter (\<lambda>ob. \<not> obligation_covered plan ob) (required_obligations obligations) = []
     \<longleftrightarrow> covers_obligations plan obligations"
proof -
  have "covers_obligations plan obligations \<longleftrightarrow>
      (\<forall>x \<in> set (oc_obligations obligations). ob_required (snd x) \<longrightarrow> obligation_covered plan (snd x))"
    unfolding covers_obligations_def obligation_covered_iff by (simp add: split_beta)
  then show ?thesis
    by (auto simp: filter_Nil_iff required_obligations_def bm_values_def)
qed

text \<open>The invariant check of a plan is the declarative condition.\<close>

lemma plan_invariant_violations_Nil_iff:
  "plan_invariant_violations plan obligations policy allow_empty = [] \<longleftrightarrow>
     well_formed_plan plan obligations policy
     \<and> (\<not> allow_empty \<or> ps_work_orders plan \<noteq> [] \<longrightarrow> covers_obligations plan obligations)"
proof -
  have orders: "concat (map (planned_order_violations plan obligations policy) ws) = []
      \<longleftrightarrow> (\<forall>(key, work) \<in> set ws. well_formed_order plan obligations policy key work)" for ws
    by (auto simp: planner_checks)
  have targets: "concat (map (planned_target_violations obligations) ts) = []
      \<longleftrightarrow> (\<forall>(key, target) \<in> set ts. vt_id target = key \<and> refs_ok (vt_obligations target) obligations)" for ts
    by (auto simp: planner_checks)
  show ?thesis
    unfolding plan_invariant_violations_def Let_def append_is_Nil_conv orders targets well_formed_plan_def
    by (simp add: plan_graph_has_cycle_iff not_less uncovered_Nil_iff del: filter_empty_conv)
qed

section \<open>The counting writer\<close>

text \<open>The writer accepts the chunks exactly when their total length fits the limit.\<close>

lemma to_writer_exact:
  assumes "ew_limit w \<le> usize_max" and "\<not> ew_exceeded w" and "ew_written w \<le> ew_limit w"
  shows "(case to_writer w chunks of (accepted, w') \<Rightarrow> accepted \<and> \<not> ew_exceeded w')
    \<longleftrightarrow> ew_written w + length (concat chunks) \<le> ew_limit w"
  using assms
proof (induction chunks arbitrary: w)
  case (Cons c cs)
  show ?case
  proof (cases "ew_written w + length c \<le> ew_limit w")
    case True
    with Cons.prems have "encoded_limit_write w c = (True, w\<lparr>ew_written := ew_written w + length c\<rparr>)"
      by (auto simp: encoded_limit_write_def usize_checked_add_def)
    with Cons.IH[of "w\<lparr>ew_written := ew_written w + length c\<rparr>"] Cons.prems True show ?thesis
      by (simp add: add.assoc)
  next
    case False
    then have "fst (encoded_limit_write w c) = False"
      by (auto simp: encoded_limit_write_def usize_checked_add_def)
    with False show ?thesis
      by (cases "encoded_limit_write w c") simp
  qed
qed simp

lemma directive_exceeds_encoded_limit_iff:
  "directive_exceeds_encoded_limit env directive \<longleftrightarrow>
     (case pe_directive_chunks env directive of
        Inl e \<Rightarrow> True
      | Inr chunks \<Rightarrow> length (concat chunks) > HARD_MAX_DIRECTIVE_ENCODED_BYTES)"
proof (cases "pe_directive_chunks env directive")
  case (Inr chunks)
  let ?w = "\<lparr>ew_written = 0, ew_limit = HARD_MAX_DIRECTIVE_ENCODED_BYTES, ew_exceeded = False\<rparr>"
  show ?thesis
    using to_writer_exact[of ?w chunks] limits_below_usize_max(3) Inr
    by (auto simp: directive_exceeds_encoded_limit_def split: prod.splits)
qed (simp add: directive_exceeds_encoded_limit_def)

section \<open>Acceptance\<close>

text \<open>What an accepted turn went through, stage by stage.\<close>

lemma accepted_turn:
  assumes "validate_and_apply_with_allocations env p base obligations context policy = Inr r"
  obtains plan old_digest directive where
    "plan_structural_violations env p base policy = []"
    and "plan_binding_violations env p base obligations context policy = []"
    and "plan_sha256 env base = Inr old_digest"
    and "apply_patch env (pt_patch p) base obligations context policy
      = ((plan, vpa_local_work_order_ids r), [])"
    and "plan_invariant_violations plan obligations policy (allow_initial_empty_pause p base) = []"
    and "resolve_directive (pt_directive p) (pt_patch p) plan (vpa_local_work_order_ids r)
      obligations context policy = (Some directive, [])"
    and "vpt_directive (vpa_validated r) = directive"
    and "plan_sha256 env (vpt_plan (vpa_validated r)) = Inr (vpt_plan_sha256 (vpa_validated r))"
    and "if patch_is_empty (pt_patch p) then vpt_plan (vpa_validated r) = plan
      else (\<exists>revision. checked_add (ps_revision base) 1 = Some revision
        \<and> vpt_plan (vpa_validated r)
          = plan\<lparr>ps_revision := revision, ps_parent_plan_sha256 := Some old_digest\<rparr>)"
proof -
  from assms have s: "plan_structural_violations env p base policy = []"
    and b: "plan_binding_violations env p base obligations context policy = []"
    by (auto simp: validate_and_apply_with_allocations_def Let_def split: if_splits)
  from assms s b obtain old where old: "plan_sha256 env base = Inr old"
    by (cases "plan_sha256 env base") (auto simp: validate_and_apply_with_allocations_def Let_def)
  obtain plan wids vs1 where ap: "apply_patch env (pt_patch p) base obligations context policy
      = ((plan, wids), vs1)"
    by (metis prod.collapse)
  define vs2 where "vs2 = plan_invariant_violations plan obligations policy (allow_initial_empty_pause p base)"
  obtain res vs3 where rd: "resolve_directive (pt_directive p) (pt_patch p) plan wids
      obligations context policy = (res, vs3)"
    by (metis prod.collapse)
  note unf = assms[unfolded validate_and_apply_with_allocations_def Let_def]
  from unf s b old ap rd have vs: "vs1 = []" "vs2 = []" "vs3 = []"
    by (auto simp: vs2_def split: if_splits)
  from unf s b old ap rd vs obtain directive where res: "res = Some directive"
    by (cases res) (auto simp: vs2_def)
  obtain next_plan where np: "(if patch_is_empty (pt_patch p) then Some plan
       else (case checked_add (ps_revision base) 1 of None \<Rightarrow> None
         | Some revision \<Rightarrow> Some (plan\<lparr>ps_revision := revision, ps_parent_plan_sha256 := Some old\<rparr>)))
      = Some next_plan"
    and r: "\<exists>digest. plan_sha256 env next_plan = Inr digest
      \<and> r = \<lparr>vpa_validated = \<lparr>vpt_plan = next_plan, vpt_plan_sha256 = digest, vpt_directive = directive\<rparr>,
              vpa_local_work_order_ids = wids\<rparr>"
    using unf s b old ap rd vs res
    by (simp add: vs2_def split: option.splits sum.splits if_split_asm)
  show thesis
    by (rule that[OF s b old _ _ _ _ _ _, of plan directive])
      (use ap rd vs vs2_def res r np in \<open>auto split: if_splits option.splits\<close>)
qed

end
