(* ===== verification/Planner_Turn_Correct.thy ===== *)
theory Planner_Turn_Correct
  imports Planner_Spec
begin

text \<open>
  What an accepted planner turn changes: the frame of each pass over the patch, the work orders that
  a patch replaces or cancels, and the plan as a whole.

  Identities of new orders and targets are truncated hashes.  The statements about orders that keep
  their place assume that no derived identity equals an identity of the plan (\<open>fresh_identities\<close>),
  which SHA-256 makes so in practice and which nothing in the code checks.
\<close>

section \<open>Allocated identities\<close>

lemma allocate_work_ids_get:
  "allocate_work_ids env base ids ws = (ids', []) \<Longrightarrow>
     bm_get ids' l = (if l \<in> nw_local_id ` set ws then Some (derived_work_order_id env base l) else bm_get ids l)"
  by (induction ws arbitrary: ids)
    (auto simp: Let_def split: if_splits prod.splits)

lemma allocate_work_ids_distinct:
  "allocate_work_ids env base ids ws = (ids', []) \<Longrightarrow> distinct (map nw_local_id ws)
     \<and> (\<forall>w \<in> set ws. local_work_order_number (nw_local_id w) \<noteq> 0 \<and> \<not> bm_contains_key ids (nw_local_id w))"
proof (induction ws arbitrary: ids)
  case (Cons w ws)
  from Cons.prems have "local_work_order_number (nw_local_id w) \<noteq> 0" "\<not> bm_contains_key ids (nw_local_id w)"
    and "allocate_work_ids env base
      (bm_insert (nw_local_id w) (derived_work_order_id env base (nw_local_id w)) ids) ws = (ids', [])"
    by (auto simp: Let_def split: if_splits prod.splits)
  with Cons.IH[OF this(3)] show ?case by auto
qed simp

lemma allocate_target_ids_get:
  "allocate_target_ids env base ids ts = (ids', []) \<Longrightarrow>
     bm_get ids' l = (if l \<in> nvt_local_id ` set ts then Some (derived_target_id env base l) else bm_get ids l)"
  by (induction ts arbitrary: ids)
    (auto simp: Let_def split: if_splits prod.splits)

section \<open>Frames of the passes\<close>

text \<open>A pass that changes only the work orders, and only at the given keys.\<close>

definition changes_orders :: "PlanSnapshot \<Rightarrow> PlanSnapshot \<Rightarrow> PlanWorkOrderId set \<Rightarrow> bool" where
  "changes_orders plan plan' keys \<longleftrightarrow>
     plan' = plan\<lparr>ps_work_orders := ps_work_orders plan'\<rparr>
     \<and> (\<forall>k. k \<notin> keys \<longrightarrow> bm_get (ps_work_orders plan') k = bm_get (ps_work_orders plan) k)
     \<and> (bm_wf (ps_work_orders plan) \<longrightarrow> bm_wf (ps_work_orders plan'))"

definition changes_targets :: "PlanSnapshot \<Rightarrow> PlanSnapshot \<Rightarrow> VerificationTargetId set \<Rightarrow> bool" where
  "changes_targets plan plan' keys \<longleftrightarrow>
     plan' = plan\<lparr>ps_verification_targets := ps_verification_targets plan'\<rparr>
     \<and> (\<forall>k. k \<notin> keys \<longrightarrow>
          bm_get (ps_verification_targets plan') k = bm_get (ps_verification_targets plan) k)
     \<and> (bm_wf (ps_verification_targets plan) \<longrightarrow> bm_wf (ps_verification_targets plan'))"

lemma changes_orders_refl [simp]: "changes_orders plan plan keys"
  by (simp add: changes_orders_def)

lemma changes_orders_insert:
  "changes_orders plan (plan\<lparr>ps_work_orders := bm_insert k w (ps_work_orders plan)\<rparr>) {k}"
  by (simp add: changes_orders_def)

lemma changes_orders_trans:
  assumes "changes_orders p q A" and "changes_orders q r B"
  shows "changes_orders p r (A \<union> B)"
proof -
  have "r = q\<lparr>ps_work_orders := ps_work_orders r\<rparr>" and q: "q = p\<lparr>ps_work_orders := ps_work_orders q\<rparr>"
    using assms by (simp_all add: changes_orders_def)
  then have "r = p\<lparr>ps_work_orders := ps_work_orders r\<rparr>"
    by (metis PlanSnapshot.update_convs(9) PlanSnapshot.surjective)
  with assms show ?thesis
    by (simp add: changes_orders_def)
qed

lemma changes_orders_mono: "changes_orders p q A \<Longrightarrow> A \<subseteq> B \<Longrightarrow> changes_orders p q B"
  by (auto simp: changes_orders_def)

lemma apply_verification_targets_frame:
  "apply_verification_targets plan ts ids obligations context = (plan', vs) \<Longrightarrow>
     changes_targets plan plan' {k. \<exists>t \<in> set ts. bm_get ids (nvt_local_id t) = Some k}"
proof (induction ts arbitrary: plan plan' vs)
  case Nil
  then show ?case by (simp add: changes_targets_def)
next
  case (Cons t ts)
  define plan1 where "plan1 = (case bm_get ids (nvt_local_id t) of
      None \<Rightarrow> plan
    | Some i \<Rightarrow> plan\<lparr>ps_verification_targets := bm_insert i
        \<lparr>vt_id = i, vt_statement = nvt_statement t, vt_obligations = nvt_obligations t,
         vt_basis = nvt_basis t\<rparr> (ps_verification_targets plan)\<rparr>)"
  from Cons.prems obtain vs' where
      rest: "apply_verification_targets plan1 ts ids obligations context = (plan', vs')"
    by (auto simp: Let_def plan1_def split: prod.splits)
  from Cons.IH[OF rest] have "plan' = plan1\<lparr>ps_verification_targets := ps_verification_targets plan'\<rparr>"
    by (simp add: changes_targets_def)
  moreover have "plan1\<lparr>ps_verification_targets := x\<rparr> = plan\<lparr>ps_verification_targets := x\<rparr>" for x
    by (simp add: plan1_def split: option.splits)
  ultimately have "plan' = plan\<lparr>ps_verification_targets := ps_verification_targets plan'\<rparr>"
    by metis
  with Cons.IH[OF rest] show ?case
    by (auto simp: changes_targets_def plan1_def split: option.splits)
qed

lemma apply_work_order_additions_frame:
  "apply_work_order_additions plan ws wids tids obligations context policy = (plan', vs) \<Longrightarrow>
     changes_orders plan plan' {k. \<exists>w \<in> set ws. bm_get wids (nw_local_id w) = Some k}"
proof (induction ws arbitrary: plan plan' vs)
  case (Cons w ws)
  show ?case
  proof (cases "bm_get wids (nw_local_id w)")
    case None
    with Cons.prems Cons.IH[of plan plan' vs] show ?thesis
      by (auto intro: changes_orders_mono)
  next
    case (Some i)
    from Cons.prems Some obtain order vs' where
        rest: "apply_work_order_additions (plan\<lparr>ps_work_orders := bm_insert i order (ps_work_orders plan)\<rparr>)
          ws wids tids obligations context policy = (plan', vs')"
      by (auto simp: Let_def split: prod.splits)
    have "changes_orders plan plan' ({i} \<union> {k. \<exists>w \<in> set ws. bm_get wids (nw_local_id w) = Some k})"
      by (rule changes_orders_trans[OF changes_orders_insert Cons.IH[OF rest]])
    then show ?thesis
      using Some by (elim changes_orders_mono) auto
  qed
qed simp

section \<open>Replaced and cancelled orders\<close>

text \<open>The revision that the proposer saw is the current one, and the order may still change.\<close>

definition mutable_at :: "('a) planner_env_scheme \<Rightarrow> PlannedWorkOrder \<Rightarrow> ProtectedWorkOrderRef \<Rightarrow> bool" where
  "mutable_at env work target \<longleftrightarrow>
     revision_sha256 env work = Inr (wr_revision_sha256 target)
     \<and> (pw_state work = WorkPending \<or> pw_state work = WorkFailed)"

definition replaced_by :: "PlannedWorkOrder \<Rightarrow> ReplaceWorkOrder \<Rightarrow> PlannedWorkOrder \<Rightarrow> bool" where
  "replaced_by work r work' \<longleftrightarrow>
     pw_id work' = wr_id (rw_target r) \<and> unat (pw_revision work') = unat (pw_revision work) + 1
     \<and> pw_objective work' = rw_objective r \<and> pw_obligations work' = rw_obligations r
     \<and> pw_required_access work' = rw_required_access r \<and> pw_basis work' = rw_basis r
     \<and> pw_state work' = WorkPending"

definition cancelled_by :: "PlannedWorkOrder \<Rightarrow> CancelWorkOrder \<Rightarrow> PlannedWorkOrder \<Rightarrow> bool" where
  "cancelled_by work c work' \<longleftrightarrow>
     unat (pw_revision work') = unat (pw_revision work) + 1
     \<and> work' = work\<lparr>pw_state := WorkCancelled, pw_revision := pw_revision work', pw_basis := cw_basis c\<rparr>"

lemma mutation_violations_Nil_iff [planner_checks]:
  "mutation_violations env work target = [] \<longleftrightarrow> mutable_at env work target"
  by (auto simp: mutation_violations_def mutable_at_def)

lemma apply_replacements_Cons:
  assumes "apply_replacements env plan seen (r # rs) wids tids obligations context policy = (res, [])"
  obtains work work' where "wr_id (rw_target r) \<notin> set seen"
    and "bm_get (ps_work_orders plan) (wr_id (rw_target r)) = Some work"
    and "mutable_at env work (rw_target r)" and "replaced_by work r work'"
    and "apply_replacements env
      (plan\<lparr>ps_work_orders := bm_insert (wr_id (rw_target r)) work' (ps_work_orders plan)\<rparr>)
      (bs_insert (wr_id (rw_target r)) seen) rs wids tids obligations context policy = (res, [])"
proof -
  let ?id = "wr_id (rw_target r)"
  from assms obtain work where work: "bm_get (ps_work_orders plan) ?id = Some work"
    by (cases "bm_get (ps_work_orders plan) ?id") (auto simp: Let_def split: prod.splits)
  obtain deps vs1 where deps: "resolve_dependencies (rw_existing_dependencies r) (rw_new_dependencies r)
      wids plan = (deps, vs1)" by force
  obtain targets vs2 where targets: "resolve_verification_targets (rw_existing_verification_targets r)
      (rw_new_verification_targets r) tids plan = (targets, vs2)" by force
  from assms work deps targets obtain revision where revision: "checked_add (pw_revision work) 1 = Some revision"
    by (cases "checked_add (pw_revision work) 1") (auto simp: Let_def split: prod.splits)
  let ?work' = "\<lparr>pw_id = ?id, pw_revision = revision, pw_objective = rw_objective r,
      pw_obligations = rw_obligations r, pw_dependencies = deps, pw_verification_targets = targets,
      pw_required_access = rw_required_access r, pw_state = WorkPending, pw_basis = rw_basis r\<rparr>"
  show thesis
  proof (rule that)
    show "bm_get (ps_work_orders plan) ?id = Some work" by (fact work)
    show "?id \<notin> set seen" and "mutable_at env work (rw_target r)"
      and "apply_replacements env (plan\<lparr>ps_work_orders := bm_insert ?id ?work' (ps_work_orders plan)\<rparr>)
      (bs_insert ?id seen) rs wids tids obligations context policy = (res, [])"
      using assms work deps targets revision
      by (auto simp: Let_def bs_contains_def planner_checks split: prod.splits)
    show "replaced_by work r ?work'"
      using checked_add_Some_unat[OF revision] by (simp add: replaced_by_def)
  qed
qed

lemma apply_replacements_spec:
  "apply_replacements env plan seen rs wids tids obligations context policy = ((plan', seen'), []) \<Longrightarrow>
     changes_orders plan plan' ((wr_id \<circ> rw_target) ` set rs)
     \<and> set seen' = set seen \<union> (wr_id \<circ> rw_target) ` set rs
     \<and> (wr_id \<circ> rw_target) ` set rs \<inter> set seen = {}
     \<and> (\<forall>r \<in> set rs. \<exists>work work'. bm_get (ps_work_orders plan) (wr_id (rw_target r)) = Some work
          \<and> mutable_at env work (rw_target r)
          \<and> bm_get (ps_work_orders plan') (wr_id (rw_target r)) = Some work' \<and> replaced_by work r work')"
proof (induction rs arbitrary: plan seen)
  case (Cons r rs)
  let ?id = "wr_id (rw_target r)"
  from Cons.prems obtain work work' where step: "?id \<notin> set seen"
      "bm_get (ps_work_orders plan) ?id = Some work" "mutable_at env work (rw_target r)"
      "replaced_by work r work'"
      "apply_replacements env (plan\<lparr>ps_work_orders := bm_insert ?id work' (ps_work_orders plan)\<rparr>)
        (bs_insert ?id seen) rs wids tids obligations context policy = ((plan', seen'), [])"
    by (rule apply_replacements_Cons)
  note ih = Cons.IH[OF step(5)]
  have "changes_orders plan plan' ({?id} \<union> (wr_id \<circ> rw_target) ` set rs)"
    using ih by (intro changes_orders_trans[OF changes_orders_insert]) blast
  moreover have "bm_get (ps_work_orders plan') ?id = Some work'"
    using ih by (auto simp: changes_orders_def)
  moreover have "(wr_id (rw_target x) = ?id) = False" if "x \<in> set rs" for x
    using ih that by (auto simp: image_iff)
  ultimately show ?case
    using ih step(1-4) by auto
qed simp

lemma apply_cancellations_Cons:
  assumes "apply_cancellations env plan seen (c # cs) context = (plan', [])"
  obtains work work' where "wr_id (cw_target c) \<notin> set seen"
    and "bm_get (ps_work_orders plan) (wr_id (cw_target c)) = Some work"
    and "mutable_at env work (cw_target c)" and "cancelled_by work c work'"
    and "apply_cancellations env
      (plan\<lparr>ps_work_orders := bm_insert (wr_id (cw_target c)) work' (ps_work_orders plan)\<rparr>)
      (bs_insert (wr_id (cw_target c)) seen) cs context = (plan', [])"
proof -
  let ?id = "wr_id (cw_target c)"
  from assms obtain work where work: "bm_get (ps_work_orders plan) ?id = Some work"
    by (cases "bm_get (ps_work_orders plan) ?id") (auto simp: Let_def split: prod.splits)
  from assms work obtain revision where revision: "checked_add (pw_revision work) 1 = Some revision"
    by (cases "checked_add (pw_revision work) 1") (auto simp: Let_def split: prod.splits)
  let ?work' = "work\<lparr>pw_state := WorkCancelled, pw_revision := revision, pw_basis := cw_basis c\<rparr>"
  show thesis
  proof (rule that)
    show "bm_get (ps_work_orders plan) ?id = Some work" by (fact work)
    show "?id \<notin> set seen" and "mutable_at env work (cw_target c)"
      and "apply_cancellations env (plan\<lparr>ps_work_orders := bm_insert ?id ?work' (ps_work_orders plan)\<rparr>)
      (bs_insert ?id seen) cs context = (plan', [])"
      using assms work revision
      by (auto simp: Let_def bs_contains_def planner_checks split: prod.splits)
    show "cancelled_by work c ?work'"
      using checked_add_Some_unat[OF revision] by (simp add: cancelled_by_def)
  qed
qed

lemma apply_cancellations_spec:
  "apply_cancellations env plan seen cs context = (plan', []) \<Longrightarrow>
     changes_orders plan plan' ((wr_id \<circ> cw_target) ` set cs)
     \<and> (wr_id \<circ> cw_target) ` set cs \<inter> set seen = {}
     \<and> (\<forall>c \<in> set cs. \<exists>work work'. bm_get (ps_work_orders plan) (wr_id (cw_target c)) = Some work
          \<and> mutable_at env work (cw_target c)
          \<and> bm_get (ps_work_orders plan') (wr_id (cw_target c)) = Some work' \<and> cancelled_by work c work')"
proof (induction cs arbitrary: plan seen)
  case (Cons c cs)
  let ?id = "wr_id (cw_target c)"
  from Cons.prems obtain work work' where step: "?id \<notin> set seen"
      "bm_get (ps_work_orders plan) ?id = Some work" "mutable_at env work (cw_target c)"
      "cancelled_by work c work'"
      "apply_cancellations env (plan\<lparr>ps_work_orders := bm_insert ?id work' (ps_work_orders plan)\<rparr>)
        (bs_insert ?id seen) cs context = (plan', [])"
    by (rule apply_cancellations_Cons)
  note ih = Cons.IH[OF step(5)]
  have "changes_orders plan plan' ({?id} \<union> (wr_id \<circ> cw_target) ` set cs)"
    using ih by (intro changes_orders_trans[OF changes_orders_insert]) blast
  moreover have "bm_get (ps_work_orders plan') ?id = Some work'"
    using ih by (auto simp: changes_orders_def)
  moreover have "(wr_id (cw_target x) = ?id) = False" if "x \<in> set cs" for x
    using ih that by (auto simp: image_iff)
  ultimately show ?case
    using ih step(1-4) by auto
qed simp

section \<open>The patch as a whole\<close>

definition replaced_ids :: "PlanPatch \<Rightarrow> PlanWorkOrderId set" where
  "replaced_ids patch = (wr_id \<circ> rw_target) ` set (pa_replace_work_orders patch)"

definition cancelled_ids :: "PlanPatch \<Rightarrow> PlanWorkOrderId set" where
  "cancelled_ids patch = (wr_id \<circ> cw_target) ` set (pa_cancel_work_orders patch)"

definition added_ids :: "('a) planner_env_scheme \<Rightarrow> PlanPatch \<Rightarrow> PlanSnapshot \<Rightarrow> PlanWorkOrderId set" where
  "added_ids env patch base = (derived_work_order_id env base \<circ> nw_local_id) ` set (pa_add_work_orders patch)"

definition fresh_identities :: "('a) planner_env_scheme \<Rightarrow> PlanPatch \<Rightarrow> PlanSnapshot \<Rightarrow> bool" where
  "fresh_identities env patch base \<longleftrightarrow>
     (\<forall>i \<in> added_ids env patch base. \<not> bm_contains_key (ps_work_orders base) i)
     \<and> (\<forall>t \<in> set (pa_add_verification_targets patch).
          \<not> bm_contains_key (ps_verification_targets base) (derived_target_id env base (nvt_local_id t)))"

text \<open>The fields that no pass changes.\<close>

definition same_header :: "PlanSnapshot \<Rightarrow> PlanSnapshot \<Rightarrow> bool" where
  "same_header p q \<longleftrightarrow>
     ps_schema_version q = ps_schema_version p \<and> ps_plan_id q = ps_plan_id p
     \<and> ps_revision q = ps_revision p \<and> ps_parent_plan_sha256 q = ps_parent_plan_sha256 p
     \<and> ps_obligation_snapshot_sha256 q = ps_obligation_snapshot_sha256 p
     \<and> ps_acceptance_policy_sha256 q = ps_acceptance_policy_sha256 p"

lemma changes_orders_header: "changes_orders p q K \<Longrightarrow> same_header p q
    \<and> ps_verification_targets q = ps_verification_targets p \<and> ps_strategy_summary q = ps_strategy_summary p"
  unfolding changes_orders_def same_header_def by (metis PlanSnapshot.select_convs(1-8) PlanSnapshot.surjective PlanSnapshot.update_convs(9))

lemma changes_targets_header: "changes_targets p q K \<Longrightarrow> same_header p q
    \<and> ps_work_orders q = ps_work_orders p \<and> ps_strategy_summary q = ps_strategy_summary p"
  unfolding changes_targets_def same_header_def by (metis PlanSnapshot.select_convs(1-7,9) PlanSnapshot.surjective PlanSnapshot.update_convs(8))

lemma apply_patch_stages:
  assumes "apply_patch env patch base obligations context policy = ((plan, wids), [])"
  obtains tids p1 p2 p3 seen p4 where
    "allocate_patch_ids env base patch = ((wids, tids), [])"
    and "apply_verification_targets base (pa_add_verification_targets patch) tids obligations context = (p1, [])"
    and "apply_work_order_additions p1 (pa_add_work_orders patch) wids tids obligations context policy = (p2, [])"
    and "apply_replacements env p2 [] (pa_replace_work_orders patch) wids tids obligations context policy
      = ((p3, seen), [])"
    and "apply_cancellations env p3 seen (pa_cancel_work_orders patch) context = (p4, [])"
    and "plan = (case pa_strategy_summary patch of None \<Rightarrow> p4 | Some s \<Rightarrow> p4\<lparr>ps_strategy_summary := s\<rparr>)"
    and "\<And>s. pa_strategy_summary patch = Some s \<Longrightarrow> text_ok s"
proof -
  obtain wids' tids vs1 where s1: "allocate_patch_ids env base patch = ((wids', tids), vs1)"
    by (metis prod.collapse)
  obtain p1 vs2 where s2: "apply_verification_targets base (pa_add_verification_targets patch) tids
      obligations context = (p1, vs2)" by force
  obtain p2 vs3 where s3: "apply_work_order_additions p1 (pa_add_work_orders patch) wids' tids
      obligations context policy = (p2, vs3)" by force
  obtain p3 seen vs4 where s4: "apply_replacements env p2 [] (pa_replace_work_orders patch) wids' tids
      obligations context policy = ((p3, seen), vs4)" by (metis prod.collapse)
  obtain p4 vs5 where s5: "apply_cancellations env p3 seen (pa_cancel_work_orders patch) context = (p4, vs5)"
    by force
  have "wids' = wids \<and> vs1 = [] \<and> vs2 = [] \<and> vs3 = [] \<and> vs4 = [] \<and> vs5 = []
      \<and> plan = (case pa_strategy_summary patch of None \<Rightarrow> p4 | Some s \<Rightarrow> p4\<lparr>ps_strategy_summary := s\<rparr>)
      \<and> (\<forall>s. pa_strategy_summary patch = Some s \<longrightarrow> text_ok s)"
    using assms s1 s2 s3 s4 s5
    by (auto simp: apply_patch_def apply_work_order_mutations_def planner_checks split: option.splits)
  with s1 s2 s3 s4 s5 show thesis
    using that by blast
qed

lemma allocate_patch_ids_stages:
  assumes "allocate_patch_ids env base patch = ((wids, tids), [])"
  shows "allocate_work_ids env base [] (pa_add_work_orders patch) = (wids, [])"
    and "allocate_target_ids env base [] (pa_add_verification_targets patch) = (tids, [])"
  using assms by (auto simp: allocate_patch_ids_def split: prod.splits)

text \<open>The passes in one view: what an accepted patch does to every identity of the plan.\<close>

lemma apply_patch_effect:
  assumes ap: "apply_patch env patch base obligations context policy = ((plan, wids), [])"
  shows "same_header base plan"
    and "bm_get wids l = (if l \<in> nw_local_id ` set (pa_add_work_orders patch)
      then Some (derived_work_order_id env base l) else None)"
    and "replaced_ids patch \<inter> cancelled_ids patch = {}"
    and "\<And>k. k \<notin> added_ids env patch base \<union> replaced_ids patch \<union> cancelled_ids patch \<Longrightarrow>
      bm_get (ps_work_orders plan) k = bm_get (ps_work_orders base) k"
    and "\<And>r. r \<in> set (pa_replace_work_orders patch) \<Longrightarrow> wr_id (rw_target r) \<notin> added_ids env patch base \<Longrightarrow>
      \<exists>work work'. bm_get (ps_work_orders base) (wr_id (rw_target r)) = Some work
        \<and> mutable_at env work (rw_target r)
        \<and> bm_get (ps_work_orders plan) (wr_id (rw_target r)) = Some work' \<and> replaced_by work r work'"
    and "\<And>c. c \<in> set (pa_cancel_work_orders patch) \<Longrightarrow> wr_id (cw_target c) \<notin> added_ids env patch base \<Longrightarrow>
      \<exists>work work'. bm_get (ps_work_orders base) (wr_id (cw_target c)) = Some work
        \<and> mutable_at env work (cw_target c)
        \<and> bm_get (ps_work_orders plan) (wr_id (cw_target c)) = Some work' \<and> cancelled_by work c work'"
    and "\<And>k. k \<notin> (derived_target_id env base \<circ> nvt_local_id) ` set (pa_add_verification_targets patch) \<Longrightarrow>
      bm_get (ps_verification_targets plan) k = bm_get (ps_verification_targets base) k"
    and "bm_wf (ps_work_orders base) \<Longrightarrow> bm_wf (ps_work_orders plan)"
    and "bm_wf (ps_verification_targets base) \<Longrightarrow> bm_wf (ps_verification_targets plan)"
    and "ps_strategy_summary plan
      = (case pa_strategy_summary patch of None \<Rightarrow> ps_strategy_summary base | Some s \<Rightarrow> s)"
proof -
  from ap obtain tids p1 p2 p3 seen p4 where
    s1: "allocate_patch_ids env base patch = ((wids, tids), [])"
    and s2: "apply_verification_targets base (pa_add_verification_targets patch) tids obligations context = (p1, [])"
    and s3: "apply_work_order_additions p1 (pa_add_work_orders patch) wids tids obligations context policy = (p2, [])"
    and s4: "apply_replacements env p2 [] (pa_replace_work_orders patch) wids tids obligations context policy
      = ((p3, seen), [])"
    and s5: "apply_cancellations env p3 seen (pa_cancel_work_orders patch) context = (p4, [])"
    and plan: "plan = (case pa_strategy_summary patch of None \<Rightarrow> p4 | Some s \<Rightarrow> p4\<lparr>ps_strategy_summary := s\<rparr>)"
    by (rule apply_patch_stages)
  note ids = allocate_patch_ids_stages[OF s1]
  show wids: "bm_get wids l = (if l \<in> nw_local_id ` set (pa_add_work_orders patch)
      then Some (derived_work_order_id env base l) else None)" for l
    using allocate_work_ids_get[OF ids(1)] by simp
  have tids: "bm_get tids l = (if l \<in> nvt_local_id ` set (pa_add_verification_targets patch)
      then Some (derived_target_id env base l) else None)" for l
    using allocate_target_ids_get[OF ids(2)] by simp
  have f2: "changes_targets base p1 ((derived_target_id env base \<circ> nvt_local_id) ` set (pa_add_verification_targets patch))"
  proof -
    have "{k. \<exists>t \<in> set (pa_add_verification_targets patch). bm_get tids (nvt_local_id t) = Some k}
      = (derived_target_id env base \<circ> nvt_local_id) ` set (pa_add_verification_targets patch)"
      by (auto simp: tids image_iff)
    with apply_verification_targets_frame[OF s2] show ?thesis by simp
  qed
  have f3: "changes_orders p1 p2 (added_ids env patch base)"
    using apply_work_order_additions_frame[OF s3] by (rule changes_orders_mono) (auto simp: wids added_ids_def)
  note f4 = apply_replacements_spec[OF s4, folded replaced_ids_def]
  note f5 = apply_cancellations_spec[OF s5, folded cancelled_ids_def]
  have orders: "ps_work_orders plan = ps_work_orders p4" "ps_verification_targets plan = ps_verification_targets p4"
      "same_header p4 plan"
    by (simp_all add: plan same_header_def split: option.splits)
  note h = changes_targets_header[OF f2] changes_orders_header[OF f3]
    changes_orders_header[OF conjunct1[OF f4]] changes_orders_header[OF conjunct1[OF f5]]
  show "same_header base plan"
    using h orders(3) by (auto simp: same_header_def)
  show "replaced_ids patch \<inter> cancelled_ids patch = {}"
    using f4 f5 by auto
  show "bm_get (ps_work_orders plan) k = bm_get (ps_work_orders base) k"
    if "k \<notin> added_ids env patch base \<union> replaced_ids patch \<union> cancelled_ids patch" for k
    using that f3 f4 f5 h orders(1) by (auto simp: changes_orders_def)
  have p2: "bm_get (ps_work_orders p2) k = bm_get (ps_work_orders base) k"
    if "k \<notin> added_ids env patch base" for k
    using that f3 h by (auto simp: changes_orders_def)
  have p3: "bm_get (ps_work_orders p4) k = bm_get (ps_work_orders p3) k" if "k \<in> replaced_ids patch" for k
    using that f4 f5 by (auto simp: changes_orders_def)
  show "\<exists>work work'. bm_get (ps_work_orders base) (wr_id (rw_target r)) = Some work
        \<and> mutable_at env work (rw_target r)
        \<and> bm_get (ps_work_orders plan) (wr_id (rw_target r)) = Some work' \<and> replaced_by work r work'"
    if "r \<in> set (pa_replace_work_orders patch)" "wr_id (rw_target r) \<notin> added_ids env patch base" for r
  proof -
    from that(1) have "wr_id (rw_target r) \<in> replaced_ids patch" by (auto simp: replaced_ids_def)
    with f4 that p2 p3 orders(1) show ?thesis by fastforce
  qed
  show "\<exists>work work'. bm_get (ps_work_orders base) (wr_id (cw_target c)) = Some work
        \<and> mutable_at env work (cw_target c)
        \<and> bm_get (ps_work_orders plan) (wr_id (cw_target c)) = Some work' \<and> cancelled_by work c work'"
    if "c \<in> set (pa_cancel_work_orders patch)" "wr_id (cw_target c) \<notin> added_ids env patch base" for c
  proof -
    from that(1) have "wr_id (cw_target c) \<in> cancelled_ids patch" by (auto simp: cancelled_ids_def)
    with f4 f5 have "bm_get (ps_work_orders p3) (wr_id (cw_target c)) = bm_get (ps_work_orders p2) (wr_id (cw_target c))"
      by (auto simp: changes_orders_def)
    with f5 that p2 orders(1) show ?thesis by fastforce
  qed
  show "bm_get (ps_verification_targets plan) k = bm_get (ps_verification_targets base) k"
    if "k \<notin> (derived_target_id env base \<circ> nvt_local_id) ` set (pa_add_verification_targets patch)" for k
    using that f2 h orders(2) by (auto simp: changes_targets_def)
  show "bm_wf (ps_work_orders base) \<Longrightarrow> bm_wf (ps_work_orders plan)"
    using f3 f4 f5 h orders(1) by (auto simp: changes_orders_def)
  show "bm_wf (ps_verification_targets base) \<Longrightarrow> bm_wf (ps_verification_targets plan)"
    using f2 h orders(2) by (auto simp: changes_targets_def)
  show "ps_strategy_summary plan
      = (case pa_strategy_summary patch of None \<Rightarrow> ps_strategy_summary base | Some s \<Rightarrow> s)"
    using h by (simp add: plan split: option.splits)
qed

lemma apply_empty_patch:
  assumes "patch_is_empty patch"
  shows "apply_patch env patch base obligations context policy = ((base, []), [])"
  using assms by (simp add: patch_is_empty_def apply_patch_def apply_work_order_mutations_def
      allocate_patch_ids_def)

end
