(* ===== verification/Planner_Directives.thy ===== *)
theory Planner_Directives
  imports Planner_Turn_Correct
begin

text \<open>
  What a resolved directive promises its executor, and the history of a plan: every plan that is
  reached from the empty one by accepted turns is well formed, covers the required obligations once
  work is planned, and is chained to its predecessor by its digest.
\<close>

section \<open>Resolved directives\<close>

definition pending_in :: "PlanSnapshot \<Rightarrow> PlanWorkOrderId \<Rightarrow> bool" where
  "pending_in plan order_id \<longleftrightarrow>
     (\<exists>work. bm_get (ps_work_orders plan) order_id = Some work \<and> pw_state work = WorkPending)"

text \<open>
  Execution and delegation name pending orders of the new plan; questions and escalations are
  bounded and cite known evidence and obligations; a claim to be finished changes nothing and claims
  every required obligation once, with evidence.
\<close>

fun directive_ok ::
  "PlanSnapshot \<Rightarrow> PlanPatch \<Rightarrow> ProtectedObligationCatalog \<Rightarrow> PlannerContextCatalog \<Rightarrow> PlannerPolicy
     \<Rightarrow> ResolvedPlannerDirective \<Rightarrow> bool" where
  "directive_ok plan patch obligations context policy (ResolvedExecute order_id) =
     pending_in plan order_id"
| "directive_ok plan patch obligations context policy (ResolvedDelegate ids) =
     (ids \<noteq> [] \<and> bs_wf ids \<and> (\<forall>i \<in> set ids. pending_in plan i))"
| "directive_ok plan patch obligations context policy (ResolvedClarify requests) =
     (requests \<noteq> [] \<and> length requests \<le> unat (pl_max_questions (pp_limits policy))
      \<and> (\<forall>r \<in> set requests. text_ok (cr_question r) \<and> basis_ok (cr_basis r) context
           \<and> refs_ok (cr_blocked_obligations r) obligations))"
| "directive_ok plan patch obligations context policy (ResolvedEscalate requests) =
     (requests \<noteq> []
      \<and> (\<forall>r \<in> set requests. text_ok (es_request r) \<and> basis_ok (es_basis r) context
           \<and> refs_ok (es_blocked_obligations r) obligations))"
| "directive_ok plan patch obligations context policy (FinishPendingGate claims) =
     (patch_is_empty patch
      \<and> distinct (map (obr_id \<circ> fc_obligation) claims)
      \<and> (\<forall>c \<in> set claims. refs_ok [fc_obligation c] obligations \<and> evidence_ok (fc_evidence_ids c) context)
      \<and> (\<forall>ob \<in> set (required_obligations obligations). \<exists>c \<in> set claims. obr_id (fc_obligation c) = ob_id ob))"

lemma validate_pending_target_Nil_iff [planner_checks]:
  "validate_pending_target order_id plan = [] \<longleftrightarrow> pending_in plan order_id"
  by (auto simp: validate_pending_target_def pending_in_def split: option.splits)

lemma select_delegated_spec:
  "select_delegated plan selected ids = (selected', []) \<Longrightarrow>
     set selected' = set selected \<union> set ids \<and> (\<forall>i \<in> set ids. pending_in plan i)
     \<and> (bs_wf selected \<longrightarrow> bs_wf selected')"
  by (induction ids arbitrary: selected) (auto simp: planner_checks split: prod.splits)

lemma resolve_delegations_spec:
  "resolve_delegations plan wids context index selected ds = (selected', []) \<Longrightarrow>
     (bs_wf selected \<longrightarrow> bs_wf selected') \<and> set selected \<subseteq> set selected'
     \<and> (\<forall>i \<in> set selected' - set selected. pending_in plan i)
     \<and> (ds \<noteq> [] \<longrightarrow> selected' \<noteq> [])"
proof (induction ds arbitrary: index selected)
  case (Cons d ds)
  from Cons.prems obtain resolved selected1 where
      sel: "select_delegated plan selected resolved = (selected1, [])" and "resolved \<noteq> []"
      and rest: "resolve_delegations plan wids context (Suc index) selected1 ds = (selected', [])"
    by (auto split: prod.splits)
  from Cons.IH[OF rest] select_delegated_spec[OF sel] \<open>resolved \<noteq> []\<close> show ?case
    by (cases resolved; cases selected') auto
qed simp

lemma finish_claims_spec:
  "finish_claim_violations obligations context claimed cs = (claimed', []) \<Longrightarrow>
     set claimed' = set claimed \<union> (obr_id \<circ> fc_obligation) ` set cs
     \<and> distinct (map (obr_id \<circ> fc_obligation) cs)
     \<and> (obr_id \<circ> fc_obligation) ` set cs \<inter> set claimed = {}
     \<and> (\<forall>c \<in> set cs. refs_ok [fc_obligation c] obligations \<and> evidence_ok (fc_evidence_ids c) context)"
proof (induction cs arbitrary: claimed)
  case (Cons c cs)
  from Cons.prems have "obr_id (fc_obligation c) \<notin> set claimed" "refs_ok [fc_obligation c] obligations"
      "evidence_ok (fc_evidence_ids c) context"
      and rest: "finish_claim_violations obligations context (bs_insert (obr_id (fc_obligation c)) claimed) cs
        = (claimed', [])"
    by (auto simp: Let_def bs_contains_def planner_checks split: prod.splits)
  with Cons.IH[OF rest] show ?case by auto
qed simp

lemma enumerate0_Nil_iff:
  "concat (map (\<lambda>(i, x). f i x) (enumerate0 xs)) = [] \<longleftrightarrow> (\<forall>i < length xs. f i (xs ! i) = [])"
proof -
  have "set (enumerate0 xs) = (\<lambda>i. (i, xs ! i)) ` {..<length xs}"
    by (force simp: enumerate0_def set_zip)
  then show ?thesis by auto
qed

lemma resolve_directive_ok:
  assumes "resolve_directive directive patch plan wids obligations context policy = (Some dir, [])"
  shows "directive_ok plan patch obligations context policy dir"
proof (cases "pd_kind directive")
  case DirectiveExecute
  with assms show ?thesis
    by (auto simp: resolve_directive_def resolve_execute_def Let_def planner_checks
        split: prod.splits if_splits)
next
  case DirectiveDelegate
  with assms obtain selected where dir: "dir = ResolvedDelegate selected"
      "resolve_delegations plan wids context 0 [] (pd_delegations directive) = (selected, [])"
      and "pd_delegations directive \<noteq> []"
    by (auto simp: resolve_directive_def resolve_delegate_def Let_def split: prod.splits)
  with resolve_delegations_spec[OF dir(2)] show ?thesis
    by (simp add: bs_wf_def)
next
  case DirectiveClarify
  with assms show ?thesis
    by (auto simp: resolve_directive_def resolve_clarify_def enumerate0_Nil_iff planner_checks not_less
        in_set_conv_nth simp del: concat_eq_Nil_conv)
next
  case DirectiveEscalate
  with assms show ?thesis
    by (auto simp: resolve_directive_def resolve_escalate_def enumerate0_Nil_iff planner_checks
        in_set_conv_nth simp del: concat_eq_Nil_conv)
next
  case DirectiveFinish
  with assms obtain claimed where dir: "dir = FinishPendingGate (pd_finish_claims directive)"
      "finish_claim_violations obligations context [] (pd_finish_claims directive) = (claimed, [])"
      and rest: "patch_is_empty patch"
        "\<forall>ob \<in> set (required_obligations obligations). ob_id ob \<in> set claimed"
    by (auto simp: resolve_directive_def resolve_finish_def bs_contains_def filter_Nil_iff
        split: prod.splits)
  from finish_claims_spec[OF dir(2)] rest show ?thesis
    unfolding dir by (auto 0 3)
qed

section \<open>The accepted plan\<close>

lemma binding_violations_spec:
  assumes "plan_binding_violations env p base obligations context policy = []"
  shows "pt_schema_version p = PLAN_SCHEMA_VERSION"
    and "turn_bindings_new env base obligations context policy = Inr (pt_bindings p)"
    and "planner_setup_violations env base obligations context policy = []"
    and "policy_valid env policy" and "obligation_catalog_valid env obligations"
    and "context_catalog_valid env context"
  using assms
  by (auto simp: plan_binding_violations_def planner_setup_violations_def Let_def turn_bindings_new_def
      split: if_splits)

text \<open>The plan an accepted turn returns, next to the plan of the patch: a new revision, the same content.\<close>

lemma accepted_plan_content:
  assumes "validate_and_apply_with_allocations env p base obligations context policy = Inr r"
  obtains plan where
    "apply_patch env (pt_patch p) base obligations context policy = ((plan, vpa_local_work_order_ids r), [])"
    and "ps_work_orders (vpt_plan (vpa_validated r)) = ps_work_orders plan"
    and "ps_verification_targets (vpt_plan (vpa_validated r)) = ps_verification_targets plan"
    and "ps_strategy_summary (vpt_plan (vpa_validated r)) = ps_strategy_summary plan"
  using assms by (rule accepted_turn) (use that in \<open>auto split: if_splits\<close>)

lemma well_formed_plan_cong:
  assumes "ps_work_orders p = ps_work_orders q" "ps_verification_targets p = ps_verification_targets q"
  shows "well_formed_plan p obligations policy \<longleftrightarrow> well_formed_plan q obligations policy"
    and "covers_obligations p obligations \<longleftrightarrow> covers_obligations q obligations"
    and "directive_ok p patch obligations context policy d \<longleftrightarrow> directive_ok q patch obligations context policy d"
proof -
  show "well_formed_plan p obligations policy \<longleftrightarrow> well_formed_plan q obligations policy"
    using assms by (simp add: well_formed_plan_def well_formed_order_def)
  show "covers_obligations p obligations \<longleftrightarrow> covers_obligations q obligations"
    using assms by (simp add: covers_obligations_def)
  show "directive_ok p patch obligations context policy d \<longleftrightarrow> directive_ok q patch obligations context policy d"
    using assms by (cases d) (simp_all add: pending_in_def)
qed

lemma accepted_plan_ok:
  assumes "validate_and_apply env p base obligations context policy = Inr v"
  shows "well_formed_plan (vpt_plan v) obligations policy"
    and "allow_initial_empty_pause p base \<and> vpt_plan v = base \<or> covers_obligations (vpt_plan v) obligations"
    and "directive_ok (vpt_plan v) (pt_patch p) obligations context policy (vpt_directive v)"
    and "plan_sha256 env (vpt_plan v) = Inr (vpt_plan_sha256 v)"
proof -
  from assms obtain r where acc: "validate_and_apply_with_allocations env p base obligations context policy = Inr r"
      and v: "v = vpa_validated r"
    by (cases "validate_and_apply_with_allocations env p base obligations context policy")
      (auto simp: validate_and_apply_def)
  from acc obtain plan old directive where st:
    "apply_patch env (pt_patch p) base obligations context policy = ((plan, vpa_local_work_order_ids r), [])"
    "plan_invariant_violations plan obligations policy (allow_initial_empty_pause p base) = []"
    "resolve_directive (pt_directive p) (pt_patch p) plan (vpa_local_work_order_ids r)
      obligations context policy = (Some directive, [])"
    "vpt_directive v = directive"
    "plan_sha256 env (vpt_plan v) = Inr (vpt_plan_sha256 v)"
    "if patch_is_empty (pt_patch p) then vpt_plan v = plan
      else (\<exists>revision. checked_add (ps_revision base) 1 = Some revision
        \<and> vpt_plan v = plan\<lparr>ps_revision := revision, ps_parent_plan_sha256 := Some old\<rparr>)"
    unfolding v by (rule accepted_turn)
  have same: "ps_work_orders (vpt_plan v) = ps_work_orders plan"
      "ps_verification_targets (vpt_plan v) = ps_verification_targets plan"
    using st(6) by (auto split: if_splits)
  note cong = well_formed_plan_cong[OF same]
  show "well_formed_plan (vpt_plan v) obligations policy"
    and "allow_initial_empty_pause p base \<and> vpt_plan v = base \<or> covers_obligations (vpt_plan v) obligations"
    and "directive_ok (vpt_plan v) (pt_patch p) obligations context policy (vpt_directive v)"
    and "plan_sha256 env (vpt_plan v) = Inr (vpt_plan_sha256 v)"
  proof -
    show "well_formed_plan (vpt_plan v) obligations policy"
      using st(2) by (simp add: cong plan_invariant_violations_Nil_iff)
    show "directive_ok (vpt_plan v) (pt_patch p) obligations context policy (vpt_directive v)"
      using resolve_directive_ok[OF st(3)] by (simp add: cong st(4))
    show "plan_sha256 env (vpt_plan v) = Inr (vpt_plan_sha256 v)" by (fact st(5))
    show "allow_initial_empty_pause p base \<and> vpt_plan v = base \<or> covers_obligations (vpt_plan v) obligations"
    proof (cases "allow_initial_empty_pause p base")
      case True
      then have "patch_is_empty (pt_patch p)" by (simp add: allow_initial_empty_pause_def)
      with st(1,6) True show ?thesis by (simp add: apply_empty_patch)
    next
      case False
      with st(2) show ?thesis by (simp add: cong plan_invariant_violations_Nil_iff)
    qed
  qed
qed

text \<open>Revision, parent and identity of the new plan.\<close>

lemma accepted_revision:
  assumes "validate_and_apply env p base obligations context policy = Inr v"
  shows "if patch_is_empty (pt_patch p) then vpt_plan v = base
    else unat (ps_revision (vpt_plan v)) = unat (ps_revision base) + 1
      \<and> (\<exists>digest. plan_sha256 env base = Inr digest \<and> ps_parent_plan_sha256 (vpt_plan v) = Some digest)"
    and "ps_plan_id (vpt_plan v) = ps_plan_id base"
    and "ps_obligation_snapshot_sha256 (vpt_plan v) = oc_snapshot_sha256 obligations"
    and "ps_acceptance_policy_sha256 (vpt_plan v) = oc_acceptance_policy_sha256 obligations"
    and "ps_schema_version (vpt_plan v) = PLAN_SCHEMA_VERSION"
proof -
  from assms obtain r where acc: "validate_and_apply_with_allocations env p base obligations context policy = Inr r"
      and v: "v = vpa_validated r"
    by (cases "validate_and_apply_with_allocations env p base obligations context policy")
      (auto simp: validate_and_apply_def)
  from acc obtain plan old directive where st:
    "plan_binding_violations env p base obligations context policy = []"
    "plan_sha256 env base = Inr old"
    "apply_patch env (pt_patch p) base obligations context policy = ((plan, vpa_local_work_order_ids r), [])"
    "if patch_is_empty (pt_patch p) then vpt_plan v = plan
      else (\<exists>revision. checked_add (ps_revision base) 1 = Some revision
        \<and> vpt_plan v = plan\<lparr>ps_revision := revision, ps_parent_plan_sha256 := Some old\<rparr>)"
    unfolding v by (rule accepted_turn)
  note head = apply_patch_effect(1)[OF st(3), unfolded same_header_def]
  show "if patch_is_empty (pt_patch p) then vpt_plan v = base
    else unat (ps_revision (vpt_plan v)) = unat (ps_revision base) + 1
      \<and> (\<exists>digest. plan_sha256 env base = Inr digest \<and> ps_parent_plan_sha256 (vpt_plan v) = Some digest)"
    using st(2,3,4) by (auto simp: apply_empty_patch dest: checked_add_Some_unat split: if_splits)
  have "ps_schema_version base = PLAN_SCHEMA_VERSION"
      "ps_obligation_snapshot_sha256 base = oc_snapshot_sha256 obligations"
      "ps_acceptance_policy_sha256 base = oc_acceptance_policy_sha256 obligations"
    using st(1) by (auto simp: plan_binding_violations_def Let_def split: if_splits)
  with head st(4) show "ps_plan_id (vpt_plan v) = ps_plan_id base"
    and "ps_obligation_snapshot_sha256 (vpt_plan v) = oc_snapshot_sha256 obligations"
    and "ps_acceptance_policy_sha256 (vpt_plan v) = oc_acceptance_policy_sha256 obligations"
    and "ps_schema_version (vpt_plan v) = PLAN_SCHEMA_VERSION"
    by (auto split: if_splits)
qed

text \<open>A proposal that changed the plan cannot be accepted for the changed plan again.\<close>

lemma accepted_not_again:
  assumes "validate_and_apply env p base obligations context policy = Inr v"
    and "\<not> patch_is_empty (pt_patch p)"
  shows "validate_and_apply env p (vpt_plan v) obligations' context' policy' \<noteq> Inr v'"
proof
  assume again: "validate_and_apply env p (vpt_plan v) obligations' context' policy' = Inr v'"
  have bound: "tb_base_revision (pt_bindings p) = ps_revision b"
    if "validate_and_apply env p b ob ctx pol = Inr w" for b ob ctx pol w
  proof -
    from that obtain r where "validate_and_apply_with_allocations env p b ob ctx pol = Inr r"
      by (cases "validate_and_apply_with_allocations env p b ob ctx pol") (auto simp: validate_and_apply_def)
    then have "plan_binding_violations env p b ob ctx pol = []" by (rule accepted_turn)
    then show ?thesis by (simp add: plan_binding_violations_def Let_def)
  qed
  from accepted_revision(1)[OF assms(1)] assms(2)
  have "ps_revision (vpt_plan v) \<noteq> ps_revision base" by auto
  with bound[OF assms(1)] bound[OF again] show False by simp
qed

section \<open>Plan histories\<close>

text \<open>The plans reached from the empty plan by accepted turns; context and policy may change in between.\<close>

inductive planned ::
  "('a) planner_env_scheme \<Rightarrow> ProtectedObligationCatalog \<Rightarrow> PlanId \<Rightarrow> PlanSnapshot \<Rightarrow> PlannerPolicy option \<Rightarrow> bool"
  for env obligations plan_id where
    planned_empty: "planned env obligations plan_id (empty_plan plan_id obligations) None"
  | planned_turn: "planned env obligations plan_id base last_policy \<Longrightarrow>
      validate_and_apply env p base obligations context policy = Inr v \<Longrightarrow>
      planned env obligations plan_id (vpt_plan v) (Some policy)"

text \<open>The invariant of a history: still empty, or well formed under the last policy with all work covered.\<close>

lemma planned_invariant:
  assumes "planned env obligations plan_id plan last_policy"
  shows "ps_plan_id plan = plan_id
    \<and> bm_wf (ps_work_orders plan) \<and> bm_wf (ps_verification_targets plan)
    \<and> (plan = empty_plan plan_id obligations
       \<or> (\<exists>policy. last_policy = Some policy \<and> well_formed_plan plan obligations policy
            \<and> covers_obligations plan obligations))"
  using assms
proof (induction plan last_policy rule: planned.induct)
  case planned_empty
  show ?case by (simp add: empty_plan_def)
next
  case (planned_turn base last_policy p ctx policy v)
  from planned_turn(2) obtain r where
      acc: "validate_and_apply_with_allocations env p base obligations ctx policy = Inr r"
      and v: "v = vpa_validated r"
    by (cases "validate_and_apply_with_allocations env p base obligations ctx policy")
      (auto simp: validate_and_apply_def)
  from acc obtain plan where ap:
      "apply_patch env (pt_patch p) base obligations ctx policy = ((plan, vpa_local_work_order_ids r), [])"
      and same: "ps_work_orders (vpt_plan v) = ps_work_orders plan"
        "ps_verification_targets (vpt_plan v) = ps_verification_targets plan"
    unfolding v by (rule accepted_plan_content)
  have wf: "bm_wf (ps_work_orders (vpt_plan v))" "bm_wf (ps_verification_targets (vpt_plan v))"
    using apply_patch_effect(8,9)[OF ap] planned_turn.IH by (simp_all add: same)
  have id: "ps_plan_id (vpt_plan v) = plan_id"
    using accepted_revision(2)[OF planned_turn(2)] planned_turn.IH by simp
  from accepted_plan_ok(2)[OF planned_turn(2)] show ?case
  proof
    assume "allow_initial_empty_pause p base \<and> vpt_plan v = base"
    then have "vpt_plan v = base" "ps_work_orders base = []" "ps_revision base = 0"
      by (auto simp: allow_initial_empty_pause_def)
    with planned_turn.IH accepted_plan_ok(1)[OF planned_turn(2)] wf id show ?thesis
      by (auto simp: covers_obligations_def)
  next
    assume "covers_obligations (vpt_plan v) obligations"
    with accepted_plan_ok(1)[OF planned_turn(2)] wf id show ?thesis by simp
  qed
qed

end
