(* ===== verification/Planner_Prompt.thy ===== *)
theory Planner_Prompt
  imports Planner_Directives
begin

text \<open>
  The adapter between the planner's prompt and its domain, \<open>crates/orchestrator/src/planner_prompt.rs\<close>:
  the trusted inference policy, the builder of the exact request, the attestation of a prepared
  request by building it again, and the decoding of a model value into a validated turn.

  The prompt registry of \<open>crates/prompting\<close> (schema validation and compilation of the bundled
  manifest, the checks of an invocation) and the JSON conversions of \<open>serde_json\<close> are fields of the
  record \<open>prompt_env\<close>; an error of theirs is its text.
\<close>

section \<open>Types\<close>

record PlannerReplannerInferencePolicy =
  ip_backend_instance :: BackendInstanceIdentity
  ip_model_id :: ModelId
  ip_reasoning :: "ReasoningSetting option"
  ip_max_output_tokens :: u32
  ip_policy_sha256 :: PlannerDigest

datatype PlannerReplannerInferencePolicyError =
    PolicyBackendInstance BackendInstanceIdentityError
  | PolicyZeroOutputTokens
  | PolicyOutputTokensTooLarge u32 u32
  | PolicyDigestMismatch
  | PolicyEncoding string

record PreparedPlannerReplannerRequest =
  pq_inference_policy_sha256 :: PlannerDigest
  pq_invocation :: PromptInvocation
  pq_compiled_prompt :: CompiledPrompt
  pq_evidence_packet :: PlannerEvidencePacket
  pq_inference :: StructuredInferenceRequest

datatype PlannerReplannerSetupError =
    SetupPlannerContract PlannerContractError
  | SetupPrompt string
  | SetupBackendContract ContractError
  | SetupInferencePolicy PlannerReplannerInferencePolicyError
  | SetupSerialization string
  | SetupInvocation "string list"
  | AttestationMismatch

datatype PlannerReplannerApplyError =
    ApplySetup PlannerReplannerSetupError
  | ApplyPrompt string
  | ApplyOutputDecode string
  | ApplyPlan "PlannerViolation list"

record prompt_env = planner_env +
  pv_policy_json ::
    "u32 \<Rightarrow> BackendInstanceIdentity \<Rightarrow> ModelId \<Rightarrow> ReasoningSetting option \<Rightarrow> u32 \<Rightarrow> string + u8 list"
  pv_plan_value :: "PlanSnapshot \<Rightarrow> string + json_value"
  pv_catalog_value :: "ProtectedObligationCatalog \<Rightarrow> string + json_value"
  pv_context_value :: "PlannerContextCatalog \<Rightarrow> string + json_value"
  pv_planner_policy_value :: "PlannerPolicy \<Rightarrow> string + json_value"
  pv_uuid_text :: "uuid128 \<Rightarrow> string"
  pv_invocation_violations :: "PromptInvocation \<Rightarrow> string list"
  pv_compile :: "PromptInvocation \<Rightarrow> string + CompiledPrompt"
  pv_compact_string :: "json_value \<Rightarrow> string + string"
  pv_validate_output :: "CompiledPrompt \<Rightarrow> PromptInvocation \<Rightarrow> json_value \<Rightarrow> string + unit"
  pv_proposal_from_value :: "json_value \<Rightarrow> string + PlannerTurnProposal"

section \<open>The inference policy\<close>

definition INFERENCE_POLICY_SCHEMA_VERSION :: u32 where
  "INFERENCE_POLICY_SCHEMA_VERSION = 2"

definition PLANNER_REPLANNER_V2_MAX_OUTPUT_TOKENS :: u32 where
  "PLANNER_REPLANNER_V2_MAX_OUTPUT_TOKENS = 16384"

definition inference_policy_digest ::
  "('a) prompt_env_scheme \<Rightarrow> BackendInstanceIdentity \<Rightarrow> ModelId \<Rightarrow> ReasoningSetting option \<Rightarrow> u32
     \<Rightarrow> PlannerReplannerInferencePolicyError + PlannerDigest" where
  "inference_policy_digest env backend_instance model_id reasoning max_output_tokens =
     (case pv_policy_json env INFERENCE_POLICY_SCHEMA_VERSION backend_instance model_id reasoning
             max_output_tokens of
        Inl e \<Rightarrow> Inl (PolicyEncoding e)
      | Inr encoded \<Rightarrow> Inr (encode_sha256 env encoded))"

definition inference_policy_new ::
  "('a) prompt_env_scheme \<Rightarrow> BackendInstanceIdentity \<Rightarrow> ModelId \<Rightarrow> ReasoningSetting option \<Rightarrow> u32
     \<Rightarrow> PlannerReplannerInferencePolicyError + PlannerReplannerInferencePolicy" where
  "inference_policy_new env backend_instance model_id reasoning max_output_tokens =
     (if max_output_tokens = 0 then Inl PolicyZeroOutputTokens
      else if max_output_tokens > PLANNER_REPLANNER_V2_MAX_OUTPUT_TOKENS
        then Inl (PolicyOutputTokensTooLarge max_output_tokens PLANNER_REPLANNER_V2_MAX_OUTPUT_TOKENS)
      else and_then (map_err PolicyBackendInstance (identity_validate_integrity env backend_instance)) (\<lambda>_.
           and_then (inference_policy_digest env backend_instance model_id reasoning max_output_tokens)
             (\<lambda>digest. Inr
               \<lparr>ip_backend_instance = backend_instance, ip_model_id = model_id, ip_reasoning = reasoning,
                ip_max_output_tokens = max_output_tokens, ip_policy_sha256 = digest\<rparr>)))"

definition policy_validate_integrity ::
  "('a) prompt_env_scheme \<Rightarrow> PlannerReplannerInferencePolicy
     \<Rightarrow> PlannerReplannerInferencePolicyError + unit" where
  "policy_validate_integrity env self =
     (if ip_max_output_tokens self = 0 then Inl PolicyZeroOutputTokens
      else if ip_max_output_tokens self > PLANNER_REPLANNER_V2_MAX_OUTPUT_TOKENS
        then Inl (PolicyOutputTokensTooLarge (ip_max_output_tokens self)
          PLANNER_REPLANNER_V2_MAX_OUTPUT_TOKENS)
      else and_then (map_err PolicyBackendInstance
             (identity_validate_integrity env (ip_backend_instance self))) (\<lambda>_.
           and_then (inference_policy_digest env (ip_backend_instance self) (ip_model_id self)
             (ip_reasoning self) (ip_max_output_tokens self))
             (\<lambda>expected. if expected = ip_policy_sha256 self then Inr () else Inl PolicyDigestMismatch)))"

text \<open>Reading a policy from the wire constructs it again; a wrong digest is the error.\<close>

definition policy_deserialize ::
  "('a) prompt_env_scheme \<Rightarrow> PlannerReplannerInferencePolicy
     \<Rightarrow> PlannerReplannerInferencePolicyError + PlannerReplannerInferencePolicy" where
  "policy_deserialize env repr =
     and_then (inference_policy_new env (ip_backend_instance repr) (ip_model_id repr)
         (ip_reasoning repr) (ip_max_output_tokens repr))
       (\<lambda>policy. if ip_policy_sha256 policy \<noteq> ip_policy_sha256 repr then Inl PolicyDigestMismatch
                 else Inr policy)"

definition policy_backend_id :: "PlannerReplannerInferencePolicy \<Rightarrow> BackendId" where
  "policy_backend_id self = bi_backend_id (ip_backend_instance self)"

section \<open>Building the request\<close>

definition OUTPUT_SCHEMA_NAME :: string where
  "OUTPUT_SCHEMA_NAME = ''planner_replanner_turn''"

definition prompt_bindings :: "('a) prompt_env_scheme \<Rightarrow> PlannerTurnBindings \<Rightarrow> PlannerReplannerBindings" where
  "prompt_bindings env bindings =
     \<lparr>rb_plan_id = pv_uuid_text env (plan_uuid (tb_plan_id bindings)),
      rb_base_revision = tb_base_revision bindings,
      rb_base_plan_sha256 = tb_base_plan_sha256 bindings,
      rb_obligation_snapshot_sha256 = tb_obligation_snapshot_sha256 bindings,
      rb_acceptance_policy_sha256 = tb_acceptance_policy_sha256 bindings,
      rb_context_manifest_sha256 = tb_context_manifest_sha256 bindings,
      rb_planner_policy_sha256 = tb_planner_policy_sha256 bindings\<rparr>"

definition backend_message :: "('a) prompt_env_scheme \<Rightarrow> CompiledMessage \<Rightarrow> string + Message" where
  "backend_message env message =
     (let role = (case cm_role message of PromptSystem \<Rightarrow> RoleSystem | PromptUser \<Rightarrow> RoleUser) in
      case cm_content message of
        ContentText value \<Rightarrow> Inr \<lparr>msg_role = role, msg_content = value\<rparr>
      | ContentJson value \<Rightarrow>
          and_then (pv_compact_string env value) (\<lambda>s. Inr \<lparr>msg_role = role, msg_content = s\<rparr>))"

definition build_request ::
  "('a) prompt_env_scheme \<Rightarrow> PlannerReplannerInferencePolicy \<Rightarrow> PlanSnapshot \<Rightarrow> ProtectedObligationCatalog
     \<Rightarrow> PlannerContextCatalog \<Rightarrow> PlannerPolicy \<Rightarrow> PlannerEvidencePacket
     \<Rightarrow> PlannerReplannerSetupError + PreparedPlannerReplannerRequest" where
  "build_request env inference_policy base_plan obligations context policy evidence_packet =
     and_then (map_err SetupInferencePolicy (policy_validate_integrity env inference_policy)) (\<lambda>_.
     and_then (map_err SetupPlannerContract
       (turn_bindings_new env base_plan obligations context policy)) (\<lambda>bindings.
     and_then (map_err SetupSerialization (pv_plan_value env base_plan)) (\<lambda>plan_value.
     and_then (map_err SetupSerialization (pv_catalog_value env obligations)) (\<lambda>catalog_value.
     and_then (map_err SetupSerialization (pv_context_value env context)) (\<lambda>context_value.
     and_then (map_err SetupSerialization (pv_planner_policy_value env policy)) (\<lambda>policy_value.
     (let invocation = planner_replanner_invocation
            \<lparr>im_base_plan = plan_value, im_protected_obligation_catalog = catalog_value,
             im_planner_context_catalog = context_value, im_evidence_packet = evidence_packet,
             im_planner_policy = policy_value, im_bindings = prompt_bindings env bindings\<rparr>
      in if pv_invocation_violations env invocation \<noteq> []
         then Inl (SetupInvocation (pv_invocation_violations env invocation))
         else
     and_then (map_err SetupPrompt (pv_compile env invocation)) (\<lambda>compiled_prompt.
     and_then (map_err SetupSerialization
       (collect_results (map (backend_message env) (cp_messages compiled_prompt)))) (\<lambda>messages.
     and_then (map_err SetupBackendContract
       (build_output_spec OUTPUT_SCHEMA_NAME (cp_output_schema compiled_prompt)
         (Some (cp_generation_schema compiled_prompt)))) (\<lambda>output_spec.
     and_then (map_err SetupBackendContract
       (inference_request_new (ip_model_id inference_policy) messages output_spec
         (ip_max_output_tokens inference_policy))) (\<lambda>inference. Inr
       \<lparr>pq_inference_policy_sha256 = ip_policy_sha256 inference_policy, pq_invocation = invocation,
        pq_compiled_prompt = compiled_prompt, pq_evidence_packet = evidence_packet,
        pq_inference = (case ip_reasoning inference_policy of
            None \<Rightarrow> inference | Some reasoning \<Rightarrow> with_reasoning reasoning inference)\<rparr>)))))))))))"

definition request_validate_against ::
  "('a) prompt_env_scheme \<Rightarrow> PreparedPlannerReplannerRequest \<Rightarrow> PlanSnapshot \<Rightarrow> ProtectedObligationCatalog
     \<Rightarrow> PlannerContextCatalog \<Rightarrow> PlannerPolicy \<Rightarrow> PlannerReplannerInferencePolicy
     \<Rightarrow> PlannerReplannerSetupError + unit" where
  "request_validate_against env self base_plan obligations context policy inference_policy =
     and_then (map_err SetupInferencePolicy (policy_validate_integrity env inference_policy)) (\<lambda>_.
     and_then (build_request env inference_policy base_plan obligations context policy
         (pq_evidence_packet self))
       (\<lambda>expected. if self = expected then Inr () else Inl AttestationMismatch))"

section \<open>Decoding a model value\<close>

definition decode_and_apply_planner_replanner_output ::
  "('a) prompt_env_scheme \<Rightarrow> PreparedPlannerReplannerRequest \<Rightarrow> json_value \<Rightarrow> PlanSnapshot
     \<Rightarrow> ProtectedObligationCatalog \<Rightarrow> PlannerContextCatalog \<Rightarrow> PlannerPolicy
     \<Rightarrow> PlannerReplannerInferencePolicy
     \<Rightarrow> PlannerReplannerApplyError + PlannerTurnProposal \<times> ValidatedPlannerTurn" where
  "decode_and_apply_planner_replanner_output env prepared value base_plan obligations context policy
       inference_policy =
     and_then (map_err ApplySetup (request_validate_against env prepared base_plan obligations context
       policy inference_policy)) (\<lambda>_.
     and_then (map_err ApplyPrompt
       (pv_validate_output env (pq_compiled_prompt prepared) (pq_invocation prepared) value)) (\<lambda>_.
     and_then (map_err ApplyOutputDecode (pv_proposal_from_value env value)) (\<lambda>proposal.
     and_then (map_err ApplyPlan (validate_and_apply env proposal base_plan obligations context policy))
       (\<lambda>result. Inr (proposal, result)))))"

definition validate_and_apply_planner_replanner_output ::
  "('a) prompt_env_scheme \<Rightarrow> PreparedPlannerReplannerRequest \<Rightarrow> json_value \<Rightarrow> PlanSnapshot
     \<Rightarrow> ProtectedObligationCatalog \<Rightarrow> PlannerContextCatalog \<Rightarrow> PlannerPolicy
     \<Rightarrow> PlannerReplannerInferencePolicy \<Rightarrow> PlannerReplannerApplyError + ValidatedPlannerTurn" where
  "validate_and_apply_planner_replanner_output env prepared value base_plan obligations context policy
       inference_policy =
     map_sum (\<lambda>e. e) snd (decode_and_apply_planner_replanner_output env prepared value base_plan
       obligations context policy inference_policy)"

section \<open>Laws\<close>

lemma policy_integrity_iff:
  "policy_validate_integrity env self = Inr () \<longleftrightarrow>
     inference_policy_new env (ip_backend_instance self) (ip_model_id self) (ip_reasoning self)
       (ip_max_output_tokens self) = Inr self"
  by (cases self) (auto simp: policy_validate_integrity_def inference_policy_new_def result_simps)

lemma policy_new_parts:
  "inference_policy_new env b m r t = Inr p \<Longrightarrow>
     ip_backend_instance p = b \<and> ip_model_id p = m \<and> ip_reasoning p = r \<and> ip_max_output_tokens p = t"
  by (auto simp: inference_policy_new_def result_simps split: if_splits)

lemma policy_new_integrity:
  "inference_policy_new env b m r t = Inr p \<Longrightarrow> policy_validate_integrity env p = Inr ()"
  using policy_new_parts[of env b m r t p] by (auto simp: policy_integrity_iff)

lemma policy_deserialize_iff:
  "policy_deserialize env repr = Inr p \<longleftrightarrow> p = repr \<and> policy_validate_integrity env repr = Inr ()"
proof
  assume des: "policy_deserialize env repr = Inr p"
  then have new: "inference_policy_new env (ip_backend_instance repr) (ip_model_id repr)
      (ip_reasoning repr) (ip_max_output_tokens repr) = Inr p" and "ip_policy_sha256 p = ip_policy_sha256 repr"
    by (auto simp: policy_deserialize_def result_simps split: if_splits)
  with policy_new_parts[OF new] have "p = repr" by simp
  with new show "p = repr \<and> policy_validate_integrity env repr = Inr ()"
    by (simp add: policy_integrity_iff)
next
  assume "p = repr \<and> policy_validate_integrity env repr = Inr ()"
  then show "policy_deserialize env repr = Inr p"
    by (simp add: policy_integrity_iff policy_deserialize_def result_simps)
qed

text \<open>A request is attested exactly when it is the one the builder makes of the authoritative inputs.\<close>

lemma request_validate_against_iff:
  "request_validate_against env q base obligations context policy inference_policy = Inr () \<longleftrightarrow>
     build_request env inference_policy base obligations context policy (pq_evidence_packet q) = Inr q"
  by (auto simp: request_validate_against_def build_request_def result_simps Let_def split: if_splits)

lemma build_request_parts:
  assumes "build_request env inference_policy base obligations context policy packet = Inr q"
  shows "pq_evidence_packet q = packet"
    and "pq_inference_policy_sha256 q = ip_policy_sha256 inference_policy"
    and "sq_model_id (pq_inference q) = ip_model_id inference_policy"
    and "sq_max_output_tokens (pq_inference q) = ip_max_output_tokens inference_policy"
    and "sq_reasoning (pq_inference q) = ip_reasoning inference_policy"
    and "sq_messages (pq_inference q) \<noteq> []"
  using assms
  by (auto simp: build_request_def result_simps Let_def inference_request_new_def with_reasoning_def
      split: if_splits option.splits)

lemma decode_and_apply_Inr:
  "decode_and_apply_planner_replanner_output env q value base obligations context policy inference_policy
      = Inr (proposal, result) \<longleftrightarrow>
   request_validate_against env q base obligations context policy inference_policy = Inr ()
   \<and> pv_validate_output env (pq_compiled_prompt q) (pq_invocation q) value = Inr ()
   \<and> pv_proposal_from_value env value = Inr proposal
   \<and> validate_and_apply env proposal base obligations context policy = Inr result"
  by (auto simp: decode_and_apply_planner_replanner_output_def result_simps)

end
