(* ===== verification/Planner_Journal.thy ===== *)
theory Planner_Journal
  imports Planner_Prompt
begin

text \<open>
  The durable record of planner attempts in \<open>crates/orchestrator/src/planner.rs\<close>: the records
  \<open>Prepared\<close>, \<open>Observed\<close>, \<open>Accepted\<close> and \<open>Rejected\<close>, the replay of a journal into the state of every
  attempt, the decision that replay derives again from an observation, and the in-memory journal.

  The serialized forms that the journal hashes, and the texts of errors that become messages, are
  fields of the record \<open>journal_env\<close>.
\<close>

section \<open>Records\<close>

record PlannerAttemptPrepared =
  ap_execution_id :: PlannerExecutionId
  ap_attempt_id :: PlannerAttemptId
  ap_parent_attempt_id :: "PlannerAttemptId option"
  ap_budget_reservation_id :: BudgetReservationId
  ap_backend_id :: BackendId
  ap_backend_instance :: BackendInstanceIdentity
  ap_model_id :: ModelId
  ap_max_output_tokens :: u32
  ap_base_plan_sha256 :: PlannerDigest
  ap_obligation_snapshot_sha256 :: PlannerDigest
  ap_acceptance_policy_sha256 :: PlannerDigest
  ap_context_manifest_sha256 :: PlannerDigest
  ap_planner_policy_sha256 :: PlannerDigest
  ap_inference_policy_sha256 :: PlannerDigest
  ap_inference_policy :: PlannerReplannerInferencePolicy
  ap_prompt_bundle_sha256 :: PlannerDigest
  ap_prompt_bundle :: PreparedPlannerReplannerRequest
  ap_base_plan :: PlanSnapshot
  ap_obligations :: ProtectedObligationCatalog
  ap_context :: PlannerContextCatalog
  ap_policy :: PlannerPolicy

datatype PlannerInferenceObservation =
    ObservedResponse StructuredInferenceResponse
  | ObservedError BackendError

record PlannerAttemptObserved =
  ao_execution_id :: PlannerExecutionId
  ao_attempt_id :: PlannerAttemptId
  ao_prepared_sha256 :: PlannerDigest
  ao_observation :: PlannerInferenceObservation

datatype PlannerResponseViolation =
    ModelIdentityMismatch | BackendIdentityMismatch | BackendInstanceIdentityMismatch
  | EndpointOriginMismatch | RawTextIsNotJson | RawTextValueMismatch
  | OutputTokenLimitExceeded u64 u64

datatype PlannerRejection =
    RejectedBackend
  | RejectedResponseContract "PlannerResponseViolation list"
  | RejectedOutputDecode string
  | RejectedPromptContract string
  | RejectedPlanValidation "PlannerViolation list"

record PlannerAttemptAccepted =
  aa_execution_id :: PlannerExecutionId
  aa_attempt_id :: PlannerAttemptId
  aa_observed_sha256 :: PlannerDigest
  aa_proposal_sha256 :: PlannerDigest
  aa_result :: ValidatedPlannerTurn

record PlannerAttemptRejected =
  ar_execution_id :: PlannerExecutionId
  ar_attempt_id :: PlannerAttemptId
  ar_observed_sha256 :: PlannerDigest
  ar_rejection :: PlannerRejection

datatype (plugins only: code) PlannerJournalRecord =
    RecordPrepared PlannerAttemptPrepared
  | RecordObserved PlannerAttemptObserved
  | RecordAccepted PlannerAttemptAccepted
  | RecordRejected PlannerAttemptRejected

fun record_attempt_id :: "PlannerJournalRecord \<Rightarrow> PlannerAttemptId" where
  "record_attempt_id (RecordPrepared r) = ap_attempt_id r"
| "record_attempt_id (RecordObserved r) = ao_attempt_id r"
| "record_attempt_id (RecordAccepted r) = aa_attempt_id r"
| "record_attempt_id (RecordRejected r) = ar_attempt_id r"

datatype (plugins only: code) PlannerAttemptProjection =
    ReconciliationRequired PlannerAttemptPrepared
  | ObservedPendingDecision PlannerAttemptPrepared PlannerAttemptObserved
  | ProjectedAccepted PlannerAttemptPrepared PlannerAttemptObserved PlannerAttemptAccepted
  | ProjectedRejected PlannerAttemptPrepared PlannerAttemptObserved PlannerAttemptRejected

type_synonym PlannerJournalError = string

record journal_env = prompt_env +
  je_bundle_json :: "PreparedPlannerReplannerRequest \<Rightarrow> string + u8 list"
  je_prepared_json :: "PlannerAttemptPrepared \<Rightarrow> string + u8 list"
  je_observed_json :: "PlannerAttemptObserved \<Rightarrow> string + u8 list"
  je_proposal_json :: "PlannerTurnProposal \<Rightarrow> string + u8 list"
  je_contract_error_text :: "PlannerContractError \<Rightarrow> string"
  je_policy_error_text :: "PlannerReplannerInferencePolicyError \<Rightarrow> string"
  je_setup_error_text :: "PlannerReplannerSetupError \<Rightarrow> string"

definition prepared_sha256 ::
  "('a) journal_env_scheme \<Rightarrow> PlannerAttemptPrepared \<Rightarrow> PlannerContractError + PlannerDigest" where
  "prepared_sha256 env self = digest_of env (je_prepared_json env self)"

definition observed_sha256 ::
  "('a) journal_env_scheme \<Rightarrow> PlannerAttemptObserved \<Rightarrow> PlannerContractError + PlannerDigest" where
  "observed_sha256 env self = digest_of env (je_observed_json env self)"

definition contract_journal_error ::
  "('a) journal_env_scheme \<Rightarrow> PlannerContractError + 'b \<Rightarrow> PlannerJournalError + 'b" where
  "contract_journal_error env r = map_err (je_contract_error_text env) r"

section \<open>Checks of the backend's answer\<close>

definition planner_response_violations ::
  "('a) backend_env_scheme \<Rightarrow> StructuredInferenceResponse \<Rightarrow> ModelId \<Rightarrow> BackendId
     \<Rightarrow> BackendInstanceIdentity \<Rightarrow> u32 \<Rightarrow> PlannerResponseViolation list" where
  "planner_response_violations env response expected_model expected_backend expected_instance
       max_output_tokens =
     report (sr_model_id response \<noteq> expected_model) ModelIdentityMismatch
     @ report (ie_backend_id (sr_evidence response) \<noteq> expected_backend) BackendIdentityMismatch
     @ report (ie_backend_instance (sr_evidence response) \<noteq> Some expected_instance)
         BackendInstanceIdentityMismatch
     @ report (\<not> matches_endpoint env (endpoint_origin expected_instance)
           (ie_endpoint (sr_evidence response)))
         EndpointOriginMismatch
     @ (case be_json_parse env (sr_raw_text response) of
          Some value \<Rightarrow> report (value \<noteq> sr_value response) RawTextValueMismatch
        | None \<Rightarrow> [RawTextIsNotJson])
     @ (case sr_usage response of
          None \<Rightarrow> []
        | Some usage \<Rightarrow>
            (case tu_output_tokens usage of
               None \<Rightarrow> []
             | Some actual \<Rightarrow>
                 report (actual > ucast max_output_tokens)
                   (OutputTokenLimitExceeded (ucast max_output_tokens) actual)))"

definition planner_backend_error_violations ::
  "('a) backend_env_scheme \<Rightarrow> BackendError \<Rightarrow> BackendInstanceIdentity \<Rightarrow> PlannerResponseViolation list" where
  "planner_backend_error_violations env error expected_instance =
     report (bx_backend_id error \<noteq> bi_backend_id expected_instance) BackendIdentityMismatch
     @ report (bx_backend_instance error \<noteq> Some expected_instance) BackendInstanceIdentityMismatch
     @ report (case Option.bind (bx_evidence error) bee_endpoint of
           None \<Rightarrow> False
         | Some endpoint \<Rightarrow> \<not> matches_endpoint env (endpoint_origin expected_instance) endpoint)
         EndpointOriginMismatch"

section \<open>The deterministic decision\<close>

datatype ReplayedPlannerDecision =
    ReplayedAccepted PlannerDigest ValidatedPlannerTurn
  | ReplayedRejected PlannerRejection

definition planner_prompt_rejection ::
  "('a) journal_env_scheme \<Rightarrow> PlannerReplannerApplyError \<Rightarrow> PlannerRejection" where
  "planner_prompt_rejection env error =
     (case error of
        ApplyOutputDecode message \<Rightarrow> RejectedOutputDecode message
      | ApplyPlan violations \<Rightarrow> RejectedPlanValidation violations
      | ApplySetup e \<Rightarrow> RejectedPromptContract (je_setup_error_text env e)
      | ApplyPrompt message \<Rightarrow> RejectedPromptContract message)"

definition replay_planner_decision ::
  "('a) journal_env_scheme \<Rightarrow> PlannerAttemptPrepared \<Rightarrow> PlannerAttemptObserved
     \<Rightarrow> PlannerReplannerInferencePolicy \<Rightarrow> PlannerJournalError + ReplayedPlannerDecision" where
  "replay_planner_decision env prepared observed expected_inference_policy =
     (case ao_observation observed of
        ObservedError error \<Rightarrow>
          (let violations = planner_backend_error_violations env error (ap_backend_instance prepared) in
           Inr (ReplayedRejected
             (if violations = [] then RejectedBackend else RejectedResponseContract violations)))
      | ObservedResponse response \<Rightarrow>
          (let response_violations = planner_response_violations env response (ap_model_id prepared)
                 (ap_backend_id prepared) (ap_backend_instance prepared) (ap_max_output_tokens prepared)
           in if response_violations \<noteq> []
              then Inr (ReplayedRejected (RejectedResponseContract response_violations))
              else case decode_and_apply_planner_replanner_output env (ap_prompt_bundle prepared)
                      (sr_value response) (ap_base_plan prepared) (ap_obligations prepared)
                      (ap_context prepared) (ap_policy prepared) expected_inference_policy of
                  Inl error \<Rightarrow> Inr (ReplayedRejected (planner_prompt_rejection env error))
                | Inr (proposal, result) \<Rightarrow>
                    and_then (contract_journal_error env (digest_of env (je_proposal_json env proposal)))
                      (\<lambda>proposal_sha256. Inr (ReplayedAccepted proposal_sha256 result))))"

section \<open>Replay\<close>

definition prepared_is_internally_valid ::
  "('a) journal_env_scheme \<Rightarrow> PlannerAttemptPrepared \<Rightarrow> PlannerReplannerInferencePolicy
     \<Rightarrow> PlannerJournalError + bool" where
  "prepared_is_internally_valid env prepared expected =
     and_then (contract_journal_error env (digest_of env (je_bundle_json env (ap_prompt_bundle prepared))))
       (\<lambda>bundle_sha256.
     and_then (contract_journal_error env (plan_sha256 env (ap_base_plan prepared)))
       (\<lambda>base_sha256. Inr
       (ap_inference_policy prepared = expected
        \<and> ap_inference_policy_sha256 prepared = ip_policy_sha256 expected
        \<and> pq_inference_policy_sha256 (ap_prompt_bundle prepared) = ip_policy_sha256 expected
        \<and> ap_backend_id prepared = policy_backend_id expected
        \<and> ap_backend_instance prepared = ip_backend_instance expected
        \<and> ap_model_id prepared = ip_model_id expected
        \<and> ap_max_output_tokens prepared = ip_max_output_tokens expected
        \<and> sq_model_id (pq_inference (ap_prompt_bundle prepared)) = ap_model_id prepared
        \<and> sq_reasoning (pq_inference (ap_prompt_bundle prepared)) = ip_reasoning expected
        \<and> sq_max_output_tokens (pq_inference (ap_prompt_bundle prepared)) = ap_max_output_tokens prepared
        \<and> bundle_sha256 = ap_prompt_bundle_sha256 prepared
        \<and> base_sha256 = ap_base_plan_sha256 prepared
        \<and> oc_snapshot_sha256 (ap_obligations prepared) = ap_obligation_snapshot_sha256 prepared
        \<and> oc_acceptance_policy_sha256 (ap_obligations prepared) = ap_acceptance_policy_sha256 prepared
        \<and> cc_manifest_sha256 (ap_context prepared) = ap_context_manifest_sha256 prepared
        \<and> pp_policy_sha256 (ap_policy prepared) = ap_planner_policy_sha256 prepared
        \<and> request_validate_against env (ap_prompt_bundle prepared) (ap_base_plan prepared)
            (ap_obligations prepared) (ap_context prepared) (ap_policy prepared) expected = Inr ()
        \<and> planner_setup_violations env (ap_base_plan prepared) (ap_obligations prepared)
            (ap_context prepared) (ap_policy prepared) = [])))"

record replay_state =
  rp_attempts :: "(PlannerAttemptId, PlannerAttemptProjection) btree_map"
  rp_reservations :: "BudgetReservationId btree_set"
  rp_executions :: "PlannerExecutionId btree_set"

definition replay_prepared ::
  "('a) journal_env_scheme \<Rightarrow> PlannerReplannerInferencePolicy \<Rightarrow> replay_state \<Rightarrow> PlannerAttemptPrepared
     \<Rightarrow> PlannerJournalError + replay_state" where
  "replay_prepared env expected st prepared =
     and_then (prepared_is_internally_valid env prepared expected) (\<lambda>valid.
       if \<not> valid then Inl ''planner preparation does not bind its request and authority snapshots''
       else if bs_contains (rp_reservations st) (ap_budget_reservation_id prepared)
         then Inl ''planner budget reservation is reused''
       else if ap_parent_attempt_id prepared \<noteq> None
         then Inl ''planner retry requires an explicit durable retry authorization record''
       else if bs_contains (rp_executions st) (ap_execution_id prepared)
         then Inl ''planner execution may contain exactly one root preparation''
       else if bm_contains_key (rp_attempts st) (ap_attempt_id prepared)
         then Inl ''duplicate planner preparation''
       else Inr \<lparr>rp_attempts = bm_insert (ap_attempt_id prepared) (ReconciliationRequired prepared)
                   (rp_attempts st),
                 rp_reservations = bs_insert (ap_budget_reservation_id prepared) (rp_reservations st),
                 rp_executions = bs_insert (ap_execution_id prepared) (rp_executions st)\<rparr>)"

definition replay_observed ::
  "('a) journal_env_scheme \<Rightarrow> replay_state \<Rightarrow> PlannerAttemptObserved
     \<Rightarrow> PlannerJournalError + replay_state" where
  "replay_observed env st observed =
     (case bm_get (rp_attempts st) (ao_attempt_id observed) of
        None \<Rightarrow> Inl ''planner observation has no preparation''
      | Some (ReconciliationRequired prepared) \<Rightarrow>
          (if ap_execution_id prepared \<noteq> ao_execution_id observed
             then Inl ''planner observation does not bind its preparation''
           else and_then (contract_journal_error env (prepared_sha256 env prepared)) (\<lambda>digest.
             if digest \<noteq> ao_prepared_sha256 observed
               then Inl ''planner observation does not bind its preparation''
             else Inr (st\<lparr>rp_attempts := bm_insert (ao_attempt_id observed)
                     (ObservedPendingDecision prepared observed) (rp_attempts st)\<rparr>)))
      | Some _ \<Rightarrow> Inl ''planner observation is duplicated or out of order'')"

definition replay_accepted ::
  "('a) journal_env_scheme \<Rightarrow> PlannerReplannerInferencePolicy \<Rightarrow> replay_state \<Rightarrow> PlannerAttemptAccepted
     \<Rightarrow> PlannerJournalError + replay_state" where
  "replay_accepted env expected st accepted =
     (case bm_get (rp_attempts st) (aa_attempt_id accepted) of
        None \<Rightarrow> Inl ''planner acceptance has no observation''
      | Some (ObservedPendingDecision prepared observed) \<Rightarrow>
          (if ap_execution_id prepared \<noteq> aa_execution_id accepted
             then Inl ''planner acceptance does not bind its observation''
           else and_then (contract_journal_error env (observed_sha256 env observed)) (\<lambda>digest.
             if digest \<noteq> aa_observed_sha256 accepted
               then Inl ''planner acceptance does not bind its observation''
             else and_then (replay_planner_decision env prepared observed expected) (\<lambda>decision.
               (case decision of
                  ReplayedRejected _ \<Rightarrow>
                    Inl ''planner acceptance contradicts the observed deterministic decision''
                | ReplayedAccepted proposal_sha256 result \<Rightarrow>
                    if aa_proposal_sha256 accepted \<noteq> proposal_sha256 \<or> aa_result accepted \<noteq> result
                      then Inl ''planner acceptance contains a fabricated proposal or result''
                    else Inr (st\<lparr>rp_attempts := bm_insert (aa_attempt_id accepted)
                        (ProjectedAccepted prepared observed accepted) (rp_attempts st)\<rparr>)))))
      | Some _ \<Rightarrow> Inl ''planner acceptance is duplicated or out of order'')"

definition replay_rejected ::
  "('a) journal_env_scheme \<Rightarrow> PlannerReplannerInferencePolicy \<Rightarrow> replay_state \<Rightarrow> PlannerAttemptRejected
     \<Rightarrow> PlannerJournalError + replay_state" where
  "replay_rejected env expected st rejected =
     (case bm_get (rp_attempts st) (ar_attempt_id rejected) of
        None \<Rightarrow> Inl ''planner rejection has no observation''
      | Some (ObservedPendingDecision prepared observed) \<Rightarrow>
          (if ap_execution_id prepared \<noteq> ar_execution_id rejected
             then Inl ''planner rejection does not bind its observation''
           else and_then (contract_journal_error env (observed_sha256 env observed)) (\<lambda>digest.
             if digest \<noteq> ar_observed_sha256 rejected
               then Inl ''planner rejection does not bind its observation''
             else and_then (replay_planner_decision env prepared observed expected) (\<lambda>decision.
               (case decision of
                  ReplayedAccepted _ _ \<Rightarrow>
                    Inl ''planner rejection contradicts the observed deterministic decision''
                | ReplayedRejected expected_rejection \<Rightarrow>
                    if ar_rejection rejected \<noteq> expected_rejection
                      then Inl ''planner rejection does not match the observed deterministic decision''
                    else Inr (st\<lparr>rp_attempts := bm_insert (ar_attempt_id rejected)
                        (ProjectedRejected prepared observed rejected) (rp_attempts st)\<rparr>)))))
      | Some _ \<Rightarrow> Inl ''planner rejection is duplicated or out of order'')"

definition replay_record ::
  "('a) journal_env_scheme \<Rightarrow> PlannerReplannerInferencePolicy \<Rightarrow> replay_state \<Rightarrow> PlannerJournalRecord
     \<Rightarrow> PlannerJournalError + replay_state" where
  "replay_record env expected st r =
     (case r of
        RecordPrepared prepared \<Rightarrow> replay_prepared env expected st prepared
      | RecordObserved observed \<Rightarrow> replay_observed env st observed
      | RecordAccepted accepted \<Rightarrow> replay_accepted env expected st accepted
      | RecordRejected rejected \<Rightarrow> replay_rejected env expected st rejected)"

fun replay_loop ::
  "('a) journal_env_scheme \<Rightarrow> PlannerReplannerInferencePolicy \<Rightarrow> replay_state \<Rightarrow> PlannerJournalRecord list
     \<Rightarrow> PlannerJournalError + replay_state" where
  "replay_loop env expected st [] = Inr st"
| "replay_loop env expected st (r # rs) =
     and_then (replay_record env expected st r) (\<lambda>st'. replay_loop env expected st' rs)"

definition replay_start :: replay_state where
  "replay_start = \<lparr>rp_attempts = [], rp_reservations = [], rp_executions = []\<rparr>"

text \<open>\<open>PlannerJournalProjection::replay\<close>; the projection is the map of attempts.\<close>

definition planner_replay ::
  "('a) journal_env_scheme \<Rightarrow> PlannerJournalRecord list \<Rightarrow> PlannerReplannerInferencePolicy
     \<Rightarrow> PlannerJournalError + (PlannerAttemptId, PlannerAttemptProjection) btree_map" where
  "planner_replay env records expected =
     and_then (map_err (je_policy_error_text env) (policy_validate_integrity env expected)) (\<lambda>_.
       if length records > HARD_MAX_ACTIVE_JOURNAL_RECORDS
         then Inl ''active planner journal exceeds its hard record limit; durable archival is required''
       else and_then (replay_loop env expected replay_start records) (\<lambda>st. Inr (rp_attempts st)))"

section \<open>The in-memory journal\<close>

text \<open>A poisoned lock is one that a panicking thread held; it stays poisoned.\<close>

record InMemoryPlannerJournal =
  mj_records :: "PlannerJournalRecord list"
  mj_poisoned :: bool

definition journal_snapshot :: "InMemoryPlannerJournal \<Rightarrow> PlannerJournalError + PlannerJournalRecord list" where
  "journal_snapshot self =
     (if mj_poisoned self then Inl ''planner journal lock was poisoned'' else Inr (mj_records self))"

definition journal_projection ::
  "('a) journal_env_scheme \<Rightarrow> InMemoryPlannerJournal \<Rightarrow> PlannerReplannerInferencePolicy
     \<Rightarrow> PlannerJournalError + (PlannerAttemptId, PlannerAttemptProjection) btree_map" where
  "journal_projection env self expected =
     and_then (journal_snapshot self) (\<lambda>records. planner_replay env records expected)"

definition journal_retain ::
  "('a) journal_env_scheme \<Rightarrow> InMemoryPlannerJournal \<Rightarrow> PlannerJournalRecord
     \<Rightarrow> PlannerReplannerInferencePolicy \<Rightarrow> (PlannerJournalError + unit) \<times> InMemoryPlannerJournal" where
  "journal_retain env self r expected =
     (if mj_poisoned self then (Inl ''planner journal lock was poisoned'', self)
      else case planner_replay env (mj_records self @ [r]) expected of
          Inl e \<Rightarrow> (Inl e, self)
        | Inr _ \<Rightarrow> (Inr (), self\<lparr>mj_records := mj_records self @ [r]\<rparr>))"

end
