(* ===== verification/Planner_Journal_Correct.thy ===== *)
theory Planner_Journal_Correct
  imports Planner_Journal
begin

text \<open>
  What a journal that replays says: every attempt went through the stages of its life cycle in
  order, each record binds the one before it, no execution and no budget reservation was prepared
  twice, and a recorded decision is the one that the observation determines.
\<close>

section \<open>Replay step by step\<close>

lemma replay_loop_append:
  "replay_loop env expected st (xs @ ys) =
     and_then (replay_loop env expected st xs) (\<lambda>st'. replay_loop env expected st' ys)"
  by (induction xs arbitrary: st) (auto simp: and_then_def split: sum.splits)

lemma planner_replay_iff:
  "planner_replay env records expected = Inr attempts \<longleftrightarrow>
     policy_validate_integrity env expected = Inr ()
     \<and> length records \<le> HARD_MAX_ACTIVE_JOURNAL_RECORDS
     \<and> (\<exists>st. replay_loop env expected replay_start records = Inr st \<and> attempts = rp_attempts st)"
  by (auto simp: planner_replay_def result_simps split: if_splits)

text \<open>Replay is closed under prefixes: a crash loses no earlier decision.\<close>

lemma planner_replay_prefix:
  assumes "planner_replay env (xs @ ys) expected = Inr attempts"
  obtains attempts' where "planner_replay env xs expected = Inr attempts'"
  using assms by (auto simp: planner_replay_iff replay_loop_append and_then_eq_Inr)

section \<open>Life cycles\<close>

text \<open>The records that a projection stands for, in the order in which they were retained.\<close>

fun projection_records :: "PlannerAttemptProjection \<Rightarrow> PlannerJournalRecord list" where
  "projection_records (ReconciliationRequired p) = [RecordPrepared p]"
| "projection_records (ObservedPendingDecision p ob) = [RecordPrepared p, RecordObserved ob]"
| "projection_records (ProjectedAccepted p ob a) = [RecordPrepared p, RecordObserved ob, RecordAccepted a]"
| "projection_records (ProjectedRejected p ob r) = [RecordPrepared p, RecordObserved ob, RecordRejected r]"

definition attempt_records :: "PlannerJournalRecord list \<Rightarrow> PlannerAttemptId \<Rightarrow> PlannerJournalRecord list" where
  "attempt_records rs a = filter (\<lambda>r. record_attempt_id r = a) rs"

definition prepared_ok ::
  "('a) journal_env_scheme \<Rightarrow> PlannerReplannerInferencePolicy \<Rightarrow> PlannerAttemptPrepared \<Rightarrow> bool" where
  "prepared_ok env expected p \<longleftrightarrow>
     prepared_is_internally_valid env p expected = Inr True \<and> ap_parent_attempt_id p = None"

definition observed_ok ::
  "('a) journal_env_scheme \<Rightarrow> PlannerAttemptPrepared \<Rightarrow> PlannerAttemptObserved \<Rightarrow> bool" where
  "observed_ok env p ob \<longleftrightarrow>
     ao_execution_id ob = ap_execution_id p \<and> prepared_sha256 env p = Inr (ao_prepared_sha256 ob)"

fun projection_ok ::
  "('a) journal_env_scheme \<Rightarrow> PlannerReplannerInferencePolicy \<Rightarrow> PlannerAttemptProjection \<Rightarrow> bool" where
  "projection_ok env expected (ReconciliationRequired p) = prepared_ok env expected p"
| "projection_ok env expected (ObservedPendingDecision p ob) =
     (prepared_ok env expected p \<and> observed_ok env p ob)"
| "projection_ok env expected (ProjectedAccepted p ob a) =
     (prepared_ok env expected p \<and> observed_ok env p ob
      \<and> aa_execution_id a = ap_execution_id p \<and> observed_sha256 env ob = Inr (aa_observed_sha256 a)
      \<and> replay_planner_decision env p ob expected
          = Inr (ReplayedAccepted (aa_proposal_sha256 a) (aa_result a)))"
| "projection_ok env expected (ProjectedRejected p ob r) =
     (prepared_ok env expected p \<and> observed_ok env p ob
      \<and> ar_execution_id r = ap_execution_id p \<and> observed_sha256 env ob = Inr (ar_observed_sha256 r)
      \<and> replay_planner_decision env p ob expected = Inr (ReplayedRejected (ar_rejection r)))"

definition preparations :: "PlannerJournalRecord list \<Rightarrow> PlannerAttemptPrepared list" where
  "preparations rs = List.map_filter (\<lambda>r. case r of RecordPrepared p \<Rightarrow> Some p | _ \<Rightarrow> None) rs"

lemma preparations_append [simp]: "preparations (xs @ ys) = preparations xs @ preparations ys"
  by (simp add: preparations_def map_filter_def)

lemma preparations_simps [simp]:
  "preparations [] = []" "preparations [RecordPrepared p] = [p]" "preparations [RecordObserved ob] = []"
  "preparations [RecordAccepted a] = []" "preparations [RecordRejected r] = []"
  by (simp_all add: preparations_def map_filter_def)

lemma attempt_records_append [simp]:
  "attempt_records (xs @ [r]) a = attempt_records xs a @ (if record_attempt_id r = a then [r] else [])"
  by (simp add: attempt_records_def)

definition journal_state_ok ::
  "('a) journal_env_scheme \<Rightarrow> PlannerReplannerInferencePolicy \<Rightarrow> PlannerJournalRecord list \<Rightarrow> replay_state \<Rightarrow> bool" where
  "journal_state_ok env expected rs st \<longleftrightarrow>
     (\<forall>a. attempt_records rs a =
        (case bm_get (rp_attempts st) a of None \<Rightarrow> [] | Some pr \<Rightarrow> projection_records pr))
     \<and> (\<forall>a pr. bm_get (rp_attempts st) a = Some pr \<longrightarrow> projection_ok env expected pr)
     \<and> set (rp_reservations st) = ap_budget_reservation_id ` set (preparations rs)
     \<and> set (rp_executions st) = ap_execution_id ` set (preparations rs)
     \<and> distinct (map ap_budget_reservation_id (preparations rs))
     \<and> distinct (map ap_execution_id (preparations rs))"

lemma replay_prepared_Inr:
  "replay_prepared env expected st p = Inr st' \<longleftrightarrow>
     prepared_ok env expected p
     \<and> ap_budget_reservation_id p \<notin> set (rp_reservations st)
     \<and> ap_execution_id p \<notin> set (rp_executions st)
     \<and> bm_get (rp_attempts st) (ap_attempt_id p) = None
     \<and> st' = \<lparr>rp_attempts = bm_insert (ap_attempt_id p) (ReconciliationRequired p) (rp_attempts st),
              rp_reservations = bs_insert (ap_budget_reservation_id p) (rp_reservations st),
              rp_executions = bs_insert (ap_execution_id p) (rp_executions st)\<rparr>"
  by (auto simp: replay_prepared_def prepared_ok_def result_simps bs_contains_def bm_contains_key_def
      split: if_splits)

lemma replay_observed_Inr:
  "replay_observed env st ob = Inr st' \<longleftrightarrow>
     (\<exists>p. bm_get (rp_attempts st) (ao_attempt_id ob) = Some (ReconciliationRequired p)
        \<and> observed_ok env p ob
        \<and> st' = st\<lparr>rp_attempts := bm_insert (ao_attempt_id ob) (ObservedPendingDecision p ob) (rp_attempts st)\<rparr>)"
  by (auto simp: replay_observed_def observed_ok_def contract_journal_error_def result_simps
      split: option.splits PlannerAttemptProjection.splits if_splits)

lemma case_decision_Inr:
  "(case d of ReplayedAccepted p t \<Rightarrow> f p t | ReplayedRejected r \<Rightarrow> g r) = Inr y \<longleftrightarrow>
     (\<exists>p t. d = ReplayedAccepted p t \<and> f p t = Inr y) \<or> (\<exists>r. d = ReplayedRejected r \<and> g r = Inr y)"
  by (cases d) auto

lemma if_Inl_eq_Inr: "(if c then Inl e else r) = Inr y \<longleftrightarrow> \<not> c \<and> r = Inr y"
  by simp

lemma replay_accepted_Inr:
  "replay_accepted env expected st a = Inr st' \<longleftrightarrow>
     (\<exists>p ob. bm_get (rp_attempts st) (aa_attempt_id a) = Some (ObservedPendingDecision p ob)
        \<and> aa_execution_id a = ap_execution_id p \<and> observed_sha256 env ob = Inr (aa_observed_sha256 a)
        \<and> replay_planner_decision env p ob expected
            = Inr (ReplayedAccepted (aa_proposal_sha256 a) (aa_result a))
        \<and> st' = st\<lparr>rp_attempts := bm_insert (aa_attempt_id a) (ProjectedAccepted p ob a) (rp_attempts st)\<rparr>)"
  by (auto simp: replay_accepted_def contract_journal_error_def result_simps
      case_decision_Inr if_Inl_eq_Inr split: option.splits PlannerAttemptProjection.splits)

lemma replay_rejected_Inr:
  "replay_rejected env expected st r = Inr st' \<longleftrightarrow>
     (\<exists>p ob. bm_get (rp_attempts st) (ar_attempt_id r) = Some (ObservedPendingDecision p ob)
        \<and> ar_execution_id r = ap_execution_id p \<and> observed_sha256 env ob = Inr (ar_observed_sha256 r)
        \<and> replay_planner_decision env p ob expected = Inr (ReplayedRejected (ar_rejection r))
        \<and> st' = st\<lparr>rp_attempts := bm_insert (ar_attempt_id r) (ProjectedRejected p ob r) (rp_attempts st)\<rparr>)"
  by (auto simp: replay_rejected_def contract_journal_error_def result_simps
      case_decision_Inr if_Inl_eq_Inr split: option.splits PlannerAttemptProjection.splits)

text \<open>One record keeps the invariant.\<close>

lemma replay_record_ok:
  assumes ok: "journal_state_ok env expected rs st" and step: "replay_record env expected st r = Inr st'"
  shows "journal_state_ok env expected (rs @ [r]) st'"
proof (cases r)
  case (RecordPrepared p)
  with step ok show ?thesis
    by (auto simp: replay_record_def replay_prepared_Inr journal_state_ok_def)
next
  case (RecordObserved ob)
  with step obtain p where "bm_get (rp_attempts st) (ao_attempt_id ob) = Some (ReconciliationRequired p)"
      "observed_ok env p ob"
      "st' = st\<lparr>rp_attempts := bm_insert (ao_attempt_id ob) (ObservedPendingDecision p ob) (rp_attempts st)\<rparr>"
    by (auto simp: replay_record_def replay_observed_Inr)
  with ok RecordObserved show ?thesis
    unfolding journal_state_ok_def by (simp, fastforce)
next
  case (RecordAccepted a)
  with step obtain p ob where "bm_get (rp_attempts st) (aa_attempt_id a) = Some (ObservedPendingDecision p ob)"
      "aa_execution_id a = ap_execution_id p" "observed_sha256 env ob = Inr (aa_observed_sha256 a)"
      "replay_planner_decision env p ob expected = Inr (ReplayedAccepted (aa_proposal_sha256 a) (aa_result a))"
      "st' = st\<lparr>rp_attempts := bm_insert (aa_attempt_id a) (ProjectedAccepted p ob a) (rp_attempts st)\<rparr>"
    by (auto simp: replay_record_def replay_accepted_Inr)
  with ok RecordAccepted show ?thesis
    unfolding journal_state_ok_def by (simp, fastforce)
next
  case (RecordRejected a)
  with step obtain p ob where "bm_get (rp_attempts st) (ar_attempt_id a) = Some (ObservedPendingDecision p ob)"
      "ar_execution_id a = ap_execution_id p" "observed_sha256 env ob = Inr (ar_observed_sha256 a)"
      "replay_planner_decision env p ob expected = Inr (ReplayedRejected (ar_rejection a))"
      "st' = st\<lparr>rp_attempts := bm_insert (ar_attempt_id a) (ProjectedRejected p ob a) (rp_attempts st)\<rparr>"
    by (auto simp: replay_record_def replay_rejected_Inr)
  with ok RecordRejected show ?thesis
    unfolding journal_state_ok_def by (simp, fastforce)
qed

lemma journal_state_ok_start: "journal_state_ok env expected [] replay_start"
  by (simp add: journal_state_ok_def replay_start_def attempt_records_def)

lemma replay_loop_ok:
  "replay_loop env expected replay_start rs = Inr st \<Longrightarrow> journal_state_ok env expected rs st"
proof (induction rs arbitrary: st rule: rev_induct)
  case (snoc r rs)
  then show ?case
    by (auto simp: replay_loop_append and_then_eq_Inr intro: replay_record_ok)
qed (simp add: journal_state_ok_start)

section \<open>The in-memory journal\<close>

text \<open>A journal whose records replay, and one that stays so whatever is offered to it.\<close>

definition journal_replays ::
  "('a) journal_env_scheme \<Rightarrow> PlannerReplannerInferencePolicy \<Rightarrow> PlannerJournalRecord list \<Rightarrow> bool" where
  "journal_replays env expected rs \<longleftrightarrow> (\<exists>attempts. planner_replay env rs expected = Inr attempts)"

lemma journal_retain_Inr:
  "journal_retain env j r expected = (Inr (), j') \<longleftrightarrow>
     \<not> mj_poisoned j \<and> journal_replays env expected (mj_records j @ [r])
     \<and> j' = j\<lparr>mj_records := mj_records j @ [r]\<rparr>"
  by (auto simp: journal_retain_def journal_replays_def split: sum.splits)

lemma journal_retain_Inl:
  "journal_retain env j r expected = (Inl e, j') \<Longrightarrow> j' = j"
  by (auto simp: journal_retain_def split: if_splits sum.splits)

text \<open>Whether one more record is acknowledged, from the state that the journal replays to.\<close>

lemma journal_replays_snoc:
  assumes "replay_loop env expected replay_start rs = Inr st"
    and "policy_validate_integrity env expected = Inr ()"
  shows "journal_replays env expected (rs @ [r]) \<longleftrightarrow>
    length rs < HARD_MAX_ACTIVE_JOURNAL_RECORDS \<and> (\<exists>st'. replay_record env expected st r = Inr st')"
  using assms
  by (auto simp: journal_replays_def planner_replay_iff replay_loop_append and_then_eq_Inr Suc_le_eq)

text \<open>A preparation whose execution, reservation or attempt is already prepared is refused.\<close>

lemma repeated_preparation_refused:
  assumes "RecordPrepared q \<in> set rs"
    and "ap_execution_id q = ap_execution_id p \<or> ap_budget_reservation_id q = ap_budget_reservation_id p
      \<or> ap_attempt_id q = ap_attempt_id p"
  shows "\<not> journal_replays env expected (rs @ [RecordPrepared p])"
proof
  assume "journal_replays env expected (rs @ [RecordPrepared p])"
  then obtain st st' where st: "replay_loop env expected replay_start rs = Inr st"
      and step: "replay_record env expected st (RecordPrepared p) = Inr st'"
    by (auto simp: journal_replays_def planner_replay_iff replay_loop_append and_then_eq_Inr)
  have ok: "journal_state_ok env expected rs st"
    using st by (rule replay_loop_ok)
  have "q \<in> set (preparations rs)"
    using assms(1) by (force simp: preparations_def map_filter_def)
  moreover have "attempt_records rs (ap_attempt_id q) \<noteq> []"
    using assms(1) by (auto simp: attempt_records_def filter_empty_conv intro!: bexI[of _ "RecordPrepared q"])
  ultimately show False
    using ok step assms(2)
    by (auto simp: journal_state_ok_def replay_record_def replay_prepared_Inr image_iff
        split: option.splits)
qed

text \<open>An accepted record closes the life cycle of its attempt.\<close>

lemma accepted_projection:
  assumes ok: "journal_state_ok env policy rs st" and mem: "RecordAccepted a \<in> set rs"
  obtains p ob where "projection_ok env policy (ProjectedAccepted p ob a)"
    and "attempt_records rs (aa_attempt_id a) = projection_records (ProjectedAccepted p ob a)"
proof -
  have "RecordAccepted a \<in> set (attempt_records rs (aa_attempt_id a))"
    using mem by (simp add: attempt_records_def)
  moreover have "attempt_records rs (aa_attempt_id a) =
      (case bm_get (rp_attempts st) (aa_attempt_id a) of None \<Rightarrow> [] | Some pr \<Rightarrow> projection_records pr)"
    using ok by (simp add: journal_state_ok_def)
  ultimately obtain pr where pr: "bm_get (rp_attempts st) (aa_attempt_id a) = Some pr"
      "RecordAccepted a \<in> set (projection_records pr)"
      "attempt_records rs (aa_attempt_id a) = projection_records pr"
    by (auto split: option.splits)
  then obtain p ob where shape: "pr = ProjectedAccepted p ob a" by (cases pr) auto
  have "projection_ok env policy pr" using ok pr(1) unfolding journal_state_ok_def by blast
  with pr(3) shape show thesis using that by blast
qed

text \<open>An accepting decision is made of a validated proposal.\<close>

lemma accepted_decision:
  assumes "replay_planner_decision env p ob policy = Inr (ReplayedAccepted digest result)"
  shows "\<exists>response proposal. ao_observation ob = ObservedResponse response
    \<and> planner_response_violations env response (ap_model_id p) (ap_backend_id p) (ap_backend_instance p)
        (ap_max_output_tokens p) = []
    \<and> pv_proposal_from_value env (sr_value response) = Inr proposal
    \<and> validate_and_apply env proposal (ap_base_plan p) (ap_obligations p) (ap_context p) (ap_policy p)
        = Inr result"
proof (cases "ao_observation ob")
  case (ObservedResponse response)
  with assms obtain proposal where "planner_response_violations env response (ap_model_id p)
      (ap_backend_id p) (ap_backend_instance p) (ap_max_output_tokens p) = []"
      "decode_and_apply_planner_replanner_output env (ap_prompt_bundle p) (sr_value response)
        (ap_base_plan p) (ap_obligations p) (ap_context p) (ap_policy p) policy = Inr (proposal, result)"
    by (auto simp: replay_planner_decision_def Let_def result_simps split: if_splits sum.splits)
  with ObservedResponse show ?thesis by (auto simp: decode_and_apply_Inr)
next
  case (ObservedError e)
  with assms show ?thesis by (simp add: replay_planner_decision_def Let_def)
qed

end
