(* ===== verification/Planner_Executor.thy ===== *)
theory Planner_Executor
  imports Planner_Journal_Correct
begin

text \<open>
  \<open>PlannerExecutor::execute\<close> of \<open>crates/orchestrator/src/planner.rs\<close>: one inference between a durable
  preparation and a durable decision. The journal is a parameter \<open>retain\<close> with its state threaded
  through, as \<open>J: PlannerJournal\<close> is; the backend is its two identities and its answer to a request.

  An execution yields its result, the journal it leaves and the list of its effects: the records that
  the journal acknowledged and the calls of the backend, in order.
\<close>

section \<open>Requests and results\<close>

record PlannerExecutionRequest =
  xr_execution_id :: PlannerExecutionId
  xr_attempt_id :: PlannerAttemptId
  xr_parent_attempt_id :: "PlannerAttemptId option"
  xr_budget_reservation_id :: BudgetReservationId
  xr_prompt_bundle :: PreparedPlannerReplannerRequest
  xr_base_plan :: PlanSnapshot
  xr_obligations :: ProtectedObligationCatalog
  xr_context :: PlannerContextCatalog
  xr_policy :: PlannerPolicy

definition with_parent_attempt ::
  "PlannerAttemptId \<Rightarrow> PlannerExecutionRequest \<Rightarrow> PlannerExecutionRequest" where
  "with_parent_attempt parent self = self\<lparr>xr_parent_attempt_id := Some parent\<rparr>"

datatype PlannerExecutionStatus =
    ExecutionAccepted ValidatedPlannerTurn
  | ExecutionRejected PlannerRejection

record PlannerExecution =
  xn_prepared :: PlannerAttemptPrepared
  xn_observed :: PlannerAttemptObserved
  xn_status :: PlannerExecutionStatus

datatype PlannerExecutionError =
    ExecutionInferencePolicy PlannerReplannerInferencePolicyError
  | BackendPolicyMismatch
  | ExecutionSetup "PlannerViolation list"
  | PromptBoundary string
  | PreparationUnacknowledged string
  | ObservationUnacknowledged PlannerAttemptId string
  | DecisionUnacknowledged PlannerAttemptId string
  | ExecutionEncoding string

text \<open>What the executor holds of its backend.\<close>

record planner_backend =
  pb_backend_id :: BackendId
  pb_instance_identity :: BackendInstanceIdentity
  pb_infer_structured :: "StructuredInferenceRequest \<Rightarrow> BackendError + StructuredInferenceResponse"

section \<open>Effects\<close>

datatype (plugins only: code) planner_effect =
    Retained PlannerJournalRecord
  | Called PlannerAttemptPrepared StructuredInferenceRequest

type_synonym ('j, 'a) exec =
  "'j \<times> planner_effect list \<Rightarrow> (PlannerExecutionError + 'a) \<times> 'j \<times> planner_effect list"

definition exec_then :: "('j, 'a) exec \<Rightarrow> ('a \<Rightarrow> ('j, 'b) exec) \<Rightarrow> ('j, 'b) exec" where
  "exec_then m f st = (case m st of (Inl e, st') \<Rightarrow> (Inl e, st') | (Inr x, st') \<Rightarrow> f x st')"

definition exec_result :: "PlannerExecutionError + 'a \<Rightarrow> ('j, 'a) exec" where
  "exec_result r st = (r, st)"

type_synonym 'j retain_fn =
  "'j \<Rightarrow> PlannerJournalRecord \<Rightarrow> PlannerReplannerInferencePolicy \<Rightarrow> (PlannerJournalError + unit) \<times> 'j"

definition exec_retain ::
  "'j retain_fn \<Rightarrow> PlannerReplannerInferencePolicy \<Rightarrow> PlannerJournalRecord
     \<Rightarrow> (PlannerJournalError \<Rightarrow> PlannerExecutionError) \<Rightarrow> ('j, unit) exec" where
  "exec_retain retain policy r unacknowledged st =
     (case retain (fst st) r policy of
        (Inl message, j) \<Rightarrow> (Inl (unacknowledged message), j, snd st)
      | (Inr _, j) \<Rightarrow> (Inr (), j, snd st @ [Retained r]))"

text \<open>The effect of a call names the preparation under which it is made.\<close>

definition exec_infer ::
  "planner_backend \<Rightarrow> PlannerAttemptPrepared \<Rightarrow> StructuredInferenceRequest
     \<Rightarrow> ('j, BackendError + StructuredInferenceResponse) exec" where
  "exec_infer backend prepared q st =
     (Inr (pb_infer_structured backend q), fst st, snd st @ [Called prepared q])"

section \<open>Preparation\<close>

text \<open>The part of \<open>execute\<close> up to the first record.\<close>

definition prepare_attempt ::
  "('a) journal_env_scheme \<Rightarrow> planner_backend \<Rightarrow> PlannerReplannerInferencePolicy
     \<Rightarrow> PlannerExecutionRequest \<Rightarrow> PlannerExecutionError + PlannerAttemptPrepared" where
  "prepare_attempt env backend policy request =
     and_then (map_err ExecutionInferencePolicy (policy_validate_integrity env policy)) (\<lambda>_.
     (let setup_violations = planner_setup_violations env (xr_base_plan request) (xr_obligations request)
            (xr_context request) (xr_policy request)
      in if setup_violations \<noteq> [] then Inl (ExecutionSetup setup_violations)
      else
     and_then (map_err (\<lambda>e. PromptBoundary (je_setup_error_text env e))
       (request_validate_against env (xr_prompt_bundle request) (xr_base_plan request)
         (xr_obligations request) (xr_context request) (xr_policy request) policy)) (\<lambda>_.
     if pb_backend_id backend \<noteq> policy_backend_id policy
        \<or> pb_instance_identity backend \<noteq> ip_backend_instance policy
        \<or> (case identity_validate_integrity env (pb_instance_identity backend) of Inl _ \<Rightarrow> True | Inr _ \<Rightarrow> False)
     then Inl BackendPolicyMismatch
     else
     and_then (map_err (\<lambda>e. ExecutionEncoding (je_contract_error_text env e))
       (plan_sha256 env (xr_base_plan request))) (\<lambda>base_plan_sha256.
     and_then (map_err (\<lambda>e. ExecutionEncoding (je_contract_error_text env e))
       (digest_of env (je_bundle_json env (xr_prompt_bundle request)))) (\<lambda>prompt_bundle_sha256. Inr
       \<lparr>ap_execution_id = xr_execution_id request,
        ap_attempt_id = xr_attempt_id request,
        ap_parent_attempt_id = xr_parent_attempt_id request,
        ap_budget_reservation_id = xr_budget_reservation_id request,
        ap_backend_id = policy_backend_id policy,
        ap_backend_instance = ip_backend_instance policy,
        ap_model_id = ip_model_id policy,
        ap_max_output_tokens = ip_max_output_tokens policy,
        ap_base_plan_sha256 = base_plan_sha256,
        ap_obligation_snapshot_sha256 = oc_snapshot_sha256 (xr_obligations request),
        ap_acceptance_policy_sha256 = oc_acceptance_policy_sha256 (xr_obligations request),
        ap_context_manifest_sha256 = cc_manifest_sha256 (xr_context request),
        ap_planner_policy_sha256 = pp_policy_sha256 (xr_policy request),
        ap_inference_policy_sha256 = ip_policy_sha256 policy,
        ap_inference_policy = policy,
        ap_prompt_bundle_sha256 = prompt_bundle_sha256,
        ap_prompt_bundle = xr_prompt_bundle request,
        ap_base_plan = xr_base_plan request,
        ap_obligations = xr_obligations request,
        ap_context = xr_context request,
        ap_policy = xr_policy request\<rparr>)))))"

section \<open>Observation and decision\<close>

definition observation_of ::
  "BackendError + StructuredInferenceResponse \<Rightarrow> PlannerInferenceObservation" where
  "observation_of r = (case r of Inr response \<Rightarrow> ObservedResponse response | Inl e \<Rightarrow> ObservedError e)"

definition observe_attempt ::
  "('a) journal_env_scheme \<Rightarrow> PlannerExecutionRequest \<Rightarrow> PlannerAttemptPrepared
     \<Rightarrow> PlannerInferenceObservation \<Rightarrow> PlannerExecutionError + PlannerAttemptObserved" where
  "observe_attempt env request prepared observation =
     and_then (map_err (\<lambda>e. ExecutionEncoding (je_contract_error_text env e))
       (prepared_sha256 env prepared)) (\<lambda>digest. Inr
       \<lparr>ao_execution_id = xr_execution_id request, ao_attempt_id = xr_attempt_id request,
        ao_prepared_sha256 = digest, ao_observation = observation\<rparr>)"

definition rejected_execution ::
  "'j retain_fn \<Rightarrow> PlannerReplannerInferencePolicy \<Rightarrow> PlannerAttemptPrepared \<Rightarrow> PlannerAttemptObserved
     \<Rightarrow> PlannerDigest \<Rightarrow> PlannerRejection \<Rightarrow> ('j, PlannerExecution) exec" where
  "rejected_execution retain policy prepared observed digest rejection =
     exec_then
       (exec_retain retain policy
         (RecordRejected
           \<lparr>ar_execution_id = ap_execution_id prepared, ar_attempt_id = ap_attempt_id prepared,
            ar_observed_sha256 = digest, ar_rejection = rejection\<rparr>)
         (DecisionUnacknowledged (ap_attempt_id prepared)))
       (\<lambda>_. exec_result (Inr
         \<lparr>xn_prepared = prepared, xn_observed = observed, xn_status = ExecutionRejected rejection\<rparr>))"

text \<open>The part of \<open>execute\<close> after the observation is acknowledged.\<close>

definition decide_attempt ::
  "('a) journal_env_scheme \<Rightarrow> 'j retain_fn \<Rightarrow> PlannerReplannerInferencePolicy \<Rightarrow> PlannerExecutionRequest
     \<Rightarrow> PlannerAttemptPrepared \<Rightarrow> PlannerAttemptObserved \<Rightarrow> ('j, PlannerExecution) exec" where
  "decide_attempt env retain policy request prepared observed =
     exec_then (exec_result (map_err (\<lambda>e. ExecutionEncoding (je_contract_error_text env e))
       (observed_sha256 env observed))) (\<lambda>digest.
     case ao_observation observed of
       ObservedError error \<Rightarrow>
         (let violations = planner_backend_error_violations env error (ap_backend_instance prepared) in
          rejected_execution retain policy prepared observed digest
            (if violations = [] then RejectedBackend else RejectedResponseContract violations))
     | ObservedResponse response \<Rightarrow>
         (let response_violations = planner_response_violations env response (ap_model_id prepared)
                (ap_backend_id prepared) (ap_backend_instance prepared) (ap_max_output_tokens prepared)
          in if response_violations \<noteq> []
             then rejected_execution retain policy prepared observed digest
               (RejectedResponseContract response_violations)
             else case decode_and_apply_planner_replanner_output env (xr_prompt_bundle request)
                     (sr_value response) (xr_base_plan request) (xr_obligations request)
                     (xr_context request) (xr_policy request) policy of
                 Inl error \<Rightarrow>
                   rejected_execution retain policy prepared observed digest
                     (planner_prompt_rejection env error)
               | Inr (proposal, result) \<Rightarrow>
                   exec_then (exec_result (map_err (\<lambda>e. ExecutionEncoding (je_contract_error_text env e))
                     (digest_of env (je_proposal_json env proposal)))) (\<lambda>proposal_sha256.
                   exec_then
                     (exec_retain retain policy
                       (RecordAccepted
                         \<lparr>aa_execution_id = xr_execution_id request, aa_attempt_id = xr_attempt_id request,
                          aa_observed_sha256 = digest, aa_proposal_sha256 = proposal_sha256,
                          aa_result = result\<rparr>)
                       (DecisionUnacknowledged (xr_attempt_id request)))
                     (\<lambda>_. exec_result (Inr
                       \<lparr>xn_prepared = prepared, xn_observed = observed,
                        xn_status = ExecutionAccepted result\<rparr>)))))"

section \<open>The execution\<close>

definition execute ::
  "('a) journal_env_scheme \<Rightarrow> 'j retain_fn \<Rightarrow> planner_backend \<Rightarrow> PlannerReplannerInferencePolicy
     \<Rightarrow> PlannerExecutionRequest \<Rightarrow> ('j, PlannerExecution) exec" where
  "execute env retain backend policy request =
     exec_then (exec_result (prepare_attempt env backend policy request)) (\<lambda>prepared.
     exec_then (exec_retain retain policy (RecordPrepared prepared) PreparationUnacknowledged) (\<lambda>_.
     exec_then (exec_infer backend prepared (pq_inference (xr_prompt_bundle request))) (\<lambda>backend_result.
     exec_then (exec_result (observe_attempt env request prepared (observation_of backend_result)))
       (\<lambda>observed.
     exec_then (exec_retain retain policy (RecordObserved observed)
         (ObservationUnacknowledged (xr_attempt_id request))) (\<lambda>_.
     decide_attempt env retain policy request prepared observed)))))"

section \<open>Executors that share a journal\<close>

text \<open>
  Where an execution stands between two accesses of what it shares with others. The accesses are
  atomic (the journal takes a lock); between them any other executor may run.
\<close>

datatype (plugins only: code) execution_phase =
    Requested PlannerExecutionRequest
  | Acknowledged PlannerExecutionRequest PlannerAttemptPrepared
  | Answered PlannerExecutionRequest PlannerAttemptPrepared "BackendError + StructuredInferenceResponse"
  | ObservationAcknowledged PlannerExecutionRequest PlannerAttemptPrepared PlannerAttemptObserved
  | Ended "PlannerExecutionError + PlannerExecution"

definition execution_step ::
  "('a) journal_env_scheme \<Rightarrow> 'j retain_fn \<Rightarrow> planner_backend \<Rightarrow> PlannerReplannerInferencePolicy
     \<Rightarrow> execution_phase \<Rightarrow> 'j \<times> planner_effect list \<Rightarrow> execution_phase \<times> 'j \<times> planner_effect list" where
  "execution_step env retain backend policy phase st =
     (case phase of
        Requested request \<Rightarrow>
          (case exec_then (exec_result (prepare_attempt env backend policy request)) (\<lambda>prepared.
                 exec_then (exec_retain retain policy (RecordPrepared prepared) PreparationUnacknowledged)
                   (\<lambda>_. exec_result (Inr prepared))) st of
             (Inl e, st') \<Rightarrow> (Ended (Inl e), st')
           | (Inr prepared, st') \<Rightarrow> (Acknowledged request prepared, st'))
      | Acknowledged request prepared \<Rightarrow>
          (case exec_infer backend prepared (pq_inference (xr_prompt_bundle request)) st of
             (Inl e, st') \<Rightarrow> (Ended (Inl e), st')
           | (Inr backend_result, st') \<Rightarrow> (Answered request prepared backend_result, st'))
      | Answered request prepared backend_result \<Rightarrow>
          (case exec_then (exec_result (observe_attempt env request prepared (observation_of backend_result)))
                 (\<lambda>observed.
                 exec_then (exec_retain retain policy (RecordObserved observed)
                   (ObservationUnacknowledged (xr_attempt_id request)))
                   (\<lambda>_. exec_result (Inr observed))) st of
             (Inl e, st') \<Rightarrow> (Ended (Inl e), st')
           | (Inr observed, st') \<Rightarrow> (ObservationAcknowledged request prepared observed, st'))
      | ObservationAcknowledged request prepared observed \<Rightarrow>
          (case decide_attempt env retain policy request prepared observed st of
             (r, st') \<Rightarrow> (Ended r, st'))
      | Ended r \<Rightarrow> (Ended r, st))"

text \<open>A run of one executor alone is the function \<open>execute\<close>.\<close>

fun run_execution ::
  "nat \<Rightarrow> ('a) journal_env_scheme \<Rightarrow> 'j retain_fn \<Rightarrow> planner_backend \<Rightarrow> PlannerReplannerInferencePolicy
     \<Rightarrow> execution_phase \<Rightarrow> 'j \<times> planner_effect list \<Rightarrow> execution_phase \<times> 'j \<times> planner_effect list" where
  "run_execution 0 env retain backend policy phase st = (phase, st)"
| "run_execution (Suc n) env retain backend policy phase st =
     (case execution_step env retain backend policy phase st of
        (phase', st') \<Rightarrow> run_execution n env retain backend policy phase' st')"

lemma run_returned [simp]:
  "run_execution n env retain backend policy (Ended r) st = (Ended r, st)"
  by (induction n) (simp_all add: execution_step_def)

lemma run_execution_eq_execute:
  "run_execution 4 env retain backend policy (Requested request) st =
     (case execute env retain backend policy request st of (r, st') \<Rightarrow> (Ended r, st'))"
  by (auto simp: numeral_eq_Suc execution_step_def execute_def exec_then_def exec_result_def
      exec_infer_def split: sum.splits prod.splits)

text \<open>
  Executors with one policy and one journal. A request is submitted at any time, and any executor may
  be the next to step; one that never steps again has crashed.
\<close>

inductive executors ::
  "('a) journal_env_scheme \<Rightarrow> 'j retain_fn \<Rightarrow> (nat \<Rightarrow> planner_backend) \<Rightarrow> PlannerReplannerInferencePolicy
     \<Rightarrow> 'j \<Rightarrow> execution_phase list \<Rightarrow> 'j \<Rightarrow> planner_effect list \<Rightarrow> bool"
  for env retain backends policy j0 where
  executors_start: "executors env retain backends policy j0 [] j0 []"
| executors_submit:
    "executors env retain backends policy j0 ps j tr \<Longrightarrow>
     executors env retain backends policy j0 (ps @ [Requested request]) j tr"
| executors_step:
    "executors env retain backends policy j0 ps j tr \<Longrightarrow> i < length ps \<Longrightarrow>
     execution_step env retain (backends i) policy (ps ! i) (j, tr) = (phase', j', tr') \<Longrightarrow>
     executors env retain backends policy j0 (ps[i := phase']) j' tr'"

end
