(* ===== verification/Planner_Executor_Correct.thy ===== *)
theory Planner_Executor_Correct
  imports Planner_Executor "HOL-Library.Multiset"
begin

text \<open>
  What an execution does to its journal and its backend. The interface \<open>planner_journal\<close> states what
  an executor relies on; the in-memory journal provides it. Under it an execution has its effects in
  one order, the backend is called at most once for a preparation however executors interleave, and
  an execution whose preparation is acknowledged by a journal with room for it returns.
\<close>

section \<open>The decision\<close>

text \<open>An execution decides as replay does, on the same values.\<close>

definition prepared_for :: "PlannerExecutionRequest \<Rightarrow> PlannerAttemptPrepared \<Rightarrow> bool" where
  "prepared_for request p \<longleftrightarrow>
     ap_execution_id p = xr_execution_id request \<and> ap_attempt_id p = xr_attempt_id request
     \<and> ap_parent_attempt_id p = xr_parent_attempt_id request
     \<and> ap_budget_reservation_id p = xr_budget_reservation_id request
     \<and> ap_prompt_bundle p = xr_prompt_bundle request \<and> ap_base_plan p = xr_base_plan request
     \<and> ap_obligations p = xr_obligations request \<and> ap_context p = xr_context request
     \<and> ap_policy p = xr_policy request"

fun decision_record ::
  "PlannerAttemptPrepared \<Rightarrow> PlannerDigest \<Rightarrow> ReplayedPlannerDecision \<Rightarrow> PlannerJournalRecord" where
  "decision_record p digest (ReplayedAccepted proposal_sha256 result) =
     RecordAccepted \<lparr>aa_execution_id = ap_execution_id p, aa_attempt_id = ap_attempt_id p,
       aa_observed_sha256 = digest, aa_proposal_sha256 = proposal_sha256, aa_result = result\<rparr>"
| "decision_record p digest (ReplayedRejected rejection) =
     RecordRejected \<lparr>ar_execution_id = ap_execution_id p, ar_attempt_id = ap_attempt_id p,
       ar_observed_sha256 = digest, ar_rejection = rejection\<rparr>"

fun decision_status :: "ReplayedPlannerDecision \<Rightarrow> PlannerExecutionStatus" where
  "decision_status (ReplayedAccepted _ result) = ExecutionAccepted result"
| "decision_status (ReplayedRejected rejection) = ExecutionRejected rejection"

lemma decide_attempt_eq:
  assumes "prepared_for request p"
  shows "decide_attempt env retain policy request p ob =
    exec_then (exec_result (map_err (\<lambda>e. ExecutionEncoding (je_contract_error_text env e))
        (observed_sha256 env ob))) (\<lambda>digest.
    exec_then (exec_result (map_err ExecutionEncoding (replay_planner_decision env p ob policy))) (\<lambda>decision.
    exec_then (exec_retain retain policy (decision_record p digest decision)
        (DecisionUnacknowledged (ap_attempt_id p))) (\<lambda>_.
    exec_result (Inr \<lparr>xn_prepared = p, xn_observed = ob, xn_status = decision_status decision\<rparr>))))"
  using assms unfolding prepared_for_def
  by (intro ext) (auto simp: decide_attempt_def replay_planner_decision_def rejected_execution_def
      exec_then_def exec_result_def contract_journal_error_def and_then_def map_err_def Let_def
      split: PlannerInferenceObservation.split sum.split prod.split)

lemma prepare_attempt_for:
  "prepare_attempt env backend policy request = Inr p \<Longrightarrow> prepared_for request p"
  by (auto simp: prepare_attempt_def prepared_for_def result_simps Let_def if_Inl_eq_Inr)

text \<open>What an execution prepares, the journal finds valid.\<close>

lemma prepare_attempt_valid:
  assumes "prepare_attempt env backend policy request = Inr p"
  shows "prepared_is_internally_valid env p policy = Inr True"
proof -
  have build: "build_request env policy (xr_base_plan request) (xr_obligations request)
      (xr_context request) (xr_policy request) (pq_evidence_packet (xr_prompt_bundle request))
      = Inr (xr_prompt_bundle request)"
    using assms by (auto simp: prepare_attempt_def result_simps Let_def if_Inl_eq_Inr
        request_validate_against_iff)
  show ?thesis
    using assms build_request_parts[OF build]
    by (auto simp: prepare_attempt_def prepared_is_internally_valid_def result_simps Let_def
        if_Inl_eq_Inr contract_journal_error_def)
qed

lemma prepare_attempt_ok:
  "prepare_attempt env backend policy request = Inr p \<Longrightarrow> xr_parent_attempt_id request = None
     \<Longrightarrow> prepared_ok env policy p"
  using prepare_attempt_for[of env backend policy request p]
  by (simp add: prepared_ok_def prepare_attempt_valid prepared_for_def)

section \<open>The interface of a journal\<close>

locale planner_journal =
  fixes retain :: "'j retain_fn"
    and records :: "'j \<Rightarrow> PlannerJournalRecord list"
    and sound :: "PlannerReplannerInferencePolicy \<Rightarrow> PlannerJournalRecord list \<Rightarrow> bool"
  assumes acknowledged:
      "retain j r policy = (Inr (), j') \<Longrightarrow> records j' = records j @ [r] \<and> sound policy (records j')"
    and refused: "retain j r policy = (Inl e, j') \<Longrightarrow> j' = j"
    and one_preparation:
      "sound policy rs \<Longrightarrow> distinct (map ap_execution_id (preparations rs))
         \<and> distinct (map ap_budget_reservation_id (preparations rs))"

text \<open>The records that effects acknowledge and the preparations under which they call.\<close>

definition retained_records :: "planner_effect list \<Rightarrow> PlannerJournalRecord list" where
  "retained_records tr = List.map_filter (\<lambda>e. case e of Retained r \<Rightarrow> Some r | _ \<Rightarrow> None) tr"

definition called_preparations :: "planner_effect list \<Rightarrow> PlannerAttemptPrepared list" where
  "called_preparations tr = List.map_filter (\<lambda>e. case e of Called p _ \<Rightarrow> Some p | _ \<Rightarrow> None) tr"

lemma retained_records_simps [simp]:
  "retained_records [] = []" "retained_records (Retained r # tr) = r # retained_records tr"
  "retained_records (Called p q # tr) = retained_records tr"
  "retained_records (xs @ ys) = retained_records xs @ retained_records ys"
  by (simp_all add: retained_records_def map_filter_def)

lemma called_preparations_simps [simp]:
  "called_preparations [] = []" "called_preparations (Retained r # tr) = called_preparations tr"
  "called_preparations (Called p q # tr) = p # called_preparations tr"
  "called_preparations (xs @ ys) = called_preparations xs @ called_preparations ys"
  by (simp_all add: called_preparations_def map_filter_def)

text \<open>The effects of a whole execution.\<close>

definition execution_effects ::
  "PlannerAttemptPrepared \<Rightarrow> PlannerAttemptObserved \<Rightarrow> PlannerDigest \<Rightarrow> ReplayedPlannerDecision
     \<Rightarrow> planner_effect list" where
  "execution_effects p ob digest decision =
     [Retained (RecordPrepared p), Called p (pq_inference (ap_prompt_bundle p)),
      Retained (RecordObserved ob), Retained (decision_record p digest decision)]"

lemma exec_retain_cases:
  "exec_retain retain policy r unack st = (x, st') \<Longrightarrow>
     (\<exists>m j. retain (fst st) r policy = (Inl m, j) \<and> x = Inl (unack m) \<and> st' = (j, snd st))
     \<or> (\<exists>j. retain (fst st) r policy = (Inr (), j) \<and> x = Inr () \<and> st' = (j, snd st @ [Retained r]))"
  by (auto simp: exec_retain_def split: prod.splits sum.splits)

lemma exec_then_iff:
  "exec_then m f st = (x, st') \<longleftrightarrow>
     (\<exists>e. m st = (Inl e, st') \<and> x = Inl e) \<or> (\<exists>y st1. m st = (Inr y, st1) \<and> f y st1 = (x, st'))"
  by (auto simp: exec_then_def split: prod.splits sum.splits)

lemma exec_result_iff: "exec_result r st = (x, st') \<longleftrightarrow> r = x \<and> st' = st"
  by (auto simp: exec_result_def)

lemma exec_infer_iff:
  "exec_infer backend p q (j, tr) = (x, st') \<longleftrightarrow>
     x = Inr (pb_infer_structured backend q) \<and> st' = (j, tr @ [Called p q])"
  by (auto simp: exec_infer_def)

lemmas exec_simps = exec_then_iff exec_result_iff exec_infer_iff map_err_eq_Inr map_err_eq_Inl

section \<open>One execution\<close>

text \<open>
  The effects of an execution are a prefix of: the preparation, the call, the observation, the
  decision; never only the preparation. Its result is a value exactly when all four took effect, and
  then its status is the decision that replay makes of the observation.
\<close>

definition effects_ok ::
  "('a) journal_env_scheme \<Rightarrow> planner_backend \<Rightarrow> PlannerReplannerInferencePolicy
     \<Rightarrow> PlannerExecutionRequest \<Rightarrow> PlannerAttemptPrepared \<Rightarrow> PlannerAttemptObserved \<Rightarrow> PlannerDigest
     \<Rightarrow> ReplayedPlannerDecision \<Rightarrow> nat \<Rightarrow> planner_effect list
     \<Rightarrow> (PlannerExecutionError + PlannerExecution) \<Rightarrow> bool" where
  "effects_ok env backend policy request p ob digest decision n tr x \<longleftrightarrow>
     tr = take n (execution_effects p ob digest decision)
     \<and> n \<in> {0, 2, 3, 4}
     \<and> (n > 0 \<longrightarrow> prepare_attempt env backend policy request = Inr p)
     \<and> (n > 2 \<longrightarrow> observe_attempt env request p
            (observation_of (pb_infer_structured backend (pq_inference (ap_prompt_bundle p)))) = Inr ob)
     \<and> (n > 3 \<longrightarrow> observed_sha256 env ob = Inr digest
            \<and> replay_planner_decision env p ob policy = Inr decision)
     \<and> (if n = 4 then x = Inr \<lparr>xn_prepared = p, xn_observed = ob, xn_status = decision_status decision\<rparr>
        else \<exists>e. x = Inl e)"

context planner_journal begin

text \<open>An acknowledged access extends the journal by its record; a refused one leaves it.\<close>

lemma exec_retain_spec:
  assumes "exec_retain retain policy r unack (j, tr) = (x, j', tr')"
  shows "(\<exists>e. x = Inl e \<and> j' = j \<and> tr' = tr)
    \<or> (x = Inr () \<and> records j' = records j @ [r] \<and> sound policy (records j') \<and> tr' = tr @ [Retained r])"
  using exec_retain_cases[OF assms] by (auto dest: acknowledged refused)

text \<open>What the decision adds: nothing, or the record of the decision that replay would make.\<close>

definition decided ::
  "('a) journal_env_scheme \<Rightarrow> PlannerReplannerInferencePolicy \<Rightarrow> PlannerAttemptPrepared
     \<Rightarrow> PlannerAttemptObserved \<Rightarrow> 'j \<times> planner_effect list
     \<Rightarrow> (PlannerExecutionError + PlannerExecution) \<times> 'j \<times> planner_effect list \<Rightarrow> bool" where
  "decided env policy p ob st r \<longleftrightarrow>
     (\<exists>e. r = (Inl e, st))
     \<or> (\<exists>digest decision j'. observed_sha256 env ob = Inr digest
        \<and> replay_planner_decision env p ob policy = Inr decision
        \<and> r = (Inr \<lparr>xn_prepared = p, xn_observed = ob, xn_status = decision_status decision\<rparr>, j',
               snd st @ [Retained (decision_record p digest decision)])
        \<and> records j' = records (fst st) @ [decision_record p digest decision] \<and> sound policy (records j'))"

lemma decide_spec:
  assumes "prepared_for request p" "decide_attempt env retain policy request p ob st = r"
  shows "decided env policy p ob st r"
proof -
  obtain x j' tr' where r: "r = (x, j', tr')" by (metis prod.exhaust)
  show ?thesis
    using assms(2) unfolding decide_attempt_eq[OF assms(1)] r exec_simps decided_def
    by (cases st) (auto dest!: exec_retain_spec)
qed

text \<open>What the part after the call adds: nothing, the observation, or the observation and a decision.\<close>

definition observed_part ::
  "('a) journal_env_scheme \<Rightarrow> planner_backend \<Rightarrow> PlannerReplannerInferencePolicy
     \<Rightarrow> PlannerExecutionRequest \<Rightarrow> PlannerAttemptPrepared \<Rightarrow> 'j \<times> planner_effect list
     \<Rightarrow> (PlannerExecutionError + PlannerExecution) \<times> 'j \<times> planner_effect list \<Rightarrow> bool" where
  "observed_part env backend policy request p st r \<longleftrightarrow>
     (\<exists>e. r = (Inl e, st))
     \<or> (\<exists>ob j'. observe_attempt env request p
            (observation_of (pb_infer_structured backend (pq_inference (ap_prompt_bundle p)))) = Inr ob
        \<and> records j' = records (fst st) @ [RecordObserved ob] \<and> sound policy (records j')
        \<and> decided env policy p ob (j', snd st @ [Retained (RecordObserved ob)]) r)"

lemma after_call_spec:
  assumes for_p: "prepared_for request p"
    and run: "exec_then (exec_result (observe_attempt env request p (observation_of
        (pb_infer_structured backend (pq_inference (ap_prompt_bundle p)))))) (\<lambda>observed.
      exec_then (exec_retain retain policy (RecordObserved observed)
        (ObservationUnacknowledged (xr_attempt_id request))) (\<lambda>_.
      decide_attempt env retain policy request p observed)) (j, tr) = r"
  shows "observed_part env backend policy request p (j, tr) r"
proof (cases "observe_attempt env request p (observation_of
    (pb_infer_structured backend (pq_inference (ap_prompt_bundle p))))")
  case (Inl e)
  with run show ?thesis by (auto simp: observed_part_def exec_then_def exec_result_def)
next
  case (Inr ob)
  obtain x1 j1 tr1 where r1: "exec_retain retain policy (RecordObserved ob)
      (ObservationUnacknowledged (xr_attempt_id request)) (j, tr) = (x1, j1, tr1)"
    by (metis prod.exhaust)
  from run Inr r1 have rest: "(case x1 of Inl e \<Rightarrow> (Inl e, j1, tr1)
      | Inr _ \<Rightarrow> decide_attempt env retain policy request p ob (j1, tr1)) = r"
    by (simp add: exec_then_def exec_result_def split: sum.splits)
  show ?thesis
    using exec_retain_spec[OF r1]
  proof (elim disjE exE conjE)
    fix e assume "x1 = Inl e" "j1 = j" "tr1 = tr"
    with rest show ?thesis by (auto simp: observed_part_def)
  next
    assume a: "x1 = Inr ()" "records j1 = records j @ [RecordObserved ob]" "sound policy (records j1)"
      "tr1 = tr @ [Retained (RecordObserved ob)]"
    with rest have "decided env policy p ob (j1, tr @ [Retained (RecordObserved ob)]) r"
      by (intro decide_spec[OF for_p]) simp
    with a Inr show ?thesis unfolding observed_part_def by auto
  qed
qed

lemma execute_spec:
  assumes run: "execute env retain backend policy request (j, tr) = r"
  shows "(\<exists>e. r = (Inl e, j, tr))
    \<or> (\<exists>p j'. prepare_attempt env backend policy request = Inr p
        \<and> records j' = records j @ [RecordPrepared p] \<and> sound policy (records j')
        \<and> observed_part env backend policy request p
            (j', tr @ [Retained (RecordPrepared p), Called p (pq_inference (ap_prompt_bundle p))]) r)"
proof (cases "prepare_attempt env backend policy request")
  case (Inl e)
  with run show ?thesis by (auto simp: execute_def exec_then_def exec_result_def)
next
  case (Inr p)
  have for_p: "prepared_for request p" by (rule prepare_attempt_for[OF Inr])
  then have same_bundle: "xr_prompt_bundle request = ap_prompt_bundle p" by (simp add: prepared_for_def)
  obtain x1 j1 tr1 where r1: "exec_retain retain policy (RecordPrepared p) PreparationUnacknowledged (j, tr)
      = (x1, j1, tr1)"
    by (metis prod.exhaust)
  show ?thesis
    using exec_retain_spec[OF r1]
  proof (elim disjE exE conjE)
    fix e assume "x1 = Inl e" "j1 = j" "tr1 = tr"
    with run Inr r1 show ?thesis by (auto simp: execute_def exec_then_def exec_result_def)
  next
    assume a: "x1 = Inr ()" "records j1 = records j @ [RecordPrepared p]" "sound policy (records j1)"
      "tr1 = tr @ [Retained (RecordPrepared p)]"
    with run Inr r1 same_bundle have "observed_part env backend policy request p
        (j1, tr @ [Retained (RecordPrepared p), Called p (pq_inference (ap_prompt_bundle p))]) r"
      by (intro after_call_spec[OF for_p])
        (simp add: execute_def exec_then_def[of "exec_result (Inr p)"] exec_result_def[of "Inr p"]
          exec_then_def[of "exec_retain retain policy (RecordPrepared p) PreparationUnacknowledged"]
          exec_then_def[of "exec_infer backend p (pq_inference (ap_prompt_bundle p))"] exec_infer_def)
    with a Inr show ?thesis by blast
  qed
qed

lemma execute_effects:
  assumes "execute env retain backend policy request (j, []) = (x, j', tr)"
  shows "records j' = records j @ retained_records tr"
    and "tr = [] \<or> sound policy (records j')"
    and "\<exists>p ob digest decision n. effects_ok env backend policy request p ob digest decision n tr x"
proof -
  have "records j' = records j @ retained_records tr \<and> (tr = [] \<or> sound policy (records j'))
    \<and> (\<exists>p ob digest decision n. effects_ok env backend policy request p ob digest decision n tr x)"
    using execute_spec[OF assms]
  proof (elim disjE exE conjE)
    fix e assume "(x, j', tr) = (Inl e, j, [])"
    then have "effects_ok env backend policy request p ob digest decision 0 tr x" for p ob digest decision
      by (simp add: effects_ok_def)
    then have "\<exists>p ob digest decision n. effects_ok env backend policy request p ob digest decision n tr x"
      by blast
    with \<open>(x, j', tr) = (Inl e, j, [])\<close> show ?thesis by auto
  next
    fix p j1
    assume p: "prepare_attempt env backend policy request = Inr p"
        "records j1 = records j @ [RecordPrepared p]" "sound policy (records j1)"
      and rest: "observed_part env backend policy request p
        (j1, [] @ [Retained (RecordPrepared p), Called p (pq_inference (ap_prompt_bundle p))]) (x, j', tr)"
    note defs = effects_ok_def execution_effects_def numeral_eq_Suc
    show ?thesis using rest[unfolded observed_part_def]
    proof (elim disjE exE conjE)
      fix e assume r: "(x, j', tr) = (Inl e, j1, [] @ [Retained (RecordPrepared p),
          Called p (pq_inference (ap_prompt_bundle p))])"
      then have "effects_ok env backend policy request p ob digest decision 2 tr x" for ob digest decision
        using p by (simp add: defs)
      then have "\<exists>p ob digest decision n. effects_ok env backend policy request p ob digest decision n tr x"
        by blast
      with r p show ?thesis by auto
    next
      fix ob j2
      assume ob: "observe_attempt env request p (observation_of (pb_infer_structured backend
            (pq_inference (ap_prompt_bundle p)))) = Inr ob"
          "records j2 = records (fst (j1, [] @ [Retained (RecordPrepared p),
            Called p (pq_inference (ap_prompt_bundle p))])) @ [RecordObserved ob]"
          "sound policy (records j2)"
        and rest2: "decided env policy p ob (j2, snd (j1, [] @ [Retained (RecordPrepared p),
            Called p (pq_inference (ap_prompt_bundle p))]) @ [Retained (RecordObserved ob)]) (x, j', tr)"
      show ?thesis using rest2[unfolded decided_def]
      proof (elim disjE exE conjE)
        fix e assume r: "(x, j', tr) = (Inl e, j2, snd (j1, [] @ [Retained (RecordPrepared p),
            Called p (pq_inference (ap_prompt_bundle p))]) @ [Retained (RecordObserved ob)])"
        then have "effects_ok env backend policy request p ob digest decision 3 tr x" for digest decision
          using p ob by (simp add: defs)
        then have "\<exists>p ob digest decision n. effects_ok env backend policy request p ob digest decision n tr x"
          by blast
        with r p ob show ?thesis by auto
      next
        fix digest decision j3
        assume d: "observed_sha256 env ob = Inr digest" "replay_planner_decision env p ob policy = Inr decision"
            "records j3 = records (fst (j2, snd (j1, [] @ [Retained (RecordPrepared p),
              Called p (pq_inference (ap_prompt_bundle p))]) @ [Retained (RecordObserved ob)]))
              @ [decision_record p digest decision]" "sound policy (records j3)"
          and r: "(x, j', tr) = (Inr \<lparr>xn_prepared = p, xn_observed = ob, xn_status = decision_status decision\<rparr>,
            j3, snd (j2, snd (j1, [] @ [Retained (RecordPrepared p),
              Called p (pq_inference (ap_prompt_bundle p))]) @ [Retained (RecordObserved ob)])
              @ [Retained (decision_record p digest decision)])"
        then have "effects_ok env backend policy request p ob digest decision 4 tr x"
          using p ob by (simp add: defs)
        then have "\<exists>p ob digest decision n. effects_ok env backend policy request p ob digest decision n tr x"
          by blast
        with r p ob d show ?thesis by auto
      qed
    qed
  qed
  then show "records j' = records j @ retained_records tr" "tr = [] \<or> sound policy (records j')"
    "\<exists>p ob digest decision n. effects_ok env backend policy request p ob digest decision n tr x"
    by blast+
qed

end

section \<open>Executors that share a journal\<close>

definition acknowledged_preparations :: "execution_phase list \<Rightarrow> PlannerAttemptPrepared list" where
  "acknowledged_preparations ps =
     List.map_filter (\<lambda>ph. case ph of Acknowledged _ p \<Rightarrow> Some p | _ \<Rightarrow> None) ps"

lemma acknowledged_preparations_simps [simp]:
  "acknowledged_preparations [] = []"
  "acknowledged_preparations (Requested rq # ps) = acknowledged_preparations ps"
  "acknowledged_preparations (Acknowledged rq p # ps) = p # acknowledged_preparations ps"
  "acknowledged_preparations (Answered rq p res # ps) = acknowledged_preparations ps"
  "acknowledged_preparations (ObservationAcknowledged rq p ob # ps) = acknowledged_preparations ps"
  "acknowledged_preparations (Ended r # ps) = acknowledged_preparations ps"
  "acknowledged_preparations (xs @ ys) = acknowledged_preparations xs @ acknowledged_preparations ys"
  by (simp_all add: acknowledged_preparations_def map_filter_def)

lemma acknowledged_preparations_Cons:
  "acknowledged_preparations (ph # ps) = acknowledged_preparations [ph] @ acknowledged_preparations ps"
  by (cases ph) simp_all

text \<open>Every call comes after the preparation under which it is made.\<close>

definition calls_prepared :: "planner_effect list \<Rightarrow> bool" where
  "calls_prepared tr \<longleftrightarrow>
     (\<forall>n p q. n < length tr \<and> tr ! n = Called p q \<longrightarrow>
        Retained (RecordPrepared p) \<in> set (take n tr) \<and> q = pq_inference (ap_prompt_bundle p))"

fun phase_ok :: "execution_phase \<Rightarrow> bool" where
  "phase_ok (Acknowledged rq p) = prepared_for rq p"
| "phase_ok (Answered rq p res) = prepared_for rq p"
| "phase_ok (ObservationAcknowledged rq p ob) = prepared_for rq p"
| "phase_ok _ = True"

context planner_journal begin

text \<open>
  A step adds to the calls and to the executors about to call as many as it adds preparations to the
  journal.
\<close>

definition step_ok ::
  "PlannerReplannerInferencePolicy \<Rightarrow> execution_phase \<Rightarrow> 'j \<Rightarrow> execution_phase \<Rightarrow> 'j
     \<Rightarrow> planner_effect list \<Rightarrow> bool" where
  "step_ok policy ph j ph' j' new \<longleftrightarrow>
     phase_ok ph' \<and> records j' = records j @ retained_records new
     \<and> (retained_records new = [] \<or> sound policy (records j'))
     \<and> mset (called_preparations new) + mset (acknowledged_preparations [ph'])
         = mset (acknowledged_preparations [ph]) + mset (preparations (retained_records new))
     \<and> (\<forall>p q. Called p q \<in> set new \<longrightarrow> new = [Called p q] \<and> q = pq_inference (ap_prompt_bundle p)
           \<and> p \<in> set (acknowledged_preparations [ph]))"

lemma preparations_decision [simp]: "preparations [decision_record p digest decision] = []"
  by (cases decision) simp_all

lemma execution_step_ok:
  assumes "execution_step env retain backend policy ph (j, tr) = (ph', j', tr')" "phase_ok ph"
  shows "\<exists>new. tr' = tr @ new \<and> step_ok policy ph j ph' j' new"
proof (cases ph)
  case (Requested rq)
  show ?thesis
  proof (cases "prepare_attempt env backend policy rq")
    case (Inl e)
    with assms Requested show ?thesis
      by (auto simp: execution_step_def exec_then_def exec_result_def step_ok_def)
  next
    case (Inr p)
    obtain x j1 tr1 where r: "exec_retain retain policy (RecordPrepared p) PreparationUnacknowledged (j, tr)
        = (x, j1, tr1)" by (metis prod.exhaust)
    with assms(1) Requested Inr have "j' = j1" "tr' = tr1"
        "ph' = (case x of Inl e \<Rightarrow> Ended (Inl e) | Inr _ \<Rightarrow> Acknowledged rq p)"
      by (auto simp: execution_step_def exec_then_def exec_result_def split: sum.splits)
    with exec_retain_spec[OF r] Requested prepare_attempt_for[OF Inr] show ?thesis
      by (auto simp: step_ok_def)
  qed
next
  case (Acknowledged rq p)
  with assms show ?thesis
    by (auto simp: execution_step_def exec_infer_def step_ok_def prepared_for_def)
next
  case (Answered rq p res)
  show ?thesis
  proof (cases "observe_attempt env rq p (observation_of res)")
    case (Inl e)
    with assms Answered show ?thesis
      by (auto simp: execution_step_def exec_then_def exec_result_def step_ok_def)
  next
    case (Inr ob)
    obtain x j1 tr1 where r: "exec_retain retain policy (RecordObserved ob)
        (ObservationUnacknowledged (xr_attempt_id rq)) (j, tr) = (x, j1, tr1)" by (metis prod.exhaust)
    with assms(1) Answered Inr have "j' = j1" "tr' = tr1"
        "ph' = (case x of Inl e \<Rightarrow> Ended (Inl e) | Inr _ \<Rightarrow> ObservationAcknowledged rq p ob)"
      by (auto simp: execution_step_def exec_then_def exec_result_def split: sum.splits)
    with exec_retain_spec[OF r] Answered assms(2) show ?thesis
      by (auto simp: step_ok_def)
  qed
next
  case (ObservationAcknowledged rq p ob)
  obtain x where r: "decide_attempt env retain policy rq p ob (j, tr) = (x, j', tr')" "ph' = Ended x"
    using assms(1) ObservationAcknowledged by (auto simp: execution_step_def split: prod.splits)
  have "prepared_for rq p" using assms(2) ObservationAcknowledged by simp
  from decide_spec[OF this r(1)] r(2) ObservationAcknowledged show ?thesis
    by (auto simp: decided_def step_ok_def)
next
  case (Ended r)
  with assms show ?thesis by (auto simp: execution_step_def step_ok_def)
qed

lemma retained_prepared_mem:
  "p \<in> set (preparations (retained_records tr)) \<longleftrightarrow> Retained (RecordPrepared p) \<in> set tr"
proof (induction tr)
  case (Cons e tr)
  show ?case
  proof (cases e)
    case (Retained r)
    with Cons show ?thesis
      using preparations_append[of "[r]" "retained_records tr"] by (cases r) auto
  qed (use Cons in simp)
qed simp

lemma executors_invariant:
  assumes "executors env retain backends policy j0 ps j tr"
  shows "(\<forall>ph\<in>set ps. phase_ok ph) \<and> records j = records j0 @ retained_records tr
    \<and> (retained_records tr = [] \<or> sound policy (records j))
    \<and> mset (called_preparations tr) + mset (acknowledged_preparations ps)
        = mset (preparations (retained_records tr))
    \<and> calls_prepared tr"
  using assms
proof induction
  case executors_start
  then show ?case by (simp add: calls_prepared_def)
next
  case (executors_submit ps j tr request)
  then show ?case by auto
next
  case (executors_step ps j tr i ph' j' tr')
  let ?xs = "take i ps" and ?ys = "drop (Suc i) ps"
  have ps: "ps = ?xs @ ps ! i # ?ys" and ps': "ps[i := ph'] = ?xs @ ph' # ?ys"
    using executors_step.hyps by (simp_all add: id_take_nth_drop[symmetric] upd_conv_take_nth_drop)
  have "phase_ok (ps ! i)" using executors_step by simp
  from execution_step_ok[OF executors_step.hyps(3) this]
  obtain new where new: "tr' = tr @ new" "step_ok policy (ps ! i) j ph' j' new" by blast
  have ack: "mset (acknowledged_preparations ps) = mset (acknowledged_preparations [ps ! i])
      + mset (acknowledged_preparations (?xs @ ?ys))"
    by (subst ps, subst acknowledged_preparations_simps(7), subst acknowledged_preparations_Cons) simp
  have ack': "mset (acknowledged_preparations (ps[i := ph'])) = mset (acknowledged_preparations [ph'])
      + mset (acknowledged_preparations (?xs @ ?ys))"
    by (subst ps', subst acknowledged_preparations_simps(7), subst acknowledged_preparations_Cons) simp
  have balance: "mset (called_preparations tr') + mset (acknowledged_preparations (ps[i := ph']))
      = mset (preparations (retained_records tr'))"
  proof -
    have "mset (called_preparations tr') + mset (acknowledged_preparations (ps[i := ph']))
        = mset (called_preparations tr)
          + (mset (called_preparations new) + mset (acknowledged_preparations [ph']))
          + mset (acknowledged_preparations (?xs @ ?ys))"
      by (simp add: new(1) ack' del: acknowledged_preparations_simps(7))
    also have "\<dots> = mset (called_preparations tr)
          + (mset (acknowledged_preparations [ps ! i]) + mset (preparations (retained_records new)))
          + mset (acknowledged_preparations (?xs @ ?ys))"
      using new(2) by (simp add: step_ok_def)
    also have "\<dots> = mset (called_preparations tr) + mset (acknowledged_preparations ps)
          + mset (preparations (retained_records new))"
      by (simp add: ack del: acknowledged_preparations_simps(7))
    finally show ?thesis using executors_step.IH by (simp add: new(1))
  qed
  have calls: "calls_prepared tr'"
    unfolding calls_prepared_def
  proof (intro allI impI)
    fix n p q assume n: "n < length tr' \<and> tr' ! n = Called p q"
    show "Retained (RecordPrepared p) \<in> set (take n tr') \<and> q = pq_inference (ap_prompt_bundle p)"
    proof (cases "n < length tr")
      case True
      with n executors_step.IH show ?thesis by (auto simp: new(1) calls_prepared_def nth_append)
    next
      case False
      with n have "n - length tr < length new" "new ! (n - length tr) = Called p q"
        by (auto simp: new(1) nth_append)
      then have "Called p q \<in> set new" by (metis nth_mem)
      with new(2) have only: "new = [Called p q]" "q = pq_inference (ap_prompt_bundle p)"
          "p \<in> set (acknowledged_preparations [ps ! i])"
        by (auto simp: step_ok_def)
      then have "n = length tr" using n False by (simp add: new(1))
      have "p \<in># mset (acknowledged_preparations ps)" using only(3) by (simp add: ack)
      then have "p \<in># mset (preparations (retained_records tr))"
        using executors_step.IH by (metis union_iff)
      then show ?thesis using only(2) \<open>n = length tr\<close> by (simp add: new(1) retained_prepared_mem)
    qed
  qed
  have phases: "\<forall>ph\<in>set (ps[i := ph']). phase_ok ph"
    using executors_step.IH new(2) set_update_subset_insert[of ps i ph'] by (auto simp: step_ok_def)
  from phases balance calls executors_step.IH new show ?case
    by (auto simp: step_ok_def)
qed

text \<open>
  However the executors interleave: the backend is called at most once for an execution and for a
  budget reservation, after the journal acknowledged the preparation of the call, and never for one
  that the journal had when the executors started.
\<close>

lemma executors_sound:
  assumes "executors env retain backends policy j0 ps j tr"
  shows "called_preparations tr = [] \<or> sound policy (records j)"
  using executors_invariant[OF assms] by auto

lemma executors_call_once:
  assumes run: "executors env retain backends policy j0 ps j tr"
    and once: "\<And>rs. sound policy rs \<Longrightarrow> distinct (map f (preparations rs))"
  shows "distinct (map f (preparations (records j0) @ called_preparations tr))
    \<or> called_preparations tr = []"
proof (cases "called_preparations tr = []")
  case False
  note inv = executors_invariant[OF run]
  from False once have "distinct (map f (preparations (records j)))"
    using executors_sound[OF run] by blast
  then have d: "distinct (map f (preparations (records j0) @ preparations (retained_records tr)))"
    using inv by simp
  let ?old = "preparations (records j0)"
  have "mset (?old @ called_preparations tr @ acknowledged_preparations ps)
      = mset (?old @ preparations (retained_records tr))"
    using inv by simp
  then have "mset (map f (?old @ called_preparations tr @ acknowledged_preparations ps))
      = mset (map f (?old @ preparations (retained_records tr)))"
    by (metis mset_map)
  then have "distinct (map f (?old @ called_preparations tr @ acknowledged_preparations ps))"
    using d mset_eq_imp_distinct_iff by blast
  then show ?thesis by (auto simp del: distinct_map)
qed simp

end

section \<open>The in-memory journal\<close>

lemma journal_replays_distinct:
  assumes "journal_replays env policy rs"
  shows "distinct (map ap_execution_id (preparations rs))
    \<and> distinct (map ap_budget_reservation_id (preparations rs))"
  using assms replay_loop_ok[of env policy rs]
  by (auto simp: journal_replays_def planner_replay_iff journal_state_ok_def)

interpretation memory_journal:
  planner_journal "journal_retain env" mj_records "journal_replays env"
  for env :: "('a) journal_env_scheme"
  by unfold_locales (auto simp: journal_retain_Inr journal_replays_distinct dest: journal_retain_Inl)

text \<open>The state of one attempt in a journal.\<close>

definition record_projected ::
  "('a) journal_env_scheme \<Rightarrow> PlannerReplannerInferencePolicy \<Rightarrow> PlannerJournalRecord list
     \<Rightarrow> PlannerAttemptId \<Rightarrow> PlannerAttemptProjection option" where
  "record_projected env policy rs a =
     (case planner_replay env rs policy of Inl _ \<Rightarrow> None | Inr attempts \<Rightarrow> bm_get attempts a)"

fun decided_projection ::
  "PlannerAttemptPrepared \<Rightarrow> PlannerAttemptObserved \<Rightarrow> PlannerJournalRecord \<Rightarrow> PlannerAttemptProjection" where
  "decided_projection p ob (RecordAccepted a) = ProjectedAccepted p ob a"
| "decided_projection p ob (RecordRejected r) = ProjectedRejected p ob r"
| "decided_projection p ob _ = ReconciliationRequired p"

lemma replay_decision_record:
  assumes "bm_get (rp_attempts st) (ap_attempt_id p) = Some (ObservedPendingDecision p ob)"
    and "observed_sha256 env ob = Inr digest" "replay_planner_decision env p ob policy = Inr decision"
  shows "replay_record env policy st (decision_record p digest decision) =
    Inr (st\<lparr>rp_attempts := bm_insert (ap_attempt_id p)
      (decided_projection p ob (decision_record p digest decision)) (rp_attempts st)\<rparr>)"
  using assms
  by (cases decision) (simp_all add: replay_record_def replay_accepted_Inr replay_rejected_Inr)

text \<open>
  The three records of an execution replay, one after the other, in a journal with room for them that
  has none for the execution.
\<close>

definition fresh_request :: "PlannerJournalRecord list \<Rightarrow> PlannerExecutionRequest \<Rightarrow> bool" where
  "fresh_request rs request \<longleftrightarrow>
     xr_attempt_id request \<notin> record_attempt_id ` set rs
     \<and> xr_execution_id request \<notin> ap_execution_id ` set (preparations rs)
     \<and> xr_budget_reservation_id request \<notin> ap_budget_reservation_id ` set (preparations rs)"

lemma execution_records_replay:
  assumes replays: "journal_replays env policy rs" and room: "length rs + 3 \<le> HARD_MAX_ACTIVE_JOURNAL_RECORDS"
    and prep: "prepare_attempt env backend policy request = Inr p" "xr_parent_attempt_id request = None"
    and fresh: "fresh_request rs request"
    and ob: "observe_attempt env request p observation = Inr ob"
    and digest: "observed_sha256 env ob = Inr digest"
    and decision: "replay_planner_decision env p ob policy = Inr decision"
  shows "journal_replays env policy (rs @ [RecordPrepared p])"
    and "journal_replays env policy (rs @ [RecordPrepared p, RecordObserved ob])"
    and "journal_replays env policy (rs @ [RecordPrepared p, RecordObserved ob, decision_record p digest decision])"
    and "record_projected env policy (rs @ [RecordPrepared p, RecordObserved ob, decision_record p digest decision])
      (xr_attempt_id request) = Some (decided_projection p ob (decision_record p digest decision))"
proof -
  have for_p: "prepared_for request p" by (rule prepare_attempt_for[OF prep(1)])
  from replays obtain st where st: "replay_loop env policy replay_start rs = Inr st"
      and policy: "policy_validate_integrity env policy = Inr ()"
    by (auto simp: journal_replays_def planner_replay_iff)
  have ok: "journal_state_ok env policy rs st" by (rule replay_loop_ok[OF st])
  have "attempt_records rs (ap_attempt_id p) = []"
    using fresh for_p
    by (auto simp: attempt_records_def fresh_request_def prepared_for_def filter_empty_conv image_iff)
  with ok have none: "bm_get (rp_attempts st) (ap_attempt_id p) = None"
    by (cases "bm_get (rp_attempts st) (ap_attempt_id p)")
      (auto simp: journal_state_ok_def elim: projection_records.elims dest!: spec[of _ "ap_attempt_id p"])
  obtain st1 where step1: "replay_record env policy st (RecordPrepared p) = Inr st1"
      and at1: "bm_get (rp_attempts st1) (ap_attempt_id p) = Some (ReconciliationRequired p)"
    using none ok fresh for_p prepare_attempt_ok[OF prep]
    by (auto simp: replay_record_def replay_prepared_Inr journal_state_ok_def fresh_request_def prepared_for_def)
  have ids: "ao_attempt_id ob = ap_attempt_id p" and "observed_ok env p ob"
    using ob for_p by (auto simp: observe_attempt_def observed_ok_def prepared_for_def result_simps)
  then obtain st2 where step2: "replay_record env policy st1 (RecordObserved ob) = Inr st2"
      and at2: "bm_get (rp_attempts st2) (ap_attempt_id p) = Some (ObservedPendingDecision p ob)"
    using at1 by (auto simp: replay_record_def replay_observed_Inr)
  note step3 = replay_decision_record[OF at2 digest decision]
  show "journal_replays env policy (rs @ [RecordPrepared p])"
    using st step1 policy room by (auto simp: journal_replays_snoc)
  show "journal_replays env policy (rs @ [RecordPrepared p, RecordObserved ob])"
    using st step1 step2 policy room
    by (auto simp: journal_replays_def planner_replay_iff replay_loop_append and_then_def)
  have replay: "planner_replay env (rs @ [RecordPrepared p, RecordObserved ob, decision_record p digest decision]) policy
      = Inr (bm_insert (ap_attempt_id p) (decided_projection p ob (decision_record p digest decision))
          (rp_attempts st2))"
    using st step1 step2 step3 policy room
    by (auto simp: planner_replay_iff replay_loop_append and_then_def)
  then show "journal_replays env policy (rs @ [RecordPrepared p, RecordObserved ob, decision_record p digest decision])"
    by (simp add: journal_replays_def)
  show "record_projected env policy (rs @ [RecordPrepared p, RecordObserved ob, decision_record p digest decision])
      (xr_attempt_id request) = Some (decided_projection p ob (decision_record p digest decision))"
    using for_p by (simp add: record_projected_def replay prepared_for_def)
qed

lemma execute_completes:
  assumes replays: "journal_replays env policy (mj_records j)" "\<not> mj_poisoned j"
    and room: "length (mj_records j) + 3 \<le> HARD_MAX_ACTIVE_JOURNAL_RECORDS"
    and prep: "prepare_attempt env backend policy request = Inr p" "xr_parent_attempt_id request = None"
    and fresh: "fresh_request (mj_records j) request"
    and ob: "observe_attempt env request p (observation_of
        (pb_infer_structured backend (pq_inference (xr_prompt_bundle request)))) = Inr ob"
    and digest: "observed_sha256 env ob = Inr digest"
    and decision: "replay_planner_decision env p ob policy = Inr decision"
  shows "execute env (journal_retain env) backend policy request (j, []) =
    (Inr \<lparr>xn_prepared = p, xn_observed = ob, xn_status = decision_status decision\<rparr>,
     j\<lparr>mj_records := mj_records j @ [RecordPrepared p, RecordObserved ob, decision_record p digest decision]\<rparr>,
     execution_effects p ob digest decision)"
proof -
  note records = execution_records_replay[OF replays(1) room prep fresh ob digest decision]
  have for_p: "prepared_for request p" by (rule prepare_attempt_for[OF prep(1)])
  have retain: "journal_retain env (j\<lparr>mj_records := mj_records j @ xs\<rparr>) r policy
      = (Inr (), j\<lparr>mj_records := mj_records j @ xs @ [r]\<rparr>)"
    if "journal_replays env policy (mj_records j @ xs @ [r])" for xs r
    using that replays(2) by (simp add: journal_retain_Inr)
  have 1: "journal_retain env j (RecordPrepared p) policy
      = (Inr (), j\<lparr>mj_records := mj_records j @ [RecordPrepared p]\<rparr>)"
    using retain[of "[]" "RecordPrepared p"] records(1) by simp
  have 2: "journal_retain env (j\<lparr>mj_records := mj_records j @ [RecordPrepared p]\<rparr>) (RecordObserved ob) policy
      = (Inr (), j\<lparr>mj_records := mj_records j @ [RecordPrepared p, RecordObserved ob]\<rparr>)"
    using retain[of "[RecordPrepared p]" "RecordObserved ob"] records(2) by simp
  have 3: "journal_retain env (j\<lparr>mj_records := mj_records j @ [RecordPrepared p, RecordObserved ob]\<rparr>)
        (decision_record p digest decision) policy
      = (Inr (), j\<lparr>mj_records := mj_records j @ [RecordPrepared p, RecordObserved ob,
          decision_record p digest decision]\<rparr>)"
    using retain[of "[RecordPrepared p, RecordObserved ob]" "decision_record p digest decision"] records(3) by simp
  have bundle': "xr_prompt_bundle request = ap_prompt_bundle p" using for_p by (simp add: prepared_for_def)
  show ?thesis
    using prep(1) ob digest decision 1 2 3
    by (simp add: execute_def decide_attempt_eq[OF for_p] exec_then_def exec_result_def exec_retain_def
        exec_infer_def bundle' map_err_def execution_effects_def)
qed

text \<open>With serializers that do not fail, observation and decision exist.\<close>

lemma observe_attempt_returns:
  assumes "\<forall>p. \<exists>bytes. je_prepared_json env p = Inr bytes"
  obtains ob where "observe_attempt env request p observation = Inr ob" "ao_observation ob = observation"
proof -
  obtain bytes where "je_prepared_json env p = Inr bytes" using assms by blast
  then have "prepared_sha256 env p = Inr (encode_sha256 env bytes)"
    by (simp add: prepared_sha256_def digest_of_def)
  then show thesis
    by (intro that[where ob = "\<lparr>ao_execution_id = xr_execution_id request,
        ao_attempt_id = xr_attempt_id request, ao_prepared_sha256 = encode_sha256 env bytes,
        ao_observation = observation\<rparr>"]) (simp_all add: observe_attempt_def and_then_def map_err_def)
qed

lemma observed_sha256_returns:
  assumes "\<forall>ob. \<exists>bytes. je_observed_json env ob = Inr bytes"
  obtains digest where "observed_sha256 env ob = Inr digest"
proof -
  obtain bytes where "je_observed_json env ob = Inr bytes" using assms by blast
  then show thesis by (intro that) (simp add: observed_sha256_def digest_of_def)
qed

lemma replay_decision_returns:
  assumes "\<forall>proposal. \<exists>bytes. je_proposal_json env proposal = Inr bytes"
  obtains decision where "replay_planner_decision env p ob policy = Inr decision"
proof -
  have "\<exists>digest. digest_of env (je_proposal_json env proposal) = Inr digest" for proposal
    using assms by (metis digest_of_def sum.simps(6))
  then have "\<exists>decision. replay_planner_decision env p ob policy = Inr decision"
    by (auto simp: replay_planner_decision_def Let_def result_simps contract_journal_error_def
        split: PlannerInferenceObservation.split sum.split)
  then show thesis using that by blast
qed

end
