(* ===== verification/Example_Planner.thy ===== *)
theory Example_Planner
  imports Planner_Executor_Correct "HOL-Library.Code_Target_Nat"
begin

text \<open>
  A plan with a running and a pending work order, a proposal that replaces the pending one and adds
  another, and a planner that answers with this proposal: the instance on which the properties of the
  planner are evaluated. The stand-ins for the hash and the serializers keep the first bytes of their
  input, so that plans and orders of different revisions have different digests.
\<close>

section \<open>Catalogs and plan\<close>

definition toy_digest :: string where
  "toy_digest =
     ''0000000000000000000000000000000000000000000000000000000000000000''"

definition toy_obligation :: ProtectedObligation where
  "toy_obligation = \<lparr>ob_id = ObligationId 7,
     ob_content_sha256 = ''7700000000000000000000000000000000000000000000000000000000000000'',
     ob_statement = ''w'', ob_required = True\<rparr>"

definition toy_obligations :: ProtectedObligationCatalog where
  "toy_obligations = \<lparr>oc_snapshot_sha256 = toy_digest, oc_acceptance_policy_sha256 = toy_digest,
     oc_obligations = [(ObligationId 7, toy_obligation)]\<rparr>"

definition toy_context :: PlannerContextCatalog where
  "toy_context = \<lparr>cc_manifest_sha256 = toy_digest, cc_evidence_bindings =
     [\<lparr>eb_id = ''e'', eb_content_sha256 = toy_digest\<rparr>, \<lparr>eb_id = ''f'', eb_content_sha256 = toy_digest\<rparr>]\<rparr>"

definition toy_policy :: PlannerPolicy where
  "toy_policy = \<lparr>pp_policy_sha256 = toy_digest, pp_maximum_access = AccessReadOnly,
     pp_limits = default_limits\<rparr>"

definition toy_ref :: ProtectedObligationRef where
  "toy_ref = \<lparr>obr_id = ObligationId 7, obr_content_sha256 = ob_content_sha256 toy_obligation\<rparr>"

definition toy_basis :: DecisionBasis where
  "toy_basis = \<lparr>db_evidence_ids = [''e''], db_rationale = ''r''\<rparr>"

definition toy_order :: "uuid128 \<Rightarrow> PlannedWorkOrderState \<Rightarrow> PlannedWorkOrder" where
  "toy_order n state = \<lparr>pw_id = PlanWorkOrderId n, pw_revision = 1, pw_objective = ''w'',
     pw_obligations = [toy_ref], pw_dependencies = [], pw_verification_targets = [VerificationTargetId 1],
     pw_required_access = AccessReadOnly, pw_state = state, pw_basis = toy_basis\<rparr>"

definition toy_plan :: PlanSnapshot where
  "toy_plan = (empty_plan (PlanId 5) toy_obligations)
     \<lparr>ps_revision := 1, ps_parent_plan_sha256 := Some toy_digest, ps_strategy_summary := ''s'',
      ps_verification_targets := [(VerificationTargetId 1,
        \<lparr>vt_id = VerificationTargetId 1, vt_statement = ''w'', vt_obligations = [toy_ref],
         vt_basis = toy_basis\<rparr>)],
      ps_work_orders := [(PlanWorkOrderId 1, toy_order 1 WorkRunning),
                         (PlanWorkOrderId 2, toy_order 2 WorkPending)]\<rparr>"

section \<open>The proposal\<close>

definition toy_bindings :: PlannerTurnBindings where
  "toy_bindings = \<lparr>tb_plan_id = PlanId 5, tb_base_revision = 1,
     tb_base_plan_sha256 = ''0000000000000001000000000000000000000000000000000000000000000000'',
     tb_obligation_snapshot_sha256 = toy_digest, tb_acceptance_policy_sha256 = toy_digest,
     tb_context_manifest_sha256 = toy_digest, tb_planner_policy_sha256 = toy_digest\<rparr>"

definition toy_work_ref :: ProtectedWorkOrderRef where
  "toy_work_ref = \<lparr>wr_id = PlanWorkOrderId 2,
     wr_revision_sha256 = ''0000000100000000000000000000000000000000000000000000000000000000''\<rparr>"

definition toy_patch :: PlanPatch where
  "toy_patch =
     \<lparr>pa_strategy_summary = Some ''n'',
      pa_add_verification_targets = [\<lparr>nvt_local_id = LocalVerificationTargetId 1, nvt_statement = ''w'',
        nvt_obligations = [toy_ref], nvt_basis = toy_basis\<rparr>],
      pa_add_work_orders = [\<lparr>nw_local_id = LocalWorkOrderId 1, nw_objective = ''w'', nw_obligations = [toy_ref],
        nw_existing_dependencies = [PlanWorkOrderId 2], nw_new_dependencies = [],
        nw_existing_verification_targets = [],
        nw_new_verification_targets = [LocalVerificationTargetId 1],
        nw_required_access = AccessReadOnly, nw_basis = toy_basis\<rparr>],
      pa_replace_work_orders = [\<lparr>rw_target = toy_work_ref, rw_objective = ''x'', rw_obligations = [toy_ref],
        rw_existing_dependencies = [PlanWorkOrderId 1], rw_new_dependencies = [],
        rw_existing_verification_targets = [VerificationTargetId 1], rw_new_verification_targets = [],
        rw_required_access = AccessNone, rw_basis = toy_basis\<rparr>],
      pa_cancel_work_orders = []\<rparr>"

definition toy_directive :: PlannerDirective where
  "toy_directive = \<lparr>pd_kind = DirectiveExecute,
     pd_execute = \<lparr>ws_existing = [PlanWorkOrderId 2], ws_new = []\<rparr>, pd_delegations = [],
     pd_clarifications = [], pd_escalations = [], pd_finish_claims = []\<rparr>"

definition toy_proposal :: PlannerTurnProposal where
  "toy_proposal = \<lparr>pt_schema_version = 1, pt_bindings = toy_bindings, pt_patch = toy_patch,
     pt_directive = toy_directive\<rparr>"

section \<open>The environment\<close>

definition toy_sha256 :: "u8 list \<Rightarrow> u8 list" where
  "toy_sha256 bytes = take 32 (bytes @ replicate 32 0)"

definition toy_url :: "string \<Rightarrow> Url" where
  "toy_url s = \<lparr>url_scheme = ''http'', url_host_str = Some ''h'', url_username = [], url_password = None,
     url_query = None, url_fragment = None, url_path = ''/'', url_origin_ascii = s\<rparr>"

definition toy_key :: PromptKey where
  "toy_key = \<lparr>pk_id = ''p'', pk_version = version_new 1 0 0\<rparr>"

definition toy_prompt :: CompiledPrompt where
  "toy_prompt = \<lparr>cp_manifest = \<lparr>mp_prompt = toy_key, mp_content_sha256 = toy_digest\<rparr>,
     cp_limits = \<lparr>pm_max_suggested_subtasks = 0\<rparr>, cp_runtime_constraints = [], cp_input_sections = [],
     cp_messages = [\<lparr>cm_role = PromptSystem, cm_trust = ApplicationPolicy,
       cm_provenance = FromManifest \<lparr>mp_prompt = toy_key, mp_content_sha256 = toy_digest\<rparr>,
       cm_content = ContentText ''c''\<rparr>],
     cp_generation_schema = JNull, cp_output_schema = JNull\<rparr>"

definition toy_env :: journal_env where
  "toy_env =
     \<lparr>be_sha256 = toy_sha256, be_url_parse = \<lambda>s. Some (toy_url s), be_json_parse = \<lambda>s. Some (JString s),
      be_identity_json = \<lambda>_ _ _ _ _. Inr [],
      pe_obligation_json = \<lambda>_. Inr [], pe_catalog_json = \<lambda>_ _. Inr [], pe_binding_json = \<lambda>_. Inr [],
      pe_context_json = \<lambda>_ _. Inr [], pe_policy_json = \<lambda>_ _. Inr [],
      pe_work_order_json = \<lambda>w. Inr (to_be_bytes (pw_revision w)),
      pe_plan_json = \<lambda>p. Inr (to_be_bytes (ps_revision p)),
      pe_directive_chunks = \<lambda>_. Inr [[1, 2], [3]],
      pv_policy_json = \<lambda>_ _ _ _ _. Inr [], pv_plan_value = \<lambda>_. Inr JNull,
      pv_catalog_value = \<lambda>_. Inr JNull, pv_context_value = \<lambda>_. Inr JNull,
      pv_planner_policy_value = \<lambda>_. Inr JNull, pv_uuid_text = \<lambda>_. ''u'',
      pv_invocation_violations = \<lambda>_. [], pv_compile = \<lambda>_. Inr toy_prompt,
      pv_compact_string = \<lambda>_. Inr ''j'', pv_validate_output = \<lambda>_ _ _. Inr (),
      pv_proposal_from_value = \<lambda>v. if v = JString ''y'' then Inr toy_proposal else Inl ''decode'',
      je_bundle_json = \<lambda>_. Inr [], je_prepared_json = \<lambda>_. Inr [], je_observed_json = \<lambda>_. Inr [],
      je_proposal_json = \<lambda>_. Inr [], je_contract_error_text = \<lambda>_. ''contract'',
      je_policy_error_text = \<lambda>_. ''policy'', je_setup_error_text = \<lambda>_. ''setup''\<rparr>"

section \<open>The accepted turn, stage by stage\<close>

definition toy_new_work :: PlanWorkOrderId where
  "toy_new_work = PlanWorkOrderId 130811854905352812128787824968769369967"

definition toy_new_target :: VerificationTargetId where
  "toy_new_target = VerificationTargetId 130811854905352812128787824968769369701"

definition toy_plan1 :: PlanSnapshot where
  "toy_plan1 = toy_plan\<lparr>ps_verification_targets :=
     [(VerificationTargetId 1, \<lparr>vt_id = VerificationTargetId 1, vt_statement = ''w'',
         vt_obligations = [toy_ref], vt_basis = toy_basis\<rparr>),
      (toy_new_target, \<lparr>vt_id = toy_new_target, vt_statement = ''w'', vt_obligations = [toy_ref],
         vt_basis = toy_basis\<rparr>)]\<rparr>"

definition toy_added :: PlannedWorkOrder where
  "toy_added = \<lparr>pw_id = toy_new_work, pw_revision = 1, pw_objective = ''w'', pw_obligations = [toy_ref],
     pw_dependencies = [PlanWorkOrderId 2], pw_verification_targets = [toy_new_target],
     pw_required_access = AccessReadOnly, pw_state = WorkPending, pw_basis = toy_basis\<rparr>"

definition toy_replaced :: PlannedWorkOrder where
  "toy_replaced = \<lparr>pw_id = PlanWorkOrderId 2, pw_revision = 2, pw_objective = ''x'', pw_obligations = [toy_ref],
     pw_dependencies = [PlanWorkOrderId 1], pw_verification_targets = [VerificationTargetId 1],
     pw_required_access = AccessNone, pw_state = WorkPending, pw_basis = toy_basis\<rparr>"

definition toy_plan2 :: PlanSnapshot where
  "toy_plan2 = toy_plan1\<lparr>ps_work_orders :=
     [(PlanWorkOrderId 1, toy_order 1 WorkRunning), (PlanWorkOrderId 2, toy_order 2 WorkPending),
      (toy_new_work, toy_added)]\<rparr>"

definition toy_plan3 :: PlanSnapshot where
  "toy_plan3 = toy_plan1\<lparr>ps_strategy_summary := ''n'', ps_work_orders :=
     [(PlanWorkOrderId 1, toy_order 1 WorkRunning), (PlanWorkOrderId 2, toy_replaced),
      (toy_new_work, toy_added)]\<rparr>"

lemma toy_allocated:
  "allocate_patch_ids toy_env toy_plan toy_patch =
     (([(LocalWorkOrderId 1, toy_new_work)], [(LocalVerificationTargetId 1, toy_new_target)]), [])"
  by code_simp

lemma toy_targets:
  "apply_verification_targets toy_plan (pa_add_verification_targets toy_patch)
     [(LocalVerificationTargetId 1, toy_new_target)] toy_obligations toy_context = (toy_plan1, [])"
  by code_simp

lemma toy_additions:
  "apply_work_order_additions toy_plan1 (pa_add_work_orders toy_patch) [(LocalWorkOrderId 1, toy_new_work)]
     [(LocalVerificationTargetId 1, toy_new_target)] toy_obligations toy_context toy_policy = (toy_plan2, [])"
  by code_simp

lemma toy_mutations:
  "apply_work_order_mutations toy_env toy_plan2 toy_patch [(LocalWorkOrderId 1, toy_new_work)]
     [(LocalVerificationTargetId 1, toy_new_target)] toy_obligations toy_context toy_policy =
     (toy_plan2\<lparr>ps_work_orders := ps_work_orders toy_plan3\<rparr>, [])"
  by code_simp

lemma toy_patched:
  "apply_patch toy_env toy_patch toy_plan toy_obligations toy_context toy_policy =
     ((toy_plan3, [(LocalWorkOrderId 1, toy_new_work)]), [])"
proof -
  have "validate_text ''patch.strategy_summary'' ''n'' = []" by code_simp
  moreover have "pa_strategy_summary toy_patch = Some ''n''" by (simp add: toy_patch_def)
  moreover have "(toy_plan2\<lparr>ps_work_orders := ps_work_orders toy_plan3\<rparr>)\<lparr>ps_strategy_summary := ''n''\<rparr> = toy_plan3"
    by (simp add: toy_plan2_def toy_plan3_def)
  ultimately show ?thesis
    by (simp add: apply_patch_def toy_allocated toy_targets toy_additions toy_mutations)
qed

lemma toy_plan3_invariant: "plan_invariant_violations toy_plan3 toy_obligations toy_policy False = []"
  by code_simp

lemma toy_structural: "plan_structural_violations toy_env toy_proposal toy_plan toy_policy = []"
  by code_simp

lemma toy_bound:
  "plan_binding_violations toy_env toy_proposal toy_plan toy_obligations toy_context toy_policy = []"
  by code_simp

lemma toy_directed:
  "resolve_directive toy_directive toy_patch toy_plan3 [(LocalWorkOrderId 1, toy_new_work)] toy_obligations
     toy_context toy_policy = (Some (ResolvedExecute (PlanWorkOrderId 2)), [])"
  by code_simp

definition toy_next_plan :: PlanSnapshot where
  "toy_next_plan = toy_plan3\<lparr>ps_revision := 2, ps_parent_plan_sha256 := Some (tb_base_plan_sha256 toy_bindings)\<rparr>"

definition toy_turn :: ValidatedPlannerTurn where
  "toy_turn = \<lparr>vpt_plan = toy_next_plan,
     vpt_plan_sha256 = ''0000000000000002000000000000000000000000000000000000000000000000'',
     vpt_directive = ResolvedExecute (PlanWorkOrderId 2)\<rparr>"

lemma toy_hashes:
  "plan_sha256 toy_env toy_plan = Inr (tb_base_plan_sha256 toy_bindings)"
  "plan_sha256 toy_env toy_next_plan = Inr (vpt_plan_sha256 toy_turn)"
  by code_simp+

lemma toy_not_empty: "\<not> patch_is_empty toy_patch"
  by (simp add: patch_is_empty_def toy_patch_def)

lemma toy_accepted:
  "validate_and_apply toy_env toy_proposal toy_plan toy_obligations toy_context toy_policy = Inr toy_turn"
proof -
  have revision: "checked_add (ps_revision toy_plan) 1 = Some 2" by code_simp
  have no_pause: "allow_initial_empty_pause toy_proposal toy_plan = False"
    by (simp add: allow_initial_empty_pause_def toy_plan_def)
  have parts: "pt_patch toy_proposal = toy_patch" "pt_directive toy_proposal = toy_directive"
    by (simp_all add: toy_proposal_def)
  show ?thesis
    using toy_hashes
    by (simp add: validate_and_apply_def validate_and_apply_with_allocations_def toy_structural toy_bound
        parts toy_patched no_pause toy_plan3_invariant toy_directed toy_not_empty revision
        toy_next_plan_def[symmetric] toy_turn_def)
qed

section \<open>The first turn of a plan\<close>

text \<open>One target and one order, to be executed.\<close>

definition toy_first_patch :: PlanPatch where
  "toy_first_patch = toy_patch\<lparr>pa_replace_work_orders := [],
     pa_add_work_orders := [\<lparr>nw_local_id = LocalWorkOrderId 1, nw_objective = ''w'', nw_obligations = [toy_ref],
        nw_existing_dependencies = [], nw_new_dependencies = [],
        nw_existing_verification_targets = [],
        nw_new_verification_targets = [LocalVerificationTargetId 1],
        nw_required_access = AccessReadOnly, nw_basis = toy_basis\<rparr>]\<rparr>"

definition toy_first_directive :: PlannerDirective where
  "toy_first_directive = toy_directive\<lparr>pd_execute := \<lparr>ws_existing = [], ws_new = [LocalWorkOrderId 1]\<rparr>\<rparr>"

definition toy_first_proposal :: PlannerTurnProposal where
  "toy_first_proposal = \<lparr>pt_schema_version = 1,
     pt_bindings = toy_bindings\<lparr>tb_base_revision := 0, tb_base_plan_sha256 := toy_digest\<rparr>,
     pt_patch = toy_first_patch, pt_directive = toy_first_directive\<rparr>"

definition toy_base :: PlanSnapshot where
  "toy_base = empty_plan (PlanId 5) toy_obligations"

definition toy_first1 :: PlanSnapshot where
  "toy_first1 = toy_base\<lparr>ps_verification_targets :=
     [(toy_new_target, \<lparr>vt_id = toy_new_target, vt_statement = ''w'', vt_obligations = [toy_ref],
         vt_basis = toy_basis\<rparr>)]\<rparr>"

definition toy_first2 :: PlanSnapshot where
  "toy_first2 = toy_first1\<lparr>ps_work_orders := [(toy_new_work, toy_added\<lparr>pw_dependencies := []\<rparr>)]\<rparr>"

definition toy_first_plan :: PlanSnapshot where
  "toy_first_plan = toy_first2\<lparr>ps_strategy_summary := ''n'', ps_revision := 1,
     ps_parent_plan_sha256 := Some toy_digest\<rparr>"

definition toy_first_turn :: ValidatedPlannerTurn where
  "toy_first_turn = \<lparr>vpt_plan = toy_first_plan,
     vpt_plan_sha256 = ''0000000000000001000000000000000000000000000000000000000000000000'',
     vpt_directive = ResolvedExecute toy_new_work\<rparr>"

lemma toy_first_allocated:
  "allocate_patch_ids toy_env toy_base toy_first_patch =
     (([(LocalWorkOrderId 1, toy_new_work)], [(LocalVerificationTargetId 1, toy_new_target)]), [])"
  by code_simp

lemma toy_first_targets:
  "apply_verification_targets toy_base (pa_add_verification_targets toy_first_patch)
     [(LocalVerificationTargetId 1, toy_new_target)] toy_obligations toy_context = (toy_first1, [])"
  by code_simp

lemma toy_first_additions:
  "apply_work_order_additions toy_first1 (pa_add_work_orders toy_first_patch)
     [(LocalWorkOrderId 1, toy_new_work)] [(LocalVerificationTargetId 1, toy_new_target)]
     toy_obligations toy_context toy_policy = (toy_first2, [])"
  by code_simp

lemma toy_first_parts:
  "pa_replace_work_orders toy_first_patch = []" "pa_cancel_work_orders toy_first_patch = []"
  "pa_strategy_summary toy_first_patch = Some ''n''" "\<not> patch_is_empty toy_first_patch"
  by (simp_all add: toy_first_patch_def toy_patch_def patch_is_empty_def)

lemma toy_first_checks:
  "plan_structural_violations toy_env toy_first_proposal toy_base toy_policy = []"
  "plan_binding_violations toy_env toy_first_proposal toy_base toy_obligations toy_context toy_policy = []"
  "plan_invariant_violations (toy_first2\<lparr>ps_strategy_summary := ''n''\<rparr>) toy_obligations toy_policy False = []"
  "resolve_directive toy_first_directive toy_first_patch (toy_first2\<lparr>ps_strategy_summary := ''n''\<rparr>)
     [(LocalWorkOrderId 1, toy_new_work)] toy_obligations toy_context toy_policy
     = (Some (ResolvedExecute toy_new_work), [])"
  "validate_text ''patch.strategy_summary'' ''n'' = []"
  "checked_add (ps_revision toy_base) 1 = Some 1"
  "plan_sha256 toy_env toy_base = Inr toy_digest"
  "plan_sha256 toy_env toy_first_plan = Inr (vpt_plan_sha256 toy_first_turn)"
  by code_simp+

lemma toy_first_accepted:
  "validate_and_apply toy_env toy_first_proposal toy_base toy_obligations toy_context toy_policy
     = Inr toy_first_turn"
proof -
  have patched: "apply_patch toy_env toy_first_patch toy_base toy_obligations toy_context toy_policy =
      ((toy_first2\<lparr>ps_strategy_summary := ''n''\<rparr>, [(LocalWorkOrderId 1, toy_new_work)]), [])"
    by (simp add: apply_patch_def toy_first_allocated toy_first_targets toy_first_additions
        apply_work_order_mutations_def toy_first_parts toy_first_checks)
  have parts: "pt_patch toy_first_proposal = toy_first_patch" "pt_directive toy_first_proposal = toy_first_directive"
    by (simp_all add: toy_first_proposal_def)
  have no_pause: "allow_initial_empty_pause toy_first_proposal toy_base = False"
    by (simp add: allow_initial_empty_pause_def parts toy_first_parts)
  show ?thesis
    using toy_first_checks(8)
    by (simp add: validate_and_apply_def validate_and_apply_with_allocations_def toy_first_checks parts patched
        no_pause toy_first_parts toy_first_turn_def toy_first_plan_def[symmetric])
qed

section \<open>The planner that answers with the proposal\<close>

definition toy_instance :: BackendInstanceIdentity where
  "toy_instance = \<lparr>bi_schema_version = 1, bi_backend_id = ''b'', bi_transport = HttpOrigin ''h'',
     bi_configured_deployment_id = ''d'', bi_identity_sha256 = toy_digest\<rparr>"

definition toy_inference_policy :: PlannerReplannerInferencePolicy where
  "toy_inference_policy = \<lparr>ip_backend_instance = toy_instance, ip_model_id = ''m'', ip_reasoning = None,
     ip_max_output_tokens = 100, ip_policy_sha256 = toy_digest\<rparr>"

definition toy_packet :: PlannerEvidencePacket where
  "toy_packet = \<lparr>ek_schema_version = 1, ek_context_manifest_sha256 = toy_digest, ek_entries = [],
     ek_packet_sha256 = toy_digest\<rparr>"

definition toy_bundle :: PreparedPlannerReplannerRequest where
  "toy_bundle = projr (build_request toy_env toy_inference_policy toy_plan toy_obligations toy_context
     toy_policy toy_packet)"

definition toy_request :: PlannerExecutionRequest where
  "toy_request = \<lparr>xr_execution_id = PlannerExecutionId 1, xr_attempt_id = PlannerAttemptId 1,
     xr_parent_attempt_id = None, xr_budget_reservation_id = BudgetReservationId 1,
     xr_prompt_bundle = toy_bundle, xr_base_plan = toy_plan, xr_obligations = toy_obligations,
     xr_context = toy_context, xr_policy = toy_policy\<rparr>"

definition toy_response :: StructuredInferenceResponse where
  "toy_response = \<lparr>sr_model_id = ''m'', sr_value = JString ''y'', sr_raw_text = ''y'',
     sr_finish_reason = None,
     sr_usage = Some \<lparr>tu_input_tokens = None, tu_output_tokens = Some 100, tu_total_tokens = None\<rparr>,
     sr_evidence = \<lparr>ie_backend_id = ''b'', ie_backend_instance = Some toy_instance, ie_endpoint = ''h'',
       ie_status = 200, ie_completion_id = None, ie_response_body_sha256 = None, ie_raw_response = JNull\<rparr>\<rparr>"

definition toy_backend :: planner_backend where
  "toy_backend = \<lparr>pb_backend_id = ''b'', pb_instance_identity = toy_instance,
     pb_infer_structured = \<lambda>_. Inr toy_response\<rparr>"

definition toy_prepared :: PlannerAttemptPrepared where
  "toy_prepared = projr (prepare_attempt toy_env toy_backend toy_inference_policy toy_request)"

definition toy_observed :: PlannerAttemptObserved where
  "toy_observed = \<lparr>ao_execution_id = PlannerExecutionId 1, ao_attempt_id = PlannerAttemptId 1,
     ao_prepared_sha256 = toy_digest, ao_observation = ObservedResponse toy_response\<rparr>"

definition toy_empty_journal :: InMemoryPlannerJournal where
  "toy_empty_journal = \<lparr>mj_records = [], mj_poisoned = False\<rparr>"

lemma toy_built:
  "build_request toy_env toy_inference_policy toy_plan toy_obligations toy_context toy_policy toy_packet
     = Inr toy_bundle"
proof -
  have "case build_request toy_env toy_inference_policy toy_plan toy_obligations toy_context toy_policy
      toy_packet of Inl _ \<Rightarrow> False | Inr _ \<Rightarrow> True"
    by code_simp
  then show ?thesis
    by (auto simp: toy_bundle_def split: sum.splits)
qed

lemma toy_setup: "planner_setup_violations toy_env toy_plan toy_obligations toy_context toy_policy = []"
  by code_simp

lemma toy_integrity:
  "policy_validate_integrity toy_env toy_inference_policy = Inr ()"
  "identity_validate_integrity toy_env toy_instance = Inr ()"
  by code_simp+

lemma toy_packet_of_bundle: "pq_evidence_packet toy_bundle = toy_packet"
  using build_request_parts(1)[OF toy_built] .

lemma result_Inr: "and_then (Inr x) f = f x" "map_err g (Inr x) = Inr x"
  by (simp_all add: and_then_def map_err_def)

lemma toy_fields:
  "xr_prompt_bundle toy_request = toy_bundle" "xr_base_plan toy_request = toy_plan"
  "xr_obligations toy_request = toy_obligations" "xr_context toy_request = toy_context"
  "xr_policy toy_request = toy_policy" "xr_parent_attempt_id toy_request = None"
  "xr_execution_id toy_request = PlannerExecutionId 1" "xr_attempt_id toy_request = PlannerAttemptId 1"
  "pb_backend_id toy_backend = ''b''" "pb_instance_identity toy_backend = toy_instance"
  "pb_infer_structured toy_backend q = Inr toy_response"
  "policy_backend_id toy_inference_policy = ''b''" "ip_backend_instance toy_inference_policy = toy_instance"
  "ip_model_id toy_inference_policy = ''m''" "ip_max_output_tokens toy_inference_policy = 100"
  by (simp_all add: toy_request_def toy_backend_def policy_backend_id_def toy_inference_policy_def
      toy_instance_def)

lemma toy_digests:
  "digest_of toy_env (je_bundle_json toy_env b) = Inr toy_digest"
  "prepared_sha256 toy_env p = Inr toy_digest" "observed_sha256 toy_env ob = Inr toy_digest"
  "digest_of toy_env (je_proposal_json toy_env q) = Inr toy_digest"
proof -
  have "digest_of toy_env (Inr []) = Inr toy_digest" by code_simp
  then show "digest_of toy_env (je_bundle_json toy_env b) = Inr toy_digest"
    "prepared_sha256 toy_env p = Inr toy_digest" "observed_sha256 toy_env ob = Inr toy_digest"
    "digest_of toy_env (je_proposal_json toy_env q) = Inr toy_digest"
    by (simp_all add: prepared_sha256_def observed_sha256_def) (simp_all add: toy_env_def)
qed

lemma toy_attested:
  "request_validate_against toy_env toy_bundle toy_plan toy_obligations toy_context toy_policy
     toy_inference_policy = Inr ()"
  by (simp add: request_validate_against_iff toy_packet_of_bundle toy_built)

lemma toy_prepare: "prepare_attempt toy_env toy_backend toy_inference_policy toy_request = Inr toy_prepared"
  by (simp add: toy_prepared_def prepare_attempt_def toy_fields toy_integrity toy_setup toy_attested
      toy_hashes(1) toy_digests result_Inr)

lemma toy_observe:
  "observe_attempt toy_env toy_request toy_prepared (ObservedResponse toy_response) = Inr toy_observed"
  by (simp add: observe_attempt_def toy_digests toy_fields result_Inr toy_observed_def)

lemma toy_answer_ok:
  "planner_response_violations toy_env toy_response ''m'' ''b'' toy_instance 100 = []"
  by code_simp

lemma toy_decide:
  "replay_planner_decision toy_env toy_prepared toy_observed toy_inference_policy
     = Inr (ReplayedAccepted toy_digest toy_turn)"
proof -
  have p: "ap_prompt_bundle toy_prepared = toy_bundle" "ap_base_plan toy_prepared = toy_plan"
      "ap_obligations toy_prepared = toy_obligations" "ap_context toy_prepared = toy_context"
      "ap_policy toy_prepared = toy_policy"
    using prepare_attempt_for[OF toy_prepare] by (simp_all add: prepared_for_def toy_fields)
  have q: "ap_model_id toy_prepared = ''m''" "ap_backend_id toy_prepared = ''b''"
      "ap_backend_instance toy_prepared = toy_instance" "ap_max_output_tokens toy_prepared = 100"
    by (simp_all add: toy_prepared_def prepare_attempt_def toy_fields toy_integrity toy_setup
        toy_attested toy_hashes(1) toy_digests result_Inr)
  have r: "pv_validate_output toy_env c i v = Inr ()" "sr_value toy_response = JString ''y''"
      "pv_proposal_from_value toy_env (JString ''y'') = Inr toy_proposal" for c i v
    by (simp_all add: toy_env_def toy_response_def)
  show ?thesis
    by (simp add: replay_planner_decision_def toy_observed_def p q r toy_answer_ok toy_digests
        decode_and_apply_planner_replanner_output_def toy_attested toy_accepted result_Inr
        contract_journal_error_def)
qed

lemma toy_journal_replays: "journal_replays toy_env toy_inference_policy []"
  by (simp add: journal_replays_def planner_replay_iff toy_integrity)

text \<open>The execution of the example, and the journal that it leaves.\<close>

definition toy_acceptance :: PlannerAttemptAccepted where
  "toy_acceptance = \<lparr>aa_execution_id = PlannerExecutionId 1, aa_attempt_id = PlannerAttemptId 1,
     aa_observed_sha256 = toy_digest, aa_proposal_sha256 = toy_digest, aa_result = toy_turn\<rparr>"

definition toy_records :: "PlannerJournalRecord list" where
  "toy_records = [RecordPrepared toy_prepared, RecordObserved toy_observed, RecordAccepted toy_acceptance]"

definition toy_journal1 :: InMemoryPlannerJournal where
  "toy_journal1 = \<lparr>mj_records = [RecordPrepared toy_prepared], mj_poisoned = False\<rparr>"

lemma toy_prepared_ids:
  "ap_execution_id toy_prepared = PlannerExecutionId 1" "ap_attempt_id toy_prepared = PlannerAttemptId 1"
  using prepare_attempt_for[OF toy_prepare] by (simp_all add: prepared_for_def toy_fields)

lemma toy_fresh: "fresh_request [] toy_request"
  by (simp add: fresh_request_def)

lemma toy_records_eq:
  "toy_records = [] @ [RecordPrepared toy_prepared, RecordObserved toy_observed,
     decision_record toy_prepared toy_digest (ReplayedAccepted toy_digest toy_turn)]"
  by (simp add: toy_records_def toy_acceptance_def toy_prepared_ids)

lemma toy_room: "length ([]::PlannerJournalRecord list) + 3 \<le> HARD_MAX_ACTIVE_JOURNAL_RECORDS"
  by (simp add: plan_limit_defs)

lemma toy_replays: "journal_replays toy_env toy_inference_policy toy_records"
  and toy_projected: "record_projected toy_env toy_inference_policy toy_records (PlannerAttemptId 1)
     = Some (ProjectedAccepted toy_prepared toy_observed toy_acceptance)"
  using execution_records_replay[OF toy_journal_replays toy_room toy_prepare toy_fields(6) toy_fresh
      toy_observe toy_digests(3) toy_decide]
  unfolding toy_records_eq[symmetric]
  by (simp_all add: toy_fields toy_acceptance_def toy_prepared_ids)

lemma toy_execution:
  "execute toy_env (journal_retain toy_env) toy_backend toy_inference_policy toy_request (toy_empty_journal, []) =
     (Inr \<lparr>xn_prepared = toy_prepared, xn_observed = toy_observed, xn_status = ExecutionAccepted toy_turn\<rparr>,
      toy_empty_journal\<lparr>mj_records := toy_records\<rparr>,
      execution_effects toy_prepared toy_observed toy_digest (ReplayedAccepted toy_digest toy_turn))"
  using execute_completes[of toy_env toy_inference_policy toy_empty_journal toy_backend toy_request
      toy_prepared toy_observed toy_digest "ReplayedAccepted toy_digest toy_turn"]
    toy_journal_replays toy_room toy_prepare toy_fields(6) toy_fresh toy_observe toy_digests(3) toy_decide
  by (simp add: toy_empty_journal_def toy_records_def toy_acceptance_def toy_prepared_ids toy_fields
      observation_of_def)

lemma toy_step1:
  "execution_step toy_env (journal_retain toy_env) toy_backend toy_inference_policy (Requested toy_request)
     (toy_empty_journal, []) =
     (Acknowledged toy_request toy_prepared, toy_journal1, [Retained (RecordPrepared toy_prepared)])"
proof -
  have "journal_replays toy_env toy_inference_policy [RecordPrepared toy_prepared]"
    using execution_records_replay(1)[OF toy_journal_replays toy_room toy_prepare toy_fields(6) toy_fresh
        toy_observe toy_digests(3) toy_decide] by simp
  then have "journal_retain toy_env toy_empty_journal (RecordPrepared toy_prepared) toy_inference_policy
      = (Inr (), toy_journal1)"
    by (simp add: journal_retain_Inr toy_empty_journal_def toy_journal1_def)
  then show ?thesis
    by (simp add: execution_step_def exec_then_def exec_result_def exec_retain_def toy_prepare)
qed

end
