(* ===== verification/Planner_Properties.thy ===== *)
theory Planner_Properties
  imports Example_Planner
begin

text \<open>
  The properties of the bounded planner: what an accepted turn makes of a plan, the trusted catalogs,
  the journal of planner attempts and the executor between journal and backend. Each is applied to
  the plan, the proposal and the planner of \<open>Example_Planner\<close>.
\<close>

section \<open>Accepted turns\<close>

text \<open>
  C2. A turn is accepted only with a well-formed plan: within the limits of the policy, every order and
  target under its own identity, no access beyond the policy, dependencies on live orders of the plan
  and without a cycle, targets of the plan, obligations of the protected catalog. Every required
  obligation has a live order, but for a question or an escalation before any work is planned; and the
  digest returned is that of the plan.
\<close>

theorem accepted_turn_well_formed:
  assumes "validate_and_apply env p base obligations context policy = Inr v"
  shows "well_formed_plan (vpt_plan v) obligations policy
    \<and> (allow_initial_empty_pause p base \<and> vpt_plan v = base \<or> covers_obligations (vpt_plan v) obligations)
    \<and> plan_sha256 env (vpt_plan v) = Inr (vpt_plan_sha256 v)"
  using accepted_plan_ok[OF assms] by blast

theorem accepted_turn_well_formed_witness:
  "well_formed_plan toy_next_plan toy_obligations toy_policy \<and> covers_obligations toy_next_plan toy_obligations"
  using accepted_turn_well_formed[OF toy_accepted]
  by (auto simp: toy_turn_def allow_initial_empty_pause_def toy_plan_def)

text \<open>
  C3. An accepted turn changes a work order of the base plan only by a replacement or a cancellation in
  its patch that names the order at the revision it has, and only while the order is pending or failed;
  the change raises its revision by one. Every other order, so each one running, completed or
  cancelled, stays as it is. New orders are assumed to get identities that the plan does not have.
\<close>

theorem accepted_turn_frame:
  assumes "validate_and_apply env p base obligations context policy = Inr v"
    and "fresh_identities env (pt_patch p) base"
    and "bm_get (ps_work_orders base) k = Some work"
  shows "bm_get (ps_work_orders (vpt_plan v)) k = Some work
    \<or> (\<exists>r work'. r \<in> set (pa_replace_work_orders (pt_patch p)) \<and> wr_id (rw_target r) = k
        \<and> mutable_at env work (rw_target r)
        \<and> bm_get (ps_work_orders (vpt_plan v)) k = Some work' \<and> replaced_by work r work')
    \<or> (\<exists>c work'. c \<in> set (pa_cancel_work_orders (pt_patch p)) \<and> wr_id (cw_target c) = k
        \<and> mutable_at env work (cw_target c)
        \<and> bm_get (ps_work_orders (vpt_plan v)) k = Some work' \<and> cancelled_by work c work')"
proof -
  from assms(1) obtain r where
      acc: "validate_and_apply_with_allocations env p base obligations context policy = Inr r"
      and v: "v = vpa_validated r"
    by (cases "validate_and_apply_with_allocations env p base obligations context policy")
      (auto simp: validate_and_apply_def)
  from acc obtain plan where ap:
      "apply_patch env (pt_patch p) base obligations context policy = ((plan, vpa_local_work_order_ids r), [])"
      and same: "ps_work_orders (vpt_plan v) = ps_work_orders plan"
    unfolding v by (rule accepted_plan_content)
  note effect = apply_patch_effect[OF ap]
  have fresh: "k \<notin> added_ids env (pt_patch p) base"
    using assms(2,3) by (auto simp: fresh_identities_def bm_contains_key_def)
  show ?thesis
  proof (cases "k \<in> replaced_ids (pt_patch p) \<union> cancelled_ids (pt_patch p)")
    case False
    then show ?thesis using effect(4)[of k] fresh assms(3) by (simp add: same)
  next
    case True
    then consider rr where "rr \<in> set (pa_replace_work_orders (pt_patch p))" "wr_id (rw_target rr) = k"
      | c where "c \<in> set (pa_cancel_work_orders (pt_patch p))" "wr_id (cw_target c) = k"
      by (auto simp: replaced_ids_def cancelled_ids_def)
    then show ?thesis
    proof cases
      case 1
      with effect(5)[of rr] fresh assms(3) show ?thesis by (simp add: same) blast
    next
      case 2
      with effect(6)[of c] fresh assms(3) show ?thesis by (simp add: same) blast
    qed
  qed
qed

theorem accepted_turn_frame_witness:
  "bm_get (ps_work_orders toy_next_plan) (PlanWorkOrderId 1) = Some (toy_order 1 WorkRunning)"
proof -
  have parts: "pt_patch toy_proposal = toy_patch" "vpt_plan toy_turn = toy_next_plan"
    by (simp_all add: toy_proposal_def toy_turn_def)
  have "fresh_identities toy_env (pt_patch toy_proposal) toy_plan"
    using toy_allocated unfolding parts fresh_identities_def added_ids_def
    by code_simp
  moreover have "bm_get (ps_work_orders toy_plan) (PlanWorkOrderId 1) = Some (toy_order 1 WorkRunning)"
    by (simp add: toy_plan_def bm_get_def)
  ultimately show ?thesis
    using accepted_turn_frame[OF toy_accepted, of "PlanWorkOrderId 1" "toy_order 1 WorkRunning"]
    by (auto simp: parts mutable_at_def toy_order_def)
qed

text \<open>
  An accepted turn with an empty patch returns the plan as it was; any other one returns revision plus
  one (never wrapped around) with the digest of the base plan as its parent. Plan identity, schema and
  the bindings to obligations and acceptance policy stay.
\<close>

theorem accepted_turn_chained:
  assumes "validate_and_apply env p base obligations context policy = Inr v"
  shows "(if patch_is_empty (pt_patch p) then vpt_plan v = base
      else unat (ps_revision (vpt_plan v)) = unat (ps_revision base) + 1
        \<and> (\<exists>digest. plan_sha256 env base = Inr digest \<and> ps_parent_plan_sha256 (vpt_plan v) = Some digest))
    \<and> ps_plan_id (vpt_plan v) = ps_plan_id base
    \<and> ps_schema_version (vpt_plan v) = PLAN_SCHEMA_VERSION
    \<and> ps_obligation_snapshot_sha256 (vpt_plan v) = oc_snapshot_sha256 obligations
    \<and> ps_acceptance_policy_sha256 (vpt_plan v) = oc_acceptance_policy_sha256 obligations"
  using accepted_revision[OF assms] by blast

theorem accepted_turn_chained_witness:
  "unat (ps_revision toy_next_plan) = unat (ps_revision toy_plan) + 1
    \<and> ps_parent_plan_sha256 toy_next_plan = Some (tb_base_plan_sha256 toy_bindings)"
  using accepted_turn_chained[OF toy_accepted] toy_hashes(1)
  by (simp add: toy_proposal_def toy_not_empty toy_turn_def)

text \<open>
  A proposal that changed a plan is refused for the plan that it made, whatever catalogs and policy
  come with the second attempt: no proposal is applied twice.
\<close>

theorem accepted_turn_not_repeated:
  assumes "validate_and_apply env p base obligations context policy = Inr v"
    and "\<not> patch_is_empty (pt_patch p)"
  shows "\<exists>violations. validate_and_apply env p (vpt_plan v) obligations' context' policy' = Inl violations"
  using accepted_not_again[OF assms]
  by (cases "validate_and_apply env p (vpt_plan v) obligations' context' policy'") auto

theorem accepted_turn_not_repeated_witness:
  "\<exists>violations. validate_and_apply toy_env toy_proposal toy_next_plan toy_obligations toy_context toy_policy
     = Inl violations"
  using accepted_turn_not_repeated[OF toy_accepted, of toy_obligations toy_context toy_policy] toy_not_empty
  by (simp add: toy_proposal_def toy_turn_def)

text \<open>
  The directive of an accepted turn can be followed: execution names one pending order of the new plan,
  delegation a non-empty set of them; questions stay within the limit, and questions and escalations
  cite known evidence and obligations; a claim to be finished leaves the plan unchanged and claims every
  required obligation exactly once, each with evidence of the catalog.
\<close>

theorem accepted_directive_ok:
  assumes "validate_and_apply env p base obligations context policy = Inr v"
  shows "directive_ok (vpt_plan v) (pt_patch p) obligations context policy (vpt_directive v)"
  using accepted_plan_ok(3)[OF assms] .

theorem accepted_directive_ok_witness: "pending_in toy_next_plan (PlanWorkOrderId 2)"
  using accepted_directive_ok[OF toy_accepted] by (simp add: toy_turn_def)

text \<open>
  C29. Every plan that accepted turns make of the empty plan, under policies and evidence that may change from
  turn to turn, keeps its identity and ordered maps, and is still empty or well formed under the last
  policy with every required obligation covered.
\<close>

theorem plan_history_invariant:
  assumes "planned env obligations plan_id plan last_policy"
  shows "ps_plan_id plan = plan_id
    \<and> bm_wf (ps_work_orders plan) \<and> bm_wf (ps_verification_targets plan)
    \<and> (plan = empty_plan plan_id obligations
       \<or> (\<exists>policy. last_policy = Some policy \<and> well_formed_plan plan obligations policy
            \<and> covers_obligations plan obligations))"
  by (rule planned_invariant[OF assms])

theorem plan_history_invariant_witness:
  "planned toy_env toy_obligations (PlanId 5) toy_first_plan (Some toy_policy)
    \<and> covers_obligations toy_first_plan toy_obligations"
proof -
  have "planned toy_env toy_obligations (PlanId 5) (vpt_plan toy_first_turn) (Some toy_policy)"
    by (rule planned_turn[OF planned_empty toy_first_accepted[unfolded toy_base_def]])
  then have history: "planned toy_env toy_obligations (PlanId 5) toy_first_plan (Some toy_policy)"
    by (simp add: toy_first_turn_def)
  have "ps_revision toy_first_plan \<noteq> ps_revision (empty_plan (PlanId 5) toy_obligations)"
    by (simp add: toy_first_plan_def empty_plan_def)
  then have "toy_first_plan \<noteq> empty_plan (PlanId 5) toy_obligations" by auto
  with plan_history_invariant[OF history] history show ?thesis by blast
qed

text \<open>
  The depth-first search for a dependency cycle returns on every plan, and reports a cycle exactly when
  the dependencies between orders of the plan have one (a dependency on an unknown order is no edge).
\<close>

theorem plan_cycle_search_exact:
  "plan_graph_has_cycle orders = Some (\<not> acyclic (plan_edge orders))"
  by (rule plan_graph_has_cycle_iff)

text \<open>
  A directive passes its size check exactly when its encoding succeeds and is at most 4 MiB long in
  whatever chunks the serializer writes it: the counting writer, which stops at the limit, miscounts
  nothing.
\<close>

theorem directive_limit_exact:
  "directive_exceeds_encoded_limit env directive \<longleftrightarrow>
     (case pe_directive_chunks env directive of
        Inl e \<Rightarrow> True
      | Inr chunks \<Rightarrow> length (concat chunks) > HARD_MAX_DIRECTIVE_ENCODED_BYTES)"
  by (rule directive_exceeds_encoded_limit_iff)

section \<open>Trusted catalogs\<close>

text \<open>
  A catalog of evidence that is built passes its own check and holds exactly the given bindings; the
  binary search finds an identity exactly when it is bound, with its digest; and the catalog reads back
  from its wire form as itself.
\<close>

theorem evidence_catalog_sound:
  assumes "context_catalog_new env bindings = Inr catalog"
  shows "context_catalog_valid env catalog
    \<and> set (cc_evidence_bindings catalog) = set bindings
    \<and> (contains_evidence catalog x \<longleftrightarrow> x \<in> eb_id ` set bindings)
    \<and> (evidence_content_sha256 catalog x = Some d \<longleftrightarrow> \<lparr>eb_id = x, eb_content_sha256 = d\<rparr> \<in> set bindings)
    \<and> context_catalog_deserialize env catalog = Inr catalog"
  using context_catalog_new_sound[OF assms] context_catalog_deserialize_new[OF assms]
  by (simp add: contains_evidence_iff evidence_content_sha256_iff)

theorem evidence_catalog_sound_witness:
  "contains_evidence toy_context ''f'' \<and> \<not> contains_evidence toy_context ''g''"
proof -
  have built: "context_catalog_new toy_env
      [\<lparr>eb_id = ''f'', eb_content_sha256 = toy_digest\<rparr>, \<lparr>eb_id = ''e'', eb_content_sha256 = toy_digest\<rparr>]
      = Inr toy_context"
    by code_simp
  from evidence_catalog_sound[OF built, of "''f''"] evidence_catalog_sound[OF built, of "''g''"]
  show ?thesis by simp
qed

text \<open>
  A catalog of obligations that is built passes its own check, holds exactly the given obligations, each
  under its own identity and in key order, and is bound to the given acceptance policy.
\<close>

theorem obligation_catalog_sound:
  assumes "obligation_catalog_new env acceptance obs = Inr catalog"
  shows "obligation_catalog_valid env catalog
    \<and> bm_wf (oc_obligations catalog)
    \<and> (\<forall>(k, ob) \<in> set (oc_obligations catalog). ob_id ob = k)
    \<and> set (bm_values (oc_obligations catalog)) = set obs
    \<and> oc_acceptance_policy_sha256 catalog = acceptance"
  using obligation_catalog_new_sound[OF assms] by blast

theorem obligation_catalog_sound_witness: "obligation_catalog_valid toy_env toy_obligations"
proof -
  have "obligation_catalog_new toy_env toy_digest [toy_obligation] = Inr toy_obligations"
    by code_simp
  from obligation_catalog_sound[OF this] show ?thesis by blast
qed

section \<open>The journal of planner attempts\<close>

text \<open>
  C33. In a journal that replays, the records of every attempt are those of its projection in the order of
  the life cycle (prepared, observed, accepted or rejected); each record binds the one before it by its
  digest, each preparation is valid under the trusted inference policy, each decision is the one that
  its observation determines; and no execution and no budget reservation is prepared twice.
\<close>

theorem journal_life_cycles:
  assumes "planner_replay env rs policy = Inr attempts"
  shows "(\<forall>a. attempt_records rs a =
        (case bm_get attempts a of None \<Rightarrow> [] | Some projection \<Rightarrow> projection_records projection))
    \<and> (\<forall>a projection. bm_get attempts a = Some projection \<longrightarrow> projection_ok env policy projection)
    \<and> distinct (map ap_budget_reservation_id (preparations rs))
    \<and> distinct (map ap_execution_id (preparations rs))"
proof -
  from assms obtain st where st: "replay_loop env policy replay_start rs = Inr st" "attempts = rp_attempts st"
    by (auto simp: planner_replay_iff)
  from replay_loop_ok[OF st(1)] show ?thesis
    unfolding journal_state_ok_def st(2) by blast
qed

theorem journal_life_cycles_witness:
  "attempt_records toy_records (PlannerAttemptId 1) = toy_records"
proof -
  obtain attempts where replay: "planner_replay toy_env toy_records toy_inference_policy = Inr attempts"
    using toy_replays by (auto simp: journal_replays_def)
  moreover have "bm_get attempts (PlannerAttemptId 1)
      = Some (ProjectedAccepted toy_prepared toy_observed toy_acceptance)"
    using toy_projected replay by (simp add: record_projected_def)
  ultimately show ?thesis
    using journal_life_cycles[OF replay] by (simp add: toy_records_def)
qed

text \<open>
  C7. A plan that a journal records as accepted is no fabrication: the attempt was prepared under the trusted
  inference policy, the backend's response to it was recorded, its value decodes to a proposal, and the
  recorded turn is what the validation of this proposal makes of the prepared plan.
\<close>

theorem accepted_records_validated:
  assumes "planner_replay env rs policy = Inr attempts" and "RecordAccepted a \<in> set rs"
  shows "\<exists>p ob response proposal. RecordPrepared p \<in> set rs \<and> RecordObserved ob \<in> set rs
    \<and> ap_attempt_id p = aa_attempt_id a \<and> ao_attempt_id ob = aa_attempt_id a
    \<and> ap_inference_policy p = policy
    \<and> ao_observation ob = ObservedResponse response
    \<and> planner_response_violations env response (ap_model_id p) (ap_backend_id p) (ap_backend_instance p)
        (ap_max_output_tokens p) = []
    \<and> pv_proposal_from_value env (sr_value response) = Inr proposal
    \<and> validate_and_apply env proposal (ap_base_plan p) (ap_obligations p) (ap_context p) (ap_policy p)
        = Inr (aa_result a)"
proof -
  from assms(1) obtain st where st: "replay_loop env policy replay_start rs = Inr st"
    by (auto simp: planner_replay_iff)
  from replay_loop_ok[OF st] have ok: "journal_state_ok env policy rs st" .
  obtain p ob where p: "projection_ok env policy (ProjectedAccepted p ob a)"
      "attempt_records rs (aa_attempt_id a) = projection_records (ProjectedAccepted p ob a)"
    by (rule accepted_projection[OF ok assms(2)])
  have "RecordPrepared p \<in> set (attempt_records rs (aa_attempt_id a))"
      "RecordObserved ob \<in> set (attempt_records rs (aa_attempt_id a))"
    by (simp_all add: p(2))
  then have ids: "RecordPrepared p \<in> set rs" "RecordObserved ob \<in> set rs"
      "ap_attempt_id p = aa_attempt_id a" "ao_attempt_id ob = aa_attempt_id a"
    by (auto simp: attempt_records_def)
  have trusted: "ap_inference_policy p = policy"
    using p(1) by (auto simp: prepared_ok_def prepared_is_internally_valid_def result_simps)
  from p(1) have decision: "replay_planner_decision env p ob policy
      = Inr (ReplayedAccepted (aa_proposal_sha256 a) (aa_result a))"
    by simp
  from accepted_decision[OF this] ids trusted show ?thesis by blast
qed

theorem accepted_records_validated_witness:
  "\<exists>proposal. validate_and_apply toy_env proposal (ap_base_plan toy_prepared) (ap_obligations toy_prepared)
     (ap_context toy_prepared) (ap_policy toy_prepared) = Inr toy_turn"
proof -
  obtain attempts where replay: "planner_replay toy_env toy_records toy_inference_policy = Inr attempts"
    using toy_replays by (auto simp: journal_replays_def)
  have "RecordAccepted toy_acceptance \<in> set toy_records" by (simp add: toy_records_def)
  from accepted_records_validated[OF replay this] show ?thesis
    by (auto simp: toy_records_def toy_acceptance_def)
qed

section \<open>The executor\<close>

text \<open>
  C34. An execution has its effects in one order: the preparation is acknowledged, the backend is called with
  the prepared request, the observation is acknowledged, the decision is acknowledged. It may stop after
  any of them but the first (which the call follows at once); it returns a result exactly when all four
  took place, and then its status is the decision that replay makes of the observation. The journal
  gains the acknowledged records and nothing else.
\<close>

theorem execution_effects_ordered:
  assumes "execute env (journal_retain env) backend policy request (j, []) = (x, j', tr)"
  shows "mj_records j' = mj_records j @ retained_records tr
    \<and> (\<exists>p ob digest decision n. tr = take n
          [Retained (RecordPrepared p), Called p (pq_inference (ap_prompt_bundle p)),
           Retained (RecordObserved ob), Retained (decision_record p digest decision)]
      \<and> n \<in> {0, 2, 3, 4}
      \<and> (n > 0 \<longrightarrow> prepare_attempt env backend policy request = Inr p)
      \<and> (n > 2 \<longrightarrow> observe_attempt env request p
            (observation_of (pb_infer_structured backend (pq_inference (ap_prompt_bundle p)))) = Inr ob)
      \<and> (n > 3 \<longrightarrow> observed_sha256 env ob = Inr digest
            \<and> replay_planner_decision env p ob policy = Inr decision)
      \<and> (if n = 4 then x = Inr \<lparr>xn_prepared = p, xn_observed = ob, xn_status = decision_status decision\<rparr>
         else \<exists>e. x = Inl e))"
  using memory_journal.execute_effects(1,3)[OF assms]
  unfolding effects_ok_def execution_effects_def by (rule conjI)

theorem execution_effects_ordered_witness:
  "mj_records (fst (snd (execute toy_env (journal_retain toy_env) toy_backend toy_inference_policy toy_request
       (toy_empty_journal, [])))) = toy_records"
proof -
  let ?r = "execute toy_env (journal_retain toy_env) toy_backend toy_inference_policy toy_request
    (toy_empty_journal, [])"
  have "?r = (fst ?r, fst (snd ?r), snd (snd ?r))" by simp
  from execution_effects_ordered[OF this] show ?thesis
    unfolding toy_execution by (auto simp: toy_empty_journal_def execution_effects_def toy_records_def
        toy_acceptance_def toy_prepared_ids)
qed

text \<open>
  C4. However executors that share a journal interleave, and wherever any of them stops, the backend is
  called at most once for an execution and at most once for a budget reservation, never for one that was
  already prepared when they started, and only after the journal acknowledged the preparation whose
  request is sent.
\<close>

theorem backend_called_once:
  assumes "executors env (journal_retain env) backends policy j0 phases j tr"
  shows "distinct (map ap_execution_id (called_preparations tr))
    \<and> distinct (map ap_budget_reservation_id (called_preparations tr))
    \<and> ap_budget_reservation_id ` set (called_preparations tr)
        \<inter> ap_budget_reservation_id ` set (preparations (mj_records j0)) = {}
    \<and> calls_prepared tr
    \<and> mj_records j = mj_records j0 @ retained_records tr"
proof -
  note once = memory_journal.executors_call_once[OF assms]
  have e: "distinct (map ap_execution_id (preparations (mj_records j0) @ called_preparations tr))
      \<or> called_preparations tr = []"
    by (rule once) (use journal_replays_distinct in blast)
  have b: "distinct (map ap_budget_reservation_id (preparations (mj_records j0) @ called_preparations tr))
      \<or> called_preparations tr = []"
    by (rule once) (use journal_replays_distinct in blast)
  from e b memory_journal.executors_invariant[OF assms] show ?thesis by auto
qed

theorem backend_called_once_witness:
  "calls_prepared [Retained (RecordPrepared toy_prepared), Called toy_prepared (pq_inference toy_bundle)]"
proof -
  let ?run = "executors toy_env (journal_retain toy_env) (\<lambda>_. toy_backend) toy_inference_policy toy_empty_journal"
  have "?run [Requested toy_request] toy_empty_journal []"
    using executors_submit[OF executors_start, of toy_env "journal_retain toy_env" "\<lambda>_. toy_backend"
        toy_inference_policy toy_empty_journal toy_request] by simp
  from executors_step[OF this, of 0] have "?run [Acknowledged toy_request toy_prepared] toy_journal1
      [Retained (RecordPrepared toy_prepared)]"
    by (simp add: toy_step1)
  from executors_step[OF this, of 0] have "?run [Answered toy_request toy_prepared (Inr toy_response)] toy_journal1
      [Retained (RecordPrepared toy_prepared), Called toy_prepared (pq_inference toy_bundle)]"
    by (simp add: execution_step_def exec_infer_def toy_fields)
  from backend_called_once[OF this] show ?thesis by blast
qed

text \<open>
  C8. An execution succeeds: with serializers that do not fail, when its preparation passes and names no
  parent, and the in-memory journal replays, is not poisoned, has room for three records and none for
  this attempt, execution or reservation, then it returns the decision on the backend's answer, whatever
  the answer is, with its four effects; and the journal replays to that decision for this attempt.
\<close>

theorem execution_completes:
  assumes "journal_replays env policy (mj_records j)" "\<not> mj_poisoned j"
    and "length (mj_records j) + 3 \<le> HARD_MAX_ACTIVE_JOURNAL_RECORDS"
    and "prepare_attempt env backend policy request = Inr p" "xr_parent_attempt_id request = None"
    and "fresh_request (mj_records j) request"
    and "\<forall>p. \<exists>bytes. je_prepared_json env p = Inr bytes" "\<forall>ob. \<exists>bytes. je_observed_json env ob = Inr bytes"
      "\<forall>proposal. \<exists>bytes. je_proposal_json env proposal = Inr bytes"
  shows "\<exists>ob digest decision. replay_planner_decision env p ob policy = Inr decision
    \<and> ao_observation ob = observation_of (pb_infer_structured backend (pq_inference (xr_prompt_bundle request)))
    \<and> execute env (journal_retain env) backend policy request (j, []) =
        (Inr \<lparr>xn_prepared = p, xn_observed = ob, xn_status = decision_status decision\<rparr>,
         j\<lparr>mj_records := mj_records j
           @ [RecordPrepared p, RecordObserved ob, decision_record p digest decision]\<rparr>,
         execution_effects p ob digest decision)
    \<and> record_projected env policy
        (mj_records j @ [RecordPrepared p, RecordObserved ob, decision_record p digest decision])
        (xr_attempt_id request) = Some (decided_projection p ob (decision_record p digest decision))"
proof -
  let ?answer = "observation_of (pb_infer_structured backend (pq_inference (xr_prompt_bundle request)))"
  obtain ob where ob: "observe_attempt env request p ?answer = Inr ob" "ao_observation ob = ?answer"
    using assms(7) by (rule observe_attempt_returns)
  obtain digest where digest: "observed_sha256 env ob = Inr digest"
    using assms(8) by (rule observed_sha256_returns)
  obtain decision where decision: "replay_planner_decision env p ob policy = Inr decision"
    using assms(9) by (rule replay_decision_returns)
  from execute_completes[OF assms(1-6) ob(1) digest decision]
    execution_records_replay(4)[OF assms(1,3-6) ob(1) digest decision] ob(2) decision
  show ?thesis by blast
qed

theorem execution_completes_witness:
  "\<exists>n tr. execute toy_env (journal_retain toy_env) toy_backend toy_inference_policy toy_request
       (toy_empty_journal, []) = (Inr n, tr)"
proof -
  have "fresh_request (mj_records toy_empty_journal) toy_request"
    by (simp add: fresh_request_def toy_empty_journal_def)
  moreover have "\<forall>p. \<exists>bytes. je_prepared_json toy_env p = Inr bytes" "\<forall>ob. \<exists>bytes. je_observed_json toy_env ob = Inr bytes"
      "\<forall>proposal. \<exists>bytes. je_proposal_json toy_env proposal = Inr bytes"
    by (simp_all add: toy_env_def)
  ultimately show ?thesis
    using execution_completes[OF _ _ _ toy_prepare toy_fields(6), of toy_empty_journal] toy_journal_replays
    by (auto simp: toy_empty_journal_def plan_limit_defs)
qed

end
