(* ===== verification/Entry_Maps.thy ===== *)
theory Entry_Maps
  imports Prelude
begin

text \<open>
  Two ways in which the source fills a \<open>BTreeMap\<close> through its \<open>entry\<close> interface: counting occurrences,
  \<open>*counts.entry(key).or_default() += 1\<close>, and keeping the first value of each key,
  \<open>entry(key).or_insert(value)\<close>. A count never exceeds the number of keys, so the addition on \<open>usize\<close>
  does not overflow and the counts are natural numbers.
\<close>

definition count_entry :: "'k::linorder \<Rightarrow> ('k, nat) btree_map \<Rightarrow> ('k, nat) btree_map" where
  "count_entry k m = bm_insert k (Suc (case bm_get m k of None \<Rightarrow> 0 | Some n \<Rightarrow> n)) m"

definition entry_counts :: "'k::linorder list \<Rightarrow> ('k, nat) btree_map" where
  "entry_counts ks = fold count_entry ks []"

definition first_entry :: "'k::linorder \<times> 'v \<Rightarrow> ('k, 'v) btree_map \<Rightarrow> ('k, 'v) btree_map" where
  "first_entry kv m = (if bm_contains_key m (fst kv) then m else bm_insert (fst kv) (snd kv) m)"

definition first_entries :: "('k::linorder \<times> 'v) list \<Rightarrow> ('k, 'v) btree_map" where
  "first_entries kvs = fold first_entry kvs []"

lemma count_entry_get:
  "bm_get (fold count_entry ks m) k =
     (if k \<in> set ks then Some (count_list ks k + (case bm_get m k of None \<Rightarrow> 0 | Some n \<Rightarrow> n))
      else bm_get m k)"
  by (induction ks arbitrary: m) (auto simp: count_entry_def count_notin split: option.splits)

lemma entry_counts_get:
  "bm_get (entry_counts ks) k = (if k \<in> set ks then Some (count_list ks k) else None)"
  by (simp add: entry_counts_def count_entry_get)

lemma entry_counts_wf: "bm_wf (entry_counts ks)"
proof -
  have "bm_wf m \<Longrightarrow> bm_wf (fold count_entry ks m)" for m
    by (induction ks arbitrary: m) (simp_all add: count_entry_def)
  then show ?thesis by (simp add: entry_counts_def)
qed

lemma entry_counts_set: "(k, n) \<in> set (entry_counts ks) \<longleftrightarrow> k \<in> set ks \<and> n = count_list ks k"
  by (auto simp: entry_counts_get simp flip: bm_get_iff_in_set[OF entry_counts_wf] split: if_splits)

lemma distinct_iff_counts: "distinct ks \<longleftrightarrow> (\<forall>k \<in> set ks. count_list ks k = 1)"
proof (induction ks)
  case (Cons a ks)
  show ?case
  proof (cases "a \<in> set ks")
    case True
    then have "count_list ks a > 0" by (metis count_list_0_iff gr0I)
    with True show ?thesis by auto
  next
    case False
    then have "count_list ks a = 0" by simp
    moreover have "k \<noteq> a" if "k \<in> set ks" for k
      using that False by auto
    ultimately show ?thesis
      using Cons False by auto
  qed
qed simp

lemma distinct_iff_none_repeated: "distinct ks \<longleftrightarrow> (\<forall>k \<in> set ks. \<not> 1 < count_list ks k)"
proof -
  have "\<not> 1 < count_list ks k \<longleftrightarrow> count_list ks k = 1" if "k \<in> set ks" for k
    using that count_list_0_iff[of ks k] by linarith
  then show ?thesis
    by (auto simp: distinct_iff_counts)
qed

text \<open>No key is reported as occurring more than once exactly when the keys are distinct.\<close>

lemma no_repeated_entry: "(\<forall>(k, n) \<in> set (entry_counts ks). \<not> 1 < n) \<longleftrightarrow> distinct ks"
  unfolding distinct_iff_none_repeated by (fastforce simp: entry_counts_set)

lemma first_entry_get:
  "bm_get (fold first_entry kvs m) k = (case bm_get m k of Some v \<Rightarrow> Some v | None \<Rightarrow> map_of kvs k)"
  by (induction kvs arbitrary: m)
    (auto simp: first_entry_def bm_contains_key_def split: option.splits)

lemma first_entries_get: "bm_get (first_entries kvs) k = map_of kvs k"
  by (simp add: first_entries_def first_entry_get)

lemma first_entries_wf: "bm_wf (first_entries kvs)"
proof -
  have "bm_wf m \<Longrightarrow> bm_wf (fold first_entry kvs m)" for m
    by (induction kvs arbitrary: m) (simp_all add: first_entry_def)
  then show ?thesis by (simp add: first_entries_def)
qed

lemma first_entries_contains: "bm_contains_key (first_entries kvs) k \<longleftrightarrow> k \<in> fst ` set kvs"
  by (metis bm_contains_key_def first_entries_get map_of_eq_None_iff)

lemma first_entries_distinct:
  assumes "distinct (map fst kvs)" "(k, v) \<in> set kvs"
  shows "bm_get (first_entries kvs) k = Some v"
  using assms by (simp add: first_entries_get)

text \<open>\<open>u32::try_from(value).unwrap_or(u32::MAX)\<close>\<close>

definition wire_u32 :: "nat \<Rightarrow> u32" where
  "wire_u32 value = of_nat (min value (2 ^ 32 - 1))"

lemma unat_wire_u32: "unat (wire_u32 n) = min n (2 ^ 32 - 1)"
  by (simp add: wire_u32_def unat_of_nat)

lemma enumerate0_iff: "(i, x) \<in> set (enumerate0 xs) \<longleftrightarrow> i < length xs \<and> x = xs ! i"
  by (auto simp: enumerate0_def set_zip intro!: exI[of _ i])

text \<open>A pass over an enumerated list that reports nothing.\<close>

lemma concat_enumerate0_Nil:
  assumes "\<And>i x. f (i, x) = [] \<longleftrightarrow> P x"
  shows "concat (map f (enumerate0 xs)) = [] \<longleftrightarrow> (\<forall>x \<in> set xs. P x)"
proof -
  have "concat (map f (enumerate0 xs)) = [] \<longleftrightarrow> (\<forall>p \<in> set (enumerate0 xs). P (snd p))"
    using assms by (auto simp: split_paired_all)
  also have "\<dots> \<longleftrightarrow> (\<forall>x \<in> snd ` set (enumerate0 xs). P x)"
    by simp
  finally show ?thesis
    by (simp add: snd_set_enumerate0)
qed

text \<open>Walks that keep the first occurrence of each element, as \<open>seen.insert(x)\<close> inside a loop does.\<close>

fun first_occurrences :: "'a::linorder btree_set \<Rightarrow> 'a list \<Rightarrow> 'a list" where
  "first_occurrences seen [] = []"
| "first_occurrences seen (x # xs) =
     (if bs_contains seen x then first_occurrences seen xs
      else x # first_occurrences (bs_insert x seen) xs)"

lemma set_first_occurrences: "set (first_occurrences seen xs) = set xs - set seen"
  by (induction seen xs rule: first_occurrences.induct) (auto simp: bs_contains_def)

lemma distinct_first_occurrences: "distinct (first_occurrences seen xs)"
  by (induction seen xs rule: first_occurrences.induct)
    (auto simp: set_first_occurrences bs_contains_def)

section \<open>Graphs given by first entries\<close>

text \<open>
  A list of nodes with dependencies as a map: when the names are distinct and every dependency is
  known, the edges of the map are those of the list.
\<close>

definition named_relation :: "('x \<Rightarrow> 'k) \<Rightarrow> ('x \<Rightarrow> 'k list) \<Rightarrow> 'x list \<Rightarrow> ('k \<times> 'k) set" where
  "named_relation name dependencies xs = {(name x, d) | x d. x \<in> set xs \<and> d \<in> set (dependencies x)}"

lemma first_entries_edges:
  fixes name :: "'x \<Rightarrow> 'k::linorder"
  assumes "distinct (map name xs)" and "\<And>x. x \<in> set xs \<Longrightarrow> set (dependencies x) \<subseteq> name ` set xs"
  defines "m \<equiv> first_entries (map (\<lambda>x. (name x, x)) xs)"
  shows "{(a, b). b \<in> set (case bm_get m a of None \<Rightarrow> [] | Some x \<Rightarrow> dependencies x) \<and> b \<in> set (bm_keys m)}
    = named_relation name dependencies xs" (is "?edges = _")
proof -
  have lookup: "bm_get m a = Some x \<longleftrightarrow> x \<in> set xs \<and> name x = a" for a x
  proof -
    have "distinct (map fst (map (\<lambda>x. (name x, x)) xs))"
      using assms(1) by (simp add: comp_def)
    then show ?thesis
      by (auto simp: m_def first_entries_get map_of_eq_Some_iff simp del: map_map)
  qed
  have known: "b \<in> set (bm_keys m) \<longleftrightarrow> b \<in> name ` set xs" for b
    by (simp add: m_def first_entries_contains image_image flip: bm_contains_key_iff)
  have "(a, b) \<in> ?edges \<longleftrightarrow> (a, b) \<in> named_relation name dependencies xs" for a b
  proof (cases "bm_get m a")
    case None
    then have "a \<notin> name ` set xs" using lookup by (metis imageE not_None_eq)
    with None show ?thesis
      by (auto simp: named_relation_def)
  next
    case (Some x)
    then have x: "x \<in> set xs" "name x = a" by (simp_all add: lookup)
    have "x' = x" if "x' \<in> set xs" "name x' = a" for x'
      using lookup[of a x'] Some that by simp
    then have "(a, b) \<in> named_relation name dependencies xs \<longleftrightarrow> b \<in> set (dependencies x)"
      using x unfolding named_relation_def by blast
    moreover have "(a, b) \<in> ?edges \<longleftrightarrow> b \<in> set (dependencies x)"
      using Some assms(2)[OF x(1)] by (auto simp: known)
    ultimately show ?thesis by blast
  qed
  then show ?thesis by auto
qed

end
