(* ===== verification/Canonical_Json.thy ===== *)
theory Canonical_Json
  imports Prompt_Types Entry_Maps "HOL-Library.Multiset"
begin

text \<open>
  \<open>crates/prompting/src/canonical.rs\<close>: the canonical compact encoding of a JSON value, with the entries
  of an object in key order, and its digest. The environment \<open>registry_env\<close> holds the third-party
  code that the prompt registry uses: the scalar serializer and the text of \<open>serde_json\<close>, the validator
  of the crate \<open>jsonschema\<close>, the order and the text of versions of the crate \<open>semver\<close>, RFC 6901 pointers,
  and the deserializers that \<open>serde\<close> derives.
\<close>

record registry_env = backend_env +
  rg_scalar_text :: "json_value \<Rightarrow> string + string"
  rg_value_text :: "json_value \<Rightarrow> string"
  rg_document :: "u8 list \<Rightarrow> string + json_value"
  rg_validator_for :: "json_value \<Rightarrow> string + (json_value \<Rightarrow> string list)"
  rg_version_le :: "Version \<Rightarrow> Version \<Rightarrow> bool"
  rg_version_text :: "Version \<Rightarrow> string"
  rg_pointer :: "json_value \<Rightarrow> string \<Rightarrow> json_value option"
  rg_meta_schema :: "string + json_value"

section \<open>Encoding\<close>

text \<open>The texts of the elements, separated by commas; the first error ends the encoding.\<close>

fun join_comma :: "(string + string) list \<Rightarrow> string + string" where
  "join_comma [] = Inr []"
| "join_comma [r] = r"
| "join_comma (r # rs) =
     and_then r (\<lambda>s. and_then (join_comma rs) (\<lambda>rest. Inr (s @ '','' @ rest)))"

lemma entry_size: "(k, v) \<in> set es \<Longrightarrow> size v < size (JObject es)"
  by (induction es) auto

lemma element_size: "v \<in> set vs \<Longrightarrow> size v < size (JArray vs)"
  by (induction vs) auto

function canonical_encode :: "('a) registry_env_scheme \<Rightarrow> json_value \<Rightarrow> string + string" where
  "canonical_encode env (JArray values) =
     and_then (join_comma (map (canonical_encode env) values)) (\<lambda>s. Inr (''['' @ s @ '']''))"
| "canonical_encode env (JObject values) =
     and_then (join_comma (map snd (sort_key fst (map (\<lambda>(key, value). (key,
         and_then (rg_scalar_text env (JString key)) (\<lambda>k.
         and_then (canonical_encode env value) (\<lambda>v. Inr (k @ '':'' @ v))))) values))))
       (\<lambda>s. Inr (''{'' @ s @ ''}''))"
| "canonical_encode env JNull = rg_scalar_text env JNull"
| "canonical_encode env (JBool b) = rg_scalar_text env (JBool b)"
| "canonical_encode env (JNumber n) = rg_scalar_text env (JNumber n)"
| "canonical_encode env (JString s) = rg_scalar_text env (JString s)"
  by pat_completeness auto
termination
  by (relation "measure (size \<circ> snd)") (auto dest: entry_size element_size simp: less_Suc_eq_le)

text \<open>\<open>canonical_sha256\<close>: the digest of the canonical encoding.\<close>

definition canonical_sha256 :: "('a) registry_env_scheme \<Rightarrow> json_value \<Rightarrow> string + string" where
  "canonical_sha256 env value =
     and_then (canonical_encode env value) (\<lambda>canonical. Inr (encode_sha256 env (str_bytes canonical)))"

section \<open>The encoding does not depend on the order of entries\<close>

lemma sort_key_permuted:
  assumes "distinct (map fst xs)" "mset xs = mset ys"
  shows "sort_key fst xs = sort_key fst ys"
proof (rule map_sorted_distinct_set_unique[of fst])
  have same: "set xs = set ys"
    by (rule mset_eq_setD[OF assms(2)])
  then show "inj_on fst (set (sort_key fst xs) \<union> set (sort_key fst ys))"
    using assms(1) by (simp add: distinct_map)
  from same show "set (sort_key fst xs) = set (sort_key fst ys)" by simp
  have "mset (map fst xs) = mset (map fst ys)"
    using assms(2) by simp
  with assms(1) have "distinct (map fst ys)"
    using mset_eq_imp_distinct_iff by blast
  moreover have "distinct (map fst (sort_key fst zs)) = distinct (map fst zs)" for zs :: "('a \<times> 'b) list"
    by (intro mset_eq_imp_distinct_iff) simp
  ultimately show "distinct (map fst (sort_key fst xs))" "distinct (map fst (sort_key fst ys))"
    using assms(1) by blast+
qed simp_all

lemma canonical_object_permuted:
  assumes "distinct (map fst es)" "mset es = mset es'"
  shows "canonical_encode env (JObject es) = canonical_encode env (JObject es')"
proof -
  let ?f = "\<lambda>(key, value). (key, and_then (rg_scalar_text env (JString key)) (\<lambda>k.
         and_then (canonical_encode env value) (\<lambda>v. Inr (k @ '':'' @ v))))"
  have keys: "map fst (map ?f es) = map fst es"
    by (induction es) auto
  have "distinct (map fst (map ?f es))"
    unfolding keys by (rule assms(1))
  then have "sort_key fst (map ?f es) = sort_key fst (map ?f es')"
    by (rule sort_key_permuted) (use assms(2) in simp)
  then show ?thesis by simp
qed

end
