(* ===== verification/Prompt_Root_Planner.thy ===== *)
theory Prompt_Root_Planner
  imports Canonical_Json Dependency_Search
begin

text \<open>
  The root planner's output contract, \<open>crates/prompting/src/root_planner.rs\<close>: protected obligations and
  the runtime-owned policy, both bound to digests of their content, the plan that a model proposes, and
  the pass that collects every mechanical violation. Names that the planner of
  \<open>crates/orchestrator/src/planner.rs\<close> also uses carry the prefix \<open>Root\<close>.
\<close>

section \<open>Data\<close>

definition MAX_POLICY_OBLIGATIONS :: nat where
  "MAX_POLICY_OBLIGATIONS = 32"

definition MAX_OBLIGATION_ID_CHARACTERS :: nat where
  "MAX_OBLIGATION_ID_CHARACTERS = 128"

definition MAX_OBLIGATION_STATEMENT_CHARACTERS :: nat where
  "MAX_OBLIGATION_STATEMENT_CHARACTERS = 4000"

definition MAX_EVIDENCE_REQUIREMENTS :: nat where
  "MAX_EVIDENCE_REQUIREMENTS = 8"

definition MAX_EVIDENCE_REQUIREMENT_CHARACTERS :: nat where
  "MAX_EVIDENCE_REQUIREMENT_CHARACTERS = 1000"

definition MAX_ALLOWED_VERIFICATION_KINDS :: nat where
  "MAX_ALLOWED_VERIFICATION_KINDS = 4"

definition MAX_POLICY_WORK_ORDERS :: u32 where
  "MAX_POLICY_WORK_ORDERS = 16"

definition MAX_POLICY_DEPENDENCY_REFERENCES :: u32 where
  "MAX_POLICY_DEPENDENCY_REFERENCES = 32"

definition MAX_POLICY_VERIFICATION_TARGETS :: u32 where
  "MAX_POLICY_VERIFICATION_TARGETS = 32"

datatype RootPlannerDirective = RootPlan | RootClarify | RootEscalate

datatype RootVerificationKind = RepositoryTree | RepositoryFile | RepositorySearch | ExistingEvidence

fun verification_rank :: "RootVerificationKind \<Rightarrow> nat" where
  "verification_rank RepositoryTree = 0"
| "verification_rank RepositoryFile = 1"
| "verification_rank RepositorySearch = 2"
| "verification_rank ExistingEvidence = 3"

instantiation RootVerificationKind :: linorder
begin

definition less_eq_RootVerificationKind :: "RootVerificationKind \<Rightarrow> RootVerificationKind \<Rightarrow> bool" where
  "less_eq_RootVerificationKind a b = (verification_rank a \<le> verification_rank b)"

definition less_RootVerificationKind :: "RootVerificationKind \<Rightarrow> RootVerificationKind \<Rightarrow> bool" where
  "less_RootVerificationKind a b = (verification_rank a < verification_rank b)"

instance
proof
  fix a b :: RootVerificationKind
  show "a \<le> b \<Longrightarrow> b \<le> a \<Longrightarrow> a = b"
    by (cases a; cases b) (simp_all add: less_eq_RootVerificationKind_def)
qed (auto simp: less_eq_RootVerificationKind_def less_RootVerificationKind_def)

end

text \<open>A reference to an obligation is ordered by its identity and then its digest.\<close>

type_synonym RootObligationRef = "string \<times> string"

record RootDecisionEvidence =
  rde_section :: string
  rde_basis :: string

record RootVerificationTarget =
  rvt_kind :: RootVerificationKind
  rvt_selector :: string
  rvt_question :: string
  rvt_obligation_refs :: "RootObligationRef list"

record RootPlannerWorkOrder =
  rwo_local_id :: string
  rwo_objective :: string
  rwo_obligation_refs :: "RootObligationRef list"
  rwo_depends_on :: "string list"
  rwo_proposed_verification_targets :: "RootVerificationTarget list"

record RootEscalationRequest =
  rer_reason :: string
  rer_blocked_obligation_refs :: "RootObligationRef list"
  rer_requested_decision :: string

record RootPlannerOutput =
  rpo_schema_version :: u32
  rpo_root_snapshot_sha256 :: string
  rpo_planner_policy_sha256 :: string
  rpo_context_manifest_sha256 :: string
  rpo_directive :: RootPlannerDirective
  rpo_rationale :: string
  rpo_decision_evidence :: "RootDecisionEvidence list"
  rpo_work_orders :: "RootPlannerWorkOrder list"
  rpo_clarification_questions :: "string list"
  rpo_escalation_requests :: "RootEscalationRequest list"

record RootProtectedObligation =
  rbo_obligation_id :: string
  rbo_obligation_sha256 :: string
  rbo_statement :: string
  rbo_mandatory :: bool
  rbo_evidence_requirements :: "string list"

record RootPlannerPolicy =
  rpp_root_snapshot_sha256 :: string
  rpp_planner_policy_sha256 :: string
  rpp_context_manifest_sha256 :: string
  rpp_obligations :: "RootProtectedObligation list"
  rpp_allowed_verification_kinds :: "RootVerificationKind list"
  rpp_max_work_orders :: u32
  rpp_max_dependency_references :: u32
  rpp_max_verification_targets :: u32

section \<open>Violations\<close>

datatype (plugins only: code) RootObligationViolation =
    RootEmptyObligationId
  | RootObligationIdTooLong u32 u32
  | RootEmptyStatement
  | RootStatementTooLong u32 u32
  | RootEvidenceRequirementCount u32 u32 u32
  | RootEmptyEvidenceRequirement u32
  | RootEvidenceRequirementTooLong u32 u32 u32
  | RootInvalidObligationSha256 string
  | RootObligationSha256Mismatch string string
  | RootObligationEncoding string

datatype (plugins only: code) RootPlannerPolicyViolation =
    RootInvalidRootSnapshotSha256 string
  | RootInvalidPlannerPolicySha256 string
  | RootInvalidContextManifestSha256 string
  | RootObligationCount u32 u32 u32
  | RootObligationDefect u32 RootObligationViolation
  | RootDuplicateObligationId string u32
  | RootDuplicateObligationReference string string u32
  | RootAllowedVerificationKindCount u32 u32 u32
  | RootDuplicateAllowedVerificationKind RootVerificationKind u32
  | RootMaxWorkOrdersOutOfRange u32 u32 u32
  | RootMaxDependencyReferencesOutOfRange u32 u32
  | RootMaxVerificationTargetsOutOfRange u32 u32
  | RootPlannerPolicySha256Mismatch string string
  | RootPolicyEncoding string

datatype RootDigestField = RootSnapshotSha256 | PlannerPolicySha256 | ContextManifestSha256

datatype RootReferenceSite =
    SiteWorkOrder u32 u32
  | SiteVerificationTarget u32 u32 u32
  | SiteEscalationRequest u32 u32

datatype (plugins only: code) RootPlannerInvariantViolation =
    RootTypedOutputDecode string
  | RootPolicyConstraintCount u32
  | RootPolicyConstraintName string
  | RootPolicyDecode string
  | RootPolicyIntegrity RootPlannerPolicyViolation
  | RootDuplicatePolicyObligationId string u32
  | RootDuplicatePolicyObligationReference string string u32
  | RootDuplicatePolicyVerificationKind RootVerificationKind u32
  | RootSchemaVersion u32 u32
  | RootDigestMismatch RootDigestField string string
  | RootDirectiveShape RootPlannerDirective u32 u32 u32
  | RootTooManyWorkOrders u32 u32
  | RootTooManyDependencyReferences u32 u32
  | RootTooManyVerificationTargets u32 u32
  | RootUnknownEvidenceSection u32 string
  | RootDuplicateEvidenceSection string u32
  | RootUserSectionCount u32
  | RootUserEvidenceCitationCount string u32
  | RootDuplicateLocalId string u32
  | RootSelfDependency string
  | RootUnknownDependency string string
  | RootDependencyCycle
  | RootUnknownObligationReference RootReferenceSite string string
  | RootObligationDigestMismatch RootReferenceSite string string string
  | RootMandatoryObligationUncovered string string
  | RootVerificationKindNotAllowed u32 u32 RootVerificationKind

section \<open>Obligations\<close>

definition obligation_structure_violations ::
  "RootProtectedObligation \<Rightarrow> RootObligationViolation list" where
  "obligation_structure_violations obligation =
     (let id_characters = chars_count (rbo_obligation_id obligation);
          statement_characters = chars_count (rbo_statement obligation);
          evidence_count = length (rbo_evidence_requirements obligation) in
      (if id_characters = 0 then [RootEmptyObligationId]
       else report (id_characters > MAX_OBLIGATION_ID_CHARACTERS)
         (RootObligationIdTooLong (wire_u32 MAX_OBLIGATION_ID_CHARACTERS) (wire_u32 id_characters)))
      @ (if statement_characters = 0 then [RootEmptyStatement]
         else report (statement_characters > MAX_OBLIGATION_STATEMENT_CHARACTERS)
           (RootStatementTooLong (wire_u32 MAX_OBLIGATION_STATEMENT_CHARACTERS)
             (wire_u32 statement_characters)))
      @ report (\<not> (1 \<le> evidence_count \<and> evidence_count \<le> MAX_EVIDENCE_REQUIREMENTS))
          (RootEvidenceRequirementCount 1 (wire_u32 MAX_EVIDENCE_REQUIREMENTS) (wire_u32 evidence_count))
      @ concat (map (\<lambda>(index, requirement).
          (let characters = chars_count requirement in
           if characters = 0 then [RootEmptyEvidenceRequirement (wire_u32 index)]
           else report (characters > MAX_EVIDENCE_REQUIREMENT_CHARACTERS)
             (RootEvidenceRequirementTooLong (wire_u32 index)
               (wire_u32 MAX_EVIDENCE_REQUIREMENT_CHARACTERS) (wire_u32 characters))))
          (enumerate0 (rbo_evidence_requirements obligation))))"

text \<open>The values that are hashed, as \<open>serde\<close> serializes their fields.\<close>

definition obligation_hash_material :: "RootProtectedObligation \<Rightarrow> json_value" where
  "obligation_hash_material obligation = json_object
     [(''obligation_id'', JString (rbo_obligation_id obligation)),
      (''statement'', JString (rbo_statement obligation)),
      (''mandatory'', JBool (rbo_mandatory obligation)),
      (''evidence_requirements'', JArray (map JString (rbo_evidence_requirements obligation)))]"

definition obligation_content_sha256 ::
  "('a) registry_env_scheme \<Rightarrow> RootProtectedObligation \<Rightarrow> string + string" where
  "obligation_content_sha256 env obligation = canonical_sha256 env (obligation_hash_material obligation)"

definition digest_violations ::
  "string + string \<Rightarrow> string \<Rightarrow> (string \<Rightarrow> string \<Rightarrow> 'v) \<Rightarrow> (string \<Rightarrow> 'v) \<Rightarrow> 'v list" where
  "digest_violations computed actual mismatch encoding =
     (case computed of
        Inr expected \<Rightarrow> report (expected \<noteq> actual) (mismatch expected actual)
      | Inl message \<Rightarrow> [encoding message])"

definition obligation_integrity_violations ::
  "('a) registry_env_scheme \<Rightarrow> RootProtectedObligation \<Rightarrow> RootObligationViolation list" where
  "obligation_integrity_violations env obligation =
     obligation_structure_violations obligation
     @ report (\<not> valid_sha256 (rbo_obligation_sha256 obligation))
         (RootInvalidObligationSha256 (rbo_obligation_sha256 obligation))
     @ digest_violations (obligation_content_sha256 env obligation) (rbo_obligation_sha256 obligation)
         RootObligationSha256Mismatch RootObligationEncoding"

definition root_obligation_new ::
  "('a) registry_env_scheme \<Rightarrow> string \<Rightarrow> string \<Rightarrow> bool \<Rightarrow> string list
     \<Rightarrow> RootObligationViolation list + RootProtectedObligation" where
  "root_obligation_new env obligation_id statement mandatory evidence_requirements =
     (let obligation = \<lparr>rbo_obligation_id = obligation_id, rbo_obligation_sha256 = [],
            rbo_statement = statement, rbo_mandatory = mandatory,
            rbo_evidence_requirements = evidence_requirements\<rparr>;
          violations = obligation_structure_violations obligation in
      if violations \<noteq> [] then Inl violations
      else and_then (map_err (\<lambda>message. [RootObligationEncoding message])
             (obligation_content_sha256 env obligation)) (\<lambda>digest.
           Inr (obligation\<lparr>rbo_obligation_sha256 := digest\<rparr>)))"

definition root_obligation_validate ::
  "('a) registry_env_scheme \<Rightarrow> RootProtectedObligation \<Rightarrow> RootObligationViolation list + unit" where
  "root_obligation_validate env self =
     (let violations = obligation_integrity_violations env self in
      if violations = [] then Inr () else Inl violations)"

definition obligation_reference :: "RootProtectedObligation \<Rightarrow> RootObligationRef" where
  "obligation_reference self = (rbo_obligation_id self, rbo_obligation_sha256 self)"

section \<open>Policies\<close>

definition repeated_entries :: "('k::linorder) list \<Rightarrow> ('k \<Rightarrow> u32 \<Rightarrow> 'v) \<Rightarrow> 'v list" where
  "repeated_entries ks violation =
     concat (map (\<lambda>(k, occurrences). report (occurrences > 1) (violation k (wire_u32 occurrences)))
       (entry_counts ks))"

lemma repeated_entries_Nil [simp]: "repeated_entries ks violation = [] \<longleftrightarrow> distinct ks"
  unfolding repeated_entries_def concat_map_Nil_iff
  by (subst no_repeated_entry[symmetric]) (auto split: prod.splits)

end
