(* ===== verification/Root_Planner_Checks.thy ===== *)
theory Root_Planner_Checks
  imports Prompt_Root_Planner "HOL-Library.Product_Lexorder"
begin

text \<open>
  The second part of \<open>crates/prompting/src/root_planner.rs\<close>: the policy with its digest over all other
  fields, and the collecting pass over a proposed plan.
\<close>

section \<open>Policies\<close>

definition policy_structure_violations ::
  "('a) registry_env_scheme \<Rightarrow> RootPlannerPolicy \<Rightarrow> RootPlannerPolicyViolation list" where
  "policy_structure_violations env policy =
     (let obligation_count = length (rpp_obligations policy);
          kind_count = length (rpp_allowed_verification_kinds policy) in
      report (\<not> valid_sha256 (rpp_root_snapshot_sha256 policy))
        (RootInvalidRootSnapshotSha256 (rpp_root_snapshot_sha256 policy))
      @ report (\<not> valid_sha256 (rpp_context_manifest_sha256 policy))
          (RootInvalidContextManifestSha256 (rpp_context_manifest_sha256 policy))
      @ report (\<not> (1 \<le> obligation_count \<and> obligation_count \<le> MAX_POLICY_OBLIGATIONS))
          (RootObligationCount 1 (wire_u32 MAX_POLICY_OBLIGATIONS) (wire_u32 obligation_count))
      @ concat (map (\<lambda>(index, obligation).
          map (RootObligationDefect (wire_u32 index)) (obligation_integrity_violations env obligation))
          (enumerate0 (rpp_obligations policy)))
      @ repeated_entries (map rbo_obligation_id (rpp_obligations policy)) RootDuplicateObligationId
      @ repeated_entries (map obligation_reference (rpp_obligations policy))
          (\<lambda>(obligation_id, obligation_sha256). RootDuplicateObligationReference obligation_id obligation_sha256)
      @ report (\<not> (1 \<le> kind_count \<and> kind_count \<le> MAX_ALLOWED_VERIFICATION_KINDS))
          (RootAllowedVerificationKindCount 1 (wire_u32 MAX_ALLOWED_VERIFICATION_KINDS)
            (wire_u32 kind_count))
      @ repeated_entries (rpp_allowed_verification_kinds policy) RootDuplicateAllowedVerificationKind
      @ report (\<not> (1 \<le> rpp_max_work_orders policy \<and> rpp_max_work_orders policy \<le> MAX_POLICY_WORK_ORDERS))
          (RootMaxWorkOrdersOutOfRange 1 MAX_POLICY_WORK_ORDERS (rpp_max_work_orders policy))
      @ report (rpp_max_dependency_references policy > MAX_POLICY_DEPENDENCY_REFERENCES)
          (RootMaxDependencyReferencesOutOfRange MAX_POLICY_DEPENDENCY_REFERENCES
            (rpp_max_dependency_references policy))
      @ report (rpp_max_verification_targets policy > MAX_POLICY_VERIFICATION_TARGETS)
          (RootMaxVerificationTargetsOutOfRange MAX_POLICY_VERIFICATION_TARGETS
            (rpp_max_verification_targets policy)))"

text \<open>The values that are hashed: all fields but the digest itself, in the order of \<open>serde\<close>.\<close>

definition verification_kind_text :: "RootVerificationKind \<Rightarrow> string" where
  "verification_kind_text kind =
     (case kind of RepositoryTree \<Rightarrow> ''repository_tree'' | RepositoryFile \<Rightarrow> ''repository_file''
      | RepositorySearch \<Rightarrow> ''repository_search'' | ExistingEvidence \<Rightarrow> ''existing_evidence'')"

definition obligation_value :: "RootProtectedObligation \<Rightarrow> json_value" where
  "obligation_value obligation = json_object
     [(''obligation_id'', JString (rbo_obligation_id obligation)),
      (''obligation_sha256'', JString (rbo_obligation_sha256 obligation)),
      (''statement'', JString (rbo_statement obligation)),
      (''mandatory'', JBool (rbo_mandatory obligation)),
      (''evidence_requirements'', JArray (map JString (rbo_evidence_requirements obligation)))]"

definition policy_hash_material :: "RootPlannerPolicy \<Rightarrow> json_value" where
  "policy_hash_material policy = json_object
     [(''root_snapshot_sha256'', JString (rpp_root_snapshot_sha256 policy)),
      (''context_manifest_sha256'', JString (rpp_context_manifest_sha256 policy)),
      (''obligations'', JArray (map obligation_value (rpp_obligations policy))),
      (''allowed_verification_kinds'',
        JArray (map (JString \<circ> verification_kind_text) (rpp_allowed_verification_kinds policy))),
      (''max_work_orders'', json_number (rpp_max_work_orders policy)),
      (''max_dependency_references'', json_number (rpp_max_dependency_references policy)),
      (''max_verification_targets'', json_number (rpp_max_verification_targets policy))]"

definition policy_content_sha256 ::
  "('a) registry_env_scheme \<Rightarrow> RootPlannerPolicy \<Rightarrow> string + string" where
  "policy_content_sha256 env policy = canonical_sha256 env (policy_hash_material policy)"

definition policy_integrity_violations ::
  "('a) registry_env_scheme \<Rightarrow> RootPlannerPolicy \<Rightarrow> RootPlannerPolicyViolation list" where
  "policy_integrity_violations env policy =
     policy_structure_violations env policy
     @ report (\<not> valid_sha256 (rpp_planner_policy_sha256 policy))
         (RootInvalidPlannerPolicySha256 (rpp_planner_policy_sha256 policy))
     @ digest_violations (policy_content_sha256 env policy) (rpp_planner_policy_sha256 policy)
         RootPlannerPolicySha256Mismatch RootPolicyEncoding"

definition root_policy_new ::
  "('a) registry_env_scheme \<Rightarrow> string \<Rightarrow> string \<Rightarrow> RootProtectedObligation list \<Rightarrow> RootVerificationKind list
     \<Rightarrow> u32 \<Rightarrow> u32 \<Rightarrow> u32 \<Rightarrow> RootPlannerPolicyViolation list + RootPlannerPolicy" where
  "root_policy_new env root_snapshot context_manifest obligations kinds max_work_orders
       max_dependency_references max_verification_targets =
     (let policy = \<lparr>rpp_root_snapshot_sha256 = root_snapshot, rpp_planner_policy_sha256 = [],
            rpp_context_manifest_sha256 = context_manifest, rpp_obligations = obligations,
            rpp_allowed_verification_kinds = kinds, rpp_max_work_orders = max_work_orders,
            rpp_max_dependency_references = max_dependency_references,
            rpp_max_verification_targets = max_verification_targets\<rparr>;
          violations = policy_structure_violations env policy in
      if violations \<noteq> [] then Inl violations
      else and_then (map_err (\<lambda>message. [RootPolicyEncoding message]) (policy_content_sha256 env policy))
        (\<lambda>digest. Inr (policy\<lparr>rpp_planner_policy_sha256 := digest\<rparr>)))"

definition root_policy_validate ::
  "('a) registry_env_scheme \<Rightarrow> RootPlannerPolicy \<Rightarrow> RootPlannerPolicyViolation list + unit" where
  "root_policy_validate env self =
     (let violations = policy_integrity_violations env self in
      if violations = [] then Inr () else Inl violations)"

definition policy_violation_of :: "RootPlannerPolicyViolation \<Rightarrow> RootPlannerInvariantViolation" where
  "policy_violation_of violation =
     (case violation of
        RootDuplicateObligationId obligation_id occurrences \<Rightarrow>
          RootDuplicatePolicyObligationId obligation_id occurrences
      | RootDuplicateObligationReference obligation_id obligation_sha256 occurrences \<Rightarrow>
          RootDuplicatePolicyObligationReference obligation_id obligation_sha256 occurrences
      | RootDuplicateAllowedVerificationKind kind occurrences \<Rightarrow>
          RootDuplicatePolicyVerificationKind kind occurrences
      | v \<Rightarrow> RootPolicyIntegrity v)"

definition policy_invariant_violations ::
  "('a) registry_env_scheme \<Rightarrow> RootPlannerPolicy \<Rightarrow> RootPlannerInvariantViolation list" where
  "policy_invariant_violations env policy = map policy_violation_of (policy_integrity_violations env policy)"

section \<open>The proposed plan\<close>

definition collect_digest_violations ::
  "RootPlannerOutput \<Rightarrow> RootPlannerPolicy \<Rightarrow> RootPlannerInvariantViolation list" where
  "collect_digest_violations output policy =
     concat (map (\<lambda>(field, expected, actual). report (expected \<noteq> actual) (RootDigestMismatch field expected actual))
       [(RootSnapshotSha256, rpp_root_snapshot_sha256 policy, rpo_root_snapshot_sha256 output),
        (PlannerPolicySha256, rpp_planner_policy_sha256 policy, rpo_planner_policy_sha256 output),
        (ContextManifestSha256, rpp_context_manifest_sha256 policy, rpo_context_manifest_sha256 output)])"

definition directive_shape_valid :: "RootPlannerOutput \<Rightarrow> bool" where
  "directive_shape_valid output =
     (let work_orders = rpo_work_orders output; questions = rpo_clarification_questions output;
          escalations = rpo_escalation_requests output in
      case rpo_directive output of
        RootPlan \<Rightarrow> work_orders \<noteq> [] \<and> questions = [] \<and> escalations = []
      | RootClarify \<Rightarrow>
          work_orders = [] \<and> (1 \<le> length questions \<and> length questions \<le> 3) \<and> escalations = []
      | RootEscalate \<Rightarrow> work_orders = [] \<and> questions = [] \<and> length escalations = 1)"

definition collect_directive_shape_violations ::
  "RootPlannerOutput \<Rightarrow> RootPlannerInvariantViolation list" where
  "collect_directive_shape_violations output =
     report (\<not> directive_shape_valid output)
       (RootDirectiveShape (rpo_directive output) (wire_u32 (length (rpo_work_orders output)))
         (wire_u32 (length (rpo_clarification_questions output)))
         (wire_u32 (length (rpo_escalation_requests output))))"

definition collect_evidence_violations ::
  "RootPlannerOutput \<Rightarrow> PromptInvocation \<Rightarrow> RootPlannerInvariantViolation list" where
  "collect_evidence_violations output invocation =
     (let section_names = bs_of_list (map ds_name (pi_sections invocation));
          cited = map rde_section (rpo_decision_evidence output);
          citation_counts = entry_counts cited;
          user_sections = filter (\<lambda>section. ds_trust section = TrustUser) (pi_sections invocation) in
      concat (map (\<lambda>(index, section). report (\<not> bs_contains section_names section)
        (RootUnknownEvidenceSection (wire_u32 index) section)) (enumerate0 cited))
      @ repeated_entries cited RootDuplicateEvidenceSection
      @ (case user_sections of
           [section] \<Rightarrow>
             (let actual = (case bm_get citation_counts (ds_name section) of None \<Rightarrow> 0 | Some n \<Rightarrow> n) in
              report (actual \<noteq> 1) (RootUserEvidenceCitationCount (ds_name section) (wire_u32 actual)))
         | _ \<Rightarrow> [RootUserSectionCount (wire_u32 (length user_sections))]))"

text \<open>The result and the violations that the call pushes.\<close>

definition reference_is_valid ::
  "RootObligationRef \<Rightarrow> RootReferenceSite \<Rightarrow> (string, string) btree_map
     \<Rightarrow> bool \<times> RootPlannerInvariantViolation list" where
  "reference_is_valid obligation_ref site obligations_by_id =
     (case bm_get obligations_by_id (fst obligation_ref) of
        None \<Rightarrow> (False, [RootUnknownObligationReference site (fst obligation_ref) (snd obligation_ref)])
      | Some expected_sha256 \<Rightarrow>
          if expected_sha256 = snd obligation_ref then (True, [])
          else (False, [RootObligationDigestMismatch site (fst obligation_ref) expected_sha256
                  (snd obligation_ref)]))"

definition references_violations ::
  "(string, string) btree_map \<Rightarrow> (nat \<Rightarrow> RootReferenceSite) \<Rightarrow> RootObligationRef list
     \<Rightarrow> RootPlannerInvariantViolation list" where
  "references_violations obligations_by_id site refs =
     concat (map (\<lambda>(reference_index, r). snd (reference_is_valid r (site reference_index) obligations_by_id))
       (enumerate0 refs))"

definition target_violations ::
  "(string, string) btree_map \<Rightarrow> RootVerificationKind btree_set \<Rightarrow> nat \<Rightarrow> nat \<times> RootVerificationTarget
     \<Rightarrow> RootPlannerInvariantViolation list" where
  "target_violations obligations_by_id allowed_kinds work_order_index = (\<lambda>(target_index, target).
     report (\<not> bs_contains allowed_kinds (rvt_kind target))
       (RootVerificationKindNotAllowed (wire_u32 work_order_index) (wire_u32 target_index) (rvt_kind target))
     @ references_violations obligations_by_id
         (\<lambda>i. SiteVerificationTarget (wire_u32 work_order_index) (wire_u32 target_index) (wire_u32 i))
         (rvt_obligation_refs target))"

definition root_work_order_violations ::
  "(string, string) btree_map \<Rightarrow> RootVerificationKind btree_set \<Rightarrow> nat \<times> RootPlannerWorkOrder
     \<Rightarrow> RootPlannerInvariantViolation list" where
  "root_work_order_violations obligations_by_id allowed_kinds = (\<lambda>(work_order_index, work_order).
     references_violations obligations_by_id (\<lambda>i. SiteWorkOrder (wire_u32 work_order_index) (wire_u32 i))
       (rwo_obligation_refs work_order)
     @ concat (map (target_violations obligations_by_id allowed_kinds work_order_index)
         (enumerate0 (rwo_proposed_verification_targets work_order))))"

text \<open>The references of the work orders that passed, the set \<open>covered_obligations\<close>.\<close>

definition root_covered_obligations ::
  "(string, string) btree_map \<Rightarrow> RootPlannerWorkOrder list \<Rightarrow> RootObligationRef btree_set" where
  "root_covered_obligations obligations_by_id work_orders =
     bs_of_list (filter (\<lambda>r. fst (reference_is_valid r (SiteWorkOrder 0 0) obligations_by_id))
       (concat (map rwo_obligation_refs work_orders)))"

end
