(* ===== verification/Root_Planner_Output.thy ===== *)
theory Root_Planner_Output
  imports Root_Planner_Checks
begin

text \<open>
  The third part of \<open>crates/prompting/src/root_planner.rs\<close>: the dependency graph of the proposed work
  orders, the whole collecting pass, and \<open>validate_root_planner_output\<close>; and what an output without
  violations satisfies.
\<close>

section \<open>The dependency graph\<close>

type_synonym root_order_map = "(string, RootPlannerWorkOrder) btree_map"

text \<open>\<open>work_orders[local_id]\<close> is only reached with a known identity.\<close>

definition root_dependencies :: "root_order_map \<Rightarrow> string \<Rightarrow> string list" where
  "root_dependencies work_orders node =
     (case bm_get work_orders node of None \<Rightarrow> [] | Some work_order \<Rightarrow> rwo_depends_on work_order)"

fun root_visit ::
  "nat \<Rightarrow> string \<Rightarrow> root_order_map \<Rightarrow> string btree_set \<Rightarrow> string btree_set \<Rightarrow> string search_result"
and root_visit_dependencies ::
  "nat \<Rightarrow> string list \<Rightarrow> root_order_map \<Rightarrow> string btree_set \<Rightarrow> string btree_set \<Rightarrow> string search_result"
where
  "root_visit 0 node work_orders active complete = None"
| "root_visit (Suc n) node work_orders active complete =
     (if bs_contains complete node then Some (False, active, complete)
      else if bs_contains active node then Some (True, active, complete)
      else (case root_visit_dependencies n (root_dependencies work_orders node) work_orders
                   (bs_insert node active) complete of
              None \<Rightarrow> None
            | Some (True, active', complete') \<Rightarrow> Some (True, active', complete')
            | Some (False, active', complete') \<Rightarrow>
                Some (False, bs_remove node active', bs_insert node complete')))"
| "root_visit_dependencies n [] work_orders active complete = Some (False, active, complete)"
| "root_visit_dependencies n (dependency # ds) work_orders active complete =
     (if \<not> bm_contains_key work_orders dependency
        then root_visit_dependencies n ds work_orders active complete
      else case root_visit n dependency work_orders active complete of
          None \<Rightarrow> None
        | Some (True, active', complete') \<Rightarrow> Some (True, active', complete')
        | Some (False, active', complete') \<Rightarrow>
            root_visit_dependencies n ds work_orders active' complete')"

definition root_graph_has_cycle :: "root_order_map \<Rightarrow> bool option" where
  "root_graph_has_cycle work_orders =
     map_option fst
       (root_visit_dependencies (Suc (length work_orders)) (bm_keys work_orders) work_orders [] [])"

interpretation root_search: dependency_search root_dependencies bm_keys root_visit root_visit_dependencies
  by unfold_locales
    (simp_all add: root_dependencies_def bm_contains_key_def flip: bm_contains_key_iff)

lemma root_graph_has_cycle_iff:
  "root_graph_has_cycle work_orders = Some (\<not> acyclic (root_search.edges work_orders))"
  using root_search.search_decides[of work_orders] by (simp add: root_graph_has_cycle_def bm_keys_def)

definition root_order_map_of :: "RootPlannerWorkOrder list \<Rightarrow> root_order_map" where
  "root_order_map_of work_orders = first_entries (map (\<lambda>w. (rwo_local_id w, w)) work_orders)"

definition order_dependency_violations ::
  "root_order_map \<Rightarrow> RootPlannerWorkOrder \<Rightarrow> RootPlannerInvariantViolation list" where
  "order_dependency_violations work_orders work_order =
     concat (map (\<lambda>dependency.
       if dependency = rwo_local_id work_order then [RootSelfDependency (rwo_local_id work_order)]
       else report (\<not> bm_contains_key work_orders dependency)
         (RootUnknownDependency (rwo_local_id work_order) dependency))
       (rwo_depends_on work_order))"

definition collect_dependency_violations ::
  "RootPlannerOutput \<Rightarrow> RootPlannerInvariantViolation list" where
  "collect_dependency_violations output =
     (let work_orders = root_order_map_of (rpo_work_orders output) in
      repeated_entries (map rwo_local_id (rpo_work_orders output)) RootDuplicateLocalId
      @ concat (map (order_dependency_violations work_orders) (rpo_work_orders output))
      @ report (root_graph_has_cycle work_orders \<noteq> Some False) RootDependencyCycle)"

section \<open>The collecting pass\<close>

text \<open>The sum saturates at the largest 64-bit number.\<close>

definition dependency_count :: "RootPlannerWorkOrder list \<Rightarrow> nat" where
  "dependency_count work_orders =
     fold (\<lambda>w count. usize_saturating_add count (length (rwo_depends_on w))) work_orders 0"

definition root_planner_invariant_violations ::
  "RootPlannerOutput \<Rightarrow> PromptInvocation \<Rightarrow> RootPlannerPolicy \<Rightarrow> RootPlannerInvariantViolation list" where
  "root_planner_invariant_violations output invocation policy =
     (let work_orders = rpo_work_orders output;
          dependencies = dependency_count work_orders;
          verification_count = length (concat (map rwo_proposed_verification_targets work_orders));
          obligations_by_id = bm_of_list (map obligation_reference (rpp_obligations policy));
          allowed_kinds = bs_of_list (rpp_allowed_verification_kinds policy);
          covered = root_covered_obligations obligations_by_id work_orders in
      report (rpo_schema_version output \<noteq> 1) (RootSchemaVersion 1 (rpo_schema_version output))
      @ collect_digest_violations output policy
      @ collect_directive_shape_violations output
      @ collect_evidence_violations output invocation
      @ report (length work_orders > unat (rpp_max_work_orders policy))
          (RootTooManyWorkOrders (rpp_max_work_orders policy) (wire_u32 (length work_orders)))
      @ report (dependencies > unat (rpp_max_dependency_references policy))
          (RootTooManyDependencyReferences (rpp_max_dependency_references policy) (wire_u32 dependencies))
      @ report (verification_count > unat (rpp_max_verification_targets policy))
          (RootTooManyVerificationTargets (rpp_max_verification_targets policy)
            (wire_u32 verification_count))
      @ concat (map (root_work_order_violations obligations_by_id allowed_kinds) (enumerate0 work_orders))
      @ concat (map (\<lambda>(escalation_index, escalation).
          references_violations obligations_by_id
            (\<lambda>i. SiteEscalationRequest (wire_u32 escalation_index) (wire_u32 i))
            (rer_blocked_obligation_refs escalation))
          (enumerate0 (rpo_escalation_requests output)))
      @ (if rpo_directive output = RootPlan then
           concat (map (\<lambda>obligation.
             report (\<not> bs_contains covered (obligation_reference obligation))
               (RootMandatoryObligationUncovered (rbo_obligation_id obligation)
                 (rbo_obligation_sha256 obligation)))
             (filter rbo_mandatory (rpp_obligations policy)))
         else [])
      @ collect_dependency_violations output)"

text \<open>The deserializers that \<open>serde\<close> derives for the two types.\<close>

record root_env = registry_env +
  rt_output_from_value :: "json_value \<Rightarrow> string + RootPlannerOutput"
  rt_policy_from_value :: "json_value \<Rightarrow> string + RootPlannerPolicy"

definition extract_policy ::
  "('a) root_env_scheme \<Rightarrow> PromptInvocation \<Rightarrow> RootPlannerInvariantViolation list + RootPlannerPolicy" where
  "extract_policy env invocation =
     (case pi_runtime_constraints invocation of
        [constraint] \<Rightarrow>
          if rc_name constraint \<noteq> ''planner_policy'' then Inl [RootPolicyConstraintName (rc_name constraint)]
          else and_then (map_err (\<lambda>e. [RootPolicyDecode e]) (rt_policy_from_value env (rc_payload constraint)))
            (\<lambda>policy. let violations = policy_invariant_violations env policy in
              if violations = [] then Inr policy else Inl violations)
      | cs \<Rightarrow> Inl [RootPolicyConstraintCount (wire_u32 (length cs))])"

definition validate_root_planner_output ::
  "('a) root_env_scheme \<Rightarrow> json_value \<Rightarrow> PromptInvocation \<Rightarrow> RootPlannerInvariantViolation list + unit" where
  "validate_root_planner_output env value invocation =
     and_then (map_err (\<lambda>e. [RootTypedOutputDecode e]) (rt_output_from_value env value)) (\<lambda>output.
     and_then (extract_policy env invocation) (\<lambda>policy.
       let violations = root_planner_invariant_violations output invocation policy in
       if violations = [] then Inr () else Inl violations))"

text \<open>
  \<open>plan_repair.rs\<close>: a repaired plan is checked as a complete plan, against the invocation restricted to
  the sections of the original turn.
\<close>

definition validate_plan_repair_output ::
  "('a) root_env_scheme \<Rightarrow> json_value \<Rightarrow> PromptInvocation \<Rightarrow> RootPlannerInvariantViolation list + unit" where
  "validate_plan_repair_output env value invocation =
     validate_root_planner_output env value
       (invocation\<lparr>pi_sections := filter (\<lambda>section. ds_name section \<in> {''run_input'', ''repository_identity''})
          (pi_sections invocation)\<rparr>)"

section \<open>What the pass decides\<close>

text \<open>A plan that the policy admits for the sections of an invocation.\<close>

definition admissible_refs :: "RootPlannerPolicy \<Rightarrow> RootObligationRef list \<Rightarrow> bool" where
  "admissible_refs policy refs \<longleftrightarrow> set refs \<subseteq> obligation_reference ` set (rpp_obligations policy)"

definition root_order_relation :: "RootPlannerWorkOrder list \<Rightarrow> (string \<times> string) set" where
  "root_order_relation = named_relation rwo_local_id rwo_depends_on"

definition evidence_admissible :: "DataSection list \<Rightarrow> string list \<Rightarrow> bool" where
  "evidence_admissible sections cited \<longleftrightarrow>
     set cited \<subseteq> ds_name ` set sections \<and> distinct cited
     \<and> (\<exists>user. filter (\<lambda>s. ds_trust s = TrustUser) sections = [user] \<and> ds_name user \<in> set cited)"

definition admissible_root_plan ::
  "RootPlannerPolicy \<Rightarrow> PromptInvocation \<Rightarrow> RootPlannerOutput \<Rightarrow> bool" where
  "admissible_root_plan policy invocation output \<longleftrightarrow>
     rpo_schema_version output = 1
     \<and> rpo_root_snapshot_sha256 output = rpp_root_snapshot_sha256 policy
     \<and> rpo_planner_policy_sha256 output = rpp_planner_policy_sha256 policy
     \<and> rpo_context_manifest_sha256 output = rpp_context_manifest_sha256 policy
     \<and> directive_shape_valid output
     \<and> evidence_admissible (pi_sections invocation) (map rde_section (rpo_decision_evidence output))
     \<and> length (rpo_work_orders output) \<le> unat (rpp_max_work_orders policy)
     \<and> (\<Sum>w\<leftarrow>rpo_work_orders output. length (rwo_depends_on w)) \<le> unat (rpp_max_dependency_references policy)
     \<and> (\<Sum>w\<leftarrow>rpo_work_orders output. length (rwo_proposed_verification_targets w))
         \<le> unat (rpp_max_verification_targets policy)
     \<and> (\<forall>w \<in> set (rpo_work_orders output).
          admissible_refs policy (rwo_obligation_refs w)
          \<and> (\<forall>t \<in> set (rwo_proposed_verification_targets w).
               rvt_kind t \<in> set (rpp_allowed_verification_kinds policy)
               \<and> admissible_refs policy (rvt_obligation_refs t)))
     \<and> (\<forall>e \<in> set (rpo_escalation_requests output). admissible_refs policy (rer_blocked_obligation_refs e))
     \<and> (rpo_directive output = RootPlan \<longrightarrow>
          (\<forall>ob \<in> set (rpp_obligations policy). rbo_mandatory ob \<longrightarrow>
             (\<exists>w \<in> set (rpo_work_orders output). obligation_reference ob \<in> set (rwo_obligation_refs w))))
     \<and> distinct (map rwo_local_id (rpo_work_orders output))
     \<and> (\<forall>w \<in> set (rpo_work_orders output).
          set (rwo_depends_on w) \<subseteq> rwo_local_id ` set (rpo_work_orders output))
     \<and> acyclic (root_order_relation (rpo_work_orders output))"

lemma dependency_count_eq:
  "dependency_count work_orders = min (\<Sum>w\<leftarrow>work_orders. length (rwo_depends_on w)) usize_max"
proof -
  have "fold (\<lambda>w count. usize_saturating_add count (length (rwo_depends_on w))) work_orders (min c usize_max)
      = min (c + (\<Sum>w\<leftarrow>work_orders. length (rwo_depends_on w))) usize_max" for c
  proof (induction work_orders arbitrary: c)
    case (Cons w ws)
    have "usize_saturating_add (min c usize_max) (length (rwo_depends_on w))
        = min (c + length (rwo_depends_on w)) usize_max"
      by (simp add: usize_saturating_add_def min_def)
    with Cons show ?case by (simp add: add.assoc)
  qed simp
  from this[of 0] show ?thesis by (simp add: dependency_count_def)
qed

lemma dependency_count_within:
  "dependency_count work_orders \<le> unat (m :: u32)
     \<longleftrightarrow> (\<Sum>w\<leftarrow>work_orders. length (rwo_depends_on w)) \<le> unat m"
proof -
  have "unat m < usize_max"
    using unsigned_less[of m, where 'a = nat] by (simp add: usize_max_def)
  then show ?thesis
    by (auto simp: dependency_count_eq min_def)
qed

lemma policy_obligations_lookup:
  assumes "distinct (map rbo_obligation_id obligations)"
  shows "bm_get (bm_of_list (map obligation_reference obligations)) i = Some s
    \<longleftrightarrow> (i, s) \<in> obligation_reference ` set obligations"
proof -
  have "map fst (map obligation_reference obligations) = map rbo_obligation_id obligations"
    by (simp add: obligation_reference_def)
  with assms have "distinct (map fst (rev (map obligation_reference obligations)))"
    by (metis distinct_rev rev_map)
  then show ?thesis
    by (simp add: bm_get_of_list map_of_eq_Some_iff del: map_map)
qed

lemma reference_is_valid_iff:
  assumes "distinct (map rbo_obligation_id obligations)"
  defines "m \<equiv> bm_of_list (map obligation_reference obligations)"
  shows "fst (reference_is_valid r site m) \<longleftrightarrow> r \<in> obligation_reference ` set obligations"
    and "snd (reference_is_valid r site m) = [] \<longleftrightarrow> r \<in> obligation_reference ` set obligations"
  using policy_obligations_lookup[OF assms(1), of "fst r" "snd r"]
  by (auto simp: reference_is_valid_def m_def split: option.splits)

lemma references_violations_Nil:
  assumes "distinct (map rbo_obligation_id (rpp_obligations policy))"
  shows "references_violations (bm_of_list (map obligation_reference (rpp_obligations policy))) site refs = []
    \<longleftrightarrow> admissible_refs policy refs"
  unfolding references_violations_def admissible_refs_def
  by (subst concat_enumerate0_Nil[of _ "\<lambda>r. r \<in> obligation_reference ` set (rpp_obligations policy)"])
    (auto simp: reference_is_valid_iff(2)[OF assms])

lemma policy_ids_distinct:
  assumes "policy_integrity_violations env policy = []"
  shows "distinct (map rbo_obligation_id (rpp_obligations policy))"
  using assms by (simp add: policy_integrity_violations_def policy_structure_violations_def Let_def)

lemma covered_obligations_iff:
  assumes "distinct (map rbo_obligation_id (rpp_obligations policy))" "r \<in> obligation_reference ` set (rpp_obligations policy)"
  shows "bs_contains (root_covered_obligations (bm_of_list (map obligation_reference (rpp_obligations policy))) ws) r
    \<longleftrightarrow> (\<exists>w \<in> set ws. r \<in> set (rwo_obligation_refs w))"
  using assms(2) by (auto simp: root_covered_obligations_def bs_contains_def reference_is_valid_iff(1)[OF assms(1)])

lemma evidence_violations_Nil:
  "collect_evidence_violations output invocation = []
     \<longleftrightarrow> evidence_admissible (pi_sections invocation) (map rde_section (rpo_decision_evidence output))"
proof -
  let ?cited = "map rde_section (rpo_decision_evidence output)"
  let ?users = "filter (\<lambda>section. ds_trust section = TrustUser) (pi_sections invocation)"
  have unknown: "concat (map (\<lambda>(index, section).
      report (\<not> bs_contains (bs_of_list (map ds_name (pi_sections invocation))) section)
        (RootUnknownEvidenceSection (wire_u32 index) section)) (enumerate0 ?cited)) = []
      \<longleftrightarrow> set ?cited \<subseteq> ds_name ` set (pi_sections invocation)"
    by (subst concat_enumerate0_Nil[of _ "\<lambda>s. s \<in> ds_name ` set (pi_sections invocation)"])
      (auto simp: bs_contains_def)
  have count: "distinct ?cited \<Longrightarrow>
      (case bm_get (entry_counts ?cited) name of None \<Rightarrow> 0 | Some n \<Rightarrow> n) = 1 \<longleftrightarrow> name \<in> set ?cited" for name
    by (auto simp: entry_counts_get distinct_iff_counts)
  show ?thesis
    unfolding collect_evidence_violations_def Let_def evidence_admissible_def append_is_Nil_conv unknown
      repeated_entries_Nil
    using count by (cases ?users; cases "tl ?users") (auto split: list.splits)
qed

lemma order_dependencies_Nil:
  "order_dependency_violations (root_order_map_of ws) w = []
     \<longleftrightarrow> (\<forall>d \<in> set (rwo_depends_on w). d \<noteq> rwo_local_id w \<and> d \<in> rwo_local_id ` set ws)"
  unfolding order_dependency_violations_def root_order_map_of_def concat_map_Nil_iff
  by (rule ball_cong[OF refl]) (simp add: first_entries_contains image_image)

lemma root_edges:
  assumes "distinct (map rwo_local_id ws)"
    and "\<And>w. w \<in> set ws \<Longrightarrow> set (rwo_depends_on w) \<subseteq> rwo_local_id ` set ws"
  shows "root_search.edges (root_order_map_of ws) = root_order_relation ws"
  using first_entries_edges[OF assms]
  by (simp add: root_search.edges_def root_dependencies_def root_order_map_of_def root_order_relation_def)

lemma dependency_violations_Nil:
  "collect_dependency_violations output = []
     \<longleftrightarrow> distinct (map rwo_local_id (rpo_work_orders output))
       \<and> (\<forall>w \<in> set (rpo_work_orders output).
            set (rwo_depends_on w) \<subseteq> rwo_local_id ` set (rpo_work_orders output))
       \<and> acyclic (root_order_relation (rpo_work_orders output))"
    (is "?l \<longleftrightarrow> ?d \<and> ?k \<and> ?a")
proof -
  let ?ws = "rpo_work_orders output"
  have no_self: "d \<noteq> rwo_local_id w" if ?a "w \<in> set ?ws" "d \<in> set (rwo_depends_on w)" for w d
    using that by (auto simp: acyclic_def root_order_relation_def named_relation_def)
  have "?l \<longleftrightarrow> ?d \<and> (\<forall>w \<in> set ?ws. \<forall>d \<in> set (rwo_depends_on w). d \<noteq> rwo_local_id w \<and> d \<in> rwo_local_id ` set ?ws)
      \<and> acyclic (root_search.edges (root_order_map_of ?ws))"
    by (simp add: collect_dependency_violations_def Let_def order_dependencies_Nil root_graph_has_cycle_iff)
  also have "\<dots> \<longleftrightarrow> ?d \<and> ?k \<and> ?a"
  proof (cases "?d \<and> ?k")
    case True
    with root_edges[of ?ws] no_self show ?thesis by fastforce
  qed auto
  finally show ?thesis .
qed

text \<open>The pass reports nothing exactly on the admissible plans.\<close>

lemma root_plan_decided:
  assumes "policy_integrity_violations env policy = []"
  shows "root_planner_invariant_violations output invocation policy = []
    \<longleftrightarrow> admissible_root_plan policy invocation output"
proof -
  note ids = policy_ids_distinct[OF assms]
  let ?m = "bm_of_list (map obligation_reference (rpp_obligations policy))"
  have targets: "concat (map (target_violations ?m (bs_of_list (rpp_allowed_verification_kinds policy)) i)
      (enumerate0 ts)) = [] \<longleftrightarrow>
      (\<forall>t \<in> set ts. rvt_kind t \<in> set (rpp_allowed_verification_kinds policy)
         \<and> admissible_refs policy (rvt_obligation_refs t))" for i ts
    by (rule concat_enumerate0_Nil)
      (simp add: target_violations_def references_violations_Nil[OF ids] bs_contains_def)
  have orders: "concat (map (root_work_order_violations ?m (bs_of_list (rpp_allowed_verification_kinds policy)))
      (enumerate0 ws)) = [] \<longleftrightarrow>
      (\<forall>w \<in> set ws. admissible_refs policy (rwo_obligation_refs w)
         \<and> (\<forall>t \<in> set (rwo_proposed_verification_targets w).
              rvt_kind t \<in> set (rpp_allowed_verification_kinds policy)
              \<and> admissible_refs policy (rvt_obligation_refs t)))" for ws
    by (rule concat_enumerate0_Nil)
      (simp only: root_work_order_violations_def prod.case append_is_Nil_conv targets
        references_violations_Nil[OF ids])
  have escalations: "concat (map (\<lambda>(i, e). references_violations ?m
      (\<lambda>j. SiteEscalationRequest (wire_u32 i) (wire_u32 j)) (rer_blocked_obligation_refs e)) (enumerate0 es)) = []
      \<longleftrightarrow> (\<forall>e \<in> set es. admissible_refs policy (rer_blocked_obligation_refs e))" for es
    by (rule concat_enumerate0_Nil) (simp add: references_violations_Nil[OF ids])
  have mandatory: "concat (map (\<lambda>ob. report (\<not> bs_contains (root_covered_obligations ?m ws) (obligation_reference ob))
        (RootMandatoryObligationUncovered (rbo_obligation_id ob) (rbo_obligation_sha256 ob)))
        (filter rbo_mandatory (rpp_obligations policy))) = []
      \<longleftrightarrow> (\<forall>ob \<in> set (rpp_obligations policy). rbo_mandatory ob \<longrightarrow>
            (\<exists>w \<in> set ws. obligation_reference ob \<in> set (rwo_obligation_refs w)))" for ws
    by (auto simp: covered_obligations_iff[OF ids])
  have digests: "collect_digest_violations output policy = [] \<longleftrightarrow>
      rpo_root_snapshot_sha256 output = rpp_root_snapshot_sha256 policy
      \<and> rpo_planner_policy_sha256 output = rpp_planner_policy_sha256 policy
      \<and> rpo_context_manifest_sha256 output = rpp_context_manifest_sha256 policy"
    by (auto simp: collect_digest_violations_def)
  have targets_count: "length (concat (map rwo_proposed_verification_targets ws))
      = (\<Sum>w\<leftarrow>ws. length (rwo_proposed_verification_targets w))" for ws
    by (simp add: length_concat comp_def)
  show ?thesis
    unfolding root_planner_invariant_violations_def Let_def append_is_Nil_conv orders escalations digests
      evidence_violations_Nil dependency_violations_Nil report_Nil_iff not_less dependency_count_within
      targets_count admissible_root_plan_def
    using mandatory by (simp add: collect_directive_shape_violations_def)
qed

section \<open>Constructors and integrity\<close>

text \<open>
  The constructors compute the digests that the integrity checks recompute: a policy passes the check
  exactly when the constructor builds it from its own fields. The hash function yields 32 bytes.
\<close>

lemma canonical_sha256_valid:
  assumes "\<And>bytes. length (be_sha256 env bytes) = 32" "canonical_sha256 env value = Inr digest"
  shows "valid_sha256 digest"
  using assms by (auto simp: canonical_sha256_def result_simps encode_sha256_def encode_digest_valid)

lemma digest_violations_Nil:
  "digest_violations computed actual mismatch encoding = [] \<longleftrightarrow> computed = Inr actual"
  by (auto simp: digest_violations_def split: sum.splits)

lemma obligation_structure_digest:
  "obligation_structure_violations (ob\<lparr>rbo_obligation_sha256 := d\<rparr>) = obligation_structure_violations ob"
  "obligation_content_sha256 env (ob\<lparr>rbo_obligation_sha256 := d\<rparr>) = obligation_content_sha256 env ob"
  by (simp_all add: obligation_structure_violations_def obligation_content_sha256_def
      obligation_hash_material_def)

lemma policy_structure_digest:
  "policy_structure_violations env (p\<lparr>rpp_planner_policy_sha256 := d\<rparr>) = policy_structure_violations env p"
  "policy_content_sha256 env (p\<lparr>rpp_planner_policy_sha256 := d\<rparr>) = policy_content_sha256 env p"
  by (simp_all add: policy_structure_violations_def policy_content_sha256_def policy_hash_material_def)

lemma root_obligation_integrity:
  assumes "\<And>bytes. length (be_sha256 env bytes) = 32"
  shows "root_obligation_validate env self = Inr ()
    \<longleftrightarrow> root_obligation_new env (rbo_obligation_id self) (rbo_statement self) (rbo_mandatory self)
          (rbo_evidence_requirements self) = Inr self"
proof -
  let ?blank = "self\<lparr>rbo_obligation_sha256 := []\<rparr>"
  have blank: "\<lparr>rbo_obligation_id = rbo_obligation_id self, rbo_obligation_sha256 = [],
      rbo_statement = rbo_statement self, rbo_mandatory = rbo_mandatory self,
      rbo_evidence_requirements = rbo_evidence_requirements self\<rparr> = ?blank"
    by (cases self) simp
  have same: "self\<lparr>rbo_obligation_sha256 := d\<rparr> = self \<longleftrightarrow> d = rbo_obligation_sha256 self" for d
    by (cases self) simp
  have "root_obligation_validate env self = Inr () \<longleftrightarrow> obligation_structure_violations self = []
      \<and> obligation_content_sha256 env self = Inr (rbo_obligation_sha256 self)"
    using canonical_sha256_valid[OF assms]
    by (auto simp: root_obligation_validate_def obligation_integrity_violations_def digest_violations_Nil
        obligation_content_sha256_def Let_def)
  then show ?thesis
    unfolding root_obligation_new_def blank Let_def obligation_structure_digest
    by (auto simp: result_simps same)
qed

lemma root_policy_integrity:
  assumes "\<And>bytes. length (be_sha256 env bytes) = 32"
  shows "root_policy_validate env self = Inr ()
    \<longleftrightarrow> root_policy_new env (rpp_root_snapshot_sha256 self) (rpp_context_manifest_sha256 self)
          (rpp_obligations self) (rpp_allowed_verification_kinds self) (rpp_max_work_orders self)
          (rpp_max_dependency_references self) (rpp_max_verification_targets self) = Inr self"
proof -
  let ?blank = "self\<lparr>rpp_planner_policy_sha256 := []\<rparr>"
  have blank: "\<lparr>rpp_root_snapshot_sha256 = rpp_root_snapshot_sha256 self, rpp_planner_policy_sha256 = [],
      rpp_context_manifest_sha256 = rpp_context_manifest_sha256 self, rpp_obligations = rpp_obligations self,
      rpp_allowed_verification_kinds = rpp_allowed_verification_kinds self,
      rpp_max_work_orders = rpp_max_work_orders self,
      rpp_max_dependency_references = rpp_max_dependency_references self,
      rpp_max_verification_targets = rpp_max_verification_targets self\<rparr> = ?blank"
    by (cases self) simp
  have same: "self\<lparr>rpp_planner_policy_sha256 := d\<rparr> = self \<longleftrightarrow> d = rpp_planner_policy_sha256 self" for d
    by (cases self) simp
  have "root_policy_validate env self = Inr () \<longleftrightarrow> policy_structure_violations env self = []
      \<and> policy_content_sha256 env self = Inr (rpp_planner_policy_sha256 self)"
    using canonical_sha256_valid[OF assms]
    by (auto simp: root_policy_validate_def policy_integrity_violations_def digest_violations_Nil
        policy_content_sha256_def Let_def)
  then show ?thesis
    unfolding root_policy_new_def blank Let_def policy_structure_digest
    by (auto simp: result_simps same)
qed

end
