(* ===== verification/Canonical_Sealing.thy ===== *)
theory Canonical_Sealing
  imports Root_Planner_Output
begin

text \<open>
  What a digest over the canonical encoding binds: the encoding determines its value, given that the texts
  of scalars can be told apart in front of a delimiter, so two policies of the root planner whose
  encodings do not collide under the hash have different digests when they differ in any field.
\<close>

section \<open>Texts that end at a delimiter\<close>

definition delimited :: "string \<Rightarrow> bool" where
  "delimited rest \<longleftrightarrow> rest = [] \<or> hd rest \<in> set '',:]}''"

fun is_scalar :: "json_value \<Rightarrow> bool" where
  "is_scalar (JArray _) = False"
| "is_scalar (JObject _) = False"
| "is_scalar _ = True"

text \<open>
  JSON scalars: strings are quoted with their quotes escaped, and no other scalar contains a delimiter. So
  a text before a delimiter determines its scalar, and it does not begin with a delimiter or a bracket.
\<close>

definition scalar_texts_delimited :: "('a) registry_env_scheme \<Rightarrow> bool" where
  "scalar_texts_delimited env \<longleftrightarrow>
     (\<forall>a b s t x y. is_scalar a \<and> is_scalar b \<and> rg_scalar_text env a = Inr s \<and> rg_scalar_text env b = Inr t
        \<and> s @ x = t @ y \<and> delimited x \<and> delimited y \<longrightarrow> a = b)
     \<and> (\<forall>a s. is_scalar a \<and> rg_scalar_text env a = Inr s \<longrightarrow> s \<noteq> [] \<and> hd s \<notin> set ''[]{},:'')"

lemma scalar_prefix:
  assumes "scalar_texts_delimited env" "is_scalar a" "is_scalar b" "rg_scalar_text env a = Inr s"
    "rg_scalar_text env b = Inr t" "s @ x = t @ y" "delimited x" "delimited y"
  shows "a = b \<and> x = y"
proof -
  have "a = b" using assms unfolding scalar_texts_delimited_def by blast
  with assms(4-6) show ?thesis by simp
qed

lemma scalar_start:
  assumes "scalar_texts_delimited env" "is_scalar a" "rg_scalar_text env a = Inr s"
  shows "s \<noteq> [] \<and> hd s \<notin> set ''[]{},:''"
  using assms unfolding scalar_texts_delimited_def by blast

text \<open>Elements whose texts are determined give a determined list of them.\<close>

lemma join_comma_Cons:
  "join_comma (r # rs) = Inr s \<longleftrightarrow>
     (\<exists>a more. r = Inr a \<and> s = a @ more
        \<and> (if rs = [] then more = [] else \<exists>rest. join_comma rs = Inr rest \<and> more = '','' @ rest))"
  by (cases rs) (auto simp: result_simps)

lemma join_comma_prefix:
  assumes prefix: "\<And>a b s t x y. a \<in> set as \<Longrightarrow> b \<in> set bs \<Longrightarrow> f a = Inr s \<Longrightarrow> f b = Inr t \<Longrightarrow> s @ x = t @ y
      \<Longrightarrow> delimited x \<Longrightarrow> delimited y \<Longrightarrow> a = b \<and> x = y"
    and start: "\<And>a s. a \<in> set as \<union> set bs \<Longrightarrow> f a = Inr s \<Longrightarrow> s \<noteq> [] \<and> hd s \<noteq> c"
    and "join_comma (map f as) = Inr s" "join_comma (map f bs) = Inr t" "s @ c # x = t @ c # y" "c \<in> set '']}''"
  shows "as = bs \<and> x = y"
  using assms
proof (induction as arbitrary: bs s t)
  case Nil
  show ?case
  proof (cases bs)
    case (Cons b bs')
    with Nil.prems(4) obtain u more where "f b = Inr u" "t = u @ more"
      unfolding Cons list.map join_comma_Cons by blast
    with Nil.prems(2)[of b u] Nil.prems(3,5) Cons show ?thesis
      by (cases u) auto
  qed (use Nil in auto)
next
  case (Cons a as)
  obtain u more where u: "f a = Inr u" "s = u @ more"
      "if as = [] then more = [] else \<exists>rest. join_comma (map f as) = Inr rest \<and> more = '','' @ rest"
    using Cons.prems(3) unfolding list.map join_comma_Cons by auto
  show ?case
  proof (cases bs)
    case Nil
    with Cons.prems(2)[of a u] Cons.prems(4,5) u(1,2) show ?thesis
      by (cases u) auto
  next
    case bs: (Cons b bs')
    obtain v more' where v: "f b = Inr v" "t = v @ more'"
        "if bs' = [] then more' = [] else \<exists>rest. join_comma (map f bs') = Inr rest \<and> more' = '','' @ rest"
      using Cons.prems(4) unfolding bs list.map join_comma_Cons by auto
    have "delimited (more @ c # x)" "delimited (more' @ c # y)"
      using u(3) v(3) Cons.prems(6) by (auto simp: delimited_def split: if_splits)
    with Cons.prems(1)[of a b u v] Cons.prems(5) u(1,2) v(1,2) bs
    have same: "a = b" "more @ c # x = more' @ c # y" by auto
    show ?thesis
    proof (cases "as = [] \<or> bs' = []")
      case True
      with same(2) u(3) v(3) Cons.prems(6) have "as = [] \<and> bs' = [] \<and> x = y"
        by (auto split: if_splits)
      with same(1) bs show ?thesis by simp
    next
      case False
      with u(3) v(3) obtain r r' where r: "join_comma (map f as) = Inr r" "more = '','' @ r"
          "join_comma (map f bs') = Inr r'" "more' = '','' @ r'" by auto
      have "as = bs' \<and> x = y"
      proof (rule Cons.IH[OF _ _ r(1,3) _ Cons.prems(6)])
        fix a' b' s t x y
        assume "a' \<in> set as" "b' \<in> set bs'" "f a' = Inr s" "f b' = Inr t" "s @ x = t @ y" "delimited x" "delimited y"
        then show "a' = b' \<and> x = y" using Cons.prems(1)[of a' b' s t x y] bs by simp
      next
        fix a' s assume "a' \<in> set as \<union> set bs'" "f a' = Inr s"
        then show "s \<noteq> [] \<and> hd s \<noteq> c" using Cons.prems(2)[of a' s] bs by auto
      qed (use same(2) r(2,4) in auto)
      with same(1) bs show ?thesis by simp
    qed
  qed
qed

section \<open>Ordered values\<close>

text \<open>The objects of \<open>serde_json\<close> are ordered maps.\<close>

fun ordered_json :: "json_value \<Rightarrow> bool" where
  "ordered_json (JArray values) = (\<forall>v \<in> set values. ordered_json v)"
| "ordered_json (JObject entries) = (sorted (map fst entries) \<and> (\<forall>e \<in> set entries. ordered_json (snd e)))"
| "ordered_json _ = True"

definition entry_text :: "('a) registry_env_scheme \<Rightarrow> string \<times> json_value \<Rightarrow> string + string" where
  "entry_text env e = and_then (rg_scalar_text env (JString (fst e))) (\<lambda>k.
     and_then (canonical_encode env (snd e)) (\<lambda>v. Inr (k @ '':'' @ v)))"

lemma encode_ordered_object:
  assumes "sorted (map fst es)"
  shows "canonical_encode env (JObject es) =
    and_then (join_comma (map (entry_text env) es)) (\<lambda>s. Inr (''{'' @ s @ ''}''))"
proof -
  let ?f = "\<lambda>(key, value). (key, and_then (rg_scalar_text env (JString key)) (\<lambda>k.
         and_then (canonical_encode env value) (\<lambda>v. Inr (k @ '':'' @ v))))"
  have f: "?f = (\<lambda>e. (fst e, entry_text env e))"
    by (auto simp: entry_text_def)
  have "sorted (map fst (map ?f es))"
    unfolding f using assms by (simp add: comp_def)
  then have "sort_key fst (map ?f es) = map ?f es"
    by (rule sort_key_id_if_sorted)
  moreover have "map snd (map ?f es) = map (entry_text env) es"
    unfolding f by (simp add: comp_def)
  ultimately show ?thesis by (simp only: canonical_encode.simps)
qed

lemma scalar_encoding: "is_scalar v \<Longrightarrow> canonical_encode env v = rg_scalar_text env v"
  by (cases v) simp_all

lemma canonical_start:
  assumes "scalar_texts_delimited env" "canonical_encode env v = Inr s"
  shows "s \<noteq> [] \<and> hd s \<notin> set '']},:''"
proof (cases "is_scalar v")
  case True
  with scalar_start[OF assms(1) True] assms(2) show ?thesis
    by (auto simp: scalar_encoding)
next
  case False
  with assms(2) show ?thesis by (cases v) (auto simp: result_simps)
qed

lemma entry_start:
  assumes "scalar_texts_delimited env" "entry_text env e = Inr s"
  shows "s \<noteq> [] \<and> hd s \<notin> set '']},:''"
proof -
  obtain k v where k: "rg_scalar_text env (JString (fst e)) = Inr k" "s = k @ '':'' @ v"
    using assms(2) by (auto simp: entry_text_def result_simps)
  from scalar_start[OF assms(1) _ k(1)] k(2) show ?thesis by (auto simp: hd_append)
qed

text \<open>A non-scalar is told apart by its bracket.\<close>

lemma scalar_bracket:
  assumes "scalar_texts_delimited env" "canonical_encode env v = Inr s" "canonical_encode env w = Inr t" "s @ x = t @ y"
  shows "is_scalar v \<longleftrightarrow> is_scalar w" "(\<exists>vs. v = JArray vs) \<longleftrightarrow> (\<exists>ws. w = JArray ws)"
proof -
  have hd: "hd s = hd t"
    using assms(4) canonical_start[OF assms(1,2)] canonical_start[OF assms(1,3)] by (metis hd_append)
  have head: "(if is_scalar u then hd r \<notin> set ''[{'' else hd r = (if \<exists>vs. u = JArray vs then CHR ''['' else CHR ''{''))"
    if "canonical_encode env u = Inr r" for u r
  proof (cases "is_scalar u")
    case True
    with that scalar_start[OF assms(1) True] show ?thesis
      by (auto simp: scalar_encoding)
  next
    case False
    with that show ?thesis by (cases u) (auto simp: result_simps)
  qed
  have scalar_array: "\<not> (is_scalar u \<and> (\<exists>vs. u = JArray vs))" for u
    by (cases u) auto
  show "is_scalar v \<longleftrightarrow> is_scalar w" "(\<exists>vs. v = JArray vs) \<longleftrightarrow> (\<exists>ws. w = JArray ws)"
    using head[OF assms(2)] head[OF assms(3)] hd scalar_array[of v] scalar_array[of w]
    by (auto split: if_splits)
qed

lemma canonical_prefix:
  assumes "scalar_texts_delimited env" "canonical_encode env v = Inr s" "canonical_encode env w = Inr t"
    "ordered_json v" "ordered_json w" "s @ x = t @ y" "delimited x" "delimited y"
  shows "v = w \<and> x = y"
  using assms(2-)
proof (induction "size v" arbitrary: v w s t x y rule: less_induct)
  case less
  note bracket = scalar_bracket[OF assms(1) less.prems(1,2,5)]
  show ?case
  proof (cases v)
    case (JArray vs)
    with bracket(2) obtain ws where w: "w = JArray ws" by auto
    obtain s' t' where st: "join_comma (map (canonical_encode env) vs) = Inr s'" "s = ''['' @ s' @ '']''"
        "join_comma (map (canonical_encode env) ws) = Inr t'" "t = ''['' @ t' @ '']''"
      using less.prems(1,2) unfolding JArray w by (auto simp: result_simps)
    have "vs = ws \<and> x = y"
    proof (rule join_comma_prefix[OF _ _ st(1,3)])
      fix a b s t x y
      assume ab: "a \<in> set vs" "b \<in> set ws" "canonical_encode env a = Inr s" "canonical_encode env b = Inr t"
        "s @ x = t @ y" "delimited x" "delimited y"
      have "size a < size v" using element_size[OF ab(1)] JArray by simp
      from less.hyps[OF this ab(3,4) _ _ ab(5-7)] less.prems(3,4) ab(1,2) show "a = b \<and> x = y"
        by (simp add: JArray w)
    next
      fix a s assume "canonical_encode env a = Inr s"
      from canonical_start[OF assms(1) this] show "s \<noteq> [] \<and> hd s \<noteq> CHR '']''" by auto
    qed (use less.prems(5) st in auto)
    with JArray w show ?thesis by simp
  next
    case (JObject es)
    with bracket obtain es' where w: "w = JObject es'" by (cases w) auto
    have sorted: "sorted (map fst es)" "sorted (map fst es')" using less.prems(3,4) JObject w by simp_all
    obtain s' t' where st: "join_comma (map (entry_text env) es) = Inr s'" "s = ''{'' @ s' @ ''}''"
        "join_comma (map (entry_text env) es') = Inr t'" "t = ''{'' @ t' @ ''}''"
      using less.prems(1,2) unfolding JObject w encode_ordered_object[OF sorted(1)] encode_ordered_object[OF sorted(2)]
      by (auto simp: result_simps)
    have "es = es' \<and> x = y"
    proof (rule join_comma_prefix[OF _ _ st(1,3)])
      fix a b s t x y
      assume ab: "a \<in> set es" "b \<in> set es'" "entry_text env a = Inr s" "entry_text env b = Inr t"
        "s @ x = t @ y" "delimited x" "delimited y"
      then obtain k u k' u' where k: "rg_scalar_text env (JString (fst a)) = Inr k" "canonical_encode env (snd a) = Inr u"
          "s = k @ '':'' @ u" "rg_scalar_text env (JString (fst b)) = Inr k'" "canonical_encode env (snd b) = Inr u'"
          "t = k' @ '':'' @ u'"
        by (auto simp: entry_text_def result_simps)
      have "delimited (CHR '':'' # r)" for r by (simp add: delimited_def)
      with scalar_prefix[OF assms(1) _ _ k(1,4), of "CHR '':'' # u @ x" "CHR '':'' # u' @ y"] ab(5) k(3,6)
      have key: "fst a = fst b" "u @ x = u' @ y" by auto
      have "size (snd a) < size v" using entry_size[of "fst a" "snd a" es] ab(1) JObject by simp
      from less.hyps[OF this k(2,5) _ _ key(2) ab(6,7)] less.prems(3,4) ab(1,2) JObject w
      show "a = b \<and> x = y" using key(1) by (simp add: prod_eq_iff)
    next
      fix a s assume "entry_text env a = Inr s"
      from entry_start[OF assms(1) this] show "s \<noteq> [] \<and> hd s \<noteq> CHR ''}''" by auto
    qed (use less.prems(5) st in auto)
    with JObject w show ?thesis by simp
  qed (use scalar_prefix[OF assms(1) _ _ _ _ less.prems(5-7), of v w] less.prems(1,2) bracket(1) in
      \<open>auto simp: scalar_encoding\<close>)
qed

lemma canonical_inject:
  assumes "scalar_texts_delimited env" "canonical_encode env v = Inr s" "canonical_encode env w = Inr s"
    "ordered_json v" "ordered_json w"
  shows "v = w"
  using canonical_prefix[OF assms, of "[]" "[]"] by (simp add: delimited_def)

section \<open>Objects and numbers\<close>

lemma of_list_entry:
  assumes "(k, v) \<in> set (bm_of_list es)"
  shows "(k, v) \<in> set es"
proof -
  have "bm_get (bm_of_list es) k = Some v"
    by (rule iffD2[OF bm_get_iff_in_set[OF bm_wf_of_list] assms])
  then show ?thesis by (auto simp: bm_get_of_list dest: map_of_SomeD)
qed

lemma ordered_object:
  assumes "\<And>e. e \<in> set es \<Longrightarrow> ordered_json (snd e)"
  shows "ordered_json (json_object es)"
proof -
  have "sorted (map fst (bm_of_list es))"
    using bm_wf_of_list[of es] by (simp add: bm_wf_def strict_sorted_imp_sorted)
  moreover have "ordered_json (snd e)" if "e \<in> set (bm_of_list es)" for e
    using that assms of_list_entry[of "fst e" "snd e" es] by simp
  ultimately show ?thesis by (simp add: json_object_def)
qed

lemma distinct_map_of_rev: "distinct (map fst es) \<Longrightarrow> map_of (rev es) = map_of es"
  by (intro map_of_eqI) (auto simp: distinct_rev rev_map[symmetric] map_of_eq_Some_iff simp del: map_of_eq_None_iff)

lemma map_of_keys:
  assumes "distinct (map fst es)"
  shows "es = map (\<lambda>k. (k, the (map_of es k))) (map fst es)"
proof (rule nth_equalityI)
  fix i assume i: "i < length es"
  then have "map_of es (fst (es ! i)) = Some (snd (es ! i))"
    using assms by (simp add: map_of_eq_Some_iff)
  with i show "es ! i = map (\<lambda>k. (k, the (map_of es k))) (map fst es) ! i" by simp
qed simp

lemma object_inject:
  assumes "json_object es = json_object es'" "map fst es = map fst es'" "distinct (map fst es)"
  shows "es = es'"
proof -
  have "map_of (rev es) = map_of (rev es')"
    using assms(1) bm_get_of_list[of es] bm_get_of_list[of es'] by (auto simp: json_object_def fun_eq_iff)
  then have "map_of es = map_of es'" using assms(2,3) by (metis distinct_map_of_rev)
  moreover have "distinct (map fst es')" using assms(2,3) by simp
  ultimately show ?thesis
    using map_of_keys[OF assms(3)] map_of_keys[of es'] assms(2) by metis
qed

definition digits_value :: "string \<Rightarrow> nat" where
  "digits_value = foldl (\<lambda>n c. 10 * n + (of_char c - 48)) 0"

lemma digits_value_show: "digits_value (show_nat n) = n"
proof (induction n rule: show_nat.induct)
  case (1 n)
  have digit: "of_char (char_of (48 + d :: nat) :: char) = 48 + d" if "d < 10" for d
    using that by simp
  show ?case
  proof (cases "n < 10")
    case True
    then show ?thesis by (simp add: show_nat.simps[of n] digits_value_def)
  next
    case False
    with 1 digit[of "n mod 10"] show ?thesis
      by (simp add: show_nat.simps[of n] digits_value_def)
  qed
qed

lemma json_number_inject: "json_number a = json_number b \<longleftrightarrow> a = b"
  by (metis digits_value_show json_number_def json_value.inject(2) word_unat_eq_iff)

section \<open>Policies\<close>

lemma obligation_value_inject: "obligation_value a = obligation_value b \<Longrightarrow> a = b"
  unfolding obligation_value_def
  by (drule object_inject) (auto simp: inj_map_eq_map inj_def intro: RootProtectedObligation.equality)

lemma verification_kind_inject: "verification_kind_text a = verification_kind_text b \<Longrightarrow> a = b"
  by (cases a; cases b) (simp_all add: verification_kind_text_def)

lemma policy_material_inject:
  assumes "policy_hash_material p = policy_hash_material q" "rpp_planner_policy_sha256 p = rpp_planner_policy_sha256 q"
  shows "p = q"
proof -
  have "inj obligation_value" "inj (JString \<circ> verification_kind_text)"
    by (auto simp: inj_def dest: obligation_value_inject verification_kind_inject)
  with object_inject[OF assms(1)[unfolded policy_hash_material_def]] assms(2) show ?thesis
    by (auto simp: json_number_inject inj_map_eq_map intro: RootPlannerPolicy.equality)
qed

lemma policy_material_ordered: "ordered_json (policy_hash_material p)"
  unfolding policy_hash_material_def
  by (rule ordered_object) (auto simp: obligation_value_def json_number_def intro!: ordered_object)

lemma validated_policy_digest:
  assumes "root_policy_validate env p = Inr ()"
  obtains s where "canonical_encode env (policy_hash_material p) = Inr s"
    "rpp_planner_policy_sha256 p = encode_digest (be_sha256 env (str_bytes s))"
proof -
  have "policy_content_sha256 env p = Inr (rpp_planner_policy_sha256 p)"
    using assms by (auto simp: root_policy_validate_def policy_integrity_violations_def digest_violations_Nil Let_def
        split: if_splits)
  with that show thesis
    by (auto simp: policy_content_sha256_def canonical_sha256_def encode_sha256_def result_simps)
qed

text \<open>The texts that are hashed for two policies are told apart by the hash.\<close>

definition hash_separates :: "('a) registry_env_scheme \<Rightarrow> json_value \<Rightarrow> json_value \<Rightarrow> bool" where
  "hash_separates env v w \<longleftrightarrow>
     (\<forall>s t. canonical_encode env v = Inr s \<and> canonical_encode env w = Inr t \<and> s \<noteq> t
        \<longrightarrow> encode_sha256 env (str_bytes s) \<noteq> encode_sha256 env (str_bytes t))"

lemma policy_digest_binds:
  assumes "scalar_texts_delimited env" "root_policy_validate env p = Inr ()" "root_policy_validate env q = Inr ()"
    "hash_separates env (policy_hash_material p) (policy_hash_material q)"
    "rpp_planner_policy_sha256 p = rpp_planner_policy_sha256 q"
  shows "p = q"
proof -
  obtain s where s: "canonical_encode env (policy_hash_material p) = Inr s"
      "rpp_planner_policy_sha256 p = encode_digest (be_sha256 env (str_bytes s))"
    using assms(2) by (rule validated_policy_digest)
  obtain t where t: "canonical_encode env (policy_hash_material q) = Inr t"
      "rpp_planner_policy_sha256 q = encode_digest (be_sha256 env (str_bytes t))"
    using assms(3) by (rule validated_policy_digest)
  have "s = t"
    using assms(4,5) s t by (auto simp: hash_separates_def encode_sha256_def)
  with canonical_inject[OF assms(1) s(1)] t(1) have "policy_hash_material p = policy_hash_material q"
    by (simp add: policy_material_ordered)
  then show ?thesis using assms(5) by (rule policy_material_inject)
qed

end
