(* ===== verification/Prompt_Router.thy ===== *)
theory Prompt_Router
  imports Prompt_Types Entry_Maps Dependency_Search
begin

text \<open>
  The semantic task router's output contract, \<open>crates/prompting/src/router.rs\<close>: the route that a model
  proposes and the pass that collects every violation of the contract. The number \<open>confidence\<close> is kept as
  the text of the JSON number; nothing computes with it.
\<close>

section \<open>Routes\<close>

datatype RouteAction = RouteClarify | RouteAnswer | RouteInspect | RouteChange

datatype RouteStrategy = StrategyDirect | StrategyDelegate

datatype RequiredAccess = RequiredNone | RequiredReadOnly | RequiredWorkspaceWrite

text \<open>The derived order is the order of declaration.\<close>

fun required_access_rank :: "RequiredAccess \<Rightarrow> nat" where
  "required_access_rank RequiredNone = 0"
| "required_access_rank RequiredReadOnly = 1"
| "required_access_rank RequiredWorkspaceWrite = 2"

instantiation RequiredAccess :: linorder
begin

definition less_eq_RequiredAccess :: "RequiredAccess \<Rightarrow> RequiredAccess \<Rightarrow> bool" where
  "less_eq_RequiredAccess a b = (required_access_rank a \<le> required_access_rank b)"

definition less_RequiredAccess :: "RequiredAccess \<Rightarrow> RequiredAccess \<Rightarrow> bool" where
  "less_RequiredAccess a b = (required_access_rank a < required_access_rank b)"

instance
proof
  fix a b :: RequiredAccess
  show "a \<le> b \<Longrightarrow> b \<le> a \<Longrightarrow> a = b"
    by (cases a; cases b) (simp_all add: less_eq_RequiredAccess_def)
qed (auto simp: less_eq_RequiredAccess_def less_RequiredAccess_def)

end

record RouteEvidence =
  rv_section :: string
  rv_basis :: string

record SuggestedSubtask =
  st_id :: string
  st_objective :: string
  st_required_access :: RequiredAccess
  st_acceptance_criteria :: "string list"
  st_depends_on :: "string list"

record TaskRouterOutput =
  ro_action :: RouteAction
  ro_strategy :: RouteStrategy
  ro_required_access :: RequiredAccess
  ro_confidence :: string
  ro_evidence :: "RouteEvidence list"
  ro_clarification_questions :: "string list"
  ro_suggested_subtasks :: "SuggestedSubtask list"

datatype (plugins only: code) RouterInvariantViolation =
    RouteTooManySuggestedSubtasks u32 u32
  | RouteRequiredAccessMismatch RouteAction RequiredAccess RequiredAccess
  | RouteDelegateForUnsupportedAction RouteAction
  | RouteClarificationQuestionPresenceMismatch RouteAction
  | RouteSuggestedSubtaskPresenceMismatch RouteStrategy
  | RouteBlankEvidenceField u32
  | RouteUnknownEvidenceSection u32 string
  | RouteDuplicateEvidenceSection string u32
  | RouteUserSectionCount u32
  | RouteUserEvidenceCitationCount string u32
  | RouteBlankClarificationQuestion u32
  | RouteSubtaskAccessExceedsRoute u32 string
  | RouteBlankSubtaskId u32
  | RouteBlankSubtaskObjective u32 string
  | RouteBlankAcceptanceCriterion u32 u32 string
  | RouteBlankDependency u32 u32 string
  | RouteDuplicateSubtaskId string u32
  | RouteSelfDependency string
  | RouteUnknownDependency string string
  | RouteDependencyCycle

definition TASK_ROUTER_ID :: string where
  "TASK_ROUTER_ID = ''birdcode.semantic-task-router''"

definition is_task_router_key :: "PromptKey \<Rightarrow> bool" where
  "is_task_router_key key = (pk_id key = TASK_ROUTER_ID)"

definition task_router_key :: PromptKey where
  "task_router_key = \<lparr>pk_id = TASK_ROUTER_ID, pk_version = version_new 1 1 3\<rparr>"

section \<open>The dependency graph of the suggested subtasks\<close>

type_synonym task_map = "(string, SuggestedSubtask) btree_map"

text \<open>\<open>tasks[id]\<close> is only reached with a known identity.\<close>

definition task_dependencies :: "task_map \<Rightarrow> string \<Rightarrow> string list" where
  "task_dependencies tasks node =
     (case bm_get tasks node of None \<Rightarrow> [] | Some task \<Rightarrow> st_depends_on task)"

fun route_visit ::
  "nat \<Rightarrow> string \<Rightarrow> task_map \<Rightarrow> string btree_set \<Rightarrow> string btree_set \<Rightarrow> string search_result"
and route_visit_dependencies ::
  "nat \<Rightarrow> string list \<Rightarrow> task_map \<Rightarrow> string btree_set \<Rightarrow> string btree_set \<Rightarrow> string search_result"
where
  "route_visit 0 node tasks active complete = None"
| "route_visit (Suc n) node tasks active complete =
     (if bs_contains complete node then Some (False, active, complete)
      else if bs_contains active node then Some (True, active, complete)
      else (case route_visit_dependencies n (task_dependencies tasks node) tasks
                   (bs_insert node active) complete of
              None \<Rightarrow> None
            | Some (True, active', complete') \<Rightarrow> Some (True, active', complete')
            | Some (False, active', complete') \<Rightarrow>
                Some (False, bs_remove node active', bs_insert node complete')))"
| "route_visit_dependencies n [] tasks active complete = Some (False, active, complete)"
| "route_visit_dependencies n (dependency # ds) tasks active complete =
     (if \<not> bm_contains_key tasks dependency
        then route_visit_dependencies n ds tasks active complete
      else case route_visit n dependency tasks active complete of
          None \<Rightarrow> None
        | Some (True, active', complete') \<Rightarrow> Some (True, active', complete')
        | Some (False, active', complete') \<Rightarrow>
            route_visit_dependencies n ds tasks active' complete')"

definition route_graph_has_cycle :: "task_map \<Rightarrow> bool option" where
  "route_graph_has_cycle tasks =
     map_option fst (route_visit_dependencies (Suc (length tasks)) (bm_keys tasks) tasks [] [])"

interpretation route_search: dependency_search task_dependencies bm_keys route_visit route_visit_dependencies
  by unfold_locales
    (simp_all add: task_dependencies_def bm_contains_key_def flip: bm_contains_key_iff)

lemma route_graph_has_cycle_iff:
  "route_graph_has_cycle tasks = Some (\<not> acyclic (route_search.edges tasks))"
  using route_search.search_decides[of tasks] by (simp add: route_graph_has_cycle_def bm_keys_def)

section \<open>The collecting pass\<close>

definition expected_access :: "RouteAction \<Rightarrow> RequiredAccess" where
  "expected_access action =
     (case action of RouteClarify \<Rightarrow> RequiredNone | RouteAnswer \<Rightarrow> RequiredNone
      | RouteInspect \<Rightarrow> RequiredReadOnly | RouteChange \<Rightarrow> RequiredWorkspaceWrite)"

definition collect_route_axis_violations :: "TaskRouterOutput \<Rightarrow> RouterInvariantViolation list" where
  "collect_route_axis_violations output =
     report (ro_required_access output \<noteq> expected_access (ro_action output))
       (RouteRequiredAccessMismatch (ro_action output) (expected_access (ro_action output))
         (ro_required_access output))
     @ report (ro_strategy output = StrategyDelegate \<and> ro_action output \<notin> {RouteInspect, RouteChange})
         (RouteDelegateForUnsupportedAction (ro_action output))
     @ report ((ro_clarification_questions output = []) = (ro_action output = RouteClarify))
         (RouteClarificationQuestionPresenceMismatch (ro_action output))
     @ report ((ro_suggested_subtasks output = []) = (ro_strategy output = StrategyDelegate))
         (RouteSuggestedSubtaskPresenceMismatch (ro_strategy output))"

definition evidence_field_violations ::
  "string btree_set \<Rightarrow> nat \<times> RouteEvidence \<Rightarrow> RouterInvariantViolation list" where
  "evidence_field_violations sections = (\<lambda>(index, evidence).
     report (is_blank (rv_section evidence) \<or> is_blank (rv_basis evidence))
       (RouteBlankEvidenceField (wire_u32 index))
     @ report (\<not> bs_contains sections (rv_section evidence))
         (RouteUnknownEvidenceSection (wire_u32 index) (rv_section evidence)))"

definition collect_minimal_evidence_violations ::
  "TaskRouterOutput \<Rightarrow> PromptInvocation \<Rightarrow> RouterInvariantViolation list" where
  "collect_minimal_evidence_violations output invocation =
     (let cited = map rv_section (ro_evidence output);
          citation_counts = entry_counts cited;
          occurrences = (\<lambda>section. case bm_get citation_counts section of None \<Rightarrow> 0 | Some n \<Rightarrow> n);
          user_sections = filter (\<lambda>section. ds_trust section = TrustUser) (pi_sections invocation) in
      map (\<lambda>section. RouteDuplicateEvidenceSection section (wire_u32 (occurrences section)))
        (first_occurrences [] (filter (\<lambda>section. occurrences section > 1) cited))
      @ (case user_sections of
           [user_section] \<Rightarrow>
             report (occurrences (ds_name user_section) = 0)
               (RouteUserEvidenceCitationCount (ds_name user_section)
                 (wire_u32 (occurrences (ds_name user_section))))
         | _ \<Rightarrow> [RouteUserSectionCount (wire_u32 (length user_sections))]))"

definition subtask_violations ::
  "RequiredAccess \<Rightarrow> nat \<times> SuggestedSubtask \<Rightarrow> RouterInvariantViolation list" where
  "subtask_violations access = (\<lambda>(index, task).
     report (st_required_access task > access)
       (RouteSubtaskAccessExceedsRoute (wire_u32 index) (st_id task))
     @ report (is_blank (st_id task)) (RouteBlankSubtaskId (wire_u32 index))
     @ report (is_blank (st_objective task)) (RouteBlankSubtaskObjective (wire_u32 index) (st_id task))
     @ concat (map (\<lambda>(criterion_index, criterion). report (is_blank criterion)
         (RouteBlankAcceptanceCriterion (wire_u32 index) (wire_u32 criterion_index) (st_id task)))
         (enumerate0 (st_acceptance_criteria task)))
     @ concat (map (\<lambda>(dependency_index, dependency). report (is_blank dependency)
         (RouteBlankDependency (wire_u32 index) (wire_u32 dependency_index) (st_id task)))
         (enumerate0 (st_depends_on task))))"

definition route_task_map :: "SuggestedSubtask list \<Rightarrow> task_map" where
  "route_task_map subtasks = first_entries (map (\<lambda>task. (st_id task, task)) subtasks)"

definition task_dependency_violations ::
  "task_map \<Rightarrow> SuggestedSubtask \<Rightarrow> RouterInvariantViolation list" where
  "task_dependency_violations tasks task =
     concat (map (\<lambda>dependency.
       if dependency = st_id task then [RouteSelfDependency (st_id task)]
       else report (\<not> bm_contains_key tasks dependency) (RouteUnknownDependency (st_id task) dependency))
       (st_depends_on task))"

text \<open>
  The comparison with version 1.1.1 is the order of the crate \<open>semver\<close>, a parameter. The cycle search
  always returns (\<open>route_graph_has_cycle_iff\<close>).
\<close>

definition router_invariant_violations ::
  "(Version \<Rightarrow> Version \<Rightarrow> bool) \<Rightarrow> TaskRouterOutput \<Rightarrow> PromptInvocation \<Rightarrow> Version
     \<Rightarrow> RouterInvariantViolation list" where
  "router_invariant_violations version_le output invocation prompt_version =
     (let subtasks = ro_suggested_subtasks output;
          maximum = pm_max_suggested_subtasks (pi_limits invocation);
          sections = bs_of_list (map ds_name (pi_sections invocation));
          tasks = route_task_map subtasks in
      report (length subtasks > unat maximum)
        (RouteTooManySuggestedSubtasks maximum (wire_u32 (length subtasks)))
      @ collect_route_axis_violations output
      @ concat (map (evidence_field_violations sections) (enumerate0 (ro_evidence output)))
      @ (if version_le (version_new 1 1 1) prompt_version
           then collect_minimal_evidence_violations output invocation else [])
      @ concat (map (\<lambda>(index, question). report (is_blank question)
          (RouteBlankClarificationQuestion (wire_u32 index)))
          (enumerate0 (ro_clarification_questions output)))
      @ concat (map (subtask_violations (ro_required_access output)) (enumerate0 subtasks))
      @ concat (map (\<lambda>(id, occurrences). report (occurrences > 1)
          (RouteDuplicateSubtaskId id (wire_u32 occurrences)))
          (entry_counts (map st_id subtasks)))
      @ concat (map (task_dependency_violations tasks) subtasks)
      @ report (route_graph_has_cycle tasks \<noteq> Some False) RouteDependencyCycle)"

end
