(* ===== verification/Prompt_Registry.thy ===== *)
theory Prompt_Registry
  imports Root_Planner_Output Prompt_Router
begin

text \<open>
  The prompt registry, \<open>crates/prompting/src/manifest.rs\<close> and \<open>compiler.rs\<close>: manifests and their
  validation, the registry of manifests, the compilation of an invocation into messages, and the
  validation of a model's output against the manifest and the contract of its prompt family.

  The contracts of the task router, the root planner and its repair are those of \<open>Prompt_Router\<close> and
  \<open>Root_Planner_Output\<close>. The contracts of the critic, the explorer, the reviewer and the two versions of
  the planner-replanner are fields of the environment; their violations appear as serialized values.
  Values without duplicate keys are kept as in \<open>Prompt_Types\<close>.
\<close>

section \<open>Errors, identifiers and manifests\<close>

datatype (plugins only: code) PromptError =
    PromptJson string
  | SchemaCompilation string string
  | SchemaValidation string "string list"
  | InvalidPromptId string
  | EmptyManifestField string
  | DuplicatePrompt PromptKey
  | PromptNotFound PromptKey
  | DuplicateSection string
  | DuplicateRuntimeConstraint string
  | InvalidRuntimeConstraint string
  | TrustBoundary string
  | CompiledPromptMismatch PromptKey
  | OutputInvariant "RouterInvariantViolation list"
  | RootPlannerOutputInvariant "RootPlannerInvariantViolation list"
  | PlanCriticOutputInvariant "json_value list"
  | RepositoryExplorerOutputInvariant "json_value list"
  | RepositoryReviewerOutputInvariant "json_value list"
  | PlannerReplannerOutputInvariant "json_value list"
  | PlannerReplannerV2OutputInvariant "json_value list"
  | GenerationSchemaDirective string

datatype PromptRole = RoleSystemPrompt

record PromptManifest =
  pm_manifest_schema_version :: u32
  pm_id :: PromptId
  pm_version :: Version
  pm_role :: PromptRole
  pm_purpose :: string
  pm_system_policy :: string
  pm_input_schema :: json_value
  pm_generation_schema :: json_value
  pm_output_schema :: json_value

type_synonym prompt_family_check = "json_value \<Rightarrow> PromptInvocation \<Rightarrow> json_value list + unit"

record prompting_env = root_env +
  pn_manifest_from_value :: "json_value \<Rightarrow> string + PromptManifest"
  pn_router_from_value :: "json_value \<Rightarrow> string + TaskRouterOutput"
  pn_validate_plan_critic_output :: prompt_family_check
  pn_validate_repository_explorer_output :: prompt_family_check
  pn_validate_repository_review_output :: prompt_family_check
  pn_validate_planner_replanner_output :: prompt_family_check
  pn_validate_planner_replanner_v2_output :: prompt_family_check

definition is_ascii_lowercase :: "char \<Rightarrow> bool" where
  "is_ascii_lowercase c = (97 \<le> byte c \<and> byte c \<le> 122)"

fun prompt_id_rest :: "bool \<Rightarrow> string \<Rightarrow> bool" where
  "prompt_id_rest previous_was_separator [] = (\<not> previous_was_separator)"
| "prompt_id_rest previous_was_separator (c # cs) =
     (if is_ascii_lowercase c \<or> is_ascii_digit c then prompt_id_rest False cs
      else if (c = CHR ''.'' \<or> c = CHR ''-'') \<and> \<not> previous_was_separator then prompt_id_rest True cs
      else False)"

definition valid_prompt_id :: "string \<Rightarrow> bool" where
  "valid_prompt_id value =
     (case value of [] \<Rightarrow> False
      | first # rest \<Rightarrow> is_ascii_lowercase first \<and> prompt_id_rest False rest)"

definition prompt_id_new :: "string \<Rightarrow> PromptError + PromptId" where
  "prompt_id_new value = (if valid_prompt_id value then Inr value else Inl (InvalidPromptId value))"

definition manifest_key :: "PromptManifest \<Rightarrow> PromptKey" where
  "manifest_key self = \<lparr>pk_id = pm_id self, pk_version = pm_version self\<rparr>"

text \<open>\<open>serde_json::to_value\<close> of a manifest.\<close>

definition manifest_value :: "('a) registry_env_scheme \<Rightarrow> PromptManifest \<Rightarrow> json_value" where
  "manifest_value env self = json_object
     [(''manifest_schema_version'', json_number (pm_manifest_schema_version self)),
      (''id'', JString (pm_id self)),
      (''version'', JString (rg_version_text env (pm_version self))),
      (''role'', JString ''system''),
      (''purpose'', JString (pm_purpose self)),
      (''system_policy'', JString (pm_system_policy self)),
      (''input_schema'', pm_input_schema self),
      (''generation_schema'', pm_generation_schema self),
      (''output_schema'', pm_output_schema self)]"

definition content_sha256 :: "('a) registry_env_scheme \<Rightarrow> PromptManifest \<Rightarrow> PromptError + string" where
  "content_sha256 env self = map_err PromptJson (canonical_sha256 env (manifest_value env self))"

section \<open>Schemas\<close>

definition compile_schema ::
  "('a) registry_env_scheme \<Rightarrow> json_value \<Rightarrow> string \<Rightarrow> PromptError + (json_value \<Rightarrow> string list)" where
  "compile_schema env schema target = map_err (SchemaCompilation target) (rg_validator_for env schema)"

definition validate_value ::
  "('a) registry_env_scheme \<Rightarrow> json_value \<Rightarrow> json_value \<Rightarrow> string \<Rightarrow> PromptError + unit" where
  "validate_value env schema value target =
     and_then (compile_schema env schema target) (\<lambda>iter_errors.
       let errors = iter_errors value in
       if errors = [] then Inr () else Inl (SchemaValidation target errors))"

text \<open>The accessors of \<open>serde_json::Value\<close>.\<close>

fun as_object :: "json_value \<Rightarrow> (string \<times> json_value) list option" where
  "as_object (JObject entries) = Some entries"
| "as_object _ = None"

fun as_str :: "json_value \<Rightarrow> string option" where
  "as_str (JString s) = Some s"
| "as_str _ = None"

definition ensure_object_contract :: "json_value \<Rightarrow> string \<Rightarrow> PromptError + unit" where
  "ensure_object_contract schema target =
     (case as_object schema of
        Some entries \<Rightarrow>
          if bm_get entries ''type'' = Some (JString ''object'') then Inr ()
          else Inl (SchemaCompilation target ''top-level schema must declare type object'')
      | None \<Rightarrow> Inl (SchemaCompilation target ''top-level schema must declare type object''))"

section \<open>Generation directives\<close>

definition RUNTIME_CONST :: string where
  "RUNTIME_CONST = ''x-birdcode-runtime-const''"

definition DYNAMIC_ENUM :: string where
  "DYNAMIC_ENUM = ''x-birdcode-dynamic-enum''"

definition valid_runtime_const :: "(string \<times> json_value) list \<Rightarrow> json_value \<Rightarrow> bool" where
  "valid_runtime_const entries directive =
     (length entries = 1
      \<and> (case as_object directive of None \<Rightarrow> False
         | Some d \<Rightarrow>
             length d = 2
             \<and> (case Option.bind (bm_get d ''constraint'') as_str of None \<Rightarrow> False
                | Some name \<Rightarrow> name \<noteq> [] \<and> length name \<le> 128)
             \<and> (case Option.bind (bm_get d ''pointer'') as_str of None \<Rightarrow> False
                | Some pointer \<Rightarrow>
                    take 1 pointer = ''/'' \<and> length pointer \<le> 512 \<and> CHR 0x00 \<notin> set pointer)))"

definition directives_here_ok ::
  "('a) registry_env_scheme \<Rightarrow> (string \<times> json_value) list \<Rightarrow> PromptError + unit" where
  "directives_here_ok env entries =
     (if bm_contains_key entries RUNTIME_CONST \<and> bm_contains_key entries DYNAMIC_ENUM
        then Inl (GenerationSchemaDirective ''schema node cannot combine generation directives'')
      else case bm_get entries RUNTIME_CONST of
        Some directive \<Rightarrow>
          if valid_runtime_const entries directive then Inr ()
          else Inl (GenerationSchemaDirective ''invalid runtime const directive'')
      | None \<Rightarrow>
          (case bm_get entries DYNAMIC_ENUM of
             Some directive \<Rightarrow>
               if as_str directive \<noteq> Some ''input_section_names''
                  \<or> Option.bind (bm_get entries ''type'') as_str \<noteq> Some ''string''
                  \<or> bm_contains_key entries ''enum''
               then Inl (GenerationSchemaDirective (rg_value_text env directive))
               else Inr ()
           | None \<Rightarrow> Inr ()))"

fun validate_generation_directives ::
  "('a) registry_env_scheme \<Rightarrow> json_value \<Rightarrow> PromptError + unit"
and validate_directives_array ::
  "('a) registry_env_scheme \<Rightarrow> json_value list \<Rightarrow> PromptError + unit"
and validate_directives_object ::
  "('a) registry_env_scheme \<Rightarrow> (string \<times> json_value) list \<Rightarrow> PromptError + unit"
where
  "validate_generation_directives env (JArray values) = validate_directives_array env values"
| "validate_generation_directives env (JObject entries) =
     (case directives_here_ok env entries of Inl e \<Rightarrow> Inl e
      | Inr _ \<Rightarrow> validate_directives_object env entries)"
| "validate_generation_directives env JNull = Inr ()"
| "validate_generation_directives env (JBool b) = Inr ()"
| "validate_generation_directives env (JNumber n) = Inr ()"
| "validate_generation_directives env (JString s) = Inr ()"
| "validate_directives_array env [] = Inr ()"
| "validate_directives_array env (v # vs) =
     (case validate_generation_directives env v of Inl e \<Rightarrow> Inl e
      | Inr _ \<Rightarrow> validate_directives_array env vs)"
| "validate_directives_object env [] = Inr ()"
| "validate_directives_object env ((k, v) # es) =
     (case validate_generation_directives env v of Inl e \<Rightarrow> Inl e
      | Inr _ \<Rightarrow> validate_directives_object env es)"

fun contains_generation_directive :: "json_value \<Rightarrow> bool"
and array_contains_directive :: "json_value list \<Rightarrow> bool"
and object_contains_directive :: "(string \<times> json_value) list \<Rightarrow> bool"
where
  "contains_generation_directive (JArray values) = array_contains_directive values"
| "contains_generation_directive (JObject entries) =
     (bm_contains_key entries RUNTIME_CONST \<or> bm_contains_key entries DYNAMIC_ENUM
      \<or> object_contains_directive entries)"
| "contains_generation_directive JNull = False"
| "contains_generation_directive (JBool b) = False"
| "contains_generation_directive (JNumber n) = False"
| "contains_generation_directive (JString s) = False"
| "array_contains_directive [] = False"
| "array_contains_directive (v # vs) =
     (contains_generation_directive v \<or> array_contains_directive vs)"
| "object_contains_directive [] = False"
| "object_contains_directive ((k, v) # es) =
     (contains_generation_directive v \<or> object_contains_directive es)"

text \<open>\<open>object.remove(key)\<close>\<close>

definition bm_remove :: "'k \<Rightarrow> ('k, 'v) btree_map \<Rightarrow> ('k, 'v) btree_map" where
  "bm_remove k m = filter (\<lambda>e. fst e \<noteq> k) m"

definition const_resolvable :: "json_value \<Rightarrow> bool" where
  "const_resolvable value =
     (case value of JNull \<Rightarrow> True | JBool b \<Rightarrow> True | JNumber n \<Rightarrow> True
      | JString text \<Rightarrow> length text \<le> 16384 | JArray vs \<Rightarrow> False | JObject es \<Rightarrow> False)"

text \<open>What replaces an object that holds a runtime const directive; \<open>entries\<close> are the other keywords.\<close>

definition expand_runtime_const ::
  "('a) registry_env_scheme \<Rightarrow> RuntimeConstraint list \<Rightarrow> json_value \<Rightarrow> (string \<times> json_value) list
     \<Rightarrow> PromptError + json_value" where
  "expand_runtime_const env runtime_constraints directive entries =
     (if entries \<noteq> [] then Inl (GenerationSchemaDirective ''runtime const must be the only schema keyword'')
      else case as_object directive of
        None \<Rightarrow> Inl (GenerationSchemaDirective ''runtime const directive must be an object'')
      | Some d \<Rightarrow>
         (case Option.bind (bm_get d ''constraint'') as_str of
            None \<Rightarrow> Inl (GenerationSchemaDirective ''runtime const constraint is missing'')
          | Some constraint \<Rightarrow>
             (case Option.bind (bm_get d ''pointer'') as_str of
                None \<Rightarrow> Inl (GenerationSchemaDirective ''runtime const pointer is missing'')
              | Some pointer \<Rightarrow>
                 (case Option.bind (List.find (\<lambda>c. rc_name c = constraint) runtime_constraints)
                         (\<lambda>c. rg_pointer env (rc_payload c) pointer) of
                    Some resolved \<Rightarrow>
                      if const_resolvable resolved
                        then Inr (JObject (bm_insert ''const'' resolved entries))
                      else Inl (GenerationSchemaDirective
                        (''runtime const '' @ constraint @ pointer @ '' is unresolved or non-scalar''))
                  | None \<Rightarrow> Inl (GenerationSchemaDirective
                      (''runtime const '' @ constraint @ pointer @ '' is unresolved or non-scalar''))))))"

text \<open>
  The loop over the values of an object visits the array of section names that a dynamic enum
  inserts; \<open>names\<close> are the strings of that array. The weight of a value counts a dynamic enum
  with the array that replaces it.
\<close>

fun directive_weight :: "nat \<Rightarrow> json_value \<Rightarrow> nat"
and array_weight :: "nat \<Rightarrow> json_value list \<Rightarrow> nat"
and object_weight :: "nat \<Rightarrow> (string \<times> json_value) list \<Rightarrow> nat"
where
  "directive_weight n (JArray values) = Suc (array_weight n values)"
| "directive_weight n (JObject entries) = Suc (object_weight n entries)"
| "directive_weight n JNull = 1"
| "directive_weight n (JBool b) = 1"
| "directive_weight n (JNumber m) = 1"
| "directive_weight n (JString s) = 1"
| "array_weight n [] = 1"
| "array_weight n (v # vs) = Suc (directive_weight n v + array_weight n vs)"
| "object_weight n [] = 1"
| "object_weight n ((k, v) # es) =
     Suc ((if k = DYNAMIC_ENUM then 2 * n + 4 else 0) + directive_weight n v + object_weight n es)"

lemma object_weight_remove:
  assumes "bm_get es k = Some v"
  shows "object_weight n (bm_remove k es) + Suc (if k = DYNAMIC_ENUM then 2 * n + 4 else 0) + directive_weight n v
    \<le> object_weight n es"
proof -
  have le: "object_weight n (bm_remove k es) \<le> object_weight n es" for es :: "(string \<times> json_value) list"
    by (induction es) (auto simp: bm_remove_def)
  from assms show ?thesis
  proof (induction es)
    case (Cons e es)
    obtain k' v' where e: "e = (k', v')" by (cases e)
    show ?case
    proof (cases "k' = k")
      case True
      with Cons.prems e le[of es] show ?thesis
        by (simp add: bm_get_def bm_remove_def)
    next
      case False
      with Cons.prems have "bm_get es k = Some v" by (simp add: e bm_get_def)
      with Cons.IH False e show ?thesis by (simp add: bm_remove_def)
    qed
  qed simp
qed

lemma object_weight_insert:
  "k \<noteq> DYNAMIC_ENUM \<Longrightarrow>
     object_weight n (bm_insert k v es) \<le> object_weight n es + Suc (directive_weight n v)"
  by (induction es rule: list.induct) auto

lemma array_weight_names: "array_weight n (map JString names) = Suc (2 * length names)"
  by (induction names) auto

lemma directive_weight_pos: "0 < directive_weight n v"
  by (cases v) auto

function expand_generation_directives ::
  "('a) registry_env_scheme \<Rightarrow> string list \<Rightarrow> RuntimeConstraint list \<Rightarrow> json_value \<Rightarrow> PromptError + json_value"
and expand_array ::
  "('a) registry_env_scheme \<Rightarrow> string list \<Rightarrow> RuntimeConstraint list \<Rightarrow> json_value list
     \<Rightarrow> PromptError + json_value list"
and expand_object ::
  "('a) registry_env_scheme \<Rightarrow> string list \<Rightarrow> RuntimeConstraint list \<Rightarrow> (string \<times> json_value) list
     \<Rightarrow> PromptError + (string \<times> json_value) list"
where
  "expand_generation_directives env names cs (JArray values) =
     and_then (expand_array env names cs values) (\<lambda>vs. Inr (JArray vs))"
| "expand_generation_directives env names cs (JObject entries) =
     (case bm_get entries RUNTIME_CONST of
        Some directive \<Rightarrow> expand_runtime_const env cs directive (bm_remove RUNTIME_CONST entries)
      | None \<Rightarrow>
         (case bm_get entries DYNAMIC_ENUM of
            Some directive \<Rightarrow>
              if as_str directive \<noteq> Some ''input_section_names''
                then Inl (GenerationSchemaDirective (rg_value_text env directive))
              else and_then (expand_object env names cs
                     (bm_insert ''enum'' (JArray (map JString names)) (bm_remove DYNAMIC_ENUM entries)))
                   (\<lambda>es. Inr (JObject es))
          | None \<Rightarrow> and_then (expand_object env names cs entries) (\<lambda>es. Inr (JObject es))))"
| "expand_generation_directives env names cs JNull = Inr JNull"
| "expand_generation_directives env names cs (JBool b) = Inr (JBool b)"
| "expand_generation_directives env names cs (JNumber n) = Inr (JNumber n)"
| "expand_generation_directives env names cs (JString s) = Inr (JString s)"
| "expand_array env names cs [] = Inr []"
| "expand_array env names cs (v # vs) =
     and_then (expand_generation_directives env names cs v) (\<lambda>v'.
     and_then (expand_array env names cs vs) (\<lambda>vs'. Inr (v' # vs')))"
| "expand_object env names cs [] = Inr []"
| "expand_object env names cs ((k, v) # es) =
     and_then (expand_generation_directives env names cs v) (\<lambda>v'.
     and_then (expand_object env names cs es) (\<lambda>es'. Inr ((k, v') # es')))"
  by pat_completeness auto
termination
proof (relation "measure (\<lambda>x. case x of
    Inl (env, names, cs, v) \<Rightarrow> directive_weight (length names) v
  | Inr (Inl (env, names, cs, vs)) \<Rightarrow> array_weight (length names) vs
  | Inr (Inr (env, names, cs, es)) \<Rightarrow> object_weight (length names) es)")
  fix env :: "('a) registry_env_scheme" and names :: "string list" and cs :: "RuntimeConstraint list"
    and entries :: "(string \<times> json_value) list" and directive
  assume "bm_get entries DYNAMIC_ENUM = Some directive"
  then have "object_weight (length names)
      (bm_insert ''enum'' (JArray (map JString names)) (bm_remove DYNAMIC_ENUM entries))
      \<le> object_weight (length names) entries"
    using object_weight_remove[of entries DYNAMIC_ENUM directive "length names"]
      object_weight_insert[of "''enum''" "length names" "JArray (map JString names)" "bm_remove DYNAMIC_ENUM entries"]
    by (simp add: array_weight_names DYNAMIC_ENUM_def)
  then show "(Inr (Inr (env, names, cs,
        bm_insert ''enum'' (JArray (map JString names)) (bm_remove DYNAMIC_ENUM entries))),
      Inl (env, names, cs, JObject entries)) \<in> measure (\<lambda>x. case x of
    Inl (env, names, cs, v) \<Rightarrow> directive_weight (length names) v
  | Inr (Inl (env, names, cs, vs)) \<Rightarrow> array_weight (length names) vs
  | Inr (Inr (env, names, cs, es)) \<Rightarrow> object_weight (length names) es)"
    by simp
qed (auto simp: directive_weight_pos)

definition specialize_generation_schema ::
  "('a) registry_env_scheme \<Rightarrow> json_value \<Rightarrow> PromptInvocation \<Rightarrow> PromptError + json_value" where
  "specialize_generation_schema env schema invocation =
     and_then (expand_generation_directives env (map ds_name (pi_sections invocation))
       (pi_runtime_constraints invocation) schema) (\<lambda>schema'.
     if contains_generation_directive schema'
       then Inl (GenerationSchemaDirective ''specialized generation schema retains an unresolved directive'')
     else and_then (compile_schema env schema' ''specialized generation_schema'') (\<lambda>_. Inr schema'))"

end
