(* ===== verification/Prompt_Compiler.thy ===== *)
theory Prompt_Compiler
  imports Prompt_Registry
begin

text \<open>
  The second part of the prompt registry: parsing and validation of manifests, registration, the
  compilation of an invocation (\<open>CompiledPrompt::compile\<close>), and the validation of outputs.
\<close>

section \<open>Manifests\<close>

text \<open>
  \<open>UniqueJsonVisitor\<close>: the document is the tree that \<open>serde_json\<close> reads, with the entries of an object in
  the order of the text and possibly with repeated keys. A repeated key is an error before its value is
  visited; the other objects become ordered maps. \<open>visit_f64\<close> cannot fail: JSON has no other numbers
  than finite ones.
\<close>

fun unique_json :: "json_value \<Rightarrow> string + json_value"
and unique_array :: "json_value list \<Rightarrow> string + json_value list"
and unique_object :: "(string \<times> json_value) list \<Rightarrow> (string, json_value) btree_map \<Rightarrow> string + json_value"
where
  "unique_json (JArray values) = and_then (unique_array values) (\<lambda>vs. Inr (JArray vs))"
| "unique_json (JObject entries) = unique_object entries []"
| "unique_json JNull = Inr JNull"
| "unique_json (JBool b) = Inr (JBool b)"
| "unique_json (JNumber n) = Inr (JNumber n)"
| "unique_json (JString s) = Inr (JString s)"
| "unique_array [] = Inr []"
| "unique_array (v # vs) =
     (case unique_json v of Inl e \<Rightarrow> Inl e
      | Inr v' \<Rightarrow> (case unique_array vs of Inl e \<Rightarrow> Inl e | Inr vs' \<Rightarrow> Inr (v' # vs')))"
| "unique_object [] values = Inr (JObject values)"
| "unique_object ((key, value) # es) values =
     (if bm_contains_key values key then Inl (''duplicate JSON object key `'' @ key @ ''`'')
      else case unique_json value of Inl e \<Rightarrow> Inl e
        | Inr v \<Rightarrow> unique_object es (bm_insert key v values))"

definition manifest_validate :: "('a) registry_env_scheme \<Rightarrow> PromptManifest \<Rightarrow> PromptError + unit" where
  "manifest_validate env self =
     and_then (map_err PromptJson (rg_meta_schema env)) (\<lambda>meta_schema.
     and_then (validate_value env meta_schema (manifest_value env self) ''prompt manifest'') (\<lambda>_.
     if is_blank (pm_purpose self) then Inl (EmptyManifestField ''purpose'')
     else if is_blank (pm_system_policy self) then Inl (EmptyManifestField ''system_policy'')
     else
     and_then (ensure_object_contract (pm_input_schema self) ''input_schema'') (\<lambda>_.
     and_then (ensure_object_contract (pm_generation_schema self) ''generation_schema'') (\<lambda>_.
     and_then (ensure_object_contract (pm_output_schema self) ''output_schema'') (\<lambda>_.
     and_then (compile_schema env (pm_input_schema self) ''input_schema'') (\<lambda>_.
     and_then (compile_schema env (pm_generation_schema self) ''generation_schema'') (\<lambda>_.
     and_then (validate_generation_directives env (pm_generation_schema self)) (\<lambda>_.
     and_then (compile_schema env (pm_output_schema self) ''output_schema'') (\<lambda>_. Inr ())))))))))"

definition parse_manifest :: "('a) prompting_env_scheme \<Rightarrow> u8 list \<Rightarrow> PromptError + PromptManifest" where
  "parse_manifest env bytes =
     and_then (map_err PromptJson (and_then (rg_document env bytes) unique_json)) (\<lambda>value.
     and_then (map_err PromptJson (rg_meta_schema env)) (\<lambda>meta_schema.
     and_then (validate_value env meta_schema value ''prompt manifest'') (\<lambda>_.
     and_then (map_err PromptJson (pn_manifest_from_value env value)) (\<lambda>manifest.
     and_then (manifest_validate env manifest) (\<lambda>_. Inr manifest)))))"

section \<open>The registry\<close>

type_synonym PromptRegistry = "PromptKey \<rightharpoonup> PromptManifest"

definition register ::
  "('a) registry_env_scheme \<Rightarrow> PromptManifest \<Rightarrow> PromptRegistry \<Rightarrow> PromptError + PromptRegistry" where
  "register env manifest self =
     and_then (manifest_validate env manifest) (\<lambda>_.
     if self (manifest_key manifest) \<noteq> None then Inl (DuplicatePrompt (manifest_key manifest))
     else Inr (self(manifest_key manifest \<mapsto> manifest)))"

fun register_all ::
  "('a) registry_env_scheme \<Rightarrow> PromptManifest list \<Rightarrow> PromptRegistry \<Rightarrow> PromptError + PromptRegistry" where
  "register_all env [] self = Inr self"
| "register_all env (m # ms) self = and_then (register env m self) (register_all env ms)"

definition registry_new ::
  "('a) registry_env_scheme \<Rightarrow> PromptManifest list \<Rightarrow> PromptError + PromptRegistry" where
  "registry_new env manifests = register_all env manifests Map.empty"

section \<open>Invocations\<close>

fun constraint_boundaries :: "RuntimeConstraint list \<Rightarrow> string btree_set \<Rightarrow> PromptError + unit" where
  "constraint_boundaries [] names = Inr ()"
| "constraint_boundaries (c # cs) names =
     (if is_blank (rc_name c) \<or> length (rc_name c) > 128 then Inl (InvalidRuntimeConstraint (rc_name c))
      else if bs_contains names (rc_name c) then Inl (DuplicateRuntimeConstraint (rc_name c))
      else constraint_boundaries cs (bs_insert (rc_name c) names))"

definition valid_source :: "DataSection \<Rightarrow> bool" where
  "valid_source section =
     ((ds_trust section, dp_source_kind (ds_provenance section)) \<in>
        {(TrustUser, SourceUser), (TrustRepository, SourceRepository), (TrustTool, SourceTool),
         (UntrustedExternal, SourceExternal)})"

fun section_boundaries :: "DataSection list \<Rightarrow> string btree_set \<Rightarrow> PromptError + unit" where
  "section_boundaries [] names = Inr ()"
| "section_boundaries (s # ss) names =
     (if is_blank (ds_name s) \<or> is_blank (dp_source_id (ds_provenance s)) then Inl (TrustBoundary (ds_name s))
      else if bs_contains names (ds_name s) then Inl (DuplicateSection (ds_name s))
      else if ds_trust s = ApplicationPolicy \<or> \<not> valid_source s then Inl (TrustBoundary (ds_name s))
      else section_boundaries ss (bs_insert (ds_name s) names))"

definition validate_invocation_boundaries :: "PromptInvocation \<Rightarrow> PromptError + unit" where
  "validate_invocation_boundaries invocation =
     and_then (constraint_boundaries (pi_runtime_constraints invocation) []) (\<lambda>_.
     section_boundaries (pi_sections invocation) [])"

text \<open>\<open>serde_json::to_value\<close> of the parts of an invocation.\<close>

definition trust_text :: "TrustLevel \<Rightarrow> string" where
  "trust_text trust =
     (case trust of ApplicationPolicy \<Rightarrow> ''application_policy'' | TrustUser \<Rightarrow> ''user''
      | TrustRepository \<Rightarrow> ''repository'' | TrustTool \<Rightarrow> ''tool'' | UntrustedExternal \<Rightarrow> ''untrusted_external'')"

definition source_kind_text :: "SourceKind \<Rightarrow> string" where
  "source_kind_text kind =
     (case kind of SourceUser \<Rightarrow> ''user'' | SourceRepository \<Rightarrow> ''repository'' | SourceTool \<Rightarrow> ''tool''
      | SourceExternal \<Rightarrow> ''external'')"

definition optional_entry :: "string \<Rightarrow> string option \<Rightarrow> (string \<times> json_value) list" where
  "optional_entry key value = (case value of None \<Rightarrow> [] | Some s \<Rightarrow> [(key, JString s)])"

definition provenance_value :: "DataProvenance \<Rightarrow> json_value" where
  "provenance_value p = json_object
     ([(''source_kind'', JString (source_kind_text (dp_source_kind p))),
       (''source_id'', JString (dp_source_id p))]
      @ optional_entry ''artifact_sha256'' (dp_artifact_sha256 p)
      @ optional_entry ''event_id'' (dp_event_id p))"

definition section_value :: "DataSection \<Rightarrow> json_value" where
  "section_value s = json_object
     [(''name'', JString (ds_name s)), (''trust'', JString (trust_text (ds_trust s))),
      (''provenance'', provenance_value (ds_provenance s)), (''payload'', ds_payload s)]"

definition constraint_value :: "RuntimeConstraint \<Rightarrow> json_value" where
  "constraint_value c = json_object [(''name'', JString (rc_name c)), (''payload'', rc_payload c)]"

definition limits_value :: "PromptLimits \<Rightarrow> json_value" where
  "limits_value limits = json_object [(''max_suggested_subtasks'', json_number (pm_max_suggested_subtasks limits))]"

definition invocation_value :: "PromptInvocation \<Rightarrow> json_value" where
  "invocation_value invocation = json_object
     ([(''sections'', JArray (map section_value (pi_sections invocation))),
       (''limits'', limits_value (pi_limits invocation))]
      @ (if pi_runtime_constraints invocation = [] then []
         else [(''runtime_constraints'', JArray (map constraint_value (pi_runtime_constraints invocation)))]))"

section \<open>Compilation\<close>

definition runtime_constraints_value :: "PromptInvocation \<Rightarrow> json_value" where
  "runtime_constraints_value invocation =
     (if pi_runtime_constraints invocation = []
      then json_object [(''limits'', limits_value (pi_limits invocation))]
      else json_object [(''limits'', limits_value (pi_limits invocation)),
        (''constraints'', JArray (map constraint_value (pi_runtime_constraints invocation)))])"

definition section_message :: "DataSection \<Rightarrow> CompiledMessage" where
  "section_message s =
     \<lparr>cm_role = PromptUser, cm_trust = ds_trust s, cm_provenance = FromData (ds_provenance s),
      cm_content = ContentJson (section_value s)\<rparr>"

definition compiled_messages :: "PromptManifest \<Rightarrow> ManifestProvenance \<Rightarrow> PromptInvocation \<Rightarrow> CompiledMessage list" where
  "compiled_messages manifest provenance invocation =
     \<lparr>cm_role = PromptSystem, cm_trust = ApplicationPolicy, cm_provenance = FromManifest provenance,
      cm_content = ContentText (pm_system_policy manifest)\<rparr>
     # \<lparr>cm_role = PromptSystem, cm_trust = ApplicationPolicy, cm_provenance = FromRuntimeConstraints provenance,
        cm_content = ContentJson (runtime_constraints_value invocation)\<rparr>
     # map section_message (pi_sections invocation)"

definition compile_prompt ::
  "('a) registry_env_scheme \<Rightarrow> PromptManifest \<Rightarrow> PromptInvocation \<Rightarrow> PromptError + CompiledPrompt" where
  "compile_prompt env manifest invocation =
     and_then (validate_invocation_boundaries invocation) (\<lambda>_.
     and_then (validate_value env (pm_input_schema manifest) (invocation_value invocation) ''prompt input'') (\<lambda>_.
     and_then (content_sha256 env manifest) (\<lambda>digest.
     let provenance = \<lparr>mp_prompt = manifest_key manifest, mp_content_sha256 = digest\<rparr> in
     and_then (specialize_generation_schema env (pm_generation_schema manifest) invocation) (\<lambda>generation_schema. Inr
       \<lparr>cp_manifest = provenance, cp_limits = pi_limits invocation,
        cp_runtime_constraints = pi_runtime_constraints invocation,
        cp_input_sections = map ds_name (pi_sections invocation),
        cp_messages = compiled_messages manifest provenance invocation,
        cp_generation_schema = generation_schema, cp_output_schema = pm_output_schema manifest\<rparr>))))"

definition compiled_validate_against ::
  "('a) registry_env_scheme \<Rightarrow> CompiledPrompt \<Rightarrow> PromptManifest \<Rightarrow> PromptInvocation \<Rightarrow> PromptError + unit" where
  "compiled_validate_against env self manifest invocation =
     and_then (compile_prompt env manifest invocation) (\<lambda>expected.
     if expected = self then Inr () else Inl (CompiledPromptMismatch (manifest_key manifest)))"

definition registry_compile ::
  "('a) registry_env_scheme \<Rightarrow> PromptRegistry \<Rightarrow> PromptKey \<Rightarrow> PromptInvocation \<Rightarrow> PromptError + CompiledPrompt" where
  "registry_compile env self key invocation =
     (case self key of None \<Rightarrow> Inl (PromptNotFound key)
      | Some manifest \<Rightarrow> compile_prompt env manifest invocation)"

section \<open>Output validation\<close>

definition validate_router_output ::
  "('a) prompting_env_scheme \<Rightarrow> json_value \<Rightarrow> PromptInvocation \<Rightarrow> Version \<Rightarrow> PromptError + unit" where
  "validate_router_output env value invocation prompt_version =
     and_then (map_err PromptJson (pn_router_from_value env value)) (\<lambda>output.
     let violations = router_invariant_violations (rg_version_le env) output invocation prompt_version in
     if violations = [] then Inr () else Inl (OutputInvariant violations))"

definition bundled_key :: "string \<Rightarrow> PromptKey" where
  "bundled_key prompt_id = \<lparr>pk_id = prompt_id, pk_version = version_new 1 0 0\<rparr>"

definition root_planner_key :: PromptKey where
  "root_planner_key = bundled_key ''birdcode.root-planner-turn''"

definition plan_repair_key :: PromptKey where
  "plan_repair_key = bundled_key ''birdcode.root-plan-repair''"

definition plan_critic_key :: PromptKey where
  "plan_critic_key = bundled_key ''birdcode.plan-semantic-critic''"

definition repository_explorer_key :: PromptKey where
  "repository_explorer_key = bundled_key ''birdcode.repository-explorer''"

definition repository_reviewer_key :: PromptKey where
  "repository_reviewer_key = bundled_key ''birdcode.repository-semantic-reviewer''"

definition planner_replanner_key :: PromptKey where
  "planner_replanner_key = bundled_key ''birdcode.planner-replanner''"

definition planner_replanner_v2_key :: PromptKey where
  "planner_replanner_v2_key = bundled_key ''birdcode.planner-replanner-v2''"

definition validate_output ::
  "('a) prompting_env_scheme \<Rightarrow> PromptRegistry \<Rightarrow> CompiledPrompt \<Rightarrow> PromptInvocation \<Rightarrow> json_value
     \<Rightarrow> PromptError + unit" where
  "validate_output env self compiled invocation value =
     (let key = mp_prompt (cp_manifest compiled) in
      case self key of None \<Rightarrow> Inl (PromptNotFound key)
      | Some manifest \<Rightarrow>
     and_then (compiled_validate_against env compiled manifest invocation) (\<lambda>_.
     and_then (validate_value env (pm_output_schema manifest) value ''model output'') (\<lambda>_.
     and_then (if is_task_router_key key then validate_router_output env value invocation (pk_version key)
               else Inr ()) (\<lambda>_.
     and_then (if key = root_planner_key
               then map_err RootPlannerOutputInvariant (validate_root_planner_output env value invocation)
               else Inr ()) (\<lambda>_.
     and_then (if key = plan_repair_key
               then map_err RootPlannerOutputInvariant (validate_plan_repair_output env value invocation)
               else Inr ()) (\<lambda>_.
     and_then (if key = plan_critic_key
               then map_err PlanCriticOutputInvariant (pn_validate_plan_critic_output env value invocation)
               else Inr ()) (\<lambda>_.
     and_then (if key = repository_explorer_key
               then map_err RepositoryExplorerOutputInvariant
                 (pn_validate_repository_explorer_output env value invocation)
               else Inr ()) (\<lambda>_.
     and_then (if key = repository_reviewer_key
               then map_err RepositoryReviewerOutputInvariant
                 (pn_validate_repository_review_output env value invocation)
               else Inr ()) (\<lambda>_.
     and_then (if key = planner_replanner_key
               then map_err PlannerReplannerOutputInvariant
                 (pn_validate_planner_replanner_output env value invocation)
               else Inr ()) (\<lambda>_.
     if key = planner_replanner_v2_key
       then map_err PlannerReplannerV2OutputInvariant
         (pn_validate_planner_replanner_v2_output env value invocation)
       else Inr ()))))))))))"

text \<open>The deserializer of the caller's type is an argument.\<close>

definition decode_output ::
  "('a) prompting_env_scheme \<Rightarrow> PromptRegistry \<Rightarrow> CompiledPrompt \<Rightarrow> PromptInvocation
     \<Rightarrow> (json_value \<Rightarrow> string + 't) \<Rightarrow> u8 list \<Rightarrow> PromptError + 't" where
  "decode_output env self compiled invocation from_value bytes =
     and_then (map_err PromptJson (and_then (rg_document env bytes) unique_json)) (\<lambda>v.
     and_then (validate_output env self compiled invocation v) (\<lambda>_.
     map_err PromptJson (from_value v)))"

section \<open>Rejection classes of the root planner\<close>

datatype RootPlannerRejectionClass =
    InvalidSchemaClass | ProtectedAuthorityMutation | ObligationCoverageIncomplete
  | DependencyCycleClass | PolicyLimitExceeded

definition is_authority_violation :: "RootPlannerInvariantViolation \<Rightarrow> bool" where
  "is_authority_violation v =
     (case v of RootDigestMismatch f e a \<Rightarrow> True | RootUnknownObligationReference s i d \<Rightarrow> True
      | RootObligationDigestMismatch s i e a \<Rightarrow> True | RootPolicyIntegrity p \<Rightarrow> True | _ \<Rightarrow> False)"

definition is_coverage_violation :: "RootPlannerInvariantViolation \<Rightarrow> bool" where
  "is_coverage_violation v = (case v of RootMandatoryObligationUncovered i d \<Rightarrow> True | _ \<Rightarrow> False)"

definition is_graph_violation :: "RootPlannerInvariantViolation \<Rightarrow> bool" where
  "is_graph_violation v =
     (case v of RootDependencyCycle \<Rightarrow> True | RootSelfDependency i \<Rightarrow> True
      | RootUnknownDependency i d \<Rightarrow> True | _ \<Rightarrow> False)"

definition is_limit_violation :: "RootPlannerInvariantViolation \<Rightarrow> bool" where
  "is_limit_violation v =
     (case v of RootTooManyWorkOrders m a \<Rightarrow> True | RootTooManyDependencyReferences m a \<Rightarrow> True
      | RootTooManyVerificationTargets m a \<Rightarrow> True | RootVerificationKindNotAllowed w t k \<Rightarrow> True
      | _ \<Rightarrow> False)"

definition classify_root_planner_rejection :: "PromptError \<Rightarrow> RootPlannerRejectionClass" where
  "classify_root_planner_rejection error =
     (case error of
        RootPlannerOutputInvariant violations \<Rightarrow>
          (if list_ex is_authority_violation violations then ProtectedAuthorityMutation
           else if list_ex is_coverage_violation violations then ObligationCoverageIncomplete
           else if list_ex is_graph_violation violations then DependencyCycleClass
           else if list_ex is_limit_violation violations then PolicyLimitExceeded
           else InvalidSchemaClass)
      | _ \<Rightarrow> InvalidSchemaClass)"

end
