(* ===== verification/Prompt_Compiler_Correct.thy ===== *)
theory Prompt_Compiler_Correct
  imports Prompt_Compiler
begin

text \<open>
  The laws of the prompt registry and of the compilation of prompts: which registries the constructor
  builds, which invocations have valid boundaries, that data never becomes policy, and that the
  generation directives of a validated manifest are always resolved or reported.
\<close>

section \<open>The registry\<close>

definition registry_ok :: "('a) registry_env_scheme \<Rightarrow> PromptRegistry \<Rightarrow> bool" where
  "registry_ok env r \<longleftrightarrow>
     (\<forall>key manifest. r key = Some manifest \<longrightarrow> manifest_key manifest = key \<and> manifest_validate env manifest = Inr ())"

lemma register_Inr_iff:
  "register env m r = Inr r' \<longleftrightarrow>
     manifest_validate env m = Inr () \<and> r (manifest_key m) = None \<and> r' = r(manifest_key m \<mapsto> m)"
  by (auto simp: register_def result_simps)

lemma register_all_Inr_iff:
  "register_all env ms r = Inr r' \<longleftrightarrow>
     (\<forall>m \<in> set ms. manifest_validate env m = Inr () \<and> r (manifest_key m) = None)
     \<and> distinct (map manifest_key ms) \<and> r' = r ++ map_of (map (\<lambda>m. (manifest_key m, m)) ms)"
proof (induction ms arbitrary: r)
  case (Cons m ms)
  let ?entries = "map_of (map (\<lambda>m. (manifest_key m, m)) ms)"
  have rest: "(r(manifest_key m \<mapsto> m)) ++ ?entries = (r ++ ?entries)(manifest_key m \<mapsto> m)"
    if "manifest_key m \<notin> manifest_key ` set ms"
    using that by (intro map_add_upd_left) (simp add: dom_map_of_conv_image_fst image_image)
  have "register_all env (m # ms) r = Inr r' \<longleftrightarrow>
      (manifest_validate env m = Inr () \<and> r (manifest_key m) = None)
      \<and> register_all env ms (r(manifest_key m \<mapsto> m)) = Inr r'"
    by (auto simp: result_simps register_Inr_iff)
  also have "\<dots> \<longleftrightarrow> (\<forall>m' \<in> set (m # ms). manifest_validate env m' = Inr () \<and> r (manifest_key m') = None)
      \<and> distinct (map manifest_key (m # ms)) \<and> r' = (r(manifest_key m \<mapsto> m)) ++ ?entries"
    unfolding Cons.IH by (auto split: if_splits) (metis image_eqI)
  also have "\<dots> \<longleftrightarrow> (\<forall>m' \<in> set (m # ms). manifest_validate env m' = Inr () \<and> r (manifest_key m') = None)
      \<and> distinct (map manifest_key (m # ms)) \<and> r' = r ++ map_of (map (\<lambda>m. (manifest_key m, m)) (m # ms))"
    using rest by (auto simp del: map_add_upd_left)
  finally show ?case .
qed auto

text \<open>
  The constructor succeeds exactly on valid manifests with distinct keys, and then the registry holds
  exactly these manifests.
\<close>

lemma registry_new_Inr_iff:
  "registry_new env ms = Inr r \<longleftrightarrow>
     (\<forall>m \<in> set ms. manifest_validate env m = Inr ()) \<and> distinct (map manifest_key ms)
     \<and> r = map_of (map (\<lambda>m. (manifest_key m, m)) ms)"
  by (simp add: registry_new_def register_all_Inr_iff)

lemma registry_ok_empty: "registry_ok env Map.empty"
  by (simp add: registry_ok_def)

lemma register_ok:
  "registry_ok env r \<Longrightarrow> register env m r = Inr r' \<Longrightarrow> registry_ok env r' \<and> r \<subseteq>\<^sub>m r'"
  by (auto simp: registry_ok_def register_Inr_iff map_le_def)

section \<open>Boundaries\<close>

definition invocation_separated :: "PromptInvocation \<Rightarrow> bool" where
  "invocation_separated invocation \<longleftrightarrow>
     (\<forall>c \<in> set (pi_runtime_constraints invocation). \<not> is_blank (rc_name c) \<and> length (rc_name c) \<le> 128)
     \<and> distinct (map rc_name (pi_runtime_constraints invocation))
     \<and> (\<forall>s \<in> set (pi_sections invocation). \<not> is_blank (ds_name s) \<and> \<not> is_blank (dp_source_id (ds_provenance s))
          \<and> ds_trust s \<noteq> ApplicationPolicy \<and> valid_source s)
     \<and> distinct (map ds_name (pi_sections invocation))"

lemma constraint_boundaries_iff:
  "constraint_boundaries cs names = Inr () \<longleftrightarrow>
     (\<forall>c \<in> set cs. \<not> is_blank (rc_name c) \<and> length (rc_name c) \<le> 128 \<and> rc_name c \<notin> set names)
     \<and> distinct (map rc_name cs)"
  by (induction cs names rule: constraint_boundaries.induct) (auto simp: bs_contains_def, (metis image_eqI)+)

lemma section_boundaries_iff:
  "section_boundaries ss names = Inr () \<longleftrightarrow>
     (\<forall>s \<in> set ss. \<not> is_blank (ds_name s) \<and> \<not> is_blank (dp_source_id (ds_provenance s))
        \<and> ds_trust s \<noteq> ApplicationPolicy \<and> valid_source s \<and> ds_name s \<notin> set names)
     \<and> distinct (map ds_name ss)"
  by (induction ss names rule: section_boundaries.induct) (auto simp: bs_contains_def, (metis image_eqI)+)

lemma boundaries_decided:
  "validate_invocation_boundaries invocation = Inr () \<longleftrightarrow> invocation_separated invocation"
  by (auto simp: validate_invocation_boundaries_def invocation_separated_def result_simps
      constraint_boundaries_iff section_boundaries_iff)

section \<open>Generation directives\<close>

text \<open>An object of resolved entries holds no directive when its keys do not name one.\<close>

lemma expanded_keys:
  "expand_object env names cs es = Inr es' \<Longrightarrow> map fst es' = map fst es"
  by (induction es arbitrary: es') (auto simp: result_simps)

lemma contains_key_map_fst: "bm_contains_key m k \<longleftrightarrow> k \<in> set (map fst m)"
  by (simp add: bm_contains_key_iff bm_keys_def)

lemma contains_key_cong: "map fst m = map fst m' \<Longrightarrow> bm_contains_key m k \<longleftrightarrow> bm_contains_key m' k"
  by (simp only: contains_key_map_fst)

lemma contains_key_remove: "bm_contains_key (bm_remove k' m) k \<longleftrightarrow> k \<noteq> k' \<and> bm_contains_key m k"
  by (induction m) (auto simp: contains_key_map_fst bm_remove_def)

lemma directive_names_differ: "RUNTIME_CONST \<noteq> DYNAMIC_ENUM" "''enum'' \<noteq> RUNTIME_CONST"
    "''enum'' \<noteq> DYNAMIC_ENUM" "''const'' \<noteq> RUNTIME_CONST" "''const'' \<noteq> DYNAMIC_ENUM"
  by (simp_all add: RUNTIME_CONST_def DYNAMIC_ENUM_def)

lemma expand_runtime_const_Inr:
  assumes "expand_runtime_const env cs directive entries = Inr v"
  shows "\<exists>resolved. const_resolvable resolved \<and> v = JObject [(''const'', resolved)]"
  using assms by (auto simp: expand_runtime_const_def split: if_splits option.splits)

lemma const_object_resolved:
  assumes "const_resolvable resolved"
  shows "\<not> contains_generation_directive (JObject [(''const'', resolved)])"
proof -
  have "\<not> contains_generation_directive resolved"
    using assms by (cases resolved) (auto simp: const_resolvable_def)
  then show ?thesis
    using directive_names_differ by (auto simp: contains_key_map_fst)
qed

lemma no_key_get: "bm_get m k = None \<longleftrightarrow> \<not> bm_contains_key m k"
  by (simp add: bm_contains_key_def)

text \<open>Expansion removes every directive of a schema.\<close>

lemma expansion_resolves:
  "expand_generation_directives env names cs v = Inr v' \<Longrightarrow> \<not> contains_generation_directive v'"
  "expand_array env names cs vs = Inr vs' \<Longrightarrow> \<not> array_contains_directive vs'"
  "expand_object env names cs es = Inr es' \<Longrightarrow> \<not> object_contains_directive es'"
proof (induction env names cs v and env names cs vs and env names cs es
    arbitrary: v' and vs' and es'
    rule: expand_generation_directives_expand_array_expand_object.induct)
  case (2 env names cs entries)
  show ?case
  proof (cases "bm_get entries RUNTIME_CONST")
    case (Some directive)
    with 2(3) have "expand_runtime_const env cs directive (bm_remove RUNTIME_CONST entries) = Inr v'"
      by simp
    then show ?thesis
      using expand_runtime_const_Inr const_object_resolved by metis
  next
    case no_const: None
    show ?thesis
    proof (cases "bm_get entries DYNAMIC_ENUM")
      case None
      with 2(3) no_const obtain es where es: "expand_object env names cs entries = Inr es" "v' = JObject es"
        by (auto simp: result_simps)
      have "\<not> object_contains_directive es"
        using 2(1)[OF no_const None es(1)] .
      with es no_const None show ?thesis
        using contains_key_cong[OF expanded_keys[OF es(1)]] by (auto simp: no_key_get)
    next
      case (Some directive)
      let ?entries = "bm_insert ''enum'' (JArray (map JString names)) (bm_remove DYNAMIC_ENUM entries)"
      from Some 2(3) no_const obtain es where ok: "as_str directive = Some ''input_section_names''"
          and es: "expand_object env names cs ?entries = Inr es" "v' = JObject es"
        by (auto simp: result_simps split: if_splits)
      have "\<not> object_contains_directive es"
        using 2(2)[OF no_const Some _ es(1)] ok by simp
      moreover have "\<not> bm_contains_key ?entries RUNTIME_CONST" "\<not> bm_contains_key ?entries DYNAMIC_ENUM"
        using no_const directive_names_differ by (auto simp: no_key_get contains_key_remove)
      ultimately show ?thesis
        using es contains_key_cong[OF expanded_keys[OF es(1)]] by auto
    qed
  qed
qed (auto simp: result_simps)

text \<open>So the last check of \<open>specialize_generation_schema\<close> for a directive never fails.\<close>

lemma specialize_schema_eq:
  "specialize_generation_schema env schema invocation =
     and_then (expand_generation_directives env (map ds_name (pi_sections invocation))
       (pi_runtime_constraints invocation) schema) (\<lambda>schema'.
     and_then (compile_schema env schema' ''specialized generation_schema'') (\<lambda>_. Inr schema'))"
  by (cases "expand_generation_directives env (map ds_name (pi_sections invocation))
       (pi_runtime_constraints invocation) schema")
    (auto simp: specialize_generation_schema_def and_then_def dest: expansion_resolves(1))

text \<open>
  A schema whose directives are validated fails to expand only because a runtime constant is not
  resolved by the constraints.
\<close>

definition unresolved_const :: "('a) registry_env_scheme \<Rightarrow> RuntimeConstraint list \<Rightarrow> PromptError \<Rightarrow> bool" where
  "unresolved_const env cs e \<longleftrightarrow> (\<exists>constraint pointer.
     e = GenerationSchemaDirective (''runtime const '' @ constraint @ pointer @ '' is unresolved or non-scalar'')
     \<and> (\<forall>resolved. Option.bind (List.find (\<lambda>c. rc_name c = constraint) cs) (\<lambda>c. rg_pointer env (rc_payload c) pointer)
            = Some resolved \<longrightarrow> \<not> const_resolvable resolved))"

lemma length1_remove:
  "length m = 1 \<Longrightarrow> bm_get m k = Some v \<Longrightarrow> bm_remove k m = []"
  by (auto simp: length_Suc_conv bm_get_def bm_remove_def split: if_splits)

lemma validated_runtime_const:
  assumes "valid_runtime_const entries directive" "bm_get entries RUNTIME_CONST = Some directive"
    and "expand_runtime_const env cs directive (bm_remove RUNTIME_CONST entries) = Inl e"
  shows "unresolved_const env cs e"
proof -
  have "bm_remove RUNTIME_CONST entries = []"
    using assms(1,2) by (intro length1_remove) (auto simp: valid_runtime_const_def)
  moreover obtain d where "as_object directive = Some d"
    using assms(1) by (auto simp: valid_runtime_const_def split: option.splits)
  moreover from this obtain c p where "Option.bind (bm_get d ''constraint'') as_str = Some c"
      "Option.bind (bm_get d ''pointer'') as_str = Some p"
    using assms(1) by (auto simp: valid_runtime_const_def split: option.splits)
  ultimately show ?thesis
    using assms(3) unfolding unresolved_const_def
    by (intro exI[of _ c] exI[of _ p]) (auto simp: expand_runtime_const_def split: if_splits option.splits)
qed

lemma validate_array_iff:
  "validate_directives_array env vs = Inr () \<longleftrightarrow> (\<forall>v \<in> set vs. validate_generation_directives env v = Inr ())"
  by (induction vs) (auto split: sum.splits)

lemma validate_object_iff:
  "validate_directives_object env es = Inr () \<longleftrightarrow> (\<forall>v \<in> snd ` set es. validate_generation_directives env v = Inr ())"
  by (induction es) (auto split: sum.splits)

lemma enum_entries_valid:
  assumes "validate_directives_object env es = Inr ()"
  shows "validate_directives_object env
    (bm_insert ''enum'' (JArray (map JString names)) (bm_remove DYNAMIC_ENUM es)) = Inr ()"
proof -
  have "validate_generation_directives env (JArray (map JString names)) = Inr ()"
    by (simp add: validate_array_iff)
  with assms show ?thesis
    unfolding validate_object_iff by (auto simp: bm_remove_def dest!: in_set_bm_insertD)
qed

lemma validated_expansion:
  "validate_generation_directives env v = Inr () \<Longrightarrow> expand_generation_directives env names cs v = Inl e
     \<Longrightarrow> unresolved_const env cs e"
  "validate_directives_array env vs = Inr () \<Longrightarrow> expand_array env names cs vs = Inl e \<Longrightarrow> unresolved_const env cs e"
  "validate_directives_object env es = Inr () \<Longrightarrow> expand_object env names cs es = Inl e \<Longrightarrow> unresolved_const env cs e"
proof (induction env names cs v and env names cs vs and env names cs es
    rule: expand_generation_directives_expand_array_expand_object.induct)
  case (2 env names cs entries)
  from 2(3) have here: "directives_here_ok env entries = Inr ()"
      and inside: "validate_directives_object env entries = Inr ()"
    by (simp_all split: sum.splits)
  show ?case
  proof (cases "bm_get entries RUNTIME_CONST")
    case (Some directive)
    with here 2(4) show ?thesis
      by (auto simp: directives_here_ok_def intro: validated_runtime_const split: if_splits)
  next
    case no_const: None
    show ?thesis
    proof (cases "bm_get entries DYNAMIC_ENUM")
      case None
      with 2(4) no_const have "expand_object env names cs entries = Inl e"
        by (auto simp: and_then_def split: sum.splits)
      then show ?thesis
        by (rule 2(1)[OF no_const None inside])
    next
      case (Some directive)
      with here no_const have "as_str directive = Some ''input_section_names''"
        by (auto simp: directives_here_ok_def split: if_splits)
      with 2(4) no_const Some have "expand_object env names cs
          (bm_insert ''enum'' (JArray (map JString names)) (bm_remove DYNAMIC_ENUM entries)) = Inl e"
        by (auto simp: and_then_def split: sum.splits)
      then show ?thesis
        using 2(2)[OF no_const Some _ enum_entries_valid[OF inside]] \<open>as_str directive = _\<close> by simp
    qed
  qed
next
  case (8 env names cs v vs)
  then show ?case by (auto simp: and_then_def split: sum.splits)
next
  case (10 env names cs k v es)
  then show ?case by (auto simp: and_then_def split: sum.splits)
qed (auto simp: and_then_def split: sum.splits)

lemma manifest_directives:
  "manifest_validate env manifest = Inr () \<Longrightarrow> validate_generation_directives env (pm_generation_schema manifest) = Inr ()"
  by (auto simp: manifest_validate_def result_simps split: if_splits)

text \<open>What a specialization of a validated schema answers.\<close>

lemma validated_specialization:
  assumes "validate_generation_directives env schema = Inr ()"
  shows "case specialize_generation_schema env schema invocation of
      Inr specialized \<Rightarrow>
        expand_generation_directives env (map ds_name (pi_sections invocation)) (pi_runtime_constraints invocation) schema
          = Inr specialized
        \<and> \<not> contains_generation_directive specialized \<and> (\<exists>validator. rg_validator_for env specialized = Inr validator)
    | Inl e \<Rightarrow> unresolved_const env (pi_runtime_constraints invocation) e
        \<or> (\<exists>specialized message.
            expand_generation_directives env (map ds_name (pi_sections invocation)) (pi_runtime_constraints invocation) schema
              = Inr specialized
            \<and> \<not> contains_generation_directive specialized \<and> rg_validator_for env specialized = Inl message
            \<and> e = SchemaCompilation ''specialized generation_schema'' message)"
proof (cases "expand_generation_directives env (map ds_name (pi_sections invocation)) (pi_runtime_constraints invocation) schema")
  case (Inl e)
  with validated_expansion(1)[OF assms Inl] show ?thesis
    by (simp add: specialize_schema_eq and_then_def)
next
  case (Inr specialized)
  note expansion_resolves(1)[OF this]
  with Inr show ?thesis
    by (cases "rg_validator_for env specialized") (simp_all add: specialize_schema_eq compile_schema_def and_then_def map_err_def)
qed

section \<open>Compilation\<close>

text \<open>
  What a compiled prompt says of its invocation: the first two messages are the policy of the manifest and
  the runtime constraints, and every later message is one data section, with the trust and the
  provenance of the section.
\<close>

definition data_message_of :: "DataSection \<Rightarrow> CompiledMessage \<Rightarrow> bool" where
  "data_message_of s m \<longleftrightarrow>
     cm_role m = PromptUser \<and> cm_trust m = ds_trust s \<and> cm_trust m \<noteq> ApplicationPolicy
     \<and> cm_provenance m = FromData (ds_provenance s) \<and> cm_content m = ContentJson (section_value s)"

lemma compile_prompt_Inr:
  assumes "compile_prompt env manifest invocation = Inr p"
  obtains digest schema where
    "invocation_separated invocation" "content_sha256 env manifest = Inr digest"
    "validate_value env (pm_input_schema manifest) (invocation_value invocation) ''prompt input'' = Inr ()"
    "expand_generation_directives env (map ds_name (pi_sections invocation))
       (pi_runtime_constraints invocation) (pm_generation_schema manifest) = Inr schema"
    "cp_manifest p = \<lparr>mp_prompt = manifest_key manifest, mp_content_sha256 = digest\<rparr>"
    "cp_messages p = compiled_messages manifest (cp_manifest p) invocation"
    "cp_generation_schema p = schema" "cp_output_schema p = pm_output_schema manifest"
  using assms
  by (auto simp: compile_prompt_def Let_def result_simps boundaries_decided specialize_schema_eq)

lemma compiled_data_messages:
  assumes "compile_prompt env manifest invocation = Inr p"
  shows "take 2 (cp_messages p) =
      [\<lparr>cm_role = PromptSystem, cm_trust = ApplicationPolicy, cm_provenance = FromManifest (cp_manifest p),
        cm_content = ContentText (pm_system_policy manifest)\<rparr>,
       \<lparr>cm_role = PromptSystem, cm_trust = ApplicationPolicy, cm_provenance = FromRuntimeConstraints (cp_manifest p),
        cm_content = ContentJson (runtime_constraints_value invocation)\<rparr>]"
    and "list_all2 data_message_of (pi_sections invocation) (drop 2 (cp_messages p))"
proof -
  from assms have separated: "invocation_separated invocation"
      and m: "cp_messages p = compiled_messages manifest (cp_manifest p) invocation"
    by (elim compile_prompt_Inr, simp)+
  from m show "take 2 (cp_messages p) =
      [\<lparr>cm_role = PromptSystem, cm_trust = ApplicationPolicy, cm_provenance = FromManifest (cp_manifest p),
        cm_content = ContentText (pm_system_policy manifest)\<rparr>,
       \<lparr>cm_role = PromptSystem, cm_trust = ApplicationPolicy, cm_provenance = FromRuntimeConstraints (cp_manifest p),
        cm_content = ContentJson (runtime_constraints_value invocation)\<rparr>]"
    by (simp add: compiled_messages_def)
  have "data_message_of s (section_message s)" if "s \<in> set (pi_sections invocation)" for s
    using that separated by (simp add: data_message_of_def section_message_def invocation_separated_def)
  with m show "list_all2 data_message_of (pi_sections invocation) (drop 2 (cp_messages p))"
    by (simp add: compiled_messages_def list_all2_map2 list_all2_same)
qed

text \<open>What the application's part of a compiled prompt depends on.\<close>

lemma compiled_manifest:
  assumes "compile_prompt env manifest invocation = Inr p"
  shows "\<exists>digest. content_sha256 env manifest = Inr digest
    \<and> cp_manifest p = \<lparr>mp_prompt = manifest_key manifest, mp_content_sha256 = digest\<rparr>"
  using assms by (elim compile_prompt_Inr) simp

lemma compiled_schema:
  assumes "compile_prompt env manifest invocation = Inr p"
  shows "expand_generation_directives env (map ds_name (pi_sections invocation)) (pi_runtime_constraints invocation)
      (pm_generation_schema manifest) = Inr (cp_generation_schema p)"
    and "\<not> contains_generation_directive (cp_generation_schema p)" "cp_output_schema p = pm_output_schema manifest"
  using assms by (elim compile_prompt_Inr, simp add: expansion_resolves(1))+

lemma compiled_independent:
  assumes "compile_prompt env manifest invocation = Inr p" "compile_prompt env manifest invocation' = Inr p'"
    "pi_limits invocation' = pi_limits invocation"
    "pi_runtime_constraints invocation' = pi_runtime_constraints invocation"
  shows "take 2 (cp_messages p') = take 2 (cp_messages p)"
    and "map ds_name (pi_sections invocation') = map ds_name (pi_sections invocation)
      \<Longrightarrow> cp_generation_schema p' = cp_generation_schema p"
proof -
  have "cp_manifest p' = cp_manifest p"
    using compiled_manifest[OF assms(1)] compiled_manifest[OF assms(2)] by auto
  then show "take 2 (cp_messages p') = take 2 (cp_messages p)"
    by (simp add: compiled_data_messages(1)[OF assms(1)] compiled_data_messages(1)[OF assms(2)]
        runtime_constraints_value_def assms(3,4))
  show "map ds_name (pi_sections invocation') = map ds_name (pi_sections invocation)
      \<Longrightarrow> cp_generation_schema p' = cp_generation_schema p"
    using compiled_schema(1)[OF assms(1)] compiled_schema(1)[OF assms(2)] assms(4) by simp
qed

section \<open>Outputs\<close>

lemma compiled_against_iff:
  "compiled_validate_against env p manifest invocation = Inr () \<longleftrightarrow> compile_prompt env manifest invocation = Inr p"
  by (auto simp: compiled_validate_against_def result_simps)

lemma router_key_not_bundled:
  assumes "is_task_router_key key"
  shows "key \<notin> {root_planner_key, plan_repair_key, plan_critic_key, repository_explorer_key,
    repository_reviewer_key, planner_replanner_key, planner_replanner_v2_key}"
  using assms
  by (auto simp: is_task_router_key_def TASK_ROUTER_ID_def root_planner_key_def plan_repair_key_def
      plan_critic_key_def repository_explorer_key_def repository_reviewer_key_def planner_replanner_key_def
      planner_replanner_v2_key_def bundled_key_def)

text \<open>For a task router prompt, the checks up to the contract and the contract itself.\<close>

lemma validate_output_router:
  assumes "is_task_router_key (mp_prompt (cp_manifest compiled))"
  shows "validate_output env r compiled invocation value =
    (case r (mp_prompt (cp_manifest compiled)) of
       None \<Rightarrow> Inl (PromptNotFound (mp_prompt (cp_manifest compiled)))
     | Some manifest \<Rightarrow>
         and_then (compiled_validate_against env compiled manifest invocation) (\<lambda>_.
         and_then (validate_value env (pm_output_schema manifest) value ''model output'') (\<lambda>_.
         validate_router_output env value invocation (pk_version (mp_prompt (cp_manifest compiled))))))"
proof -
  have tail: "and_then x Inr = (x :: PromptError + unit)" for x
    by (cases x) (auto simp: and_then_def)
  have skip: "and_then (Inr u) f = f u" for u and f :: "unit \<Rightarrow> PromptError + unit"
    by (simp add: and_then_def)
  show ?thesis
    using router_key_not_bundled[OF assms] assms
    by (simp add: validate_output_def Let_def skip tail cong: option.case_cong)
qed

end
