(* ===== verification/Route_Correct.thy ===== *)
theory Route_Correct
  imports Prompt_Router
begin

text \<open>
  What the collecting pass of the task router decides: it reports nothing exactly on the admissible
  routes. And the shape of the reports when only duplicates are reported, on which the bounded repair
  of the router's executor rests.
\<close>

definition route_relation :: "SuggestedSubtask list \<Rightarrow> (string \<times> string) set" where
  "route_relation = named_relation st_id st_depends_on"

definition subtask_admissible :: "RequiredAccess \<Rightarrow> SuggestedSubtask \<Rightarrow> bool" where
  "subtask_admissible access task \<longleftrightarrow>
     st_required_access task \<le> access \<and> \<not> is_blank (st_id task) \<and> \<not> is_blank (st_objective task)
     \<and> (\<forall>c \<in> set (st_acceptance_criteria task). \<not> is_blank c)
     \<and> (\<forall>d \<in> set (st_depends_on task). \<not> is_blank d)"

definition evidence_known :: "PromptInvocation \<Rightarrow> RouteEvidence list \<Rightarrow> bool" where
  "evidence_known invocation evidence \<longleftrightarrow>
     (\<forall>e \<in> set evidence. \<not> is_blank (rv_section e) \<and> \<not> is_blank (rv_basis e)
        \<and> rv_section e \<in> ds_name ` set (pi_sections invocation))"

definition user_cited :: "PromptInvocation \<Rightarrow> RouteEvidence list \<Rightarrow> bool" where
  "user_cited invocation evidence \<longleftrightarrow>
     (\<exists>user. filter (\<lambda>s. ds_trust s = TrustUser) (pi_sections invocation) = [user]
        \<and> ds_name user \<in> rv_section ` set evidence)"

definition route_axes :: "TaskRouterOutput \<Rightarrow> bool" where
  "route_axes output \<longleftrightarrow>
     ro_required_access output = expected_access (ro_action output)
     \<and> (ro_strategy output = StrategyDelegate \<longrightarrow> ro_action output \<in> {RouteInspect, RouteChange})
     \<and> (ro_clarification_questions output \<noteq> [] \<longleftrightarrow> ro_action output = RouteClarify)
     \<and> (ro_suggested_subtasks output \<noteq> [] \<longleftrightarrow> ro_strategy output = StrategyDelegate)"

text \<open>Everything but the evidence.\<close>

definition route_admissible_but_evidence :: "PromptInvocation \<Rightarrow> TaskRouterOutput \<Rightarrow> bool" where
  "route_admissible_but_evidence invocation output \<longleftrightarrow>
     length (ro_suggested_subtasks output) \<le> unat (pm_max_suggested_subtasks (pi_limits invocation))
     \<and> route_axes output
     \<and> (\<forall>q \<in> set (ro_clarification_questions output). \<not> is_blank q)
     \<and> (\<forall>t \<in> set (ro_suggested_subtasks output). subtask_admissible (ro_required_access output) t)
     \<and> distinct (map st_id (ro_suggested_subtasks output))
     \<and> (\<forall>t \<in> set (ro_suggested_subtasks output).
          set (st_depends_on t) \<subseteq> st_id ` set (ro_suggested_subtasks output))
     \<and> acyclic (route_relation (ro_suggested_subtasks output))"

definition admissible_route ::
  "(Version \<Rightarrow> Version \<Rightarrow> bool) \<Rightarrow> PromptInvocation \<Rightarrow> Version \<Rightarrow> TaskRouterOutput \<Rightarrow> bool" where
  "admissible_route version_le invocation version output \<longleftrightarrow>
     route_admissible_but_evidence invocation output
     \<and> evidence_known invocation (ro_evidence output)
     \<and> (version_le (version_new 1 1 1) version \<longrightarrow>
          distinct (map rv_section (ro_evidence output)) \<and> user_cited invocation (ro_evidence output))"

section \<open>The parts of the pass\<close>

lemma axis_violations_Nil: "collect_route_axis_violations output = [] \<longleftrightarrow> route_axes output"
  by (auto simp: collect_route_axis_violations_def route_axes_def)

lemma field_violations_Nil:
  "concat (map (evidence_field_violations (bs_of_list (map ds_name (pi_sections invocation))))
     (enumerate0 evidence)) = [] \<longleftrightarrow> evidence_known invocation evidence"
  unfolding evidence_known_def
  by (rule concat_enumerate0_Nil) (auto simp: evidence_field_violations_def bs_contains_def)

lemma blank_list_Nil:
  assumes "\<And>i x. f (i, x) = report (is_blank x) (v i x)"
  shows "concat (map f (enumerate0 xs)) = [] \<longleftrightarrow> (\<forall>x \<in> set xs. \<not> is_blank x)"
  by (rule concat_enumerate0_Nil) (simp add: assms)

lemma subtask_violations_Nil:
  "concat (map (subtask_violations access) (enumerate0 subtasks)) = []
     \<longleftrightarrow> (\<forall>t \<in> set subtasks. subtask_admissible access t)"
proof (rule concat_enumerate0_Nil)
  fix i :: nat and t :: SuggestedSubtask
  have "concat (map (\<lambda>(j, c). report (is_blank c)
      (RouteBlankAcceptanceCriterion (wire_u32 i) (wire_u32 j) (st_id t))) (enumerate0 (st_acceptance_criteria t))) = []
      \<longleftrightarrow> (\<forall>c \<in> set (st_acceptance_criteria t). \<not> is_blank c)"
    by (rule blank_list_Nil) simp
  moreover have "concat (map (\<lambda>(j, d). report (is_blank d)
      (RouteBlankDependency (wire_u32 i) (wire_u32 j) (st_id t))) (enumerate0 (st_depends_on t))) = []
      \<longleftrightarrow> (\<forall>d \<in> set (st_depends_on t). \<not> is_blank d)"
    by (rule blank_list_Nil) simp
  ultimately show "subtask_violations access (i, t) = [] \<longleftrightarrow> subtask_admissible access t"
    unfolding subtask_violations_def subtask_admissible_def prod.case append_is_Nil_conv report_Nil_iff
    by (simp add: not_less)
qed

lemma duplicate_reports_Nil:
  "repeated_sections = first_occurrences [] (filter (\<lambda>s. count_list cited s > 1) cited)
     \<Longrightarrow> repeated_sections = [] \<longleftrightarrow> distinct cited"
proof -
  assume r: "repeated_sections = first_occurrences [] (filter (\<lambda>s. count_list cited s > 1) cited)"
  have "set repeated_sections = {s \<in> set cited. count_list cited s > 1}"
    by (auto simp: r set_first_occurrences)
  then have "repeated_sections = [] \<longleftrightarrow> (\<forall>s \<in> set cited. \<not> count_list cited s > 1)"
    by (metis (mono_tags, lifting) empty_Collect_eq set_empty)
  also have "\<dots> \<longleftrightarrow> distinct cited"
    by (rule distinct_iff_none_repeated[symmetric])
  finally show ?thesis .
qed

text \<open>The sections that are cited more than once, in the order of their first citation.\<close>

definition duplicated_sections :: "RouteEvidence list \<Rightarrow> string list" where
  "duplicated_sections evidence =
     first_occurrences [] (filter (\<lambda>s. count_list (map rv_section evidence) s > 1) (map rv_section evidence))"

lemma counted:
  "(case bm_get (entry_counts ks) k of None \<Rightarrow> 0 | Some n \<Rightarrow> n) = count_list ks k"
  by (simp add: entry_counts_get count_notin)

lemma minimal_evidence_violations:
  "collect_minimal_evidence_violations output invocation =
     map (\<lambda>s. RouteDuplicateEvidenceSection s (wire_u32 (count_list (map rv_section (ro_evidence output)) s)))
       (duplicated_sections (ro_evidence output))
     @ (case filter (\<lambda>s. ds_trust s = TrustUser) (pi_sections invocation) of
          [user] \<Rightarrow> report (ds_name user \<notin> rv_section ` set (ro_evidence output))
            (RouteUserEvidenceCitationCount (ds_name user) 0)
        | users \<Rightarrow> [RouteUserSectionCount (wire_u32 (length users))])"
  unfolding collect_minimal_evidence_violations_def Let_def counted duplicated_sections_def
  by (auto simp: report_def wire_u32_def count_list_0_iff split: list.splits)

lemma user_report_Nil:
  "(case filter (\<lambda>s. ds_trust s = TrustUser) (pi_sections invocation) of
      [user] \<Rightarrow> report (ds_name user \<notin> rv_section ` set evidence) (RouteUserEvidenceCitationCount (ds_name user) 0)
    | users \<Rightarrow> [RouteUserSectionCount (wire_u32 (length users))]) = [] \<longleftrightarrow> user_cited invocation evidence"
  by (auto simp: user_cited_def split: list.splits)

lemma minimal_violations_Nil:
  "collect_minimal_evidence_violations output invocation = []
     \<longleftrightarrow> distinct (map rv_section (ro_evidence output)) \<and> user_cited invocation (ro_evidence output)"
  unfolding minimal_evidence_violations append_is_Nil_conv user_report_Nil
  using duplicate_reports_Nil[OF refl, of "map rv_section (ro_evidence output)"]
  by (simp add: duplicated_sections_def)

lemma task_dependencies_Nil:
  "task_dependency_violations (route_task_map ts) t = []
     \<longleftrightarrow> (\<forall>d \<in> set (st_depends_on t). d \<noteq> st_id t \<and> d \<in> st_id ` set ts)"
  unfolding task_dependency_violations_def route_task_map_def concat_map_Nil_iff
  by (rule ball_cong[OF refl]) (simp add: first_entries_contains image_image)

lemma route_edges:
  assumes "distinct (map st_id ts)" and "\<And>t. t \<in> set ts \<Longrightarrow> set (st_depends_on t) \<subseteq> st_id ` set ts"
  shows "route_search.edges (route_task_map ts) = route_relation ts"
  using first_entries_edges[OF assms]
  by (simp add: route_search.edges_def task_dependencies_def route_task_map_def route_relation_def)

lemma repeated_ids_Nil:
  "concat (map (\<lambda>(k, n). report (n > 1) (RouteDuplicateSubtaskId k (wire_u32 n))) (entry_counts ks)) = []
     \<longleftrightarrow> distinct ks"
  unfolding concat_map_Nil_iff
  by (subst no_repeated_entry[symmetric]) (auto split: prod.splits)

lemma graph_violations_Nil:
  "distinct (map st_id ts) \<and> concat (map (task_dependency_violations (route_task_map ts)) ts) = []
     \<and> route_graph_has_cycle (route_task_map ts) = Some False
   \<longleftrightarrow> distinct (map st_id ts) \<and> (\<forall>t \<in> set ts. set (st_depends_on t) \<subseteq> st_id ` set ts)
     \<and> acyclic (route_relation ts)"
proof -
  have no_self: "d \<noteq> st_id t" if "acyclic (route_relation ts)" "t \<in> set ts" "d \<in> set (st_depends_on t)" for t d
    using that by (auto simp: acyclic_def route_relation_def named_relation_def)
  show ?thesis
  proof (cases "distinct (map st_id ts) \<and> (\<forall>t \<in> set ts. set (st_depends_on t) \<subseteq> st_id ` set ts)")
    case True
    then show ?thesis
      unfolding concat_map_Nil_iff task_dependencies_Nil route_graph_has_cycle_iff
      using route_edges[of ts] no_self by fastforce
  next
    case False
    then show ?thesis
      unfolding concat_map_Nil_iff task_dependencies_Nil by auto
  qed
qed

section \<open>The pass\<close>

theorem route_decided:
  "router_invariant_violations version_le output invocation version = []
     \<longleftrightarrow> admissible_route version_le invocation version output"
proof -
  have questions: "concat (map (\<lambda>(index, question). report (is_blank question)
      (RouteBlankClarificationQuestion (wire_u32 index))) (enumerate0 qs)) = []
      \<longleftrightarrow> (\<forall>q \<in> set qs. \<not> is_blank q)" for qs
    by (rule blank_list_Nil) simp
  have minimal: "(if c then collect_minimal_evidence_violations output invocation else []) = []
      \<longleftrightarrow> (c \<longrightarrow> distinct (map rv_section (ro_evidence output)) \<and> user_cited invocation (ro_evidence output))" for c
    by (simp add: minimal_violations_Nil)
  show ?thesis
    unfolding router_invariant_violations_def Let_def append_is_Nil_conv report_Nil_iff axis_violations_Nil
      field_violations_Nil minimal questions subtask_violations_Nil repeated_ids_Nil not_less not_not
      admissible_route_def route_admissible_but_evidence_def
    using graph_violations_Nil[of "ro_suggested_subtasks output"] by blast
qed

end
