(* ===== verification/Router_Executor.thy ===== *)
theory Router_Executor
  imports Prompt_Compiler_Correct Route_Correct
begin

text \<open>
  The semantic router's executor, \<open>crates/orchestrator/src/lib.rs\<close>: one inference, retained in a journal
  before it is judged, and at most one repair of duplicated evidence, retained in the same way.

  The journal is a function \<open>retain\<close> with its state threaded through; the backend is its identity and its
  answer to the first and the second request. A run yields its result, the journal that it leaves, and the
  list of its effects in order. The two branches that the source cannot reach and the indexing of a map
  panic in the source; here they are the result \<open>RouterPanicked\<close>.
\<close>

section \<open>Requests and records\<close>

datatype RouterExecutionId = RouterExecutionId "128 word"

datatype RouterAttemptId = RouterAttemptId "128 word"

record RouterExecutionRequest =
  rq_execution_id :: RouterExecutionId
  rq_router_key :: PromptKey
  rq_model_id :: ModelId
  rq_invocation :: PromptInvocation
  rq_max_output_tokens :: u32
  rq_repair_max_output_tokens :: u32
  rq_reasoning :: "ReasoningSetting option"

definition DEFAULT_REPAIR_MAX_OUTPUT_TOKENS :: u32 where
  "DEFAULT_REPAIR_MAX_OUTPUT_TOKENS = 768"

definition REPAIR_INPUT_SECTION :: string where
  "REPAIR_INPUT_SECTION = ''duplicate_evidence_groups''"

text \<open>The generated identity is an argument.\<close>

definition router_request_new ::
  "RouterExecutionId \<Rightarrow> ModelId \<Rightarrow> PromptInvocation \<Rightarrow> u32 \<Rightarrow> RouterExecutionRequest" where
  "router_request_new execution_id model_id invocation max_output_tokens =
     \<lparr>rq_execution_id = execution_id, rq_router_key = task_router_key, rq_model_id = model_id,
      rq_invocation = invocation, rq_max_output_tokens = max_output_tokens,
      rq_repair_max_output_tokens = DEFAULT_REPAIR_MAX_OUTPUT_TOKENS, rq_reasoning = None\<rparr>"

definition with_execution_id ::
  "RouterExecutionId \<Rightarrow> RouterExecutionRequest \<Rightarrow> RouterExecutionRequest" where
  "with_execution_id execution_id self = self\<lparr>rq_execution_id := execution_id\<rparr>"

definition router_with_reasoning ::
  "ReasoningSetting \<Rightarrow> RouterExecutionRequest \<Rightarrow> RouterExecutionRequest" where
  "router_with_reasoning reasoning self = self\<lparr>rq_reasoning := Some reasoning\<rparr>"

definition with_repair_max_output_tokens ::
  "u32 \<Rightarrow> RouterExecutionRequest \<Rightarrow> RouterExecutionRequest" where
  "with_repair_max_output_tokens maximum self = self\<lparr>rq_repair_max_output_tokens := maximum\<rparr>"

datatype RouterAttemptPhase = PhaseInitial | PhaseEvidenceRepair

datatype RetainedInferenceAttempt =
    AttemptResponse StructuredInferenceResponse
  | AttemptError BackendError

record RetainedInferenceRecord =
  rr_execution_id :: RouterExecutionId
  rr_attempt_id :: RouterAttemptId
  rr_parent_attempt_id :: "RouterAttemptId option"
  rr_phase :: RouterAttemptPhase
  rr_compiled_prompt :: CompiledPrompt
  rr_requested_model_id :: ModelId
  rr_reasoning :: "ReasoningSetting option"
  rr_max_output_tokens :: u32
  rr_parent_candidate_raw_text_sha256 :: "string option"
  rr_attempt :: RetainedInferenceAttempt

text \<open>\<open>InMemoryAttemptJournal\<close>: the records and whether the lock is poisoned.\<close>

record InMemoryAttemptJournal =
  mr_records :: "RetainedInferenceRecord list"
  mr_poisoned :: bool

definition router_journal_retain ::
  "InMemoryAttemptJournal \<Rightarrow> RetainedInferenceRecord \<Rightarrow> (string + unit) \<times> InMemoryAttemptJournal" where
  "router_journal_retain j r =
     (if mr_poisoned j then (Inl ''in-memory attempt journal lock was poisoned'', j)
      else (Inr (), j\<lparr>mr_records := mr_records j @ [r]\<rparr>))"

definition router_journal_snapshot :: "InMemoryAttemptJournal \<Rightarrow> string + RetainedInferenceRecord list" where
  "router_journal_snapshot j =
     (if mr_poisoned j then Inl ''in-memory attempt journal lock was poisoned'' else Inr (mr_records j))"

section \<open>Results\<close>

datatype InferenceResponseContractViolation =
    ModelIdentityMismatch | BackendIdentityMismatch | RawTextIsNotJson | RawTextValueMismatch
  | OutputTokenLimitExceeded u64 u64

datatype EvidenceRepairPatchViolation =
    ReplacementCount u32 u32
  | PatchBlankBasis u32 string
  | PatchUnexpectedSection u32 string
  | PatchWrongSectionOrder u32 string string
  | PatchMissingSection string
  | PatchDuplicateSection string u32

datatype (plugins only: code) RouterExecutionFailure =
    InitialBackend
  | InitialResponseContract "InferenceResponseContractViolation list"
  | InitialOutputContract string
  | NonRepairableInvariants "RouterInvariantViolation list"
  | RepairPreparation string
  | RepairBackend
  | RepairResponseContract "InferenceResponseContractViolation list"
  | RepairOutputContract string
  | InvalidRepairPatch "EvidenceRepairPatchViolation list"
  | RepairedOutputContract string
  | RouterJournal RouterAttemptPhase string

datatype (plugins only: code) RouterExecutionStatus =
    AcceptedFirstPass TaskRouterOutput
  | AcceptedAfterEvidenceRepair TaskRouterOutput
  | RouterRejected RouterExecutionFailure

record RouterExecution =
  rn_router_manifest :: ManifestProvenance
  rn_repair_manifest :: "ManifestProvenance option"
  rn_initial :: RetainedInferenceRecord
  rn_repair :: "RetainedInferenceRecord option"
  rn_status :: RouterExecutionStatus

datatype (plugins only: code) RouterSetupError =
    UnsupportedRouterPrompt PromptKey
  | UnbundledRouterManifest PromptKey
  | RouterSetupPrompt PromptError
  | RouterSetupContract ContractError
  | RouterMessageEncoding string

type_synonym EvidenceRepairPatch = "RouteEvidence list"

record router_env = prompting_env +
  rx_repair_manifest_json :: "u8 list"
  rx_bundled_manifests_json :: "u8 list list"
  rx_patch_from_value :: "json_value \<Rightarrow> string + EvidenceRepairPatch"
  rx_router_to_value :: "TaskRouterOutput \<Rightarrow> string + json_value"
  rx_prompt_error_text :: "PromptError \<Rightarrow> string"
  rx_setup_error_text :: "RouterSetupError \<Rightarrow> string"

section \<open>The executor\<close>

record RouterExecutor =
  re_router_registry :: PromptRegistry
  re_bundled_router_registry :: PromptRegistry
  re_repair_registry :: PromptRegistry
  re_repair_key :: PromptKey

definition builtin_registry :: "('a) router_env_scheme \<Rightarrow> PromptError + PromptRegistry" where
  "builtin_registry env =
     and_then (collect_results (map (parse_manifest env) (rx_bundled_manifests_json env))) (registry_new env)"

definition router_executor_new ::
  "('a) router_env_scheme \<Rightarrow> PromptRegistry \<Rightarrow> RouterSetupError + RouterExecutor" where
  "router_executor_new env router_registry =
     and_then (map_err RouterSetupPrompt (parse_manifest env (rx_repair_manifest_json env))) (\<lambda>manifest.
     and_then (map_err RouterSetupPrompt (registry_new env [manifest])) (\<lambda>repair_registry.
     and_then (map_err RouterSetupPrompt (builtin_registry env)) (\<lambda>bundled. Inr
       \<lparr>re_router_registry = router_registry, re_bundled_router_registry = bundled,
        re_repair_registry = repair_registry, re_repair_key = manifest_key manifest\<rparr>)))"

section \<open>Requests to the backend\<close>

definition router_backend_message ::
  "('a) registry_env_scheme \<Rightarrow> CompiledMessage \<Rightarrow> string + Message" where
  "router_backend_message env message =
     (let role = (case cm_role message of PromptSystem \<Rightarrow> RoleSystem | PromptUser \<Rightarrow> RoleUser) in
      case cm_content message of
        ContentText value \<Rightarrow> Inr \<lparr>msg_role = role, msg_content = value\<rparr>
      | ContentJson value \<Rightarrow>
          and_then (canonical_encode env value) (\<lambda>s. Inr \<lparr>msg_role = role, msg_content = s\<rparr>))"

definition structured_request ::
  "('a) registry_env_scheme \<Rightarrow> ModelId \<Rightarrow> CompiledPrompt \<Rightarrow> u32 \<Rightarrow> ReasoningSetting option \<Rightarrow> string
     \<Rightarrow> RouterSetupError + StructuredInferenceRequest" where
  "structured_request env model_id compiled max_output_tokens reasoning schema_name =
     and_then (map_err RouterMessageEncoding
       (collect_results (map (router_backend_message env) (cp_messages compiled)))) (\<lambda>messages.
     and_then (map_err RouterSetupContract
       (build_output_spec schema_name (cp_output_schema compiled) (Some (cp_generation_schema compiled))))
       (\<lambda>output.
     and_then (map_err RouterSetupContract
       (inference_request_new model_id messages output max_output_tokens)) (\<lambda>request.
     Inr (case reasoning of None \<Rightarrow> request | Some r \<Rightarrow> with_reasoning r request))))"

definition retained_attempt :: "BackendError + StructuredInferenceResponse \<Rightarrow> RetainedInferenceAttempt" where
  "retained_attempt result = (case result of Inr response \<Rightarrow> AttemptResponse response | Inl e \<Rightarrow> AttemptError e)"

definition inference_response_contract_violations ::
  "('a) backend_env_scheme \<Rightarrow> StructuredInferenceResponse \<Rightarrow> ModelId \<Rightarrow> BackendId \<Rightarrow> u32
     \<Rightarrow> InferenceResponseContractViolation list" where
  "inference_response_contract_violations env response requested_model_id expected_backend_id
       max_output_tokens =
     report (sr_model_id response \<noteq> requested_model_id) ModelIdentityMismatch
     @ report (ie_backend_id (sr_evidence response) \<noteq> expected_backend_id) BackendIdentityMismatch
     @ (case be_json_parse env (sr_raw_text response) of
          Some decoded \<Rightarrow> report (decoded \<noteq> sr_value response) RawTextValueMismatch
        | None \<Rightarrow> [RawTextIsNotJson])
     @ (case Option.bind (sr_usage response) tu_output_tokens of
          Some actual \<Rightarrow> report (actual > ucast max_output_tokens)
            (OutputTokenLimitExceeded (ucast max_output_tokens) actual)
        | None \<Rightarrow> [])"

section \<open>Duplicated evidence\<close>

definition is_duplicate_evidence :: "RouterInvariantViolation \<Rightarrow> bool" where
  "is_duplicate_evidence v = (case v of RouteDuplicateEvidenceSection s n \<Rightarrow> True | _ \<Rightarrow> False)"

definition repairable_duplicate_violations :: "RouterInvariantViolation list \<Rightarrow> bool" where
  "repairable_duplicate_violations violations =
     (violations \<noteq> [] \<and> list_all is_duplicate_evidence violations)"

definition duplicate_names :: "RouterInvariantViolation list \<Rightarrow> string btree_set" where
  "duplicate_names violations =
     bs_of_list (List.map_filter (\<lambda>v. case v of RouteDuplicateEvidenceSection s n \<Rightarrow> Some s | _ \<Rightarrow> None)
       violations)"

definition duplicate_sections_in_first_occurrence_order ::
  "TaskRouterOutput \<Rightarrow> RouterInvariantViolation list \<Rightarrow> string list" where
  "duplicate_sections_in_first_occurrence_order candidate violations =
     first_occurrences []
       (map rv_section
         (filter (\<lambda>e. bs_contains (duplicate_names violations) (rv_section e)) (ro_evidence candidate)))"

definition duplicate_group :: "TaskRouterOutput \<Rightarrow> string \<Rightarrow> json_value" where
  "duplicate_group candidate section = json_object
     [(''section'', JString section),
      (''bases'', JArray (map (JString \<circ> rv_basis)
         (filter (\<lambda>e. rv_section e = section) (ro_evidence candidate))))]"

definition repair_invocation :: "TaskRouterOutput \<Rightarrow> string list \<Rightarrow> string \<Rightarrow> PromptInvocation" where
  "repair_invocation candidate duplicate_sections source_id =
     \<lparr>pi_sections =
        [\<lparr>ds_name = REPAIR_INPUT_SECTION, ds_trust = UntrustedExternal,
          ds_provenance = \<lparr>dp_source_kind = SourceExternal, dp_source_id = source_id,
            dp_artifact_sha256 = None, dp_event_id = None\<rparr>,
          ds_payload = json_object
            [(''duplicate_groups'', JArray (map (duplicate_group candidate) duplicate_sections))]\<rparr>],
      pi_limits = \<lparr>pm_max_suggested_subtasks = 0\<rparr>, pi_runtime_constraints = []\<rparr>"

definition replacement_violations ::
  "string list \<Rightarrow> nat \<times> RouteEvidence \<Rightarrow> EvidenceRepairPatchViolation list" where
  "replacement_violations expected_sections = (\<lambda>(index, replacement).
     report (is_blank (rv_basis replacement)) (PatchBlankBasis (wire_u32 index) (rv_section replacement))
     @ (let expected = (if index < length expected_sections then Some (expected_sections ! index) else None) in
        if \<not> bs_contains (bs_of_list expected_sections) (rv_section replacement)
          then [PatchUnexpectedSection (wire_u32 index) (rv_section replacement)]
        else report (expected \<noteq> Some (rv_section replacement))
          (PatchWrongSectionOrder (wire_u32 index) (case expected of Some s \<Rightarrow> s | None \<Rightarrow> [])
            (rv_section replacement))))"

definition validate_patch ::
  "EvidenceRepairPatch \<Rightarrow> string list \<Rightarrow> EvidenceRepairPatchViolation list" where
  "validate_patch patch expected_sections =
     (let counts = entry_counts (map rv_section patch) in
      report (length patch \<noteq> length expected_sections)
        (ReplacementCount (wire_u32 (length expected_sections)) (wire_u32 (length patch)))
      @ concat (map (replacement_violations expected_sections) (enumerate0 patch))
      @ concat (map (\<lambda>section. report (\<not> bm_contains_key counts section) (PatchMissingSection section))
          expected_sections)
      @ concat (map (\<lambda>(section, occurrences). report (occurrences > 1)
          (PatchDuplicateSection section (wire_u32 occurrences))) counts))"

text \<open>\<open>None\<close> is the panic of \<open>replacements[&section]\<close>.\<close>

fun patch_evidence ::
  "(string, RouteEvidence) btree_map \<Rightarrow> string btree_set \<Rightarrow> string btree_set \<Rightarrow> RouteEvidence list
     \<Rightarrow> RouteEvidence list option" where
  "patch_evidence replacements duplicates emitted [] = Some []"
| "patch_evidence replacements duplicates emitted (evidence # rest) =
     (if \<not> bs_contains duplicates (rv_section evidence)
        then map_option ((#) evidence) (patch_evidence replacements duplicates emitted rest)
      else if bs_contains emitted (rv_section evidence)
        then patch_evidence replacements duplicates emitted rest
      else case bm_get replacements (rv_section evidence) of
        None \<Rightarrow> None
      | Some replacement \<Rightarrow>
          map_option ((#) replacement)
            (patch_evidence replacements duplicates (bs_insert (rv_section evidence) emitted) rest))"

definition apply_route_patch ::
  "TaskRouterOutput \<Rightarrow> EvidenceRepairPatch \<Rightarrow> string list \<Rightarrow> TaskRouterOutput option" where
  "apply_route_patch candidate patch duplicate_sections =
     map_option (\<lambda>evidence. candidate\<lparr>ro_evidence := evidence\<rparr>)
       (patch_evidence (bm_of_list (map (\<lambda>r. (rv_section r, r)) patch)) (bs_of_list duplicate_sections) []
         (ro_evidence candidate))"

section \<open>The execution\<close>

record router_backend =
  rb_backend_id :: BackendId
  rb_infer_structured ::
    "RouterAttemptPhase \<Rightarrow> StructuredInferenceRequest \<Rightarrow> BackendError + StructuredInferenceResponse"

datatype (plugins only: code) router_effect =
    RouterCalled RouterAttemptPhase StructuredInferenceRequest
  | RouterRetained RetainedInferenceRecord

datatype (plugins only: code) router_result =
    RouterPanicked
  | RouterReturned "RouterSetupError + RouterExecution"

type_synonym 'j router_retain = "'j \<Rightarrow> RetainedInferenceRecord \<Rightarrow> (string + unit) \<times> 'j"
type_synonym 'j router_state = "'j \<times> router_effect list"

definition router_rejected ::
  "ManifestProvenance \<Rightarrow> ManifestProvenance option \<Rightarrow> RetainedInferenceRecord
     \<Rightarrow> RetainedInferenceRecord option \<Rightarrow> RouterExecutionFailure \<Rightarrow> router_result" where
  "router_rejected router_manifest repair_manifest initial repair failure =
     RouterReturned (Inr
       \<lparr>rn_router_manifest = router_manifest, rn_repair_manifest = repair_manifest, rn_initial = initial,
        rn_repair = repair, rn_status = RouterRejected failure\<rparr>)"

text \<open>One inference: the call, and the record that the journal acknowledges or refuses.\<close>

definition infer_and_retain ::
  "router_backend \<Rightarrow> 'j router_retain \<Rightarrow> RouterAttemptPhase
     \<Rightarrow> (RetainedInferenceAttempt \<Rightarrow> RetainedInferenceRecord) \<Rightarrow> StructuredInferenceRequest
     \<Rightarrow> 'j router_state \<Rightarrow> (RetainedInferenceRecord \<times> (string + unit)) \<times> 'j router_state" where
  "infer_and_retain backend retain phase record_of request st =
     (let record = record_of (retained_attempt (rb_infer_structured backend phase request));
          called = snd st @ [RouterCalled phase request] in
      case retain (fst st) record of
        (Inl message, j) \<Rightarrow> ((record, Inl message), j, called)
      | (Inr u, j) \<Rightarrow> ((record, Inr ()), j, called @ [RouterRetained record]))"

text \<open>The part of \<open>execute\<close> before the first inference.\<close>

definition prepare_router ::
  "('a) router_env_scheme \<Rightarrow> RouterExecutor \<Rightarrow> RouterExecutionRequest
     \<Rightarrow> RouterSetupError + CompiledPrompt \<times> StructuredInferenceRequest" where
  "prepare_router env self request =
     (let key = rq_router_key request in
      if pk_id key \<noteq> TASK_ROUTER_ID then Inl (UnsupportedRouterPrompt key)
      else case re_router_registry self key of
        None \<Rightarrow> Inl (RouterSetupPrompt (PromptNotFound key))
      | Some selected \<Rightarrow>
        (case re_bundled_router_registry self key of
           None \<Rightarrow> Inl (UnbundledRouterManifest key)
         | Some bundled \<Rightarrow>
           and_then (map_err RouterSetupPrompt (content_sha256 env bundled)) (\<lambda>bundled_digest.
           let bundled_provenance = \<lparr>mp_prompt = key, mp_content_sha256 = bundled_digest\<rparr> in
           and_then (if selected \<noteq> bundled then Inl (UnbundledRouterManifest key)
               else and_then (map_err RouterSetupPrompt (content_sha256 env selected)) (\<lambda>digest.
                 if digest \<noteq> bundled_digest then Inl (UnbundledRouterManifest key) else Inr ())) (\<lambda>_.
           and_then (map_err RouterSetupPrompt
             (registry_compile env (re_router_registry self) key (rq_invocation request))) (\<lambda>compiled.
           if cp_manifest compiled \<noteq> bundled_provenance then Inl (UnbundledRouterManifest key)
           else and_then (structured_request env (rq_model_id request) compiled
               (rq_max_output_tokens request) (rq_reasoning request) ''task_router_output'')
             (\<lambda>backend_request. Inr (compiled, backend_request)))))))"

definition initial_record ::
  "RouterExecutionRequest \<Rightarrow> RouterAttemptId \<Rightarrow> CompiledPrompt \<Rightarrow> RetainedInferenceAttempt
     \<Rightarrow> RetainedInferenceRecord" where
  "initial_record request attempt_id compiled attempt =
     \<lparr>rr_execution_id = rq_execution_id request, rr_attempt_id = attempt_id, rr_parent_attempt_id = None,
      rr_phase = PhaseInitial, rr_compiled_prompt = compiled, rr_requested_model_id = rq_model_id request,
      rr_reasoning = rq_reasoning request, rr_max_output_tokens = rq_max_output_tokens request,
      rr_parent_candidate_raw_text_sha256 = None, rr_attempt = attempt\<rparr>"

definition repair_record ::
  "RouterExecutionRequest \<Rightarrow> RouterAttemptId \<Rightarrow> RouterAttemptId \<Rightarrow> CompiledPrompt \<Rightarrow> string
     \<Rightarrow> RetainedInferenceAttempt \<Rightarrow> RetainedInferenceRecord" where
  "repair_record request attempt_id parent compiled parent_sha256 attempt =
     \<lparr>rr_execution_id = rq_execution_id request, rr_attempt_id = attempt_id,
      rr_parent_attempt_id = Some parent, rr_phase = PhaseEvidenceRepair, rr_compiled_prompt = compiled,
      rr_requested_model_id = rq_model_id request, rr_reasoning = rq_reasoning request,
      rr_max_output_tokens = rq_repair_max_output_tokens request,
      rr_parent_candidate_raw_text_sha256 = Some parent_sha256, rr_attempt = attempt\<rparr>"

text \<open>What is known before the repair is requested.\<close>

record repair_plan =
  rl_candidate :: TaskRouterOutput
  rl_duplicate_sections :: "string list"
  rl_parent_sha256 :: string
  rl_invocation :: PromptInvocation
  rl_compiled :: CompiledPrompt
  rl_request :: StructuredInferenceRequest

text \<open>An error carries the provenance of the repair prompt once it is compiled.\<close>

definition prepare_repair ::
  "('a) router_env_scheme \<Rightarrow> RouterExecutor \<Rightarrow> RouterExecutionRequest \<Rightarrow> StructuredInferenceResponse
     \<Rightarrow> RouterInvariantViolation list \<Rightarrow> (ManifestProvenance option \<times> RouterExecutionFailure) + repair_plan" where
  "prepare_repair env self request initial_response violations =
     and_then (map_err (\<lambda>e. (None, RepairPreparation e)) (pn_router_from_value env (sr_value initial_response)))
       (\<lambda>candidate.
     let duplicate_sections = duplicate_sections_in_first_occurrence_order candidate violations;
         parent_sha256 = encode_sha256 env (str_bytes (sr_raw_text initial_response));
         invocation = repair_invocation candidate duplicate_sections
           (''router-candidate-raw-text-sha256:'' @ parent_sha256) in
     and_then (map_err (\<lambda>e. (None, RepairPreparation (rx_prompt_error_text env e)))
       (registry_compile env (re_repair_registry self) (re_repair_key self) invocation)) (\<lambda>compiled.
     and_then (map_err (\<lambda>e. (Some (cp_manifest compiled), RepairPreparation (rx_setup_error_text env e)))
       (structured_request env (rq_model_id request) compiled (rq_repair_max_output_tokens request)
         (rq_reasoning request) ''task_router_evidence_repair'')) (\<lambda>repair_request. Inr
       \<lparr>rl_candidate = candidate, rl_duplicate_sections = duplicate_sections,
        rl_parent_sha256 = parent_sha256, rl_invocation = invocation, rl_compiled = compiled,
        rl_request = repair_request\<rparr>)))"

text \<open>The part of \<open>repair_duplicate_evidence\<close> after the repair is retained; \<open>None\<close> is a panic.\<close>

definition decide_repair ::
  "('a) router_env_scheme \<Rightarrow> RouterExecutor \<Rightarrow> BackendId \<Rightarrow> RouterExecutionRequest \<Rightarrow> CompiledPrompt
     \<Rightarrow> repair_plan \<Rightarrow> RetainedInferenceRecord \<Rightarrow> (RouterExecutionFailure + TaskRouterOutput) option" where
  "decide_repair env self backend_id request compiled plan repair =
     (case rr_attempt repair of
        AttemptError e \<Rightarrow> Some (Inl RepairBackend)
      | AttemptResponse response \<Rightarrow>
         (let response_violations = inference_response_contract_violations env response
                (rr_requested_model_id repair) backend_id (rr_max_output_tokens repair) in
          if response_violations \<noteq> [] then Some (Inl (RepairResponseContract response_violations))
          else case validate_output env (re_repair_registry self) (rl_compiled plan) (rl_invocation plan)
                      (sr_value response) of
            Inl e \<Rightarrow> Some (Inl (RepairOutputContract (rx_prompt_error_text env e)))
          | Inr _ \<Rightarrow>
           (case rx_patch_from_value env (sr_value response) of
              Inl e \<Rightarrow> Some (Inl (RepairOutputContract e))
            | Inr patch \<Rightarrow>
               (let patch_violations = validate_patch patch (rl_duplicate_sections plan) in
                if patch_violations \<noteq> [] then Some (Inl (InvalidRepairPatch patch_violations))
                else case apply_route_patch (rl_candidate plan) patch (rl_duplicate_sections plan) of
                  None \<Rightarrow> None
                | Some repaired \<Rightarrow> Some
                   (case rx_router_to_value env repaired of
                      Inl e \<Rightarrow> Inl (RepairedOutputContract e)
                    | Inr repaired_value \<Rightarrow>
                       (case validate_output env (re_router_registry self) compiled (rq_invocation request)
                               repaired_value of
                          Inl e \<Rightarrow> Inl (RepairedOutputContract (rx_prompt_error_text env e))
                        | Inr _ \<Rightarrow> Inr repaired))))))"

definition repair_duplicate_evidence ::
  "('a) router_env_scheme \<Rightarrow> RouterExecutor \<Rightarrow> router_backend \<Rightarrow> 'j router_retain
     \<Rightarrow> (RouterAttemptPhase \<Rightarrow> RouterAttemptId) \<Rightarrow> RouterExecutionRequest \<Rightarrow> CompiledPrompt
     \<Rightarrow> RetainedInferenceRecord \<Rightarrow> RouterInvariantViolation list \<Rightarrow> 'j router_state
     \<Rightarrow> router_result \<times> 'j router_state" where
  "repair_duplicate_evidence env self backend retain attempt_ids request compiled initial violations st =
     (let router_manifest = cp_manifest compiled in
      case rr_attempt initial of
        AttemptError e \<Rightarrow> (RouterPanicked, st)
      | AttemptResponse initial_response \<Rightarrow>
         (case prepare_repair env self request initial_response violations of
            Inl (repair_manifest, failure) \<Rightarrow>
              (router_rejected router_manifest repair_manifest initial None failure, st)
          | Inr plan \<Rightarrow>
             (let repair_manifest = Some (cp_manifest (rl_compiled plan)) in
              case infer_and_retain backend retain PhaseEvidenceRepair
                     (repair_record request (attempt_ids PhaseEvidenceRepair) (rr_attempt_id initial)
                       (rl_compiled plan) (rl_parent_sha256 plan))
                     (rl_request plan) st of
                ((repair, Inl message), st') \<Rightarrow>
                  (router_rejected router_manifest repair_manifest initial (Some repair)
                    (RouterJournal PhaseEvidenceRepair message), st')
              | ((repair, Inr _), st') \<Rightarrow>
                 (case decide_repair env self (rb_backend_id backend) request compiled plan repair of
                    None \<Rightarrow> (RouterPanicked, st')
                  | Some (Inl failure) \<Rightarrow>
                      (router_rejected router_manifest repair_manifest initial (Some repair) failure, st')
                  | Some (Inr output) \<Rightarrow>
                      (RouterReturned (Inr
                        \<lparr>rn_router_manifest = router_manifest, rn_repair_manifest = repair_manifest,
                         rn_initial = initial, rn_repair = Some repair,
                         rn_status = AcceptedAfterEvidenceRepair output\<rparr>), st')))))"

text \<open>The judgement of the first inference: an outcome, or the violations that a repair may remove.\<close>

datatype (plugins only: code) initial_decision =
    InitialAccepted TaskRouterOutput
  | InitialRejected RouterExecutionFailure
  | InitialRepairable "RouterInvariantViolation list"

definition decide_initial ::
  "('a) router_env_scheme \<Rightarrow> RouterExecutor \<Rightarrow> BackendId \<Rightarrow> RouterExecutionRequest \<Rightarrow> CompiledPrompt
     \<Rightarrow> RetainedInferenceRecord \<Rightarrow> initial_decision" where
  "decide_initial env self backend_id request compiled initial =
     (case rr_attempt initial of
        AttemptError e \<Rightarrow> InitialRejected InitialBackend
      | AttemptResponse response \<Rightarrow>
         (let response_violations = inference_response_contract_violations env response
                (rq_model_id request) backend_id (rq_max_output_tokens request) in
          if response_violations \<noteq> [] then InitialRejected (InitialResponseContract response_violations)
          else case validate_output env (re_router_registry self) compiled (rq_invocation request)
                      (sr_value response) of
            Inr _ \<Rightarrow>
             (case pn_router_from_value env (sr_value response) of
                Inl e \<Rightarrow> InitialRejected (InitialOutputContract e)
              | Inr output \<Rightarrow> InitialAccepted output)
          | Inl (OutputInvariant violations) \<Rightarrow>
              if repairable_duplicate_violations violations then InitialRepairable violations
              else InitialRejected (NonRepairableInvariants violations)
          | Inl e \<Rightarrow> InitialRejected (InitialOutputContract (rx_prompt_error_text env e))))"

definition router_execute ::
  "('a) router_env_scheme \<Rightarrow> RouterExecutor \<Rightarrow> router_backend \<Rightarrow> 'j router_retain
     \<Rightarrow> (RouterAttemptPhase \<Rightarrow> RouterAttemptId) \<Rightarrow> RouterExecutionRequest \<Rightarrow> 'j router_state
     \<Rightarrow> router_result \<times> 'j router_state" where
  "router_execute env self backend retain attempt_ids request st =
     (case prepare_router env self request of
        Inl e \<Rightarrow> (RouterReturned (Inl e), st)
      | Inr (compiled, backend_request) \<Rightarrow>
         (case infer_and_retain backend retain PhaseInitial
                 (initial_record request (attempt_ids PhaseInitial) compiled) backend_request st of
            ((initial, Inl message), st') \<Rightarrow>
              (router_rejected (cp_manifest compiled) None initial None
                (RouterJournal PhaseInitial message), st')
          | ((initial, Inr _), st') \<Rightarrow>
             (case decide_initial env self (rb_backend_id backend) request compiled initial of
                InitialRejected failure \<Rightarrow>
                  (router_rejected (cp_manifest compiled) None initial None failure, st')
              | InitialAccepted output \<Rightarrow>
                  (RouterReturned (Inr
                    \<lparr>rn_router_manifest = cp_manifest compiled, rn_repair_manifest = None,
                     rn_initial = initial, rn_repair = None, rn_status = AcceptedFirstPass output\<rparr>), st')
              | InitialRepairable violations \<Rightarrow>
                  repair_duplicate_evidence env self backend retain attempt_ids request compiled initial
                    violations st')))"

end
