(* ===== verification/Router_Repair_Correct.thy ===== *)
theory Router_Repair_Correct
  imports Router_Executor
begin

text \<open>
  The bounded repair of duplicated evidence: what a valid patch is, what applying it changes, and that a
  route whose only defects are duplicates becomes admissible.
\<close>

section \<open>Patches\<close>

lemma replacement_violations_Nil:
  "replacement_violations expected (i, r) = [] \<longleftrightarrow>
     \<not> is_blank (rv_basis r) \<and> i < length expected \<and> expected ! i = rv_section r"
  by (auto simp: replacement_violations_def Let_def bs_contains_def in_set_conv_nth split: if_splits)

lemma validate_patch_Nil:
  assumes "distinct expected"
  shows "validate_patch patch expected = [] \<longleftrightarrow>
    map rv_section patch = expected \<and> (\<forall>r \<in> set patch. \<not> is_blank (rv_basis r))"
proof
  assume "validate_patch patch expected = []"
  then have len: "length patch = length expected"
    and each: "\<forall>x \<in> set (enumerate0 patch). replacement_violations expected x = []"
    by (simp_all add: validate_patch_def Let_def)
  have "expected ! i = rv_section (patch ! i) \<and> \<not> is_blank (rv_basis (patch ! i))" if "i < length patch" for i
    using bspec[OF each, of "(i, patch ! i)"] that by (auto simp: replacement_violations_Nil enumerate0_iff)
  with len show "map rv_section patch = expected \<and> (\<forall>r \<in> set patch. \<not> is_blank (rv_basis r))"
    by (auto simp: list_eq_iff_nth_eq in_set_conv_nth)
next
  assume ok: "map rv_section patch = expected \<and> (\<forall>r \<in> set patch. \<not> is_blank (rv_basis r))"
  have each: "replacement_violations expected x = []" if "x \<in> set (enumerate0 patch)" for x
  proof -
    obtain i r where x: "x = (i, r)" by (cases x)
    with that have "i < length patch" "r = patch ! i" by (simp_all add: enumerate0_iff)
    with x ok show ?thesis by (auto simp: replacement_violations_Nil)
  qed
  have none: "concat (map (\<lambda>(section, n). report (n > 1) (PatchDuplicateSection section (wire_u32 n)))
      (entry_counts (map rv_section patch))) = []"
    unfolding concat_map_Nil_iff using no_repeated_entry[of "map rv_section patch"] ok assms
    by (auto split: prod.splits)
  have known: "bm_contains_key (entry_counts (map rv_section patch)) s" if "s \<in> set expected" for s
    using that ok by (auto simp: bm_contains_key_def entry_counts_get)
  show "validate_patch patch expected = []"
    unfolding validate_patch_def Let_def using each none known ok by auto
qed

section \<open>Applying a patch\<close>

text \<open>The sections of the repaired evidence: of a duplicated section only the first occurrence stays.\<close>

fun collapse :: "string set \<Rightarrow> string set \<Rightarrow> string list \<Rightarrow> string list" where
  "collapse D seen [] = []"
| "collapse D seen (s # ss) =
     (if s \<notin> D then s # collapse D seen ss
      else if s \<in> seen then collapse D seen ss
      else s # collapse D (insert s seen) ss)"

lemma set_collapse: "set (collapse D seen ss) = {s \<in> set ss. s \<in> D \<longrightarrow> s \<notin> seen}"
  by (induction D seen ss rule: collapse.induct) auto

lemma distinct_collapse:
  "(\<forall>s \<in> set ss. s \<notin> D \<longrightarrow> count_list ss s = 1) \<Longrightarrow> distinct (collapse D seen ss)"
proof (induction D seen ss rule: collapse.induct)
  case (2 D seen s ss)
  have "\<forall>t \<in> set ss. t \<notin> D \<longrightarrow> count_list ss t = 1"
  proof (intro ballI impI)
    fix t assume "t \<in> set ss" "t \<notin> D"
    with "2.prems" have "count_list (s # ss) t = 1" by simp
    moreover have "count_list ss t \<noteq> 0" using \<open>t \<in> set ss\<close> by (simp add: count_list_0_iff)
    ultimately show "count_list ss t = 1" by (simp split: if_splits)
  qed
  moreover have "s \<notin> set ss" if "s \<notin> D"
    using "2.prems" that by (auto simp: count_list_0_iff)
  ultimately show ?case
    using "2.IH" by (auto simp: set_collapse)
qed simp

lemma patch_evidence_spec:
  assumes "\<And>s. s \<in> set duplicates - set emitted \<Longrightarrow> s \<in> rv_section ` set evidence
      \<Longrightarrow> \<exists>r. bm_get replacements s = Some r \<and> rv_section r = s"
  shows "\<exists>out. patch_evidence replacements duplicates emitted evidence = Some out
    \<and> map rv_section out = collapse (set duplicates) (set emitted) (map rv_section evidence)
    \<and> filter (\<lambda>e. rv_section e \<notin> set duplicates) out = filter (\<lambda>e. rv_section e \<notin> set duplicates) evidence
    \<and> map Some (filter (\<lambda>e. rv_section e \<in> set duplicates) out)
        = map (bm_get replacements)
            (filter (\<lambda>s. s \<in> set duplicates) (collapse (set duplicates) (set emitted) (map rv_section evidence)))"
  using assms
proof (induction replacements duplicates emitted evidence rule: patch_evidence.induct)
  case (2 replacements duplicates emitted e rest)
  note IH = "2.IH" and found = "2.prems"
  show ?case
  proof (cases "rv_section e \<in> set duplicates")
    case False
    with IH(1) found show ?thesis by (auto simp: bs_contains_def)
  next
    case duplicate: True
    show ?thesis
    proof (cases "rv_section e \<in> set emitted")
      case True
      with duplicate IH(2) found show ?thesis by (auto simp: bs_contains_def)
    next
      case False
      with duplicate found[of "rv_section e"] obtain r
        where "bm_get replacements (rv_section e) = Some r" "rv_section r = rv_section e"
        by auto
      with duplicate False IH(3)[of r] found show ?thesis by (auto simp: bs_contains_def)
    qed
  qed
qed simp

text \<open>Applying a patch whose sections are those of the list never fails.\<close>

lemma apply_route_patch_spec:
  assumes "distinct sections" "map rv_section patch = sections" "set sections \<subseteq> rv_section ` set (ro_evidence candidate)"
  shows "\<exists>evidence. apply_route_patch candidate patch sections = Some (candidate\<lparr>ro_evidence := evidence\<rparr>)
    \<and> map rv_section evidence = collapse (set sections) {} (map rv_section (ro_evidence candidate))
    \<and> filter (\<lambda>e. rv_section e \<notin> set sections) evidence
        = filter (\<lambda>e. rv_section e \<notin> set sections) (ro_evidence candidate)
    \<and> set (filter (\<lambda>e. rv_section e \<in> set sections) evidence) = set patch"
proof -
  let ?m = "bm_of_list (map (\<lambda>r. (rv_section r, r)) patch)"
  have lookup: "bm_get ?m s = Some r \<longleftrightarrow> r \<in> set patch \<and> rv_section r = s" for s r
  proof -
    have "map fst (rev (map (\<lambda>r. (rv_section r, r)) patch)) = rev sections"
      using assms(2) by (simp add: comp_def flip: rev_map)
    then have d: "distinct (map fst (rev (map (\<lambda>r. (rv_section r, r)) patch)))"
      using assms(1) by simp
    show ?thesis
      unfolding bm_get_of_list map_of_eq_Some_iff[OF d] by auto
  qed
  have found: "\<exists>r. bm_get ?m s = Some r \<and> rv_section r = s" if "s \<in> set sections" for s
    using that assms(2) by (force simp: lookup)
  obtain out where out: "patch_evidence ?m (bs_of_list sections) [] (ro_evidence candidate) = Some out"
      and secs: "map rv_section out = collapse (set sections) {} (map rv_section (ro_evidence candidate))"
      and keep: "filter (\<lambda>e. rv_section e \<notin> set sections) out
        = filter (\<lambda>e. rv_section e \<notin> set sections) (ro_evidence candidate)"
      and new: "map Some (filter (\<lambda>e. rv_section e \<in> set sections) out) = map (bm_get ?m)
        (filter (\<lambda>s. s \<in> set sections) (collapse (set sections) {} (map rv_section (ro_evidence candidate))))"
    using patch_evidence_spec[of "bs_of_list sections" "[]" "ro_evidence candidate" ?m] found by auto
  have "Some ` set (filter (\<lambda>e. rv_section e \<in> set sections) out) = bm_get ?m ` set sections"
  proof -
    have "set (filter (\<lambda>s. s \<in> set sections) (collapse (set sections) {} (map rv_section (ro_evidence candidate))))
        = set sections"
      using assms(3) by (auto simp: set_collapse)
    with arg_cong[OF new, of set] show ?thesis by simp
  qed
  also have "\<dots> = Some ` set patch"
    using found lookup assms(2) by (auto simp: image_iff) (metis image_eqI lookup set_map)+
  finally have "set (filter (\<lambda>e. rv_section e \<in> set sections) out) = set patch"
    by (metis inj_Some inj_image_eq_iff)
  with out secs keep show ?thesis
    by (auto simp: apply_route_patch_def)
qed

section \<open>Repairable candidates\<close>

text \<open>The pass around the reports on minimal evidence, which alone reports duplicates.\<close>

lemma router_violations_split:
  "\<exists>before after. router_invariant_violations version_le output invocation version
      = before @ (if version_le (version_new 1 1 1) version
          then collect_minimal_evidence_violations output invocation else []) @ after
    \<and> (\<forall>v \<in> set before \<union> set after. \<not> is_duplicate_evidence v)
    \<and> (before = [] \<and> after = [] \<longleftrightarrow>
        route_admissible_but_evidence invocation output \<and> evidence_known invocation (ro_evidence output))"
proof -
  let ?ts = "ro_suggested_subtasks output"
  let ?before = "report (length ?ts > unat (pm_max_suggested_subtasks (pi_limits invocation)))
        (RouteTooManySuggestedSubtasks (pm_max_suggested_subtasks (pi_limits invocation)) (wire_u32 (length ?ts)))
      @ collect_route_axis_violations output
      @ concat (map (evidence_field_violations (bs_of_list (map ds_name (pi_sections invocation))))
          (enumerate0 (ro_evidence output)))"
  let ?after = "concat (map (\<lambda>(index, question). report (is_blank question)
          (RouteBlankClarificationQuestion (wire_u32 index))) (enumerate0 (ro_clarification_questions output)))
      @ concat (map (subtask_violations (ro_required_access output)) (enumerate0 ?ts))
      @ concat (map (\<lambda>(id, occurrences). report (occurrences > 1)
          (RouteDuplicateSubtaskId id (wire_u32 occurrences))) (entry_counts (map st_id ?ts)))
      @ concat (map (task_dependency_violations (route_task_map ?ts)) ?ts)
      @ report (route_graph_has_cycle (route_task_map ?ts) \<noteq> Some False) RouteDependencyCycle"
  have questions: "concat (map (\<lambda>(index, question). report (is_blank question)
      (RouteBlankClarificationQuestion (wire_u32 index))) (enumerate0 qs)) = []
      \<longleftrightarrow> (\<forall>q \<in> set qs. \<not> is_blank q)" for qs
    by (rule blank_list_Nil) simp
  have "\<forall>v \<in> set ?before \<union> set ?after. \<not> is_duplicate_evidence v"
    by (auto simp: is_duplicate_evidence_def collect_route_axis_violations_def evidence_field_violations_def
        subtask_violations_def task_dependency_violations_def report_def split: if_splits prod.splits)
  moreover have "?before = [] \<and> ?after = [] \<longleftrightarrow>
      route_admissible_but_evidence invocation output \<and> evidence_known invocation (ro_evidence output)"
    unfolding append_is_Nil_conv report_Nil_iff axis_violations_Nil field_violations_Nil questions
      subtask_violations_Nil repeated_ids_Nil not_less not_not route_admissible_but_evidence_def
    using graph_violations_Nil[of ?ts] by blast
  ultimately show ?thesis
    by (intro exI[of _ ?before] exI[of _ ?after]) (simp add: router_invariant_violations_def Let_def)
qed

text \<open>A pass that reports duplicates only reports exactly the duplicated sections, and nothing else is wrong.\<close>

lemma only_duplicates_reported:
  assumes "router_invariant_violations version_le candidate invocation version = violations"
    and "repairable_duplicate_violations violations"
  shows "violations = map (\<lambda>s. RouteDuplicateEvidenceSection s
        (wire_u32 (count_list (map rv_section (ro_evidence candidate)) s))) (duplicated_sections (ro_evidence candidate))"
    and "version_le (version_new 1 1 1) version"
    and "route_admissible_but_evidence invocation candidate"
    and "evidence_known invocation (ro_evidence candidate)" "user_cited invocation (ro_evidence candidate)"
proof -
  let ?minimal = "if version_le (version_new 1 1 1) version
      then collect_minimal_evidence_violations candidate invocation else []"
  let ?duplicates = "map (\<lambda>s. RouteDuplicateEvidenceSection s
        (wire_u32 (count_list (map rv_section (ro_evidence candidate)) s))) (duplicated_sections (ro_evidence candidate))"
  let ?user = "case filter (\<lambda>s. ds_trust s = TrustUser) (pi_sections invocation) of
      [user] \<Rightarrow> report (ds_name user \<notin> rv_section ` set (ro_evidence candidate))
        (RouteUserEvidenceCitationCount (ds_name user) 0)
    | users \<Rightarrow> [RouteUserSectionCount (wire_u32 (length users))]"
  obtain before after where split: "violations = before @ ?minimal @ after"
      and outer: "\<forall>v \<in> set before \<union> set after. \<not> is_duplicate_evidence v"
      and rest: "before = [] \<and> after = [] \<longleftrightarrow>
        route_admissible_but_evidence invocation candidate \<and> evidence_known invocation (ro_evidence candidate)"
    using router_violations_split assms(1) by metis
  have all: "\<forall>v \<in> set violations. is_duplicate_evidence v" and "violations \<noteq> []"
    using assms(2) by (simp_all add: repairable_duplicate_violations_def list_all_iff)
  with split outer have Nil: "before = []" "after = []"
    by (auto simp: ball_Un)
  with split \<open>violations \<noteq> []\<close> show version: "version_le (version_new 1 1 1) version"
    by (auto split: if_splits)
  from rest Nil show "route_admissible_but_evidence invocation candidate"
      "evidence_known invocation (ro_evidence candidate)" by simp_all
  have violations: "violations = ?duplicates @ ?user"
    using split Nil version by (simp add: minimal_evidence_violations)
  have "?user = []"
    using all unfolding violations by (auto simp: is_duplicate_evidence_def report_def split: list.splits if_splits)
  then show "violations = ?duplicates" "user_cited invocation (ro_evidence candidate)"
    using violations by (simp_all add: user_report_Nil[symmetric])
qed

text \<open>The duplicates of such a pass are the duplicated sections, each with at least two citations.\<close>

lemma duplicated_sections_facts:
  "distinct (duplicated_sections evidence)"
  "set (duplicated_sections evidence)
     = {s \<in> rv_section ` set evidence. 1 < count_list (map rv_section evidence) s}"
  by (auto simp: duplicated_sections_def distinct_first_occurrences set_first_occurrences)

lemma repaired_sections:
  assumes "repairable_duplicate_violations violations"
    and "router_invariant_violations version_le candidate invocation version = violations"
  shows "duplicate_sections_in_first_occurrence_order candidate violations = duplicated_sections (ro_evidence candidate)"
proof -
  let ?cited = "map rv_section (ro_evidence candidate)"
  have "set (duplicate_names violations) = set (duplicated_sections (ro_evidence candidate))"
    unfolding duplicate_names_def only_duplicates_reported(1)[OF assms(2,1)]
    by (simp add: List.map_filter_def comp_def)
  then have "map rv_section (filter (\<lambda>e. bs_contains (duplicate_names violations) (rv_section e)) (ro_evidence candidate))
      = filter (\<lambda>s. 1 < count_list ?cited s) ?cited"
    by (simp add: bs_contains_def filter_map comp_def duplicated_sections_facts cong: filter_cong)
  then show ?thesis
    by (simp add: duplicate_sections_in_first_occurrence_order_def duplicated_sections_def)
qed

text \<open>
  The repair of a candidate whose pass reports duplicates only: a patch without violations is applied
  without a panic, changes nothing but the evidence of duplicated sections, and leaves an admissible route.
\<close>

theorem repaired_route:
  assumes violations: "router_invariant_violations version_le candidate invocation version = violations"
    and repairable: "repairable_duplicate_violations violations"
    and patch: "validate_patch patch (duplicate_sections_in_first_occurrence_order candidate violations) = []"
  obtains evidence where
    "apply_route_patch candidate patch (duplicate_sections_in_first_occurrence_order candidate violations)
       = Some (candidate\<lparr>ro_evidence := evidence\<rparr>)"
    "admissible_route version_le invocation version (candidate\<lparr>ro_evidence := evidence\<rparr>)"
    "rv_section ` set evidence = rv_section ` set (ro_evidence candidate)"
    "filter (\<lambda>e. count_list (map rv_section (ro_evidence candidate)) (rv_section e) = 1) evidence
       = filter (\<lambda>e. count_list (map rv_section (ro_evidence candidate)) (rv_section e) = 1) (ro_evidence candidate)"
    "set evidence \<subseteq> set (ro_evidence candidate) \<union> set patch"
proof -
  let ?E = "ro_evidence candidate"
  let ?cited = "map rv_section ?E"
  let ?D = "duplicated_sections ?E"
  have sections: "duplicate_sections_in_first_occurrence_order candidate violations = ?D"
    by (rule repaired_sections[OF repairable violations])
  have ok: "map rv_section patch = ?D" "\<forall>r \<in> set patch. \<not> is_blank (rv_basis r)"
    using patch by (simp_all add: sections validate_patch_Nil duplicated_sections_facts)
  have sub: "set ?D \<subseteq> rv_section ` set ?E"
    by (auto simp: duplicated_sections_facts)
  obtain evidence where applied: "apply_route_patch candidate patch ?D = Some (candidate\<lparr>ro_evidence := evidence\<rparr>)"
      and secs: "map rv_section evidence = collapse (set ?D) {} ?cited"
      and keep: "filter (\<lambda>e. rv_section e \<notin> set ?D) evidence = filter (\<lambda>e. rv_section e \<notin> set ?D) ?E"
      and new: "set (filter (\<lambda>e. rv_section e \<in> set ?D) evidence) = set patch"
    using apply_route_patch_spec[OF duplicated_sections_facts(1) ok(1) sub] by blast
  have same: "rv_section ` set evidence = rv_section ` set ?E"
    using arg_cong[OF secs, of set] by (auto simp: set_collapse)
  have once: "count_list ?cited s = 1 \<longleftrightarrow> s \<notin> set ?D" if "s \<in> rv_section ` set ?E" for s
    using that count_list_0_iff[of ?cited s] by (auto simp: duplicated_sections_facts)
  have "distinct (map rv_section evidence)"
    unfolding secs using once by (intro distinct_collapse) auto
  moreover have part: "set evidence \<subseteq> set ?E \<union> set patch"
  proof
    fix e assume "e \<in> set evidence"
    then show "e \<in> set ?E \<union> set patch"
      using arg_cong[OF keep, of set] new by (cases "rv_section e \<in> set ?D") auto
  qed
  note facts = only_duplicates_reported[OF violations repairable]
  have "evidence_known invocation evidence"
    unfolding evidence_known_def
  proof
    fix e assume e: "e \<in> set evidence"
    then obtain e0 where "e0 \<in> set ?E" "rv_section e0 = rv_section e"
      using same by (metis image_iff)
    with facts(4) have "\<not> is_blank (rv_section e)" "rv_section e \<in> ds_name ` set (pi_sections invocation)"
      unfolding evidence_known_def by metis+
    moreover have "\<not> is_blank (rv_basis e)"
      using e part ok(2) facts(4) by (auto simp: evidence_known_def)
    ultimately show "\<not> is_blank (rv_section e) \<and> \<not> is_blank (rv_basis e)
        \<and> rv_section e \<in> ds_name ` set (pi_sections invocation)" by blast
  qed
  moreover have "user_cited invocation evidence"
    using facts(5) same by (simp add: user_cited_def)
  moreover have "route_admissible_but_evidence invocation (candidate\<lparr>ro_evidence := evidence\<rparr>)"
    using facts(3) by (auto simp: route_admissible_but_evidence_def route_axes_def)
  ultimately have "admissible_route version_le invocation version (candidate\<lparr>ro_evidence := evidence\<rparr>)"
    by (simp add: admissible_route_def)
  moreover have "filter (\<lambda>e. count_list ?cited (rv_section e) = 1) evidence
      = filter (\<lambda>e. count_list ?cited (rv_section e) = 1) ?E"
  proof -
    have "filter (\<lambda>e. count_list ?cited (rv_section e) = 1) evidence = filter (\<lambda>e. rv_section e \<notin> set ?D) evidence"
      using once same by (intro filter_cong refl) (metis imageI)
    moreover have "filter (\<lambda>e. count_list ?cited (rv_section e) = 1) ?E = filter (\<lambda>e. rv_section e \<notin> set ?D) ?E"
      using once by (intro filter_cong) auto
    ultimately show ?thesis using keep by simp
  qed
  ultimately show thesis
    using that applied sections same part by simp
qed

end
