(* ===== verification/Router_Correct.thy ===== *)
theory Router_Correct
  imports Router_Repair_Correct
begin

text \<open>
  What an execution of the router's executor guarantees: it never panics, it calls the backend at most
  twice and always under a record that the journal has acknowledged before, and it accepts only
  admissible routes of the bundled prompt.
\<close>

section \<open>The journal\<close>

text \<open>What the executor relies on: an acknowledged record is kept at the end, a refused one leaves no trace.\<close>

locale attempt_journal =
  fixes retain :: "'j router_retain" and records :: "'j \<Rightarrow> RetainedInferenceRecord list"
  assumes acknowledged: "retain j r = (Inr u, j') \<Longrightarrow> records j' = records j @ [r]"
    and refused: "retain j r = (Inl message, j') \<Longrightarrow> records j' = records j"
begin

text \<open>The records among the effects of a state are those that the journal keeps after \<open>base\<close>.\<close>

definition effects_kept :: "RetainedInferenceRecord list \<Rightarrow> 'j router_state \<Rightarrow> bool" where
  "effects_kept base st \<longleftrightarrow>
     records (fst st) = base @ [r. RouterRetained r \<leftarrow> snd st]"

lemma infer_and_retain_kept:
  assumes "infer_and_retain backend retain phase record_of request st = (x, st')" "effects_kept base st"
  shows "effects_kept base st'"
proof -
  let ?r = "record_of (retained_attempt (rb_infer_structured backend phase request))"
  obtain result j where r: "retain (fst st) ?r = (result, j)" by force
  show ?thesis
  proof (cases result)
    case (Inl message)
    with r assms refused[of "fst st" ?r message j] show ?thesis
      by (auto simp: infer_and_retain_def effects_kept_def Let_def)
  next
    case (Inr u)
    with r assms acknowledged[of "fst st" ?r u j] show ?thesis
      by (auto simp: infer_and_retain_def effects_kept_def Let_def)
  qed
qed

lemma repair_kept:
  assumes "repair_duplicate_evidence env self backend retain ids request compiled initial violations st = (x, st')"
    and "effects_kept base st"
  shows "effects_kept base st'"
proof (cases "rr_attempt initial")
  case (AttemptResponse response)
  show ?thesis
  proof (cases "prepare_repair env self request response violations")
    case (Inr plan)
    let ?go = "infer_and_retain backend retain PhaseEvidenceRepair
       (repair_record request (ids PhaseEvidenceRepair) (rr_attempt_id initial)
         (rl_compiled plan) (rl_parent_sha256 plan)) (rl_request plan) st"
    obtain made result st1 where go: "?go = ((made, result), st1)"
      by (metis prod.collapse)
    with AttemptResponse Inr assms(1) have "st' = st1"
      by (auto simp: repair_duplicate_evidence_def Let_def split: sum.splits option.splits)
    with infer_and_retain_kept[OF go assms(2)] show ?thesis by simp
  qed (use AttemptResponse assms in \<open>auto simp: repair_duplicate_evidence_def Let_def\<close>)
qed (use assms in \<open>auto simp: repair_duplicate_evidence_def Let_def\<close>)

lemma router_execute_kept:
  assumes "router_execute env self backend retain ids request st = (x, st')" "effects_kept base st"
  shows "effects_kept base st'"
proof (cases "prepare_router env self request")
  case (Inr p)
  obtain compiled q where p: "p = (compiled, q)" by (cases p)
  let ?go = "infer_and_retain backend retain PhaseInitial (initial_record request (ids PhaseInitial) compiled) q st"
  obtain made result st1 where go: "?go = ((made, result), st1)"
    by (metis prod.collapse)
  note kept = infer_and_retain_kept[OF go assms(2)]
  show ?thesis
  proof (cases result)
    case Inl
    with go Inr p assms(1) kept show ?thesis by (auto simp: router_execute_def)
  next
    case (Inr u)
    show ?thesis
    proof (cases "decide_initial env self (rb_backend_id backend) request compiled made")
      case (InitialRepairable violations)
      with Inr go p \<open>prepare_router env self request = Inr p\<close> assms(1)
      have "repair_duplicate_evidence env self backend retain ids request compiled made violations st1 = (x, st')"
        by (simp add: router_execute_def)
      then show ?thesis by (rule repair_kept) (rule kept)
    qed (use Inr go p \<open>prepare_router env self request = Inr p\<close> assms(1) kept in \<open>auto simp: router_execute_def\<close>)
  qed
qed (use assms in \<open>simp add: router_execute_def\<close>)

end

interpretation memory_attempt_journal: attempt_journal router_journal_retain mr_records
  by unfold_locales (auto simp: router_journal_retain_def split: if_splits)

section \<open>The effects of an execution\<close>

text \<open>
  The possible sequences of effects. The first record binds the call to the compiled prompt; the second
  call is made only under an acknowledged first record whose response is repairable, and its record names
  the first attempt and the digest of its text.
\<close>

inductive router_effects ::
  "('a) router_env_scheme \<Rightarrow> RouterExecutor \<Rightarrow> router_backend \<Rightarrow> (RouterAttemptPhase \<Rightarrow> RouterAttemptId)
     \<Rightarrow> RouterExecutionRequest \<Rightarrow> router_effect list \<Rightarrow> bool"
  for env self backend ids request
where
  nothing: "router_effects env self backend ids request []"
| unacknowledged: "prepare_router env self request = Inr (compiled, q)
    \<Longrightarrow> router_effects env self backend ids request [RouterCalled PhaseInitial q]"
| judged: "prepare_router env self request = Inr (compiled, q)
    \<Longrightarrow> first = initial_record request (ids PhaseInitial) compiled
          (retained_attempt (rb_infer_structured backend PhaseInitial q))
    \<Longrightarrow> router_effects env self backend ids request [RouterCalled PhaseInitial q, RouterRetained first]"
| repairing: "prepare_router env self request = Inr (compiled, q)
    \<Longrightarrow> first = initial_record request (ids PhaseInitial) compiled (AttemptResponse response)
    \<Longrightarrow> rb_infer_structured backend PhaseInitial q = Inr response
    \<Longrightarrow> decide_initial env self (rb_backend_id backend) request compiled first = InitialRepairable violations
    \<Longrightarrow> prepare_repair env self request response violations = Inr plan
    \<Longrightarrow> second = repair_record request (ids PhaseEvidenceRepair) (ids PhaseInitial) (rl_compiled plan)
          (encode_sha256 env (str_bytes (sr_raw_text response)))
          (retained_attempt (rb_infer_structured backend PhaseEvidenceRepair (rl_request plan)))
    \<Longrightarrow> tail = [] \<or> tail = [RouterRetained second]
    \<Longrightarrow> router_effects env self backend ids request
          ([RouterCalled PhaseInitial q, RouterRetained first, RouterCalled PhaseEvidenceRepair (rl_request plan)]
           @ tail)"

lemma infer_and_retain_effects:
  assumes "infer_and_retain backend retain phase record_of request st = ((made, result), st')"
  shows "made = record_of (retained_attempt (rb_infer_structured backend phase request))"
    and "snd st' = snd st @ RouterCalled phase request
      # (case result of Inl m \<Rightarrow> [] | Inr u \<Rightarrow> [RouterRetained made])"
  using assms by (auto simp: infer_and_retain_def Let_def split: prod.splits sum.splits)

lemma prepared_parent:
  "prepare_repair env self request response violations = Inr plan
     \<Longrightarrow> rl_parent_sha256 plan = encode_sha256 env (str_bytes (sr_raw_text response))"
  by (auto simp: prepare_repair_def result_simps Let_def)

lemma decided_repairable:
  assumes "decide_initial env self b request compiled made = InitialRepairable violations"
  obtains response where "rr_attempt made = AttemptResponse response"
    "inference_response_contract_violations env response (rq_model_id request) b (rq_max_output_tokens request) = []"
    "validate_output env (re_router_registry self) compiled (rq_invocation request) (sr_value response)
       = Inl (OutputInvariant violations)"
    "repairable_duplicate_violations violations"
  using assms
  by (auto simp: decide_initial_def Let_def split: RetainedInferenceAttempt.splits if_splits sum.splits
      PromptError.splits)

lemma decided_accepted:
  assumes "decide_initial env self b request compiled made = InitialAccepted route"
  obtains response where "rr_attempt made = AttemptResponse response"
    "inference_response_contract_violations env response (rq_model_id request) b (rq_max_output_tokens request) = []"
    "validate_output env (re_router_registry self) compiled (rq_invocation request) (sr_value response) = Inr ()"
    "pn_router_from_value env (sr_value response) = Inr route"
  using assms
  by (auto simp: decide_initial_def Let_def split: RetainedInferenceAttempt.splits if_splits sum.splits
      PromptError.splits)

theorem router_execute_effects:
  assumes "router_execute env self backend retain ids request (j, tr) = (x, j', tr')"
  shows "\<exists>es. tr' = tr @ es \<and> router_effects env self backend ids request es"
proof (cases "prepare_router env self request")
  case prepared: (Inr p)
  obtain compiled q where p: "p = (compiled, q)" by (cases p)
  let ?go = "infer_and_retain backend retain PhaseInitial (initial_record request (ids PhaseInitial) compiled) q (j, tr)"
  obtain made result st1 where go: "?go = ((made, result), st1)"
    by (metis prod.collapse)
  note eff = infer_and_retain_effects[OF go]
  show ?thesis
  proof (cases result)
    case (Inl m)
    with go prepared p assms have "tr' = snd st1" by (auto simp: router_execute_def)
    with eff(2) Inl prepared p show ?thesis
      by (auto intro: router_effects.unacknowledged)
  next
    case (Inr u)
    have one: "router_effects env self backend ids request [RouterCalled PhaseInitial q, RouterRetained made]"
      using prepared p eff(1) by (auto intro: router_effects.judged)
    show ?thesis
    proof (cases "decide_initial env self (rb_backend_id backend) request compiled made")
      case (InitialRepairable violations)
      from decided_repairable[OF this] obtain response where response: "rr_attempt made = AttemptResponse response"
        by metis
      then have inferred: "rb_infer_structured backend PhaseInitial q = Inr response"
        using eff(1) by (auto simp: initial_record_def retained_attempt_def split: sum.splits)
      have repair: "repair_duplicate_evidence env self backend retain ids request compiled made violations st1
          = (x, j', tr')"
        using InitialRepairable Inr go p prepared assms by (simp add: router_execute_def)
      show ?thesis
      proof (cases "prepare_repair env self request response violations")
        case (Inl e)
        with repair response have "tr' = snd st1"
          by (auto simp: repair_duplicate_evidence_def split: prod.splits)
        with eff(2) Inr one show ?thesis by auto
      next
        case plan: (Inr plan)
        let ?again = "infer_and_retain backend retain PhaseEvidenceRepair
           (repair_record request (ids PhaseEvidenceRepair) (rr_attempt_id made)
             (rl_compiled plan) (rl_parent_sha256 plan)) (rl_request plan) st1"
        obtain made2 result2 st2 where again: "?again = ((made2, result2), st2)"
          by (metis prod.collapse)
        with plan response repair have "tr' = snd st2"
          by (auto simp: repair_duplicate_evidence_def Let_def split: sum.splits option.splits)
        moreover have "made = initial_record request (ids PhaseInitial) compiled (AttemptResponse response)"
          using eff(1) inferred by (simp add: retained_attempt_def)
        moreover from this have "rr_attempt_id made = ids PhaseInitial"
          by (simp add: initial_record_def)
        ultimately show ?thesis
          using infer_and_retain_effects[OF again] eff(2) Inr prepared p inferred InitialRepairable plan
            prepared_parent[OF plan]
            router_effects.repairing[of env self request compiled q made ids response backend violations plan]
          by (cases result2) auto
      qed
    qed (use Inr go p prepared assms eff(2) one in \<open>auto simp: router_execute_def\<close>)
  qed
qed (use assms in \<open>auto simp: router_execute_def intro: router_effects.nothing\<close>)

section \<open>No panic\<close>

lemma duplicate_sections_facts:
  "distinct (duplicate_sections_in_first_occurrence_order candidate violations)"
  "set (duplicate_sections_in_first_occurrence_order candidate violations) \<subseteq> rv_section ` set (ro_evidence candidate)"
  by (auto simp: duplicate_sections_in_first_occurrence_order_def distinct_first_occurrences
      set_first_occurrences)

text \<open>A patch without violations is applied, and changes only the evidence.\<close>

lemma apply_valid_patch:
  assumes "validate_patch patch (duplicate_sections_in_first_occurrence_order candidate violations) = []"
  obtains evidence where
    "apply_route_patch candidate patch (duplicate_sections_in_first_occurrence_order candidate violations)
       = Some (candidate\<lparr>ro_evidence := evidence\<rparr>)"
proof -
  have "map rv_section patch = duplicate_sections_in_first_occurrence_order candidate violations"
    using assms by (simp add: validate_patch_Nil duplicate_sections_facts)
  from apply_route_patch_spec[OF duplicate_sections_facts(1) this duplicate_sections_facts(2)] that
  show thesis by blast
qed

lemma prepared_plan:
  assumes "prepare_repair env self request response violations = Inr plan"
  shows "pn_router_from_value env (sr_value response) = Inr (rl_candidate plan)"
    and "rl_duplicate_sections plan = duplicate_sections_in_first_occurrence_order (rl_candidate plan) violations"
    and "registry_compile env (re_repair_registry self) (re_repair_key self) (rl_invocation plan) = Inr (rl_compiled plan)"
  using assms by (auto simp: prepare_repair_def result_simps Let_def)

lemma decide_repair_returns:
  assumes "prepare_repair env self request response violations = Inr plan"
  shows "decide_repair env self b request compiled plan repair \<noteq> None"
proof (cases "rr_attempt repair")
  case (AttemptResponse answer)
  show ?thesis
  proof (cases "rx_patch_from_value env (sr_value answer)")
    case (Inr patch)
    show ?thesis
    proof (cases "validate_patch patch (rl_duplicate_sections plan) = []")
      case True
      then obtain evidence where "apply_route_patch (rl_candidate plan) patch (rl_duplicate_sections plan)
          = Some ((rl_candidate plan)\<lparr>ro_evidence := evidence\<rparr>)"
        using apply_valid_patch prepared_plan(2)[OF assms] by metis
      with AttemptResponse Inr show ?thesis
        by (simp add: decide_repair_def Let_def split: sum.splits)
    qed (use AttemptResponse Inr in \<open>simp add: decide_repair_def Let_def split: sum.splits\<close>)
  qed (use AttemptResponse in \<open>simp add: decide_repair_def Let_def split: sum.splits\<close>)
qed (simp add: decide_repair_def)

text \<open>The result of a repair.\<close>

lemma repair_result:
  assumes run: "repair_duplicate_evidence env self backend retain ids request compiled initial violations st = (x, st')"
    and initial: "rr_attempt initial = AttemptResponse response"
  shows "\<exists>e. x = RouterReturned (Inr e) \<and> rn_initial e = initial
    \<and> (\<forall>route. rn_status e = AcceptedAfterEvidenceRepair route \<longrightarrow>
        (\<exists>plan repair. prepare_repair env self request response violations = Inr plan
           \<and> decide_repair env self (rb_backend_id backend) request compiled plan repair = Some (Inr route)))
    \<and> (\<forall>route. rn_status e \<noteq> AcceptedFirstPass route)"
proof (cases "prepare_repair env self request response violations")
  case (Inl f)
  with assms show ?thesis
    by (cases f) (auto simp: repair_duplicate_evidence_def router_rejected_def)
next
  case (Inr plan)
  let ?again = "infer_and_retain backend retain PhaseEvidenceRepair
     (repair_record request (ids PhaseEvidenceRepair) (rr_attempt_id initial)
       (rl_compiled plan) (rl_parent_sha256 plan)) (rl_request plan) st"
  obtain repair result st1 where again: "?again = ((repair, result), st1)"
    by (metis prod.collapse)
  show ?thesis
  proof (cases result)
    case (Inl m)
    with Inr initial again run show ?thesis
      by (auto simp: repair_duplicate_evidence_def router_rejected_def Let_def)
  next
    case (Inr u)
    obtain outcome where "decide_repair env self (rb_backend_id backend) request compiled plan repair = Some outcome"
      using decide_repair_returns[OF \<open>prepare_repair _ _ _ _ _ = Inr plan\<close>] by blast
    with \<open>prepare_repair _ _ _ _ _ = Inr plan\<close> Inr initial again run show ?thesis
      by (cases outcome) (auto simp: repair_duplicate_evidence_def router_rejected_def Let_def)
  qed
qed

lemma router_execute_cases:
  assumes run: "router_execute env self backend retain ids request st = (x, st')"
  obtains (unprepared) e where "x = RouterReturned (Inl e)" "prepare_router env self request = Inl e"
  | (rejected) e failure where "x = RouterReturned (Inr e)" "rn_status e = RouterRejected failure"
  | (first) e compiled q route where "x = RouterReturned (Inr e)" "rn_status e = AcceptedFirstPass route"
      "prepare_router env self request = Inr (compiled, q)" "rr_compiled_prompt (rn_initial e) = compiled"
      "decide_initial env self (rb_backend_id backend) request compiled (rn_initial e) = InitialAccepted route"
  | (repaired) e compiled q route response violations plan repair where "x = RouterReturned (Inr e)"
      "rn_status e = AcceptedAfterEvidenceRepair route" "prepare_router env self request = Inr (compiled, q)"
      "rr_attempt (rn_initial e) = AttemptResponse response"
      "decide_initial env self (rb_backend_id backend) request compiled (rn_initial e) = InitialRepairable violations"
      "prepare_repair env self request response violations = Inr plan"
      "decide_repair env self (rb_backend_id backend) request compiled plan repair = Some (Inr route)"
proof (cases "prepare_router env self request")
  case (Inl e)
  with run have "x = RouterReturned (Inl e)" by (simp add: router_execute_def)
  then show thesis by (rule unprepared) (rule Inl)
next
  case prepared: (Inr p)
  obtain compiled q where p: "p = (compiled, q)" by (cases p)
  let ?go = "infer_and_retain backend retain PhaseInitial (initial_record request (ids PhaseInitial) compiled) q st"
  obtain made result st1 where go: "?go = ((made, result), st1)"
    by (metis prod.collapse)
  show thesis
  proof (cases result)
    case (Inl m)
    with go prepared p run rejected show thesis
      by (auto simp: router_execute_def router_rejected_def)
  next
    case (Inr u)
    show thesis
    proof (cases "decide_initial env self (rb_backend_id backend) request compiled made")
      case (InitialRejected failure)
      with Inr go prepared p run rejected show thesis
        by (auto simp: router_execute_def router_rejected_def)
    next
      case (InitialAccepted route)
      moreover have "rr_compiled_prompt made = compiled"
        using infer_and_retain_effects(1)[OF go] by (simp add: initial_record_def)
      ultimately show thesis
        using Inr go prepared p run first by (auto simp: router_execute_def)
    next
      case (InitialRepairable violations)
      from decided_repairable[OF this] obtain response where response: "rr_attempt made = AttemptResponse response"
        by metis
      have repair: "repair_duplicate_evidence env self backend retain ids request compiled made violations st1 = (x, st')"
        using InitialRepairable Inr go p prepared run by (simp add: router_execute_def)
      obtain e where e: "x = RouterReturned (Inr e)" "rn_initial e = made"
        and accepted: "\<And>route. rn_status e = AcceptedAfterEvidenceRepair route \<Longrightarrow>
          \<exists>plan repair. prepare_repair env self request response violations = Inr plan
           \<and> decide_repair env self (rb_backend_id backend) request compiled plan repair = Some (Inr route)"
        and no_first: "\<And>route. rn_status e \<noteq> AcceptedFirstPass route"
        using repair_result[OF repair response] by blast
      show thesis
      proof (cases "rn_status e")
        case (AcceptedAfterEvidenceRepair route)
        with accepted[OF this] e response InitialRepairable prepared p show thesis
          by (auto intro: repaired)
      qed (use no_first e rejected in auto)
    qed
  qed
qed

theorem router_never_panics:
  "fst (router_execute env self backend retain ids request st) \<noteq> RouterPanicked"
proof -
  obtain x st' where run: "router_execute env self backend retain ids request st = (x, st')"
    by (rule prod.exhaust)
  then show ?thesis by (cases rule: router_execute_cases) (simp_all add: run)
qed

section \<open>Acceptance\<close>

lemma prepared_bundled:
  assumes "prepare_router env self request = Inr (compiled, q)"
  shows "is_task_router_key (rq_router_key request)"
    and "mp_prompt (cp_manifest compiled) = rq_router_key request"
    and "re_router_registry self (rq_router_key request) = re_bundled_router_registry self (rq_router_key request)"
    and "registry_compile env (re_router_registry self) (rq_router_key request) (rq_invocation request) = Inr compiled"
  using assms
  by (auto simp: prepare_router_def is_task_router_key_def result_simps Let_def split: if_splits option.splits)

lemma validated_route:
  assumes "prepare_router env self request = Inr (compiled, q)"
    and "validate_output env (re_router_registry self) compiled (rq_invocation request) value = Inr ()"
  obtains route where "pn_router_from_value env value = Inr route"
    "admissible_route (rg_version_le env) (rq_invocation request) (pk_version (rq_router_key request)) route"
  using assms(2) prepared_bundled[OF assms(1)]
  by (auto simp: validate_output_router validate_router_output_def result_simps route_decided Let_def
      split: option.splits if_splits)

text \<open>An invariant error of a prepared prompt is the report of the pass.\<close>

lemma invariant_error:
  assumes "prepare_router env self request = Inr (compiled, q)"
    and "validate_output env (re_router_registry self) compiled (rq_invocation request) value
      = Inl (OutputInvariant violations)"
    and "pn_router_from_value env value = Inr route"
  shows "router_invariant_violations (rg_version_le env) route (rq_invocation request)
    (pk_version (rq_router_key request)) = violations"
proof -
  note bundled = prepared_bundled[OF assms(1)]
  from bundled(4) obtain manifest where m: "re_router_registry self (rq_router_key request) = Some manifest"
      and "compile_prompt env manifest (rq_invocation request) = Inr compiled"
    by (auto simp: registry_compile_def split: option.splits)
  then have "compiled_validate_against env compiled manifest (rq_invocation request) = Inr ()"
    by (simp add: compiled_against_iff)
  moreover have "validate_value env (pm_output_schema manifest) value ''model output'' \<noteq> Inl (OutputInvariant violations)"
    by (auto simp: validate_value_def compile_schema_def and_then_def map_err_def Let_def split: sum.splits)
  ultimately show ?thesis
    using assms(2,3) bundled(1,2) m
    by (auto simp: validate_output_router validate_router_output_def and_then_def map_err_def Let_def
        split: sum.splits if_splits)
qed

text \<open>The route that an execution accepts.\<close>

fun accepted_route :: "RouterExecutionStatus \<Rightarrow> TaskRouterOutput option" where
  "accepted_route (AcceptedFirstPass route) = Some route"
| "accepted_route (AcceptedAfterEvidenceRepair route) = Some route"
| "accepted_route (RouterRejected failure) = None"

lemma decide_repair_Inr:
  assumes "decide_repair env self b request compiled plan repair = Some (Inr route)"
  obtains answer patch repaired_value where "rr_attempt repair = AttemptResponse answer"
    "rx_patch_from_value env (sr_value answer) = Inr patch"
    "validate_patch patch (rl_duplicate_sections plan) = []"
    "apply_route_patch (rl_candidate plan) patch (rl_duplicate_sections plan) = Some route"
    "rx_router_to_value env route = Inr repaired_value"
    "validate_output env (re_router_registry self) compiled (rq_invocation request) repaired_value = Inr ()"
  using assms
  by (auto simp: decide_repair_def Let_def split: RetainedInferenceAttempt.splits if_splits sum.splits option.splits)

theorem accepted_routes_admissible:
  assumes law: "\<And>route value. rx_router_to_value env route = Inr value \<Longrightarrow> pn_router_from_value env value = Inr route"
    and run: "router_execute env self backend retain ids request st = (RouterReturned (Inr e), st')"
    and accepted: "accepted_route (rn_status e) = Some route"
  shows "admissible_route (rg_version_le env) (rq_invocation request) (pk_version (rq_router_key request)) route"
  using run
proof (cases rule: router_execute_cases)
  case (first e' compiled q route')
  with accepted have "route' = route" by simp
  obtain response :: StructuredInferenceResponse where
      valid: "validate_output env (re_router_registry self) compiled (rq_invocation request) (sr_value response) = Inr ()"
      and parsed: "pn_router_from_value env (sr_value response) = Inr route'"
    using decided_accepted[OF first(5)] by metis
  from validated_route[OF first(3) valid] parsed \<open>route' = route\<close> show ?thesis by auto
next
  case (repaired e' compiled q route' response violations plan repair)
  with accepted have "route' = route" by simp
  from decide_repair_Inr[OF repaired(7)] obtain v where
      given: "rx_router_to_value env route' = Inr v"
      and valid: "validate_output env (re_router_registry self) compiled (rq_invocation request) v = Inr ()"
    by metis
  from law[OF given] validated_route[OF repaired(3) valid] \<open>route' = route\<close> show ?thesis by auto
qed (use accepted in auto)

text \<open>A repair keeps every field of the candidate but the evidence.\<close>

theorem repair_frame:
  assumes "router_execute env self backend retain ids request st = (RouterReturned (Inr e), st')"
    and "rn_status e = AcceptedAfterEvidenceRepair route"
  obtains response candidate evidence where "rr_attempt (rn_initial e) = AttemptResponse response"
    "pn_router_from_value env (sr_value response) = Inr candidate"
    "route = candidate\<lparr>ro_evidence := evidence\<rparr>"
    "rv_section ` set evidence = rv_section ` set (ro_evidence candidate)"
    "filter (\<lambda>e. count_list (map rv_section (ro_evidence candidate)) (rv_section e) = 1) evidence
       = filter (\<lambda>e. count_list (map rv_section (ro_evidence candidate)) (rv_section e) = 1) (ro_evidence candidate)"
  using assms(1)
proof (cases rule: router_execute_cases)
  case (repaired e' compiled q route' response violations plan repair)
  from assms(2) repaired(1,2) have same: "e' = e" "route' = route" by simp_all
  from decided_repairable[OF repaired(5)] repaired(4) have
      invalid: "validate_output env (re_router_registry self) compiled (rq_invocation request) (sr_value response)
        = Inl (OutputInvariant violations)" and repairable: "repairable_duplicate_violations violations"
    by auto
  note plan = prepared_plan[OF repaired(6)]
  have candidate_violations: "router_invariant_violations (rg_version_le env) (rl_candidate plan)
      (rq_invocation request) (pk_version (rq_router_key request)) = violations"
    by (rule invariant_error[OF repaired(3) invalid plan(1)])
  from decide_repair_Inr[OF repaired(7)] obtain patch where
      "validate_patch patch (duplicate_sections_in_first_occurrence_order (rl_candidate plan) violations) = []"
      "apply_route_patch (rl_candidate plan) patch
        (duplicate_sections_in_first_occurrence_order (rl_candidate plan) violations) = Some route"
    using plan(2) same(2) by metis
  then have valid: "validate_patch patch (duplicate_sections_in_first_occurrence_order (rl_candidate plan) violations) = []"
    and applied: "apply_route_patch (rl_candidate plan) patch
        (duplicate_sections_in_first_occurrence_order (rl_candidate plan) violations) = Some route" by simp_all
  obtain evidence where E:
      "apply_route_patch (rl_candidate plan) patch
         (duplicate_sections_in_first_occurrence_order (rl_candidate plan) violations)
       = Some ((rl_candidate plan)\<lparr>ro_evidence := evidence\<rparr>)"
      "rv_section ` set evidence = rv_section ` set (ro_evidence (rl_candidate plan))"
      "filter (\<lambda>e. count_list (map rv_section (ro_evidence (rl_candidate plan))) (rv_section e) = 1) evidence
       = filter (\<lambda>e. count_list (map rv_section (ro_evidence (rl_candidate plan))) (rv_section e) = 1)
           (ro_evidence (rl_candidate plan))"
    using repaired_route[OF candidate_violations repairable valid] .
  have "rr_attempt (rn_initial e) = AttemptResponse response" using repaired(4) same(1) by simp
  moreover have "route = (rl_candidate plan)\<lparr>ro_evidence := evidence\<rparr>" using applied E(1) by simp
  ultimately show thesis using plan(1) E(2,3) that by blast
qed (use assms(2) in auto)

end
