(* ===== verification/Example_Policy.thy ===== *)
theory Example_Policy
  imports Canonical_Sealing Example_Router
begin

text \<open>
  A printer of JSON scalars whose texts can be told apart, and two policies of the root planner that differ
  in one field. The stand-in for the hash keeps the bytes of its input from the 33rd to the 64th.
\<close>

section \<open>A printer of scalars\<close>

fun escape :: "string \<Rightarrow> string" where
  "escape [] = []"
| "escape (c # cs) = (if c = CHR 0x22 \<or> c = CHR 0x5C then CHR 0x5C # c # escape cs else c # escape cs)"

fun print_scalar :: "json_value \<Rightarrow> string + string" where
  "print_scalar JNull = Inr ''null''"
| "print_scalar (JBool b) = Inr (if b then ''true'' else ''false'')"
| "print_scalar (JNumber n) = (if n \<noteq> [] \<and> list_all is_ascii_digit n then Inr n else Inl ''number'')"
| "print_scalar (JString s) = Inr (CHR 0x22 # escape s @ [CHR 0x22])"
| "print_scalar _ = Inl ''not a scalar''"

lemma escape_prefix: "escape s @ CHR 0x22 # x = escape t @ CHR 0x22 # y \<Longrightarrow> s = t"
proof (induction s arbitrary: t)
  case Nil
  then show ?case by (cases t) (auto split: if_splits)
next
  case (Cons c cs)
  then show ?case by (cases t) (auto split: if_splits)
qed

lemma delimiter_not_digit: "delimited (c # x) \<Longrightarrow> \<not> is_ascii_digit c"
  by (auto simp: delimited_def is_ascii_digit_def byte_def)

lemma digits_prefix:
  "n @ x = m @ y \<Longrightarrow> list_all is_ascii_digit n \<Longrightarrow> list_all is_ascii_digit m \<Longrightarrow> delimited x \<Longrightarrow> delimited y \<Longrightarrow> n = m"
proof (induction n arbitrary: m)
  case Nil
  then show ?case by (cases m) (auto dest: delimiter_not_digit)
next
  case (Cons c n)
  then show ?case by (cases m) (auto dest: delimiter_not_digit)
qed

lemma number_start: "n \<noteq> [] \<Longrightarrow> list_all is_ascii_digit n \<Longrightarrow> hd n \<notin> set ''[]{},:ntf'' \<and> hd n \<noteq> CHR 0x22"
  by (cases n) (auto simp: is_ascii_digit_def byte_def)

lemma print_scalar_start: "print_scalar a = Inr s \<Longrightarrow> s \<noteq> [] \<and> hd s \<notin> set ''[]{},:''"
  using number_start[of s] by (cases a) (auto split: if_splits)

text \<open>The first character tells the kind of a scalar.\<close>

lemma print_scalar_kind:
  assumes "print_scalar a = Inr s"
  shows "hd s = CHR ''n'' \<longleftrightarrow> a = JNull" "hd s = CHR ''t'' \<longleftrightarrow> a = JBool True"
    "hd s = CHR ''f'' \<longleftrightarrow> a = JBool False" "hd s = CHR 0x22 \<longleftrightarrow> (\<exists>u. a = JString u)"
    "(\<exists>n. a = JNumber n) \<longleftrightarrow> hd s \<notin> set ''ntf'' \<and> hd s \<noteq> CHR 0x22"
proof -
  have number: "hd n \<notin> set ''ntf'' \<and> hd n \<noteq> CHR 0x22" if "a = JNumber n" "s = n" for n
    using number_start[of n] assms that by (auto split: if_splits)
  show "hd s = CHR ''n'' \<longleftrightarrow> a = JNull" "hd s = CHR ''t'' \<longleftrightarrow> a = JBool True"
    "hd s = CHR ''f'' \<longleftrightarrow> a = JBool False" "hd s = CHR 0x22 \<longleftrightarrow> (\<exists>u. a = JString u)"
    "(\<exists>n. a = JNumber n) \<longleftrightarrow> hd s \<notin> set ''ntf'' \<and> hd s \<noteq> CHR 0x22"
    using assms number by (cases a; force split: if_splits)+
qed

lemma print_scalar_prefix:
  assumes "print_scalar a = Inr s" "print_scalar b = Inr t" "s @ x = t @ y" "delimited x" "delimited y"
  shows "a = b"
proof -
  have hd: "hd s = hd t"
    using assms(3) print_scalar_start[OF assms(1)] print_scalar_start[OF assms(2)] by (metis hd_append)
  note kinds = print_scalar_kind[OF assms(1), unfolded hd] print_scalar_kind[OF assms(2)]
  show ?thesis
  proof (cases a)
    case (JNumber n)
    then obtain m where m: "b = JNumber m" using kinds(5,10) by blast
    from assms(1,2) have digits: "list_all is_ascii_digit n" "list_all is_ascii_digit m" "s = n" "t = m"
      by (simp_all add: JNumber m split: if_splits)
    from digits_prefix[OF _ digits(1,2) assms(4,5)] assms(3) JNumber m show ?thesis
      by (simp add: digits(3,4))
  next
    case (JString u)
    then obtain w where w: "b = JString w" using kinds(4,9) by blast
    have "escape u @ CHR 0x22 # x = escape w @ CHR 0x22 # y"
      using assms(1-3) by (auto simp: JString w)
    from escape_prefix[OF this] show ?thesis by (simp add: JString w)
  next
    case JNull
    then show ?thesis using kinds(1,6) by simp
  next
    case (JBool c)
    then show ?thesis using kinds(2,3,7,8) by (cases c) simp_all
  qed (use assms(1) in simp_all)
qed

section \<open>Two policies\<close>

definition sealed_sha256 :: "u8 list \<Rightarrow> u8 list" where
  "sealed_sha256 bytes = take 32 (drop 32 bytes @ replicate 32 0)"

definition sealed_env :: router_env where
  "sealed_env = sample_env\<lparr>be_sha256 := sealed_sha256, rg_scalar_text := print_scalar\<rparr>"

lemma sealed_scalars: "scalar_texts_delimited sealed_env"
proof -
  have "rg_scalar_text sealed_env = print_scalar" by (simp add: sealed_env_def)
  then show ?thesis
    unfolding scalar_texts_delimited_def using print_scalar_prefix print_scalar_start by metis
qed

text \<open>Of the bytes of an encoding, only those that the hash keeps are computed.\<close>

definition kept_digest :: "json_value \<Rightarrow> string option" where
  "kept_digest v = (case canonical_encode sealed_env v of
     Inl e \<Rightarrow> None
   | Inr s \<Rightarrow> if 64 \<le> length s then Some (encode_digest (map of_char (take 32 (drop 32 s)))) else None)"

lemma kept_digest_hash:
  assumes "kept_digest v = Some d"
  shows "canonical_sha256 sealed_env v = Inr d"
proof -
  obtain s where s: "canonical_encode sealed_env v = Inr s" "64 \<le> length s"
      "d = encode_digest (map of_char (take 32 (drop 32 s)))"
    using assms by (auto simp: kept_digest_def split: sum.splits if_splits)
  have "be_sha256 sealed_env (str_bytes s) = map of_char (take 32 (drop 32 s))"
    using s(2) by (simp add: sealed_env_def sealed_sha256_def str_bytes_def drop_map take_map)
  with s show ?thesis
    by (simp add: canonical_sha256_def encode_sha256_def and_then_def)
qed

definition sample_zero :: string where
  "sample_zero = ''0000000000000000000000000000000000000000000000000000000000000000''"

definition sample_obligation :: RootProtectedObligation where
  "sample_obligation = \<lparr>rbo_obligation_id = ''o'',
     rbo_obligation_sha256 = ''5d2c226d616e6461746f7279223a747275652c226f626c69676174696f6e5f69'',
     rbo_statement = ''look'', rbo_mandatory = True, rbo_evidence_requirements = [''seen'']\<rparr>"

definition sample_policy :: RootPlannerPolicy where
  "sample_policy = \<lparr>rpp_root_snapshot_sha256 = sample_zero,
     rpp_planner_policy_sha256 = ''7265706f7369746f72795f66696c65225d2c22636f6e746578745f6d616e6966'',
     rpp_context_manifest_sha256 = sample_zero, rpp_obligations = [sample_obligation],
     rpp_allowed_verification_kinds = [RepositoryFile], rpp_max_work_orders = 4,
     rpp_max_dependency_references = 4, rpp_max_verification_targets = 4\<rparr>"

definition other_policy :: RootPlannerPolicy where
  "other_policy = sample_policy\<lparr>rpp_allowed_verification_kinds := [ExistingEvidence],
     rpp_planner_policy_sha256 := ''6578697374696e675f65766964656e6365225d2c22636f6e746578745f6d616e''\<rparr>"

lemma sample_digests:
  "kept_digest (obligation_hash_material sample_obligation) = Some (rbo_obligation_sha256 sample_obligation)"
  "kept_digest (policy_hash_material sample_policy) = Some (rpp_planner_policy_sha256 sample_policy)"
  "kept_digest (policy_hash_material other_policy) = Some (rpp_planner_policy_sha256 other_policy)"
  by code_simp+

lemma sample_hex:
  "valid_sha256 sample_zero" "valid_sha256 (rbo_obligation_sha256 sample_obligation)"
  "valid_sha256 (rpp_planner_policy_sha256 sample_policy)" "valid_sha256 (rpp_planner_policy_sha256 other_policy)"
  by code_simp+

lemma sample_obligation_intact: "obligation_integrity_violations sealed_env sample_obligation = []"
proof -
  have "obligation_structure_violations sample_obligation = []" by code_simp
  then show ?thesis
    using kept_digest_hash[OF sample_digests(1)]
    by (simp add: obligation_integrity_violations_def obligation_content_sha256_def digest_violations_def sample_hex)
qed

lemma sample_policies_structure:
  assumes "rpp_allowed_verification_kinds p = [kind]" "rpp_obligations p = [sample_obligation]"
    "rpp_root_snapshot_sha256 p = sample_zero" "rpp_context_manifest_sha256 p = sample_zero"
    "rpp_max_work_orders p = 4" "rpp_max_dependency_references p = 4" "rpp_max_verification_targets p = 4"
  shows "policy_structure_violations sealed_env p = []"
  using assms sample_obligation_intact
  by (simp add: policy_structure_violations_def enumerate0_def sample_hex MAX_POLICY_OBLIGATIONS_def
      MAX_ALLOWED_VERIFICATION_KINDS_def MAX_POLICY_WORK_ORDERS_def MAX_POLICY_DEPENDENCY_REFERENCES_def
      MAX_POLICY_VERIFICATION_TARGETS_def)

lemma sample_policies_valid:
  "root_policy_validate sealed_env sample_policy = Inr ()" "root_policy_validate sealed_env other_policy = Inr ()"
proof -
  have "policy_structure_violations sealed_env sample_policy = []" "policy_structure_violations sealed_env other_policy = []"
    by (rule sample_policies_structure; simp add: sample_policy_def other_policy_def)+
  then show "root_policy_validate sealed_env sample_policy = Inr ()" "root_policy_validate sealed_env other_policy = Inr ()"
    using kept_digest_hash[OF sample_digests(2)] kept_digest_hash[OF sample_digests(3)]
    by (simp_all add: root_policy_validate_def policy_integrity_violations_def policy_content_sha256_def
        digest_violations_def sample_hex)
qed

lemma sample_policies_separated:
  "hash_separates sealed_env (policy_hash_material sample_policy) (policy_hash_material other_policy)"
  using kept_digest_hash[OF sample_digests(2)] kept_digest_hash[OF sample_digests(3)]
  by (auto simp: hash_separates_def canonical_sha256_def result_simps other_policy_def sample_policy_def)

end
