(* ===== verification/Prompt_Properties.thy ===== *)
theory Prompt_Properties
  imports Example_Policy
begin

text \<open>
  The properties of the prompts and of the router: the contracts that decide whether a route or a root
  plan is accepted, the registry and the compilation of invocations, and the executor that calls the
  model, repairs duplicated evidence once and accepts a route. Those with hypotheses are applied to the
  execution of \<open>Example_Router\<close>.
\<close>

section \<open>Contracts\<close>

text \<open>
  C15. The validation of a route accepts a value exactly if it decodes to an admissible route: access fixed
  by the action, delegation only of inspections and changes, questions exactly for a clarification,
  subtasks exactly for a delegation, within the limit, with access within that of the route, named once,
  with known dependencies and without a cycle; evidence not blank and of known sections, and from
  version 1.1.1 on every section cited once and the only user section among them.
\<close>

theorem route_contract_exact:
  "validate_router_output env v invocation version = Inr () \<longleftrightarrow>
     (\<exists>route. pn_router_from_value env v = Inr route
        \<and> admissible_route (rg_version_le env) invocation version route)"
  by (auto simp: validate_router_output_def result_simps route_decided Let_def)

text \<open>
  C14. The validation of a root plan accepts a value exactly if it decodes to a plan, the one runtime
  constraint is a policy whose obligations and digests are intact, and the plan is admissible under this
  policy: bound to its three digests, of the shape of its directive, within its limits, with evidence
  that cites the user section, references only to protected obligations with their digests, allowed
  verification kinds, every mandatory obligation covered, and dependencies known and without a cycle.
\<close>

theorem root_plan_contract_exact:
  "validate_root_planner_output env v invocation = Inr () \<longleftrightarrow>
     (\<exists>plan policy payload. rt_output_from_value env v = Inr plan
        \<and> pi_runtime_constraints invocation = [\<lparr>rc_name = ''planner_policy'', rc_payload = payload\<rparr>]
        \<and> rt_policy_from_value env payload = Inr policy \<and> policy_integrity_violations env policy = []
        \<and> admissible_root_plan policy invocation plan)"
proof -
  have extracted: "extract_policy env invocation = Inr policy \<longleftrightarrow>
      (\<exists>payload. pi_runtime_constraints invocation = [\<lparr>rc_name = ''planner_policy'', rc_payload = payload\<rparr>]
        \<and> rt_policy_from_value env payload = Inr policy \<and> policy_integrity_violations env policy = [])" for policy
  proof (cases "\<exists>c. pi_runtime_constraints invocation = [c]")
    case True
    then obtain c where "pi_runtime_constraints invocation = [c]" by blast
    then show ?thesis
      by (cases c) (auto simp: extract_policy_def result_simps policy_invariant_violations_def Let_def)
  qed (auto simp: extract_policy_def split: list.splits)
  have "validate_root_planner_output env v invocation = Inr () \<longleftrightarrow>
      (\<exists>plan policy. rt_output_from_value env v = Inr plan \<and> extract_policy env invocation = Inr policy
        \<and> root_planner_invariant_violations plan invocation policy = [])"
    by (auto simp: validate_root_planner_output_def result_simps Let_def)
  then show ?thesis
    unfolding extracted using root_plan_decided by blast
qed

text \<open>
  C27. A policy of the root planner is sealed by its digest. It is accepted exactly if it is what its own
  constructor makes of its fields, with every limit checked and every digest recomputed. And its digest
  binds every field: two accepted policies with the same digest are equal, unless SHA-256 collides on the
  two texts that are hashed for them. Relied on: hashes have 32 bytes, and JSON scalars are printed so that
  their texts can be told apart in front of a delimiter.
\<close>

theorem root_policy_sealed:
  assumes "\<And>bytes. length (be_sha256 env bytes) = 32" "scalar_texts_delimited env"
    and "hash_separates env (policy_hash_material policy) (policy_hash_material other)"
  shows "(root_policy_validate env policy = Inr () \<longleftrightarrow>
      root_policy_new env (rpp_root_snapshot_sha256 policy) (rpp_context_manifest_sha256 policy)
        (rpp_obligations policy) (rpp_allowed_verification_kinds policy) (rpp_max_work_orders policy)
        (rpp_max_dependency_references policy) (rpp_max_verification_targets policy) = Inr policy)
    \<and> (root_policy_validate env policy = Inr () \<and> root_policy_validate env other = Inr ()
        \<and> rpp_planner_policy_sha256 policy = rpp_planner_policy_sha256 other \<longrightarrow> policy = other)"
  using root_policy_integrity[OF assms(1), of policy] policy_digest_binds[OF assms(2) _ _ assms(3)] by blast

theorem root_policy_sealed_witness:
  "root_policy_new sealed_env sample_zero sample_zero [sample_obligation] [RepositoryFile] 4 4 4 = Inr sample_policy
    \<and> rpp_planner_policy_sha256 sample_policy \<noteq> rpp_planner_policy_sha256 other_policy"
proof -
  have "length (be_sha256 sealed_env bytes) = 32" for bytes
    by (simp add: sealed_env_def sealed_sha256_def)
  note sealed = root_policy_sealed[OF this sealed_scalars sample_policies_separated]
  moreover have "sample_policy \<noteq> other_policy"
    by (simp add: sample_policy_def other_policy_def)
  moreover have "rpp_root_snapshot_sha256 sample_policy = sample_zero" "rpp_context_manifest_sha256 sample_policy = sample_zero"
    "rpp_obligations sample_policy = [sample_obligation]" "rpp_allowed_verification_kinds sample_policy = [RepositoryFile]"
    "rpp_max_work_orders sample_policy = 4" "rpp_max_dependency_references sample_policy = 4"
    "rpp_max_verification_targets sample_policy = 4"
    by (simp_all add: sample_policy_def)
  ultimately show ?thesis
    using sample_policies_valid by metis
qed

section \<open>Compilation\<close>

text \<open>
  C19. A compiled prompt keeps trust apart. Its first two messages are the system messages of the application:
  the policy of the manifest and the runtime constraints. Every other message is one data section, a user
  message with the content and provenance of its section and a trust that is not the application's. Data
  does not reach the application's part: another invocation with the same limits and constraints has the
  same two messages whatever its sections are, and the same generation schema if its sections have the
  same names. That schema is the manifest's with every directive resolved, and the output schema is the
  manifest's.
\<close>

theorem compiled_prompt_separates_trust:
  assumes "compile_prompt env manifest invocation = Inr p"
  shows "take 2 (cp_messages p) =
      [\<lparr>cm_role = PromptSystem, cm_trust = ApplicationPolicy, cm_provenance = FromManifest (cp_manifest p),
        cm_content = ContentText (pm_system_policy manifest)\<rparr>,
       \<lparr>cm_role = PromptSystem, cm_trust = ApplicationPolicy, cm_provenance = FromRuntimeConstraints (cp_manifest p),
        cm_content = ContentJson (runtime_constraints_value invocation)\<rparr>]
    \<and> list_all2 data_message_of (pi_sections invocation) (drop 2 (cp_messages p))
    \<and> (\<forall>invocation' p'. compile_prompt env manifest invocation' = Inr p'
        \<and> pi_limits invocation' = pi_limits invocation
        \<and> pi_runtime_constraints invocation' = pi_runtime_constraints invocation
        \<longrightarrow> take 2 (cp_messages p') = take 2 (cp_messages p)
          \<and> (map ds_name (pi_sections invocation') = map ds_name (pi_sections invocation)
              \<longrightarrow> cp_generation_schema p' = cp_generation_schema p))
    \<and> expand_generation_directives env (map ds_name (pi_sections invocation)) (pi_runtime_constraints invocation)
        (pm_generation_schema manifest) = Inr (cp_generation_schema p)
    \<and> \<not> contains_generation_directive (cp_generation_schema p)
    \<and> cp_output_schema p = pm_output_schema manifest"
  using compiled_data_messages[OF assms] compiled_independent[OF assms] compiled_schema[OF assms] by blast

theorem compiled_prompt_separates_trust_witness:
  "\<exists>p. compile_prompt sample_env (sample_manifest task_router_key sample_generation_schema) hostile_invocation = Inr p
    \<and> take 2 (cp_messages p) = take 2 (cp_messages sample_compiled)
    \<and> cp_generation_schema p = sample_specialized
    \<and> list_all2 data_message_of (pi_sections sample_invocation) (drop 2 (cp_messages sample_compiled))"
proof -
  obtain p where p: "compile_prompt sample_env (sample_manifest task_router_key sample_generation_schema)
      hostile_invocation = Inr p"
    using hostile_compiles by blast
  moreover have "pi_limits hostile_invocation = pi_limits sample_invocation"
    "pi_runtime_constraints hostile_invocation = pi_runtime_constraints sample_invocation"
    "map ds_name (pi_sections hostile_invocation) = map ds_name (pi_sections sample_invocation)"
    by (simp_all add: hostile_invocation_def sample_invocation_def sample_section_def)
  moreover have "cp_generation_schema sample_compiled = sample_specialized"
    by (simp add: sample_compiled_def sample_prompt_def)
  ultimately show ?thesis
    using compiled_prompt_separates_trust[OF sample_compile] by metis
qed

text \<open>
  C31. The generation schema of a valid manifest specializes for every invocation, but for two refusals. The
  specialized schema is the manifest's with every directive resolved, and it compiles. A refusal is either
  that a runtime constant names a constraint and a pointer that the invocation does not resolve to a
  scalar, or that the schema with every directive resolved does not compile, as when a property bears the
  name of a directive. No other error of the expansion and no left-over directive is possible: the checks
  at registration exclude them.
\<close>

theorem registered_schema_specializes:
  assumes "manifest_validate env manifest = Inr ()"
  shows "case specialize_generation_schema env (pm_generation_schema manifest) invocation of
      Inr specialized \<Rightarrow>
        expand_generation_directives env (map ds_name (pi_sections invocation)) (pi_runtime_constraints invocation)
          (pm_generation_schema manifest) = Inr specialized
        \<and> \<not> contains_generation_directive specialized \<and> (\<exists>validator. rg_validator_for env specialized = Inr validator)
    | Inl e \<Rightarrow> unresolved_const env (pi_runtime_constraints invocation) e
        \<or> (\<exists>specialized message.
            expand_generation_directives env (map ds_name (pi_sections invocation)) (pi_runtime_constraints invocation)
              (pm_generation_schema manifest) = Inr specialized
            \<and> \<not> contains_generation_directive specialized \<and> rg_validator_for env specialized = Inl message
            \<and> e = SchemaCompilation ''specialized generation_schema'' message)"
  by (rule validated_specialization[OF manifest_directives[OF assms]])

theorem registered_schema_specializes_witness:
  "\<not> contains_generation_directive sample_specialized
    \<and> specialize_generation_schema sample_env sample_generation_schema unconstrained_invocation
       = Inl (GenerationSchemaDirective ''runtime const budget/ is unresolved or non-scalar'')
    \<and> unresolved_const sample_env [] (GenerationSchemaDirective ''runtime const budget/ is unresolved or non-scalar'')"
proof -
  have valid: "manifest_validate sample_env (sample_manifest task_router_key sample_generation_schema) = Inr ()"
    by code_simp
  have refused: "specialize_generation_schema sample_env sample_generation_schema unconstrained_invocation
      = Inl (GenerationSchemaDirective ''runtime const budget/ is unresolved or non-scalar'')"
    by code_simp
  have "pi_runtime_constraints unconstrained_invocation = []"
    by (simp add: unconstrained_invocation_def)
  with registered_schema_specializes[OF valid, of sample_invocation]
    registered_schema_specializes[OF valid, of unconstrained_invocation] refused
  show ?thesis
    by (simp add: sample_manifest_simps sample_specialization)
qed

section \<open>The router's executor\<close>

text \<open>
  C13. An execution never panics, and its effects with the in-memory journal are one of: nothing; one call;
  one call and its record; or a second call after the first record was acknowledged and its response is
  repairable, with or without the second record, which names the first attempt and the digest of its
  text. There are at most two calls, and the journal keeps exactly the acknowledged records.
\<close>

theorem router_calls_retained:
  assumes "router_execute env self backend router_journal_retain ids request (journal, []) = (x, journal', effects)"
  shows "x \<noteq> RouterPanicked \<and> router_effects env self backend ids request effects
    \<and> length (filter (\<lambda>e. case e of RouterCalled p q \<Rightarrow> True | _ \<Rightarrow> False) effects) \<le> 2
    \<and> mr_records journal' = mr_records journal @ [r. RouterRetained r \<leftarrow> effects]"
proof -
  from router_execute_effects[OF assms] have effects: "router_effects env self backend ids request effects"
    by simp
  then have "length (filter (\<lambda>e. case e of RouterCalled p q \<Rightarrow> True | _ \<Rightarrow> False) effects) \<le> 2"
    by cases auto
  moreover have "mr_records journal' = mr_records journal @ [r. RouterRetained r \<leftarrow> effects]"
    using memory_attempt_journal.router_execute_kept[OF assms, of "mr_records journal"]
    by (simp add: memory_attempt_journal.effects_kept_def)
  ultimately show ?thesis
    using effects router_never_panics[of env self backend router_journal_retain ids request "(journal, [])"] assms
    by simp
qed

theorem router_calls_retained_witness:
  "\<exists>(journal' :: InMemoryAttemptJournal) effects.
     router_effects sample_env sample_executor sample_backend sample_ids sample_request effects
     \<and> mr_records journal' = [r. RouterRetained r \<leftarrow> effects]"
proof -
  obtain e st where "router_execute sample_env sample_executor sample_backend router_journal_retain sample_ids
      sample_request (sample_journal, []) = (RouterReturned (Inr e), st)"
    by (rule sample_execution)
  then have "router_execute sample_env sample_executor sample_backend router_journal_retain sample_ids
      sample_request (sample_journal, []) = (RouterReturned (Inr e), fst st, snd st)"
    by simp
  from router_calls_retained[OF this] show ?thesis
    by (intro exI[of _ "fst st"] exI[of _ "snd st"]) (simp add: sample_journal_def)
qed

text \<open>
  C12. A route is accepted only if it is admissible for the invocation and version of the request, whether
  the model's first answer or the repaired one, and only for a prompt of the bundled registry. The
  serialized form of a route is assumed to decode to this route.
\<close>

theorem accepted_route_is_admissible:
  assumes "\<And>route v. rx_router_to_value env route = Inr v \<Longrightarrow> pn_router_from_value env v = Inr route"
    and "router_execute env self backend retain ids request st = (RouterReturned (Inr e), st')"
    and "accepted_route (rn_status e) = Some route"
  shows "admissible_route (rg_version_le env) (rq_invocation request) (pk_version (rq_router_key request)) route
    \<and> re_bundled_router_registry self (rq_router_key request) = re_router_registry self (rq_router_key request)
    \<and> re_router_registry self (rq_router_key request) \<noteq> None"
proof -
  have "\<exists>compiled q. prepare_router env self request = Inr (compiled, q)"
    using assms(2,3) by (cases rule: router_execute_cases) auto
  then obtain compiled q where prepared: "prepare_router env self request = Inr (compiled, q)"
    by blast
  have "re_router_registry self (rq_router_key request) \<noteq> None"
    using prepared_bundled(4)[OF prepared] by (auto simp: registry_compile_def split: option.splits)
  with accepted_routes_admissible[OF assms] prepared_bundled(3)[OF prepared] show ?thesis
    by simp
qed

theorem accepted_route_is_admissible_witness:
  "admissible_route (rg_version_le sample_env) sample_invocation (version_new 1 1 3) sample_repaired"
proof -
  obtain e st where run: "router_execute sample_env sample_executor sample_backend router_journal_retain sample_ids
      sample_request (sample_journal, []) = (RouterReturned (Inr e), st)"
    and "rn_status e = AcceptedAfterEvidenceRepair sample_repaired"
    by (rule sample_execution)
  then have "accepted_route (rn_status e) = Some sample_repaired" by simp
  from accepted_route_is_admissible[OF sample_serialized run this] show ?thesis
    by (simp add: sample_request_simps task_router_key_def)
qed

text \<open>
  C20. A repair changes nothing but the evidence of duplicated sections: the accepted route is the model's
  first answer in every other field, cites the same sections, and keeps in their order the citations of
  the sections that were cited once.
\<close>

theorem repaired_route_keeps_answer:
  assumes "router_execute env self backend retain ids request st = (RouterReturned (Inr e), st')"
    and "rn_status e = AcceptedAfterEvidenceRepair route"
  shows "\<exists>response candidate evidence. rr_attempt (rn_initial e) = AttemptResponse response
    \<and> pn_router_from_value env (sr_value response) = Inr candidate
    \<and> route = candidate\<lparr>ro_evidence := evidence\<rparr>
    \<and> rv_section ` set evidence = rv_section ` set (ro_evidence candidate)
    \<and> filter (\<lambda>e. count_list (map rv_section (ro_evidence candidate)) (rv_section e) = 1) evidence
       = filter (\<lambda>e. count_list (map rv_section (ro_evidence candidate)) (rv_section e) = 1) (ro_evidence candidate)"
  using repair_frame[OF assms] by metis

theorem repaired_route_keeps_answer_witness:
  "\<exists>evidence. sample_repaired = sample_candidate\<lparr>ro_evidence := evidence\<rparr>
     \<and> rv_section ` set evidence = rv_section ` set (ro_evidence sample_candidate)"
proof -
  obtain e st where run: "router_execute sample_env sample_executor sample_backend router_journal_retain sample_ids
      sample_request (sample_journal, []) = (RouterReturned (Inr e), st)"
    and initial: "rn_initial e = sample_first" and status: "rn_status e = AcceptedAfterEvidenceRepair sample_repaired"
    by (rule sample_execution)
  have "rr_attempt (rn_initial e) = AttemptResponse (sample_response ''candidate'')"
    "sr_value (sample_response ''candidate'') = JString ''candidate''"
    by (simp_all add: initial sample_first_def initial_record_def sample_response_def)
  with repaired_route_keeps_answer[OF run status] show ?thesis
    by (auto simp: sample_decoded)
qed

end
