(* ===== verification/Candidate_Head.thy ===== *)
theory Candidate_Head
  imports Runtime_Protocol
begin

text \<open>
  The registry of candidate heads, \<open>apps/daemon/src/repository_candidate_head.rs\<close>: which candidate the
  controller most recently selected for a logical track. A selection is a compare-and-swap over the
  complete current binding under one lock, identified by a selection identity that is replayed exactly.

  A verified review subject is a record of what its accessors return; \<open>validate_for\<close>, the check of a
  retained candidate against its producer (\<open>repository_candidate.rs\<close>), is an argument. Generated
  identities are an argument too.
\<close>

section \<open>Subjects\<close>

record RepositoryCandidateProducerLocator =
  pl_graph_sha256 :: string
  pl_work_order_id :: WorkOrderId
  pl_actor_id :: ActorId
  pl_execution_id :: ExecutionId
  pl_attempt_id :: AttemptId

record RetainedRepositoryCandidate =
  cd_producer_work_order_id :: WorkOrderId
  cd_candidate_sha256 :: string
  cd_manifest_artifact :: ArtifactRef
  cd_published_event_id :: EventId
  cd_publication_receipt :: ArtifactRef
  cd_cleanup_prepared_event_id :: EventId
  cd_cleanup_observed_event_id :: EventId
  cd_cleanup_receipt :: ArtifactRef
  cd_ready_event_id :: EventId
  cd_ready_receipt :: ArtifactRef

record VerifiedRepositoryReviewSubject =
  rvs_graph_accepted_event_id :: SchedulerEventId
  rvs_reviewer_dispatch_event_id :: SchedulerEventId
  rvs_target_work_order_id :: WorkOrderId
  rvs_producer_dispatch_event_id :: SchedulerEventId
  rvs_dependency_handoff_event_id :: SchedulerEventId
  rvs_target_work_order :: WorkOrder
  rvs_producer_locator :: RepositoryCandidateProducerLocator
  rvs_candidate :: RetainedRepositoryCandidate

datatype CandidateTrackId = CandidateTrackId (track_uuid: uuid)

datatype CandidateSelectionId = CandidateSelectionId (selection_uuid: uuid)

instantiation CandidateTrackId :: linorder
begin

definition less_eq_CandidateTrackId :: "CandidateTrackId \<Rightarrow> CandidateTrackId \<Rightarrow> bool" where
  "less_eq_CandidateTrackId a b = (track_uuid a \<le> track_uuid b)"

definition less_CandidateTrackId :: "CandidateTrackId \<Rightarrow> CandidateTrackId \<Rightarrow> bool" where
  "less_CandidateTrackId a b = (track_uuid a < track_uuid b)"

instance
  by standard (auto simp: less_eq_CandidateTrackId_def less_CandidateTrackId_def intro: CandidateTrackId.expand)

end

instantiation CandidateSelectionId :: linorder
begin

definition less_eq_CandidateSelectionId :: "CandidateSelectionId \<Rightarrow> CandidateSelectionId \<Rightarrow> bool" where
  "less_eq_CandidateSelectionId a b = (selection_uuid a \<le> selection_uuid b)"

definition less_CandidateSelectionId :: "CandidateSelectionId \<Rightarrow> CandidateSelectionId \<Rightarrow> bool" where
  "less_CandidateSelectionId a b = (selection_uuid a < selection_uuid b)"

instance
  by standard
    (auto simp: less_eq_CandidateSelectionId_def less_CandidateSelectionId_def intro: CandidateSelectionId.expand)

end

section \<open>Heads\<close>

record CandidateTrackAuthority =
  ta_track_id :: CandidateTrackId
  ta_target_work_order_id :: WorkOrderId
  ta_secret :: uuid

text \<open>A generation is a positive number of 64 bits.\<close>

record CandidateHeadBinding =
  hb_track_id :: CandidateTrackId
  hb_generation :: u64
  hb_selection_id :: CandidateSelectionId
  hb_previous_selection_id :: "CandidateSelectionId option"
  hb_graph_accepted_event_id :: SchedulerEventId
  hb_reviewer_dispatch_event_id :: SchedulerEventId
  hb_producer_dispatch_event_id :: SchedulerEventId
  hb_dependency_handoff_event_id :: SchedulerEventId
  hb_target_work_order_id :: WorkOrderId
  hb_producer :: RepositoryCandidateProducerLocator
  hb_candidate_sha256 :: string
  hb_candidate_manifest_artifact :: ArtifactRef
  hb_publication_event_id :: EventId
  hb_publication_receipt_artifact :: ArtifactRef
  hb_cleanup_prepared_event_id :: EventId
  hb_cleanup_observed_event_id :: EventId
  hb_cleanup_receipt_artifact :: ArtifactRef
  hb_ready_event_id :: EventId
  hb_ready_receipt_artifact :: ArtifactRef

record CandidateSelectionSubject =
  cs_graph_accepted_event_id :: SchedulerEventId
  cs_reviewer_dispatch_event_id :: SchedulerEventId
  cs_producer_dispatch_event_id :: SchedulerEventId
  cs_dependency_handoff_event_id :: SchedulerEventId
  cs_target_work_order_id :: WorkOrderId
  cs_producer :: RepositoryCandidateProducerLocator
  cs_candidate_sha256 :: string
  cs_candidate_manifest_artifact :: ArtifactRef
  cs_publication_event_id :: EventId
  cs_publication_receipt_artifact :: ArtifactRef
  cs_cleanup_prepared_event_id :: EventId
  cs_cleanup_observed_event_id :: EventId
  cs_cleanup_receipt_artifact :: ArtifactRef
  cs_ready_event_id :: EventId
  cs_ready_receipt_artifact :: ArtifactRef

datatype (plugins only: code) CandidateHeadError =
    CandidateRegistryUnavailable
  | UnknownOrForeignTrack
  | CandidateSubjectMismatch
  | TrackScopeMismatch
  | InvalidCandidate string
  | InvalidSelectionIdentity
  | IdentifiedSelectionConflict
  | StaleCandidateHead "u64 option" "u64 option"
  | GenerationExhausted
  | InvalidRetainedState

type_synonym candidate_check =
  "RetainedRepositoryCandidate \<Rightarrow> RepositoryCandidateProducerLocator \<Rightarrow> string + unit"

definition derive_selection_subject ::
  "candidate_check \<Rightarrow> VerifiedRepositoryReviewSubject \<Rightarrow> CandidateHeadError + CandidateSelectionSubject" where
  "derive_selection_subject validate_for subject =
     (let producer = rvs_producer_locator subject; candidate = rvs_candidate subject in
      and_then (map_err InvalidCandidate (validate_for candidate producer)) (\<lambda>_.
      if rvs_target_work_order_id subject \<noteq> pl_work_order_id producer
         \<or> wo_id (rvs_target_work_order subject) \<noteq> pl_work_order_id producer
         \<or> cd_producer_work_order_id candidate \<noteq> pl_work_order_id producer
      then Inl CandidateSubjectMismatch
      else Inr
        \<lparr>cs_graph_accepted_event_id = rvs_graph_accepted_event_id subject,
         cs_reviewer_dispatch_event_id = rvs_reviewer_dispatch_event_id subject,
         cs_producer_dispatch_event_id = rvs_producer_dispatch_event_id subject,
         cs_dependency_handoff_event_id = rvs_dependency_handoff_event_id subject,
         cs_target_work_order_id = rvs_target_work_order_id subject,
         cs_producer = producer, cs_candidate_sha256 = cd_candidate_sha256 candidate,
         cs_candidate_manifest_artifact = cd_manifest_artifact candidate,
         cs_publication_event_id = cd_published_event_id candidate,
         cs_publication_receipt_artifact = cd_publication_receipt candidate,
         cs_cleanup_prepared_event_id = cd_cleanup_prepared_event_id candidate,
         cs_cleanup_observed_event_id = cd_cleanup_observed_event_id candidate,
         cs_cleanup_receipt_artifact = cd_cleanup_receipt candidate,
         cs_ready_event_id = cd_ready_event_id candidate,
         cs_ready_receipt_artifact = cd_ready_receipt candidate\<rparr>))"

definition bind_head ::
  "CandidateTrackId \<Rightarrow> u64 \<Rightarrow> CandidateSelectionId \<Rightarrow> CandidateSelectionId option
     \<Rightarrow> CandidateSelectionSubject \<Rightarrow> CandidateHeadBinding" where
  "bind_head track_id generation selection_id previous_selection_id self =
     \<lparr>hb_track_id = track_id, hb_generation = generation, hb_selection_id = selection_id,
      hb_previous_selection_id = previous_selection_id,
      hb_graph_accepted_event_id = cs_graph_accepted_event_id self,
      hb_reviewer_dispatch_event_id = cs_reviewer_dispatch_event_id self,
      hb_producer_dispatch_event_id = cs_producer_dispatch_event_id self,
      hb_dependency_handoff_event_id = cs_dependency_handoff_event_id self,
      hb_target_work_order_id = cs_target_work_order_id self, hb_producer = cs_producer self,
      hb_candidate_sha256 = cs_candidate_sha256 self,
      hb_candidate_manifest_artifact = cs_candidate_manifest_artifact self,
      hb_publication_event_id = cs_publication_event_id self,
      hb_publication_receipt_artifact = cs_publication_receipt_artifact self,
      hb_cleanup_prepared_event_id = cs_cleanup_prepared_event_id self,
      hb_cleanup_observed_event_id = cs_cleanup_observed_event_id self,
      hb_cleanup_receipt_artifact = cs_cleanup_receipt_artifact self,
      hb_ready_event_id = cs_ready_event_id self,
      hb_ready_receipt_artifact = cs_ready_receipt_artifact self\<rparr>"

section \<open>The registry\<close>

datatype (plugins only: code) CandidateSelectionOutcome =
    HeadSelected CandidateHeadBinding
  | HeadExactReplay CandidateHeadBinding CandidateHeadBinding

fun outcome_current :: "CandidateSelectionOutcome \<Rightarrow> CandidateHeadBinding" where
  "outcome_current (HeadSelected current) = current"
| "outcome_current (HeadExactReplay recorded current) = current"

fun outcome_recorded :: "CandidateSelectionOutcome \<Rightarrow> CandidateHeadBinding" where
  "outcome_recorded (HeadSelected current) = current"
| "outcome_recorded (HeadExactReplay recorded current) = recorded"

record CandidateSelectionRequest =
  sr_track_id :: CandidateTrackId
  sr_expected :: "CandidateHeadBinding option"
  sr_subject :: CandidateSelectionSubject
  sr_selection_id :: CandidateSelectionId

record CandidateSelectionRecord =
  sn_request :: CandidateSelectionRequest
  sn_selected :: CandidateHeadBinding

record CandidateTrackState =
  ts_secret :: uuid
  ts_target_work_order_id :: WorkOrderId
  ts_current :: "CandidateHeadBinding option"

text \<open>The state and whether its lock is poisoned.\<close>

record CandidateHeadRegistry =
  hr_tracks :: "(CandidateTrackId, CandidateTrackState) btree_map"
  hr_selections :: "(CandidateSelectionId, CandidateSelectionRecord) btree_map"
  hr_poisoned :: bool

text \<open>The loop that draws identities until one is free; \<open>None\<close> when the draws given do not suffice.\<close>

fun draw_track ::
  "(CandidateTrackId, CandidateTrackState) btree_map \<Rightarrow> (uuid \<times> uuid) list \<Rightarrow> (CandidateTrackId \<times> uuid) option" where
  "draw_track tracks [] = None"
| "draw_track tracks ((track, secret) # draws) =
     (if bm_contains_key tracks (CandidateTrackId track) then draw_track tracks draws
      else Some (CandidateTrackId track, secret))"

definition open_track ::
  "CandidateHeadRegistry \<Rightarrow> (uuid \<times> uuid) list \<Rightarrow> WorkOrderId
     \<Rightarrow> ((CandidateHeadError + CandidateTrackAuthority) \<times> CandidateHeadRegistry) option" where
  "open_track self draws target_work_order_id =
     (if hr_poisoned self then Some (Inl CandidateRegistryUnavailable, self)
      else case draw_track (hr_tracks self) draws of
        None \<Rightarrow> None
      | Some (track_id, secret) \<Rightarrow> Some
          (Inr \<lparr>ta_track_id = track_id, ta_target_work_order_id = target_work_order_id, ta_secret = secret\<rparr>,
           self\<lparr>hr_tracks := bm_insert track_id \<lparr>ts_secret = secret,
             ts_target_work_order_id = target_work_order_id, ts_current = None\<rparr> (hr_tracks self)\<rparr>))"

definition authorized_track ::
  "CandidateHeadRegistry \<Rightarrow> CandidateTrackAuthority \<Rightarrow> CandidateHeadError + CandidateTrackState" where
  "authorized_track state authority =
     (case bm_get (hr_tracks state) (ta_track_id authority) of
        None \<Rightarrow> Inl UnknownOrForeignTrack
      | Some track \<Rightarrow>
          if ts_secret track \<noteq> ta_secret authority then Inl UnknownOrForeignTrack
          else if ts_target_work_order_id track \<noteq> ta_target_work_order_id authority
            then Inl UnknownOrForeignTrack
          else Inr track)"

definition current_head ::
  "CandidateHeadRegistry \<Rightarrow> CandidateTrackAuthority \<Rightarrow> CandidateHeadError + CandidateHeadBinding option" where
  "current_head self authority =
     (if hr_poisoned self then Inl CandidateRegistryUnavailable
      else and_then (authorized_track self authority) (\<lambda>track. Inr (ts_current track)))"

definition next_generation :: "CandidateHeadBinding option \<Rightarrow> CandidateHeadError + u64" where
  "next_generation current =
     (case current of None \<Rightarrow> Inr 1
      | Some head \<Rightarrow> (case checked_add (hb_generation head) 1 of
          None \<Rightarrow> Inl GenerationExhausted | Some value \<Rightarrow> Inr value))"

text \<open>The part of \<open>select_successor\<close> under the lock, with the subject derived and the authority checked.\<close>

definition select_locked ::
  "CandidateHeadRegistry \<Rightarrow> CandidateSelectionRequest
     \<Rightarrow> (CandidateHeadError + CandidateSelectionOutcome) \<times> CandidateHeadRegistry" where
  "select_locked self request =
     (case bm_get (hr_selections self) (sr_selection_id request) of
        Some recorded \<Rightarrow>
          (if sn_request recorded \<noteq> request then Inl IdentifiedSelectionConflict
           else case Option.bind (bm_get (hr_tracks self) (sr_track_id request)) ts_current of
             None \<Rightarrow> Inl InvalidRetainedState
           | Some current \<Rightarrow> Inr (HeadExactReplay (sn_selected recorded) current), self)
      | None \<Rightarrow>
         (case bm_get (hr_tracks self) (sr_track_id request) of
            None \<Rightarrow> (Inl UnknownOrForeignTrack, self)
          | Some track \<Rightarrow>
              if sr_expected request \<noteq> ts_current track
                then (Inl (StaleCandidateHead (map_option hb_generation (sr_expected request))
                        (map_option hb_generation (ts_current track))), self)
              else (case next_generation (ts_current track) of
                  Inl e \<Rightarrow> (Inl e, self)
                | Inr generation \<Rightarrow>
                   (let selected = bind_head (sr_track_id request) generation (sr_selection_id request)
                          (map_option hb_selection_id (ts_current track)) (sr_subject request) in
                    (Inr (HeadSelected selected), self
                      \<lparr>hr_selections := bm_insert (sr_selection_id request)
                         \<lparr>sn_request = request, sn_selected = selected\<rparr> (hr_selections self),
                       hr_tracks := bm_insert (sr_track_id request) (track\<lparr>ts_current := Some selected\<rparr>)
                         (hr_tracks self)\<rparr>)))))"

definition select_successor ::
  "candidate_check \<Rightarrow> CandidateHeadRegistry \<Rightarrow> CandidateTrackAuthority \<Rightarrow> CandidateHeadBinding option
     \<Rightarrow> VerifiedRepositoryReviewSubject \<Rightarrow> CandidateSelectionId
     \<Rightarrow> (CandidateHeadError + CandidateSelectionOutcome) \<times> CandidateHeadRegistry" where
  "select_successor validate_for self authority expected subject selection_id =
     (if selection_uuid selection_id = 0 then (Inl InvalidSelectionIdentity, self)
      else case derive_selection_subject validate_for subject of
        Inl e \<Rightarrow> (Inl e, self)
      | Inr subject' \<Rightarrow>
         (let request = \<lparr>sr_track_id = ta_track_id authority, sr_expected = expected,
                sr_subject = subject', sr_selection_id = selection_id\<rparr> in
          if hr_poisoned self then (Inl CandidateRegistryUnavailable, self)
          else case authorized_track self authority of
            Inl e \<Rightarrow> (Inl e, self)
          | Inr _ \<Rightarrow>
              if cs_target_work_order_id subject' \<noteq> ta_target_work_order_id authority
                then (Inl TrackScopeMismatch, self)
              else select_locked self request))"

definition empty_registry :: CandidateHeadRegistry where
  "empty_registry = \<lparr>hr_tracks = [], hr_selections = [], hr_poisoned = False\<rparr>"

end
