(* ===== verification/Candidate_Head_Correct.thy ===== *)
theory Candidate_Head_Correct
  imports Candidate_Head Transition_Systems "HOL-Library.Sublist"
begin

text \<open>
  What the registry of candidate heads implements: one append-only history of heads per track. A selection
  either appends one head to the history of its track, when its expectation is the last head, or leaves
  every history as it is.
\<close>

section \<open>Histories\<close>

definition last_head :: "CandidateHeadBinding list \<Rightarrow> CandidateHeadBinding option" where
  "last_head hs = (if hs = [] then None else Some (last hs))"

definition predecessor :: "CandidateHeadBinding list \<Rightarrow> nat \<Rightarrow> CandidateHeadBinding option" where
  "predecessor hs i = last_head (take i hs)"

text \<open>The head at a position: numbered, linked to the one before, and recorded with the request that made it.\<close>

definition recorded_head ::
  "CandidateHeadRegistry \<Rightarrow> CandidateTrackId \<Rightarrow> CandidateHeadBinding option \<Rightarrow> nat \<Rightarrow> CandidateHeadBinding \<Rightarrow> bool" where
  "recorded_head r t before i h \<longleftrightarrow>
     hb_track_id h = t \<and> unat (hb_generation h) = Suc i
     \<and> hb_previous_selection_id h = map_option hb_selection_id before
     \<and> (\<exists>n. bm_get (hr_selections r) (hb_selection_id h) = Some n \<and> sn_selected n = h
          \<and> sr_track_id (sn_request n) = t \<and> sr_expected (sn_request n) = before)"

definition histories :: "CandidateHeadRegistry \<Rightarrow> (CandidateTrackId \<Rightarrow> CandidateHeadBinding list) \<Rightarrow> bool" where
  "histories r H \<longleftrightarrow>
     (\<forall>t. case bm_get (hr_tracks r) t of None \<Rightarrow> H t = [] | Some track \<Rightarrow> ts_current track = last_head (H t))
     \<and> (\<forall>t i. i < length (H t) \<longrightarrow> recorded_head r t (predecessor (H t) i) i (H t ! i))
     \<and> (\<forall>s record. bm_get (hr_selections r) s = Some record \<longrightarrow>
          hb_selection_id (sn_selected record) = s \<and> sn_selected record \<in> set (H (sr_track_id (sn_request record))))"

lemma last_head_simps [simp]: "last_head [] = None" "last_head (hs @ [h]) = Some h"
  by (simp_all add: last_head_def)

lemma predecessor_snoc:
  "i < length hs \<Longrightarrow> predecessor (hs @ [h]) i = predecessor hs i" "predecessor (hs @ [h]) (length hs) = last_head hs"
  by (simp_all add: predecessor_def)

lemma histories_current:
  "histories r H \<Longrightarrow> bm_get (hr_tracks r) t = Some track \<Longrightarrow> ts_current track = last_head (H t)"
  by (auto simp: histories_def split: option.splits dest: spec[of _ t])

lemma histories_tracks:
  "histories r H \<Longrightarrow>
     (case bm_get (hr_tracks r) t of None \<Rightarrow> H t = [] | Some track \<Rightarrow> ts_current track = last_head (H t))"
  by (simp add: histories_def)

lemma histories_recorded:
  "histories r H \<Longrightarrow> i < length (H t) \<Longrightarrow> recorded_head r t (predecessor (H t) i) i (H t ! i)"
  by (simp add: histories_def)

lemma histories_selected:
  "histories r H \<Longrightarrow> bm_get (hr_selections r) s = Some record
     \<Longrightarrow> hb_selection_id (sn_selected record) = s \<and> sn_selected record \<in> set (H (sr_track_id (sn_request record)))"
  by (simp add: histories_def)

lemma histories_generation:
  assumes "histories r H" "H t \<noteq> []"
  shows "unat (hb_generation (last (H t))) = length (H t)"
  using histories_recorded[OF assms(1), of "length (H t) - 1" t] assms(2)
  by (simp add: recorded_head_def last_conv_nth)

lemma next_generation_Inr:
  assumes "histories r H" "next_generation (last_head (H t)) = Inr g"
  shows "unat g = Suc (length (H t))"
proof (cases "H t = []")
  case True
  with assms(2) show ?thesis by (simp add: next_generation_def)
next
  case False
  with assms(2) have "checked_add (hb_generation (last (H t))) 1 = Some g"
    by (auto simp: next_generation_def last_head_def split: option.splits)
  then show ?thesis
    using histories_generation[OF assms(1) False] checked_add_Some_unat by fastforce
qed

text \<open>A head that is appended with a fresh identity.\<close>

lemma histories_append:
  assumes H: "histories r H" and track: "bm_get (hr_tracks r) t = Some track"
    and fresh: "bm_get (hr_selections r) s = None"
    and head: "hb_track_id h = t" "hb_selection_id h = s" "unat (hb_generation h) = Suc (length (H t))"
      "hb_previous_selection_id h = map_option hb_selection_id (last_head (H t))"
    and entry: "sn_selected rec = h" "sr_track_id (sn_request rec) = t" "sr_expected (sn_request rec) = last_head (H t)"
  shows "histories (r\<lparr>hr_selections := bm_insert s rec (hr_selections r),
      hr_tracks := bm_insert t (track\<lparr>ts_current := Some h\<rparr>) (hr_tracks r)\<rparr>) (H(t := H t @ [h]))"
    (is "histories ?r ?H")
proof -
  have kept: "recorded_head ?r t' before i h'" if "recorded_head r t' before i h'" for t' before i h'
    using that fresh unfolding recorded_head_def by (auto split: if_splits)
  have new: "recorded_head ?r t (last_head (H t)) (length (H t)) h"
    using head entry by (auto simp: recorded_head_def)
  have positions: "recorded_head ?r t' (predecessor (?H t') i) i (?H t' ! i)" if "i < length (?H t')" for t' i
  proof (cases "t' = t \<and> i = length (H t)")
    case True
    with new show ?thesis by (simp add: predecessor_snoc)
  next
    case False
    with that have "i < length (H t')" by (auto split: if_splits)
    with kept[OF histories_recorded[OF H this]] show ?thesis
      by (cases "t' = t") (simp_all add: predecessor_snoc nth_append)
  qed
  have tracks: "case bm_get (hr_tracks ?r) t' of None \<Rightarrow> ?H t' = [] | Some track \<Rightarrow> ts_current track = last_head (?H t')" for t'
    using histories_tracks[OF H, of t'] by (cases "t' = t") (simp_all split: option.splits)
  have selections: "hb_selection_id (sn_selected n) = s' \<and> sn_selected n \<in> set (?H (sr_track_id (sn_request n)))"
    if "bm_get (hr_selections ?r) s' = Some n" for s' n
  proof (cases "s' = s")
    case True
    with that entry head(2) show ?thesis by simp
  next
    case False
    with that have "bm_get (hr_selections r) s' = Some n" by simp
    from histories_selected[OF H this] show ?thesis by auto
  qed
  show ?thesis
    unfolding histories_def using tracks positions selections by blast
qed

section \<open>Selections\<close>

text \<open>What a selection does to the histories, by its result.\<close>

definition selection_effect ::
  "CandidateHeadRegistry \<Rightarrow> (CandidateTrackId \<Rightarrow> CandidateHeadBinding list) \<Rightarrow> CandidateTrackId \<Rightarrow> CandidateHeadBinding option
     \<Rightarrow> CandidateSelectionId \<Rightarrow> CandidateHeadError + CandidateSelectionOutcome \<Rightarrow> CandidateHeadRegistry \<Rightarrow> bool" where
  "selection_effect r H t expected s x r' \<longleftrightarrow>
     (case x of
        Inl e \<Rightarrow> r' = r
      | Inr (HeadExactReplay recorded current) \<Rightarrow>
          r' = r \<and> recorded \<in> set (H t) \<and> hb_selection_id recorded = s \<and> last_head (H t) = Some current
      | Inr (HeadSelected h) \<Rightarrow>
          expected = last_head (H t) \<and> hb_selection_id h = s \<and> bm_get (hr_selections r) s = None
          \<and> histories r' (H(t := H t @ [h])))"

lemma select_locked_effect:
  assumes H: "histories r H" and run: "select_locked r q = (x, r')"
  shows "selection_effect r H (sr_track_id q) (sr_expected q) (sr_selection_id q) x r'"
proof (cases "bm_get (hr_selections r) (sr_selection_id q)")
  case (Some n)
  note selected = histories_selected[OF H Some]
  show ?thesis
  proof (cases "sn_request n = q")
    case True
    with Some run selected histories_current[OF H] show ?thesis
      by (auto simp: select_locked_def selection_effect_def bind_eq_Some_conv split: option.splits)
  qed (use Some run in \<open>auto simp: select_locked_def selection_effect_def\<close>)
next
  case fresh: None
  show ?thesis
  proof (cases "bm_get (hr_tracks r) (sr_track_id q)")
    case None
    with fresh run show ?thesis by (auto simp: select_locked_def selection_effect_def)
  next
    case (Some track)
    note current = histories_current[OF H Some]
    show ?thesis
    proof (cases "sr_expected q = ts_current track")
      case False
      with fresh Some run show ?thesis by (auto simp: select_locked_def selection_effect_def)
    next
      case expected: True
      show ?thesis
      proof (cases "next_generation (ts_current track)")
        case (Inl e)
        with fresh Some expected run show ?thesis by (auto simp: select_locked_def selection_effect_def)
      next
        case (Inr g)
        let ?h = "bind_head (sr_track_id q) g (sr_selection_id q) (map_option hb_selection_id (ts_current track)) (sr_subject q)"
        have "histories r' (H(sr_track_id q := H (sr_track_id q) @ [?h]))"
        proof -
          have "r' = r\<lparr>hr_selections := bm_insert (sr_selection_id q) \<lparr>sn_request = q, sn_selected = ?h\<rparr> (hr_selections r),
              hr_tracks := bm_insert (sr_track_id q) (track\<lparr>ts_current := Some ?h\<rparr>) (hr_tracks r)\<rparr>"
            using fresh Some expected Inr run by (auto simp: select_locked_def Let_def)
          then show ?thesis
            using histories_append[OF H Some fresh] next_generation_Inr[OF H, of "sr_track_id q" g] Inr current expected
            by (simp add: bind_head_def)
        qed
        with fresh Some expected Inr run current show ?thesis
          by (auto simp: select_locked_def selection_effect_def Let_def bind_head_def)
      qed
    qed
  qed
qed

lemma select_successor_effect:
  assumes H: "histories r H" and run: "select_successor validate_for r authority expected subject s = (x, r')"
  shows "selection_effect r H (ta_track_id authority) expected s x r'"
proof -
  have refused: "selection_effect r H t expected s (Inl e) r" for t e
    by (simp add: selection_effect_def)
  show ?thesis
    using run select_locked_effect[OF H, of _ x r'] refused
    by (fastforce simp: select_successor_def Let_def split: if_splits sum.splits)
qed

lemma authorized_Inr:
  "authorized_track r a = Inr track \<longleftrightarrow>
     bm_get (hr_tracks r) (ta_track_id a) = Some track \<and> ts_secret track = ta_secret a
     \<and> ts_target_work_order_id track = ta_target_work_order_id a"
  by (auto simp: authorized_track_def split: option.splits)

text \<open>Only the holder of the authority of a track selects on it, and only for its work order.\<close>

lemma selected_authorized:
  assumes "select_successor validate_for r authority expected subject s = (Inr outcome, r')"
  shows "\<exists>track. bm_get (hr_tracks r) (ta_track_id authority) = Some track \<and> ts_secret track = ta_secret authority
    \<and> ts_target_work_order_id track = ta_target_work_order_id authority
    \<and> rvs_target_work_order_id subject = ta_target_work_order_id authority"
  using assms
  by (auto simp: select_successor_def derive_selection_subject_def Let_def result_simps authorized_Inr
      split: if_splits sum.splits)

section \<open>The registry as a system\<close>

text \<open>The operations that change the state; the lock makes each of them one step.\<close>

inductive registry_step :: "candidate_check \<Rightarrow> CandidateHeadRegistry \<Rightarrow> CandidateHeadRegistry \<Rightarrow> bool"
  for validate_for
where
  opened: "open_track r draws work_order = Some (x, r') \<Longrightarrow> registry_step validate_for r r'"
| selected: "select_successor validate_for r authority expected subject s = (x, r') \<Longrightarrow> registry_step validate_for r r'"
| poisoned: "registry_step validate_for r (r\<lparr>hr_poisoned := True\<rparr>)"

lemma draw_track_fresh: "draw_track tracks draws = Some (t, secret) \<Longrightarrow> bm_get tracks t = None"
  by (induction tracks draws rule: draw_track.induct) (auto simp: bm_contains_key_def split: if_splits)

lemma recorded_head_cong:
  "hr_selections r' = hr_selections r \<Longrightarrow> recorded_head r' t before i h = recorded_head r t before i h"
  by (simp add: recorded_head_def)

lemma open_track_histories:
  assumes "histories r H" "open_track r draws work_order = Some (x, r')"
  shows "histories r' H"
proof (cases "hr_poisoned r")
  case False
  with assms(2) obtain t secret where "draw_track (hr_tracks r) draws = Some (t, secret)"
      and r': "r' = r\<lparr>hr_tracks := bm_insert t \<lparr>ts_secret = secret, ts_target_work_order_id = work_order,
        ts_current = None\<rparr> (hr_tracks r)\<rparr>"
    by (auto simp: open_track_def split: option.splits)
  then have fresh: "bm_get (hr_tracks r) t = None" by (simp add: draw_track_fresh)
  have same: "recorded_head r' t before i h = recorded_head r t before i h" for t before i h
    by (rule recorded_head_cong) (simp add: r')
  have "H t = []" using assms(1) fresh by (auto simp: histories_def dest: spec[of _ t])
  then show ?thesis
    using assms(1) unfolding histories_def same by (auto simp: r')
qed (use assms in \<open>auto simp: open_track_def\<close>)

lemma registry_step_histories:
  assumes "registry_step validate_for r r'" "histories r H"
  shows "\<exists>H'. histories r' H' \<and> (\<forall>t. prefix (H t) (H' t))"
  using assms
proof cases
  case (opened draws work_order x)
  then show ?thesis using open_track_histories assms(2) by blast
next
  case (selected authority expected subject s x)
  from select_successor_effect[OF assms(2) this] show ?thesis
  proof (cases x)
    case (Inr outcome)
    with select_successor_effect[OF assms(2) selected] assms(2) show ?thesis
    proof (cases outcome)
      case (HeadSelected h)
      with Inr select_successor_effect[OF assms(2) selected] show ?thesis
        by (intro exI[of _ "H(ta_track_id authority := H (ta_track_id authority) @ [h])"])
          (simp add: selection_effect_def)
    qed (use assms(2) in \<open>auto simp: selection_effect_def\<close>)
  qed (use assms(2) in \<open>auto simp: selection_effect_def\<close>)
next
  case poisoned
  have "recorded_head r' t before i h = recorded_head r t before i h" for t before i h
    by (rule recorded_head_cong) (simp add: poisoned)
  then have "histories r' H"
    using assms(2) unfolding histories_def by (simp add: poisoned)
  then show ?thesis by blast
qed

lemma empty_histories: "histories empty_registry (\<lambda>t. [])"
  by (simp add: histories_def empty_registry_def)

interpretation candidate_heads: safe_system "\<lambda>r. r = empty_registry" "registry_step validate_for" "\<lambda>r. \<exists>H. histories r H"
  by unfold_locales (use empty_histories registry_step_histories in blast)+

lemma registry_steps_histories:
  "(registry_step validate_for)\<^sup>*\<^sup>* r r' \<Longrightarrow> histories r H \<Longrightarrow> \<exists>H'. histories r' H' \<and> (\<forall>t. prefix (H t) (H' t))"
proof (induction rule: rtranclp_induct)
  case (step r1 r2)
  then obtain H1 where "histories r1 H1" and p: "\<forall>t. prefix (H t) (H1 t)" by blast
  with registry_step_histories[OF step(2)] obtain H2 where "histories r2 H2" "\<forall>t. prefix (H1 t) (H2 t)"
    by blast
  with p show ?case by (meson prefix_order.order_trans)
qed blast

text \<open>Of the selections that expect the same head, one is selected.\<close>

lemma later_selection_stale:
  assumes H: "histories r H"
    and first: "select_successor validate_for r a expected subject s = (Inr (HeadSelected h), r1)"
    and later: "(registry_step validate_for)\<^sup>*\<^sup>* r1 r2"
    and second: "select_successor validate_for r2 a' expected subject' s' = (Inr (HeadSelected h'), r3)"
    and same: "ta_track_id a' = ta_track_id a"
  shows False
proof -
  let ?t = "ta_track_id a"
  from select_successor_effect[OF H first] have expected: "expected = last_head (H ?t)"
      and H1: "histories r1 (H(?t := H ?t @ [h]))"
    by (simp_all add: selection_effect_def)
  from registry_steps_histories[OF later H1] obtain H2 where H2: "histories r2 H2"
      and "\<forall>t. prefix ((H(?t := H ?t @ [h])) t) (H2 t)"
    by blast
  then have longer: "prefix (H ?t @ [h]) (H2 ?t)" by (metis fun_upd_same)
  from select_successor_effect[OF H2 second] have "expected = last_head (H2 ?t)"
    by (simp add: selection_effect_def same)
  with expected have last: "last_head (H ?t) = last_head (H2 ?t)" by simp
  from longer have "length (H ?t) < length (H2 ?t)"
    by (metis Suc_le_lessD length_append_singleton prefix_length_le)
  moreover from this have "H2 ?t \<noteq> []" by auto
  with last have "H ?t \<noteq> []" "last (H ?t) = last (H2 ?t)"
    by (auto simp: last_head_def split: if_splits)
  with histories_generation[OF H] histories_generation[OF H2 \<open>H2 ?t \<noteq> []\<close>]
  have "length (H ?t) = length (H2 ?t)" by metis
  ultimately show False by simp
qed

end
