(* ===== verification/Candidate_Properties.thy ===== *)
theory Candidate_Properties
  imports Candidate_Head_Correct
begin

text \<open>
  The properties of the registry of candidate heads, applied to a track with one selected candidate.
\<close>

section \<open>A track with a head\<close>

definition sample_artifact :: ArtifactRef where
  "sample_artifact = \<lparr>art_sha256 = ''d'', art_size_bytes = 1, art_media_type = ''m''\<rparr>"

definition sample_locator :: RepositoryCandidateProducerLocator where
  "sample_locator = \<lparr>pl_graph_sha256 = ''g'', pl_work_order_id = WorkOrderId 3, pl_actor_id = ActorId 1,
     pl_execution_id = ExecutionId 1, pl_attempt_id = AttemptId 1\<rparr>"

definition sample_order :: WorkOrder where
  "sample_order = \<lparr>wo_id = WorkOrderId 3, wo_objective = ''w'', wo_acceptance_criteria = [], wo_dependencies = [],
     wo_candidate_group = None, wo_priority = 0, wo_context_manifest_sha256 = ''c'',
     wo_assignment = \<lparr>aa_role_id = ''r'', aa_model_profile_id = ''p'', aa_lineage = \<lparr>ml_backend_id = ''b'',
       ml_model_id = ''m'', ml_deployment_id = ''l'', ml_independence_domain_id = ''d''\<rparr>\<rparr>,
     wo_permissions = \<lparr>pg_capabilities = []\<rparr>,
     wo_workspace = \<lparr>wg_lease_id = ''l'', wg_source = BrokeredRepositorySnapshotV1 ''s'', wg_access = ReadOnly\<rparr>,
     wo_budget = \<lparr>ab_max_output_tokens = 1, ab_max_tool_calls = 1, ab_max_wall_time_ms = 1,
       ab_max_cleanup_time_ms = 1, ab_max_attempts = 1\<rparr>, wo_reviews = []\<rparr>"

definition sample_subject :: VerifiedRepositoryReviewSubject where
  "sample_subject = \<lparr>rvs_graph_accepted_event_id = SchedulerEventId 1,
     rvs_reviewer_dispatch_event_id = SchedulerEventId 2, rvs_target_work_order_id = WorkOrderId 3,
     rvs_producer_dispatch_event_id = SchedulerEventId 3, rvs_dependency_handoff_event_id = SchedulerEventId 4,
     rvs_target_work_order = sample_order, rvs_producer_locator = sample_locator,
     rvs_candidate = \<lparr>cd_producer_work_order_id = WorkOrderId 3, cd_candidate_sha256 = ''c'',
       cd_manifest_artifact = sample_artifact, cd_published_event_id = EventId 1,
       cd_publication_receipt = sample_artifact, cd_cleanup_prepared_event_id = EventId 2,
       cd_cleanup_observed_event_id = EventId 3, cd_cleanup_receipt = sample_artifact,
       cd_ready_event_id = EventId 4, cd_ready_receipt = sample_artifact\<rparr>\<rparr>"

definition accept_candidate :: candidate_check where
  "accept_candidate candidate producer = Inr ()"

definition sample_authority :: CandidateTrackAuthority where
  "sample_authority = \<lparr>ta_track_id = CandidateTrackId 1, ta_target_work_order_id = WorkOrderId 3, ta_secret = 2\<rparr>"

definition sample_opened :: CandidateHeadRegistry where
  "sample_opened = empty_registry\<lparr>hr_tracks := [(CandidateTrackId 1,
     \<lparr>ts_secret = 2, ts_target_work_order_id = WorkOrderId 3, ts_current = None\<rparr>)]\<rparr>"

lemma sample_open: "open_track empty_registry [(1, 2)] (WorkOrderId 3) = Some (Inr sample_authority, sample_opened)"
  by (simp add: open_track_def empty_registry_def sample_authority_def sample_opened_def bm_contains_key_def bm_get_def)

lemma sample_reachable: "(registry_step accept_candidate)\<^sup>*\<^sup>* empty_registry sample_opened"
  by (rule r_into_rtranclp) (rule registry_step.opened[OF sample_open])

definition sample_head :: CandidateHeadBinding where
  "sample_head = (case derive_selection_subject accept_candidate sample_subject of
     Inr subject \<Rightarrow> bind_head (CandidateTrackId 1) 1 (CandidateSelectionId 5) None subject)"

definition sample_selected :: CandidateHeadRegistry where
  "sample_selected = snd (select_successor accept_candidate sample_opened sample_authority None sample_subject
     (CandidateSelectionId 5))"

lemma sample_selection:
  "select_successor accept_candidate sample_opened sample_authority None sample_subject (CandidateSelectionId 5)
     = (Inr (HeadSelected sample_head), sample_selected)"
proof -
  have "fst (select_successor accept_candidate sample_opened sample_authority None sample_subject
      (CandidateSelectionId 5)) = Inr (HeadSelected sample_head)"
    by code_simp
  then show ?thesis unfolding sample_selected_def by (metis prod.collapse)
qed

section \<open>Histories\<close>

text \<open>
  C21. The registry implements one append-only history of heads per track. In every reachable state there are
  such histories, their heads numbered from one and linked, and the current head is the last one. A
  selection is accepted only under the authority of its track and for its work order; it appends a head
  only if the complete last head was expected and the selection identity is new; an exact replay returns
  the recorded head beside the last one and changes nothing, and neither does any error.
\<close>

theorem candidate_heads_refine_histories:
  assumes "(registry_step validate_for)\<^sup>*\<^sup>* empty_registry r"
    and "select_successor validate_for r authority expected subject s = (x, r')"
  shows "\<exists>H. histories r H \<and> selection_effect r H (ta_track_id authority) expected s x r'
    \<and> (\<forall>outcome. x = Inr outcome \<longrightarrow> (\<exists>track. authorized_track r authority = Inr track)
         \<and> rvs_target_work_order_id subject = ta_target_work_order_id authority)"
proof -
  from candidate_heads.inv_reachable[OF refl assms(1)] obtain H where H: "histories r H" by blast
  moreover note select_successor_effect[OF H assms(2)]
  moreover have "(\<exists>track. authorized_track r authority = Inr track)
      \<and> rvs_target_work_order_id subject = ta_target_work_order_id authority" if "x = Inr outcome" for outcome
    using selected_authorized[of validate_for r authority expected subject s outcome r'] assms(2) that
    by (auto simp: authorized_Inr)
  ultimately show ?thesis by blast
qed

theorem candidate_heads_refine_histories_witness:
  "\<exists>H. histories sample_opened H \<and> histories sample_selected (H(CandidateTrackId 1 := H (CandidateTrackId 1) @ [sample_head]))"
  using candidate_heads_refine_histories[OF sample_reachable sample_selection]
  by (auto simp: selection_effect_def sample_authority_def)

text \<open>
  C22. Of all selections on a track that expect the same head (or none), at most one is selected, whatever
  other operations come between them and however the lock orders them: after the first, every later one
  with the same expectation is refused or replays what was recorded.
\<close>

theorem one_successor_per_head:
  assumes "(registry_step validate_for)\<^sup>*\<^sup>* empty_registry r"
    and "select_successor validate_for r authority expected subject s = (Inr (HeadSelected head), r1)"
    and "(registry_step validate_for)\<^sup>*\<^sup>* r1 r2"
    and "ta_track_id authority' = ta_track_id authority"
  shows "fst (select_successor validate_for r2 authority' expected subject' s') \<noteq> Inr (HeadSelected head')"
proof
  assume selected: "fst (select_successor validate_for r2 authority' expected subject' s') = Inr (HeadSelected head')"
  obtain H where "histories r H"
    using candidate_heads.inv_reachable[OF refl assms(1)] by blast
  moreover obtain r3 where "select_successor validate_for r2 authority' expected subject' s' = (Inr (HeadSelected head'), r3)"
    using selected by (metis prod.collapse)
  ultimately show False
    using later_selection_stale[OF _ assms(2,3) _ assms(4)] by blast
qed

theorem one_successor_per_head_witness:
  "fst (select_successor accept_candidate sample_selected sample_authority None sample_subject (CandidateSelectionId 6))
     \<noteq> Inr (HeadSelected sample_head)"
  by (rule one_successor_per_head[OF sample_reachable sample_selection rtranclp.rtrancl_refl refl])

end
