(* ===== verification/Json_Lines.thy ===== *)
theory Json_Lines
  imports Prelude
begin

text \<open>
  The bounded connection of the daemon and its clients, \<open>apps/daemon/src/json_lines.rs\<close>: one JSON value per
  line over byte streams. A reader is the chunks that its buffer still delivers, an empty buffer being the
  end of the stream, and the error that follows them, if any; a writer is a state with the two operations
  of the trait \<open>Write\<close> that are called. The serializer and the deserializer are arguments. The reads of
  the standard library retry an interruption; the errors here are the others.
\<close>

section \<open>Connections\<close>

datatype (plugins only: code) FrameError =
    FrameIo string
  | FrameDecode string
  | FrameTooLarge nat

definition DEFAULT_MAX_FRAME_BYTES :: nat where
  "DEFAULT_MAX_FRAME_BYTES = 1024 * 1024"

definition newline :: u8 where
  "newline = 10"

record buf_reader =
  br_chunks :: "u8 list list"
  br_error :: "string option"

record 'w byte_writer =
  bw_write_all :: "'w \<Rightarrow> u8 list \<Rightarrow> (string + unit) \<times> 'w"
  bw_flush :: "'w \<Rightarrow> (string + unit) \<times> 'w"

record 'w JsonLines =
  jl_reader :: buf_reader
  jl_writer :: 'w
  jl_max_frame_bytes :: nat

text \<open>\<open>None\<close> is the panic of the assertion.\<close>

definition with_limit :: "buf_reader \<Rightarrow> 'w \<Rightarrow> nat \<Rightarrow> 'w JsonLines option" where
  "with_limit reader writer max_frame_bytes =
     (if max_frame_bytes > 0
      then Some \<lparr>jl_reader = reader, jl_writer = writer, jl_max_frame_bytes = max_frame_bytes\<rparr> else None)"

definition json_lines_new :: "buf_reader \<Rightarrow> 'w \<Rightarrow> 'w JsonLines option" where
  "json_lines_new reader writer = with_limit reader writer DEFAULT_MAX_FRAME_BYTES"

section \<open>Reading\<close>

definition put_back :: "u8 list \<Rightarrow> u8 list list \<Rightarrow> u8 list list" where
  "put_back rest chunks = (if rest = [] then chunks else rest # chunks)"

definition end_of_chunks :: "string option \<Rightarrow> 'a \<Rightarrow> string + 'a" where
  "end_of_chunks e x = (case e of None \<Rightarrow> Inr x | Some message \<Rightarrow> Inl message)"

text \<open>\<open>read_until\<close> on a reader that \<open>take\<close> bounds: through the newline, or as much as there is.\<close>

fun read_until_newline :: "nat \<Rightarrow> u8 list list \<Rightarrow> string option \<Rightarrow> u8 list \<Rightarrow> (string + u8 list) \<times> u8 list list" where
  "read_until_newline limit [] e frame = (if limit = 0 then Inr frame else end_of_chunks e frame, [])"
| "read_until_newline limit (chunk # chunks) e frame =
     (if limit = 0 \<or> chunk = [] then (Inr frame, chunk # chunks)
      else let available = take limit chunk in
        if newline \<in> set available
          then (let used = takeWhile (\<lambda>b. b \<noteq> newline) available @ [newline] in
            (Inr (frame @ used), put_back (drop (length used) chunk) chunks))
        else if length chunk \<le> limit
          then read_until_newline (limit - length chunk) chunks e (frame @ chunk)
        else (Inr (frame @ available), drop limit chunk # chunks))"

fun drain_line :: "u8 list list \<Rightarrow> string option \<Rightarrow> (string + unit) \<times> u8 list list" where
  "drain_line [] e = (end_of_chunks e (), [])"
| "drain_line (buffer # chunks) e =
     (if buffer = [] then (Inr (), buffer # chunks)
      else if newline \<in> set buffer
        then (Inr (), put_back (drop (Suc (length (takeWhile (\<lambda>b. b \<noteq> newline) buffer))) buffer) chunks)
      else drain_line chunks e)"

definition jl_read :: "(u8 list \<Rightarrow> string + 'v) \<Rightarrow> 'w JsonLines \<Rightarrow> (FrameError + 'v option) \<times> 'w JsonLines" where
  "jl_read from_slice self =
     (let e = br_error (jl_reader self);
          read_limit = usize_saturating_add (jl_max_frame_bytes self) 1;
          rest = (\<lambda>chunks. self\<lparr>jl_reader := (jl_reader self)\<lparr>br_chunks := chunks\<rparr>\<rparr>) in
      case read_until_newline read_limit (br_chunks (jl_reader self)) e [] of
        (Inl message, chunks) \<Rightarrow> (Inl (FrameIo message), rest chunks)
      | (Inr frame, chunks) \<Rightarrow>
          if frame = [] then (Inr None, rest chunks)
          else if length frame > jl_max_frame_bytes self then
            (let too_large = FrameTooLarge (jl_max_frame_bytes self) in
             if last frame \<noteq> newline then
               (case drain_line chunks e of
                  (Inl message, chunks') \<Rightarrow> (Inl (FrameIo message), rest chunks')
                | (Inr _, chunks') \<Rightarrow> (Inl too_large, rest chunks'))
             else (Inl too_large, rest chunks))
          else (map_err FrameDecode (and_then (from_slice frame) (\<lambda>v. Inr (Some v))), rest chunks))"

section \<open>Writing\<close>

text \<open>
  The serializer writes to the writer itself and may have written a part when it fails; an error of the
  writer in it is reported as one of serialization.
\<close>

definition jl_write ::
  "'w byte_writer \<Rightarrow> ('v \<Rightarrow> 'w \<Rightarrow> (string + unit) \<times> 'w) \<Rightarrow> 'v \<Rightarrow> 'w JsonLines
    \<Rightarrow> (FrameError + unit) \<times> 'w JsonLines" where
  "jl_write out to_writer v self =
     (case to_writer v (jl_writer self) of
        (Inl message, w) \<Rightarrow> (Inl (FrameDecode message), self\<lparr>jl_writer := w\<rparr>)
      | (Inr _, w) \<Rightarrow>
         (case bw_write_all out w [newline] of
            (Inl message, w') \<Rightarrow> (Inl (FrameIo message), self\<lparr>jl_writer := w'\<rparr>)
          | (Inr _, w') \<Rightarrow>
             (case bw_flush out w' of
                (Inl message, w'') \<Rightarrow> (Inl (FrameIo message), self\<lparr>jl_writer := w''\<rparr>)
              | (Inr _, w'') \<Rightarrow> (Inr (), self\<lparr>jl_writer := w''\<rparr>))))"

definition into_parts :: "'w JsonLines \<Rightarrow> buf_reader \<times> 'w" where
  "into_parts self = (jl_reader self, jl_writer self)"

text \<open>The writer \<open>Vec<u8>\<close>.\<close>

definition vec_writer :: "u8 list byte_writer" where
  "vec_writer = \<lparr>bw_write_all = \<lambda>w bytes. (Inr (), w @ bytes), bw_flush = \<lambda>w. (Inr (), w)\<rparr>"

section \<open>Lines\<close>

text \<open>The first line of a stream with its newline, or all of the stream.\<close>

definition first_line :: "u8 list \<Rightarrow> u8 list" where
  "first_line bytes = takeWhile (\<lambda>b. b \<noteq> newline) bytes @ take 1 (dropWhile (\<lambda>b. b \<noteq> newline) bytes)"

definition after_line :: "u8 list \<Rightarrow> u8 list" where
  "after_line bytes = drop 1 (dropWhile (\<lambda>b. b \<noteq> newline) bytes)"

lemma lines_append: "first_line bytes @ after_line bytes = bytes"
  by (simp add: first_line_def after_line_def)

lemma first_line_here:
  assumes "newline \<in> set bytes"
  shows "first_line (bytes @ rest) = takeWhile (\<lambda>b. b \<noteq> newline) bytes @ [newline]"
    and "after_line (bytes @ rest) = drop (Suc (length (takeWhile (\<lambda>b. b \<noteq> newline) bytes))) bytes @ rest"
proof -
  let ?l = "takeWhile (\<lambda>b. b \<noteq> newline) bytes"
  obtain tail where d: "dropWhile (\<lambda>b. b \<noteq> newline) bytes = newline # tail"
    using assms by (metis (mono_tags, lifting) dropWhile_eq_Nil_conv hd_dropWhile list.collapse)
  then have b: "bytes = ?l @ newline # tail" by (metis takeWhile_dropWhile_id)
  have t: "takeWhile (\<lambda>b. b \<noteq> newline) (bytes @ rest) = ?l"
    using assms by (intro takeWhile_append1[of newline]) simp_all
  have dw: "dropWhile (\<lambda>b. b \<noteq> newline) (bytes @ rest) = newline # tail @ rest"
    using dropWhile_append1[of newline bytes "\<lambda>b. b \<noteq> newline" rest] assms d by simp
  show "first_line (bytes @ rest) = ?l @ [newline]"
    by (simp add: first_line_def t dw)
  have "drop (Suc (length ?l)) bytes = tail"
    by (subst b) simp
  then show "after_line (bytes @ rest) = drop (Suc (length ?l)) bytes @ rest"
    by (simp add: after_line_def dw)
qed

lemma first_line_later:
  assumes "newline \<notin> set bytes"
  shows "first_line (bytes @ rest) = bytes @ first_line rest" "after_line (bytes @ rest) = after_line rest"
  using assms by (auto simp: first_line_def after_line_def takeWhile_append dropWhile_append)

lemma concat_put_back [simp]: "concat (put_back rest chunks) = rest @ concat chunks"
  by (simp add: put_back_def)

lemma put_back_nonempty: "[] \<notin> set chunks \<Longrightarrow> [] \<notin> set (put_back rest chunks)"
  by (simp add: put_back_def)

text \<open>A bounded read takes the first line, or the limit when the line is longer.\<close>

lemma read_until_newline_bytes:
  assumes "[] \<notin> set chunks" "read_until_newline limit chunks None frame = (x, chunks')"
  shows "x = Inr (frame @ take limit (first_line (concat chunks)))
    \<and> concat chunks' = drop (min limit (length (first_line (concat chunks)))) (concat chunks) \<and> [] \<notin> set chunks'"
  using assms
proof (induction limit chunks "None :: string option" frame rule: read_until_newline.induct)
  case (1 limit frame)
  then show ?case by (auto simp: end_of_chunks_def first_line_def split: if_splits)
next
  case (2 limit chunk chunks frame)
  show ?case
  proof (cases "limit = 0")
    case True
    with 2 show ?thesis by auto
  next
    case False
    from 2(2) have nonempty: "chunk \<noteq> []" "[] \<notin> set chunks" by auto
    show ?thesis
    proof (cases "newline \<in> set (take limit chunk)")
      case True
      let ?used = "takeWhile (\<lambda>b. b \<noteq> newline) (take limit chunk) @ [newline]"
      have line: "first_line (chunk @ concat chunks) = ?used"
        using first_line_here(1)[OF True, of "drop limit chunk @ concat chunks"]
        by (simp flip: append_assoc)
      have "length ?used \<le> limit"
      proof -
        have "takeWhile (\<lambda>b. b \<noteq> newline) (take limit chunk) \<noteq> take limit chunk"
          using True by (auto simp: takeWhile_eq_all_conv)
        then have "length (takeWhile (\<lambda>b. b \<noteq> newline) (take limit chunk)) < length (take limit chunk)"
          by (metis length_takeWhile_le linorder_le_less_linear takeWhile_eq_take take_all_iff)
        then show ?thesis by simp
      qed
      moreover have "length ?used \<le> length chunk"
        using calculation line lines_append[of "take limit chunk"] first_line_here(1)[OF True, of "[]"]
        by (metis append_Nil2 append_take_drop_id length_append le_add1 le_trans)
      ultimately show ?thesis
        using 2(3) False nonempty True by (auto simp: line Let_def put_back_nonempty)
    next
      case no_line: False
      show ?thesis
      proof (cases "length chunk \<le> limit")
        case True
        with no_line have "newline \<notin> set chunk" by simp
        note later = first_line_later[OF this, of "concat chunks"]
        have "read_until_newline (limit - length chunk) chunks None (frame @ chunk) = (x, chunks')"
          using 2(3) False nonempty no_line True by (simp add: Let_def)
        with 2(1)[OF _ refl no_line True nonempty(2) this] False nonempty
        have step: "x = Inr (frame @ chunk @ take (limit - length chunk) (first_line (concat chunks)))
          \<and> concat chunks' = drop (min (limit - length chunk) (length (first_line (concat chunks)))) (concat chunks)
          \<and> [] \<notin> set chunks'"
          by simp
        have "min limit (length chunk + n) = length chunk + min (limit - length chunk) n" for n
          using True by arith
        with step True show ?thesis by (simp add: later)
      next
        case longer: False
        then have "\<exists>more. first_line (concat (chunk # chunks)) = take limit chunk @ more"
          using first_line_later(1)[OF no_line, of "drop limit chunk @ concat chunks"]
          by (metis append.assoc append_take_drop_id concat.simps(2))
        then obtain more where more: "first_line (chunk @ concat chunks) = take limit chunk @ more" by auto
        with longer have "limit \<le> length (first_line (chunk @ concat chunks))" by simp
        then show ?thesis
          using 2(3) False nonempty no_line longer more by (auto simp: Let_def)
      qed
    qed
  qed
qed

lemma drain_line_bytes:
  assumes "[] \<notin> set chunks" "drain_line chunks None = (x, chunks')"
  shows "x = Inr () \<and> concat chunks' = after_line (concat chunks) \<and> [] \<notin> set chunks'"
  using assms
proof (induction chunks "None :: string option" rule: drain_line.induct)
  case (2 buffer chunks)
  show ?case
  proof (cases "newline \<in> set buffer")
    case True
    with 2 first_line_here(2)[OF True, of "concat chunks"] show ?thesis
      by (auto simp: put_back_nonempty)
  next
    case False
    with 2 first_line_later(2)[OF False, of "concat chunks"] show ?thesis by auto
  qed
qed (simp add: end_of_chunks_def after_line_def)

end
