(* ===== verification/Json_Lines_Correct.thy ===== *)
theory Json_Lines_Correct
  imports Json_Lines
begin

text \<open>
  What a connection of the daemon delivers: a read takes exactly one line of the stream whatever chunks
  it arrives in, a line over the limit included, so values written one after the other are read back in
  their order.
\<close>

section \<open>One read\<close>

abbreviation stream :: "'w JsonLines \<Rightarrow> u8 list" where
  "stream self \<equiv> concat (br_chunks (jl_reader self))"

definition delivers :: "'w JsonLines \<Rightarrow> bool" where
  "delivers self \<longleftrightarrow> [] \<notin> set (br_chunks (jl_reader self)) \<and> br_error (jl_reader self) = None
     \<and> jl_max_frame_bytes self < usize_max"

lemma first_line_empty [simp]: "first_line bytes = [] \<longleftrightarrow> bytes = []"
  by (cases bytes) (auto simp: first_line_def)

lemma first_line_body:
  assumes "n < length (first_line bytes)"
  shows "newline \<notin> set (take n (first_line bytes))"
proof -
  have "n \<le> length (takeWhile (\<lambda>b. b \<noteq> newline) bytes)"
    using assms by (auto simp: first_line_def)
  then have "take n (first_line bytes) = take n (takeWhile (\<lambda>b. b \<noteq> newline) bytes)"
    by (simp add: first_line_def)
  then show ?thesis by (auto dest: in_set_takeD set_takeWhileD)
qed

lemma first_line_ends:
  assumes "bytes \<noteq> []" "last (first_line bytes) \<noteq> newline"
  shows "first_line bytes = bytes \<and> newline \<notin> set bytes"
proof -
  have "dropWhile (\<lambda>b. b \<noteq> newline) bytes = []"
  proof (rule ccontr)
    assume "dropWhile (\<lambda>b. b \<noteq> newline) bytes \<noteq> []"
    then obtain b tail where d: "dropWhile (\<lambda>b. b \<noteq> newline) bytes = b # tail"
      by (metis list.exhaust)
    then have "b = newline" by (simp add: dropWhile_eq_Cons_conv)
    with d assms(2) show False by (simp add: first_line_def)
  qed
  then have "newline \<notin> set bytes" by auto
  with first_line_later(1)[OF this, of "[]"] show ?thesis by simp
qed

lemma after_line_drop: "after_line bytes = drop (length (first_line bytes)) bytes"
  using lines_append[of bytes] by (metis append_eq_conv_conj)

text \<open>A prefix of the first line over the limit does not hold its newline, or is all of it.\<close>

lemma bounded_prefix:
  assumes "bytes \<noteq> []" "last (take (Suc n) (first_line bytes)) \<noteq> newline"
  shows "newline \<notin> set (take (Suc n) (first_line bytes))"
proof (cases "Suc n < length (first_line bytes)")
  case True
  then show ?thesis by (rule first_line_body)
next
  case False
  with assms first_line_ends show ?thesis by (metis linorder_not_less take_all_iff)
qed

lemma bounded_prefix_newline:
  assumes "bytes \<noteq> []" "last (take (Suc n) (first_line bytes)) = newline"
  shows "take (Suc n) (first_line bytes) = first_line bytes"
proof (rule ccontr)
  assume "take (Suc n) (first_line bytes) \<noteq> first_line bytes"
  then have "newline \<notin> set (take (Suc n) (first_line bytes))" by (intro first_line_body) simp
  moreover have "take (Suc n) (first_line bytes) \<noteq> []" using assms(1) by simp
  ultimately show False using assms(2) last_in_set by metis
qed

text \<open>A read consumes the first line and answers from it alone.\<close>

definition line_answer :: "(u8 list \<Rightarrow> string + 'v) \<Rightarrow> nat \<Rightarrow> u8 list \<Rightarrow> FrameError + 'v option" where
  "line_answer from_slice max_frame_bytes line =
     (if line = [] then Inr None
      else if max_frame_bytes < length line then Inl (FrameTooLarge max_frame_bytes)
      else map_err FrameDecode (and_then (from_slice line) (\<lambda>v. Inr (Some v))))"

lemma jl_read_line:
  assumes "delivers self" "jl_read from_slice self = (answer, self')"
  shows "answer = line_answer from_slice (jl_max_frame_bytes self) (first_line (stream self))"
    and "stream self' = after_line (stream self)" and "delivers self'"
    and "jl_writer self' = jl_writer self" and "jl_max_frame_bytes self' = jl_max_frame_bytes self"
proof -
  let ?bytes = "stream self" and ?max = "jl_max_frame_bytes self"
  let ?line = "first_line ?bytes"
  have limit: "usize_saturating_add ?max 1 = Suc ?max"
    using assms(1) by (simp add: delivers_def usize_saturating_add_def)
  obtain x rest where r: "read_until_newline (Suc ?max) (br_chunks (jl_reader self)) None [] = (x, rest)"
    by fastforce
  with read_until_newline_bytes[OF _ r] assms(1) have x: "x = Inr (take (Suc ?max) ?line)"
    and rest: "concat rest = drop (min (Suc ?max) (length ?line)) ?bytes" "[] \<notin> set rest"
    by (auto simp: delivers_def)
  obtain y left where d: "drain_line rest None = (y, left)" by fastforce
  with drain_line_bytes[OF rest(2) d] have y: "y = Inr ()"
    and left: "concat left = after_line (concat rest)" "[] \<notin> set left" by auto
  have fits: "concat rest = after_line ?bytes" if "take (Suc ?max) ?line = ?line"
    using that rest by (simp add: after_line_drop min_absorb2)
  have drained: "concat left = after_line ?bytes"
    if "?bytes \<noteq> []" "last (take (Suc ?max) ?line) \<noteq> newline"
  proof -
    have "?bytes = take (Suc ?max) ?line @ concat rest"
      using rest(1) lines_append[of ?bytes]
      by (metis append_eq_conv_conj append_take_drop_id length_take min.commute append_eq_append_conv_if
          take_add take_take)
    then show ?thesis using first_line_later(2)[OF bounded_prefix[OF that]] left(1) by metis
  qed
  have whole: "answer = line_answer from_slice ?max ?line \<and> stream self' = after_line ?bytes \<and> delivers self'
    \<and> jl_writer self' = jl_writer self \<and> jl_max_frame_bytes self' = ?max"
  proof (cases "?bytes = []")
    case True
    with assms r x rest limit show ?thesis
      by (auto simp: jl_read_def Let_def delivers_def line_answer_def after_line_def simp del: concat_eq_Nil_conv)
  next
    case bytes: False
    show ?thesis
    proof (cases "?max < length ?line")
      case short: False
      then have "take (Suc ?max) ?line = ?line" by simp
      with assms r x rest limit bytes short fits show ?thesis
        by (auto simp: jl_read_def Let_def delivers_def line_answer_def simp del: concat_eq_Nil_conv)
    next
      case long: True
      show ?thesis
      proof (cases "last (take (Suc ?max) ?line) = newline")
        case True
        with assms r x rest limit bytes long fits[OF bounded_prefix_newline[OF bytes]] show ?thesis
          by (auto simp: jl_read_def Let_def delivers_def line_answer_def simp del: concat_eq_Nil_conv)
      next
        case False
        with assms r x d y left limit bytes long drained show ?thesis
          by (auto simp: jl_read_def Let_def delivers_def line_answer_def simp del: concat_eq_Nil_conv)
      qed
    qed
  qed
  then show "answer = line_answer from_slice ?max ?line" "stream self' = after_line ?bytes" "delivers self'"
    "jl_writer self' = jl_writer self" "jl_max_frame_bytes self' = ?max" by blast+
qed

section \<open>Frames\<close>

primrec send_all ::
  "'w byte_writer \<Rightarrow> ('v \<Rightarrow> 'w \<Rightarrow> (string + unit) \<times> 'w) \<Rightarrow> 'v list \<Rightarrow> 'w JsonLines
    \<Rightarrow> (FrameError + unit) \<times> 'w JsonLines" where
  "send_all out to_writer [] self = (Inr (), self)"
| "send_all out to_writer (v # vs) self =
     (case jl_write out to_writer v self of
        (Inl e, self') \<Rightarrow> (Inl e, self')
      | (Inr _, self') \<Rightarrow> send_all out to_writer vs self')"

primrec receive :: "(u8 list \<Rightarrow> string + 'v) \<Rightarrow> nat \<Rightarrow> 'w JsonLines \<Rightarrow> (FrameError + 'v option) list \<times> 'w JsonLines" where
  "receive from_slice 0 self = ([], self)"
| "receive from_slice (Suc n) self =
     (let (answer, self') = jl_read from_slice self;
          (answers, self'') = receive from_slice n self'
      in (answer # answers, self''))"

definition frames :: "('v \<Rightarrow> u8 list) \<Rightarrow> 'v list \<Rightarrow> u8 list" where
  "frames encode vs = concat (map (\<lambda>v. encode v @ [newline]) vs)"

lemma frames_simps [simp]:
  "frames encode [] = []" "frames encode (v # vs) = encode v @ newline # frames encode vs"
  by (simp_all add: frames_def)

lemma send_all_frames:
  assumes "\<And>v w. to_writer v w = (Inr (), w @ encode v)"
  shows "send_all vec_writer to_writer vs self = (Inr (), self\<lparr>jl_writer := jl_writer self @ frames encode vs\<rparr>)"
  by (induction vs arbitrary: self) (simp_all add: assms jl_write_def vec_writer_def)

lemma first_frame:
  assumes "newline \<notin> set (encode v)"
  shows "first_line (frames encode (v # vs)) = encode v @ [newline]"
    and "after_line (frames encode (v # vs)) = frames encode vs"
  using first_line_later[OF assms, of "newline # frames encode vs"]
  by (simp_all add: first_line_def after_line_def)

definition frame_answer :: "('v \<Rightarrow> u8 list) \<Rightarrow> nat \<Rightarrow> 'v \<Rightarrow> FrameError + 'v option" where
  "frame_answer encode max_frame_bytes v =
     (if length (encode v) < max_frame_bytes then Inr (Some v) else Inl (FrameTooLarge max_frame_bytes))"

lemma receive_frames:
  assumes "\<And>v. newline \<notin> set (encode v)" "\<And>v. from_slice (encode v @ [newline]) = Inr v"
    and "delivers self" "stream self = frames encode vs"
  shows "fst (receive from_slice (Suc (length vs)) self)
    = map (frame_answer encode (jl_max_frame_bytes self)) vs @ [Inr None]"
  using assms(3,4)
proof (induction vs arbitrary: self)
  case Nil
  obtain answer self' where r: "jl_read from_slice self = (answer, self')" by fastforce
  from jl_read_line(1)[OF Nil(1) r] Nil(2) r show ?case by (simp add: line_answer_def)
next
  case (Cons v vs)
  obtain answer self' where r: "jl_read from_slice self = (answer, self')" by fastforce
  note read = jl_read_line[OF Cons(2) r, unfolded Cons(3) first_frame[where v = v and vs = vs and encode = encode, OF assms(1)]]
  from read(1) have "answer = frame_answer encode (jl_max_frame_bytes self) v"
    by (simp add: line_answer_def frame_answer_def assms(2) map_err_def and_then_def)
  with Cons.IH[OF read(3,2)] read(5) r show ?case
    by (simp add: split_beta Let_def)
qed

text \<open>
  C32. Frames round trip: values that a connection writes one after the other are read back in their order
  by a connection that receives the bytes in any chunks, and the end of the stream follows them. A value
  whose line is over the reader's limit is answered by that error and consumed whole, so the frames after
  it stay aligned. Relied on: the serializer writes no raw newline and does not fail on a buffer in
  memory, the deserializer inverts it and skips the trailing newline.
\<close>

theorem frames_round_trip:
  assumes "\<And>v w. to_writer v w = (Inr (), w @ encode v)" "\<And>v. newline \<notin> set (encode v)"
    and "\<And>v. from_slice (encode v @ [newline]) = Inr v"
    and "send_all vec_writer to_writer vs sender = (r, sender')" "jl_writer sender = []"
    and "concat chunks = jl_writer sender'" "[] \<notin> set chunks"
    and "with_limit \<lparr>br_chunks = chunks, br_error = None\<rparr> w max_frame_bytes = Some receiver"
    and "max_frame_bytes < usize_max"
  shows "r = Inr () \<and> fst (receive from_slice (Suc (length vs)) receiver)
    = map (\<lambda>v. if length (encode v) < max_frame_bytes then Inr (Some v)
        else Inl (FrameTooLarge max_frame_bytes)) vs @ [Inr None]"
proof -
  have sent: "r = Inr ()" "jl_writer sender' = frames encode vs"
    using send_all_frames[where vs = vs and self = sender and encode = encode, OF assms(1)] assms(4,5) by auto
  have receiver: "receiver = \<lparr>jl_reader = \<lparr>br_chunks = chunks, br_error = None\<rparr>, jl_writer = w,
    jl_max_frame_bytes = max_frame_bytes\<rparr>"
    using assms(8) by (simp add: with_limit_def split: if_splits)
  have "delivers receiver" "stream receiver = frames encode vs"
    using assms(6,7,9) sent by (simp_all add: receiver delivers_def)
  from receive_frames[where encode = encode and from_slice = from_slice, OF assms(2,3) this] sent show ?thesis
    by (simp add: receiver frame_answer_def fun_eq_iff cong: map_cong)
qed

text \<open>A unary serializer, a limit of three bytes, and the bytes cut inside of the second frame.\<close>

definition sample_encode :: "nat \<Rightarrow> u8 list" where
  "sample_encode n = replicate n 49"

definition sample_decode :: "u8 list \<Rightarrow> string + nat" where
  "sample_decode bytes = Inr (length bytes - 1)"

definition sample_sender :: "u8 list JsonLines" where
  "sample_sender = \<lparr>jl_reader = \<lparr>br_chunks = [], br_error = None\<rparr>, jl_writer = [], jl_max_frame_bytes = 1\<rparr>"

definition sample_receiver :: "unit JsonLines" where
  "sample_receiver = \<lparr>jl_reader = \<lparr>br_chunks = [[49, 10, 49], [49, 49, 49, 49, 10, 49], [49, 10]], br_error = None\<rparr>,
     jl_writer = (), jl_max_frame_bytes = 3\<rparr>"

theorem frames_round_trip_witness:
  "fst (receive sample_decode 4 sample_receiver) = [Inr (Some 1), Inl (FrameTooLarge 3), Inr (Some 2), Inr None]"
proof -
  let ?to_writer = "\<lambda>v w. (Inr () :: string + unit, w @ sample_encode v)"
  obtain r sender' where sent: "send_all vec_writer ?to_writer [1, 5, 2] sample_sender = (r, sender')" by fastforce
  then have bytes: "jl_writer sender' = [49, 10, 49, 49, 49, 49, 49, 10, 49, 49, 10]"
    by (auto simp: jl_write_def vec_writer_def sample_sender_def sample_encode_def newline_def numeral_eq_Suc)
  have "fst (receive sample_decode (Suc (length [1, 5, 2::nat])) sample_receiver)
    = map (\<lambda>v. if length (sample_encode v) < 3 then Inr (Some v) else Inl (FrameTooLarge 3)) [1, 5, 2] @ [Inr None]"
    by (rule conjunct2[OF frames_round_trip[of ?to_writer sample_encode sample_decode _ sample_sender r sender'
          "[[49, 10, 49], [49, 49, 49, 49, 10, 49], [49, 10]]" "()"]])
      (use sent bytes in \<open>simp_all add: sample_encode_def sample_decode_def newline_def sample_sender_def
        sample_receiver_def with_limit_def usize_max_def\<close>)
  then show ?thesis by (simp add: sample_encode_def numeral_eq_Suc)
qed

end
