(* ===== verification/Spec2Isabelle.thy ===== *)
theory Spec2Isabelle
  imports Example_Graph Store_Properties Planner_Properties Prompt_Properties Candidate_Properties Json_Lines_Correct
begin

text \<open>
  BirdCode runs coding agents as graphs of work orders.  A planner proposes an actor graph; the
  orchestrator validates it against a trusted policy, executes it with bounded parallelism against
  untrusted workers, and retains every step in a causal journal from which a dispatch can be
  verified later.  A second protocol keeps a plan across turns: a model proposes one patch and one
  directive, which are validated against protected obligations, evidence and a trusted policy, and every
  model call stands between a durable preparation and a durable decision.  Around both, a local runtime
  creates and cancels runs, and a store keeps every event in an append-only log per session.  This
  development models these cores operation by operation and proves what makes them correct:
  \<^verbatim>\<open>crates/orchestrator/src/actor_graph.rs\<close>, \<^verbatim>\<open>planner.rs\<close> and \<^verbatim>\<open>planner_prompt.rs\<close> beside it and
  the router's executor in \<^verbatim>\<open>lib.rs\<close>, the prompts of \<^verbatim>\<open>crates/prompting\<close> (\<^verbatim>\<open>manifest.rs\<close>, \<^verbatim>\<open>compiler.rs\<close>,
  \<^verbatim>\<open>canonical.rs\<close>, \<^verbatim>\<open>router.rs\<close>, \<^verbatim>\<open>root_planner.rs\<close>, \<^verbatim>\<open>plan_repair.rs\<close>), the contract of \<^verbatim>\<open>crates/backends\<close>, \<^verbatim>\<open>crates/runtime/src/runtime.rs\<close>, the event log and the artifacts of \<^verbatim>\<open>crates/store\<close>, and
  the verified artifact fetch of \<^verbatim>\<open>crates/client\<close> and \<^verbatim>\<open>apps/cli\<close>.

  Parts and where they are modelled:
  \<^item> \<open>Prelude\<close>: machine integers with checked arithmetic, ordered maps and sets (\<open>BTreeMap\<close>, \<open>BTreeSet\<close>
    as sorted lists), the generic lemmas and hint collections of the other theories.
  \<^item> \<open>Rust_Text\<close>: \<open>str::trim\<close> on UTF-8 bytes, \<open>valid_sha256\<close>, \<open>encode_digest\<close>, \<open>canonical_json_digest\<close>.
  \<^item> \<open>Actor_Model\<close>: identifiers, permissions, workspaces, budgets, policies, work orders, graphs, violations.
  \<^item> \<open>Dependency_Search\<close>: the depth-first search with an active path that three parts of the program write
    out, as a locale; its instances are \<open>plan_search\<close>, \<open>route_search\<close> and \<open>root_search\<close>. \<open>Entry_Maps\<close>: the maps
    of counts and of first entries that the collecting passes build.
  \<^item> \<open>Dependency_Graph\<close>: \<open>dependency_reachable\<close> and \<open>dependency_cycle\<close>, against the dependency relation.
  \<^item> \<open>Actor_Validation\<close>: \<open>structural_limit_violations\<close>, \<open>graph_violations\<close>, \<open>validate_against\<close>;
    \<open>Validation_Correct\<close>: the declarative notion \<open>valid_actor_graph\<close> and that validation decides it.
  \<^item> \<open>Scheduler_Journal\<close>: worker results and their checks, scheduler events and records, \<open>retain\<close>.
  \<^item> \<open>Work_Order_Task\<close>: \<open>run_work_order\<close> as a state machine over its await points.
  \<^item> \<open>Actor_Executor\<close>: \<open>ActorGraphExecutor::execute\<close> as a step relation over polls of its futures.
  \<^item> \<open>Dispatch_Verifier\<close>: \<open>verify_dispatch\<close> of the in-memory journal with its walk over the ancestry.
  \<^item> \<open>Journal_Causality\<close>, \<open>Task_Invariants\<close>, \<open>Executor_Invariants\<close>, \<open>Executor_Correct\<close>: what retained
    records must be able to point to, the invariants of one future and of the executor, and the
    interpretation of the contracts of \<open>Transition_Systems\<close> on the executor.
  \<^item> \<open>Verifier_Correct\<close>: the verifier accepts the executor's dispatches, and what it accepts is justified.
  \<^item> \<open>Scheduler_Refinement\<close>: an abstract scheduler over sets of work orders, refined by the executor.
  \<^item> \<open>Example_Graph\<close>: concrete graphs and executions on which the properties are instantiated.
  \<^item> \<open>Backend_Contract\<close>: content-addressed identities, requests, responses and errors of backends;
    \<open>Prompt_Types\<close>: the types of prompts and the invocation of the planner prompt.
  \<^item> \<open>Planner_Model\<close>: limits, identities, plans, patches, directives, violations; \<open>Planner_Catalogs\<close>: the
    protected catalogs and the policy, with their self-checks and the binary search for evidence.
  \<^item> \<open>Planner_Checks\<close> and \<open>Planner_Turn\<close>: \<open>validate_and_apply\<close> with all its checks, the passes that apply
    a patch and the resolution of directives; \<open>Plan_Acyclic\<close>, \<open>Planner_Spec\<close>, \<open>Planner_Turn_Correct\<close>,
    \<open>Planner_Directives\<close>: the declarative conditions that the checks decide, what an accepted turn changes
    and keeps, and the history of a plan.
  \<^item> \<open>Planner_Prompt\<close>: inference policy, request building, attestation, decoding; \<open>Planner_Journal\<close>: the
    records of attempts and their replay, \<open>Planner_Journal_Correct\<close>: their life cycles.
  \<^item> \<open>Planner_Executor\<close>: \<open>PlannerExecutor::execute\<close>, also as a machine that executors sharing a journal
    interleave; \<open>Planner_Executor_Correct\<close>: the contract \<open>planner_journal\<close>, what an execution guarantees
    under it, and its instance for the in-memory journal.
  \<^item> \<open>Example_Planner\<close>, \<open>Planner_Properties\<close>: a plan, a proposal and a planner, and the properties of the planner.
  \<^item> \<open>Canonical_Json\<close>: the canonical encoder and the digests over it. \<open>Prompt_Router\<close>, \<open>Route_Correct\<close>: the
    contract of routes and the notion \<open>admissible_route\<close> that it decides. \<open>Prompt_Root_Planner\<close>,
    \<open>Root_Planner_Checks\<close>, \<open>Root_Planner_Output\<close>: obligations and policies sealed by digests, the contract of
    a root plan and of its repair, and the notion \<open>admissible_root_plan\<close>.
  \<^item> \<open>Prompt_Registry\<close>: manifests, schemas, generation directives and their expansion; \<open>Prompt_Compiler\<close>:
    unambiguous documents, registration, compilation, validation of outputs, rejection classes;
    \<open>Prompt_Compiler_Correct\<close>: what a registry holds, which invocations compile, the separation of trust
    in the messages, and that the checks of directives leave one way for an expansion to fail.
    \<open>Canonical_Sealing\<close>: the canonical encoding determines its value, so the digest of a policy binds all
    of its fields; \<open>Example_Policy\<close>: a printer of scalars that meets the assumption, and two policies.
  \<^item> \<open>Router_Executor\<close>: \<open>RouterExecutor::execute\<close> with its journal and the repair of duplicated evidence;
    \<open>Router_Repair_Correct\<close>: a valid patch is applied without a panic and repairs the route;
    \<open>Router_Correct\<close>: the contract \<open>attempt_journal\<close> with its instance for the in-memory journal, the possible
    effects of an execution, and which routes it accepts. \<open>Example_Router\<close>, \<open>Prompt_Properties\<close>: an
    execution with a repair, and the properties of prompts and router.
  \<^item> \<open>Candidate_Head\<close>: the daemon's registry of selected candidates, a compare-and-swap under one lock;
    \<open>Candidate_Head_Correct\<close>: it meets \<open>safe_system\<close> with an append-only history per track;
    \<open>Candidate_Properties\<close>: its properties.
  \<^item> \<open>Json_Lines\<close>: the bounded line framing of the daemon's connections over chunked input;
    \<open>Json_Lines_Correct\<close>: a read takes exactly one line, and frames round trip.
  \<^item> \<open>Runtime_Protocol\<close>: the types of \<^verbatim>\<open>crates/protocol\<close> that runtime, store and client exchange;
    \<open>Run_Specs\<close>: the checks of run specifications, and the declarative notion \<open>valid_run_spec\<close> they decide.
  \<^item> \<open>Event_Store\<close>: tables, keys, triggers and operations of the store; \<open>Event_Log\<close>: the specification
    (a valid log and what it determines), \<open>Event_Store_Correct\<close> and \<open>Event_Store_Refinement\<close>: the store
    refines it and meets \<open>safe_system\<close>; \<open>Event_Paging\<close>: the bounded pages.
  \<^item> \<open>Artifact_Store\<close>: \<open>put_artifact_at\<close>, \<open>read_verified_artifact\<close>.
  \<^item> \<open>Local_Runtime\<close>: \<open>LocalRuntime\<close> over the trait \<open>Repository\<close>; \<open>Local_Runtime_Correct\<close>: the contract
    \<open>event_repository\<close> of that trait and what the runtime guarantees under it; \<open>Store_Repository\<close>: the
    store with concurrent processes is an instance of the contract.
  \<^item> \<open>Artifact_Fetch\<close>: the client's page checks and the fetch loop, the contract \<open>exact_pages\<close> and its
    instance for the runtime on the store.
  \<^item> \<open>Example_Store\<close>, \<open>Store_Properties\<close>: a concrete store, and the properties of store, runtime and artifacts.

  How they interact: validation produces a \<open>ValidatedActorGraph\<close>; \<open>run_ok\<close> collects what the executor
  needs of it.  The executor owns the journal, the futures append to it through \<open>retain\<close>, and the
  verifier reads it.  The runtime calls the store through the repository; every call may see the store
  after operations of other processes, which \<open>others_ok\<close> confines to operations of the store.

  Parameters, for code that is not part of the repository: the hash function and the serializers
  (\<open>codec\<close>), the generator of identifiers (\<open>se_uuid\<close>, assumed injective where identity matters), and
  the acknowledgement of the journal (\<open>se_ack\<close>), which may refuse any record.  Workers and the clock are
  the environment: \<open>task_accepts\<close> admits every completion, failure, timeout and cleanup result.

  For the planner: the hash function, the URL parser, the serializers and the prompt registry are fields of
  \<open>backend_env\<close>, \<open>planner_env\<close>, \<open>prompt_env\<close> and \<open>journal_env\<close>, each extending the one before.  Nothing is
  assumed of them, but that serializers do not fail where an execution is shown to return, and that
  truncated hashes give new orders identities which the plan does not have (\<open>fresh_identities\<close>).

  For prompts and router, \<open>registry_env\<close>, \<open>root_env\<close>, \<open>prompting_env\<close> and \<open>router_env\<close> extend \<open>backend_env\<close>: the
  JSON reader, the texts of JSON scalars, the JSON Schema validator, JSON pointers, the order and text of
  semantic versions, the derived deserializers, the embedded manifests, and the output checks of the
  prompt families that are not modelled.  Assumed are only hashes of 32 bytes where a policy is shown to
  be sealed, and there that texts of JSON scalars can be told apart (\<open>scalar_texts_delimited\<close>) and that the
  hash tells apart the two texts in question, and that a serialized route decodes to itself where a
  repaired route is shown admissible.

  For the store: the codec of events (\<open>codec_ok\<close>: decoding undoes encoding), fresh identifiers, the clock,
  failures of SQLite at a commit (\<open>sv_sqlite\<close>) and at each step of a query that loads rows (\<open>sv_fetch\<close>), and
  failures of the file system.  A failure within a transaction that writes is one at its end, as it leaves
  the tables as they were.  The semantic admission of the single payloads
  (\<^verbatim>\<open>event_admission.rs\<close>) is a parameter too that may refuse any event; it is not modelled yet.

  Bounds: only the recursions of the depth-first searches carry fuel, one more than the number of
  nodes; \<open>cycle_search_exact\<close> and \<open>search_decides\<close> show that it never runs out.  The expansion of
  generation directives, which also visits the arrays it inserts, terminates by a weight of the schema.  The worklists terminate by measures over
  the finite set of keys, and the loop of the executor consumes pending orders.  \<open>usize\<close> is 64
  bits wide.

  The loops of replay and fetch terminate because their 64-bit cursor increases; the cancellation has
  its own bound of eight attempts.

  Not modelled: serialization formats (\<open>serde\<close> attributes), \<open>Display\<close> texts of errors; of the store the
  admission of planning, child and repository events, recovery pages and migrations; the
  HTTP client of the backends and the connection of the client (I/O), tooling and workspace (file system
  and git), the contracts of the critic, the explorer, the reviewer and the planner-replanner and its
  second version, the planning loops of the runtime, the workers, the server loop
  and the model call scheduler of the daemon, and the user interfaces.
\<close>

section \<open>Validation of actor graphs\<close>

text \<open>
  C1. Validation decides the declarative specification of a valid actor graph: a planner's graph is
  accepted exactly when it passes the structural preflight, its work orders in canonical order form a
  valid graph under the policy, and its canonical form can be serialized.  The accepted value is
  the canonical graph with that digest.
\<close>

theorem validation_decides:
  "validate_against sha256 json graph policy = Inr v \<longleftrightarrow>
     structural_limit_violations graph policy = []
     \<and> valid_actor_graph (graph\<lparr>ag_work_orders := sort_key wo_id (ag_work_orders graph)\<rparr>) policy
     \<and> vg_graph v = graph\<lparr>ag_work_orders := sort_key wo_id (ag_work_orders graph)\<rparr>
     \<and> vg_policy v = policy
     \<and> canonical_json_digest sha256 (json (vg_graph v) policy) = Inr (vg_digest_sha256 v)"
  by (rule validate_against_Inr_iff)

text \<open>
  Validation is independent of the order in which the planner listed the work orders: a
  permutation of an accepted graph is accepted with the same canonical graph and digest.
\<close>

theorem validation_canonical:
  assumes "validate_against sha256 json graph policy = Inr v" "mset orders = mset (ag_work_orders graph)"
  shows "validate_against sha256 json (graph\<lparr>ag_work_orders := orders\<rparr>) policy = Inr v"
proof -
  have "distinct (map wo_id (sort_key wo_id (ag_work_orders graph)))"
    using assms(1) by (simp add: validate_against_Inr_iff valid_actor_graph_def Let_def)
  then have "distinct (map wo_id (ag_work_orders graph))"
    by (simp add: distinct_map)
  then have "sort_key wo_id orders = sort_key wo_id (ag_work_orders graph)"
    by (rule sort_key_canonical[OF assms(2)])
  then show ?thesis
    using assms structural_limits_permuted[OF assms(2), of policy] by (auto simp: validate_against_Inr_iff)
qed

theorem validation_canonical_witness:
  "validate_against example_sha256 example_json (example_graph\<lparr>ag_work_orders := [reviewer, implementer]\<rparr>) example_policy
     = Inr example_vg"
  using validation_canonical[OF example_validates, of "[reviewer, implementer]"] by (simp add: example_orders)

text \<open>
  The dependencies of an accepted graph are work orders of the graph and have no cycle; no order
  depends on itself, directly or through others.
\<close>

theorem accepted_graph_acyclic:
  assumes "validate_against sha256 json graph policy = Inr v"
  shows "acyclic (dep_edge (order_index (vg_orders v)))
    \<and> dep_edge (order_index (vg_orders v)) \<subseteq> (wo_id ` set (vg_orders v)) \<times> (wo_id ` set (vg_orders v))"
proof -
  have "valid_actor_graph (vg_graph v) policy"
    using assms by (simp add: validate_against_Inr_iff)
  then have "acyclic (dep_edge (order_index (vg_orders v)))" "\<forall>x \<in> set (vg_orders v). valid_edges (vg_orders v) x"
    "distinct (map wo_id (vg_orders v))"
    by (simp_all add: valid_actor_graph_def Let_def)
  then show ?thesis
    by (fastforce simp: dep_edge_def valid_edges_def order_index_get)
qed

theorem accepted_graph_acyclic_witness: "acyclic (dep_edge (order_index [implementer, reviewer]))"
  using accepted_graph_acyclic[OF example_validates] by (simp add: example_orders)

text \<open>
  C10. Authority only shrinks: every work order of an accepted graph has capabilities within the root
  permissions, a model profile with the lineage that the policy trusts for it, and a workspace
  grant with the source of a leased workspace and at most its access.
\<close>

theorem accepted_authority:
  assumes "validate_against sha256 json graph policy = Inr v" "order \<in> set (vg_orders v)"
  shows "set (pg_capabilities (wo_permissions order)) \<subseteq> set (pg_capabilities (gp_root_permissions policy))
    \<and> bm_get (gp_model_profiles policy) (aa_model_profile_id (wo_assignment order)) = Some (aa_lineage (wo_assignment order))
    \<and> (\<exists>lease. bm_get (gp_workspace_leases policy) (wg_lease_id (wo_workspace order)) = Some lease
         \<and> lp_source lease = wg_source (wo_workspace order) \<and> permits (lp_access lease) (wg_access (wo_workspace order)))"
  using assms by (simp add: validate_against_Inr_iff valid_actor_graph_def valid_order_def Let_def)

theorem accepted_authority_witness:
  "set (pg_capabilities (wo_permissions reviewer)) \<subseteq> set (pg_capabilities (gp_root_permissions example_policy))"
  using accepted_authority[OF example_validates, of reviewer] by (simp add: example_orders)

text \<open>
  A workspace that a work order of an accepted graph may write is used by no other order, its
  writer is not retried and reviews nothing, and its source supports writing.
\<close>

theorem accepted_writer_exclusive:
  assumes "validate_against sha256 json graph policy = Inr v" "order \<in> set (vg_orders v)" "other \<in> set (vg_orders v)"
    "wg_access (wo_workspace order) = Write" "wg_lease_id (wo_workspace other) = wg_lease_id (wo_workspace order)"
  shows "other = order \<and> ab_max_attempts (wo_budget order) = 1 \<and> wo_reviews order = []
    \<and> supports_write (wg_source (wo_workspace order))"
proof -
  have valid: "valid_order policy order" "exclusive_writers (vg_orders v)"
    using assms(1,2) by (simp_all add: validate_against_Inr_iff valid_actor_graph_def Let_def)
  then have "length (filter (\<lambda>x. wg_lease_id (wo_workspace x) = wg_lease_id (wo_workspace order)) (vg_orders v)) \<le> 1"
    using assms(2,4) by (auto simp: exclusive_writers_def)
  then have "other = order"
    using assms(2,3,5) by (intro filter_single[of "\<lambda>x. wg_lease_id (wo_workspace x) = wg_lease_id (wo_workspace order)"]) auto
  with valid(1) assms(4) show ?thesis
    by (simp add: valid_order_def)
qed

theorem accepted_writer_exclusive_witness:
  "ab_max_attempts (wo_budget writer) = 1 \<and> supports_write (wg_source (wo_workspace writer))"
  using accepted_writer_exclusive[OF writer_validates, of writer writer] by (simp add: writer_sel)

text \<open>
  The reservations of an accepted graph, taken over the natural numbers and with every attempt
  counted, are within the policy's totals: the checked \<open>u64\<close> sums never hide an overflow.
\<close>

theorem accepted_budget:
  assumes "validate_against sha256 json graph policy = Inr v"
  shows "sum_list (map attempts_of (vg_orders v)) \<le> unat (gl_max_total_attempts (gp_limits policy))
    \<and> sum_list (map tokens_of (vg_orders v)) \<le> unat (gl_max_total_output_tokens (gp_limits policy))
    \<and> sum_list (map tool_calls_of (vg_orders v)) \<le> unat (gl_max_total_tool_calls (gp_limits policy))
    \<and> sum_list (map wall_time_of (vg_orders v)) \<le> unat (gl_max_total_wall_time_ms (gp_limits policy))"
  using assms by (simp add: validate_against_Inr_iff valid_actor_graph_def within_budget_def Let_def)

theorem accepted_budget_witness:
  "sum_list (map attempts_of [implementer, reviewer]) \<le> unat (gl_max_total_attempts (gp_limits example_policy))"
  using accepted_budget[OF example_validates] by (simp add: example_orders)

text \<open>
  Reviews of an accepted graph are independent and effective: a reviewer depends on its target and
  comes from another independence domain, nothing depends on a reviewer, and whoever else
  depends on a reviewed order reviews it too.
\<close>

theorem accepted_reviews:
  assumes "validate_against sha256 json graph policy = Inr v" "judge \<in> set (vg_orders v)" "target \<in> set (vg_orders v)"
    "wo_id target \<in> set (wo_reviews judge)" "other \<in> set (vg_orders v)"
  shows "wo_id target \<in> set (wo_dependencies judge)
    \<and> ml_independence_domain_id (aa_lineage (wo_assignment judge)) \<noteq> ml_independence_domain_id (aa_lineage (wo_assignment target))
    \<and> wo_id judge \<notin> set (wo_dependencies other)
    \<and> (wo_id target \<in> set (wo_dependencies other) \<longrightarrow> wo_id target \<in> set (wo_reviews other))"
proof -
  have "distinct (map wo_id (vg_orders v))" "\<forall>x \<in> set (vg_orders v). valid_edges (vg_orders v) x"
    using assms(1) by (simp_all add: validate_against_Inr_iff valid_actor_graph_def Let_def)
  note valid = this(2) order_index_get[OF this(1)] wo_id_inj[OF this(1)]
  have "wo_id judge \<notin> set (wo_dependencies other)"
  proof
    assume "wo_id judge \<in> set (wo_dependencies other)"
    then obtain dep where "dep \<in> set (vg_orders v)" "wo_id dep = wo_id judge" "wo_reviews dep = []"
      using valid(1,2) assms(5) by (fastforce simp: valid_edges_def)
    then show False
      using valid(3)[of dep judge] assms(2,4) by simp
  qed
  moreover obtain producer where "producer \<in> set (vg_orders v)" "wo_id producer = wo_id target"
    "ml_independence_domain_id (aa_lineage (wo_assignment judge)) \<noteq> ml_independence_domain_id (aa_lineage (wo_assignment producer))"
    using valid(1,2) assms(2,4) by (fastforce simp: valid_edges_def)
  moreover from this have "producer = target"
    using valid(3)[of producer target] assms(3) by simp
  moreover have "wo_id target \<in> set (wo_dependencies judge)"
    "wo_id target \<in> set (wo_dependencies other) \<longrightarrow> wo_id target \<in> set (wo_reviews other)"
    using valid(1) assms(2,4,5) by (auto simp: valid_edges_def)
  ultimately show ?thesis by blast
qed

theorem accepted_reviews_witness:
  "ml_independence_domain_id (aa_lineage (wo_assignment reviewer)) \<noteq> ml_independence_domain_id (aa_lineage (wo_assignment implementer))"
  using accepted_reviews[OF example_validates, of reviewer implementer reviewer] by (simp add: example_orders example_ids)

text \<open>
  Competing candidates of an accepted graph are isolated: they work on separate leases of the same
  source, under the same contract, and neither depends on the other.
\<close>

theorem accepted_candidates:
  assumes "validate_against sha256 json graph policy = Inr v" "c \<in> set (vg_orders v)" "peer \<in> set (vg_orders v)"
    "wo_candidate_group c = Some g" "wo_candidate_group peer = Some g" "peer \<noteq> c"
  shows "wg_lease_id (wo_workspace c) \<noteq> wg_lease_id (wo_workspace peer)
    \<and> wg_source (wo_workspace c) = wg_source (wo_workspace peer) \<and> same_contract c peer
    \<and> (wo_id c, wo_id peer) \<notin> (dep_edge (order_index (vg_orders v)))\<^sup>+"
proof -
  let ?ms = "group_members (vg_orders v) g"
  have ids: "distinct (map wo_id (vg_orders v))" and groups: "?ms \<noteq> [] \<longrightarrow> valid_group (vg_orders v) ?ms"
    using assms(1) by (simp_all add: validate_against_Inr_iff valid_actor_graph_def Let_def)
  have mem: "c \<in> set ?ms" "peer \<in> set ?ms"
    using assms(2-5) by (simp_all add: group_members_def)
  then have "?ms \<noteq> []" by auto
  with groups have valid: "valid_group (vg_orders v) ?ms" by blast
  have "wg_lease_id (wo_workspace c) \<noteq> wg_lease_id (wo_workspace peer)"
    using valid mem assms(6) by (auto simp: valid_group_def distinct_map inj_on_def)
  moreover have "wo_id peer \<noteq> wo_id c"
    using wo_id_inj[OF ids assms(3,2)] assms(6) by blast
  then have "(wo_id c, wo_id peer) \<notin> (dep_edge (order_index (vg_orders v)))\<^sup>+"
    using valid mem by (simp add: valid_group_def)
  ultimately show ?thesis
    using valid mem by (simp add: valid_group_def same_contract_def)
qed

theorem accepted_candidates_witness:
  "(WorkOrderId 1, WorkOrderId 2) \<notin> (dep_edge (order_index [candidate 1 ''l1'', candidate 2 ''l2'']))\<^sup>+"
  using accepted_candidates[OF race_validates, of "candidate 1 ''l1''" "candidate 2 ''l2''" "''g''"]
  by (simp add: candidate_sel) (metis WorkOrderId.inject candidate_sel(1) n_not_Suc_n numeral_2_eq_2)

text \<open>
  C11. The depth-first search terminates and is exact: it returns no cycle exactly for an acyclic
  dependency relation, and a reported cycle is one: each member depends on the next, the last on
  the first.
\<close>

theorem cycle_search_exact:
  "(dependency_cycle orders = Some None \<longleftrightarrow> acyclic (dep_edge orders))
   \<and> (case dependency_cycle orders of None \<Rightarrow> False | Some None \<Rightarrow> True | Some (Some c) \<Rightarrow> is_dependency_cycle orders c)"
  using dependency_cycle_None_iff[of orders] dependency_cycle_SomeD[of orders] dependency_cycle_cases[of orders]
  by (auto split: option.split)

text \<open>The reachability test between candidates computes the transitive closure of the dependencies.\<close>

theorem reachability_exact: "dependency_reachable a b orders \<longleftrightarrow> (a, b) \<in> (dep_edge orders)\<^sup>+"
  by (rule dependency_reachable_iff)

text \<open>
  Digests are encoded faithfully: a 32-byte digest becomes a string that the validator accepts
  as a SHA-256 value, and different digests become different strings.
\<close>

theorem digest_encoding:
  assumes "length ds = 32" "length es = 32"
  shows "valid_sha256 (encode_digest ds) \<and> (encode_digest ds = encode_digest es \<longleftrightarrow> ds = es)"
  using assms encode_digest_inj by (auto simp: encode_digest_valid)

theorem digest_encoding_witness: "valid_sha256 (encode_digest (replicate 32 0))"
  using digest_encoding[of "replicate 32 0" "replicate 32 0"] by simp

section \<open>Worker results\<close>

text \<open>
  A completion passes the mechanical checks exactly when its summary, receipt and references
  are present and bounded, its references are well formed and unrepeated, and a completed
  outcome carries evidence; its usage passes exactly when it stays within the budget and, where
  required, is reported.
\<close>

theorem completion_checks_exact:
  "(handoff_violations c = [] \<longleftrightarrow>
     \<not> is_blank (ac_summary c) \<and> length (ac_summary c) \<le> MAX_HANDOFF_SUMMARY_BYTES
     \<and> bounded_receipt (ac_execution_receipt_id c) = Some (ac_execution_receipt_id c)
     \<and> length (ac_artifact_sha256 c) \<le> MAX_HANDOFF_REFERENCES \<and> distinct (ac_artifact_sha256 c)
     \<and> list_all valid_sha256 (ac_artifact_sha256 c)
     \<and> \<not> (ac_outcome c = HandoffCompleted \<and> ac_evidence_ids c = [])
     \<and> length (ac_evidence_ids c) \<le> MAX_HANDOFF_REFERENCES \<and> distinct (ac_evidence_ids c)
     \<and> list_all (\<lambda>e. bounded_receipt e = Some e) (ac_evidence_ids c))
   \<and> (usage_violation (ac_usage c) b required = None \<longleftrightarrow>
     us_tool_calls (ac_usage c) \<le> ab_max_tool_calls b
     \<and> (case us_output_tokens (ac_usage c) of None \<Rightarrow> \<not> required | Some n \<Rightarrow> n \<le> ab_max_output_tokens b))"
  unfolding handoff_violations_Nil_iff list_all_iff usage_violation_None_iff by (auto simp: bounded_receipt_def split: option.splits)

section \<open>The executor\<close>

text \<open>
  C16. Validation gives the executor what it relies on: with sets in their ordered representation and
  identifiers that do not repeat, a validated graph can be run.
\<close>

theorem validated_graph_runs:
  assumes "validate_against sha256 json graph policy = Inr vg" "list_all work_order_wf (ag_work_orders graph)" "inj (se_uuid env)"
  shows "run_ok env vg \<and> exec_inv env vg (exec_start env vg)"
proof -
  have "run_ok env vg"
    using assms by (auto simp: run_ok_def validate_against_Inr_iff list_all_iff)
  then show ?thesis by (simp add: exec_start_inv)
qed

theorem validated_graph_runs_witness: "run_ok example_env example_vg"
proof -
  have "list_all work_order_wf (ag_work_orders example_graph)" "inj (se_uuid example_env)"
    by (simp_all add: example_orders work_order_wf_def example_ids bs_wf_def inj_def)
  then show ?thesis using validated_graph_runs[OF example_validates, of example_env] by simp
qed

text \<open>
  No execution of a validated graph panics, whatever the workers return and in whatever order the
  futures are polled, and none ends with the scheduler-invariant error: some order is always
  running, ready or blocked.
\<close>

theorem executor_never_stuck:
  assumes "run_ok env vg" "exec_reachable env vg c"
  shows "c \<noteq> Panicked \<and> (\<nexists>js ids. c = Returned js (Inl (SchedulerInvariant ids)))"
  using reachable_inv[OF assms] by (auto simp: exec_inv_def returned_ok_def)

theorem executor_never_stuck_witness: "Awaiting sched3 \<noteq> Panicked"
  using executor_never_stuck[OF example_run_ok example_reach3] by simp

text \<open>
  C5. Every execution is finite and can be continued to a result: the number of polls that make
  progress is at most two per reserved attempt and two per work order, plus one, and from
  every reachable configuration the executor returns, with a run or an error.
\<close>

theorem executor_terminates:
  assumes "run_ok env vg" "(exec_step env vg ^^ n) (exec_start env vg) c"
  shows "n \<le> 1 + 2 * sum_list (map attempts_of (vg_orders vg)) + 2 * length (vg_orders vg)
    \<and> (\<exists>js r. (exec_step env vg)\<^sup>*\<^sup>* c (Returned js r))"
proof -
  have reach: "exec_reachable env vg c"
    using assms(2) by (simp add: exec_reachable_def relpowp_imp_rtranclp)
  obtain u where u: "(exec_step env vg)\<^sup>*\<^sup>* c u" "exec_final u"
    using ex.reachable_eventually_final[of env vg "exec_start env vg" c] reach assms(1)
    by (auto simp: exec_reachable_def exec_init_def)
  then have "exec_inv env vg u"
    using ex.inv_preserved reachable_inv[OF assms(1) reach] by blast
  then obtain js r where "u = Returned js r"
    using u(2) by (cases u) (auto simp: exec_inv_def exec_final_def)
  with u(1) show ?thesis
    using ex.reachable_run_bounded[of env vg "exec_start env vg" n c] exec_start_rank[OF assms(1)] assms
    by (auto simp: exec_init_def)
qed

theorem executor_terminates_witness: "\<exists>js r. (exec_step example_env example_vg)\<^sup>*\<^sup>* (exec_start example_env example_vg) (Returned js r)"
  using executor_terminates[OF example_run_ok, of 0 "exec_start example_env example_vg"] by simp

text \<open>
  C17. The books of the executor: at every await, each work order of the graph is pending, active or
  finished, and only one of these.
\<close>

theorem orders_partitioned:
  assumes "run_ok env vg" "exec_reachable env vg (Awaiting s)"
  shows "mset (sc_pending s) + mset (map task_id (sc_active s)) + mset (bm_keys (sc_terminal_event_ids s))
    = mset (map wo_id (vg_orders vg))"
proof -
  have "distinct (sc_ids s)" "set (sc_ids s) = set (map wo_id (vg_orders vg))"
    using reachable_awaiting(1)[OF assms] by (simp_all add: sched_inv_def books_ok_def)
  then have "mset (sc_ids s) = mset (map wo_id (vg_orders vg))"
    using set_eq_iff_mset_eq_distinct[of "sc_ids s" "map wo_id (vg_orders vg)"] run_ok_distinct[OF assms(1)] by blast
  then show ?thesis by (simp add: sc_ids_def add.assoc)
qed

theorem orders_partitioned_witness:
  "mset (sc_pending sched1) + mset (map task_id (sc_active sched1)) + mset (bm_keys (sc_terminal_event_ids sched1))
     = mset (map wo_id (vg_orders example_vg))"
  by (rule orders_partitioned[OF example_run_ok example_reach1])

text \<open>
  C18. Parallelism is bounded: at every await at most \<open>max_parallel\<close> futures are active, and a
  returned run reports a maximum within that limit.
\<close>

theorem parallelism_bounded:
  assumes "run_ok env vg" "exec_reachable env vg c"
  shows "case c of Awaiting s \<Rightarrow> length (sc_active s) \<le> max_parallel vg
    | Returned js (Inr run) \<Rightarrow> unat (ar_maximum_in_flight run) \<le> max_parallel vg | _ \<Rightarrow> True"
proof (cases c)
  case (Awaiting s)
  then show ?thesis using reachable_awaiting(2)[OF assms(1), of s] assms(2) by (simp add: limits_ok_def)
next
  case (Returned js r)
  have "unat (ar_maximum_in_flight run) \<le> max_parallel vg" if "exec_reachable env vg (Returned js (Inr run))" for run
    using reachable_run[OF assms(1) that] by (metis limits_ok_def)
  then show ?thesis
    using Returned assms(2) by (cases r) simp_all
qed simp

theorem parallelism_bounded_witness: "length (sc_active sched2) \<le> max_parallel example_vg"
  using parallelism_bounded[OF example_run_ok example_reach2] by simp

text \<open>
  C23. No attempt is dispatched before its dependencies delivered: when a dispatch is acknowledged, the
  journal already holds a completed hand-off of every dependency of its work order.
\<close>

theorem dispatch_follows_dependencies:
  assumes "run_ok env vg" "exec_reachable env vg c" "config_records c = ps @ r # qs" "sr_event r = AttemptDispatched d"
  shows "\<exists>order \<in> set (vg_orders vg). wo_id order = de_work_order_id d
    \<and> (\<forall>k \<in> set (wo_dependencies order). \<exists>h. handoff_at ps h \<and> ho_work_order_id h = k \<and> ho_outcome h = HandoffCompleted)"
proof -
  obtain root where wc: "well_caused root (vg_digest_sha256 vg) (ps @ r # qs)" and "dispatches_ok env vg (ps @ r # qs)"
    using reachable_journal[OF assms(1,2)] assms(3) by metis
  then obtain order where order: "order \<in> set (vg_orders vg)" "wo_id order = de_work_order_id d"
    "bm_keys (de_dependency_handoff_event_ids d) = wo_dependencies order"
    using assms(4) by (auto simp: dispatches_ok_def)
  have "\<exists>h. handoff_at ps h \<and> ho_work_order_id h = k \<and> ho_outcome h = HandoffCompleted" if k: "k \<in> set (wo_dependencies order)" for k
  proof -
    obtain e where "(k, e) \<in> set (de_dependency_handoff_event_ids d)"
      using k order(3)[symmetric] by (auto simp: bm_keys_def)
    then show ?thesis
      using dispatch_after_dependencies[OF wc, of "length ps" d k e] assms(4) by auto
  qed
  with order show ?thesis by blast
qed

theorem dispatch_follows_dependencies_witness:
  "\<exists>h. handoff_at [accepted_record, dispatched1, retained1] h \<and> ho_work_order_id h = WorkOrderId 1 \<and> ho_outcome h = HandoffCompleted"
  using dispatch_follows_dependencies[OF example_run_ok example_reach3, of "[accepted_record, dispatched1, retained1]" dispatched2 "[]"
      "attempt_event reviewer_ctx attempt2"]
  by (simp add: sched3_def dispatched2_def example_orders example_ids attempt_event_def reviewer_ctx_def)

text \<open>
  Retry discipline: an attempt with a parent attempt follows, as its causal parent, the retained
  failure of that attempt, which was reported without effect and with a receipt.
\<close>

theorem retries_follow_failures:
  assumes "run_ok env vg" "exec_reachable env vg c" "config_records c = ps @ r # qs" "sr_event r = AttemptDispatched d"
    "de_parent_attempt_id d = Some previous"
  shows "\<exists>fr \<in> set ps. \<exists>failure. sr_causal_parent r = Some (sr_id fr) \<and> is_retryable failure
    \<and> sr_event fr = AttemptFailed (de_work_order_id d) (de_execution_id d) previous (Worker failure) True"
proof -
  obtain root where "well_caused root (vg_digest_sha256 vg) (ps @ r # qs)"
    using reachable_journal[OF assms(1,2)] assms(3) by metis
  then show ?thesis
    using retry_after_failure[OF _ assms(4,5)] by metis
qed

theorem retries_follow_failures_witness:
  "\<exists>fr \<in> {accepted_record, dispatched1, failed1}. sr_event fr =
     AttemptFailed (WorkOrderId 1) (ExecutionId 2) (AttemptId 3) (Worker failure0) True"
  using retries_follow_failures[OF example_run_ok example_reach_retry, of "[accepted_record, dispatched1, failed1]" dispatched_retry
      "[]" "attempt_event example_ctx attempt_retry" "AttemptId 3"]
  by (simp add: sched1_retry_def dispatched_retry_def attempt_event_def attempt_retry_def example_ctx_def example_ids failed1_def)

text \<open>
  Attempts stay within their budgets: an order is dispatched at most as often as its budget
  allows, all orders together at most as often as the policy's total, and an order that may write
  its workspace at most once.
\<close>

theorem attempts_within_budget:
  assumes "run_ok env vg" "exec_reachable env vg c" "order \<in> set (vg_orders vg)"
  shows "dispatches (config_records c) (wo_id order) \<le> attempts_of order
    \<and> length (filter is_dispatch (config_records c)) \<le> unat (gl_max_total_attempts (gp_limits (vg_policy vg)))
    \<and> (wg_access (wo_workspace order) = Write \<longrightarrow> dispatches (config_records c) (wo_id order) \<le> 1)"
proof -
  let ?rs = "config_records c" and ?ids = "wo_id ` set (vg_orders vg)"
  have counts: "counts_ok vg ?rs"
    using reachable_journal[OF assms(1,2)] by blast
  have inj: "inj_on wo_id (set (vg_orders vg))" "distinct (vg_orders vg)"
    using run_ok_distinct[OF assms(1)] by (simp_all add: distinct_map)
  have "length (filter is_dispatch ?rs) = (\<Sum>w \<in> ?ids. dispatches ?rs w)"
    using counts by (intro dispatches_total) (auto simp: counts_ok_def)
  also have "\<dots> = (\<Sum>x \<in> set (vg_orders vg). dispatches ?rs (wo_id x))"
    using inj(1) by (simp add: sum.reindex)
  also have "\<dots> \<le> (\<Sum>x \<in> set (vg_orders vg). attempts_of x)"
    using counts by (intro sum_mono) (simp add: counts_ok_def)
  also have "\<dots> = sum_list (map attempts_of (vg_orders vg))"
    using inj(2) by (simp add: sum_list_distinct_conv_sum_set)
  also have "\<dots> \<le> unat (gl_max_total_attempts (gp_limits (vg_policy vg)))"
    using assms(1) by (simp add: run_ok_def valid_actor_graph_def within_budget_def Let_def)
  finally have "length (filter is_dispatch ?rs) \<le> unat (gl_max_total_attempts (gp_limits (vg_policy vg)))" .
  moreover have "dispatches ?rs (wo_id order) \<le> attempts_of order"
    using counts assms(3) by (simp add: counts_ok_def)
  moreover have "valid_order (vg_policy vg) order"
    using assms(1,3) by (simp add: run_ok_def valid_actor_graph_def Let_def)
  then have "wg_access (wo_workspace order) = Write \<longrightarrow> attempts_of order = 1"
    by (simp add: valid_order_def attempts_of_def)
  ultimately show ?thesis by auto
qed

theorem attempts_within_budget_witness: "dispatches (js_records final_js) (WorkOrderId 1) \<le> attempts_of implementer"
  using attempts_within_budget[OF example_run_ok example_reach4, of implementer] by (simp add: example_orders example_ids)

text \<open>
  The journal is causally ordered: every record after the first has a new identifier and points
  to an earlier record.
\<close>

theorem journal_causal:
  assumes "run_ok env vg" "exec_reachable env vg c" "config_records c = ps @ r # qs" "ps \<noteq> []"
  shows "sr_id r \<notin> sr_id ` set ps \<and> (\<exists>p \<in> set ps. sr_causal_parent r = Some (sr_id p))"
proof -
  obtain root where "well_caused root (vg_digest_sha256 vg) (ps @ r # qs)"
    using reachable_journal[OF assms(1,2)] assms(3) by metis
  then have "caused root (vg_digest_sha256 vg) ps r" by (rule well_caused_split)
  then show ?thesis using assms(4) by (auto simp: caused_def is_accepted_def)
qed

theorem journal_causal_witness: "sr_id dispatched1 \<notin> sr_id ` set [accepted_record]"
  using journal_causal[OF example_run_ok example_reach1, of "[accepted_record]" dispatched1 "[]"] by (simp add: sched1_def)

section \<open>Results of the executor\<close>

text \<open>
  C24. A returned run accounts for every work order: each has a terminal event and a hand-off or
  a failure, nothing else is reported, and the outcome is completed exactly when every order has a
  completed hand-off.
\<close>

theorem run_accounts_for_orders:
  assumes "run_ok env vg" "exec_reachable env vg (Returned js (Inr run))"
  shows "set (bm_keys (ar_terminal_event_ids run)) = wo_id ` set (vg_orders vg)
    \<and> set (bm_keys (ar_handoffs run)) \<union> set (bm_keys (ar_failures run)) = wo_id ` set (vg_orders vg)
    \<and> (ar_outcome run = GraphCompleted \<longleftrightarrow>
         (\<forall>order \<in> set (vg_orders vg). \<exists>h. bm_get (ar_handoffs run) (wo_id order) = Some h \<and> ho_outcome h = HandoffCompleted))"
proof (rule reachable_run[OF assms])
  fix s assume s: "sched_inv env vg s" "sc_pending s = []" "sc_active s = []" "ar_handoffs run = sc_handoffs s"
    "ar_failures run = sc_failures s" "ar_terminal_event_ids run = sc_terminal_event_ids s" "ar_outcome run = graph_outcome vg s"
  then have "set (bm_keys (sc_terminal_event_ids s)) = wo_id ` set (vg_orders vg)"
    "set (bm_keys (sc_terminal_event_ids s)) = set (bm_keys (sc_handoffs s)) \<union> set (bm_keys (sc_failures s))"
    by (auto simp: sched_inv_def books_ok_def sc_ids_def)
  then show ?thesis
    using s(4-7) graph_outcome_completed[OF assms(1) s(1-3)] by simp
qed

theorem run_accounts_for_orders_witness:
  "set (bm_keys (ar_terminal_event_ids final_run)) = wo_id ` set (vg_orders example_vg)"
  using run_accounts_for_orders[OF example_run_ok example_reach4] by simp

text \<open>
  C25. A reported hand-off is retained in the journal under its own event, passes the mechanical
  checks and stays within the budget of its work order; an incomplete one is reported as a
  failure as well.
\<close>

theorem handoffs_retained_and_checked:
  assumes "run_ok env vg" "exec_reachable env vg (Returned js (Inr run))" "bm_get (ar_handoffs run) k = Some h"
  shows "ho_work_order_id h = k \<and> handoff_at (js_records js) h
    \<and> bm_get (ar_failures run) k = (if ho_outcome h = HandoffCompleted then None else Some (IncompleteHandoff (ho_outcome h)))
    \<and> (\<exists>order \<in> set (vg_orders vg). wo_id order = k \<and> handoff_violations (handoff_completion h) = []
         \<and> usage_violation (ho_usage h) (wo_budget order) (gp_require_reported_token_usage (vg_policy vg)) = None)"
proof (rule reachable_run_records[OF assms(1,2)])
  fix s assume s: "sched_inv env vg s" "ar_handoffs run = sc_handoffs s" "ar_failures run = sc_failures s"
    "set (sc_records s) \<subseteq> set (js_records js)"
  then have "handoff_ok vg s k h"
    using assms(3) sched_inv_handoff by simp
  then show ?thesis
    using s(3) handoff_at_mono[OF _ s(4)] by (simp add: handoff_ok_def handoff_accepted_def)
qed

theorem handoffs_retained_and_checked_witness: "handoff_at (js_records final_js) handoff1"
  using handoffs_retained_and_checked[OF example_run_ok example_reach4, of "WorkOrderId 1" handoff1]
  by (simp add: final_run_def bm_get_def)

text \<open>
  A reported failure has a cause: an order is reported as blocked only for dependencies of its
  own that failed, and then it was never dispatched and its workers never ran; no cleanup is left
  unproven in a returned run.
\<close>

theorem blocked_never_dispatched:
  assumes "run_ok env vg" "exec_reachable env vg (Returned js (Inr run))" "bm_get (ar_failures run) k = Some f"
  shows "\<not> is_cleanup_unproven f
    \<and> (case f of DependencyFailed ds \<Rightarrow> ds \<noteq> [] \<and> list_all (bm_contains_key (ar_failures run)) ds
          \<and> (\<exists>order \<in> set (vg_orders vg). wo_id order = k \<and> set ds \<subseteq> set (wo_dependencies order))
          \<and> dispatches (js_records js) k = 0 \<and> bm_get (ar_handoffs run) k = None
        | _ \<Rightarrow> True)"
proof (rule reachable_run_records[OF assms(1,2)])
  fix s assume s: "sched_inv env vg s" "ar_handoffs run = sc_handoffs s" "ar_failures run = sc_failures s" "sc_cleanup_unproven s = []"
    "\<And>w. dispatches (js_records js) w = dispatches (sc_records s) w"
  then have "failure_ok vg s k f" "\<not> is_cleanup_unproven f"
    using assms(3) sched_inv_failure by auto
  with s show ?thesis by (cases f) (simp_all add: failure_ok_def list_all_iff)
qed

theorem blocked_never_dispatched_witness: "dispatches (js_records failed_js) (WorkOrderId 2) = 0"
  using blocked_never_dispatched[OF example_run_ok example_reach_failed, of "WorkOrderId 2" "DependencyFailed [WorkOrderId 1]"]
  by (simp add: failed_run_def bm_get_def)

text \<open>
  A suspended execution stopped for unproven cleanups: the error names the orders in question, the
  last record is the suspension, with the orders that were not started, and the journal holds
  the failures.
\<close>

theorem suspension_recorded:
  assumes "run_ok env vg" "exec_reachable env vg (Returned js (Inl (ExecCleanupUnproven ids e)))"
  shows "ids \<noteq> [] \<and> (\<exists>rs p pending terminals. js_records js = rs @ [\<lparr>sr_id = e, sr_causal_parent = Some p,
      sr_event = GraphSuspended ids pending terminals\<rparr>] \<and> list_all (\<lambda>w. dispatches (js_records js) w = 0) pending)
    \<and> list_all (\<lambda>w. \<exists>f event. is_cleanup_unproven f \<and> failure_at (js_records js) w f event) ids"
proof -
  obtain s p where s: "sched_inv env vg s" "ids = sc_cleanup_unproven s" "ids \<noteq> []"
    "js_records js = sc_records s @ [\<lparr>sr_id = e, sr_causal_parent = Some p,
       sr_event = GraphSuspended ids (sc_pending s) (sc_terminal_event_ids s)\<rparr>]"
    using reachable_inv[OF assms] by (auto simp: exec_inv_def returned_ok_def suspension_ok_def)
  have "\<exists>f event. is_cleanup_unproven f \<and> failure_at (js_records js) w f event" if "w \<in> set ids" for w
  proof -
    obtain f where f: "bm_get (sc_failures s) w = Some f" "is_cleanup_unproven f"
      using s(1,2) \<open>w \<in> set ids\<close> by (auto simp: sched_inv_def results_ok_def)
    then obtain event where "failure_at (sc_records s) w f event"
      using sched_inv_failure(1)[OF s(1) f(1)] by (cases f) (auto simp: failure_ok_def)
    then have "failure_at (js_records js) w f event"
      by (auto simp: failure_at_def s(4))
    with f(2) show ?thesis by blast
  qed
  moreover have "list_all (\<lambda>w. dispatches (js_records js) w = 0) (sc_pending s)"
    using s(1,4) by (simp add: sched_inv_def list_all_iff)
  ultimately show ?thesis
    using s(3,4) by (auto simp: list_all_iff)
qed

theorem suspension_recorded_witness: "\<exists>f event. is_cleanup_unproven f \<and> failure_at (js_records suspended_js) (WorkOrderId 1) f event"
  using suspension_recorded[OF example_run_ok example_reach_suspended] by simp

text \<open>
  An unproven cleanup stops new work: while one is outstanding, no step starts a pending order or
  adds a future; the executor only drains what already runs.
\<close>

theorem unproven_cleanup_drains:
  assumes "sc_cleanup_unproven s \<noteq> []" "exec_step env vg (Awaiting s) (Awaiting t)"
  shows "sc_pending t = sc_pending s \<and> sc_cleanup_unproven t \<noteq> [] \<and> length (sc_active t) \<le> length (sc_active s)"
  using assms(2)
proof cases
  case (poll i input)
  then show ?thesis using exec_poll_drains[OF assms(1)] by metis
qed

theorem unproven_cleanup_drains_witness: "sc_pending (sched1_cleanup\<lparr>sc_cleanup_unproven := [WorkOrderId 3]\<rparr>) = sc_pending sched1"
proof -
  let ?s = "sched1\<lparr>sc_cleanup_unproven := [WorkOrderId 3]\<rparr>" and ?t = "sched1_cleanup\<lparr>sc_cleanup_unproven := [WorkOrderId 3]\<rparr>"
  have "exec_poll example_env example_vg ?s 0 WorkerTimedOut = Awaiting ?t"
    by (simp add: exec_poll_def sched1_def sched1_cleanup_def)
  then have "exec_step example_env example_vg (Awaiting ?s) (Awaiting ?t)"
    using exec_step.poll[of 0 ?s WorkerTimedOut example_env example_vg] by (simp add: sched1_def)
  then show ?thesis using unproven_cleanup_drains[of ?s example_env example_vg ?t] by simp
qed

section \<open>Verification of dispatches\<close>

text \<open>
  C26. The verifier accepts what the executor dispatches: whenever a worker runs, the dispatch it was
  given verifies against the journal of the moment.
\<close>

theorem dispatches_verify:
  assumes "run_ok env vg" "exec_reachable env vg (Awaiting s)" "AwaitWorker ctx at \<in> set (sc_active s)"
  shows "\<exists>v. verify_dispatch (se_codec env) False (js_records (sc_js s)) (task_dispatch ctx at) = Some (Inr v)
    \<and> vs_dispatch_event_id v = at_dispatched at"
proof -
  have inv: "sched_inv env vg s" by (rule reachable_awaiting(1)[OF assms(1,2)])
  then have "task_ok env vg (sc_root s) (sc_js s) (AwaitWorker ctx at)"
    using assms(3) by (auto simp: sched_inv_def)
  moreover have "journal_inv env (sc_root s) (vg_digest_sha256 vg) (sc_js s)"
    using inv by (simp add: sched_inv_def)
  ultimately show ?thesis
    using task_dispatch_accepted[of env "sc_root s" vg "sc_js s" ctx at] by simp metis
qed

theorem dispatches_verify_witness:
  "\<exists>v. verify_dispatch example_codec False (js_records (sc_js sched3)) (task_dispatch reviewer_ctx attempt2) = Some (Inr v)
     \<and> vs_dispatch_event_id v = SchedulerEventId 10"
  using dispatches_verify[OF example_run_ok example_reach3, of reviewer_ctx attempt2]
  by (simp add: sched3_def attempt2_def[THEN arg_cong[where f = at_dispatched]])

text \<open>
  C28. The verifier answers every dispatch on every journal, without a panic, and is sound: what it
  accepts is the only retained dispatch of its attempt, attests its work order, carries retained
  completed hand-offs of exactly its dependencies, and its whole history back to the accepted
  graph is retained in causal order.
\<close>

theorem verifier_sound:
  "case verify_dispatch cd poisoned rs dispatch of None \<Rightarrow> False
   | Some (Inl e) \<Rightarrow> True
   | Some (Inr v) \<Rightarrow> \<not> poisoned \<and> dispatch_justified cd rs dispatch (vs_dispatch_event_id v)"
proof -
  have "verify_dispatch cd poisoned rs dispatch \<noteq> None"
    using verify_dispatch_shape_total[of cd dispatch] verify_records_total[of rs dispatch]
    by (auto simp: verify_dispatch_def snapshot_def split: option.splits sum.splits)
  moreover have "\<not> poisoned" if "verify_dispatch cd poisoned rs dispatch = Some (Inr v)" for v
    using that by (auto simp: verify_dispatch_def snapshot_def split: option.splits sum.splits)
  ultimately show ?thesis
    using verify_dispatch_justified[of cd poisoned rs dispatch] by (auto split: option.split sum.split)
qed

section \<open>Refinement\<close>

text \<open>
  C6. The executor refines the abstract scheduler: every reachable configuration is the image of an
  abstract run that starts orders with completed dependencies while slots are free, finishes running
  orders, and blocks waiting orders with failed dependencies.
\<close>

theorem executor_refines_scheduler:
  assumes "run_ok env vg" "exec_reachable env vg c" "abs_config c = Some a"
  shows "\<exists>a0. spec_init vg a0 \<and> (spec_step vg)\<^sup>*\<^sup>* a0 a \<and> spec_inv vg a"
proof -
  obtain a0 where a0: "spec_init vg a0" "(spec_step vg)\<^sup>*\<^sup>* a0 a"
    using exec_reachable_refines[OF assms] by blast
  then show ?thesis
    using sp.inv_reachable[of vg a0 a] run_ok_distinct[OF assms(1)] by blast
qed

theorem executor_refines_scheduler_witness: "spec_inv example_vg (abs_run final_run)"
  using executor_refines_scheduler[OF example_run_ok example_reach4, of "abs_run final_run"] by auto

end
